(* ===== verification/Sniper_Prelude.thy ===== *)
theory Sniper_Prelude
  imports Main "HOL-Library.Word"
begin

text \<open>
  Shared vocabulary of the development: the machine integers of the simulator, the error
  values that stand for its aborts, the combinators that thread them, and byte buffers
  (\<open>memcpy\<close> in and out of an array).

  \<^item> \<open>sim_error\<close>: what a \<open>LOG_ASSERT_ERROR\<close>, a \<open>LOG_PRINT_ERROR\<close>, a C \<open>assert\<close> or an access
    outside an array ends in. The simulator stops there, so an operation that can fail
    returns \<open>sim_error + 'a\<close> and \<open>bindE\<close> skips the rest of the function.
  \<^item> \<open>buf_slice\<close> and \<open>overwrite\<close>: the reads and writes of a byte array at an offset.
  \<^item> \<open>foldE\<close>: a loop over a list of indices or objects whose body can fail.
\<close>

named_theorems err_simps \<open>inversion of the error combinators\<close>
named_theorems buf_simps \<open>byte buffers\<close>

type_synonym u8 = "8 word"
type_synonym u32 = "32 word"
type_synonym u64 = "64 word"
type_synonym bytes = "u8 list"

datatype sim_error =
    LogAssert string       \<comment> \<open>a failed \<open>LOG_ASSERT_ERROR\<close>\<close>
  | LogError string        \<comment> \<open>a \<open>LOG_PRINT_ERROR\<close>\<close>
  | CAssert string         \<comment> \<open>a failed \<open>assert\<close>\<close>
  | OutOfBounds            \<comment> \<open>an access outside an array\<close>
  | NullPointer            \<comment> \<open>a use of a null pointer\<close>
  | OutOfFuel              \<comment> \<open>the call depth exceeds the fuel of the model\<close>
  | NotANumber             \<comment> \<open>a result that is no finite number, or a number outside its type\<close>

type_synonym 'a result = "sim_error + 'a"

section \<open>Error combinators\<close>

fun bindE :: "'a result \<Rightarrow> ('a \<Rightarrow> 'b result) \<Rightarrow> 'b result" where
  "bindE (Inl e) f = Inl e"
| "bindE (Inr x) f = f x"

definition checkE :: "sim_error \<Rightarrow> bool \<Rightarrow> unit result" where
  "checkE e b = (if b then Inr () else Inl e)"

fun foldE :: "('a \<Rightarrow> 's \<Rightarrow> 's result) \<Rightarrow> 'a list \<Rightarrow> 's \<Rightarrow> 's result" where
  "foldE f [] s = Inr s"
| "foldE f (x # xs) s = bindE (f x s) (foldE f xs)"

definition is_ok :: "'a result \<Rightarrow> bool" where
  "is_ok r = (case r of Inl _ \<Rightarrow> False | Inr _ \<Rightarrow> True)"

lemma is_ok_simps [simp]: "is_ok (Inr x)" "\<not> is_ok (Inl e)"
  by (simp_all add: is_ok_def)

lemma is_ok_iff: "is_ok r \<longleftrightarrow> (\<exists>x. r = Inr x)"
  by (cases r) auto

lemma bindE_Inr_iff [err_simps]: "bindE m f = Inr y \<longleftrightarrow> (\<exists>x. m = Inr x \<and> f x = Inr y)"
  by (cases m) auto

lemma bindE_Inl_iff [err_simps]:
  "bindE m f = Inl e \<longleftrightarrow> m = Inl e \<or> (\<exists>x. m = Inr x \<and> f x = Inl e)"
  by (cases m) auto

lemma bindE_return [simp]: "bindE m Inr = m"
  by (cases m) auto

lemma bindE_assoc: "bindE (bindE m f) g = bindE m (\<lambda>x. bindE (f x) g)"
  by (cases m) auto

lemma bindE_cong [fundef_cong]:
  "m = m' \<Longrightarrow> (\<And>x. m' = Inr x \<Longrightarrow> f x = f' x) \<Longrightarrow> bindE m f = bindE m' f'"
  by (cases m') auto

lemma checkE_True [simp]: "checkE e True = Inr ()"
  and checkE_False [simp]: "checkE e False = Inl e"
  by (simp_all add: checkE_def)

lemma checkE_Inr_iff [err_simps]: "checkE e b = Inr u \<longleftrightarrow> b"
  by (simp add: checkE_def)

lemma checkE_Inl_iff [err_simps]: "checkE e b = Inl e' \<longleftrightarrow> \<not> b \<and> e' = e"
  by (auto simp: checkE_def)

lemma foldE_append: "foldE f (xs @ ys) s = bindE (foldE f xs s) (foldE f ys)"
  proof (induction xs arbitrary: s)
  case (Cons x xs)
  show ?case by (cases "f x s") (simp_all add: Cons)
qed simp

text \<open>An invariant of the body is an invariant of the loop.\<close>

lemma foldE_invariant:
  assumes "foldE f xs s = Inr t" and "I s"
    and "\<And>x s t. x \<in> set xs \<Longrightarrow> I s \<Longrightarrow> f x s = Inr t \<Longrightarrow> I t"
  shows "I t"
  using assms
proof (induction xs arbitrary: s)
  case Nil
  then show ?case by simp
next
  case (Cons x xs)
  from Cons.prems(1) obtain u where u: "f x s = Inr u" "foldE f xs u = Inr t"
    by (auto simp: err_simps)
  have "I u" using Cons.prems(3)[of x s u] Cons.prems(2) u by simp
  then show ?case using Cons.IH[of u] u Cons.prems(3) by (metis list.set_intros(2))
qed

text \<open>A body that cannot fail under an invariant gives a loop that cannot fail.\<close>

lemma foldE_total:
  assumes "I s"
    and "\<And>x s. x \<in> set xs \<Longrightarrow> I s \<Longrightarrow> \<exists>t. f x s = Inr t \<and> I t"
  shows "\<exists>t. foldE f xs s = Inr t \<and> I t"
  using assms
proof (induction xs arbitrary: s)
  case Nil
  then show ?case by simp
next
  case (Cons x xs)
  from Cons.prems obtain u where u: "f x s = Inr u" "I u"
    by (meson list.set_intros(1))
  moreover obtain t where "foldE f xs u = Inr t" "I t"
    using Cons.IH[OF u(2)] Cons.prems(2) by auto
  ultimately show ?case by auto
qed

section \<open>Byte buffers\<close>

definition buf_slice :: "nat \<Rightarrow> nat \<Rightarrow> 'a list \<Rightarrow> 'a list" where
  "buf_slice off n buf = take n (drop off buf)"

definition overwrite :: "nat \<Rightarrow> 'a list \<Rightarrow> 'a list \<Rightarrow> 'a list" where
  "overwrite off src buf = take off buf @ src @ drop (off + length src) buf"

lemma length_buf_slice [buf_simps]: "off + n \<le> length buf \<Longrightarrow> length (buf_slice off n buf) = n"
  by (simp add: buf_slice_def)

lemma nth_buf_slice [buf_simps]:
  "off + n \<le> length buf \<Longrightarrow> i < n \<Longrightarrow> buf_slice off n buf ! i = buf ! (off + i)"
  by (simp add: buf_slice_def)

lemma length_overwrite [buf_simps]:
  "off + length src \<le> length buf \<Longrightarrow> length (overwrite off src buf) = length buf"
  by (simp add: overwrite_def)

lemma nth_overwrite [buf_simps]:
  assumes "off + length src \<le> length buf" "i < length buf"
  shows "overwrite off src buf ! i =
    (if off \<le> i \<and> i < off + length src then src ! (i - off) else buf ! i)"
  using assms by (auto simp: overwrite_def nth_append)

lemma buf_slice_overwrite_same [buf_simps]:
  assumes "off + length src \<le> length buf" "n = length src"
  shows "buf_slice off n (overwrite off src buf) = src"
  using assms by (simp add: buf_slice_def overwrite_def)

lemma buf_slice_overwrite_disjoint [buf_simps]:
  assumes "off + length src \<le> length buf" "off' + n \<le> length buf"
    and "off' + n \<le> off \<or> off + length src \<le> off'"
  shows "buf_slice off' n (overwrite off src buf) = buf_slice off' n buf"
  using assms by (intro nth_equalityI) (auto simp: buf_simps)

text \<open>Line \<open>l\<close> of an array of \<open>n\<close> lines of \<open>k\<close> elements lies inside the array.\<close>

lemma line_in_array:
  fixes l k n :: nat
  assumes "l < n" "off + b \<le> k" shows "l * k + off + b \<le> n * k"
proof -
  have "l * k + off + b \<le> l * k + k" using assms by simp
  also have "\<dots> = Suc l * k" by simp
  also have "\<dots> \<le> n * k" using assms(1) by (intro mult_le_mono1) simp
  finally show ?thesis .
qed

lemma lines_disjoint:
  fixes l m k :: nat
  assumes "l \<noteq> m" "off + b \<le> k" "off' + b' \<le> k"
  shows "l * k + off + b \<le> m * k + off' \<or> m * k + off' + b' \<le> l * k + off"
proof (cases "l < m")
  case True
  then have "Suc l * k \<le> m * k" by (intro mult_le_mono1) simp
  then show ?thesis using assms by simp
next
  case False
  then have "Suc m * k \<le> l * k" using assms by (intro mult_le_mono1) simp
  then show ?thesis using assms by simp
qed

section \<open>Addresses\<close>

text \<open>The byte addresses \<open>a, a + 1, \<dots>, a + n - 1\<close> as the loops compute them: 64-bit, wrapping.\<close>

definition addr_range :: "u64 \<Rightarrow> nat \<Rightarrow> u64 list" where
  "addr_range a n = map (\<lambda>i. a + of_nat i) [0..<n]"

lemma length_addr_range [simp]: "length (addr_range a n) = n"
  by (simp add: addr_range_def)

lemma nth_addr_range [simp]: "i < n \<Longrightarrow> addr_range a n ! i = a + of_nat i"
  by (simp add: addr_range_def)

lemma addr_range_Suc: "addr_range a (Suc n) = addr_range a n @ [a + of_nat n]"
  by (simp add: addr_range_def)

lemma set_addr_range: "x \<in> set (addr_range a n) \<longleftrightarrow> (\<exists>i<n. x = a + of_nat i)"
  by (auto simp: addr_range_def)

lemma of_nat_eq_u64 [simp]:
  "i < 2 ^ 64 \<Longrightarrow> j < 2 ^ 64 \<Longrightarrow> (of_nat i :: u64) = of_nat j \<longleftrightarrow> i = j"
  by (simp add: word_of_nat_eq_iff take_bit_nat_def)

lemma distinct_addr_range: "n \<le> 2 ^ 64 \<Longrightarrow> distinct (addr_range a n)"
  unfolding addr_range_def distinct_map
  by (auto intro!: inj_onI)

section \<open>Logarithms\<close>

text \<open>\<open>(int) log2(n)\<close> and \<open>floorLog2(n)\<close> of a positive integer.\<close>

fun ilog2 :: "nat \<Rightarrow> nat" where
  "ilog2 n = (if n < 2 then 0 else Suc (ilog2 (n div 2)))"

declare ilog2.simps [simp del]

lemma ilog2_pos: "0 < ilog2 n \<longleftrightarrow> 2 \<le> n"
  by (subst ilog2.simps) auto

lemma ilog2_less: "0 < n \<Longrightarrow> ilog2 n < n"
proof (induction n rule: ilog2.induct)
  case (1 n)
  show ?case
  proof (cases "n < 2")
    case False
    then have "ilog2 (n div 2) < n div 2" using 1 by simp
    then show ?thesis using False by (subst ilog2.simps) simp
  qed (use 1 in \<open>simp add: ilog2.simps\<close>)
qed

lemma ilog2_power [simp]: "ilog2 (2 ^ k) = k"
  by (induction k) (simp_all add: ilog2.simps)

end
