(* ===== verification/Approx_Adder.thy ===== *)
theory Approx_Adder
  imports Sniper_Prelude
begin

unbundle bit_operations_syntax

text \<open>
  The approximate arithmetic of \<open>src/common/system/magic_server.cc\<close>: the carry look-ahead
  adder with a bounded carry window (\<open>rapcla\<close>) and the wrapper of the approximate 16-bit
  multipliers (\<open>appmul\<close>). The kernels under \<open>src/test\<close> hold copies of both.

  The C expression \<open>1 << i\<close> shifts a 32-bit \<open>int\<close>; only \<open>i \<le> 30\<close> has a defined value, and
  \<open>rapcla\<close> evaluates it up to \<open>i = 62\<close>. The model takes the value of that expression,
  converted to \<open>UInt64\<close>, as the parameter \<open>shl\<close>: \<open>shl_defined\<close> is what the language promises,
  \<open>shl_wide\<close> is the shift of a 64-bit one, which the bit arrays of 63 entries call for.
\<close>

section \<open>The adder\<close>

definition BIT_LENGTH :: nat where "BIT_LENGTH = 64"

definition shl_defined :: "(nat \<Rightarrow> u64) \<Rightarrow> bool" where
  "shl_defined shl \<longleftrightarrow> (\<forall>i<31. shl i = push_bit i 1)"

definition shl_wide :: "nat \<Rightarrow> u64" where
  "shl_wide i = push_bit i 1"

text \<open>What an x86 shifter computes: the count is taken modulo 32, and the \<open>int\<close> result is
  sign-extended to 64 bits.\<close>

definition shl_x86 :: "nat \<Rightarrow> u64" where
  "shl_x86 i = scast (push_bit (i mod 32) 1 :: u32)"

definition rap_bit :: "(nat \<Rightarrow> u64) \<Rightarrow> u64 \<Rightarrow> nat \<Rightarrow> bool" where
  "rap_bit shl x i = (shl i AND x = shl i)"

text \<open>\<open>int st = i+1-w; if(st<0) st=0;\<close> with \<open>w\<close> unsigned 64-bit: the difference wraps and is
  then truncated to an \<open>int\<close>.\<close>

definition rap_start :: "nat \<Rightarrow> u64 \<Rightarrow> nat" where
  "rap_start i w = nat (sint (ucast (of_nat (i + 1) - w :: u64) :: u32))"

definition rap_prod :: "(nat \<Rightarrow> bool) \<Rightarrow> (nat \<Rightarrow> bool) \<Rightarrow> bool \<Rightarrow> nat \<Rightarrow> nat \<Rightarrow> bool" where
  "rap_prod P G c0 i j =
     (let prod = fold (\<lambda>z p. p \<and> P z) [j..<i] True
      in if j = 0 then prod \<and> c0 else prod \<and> G (j - 1))"

definition rap_sum :: "(nat \<Rightarrow> bool) \<Rightarrow> (nat \<Rightarrow> bool) \<Rightarrow> bool \<Rightarrow> nat \<Rightarrow> nat \<Rightarrow> bool" where
  "rap_sum P G c0 st i = fold (\<lambda>j s. s \<or> rap_prod P G c0 i j) [st..<i + 1] False"

definition rap_carries :: "(nat \<Rightarrow> bool) \<Rightarrow> (nat \<Rightarrow> bool) \<Rightarrow> u64 \<Rightarrow> bool list" where
  "rap_carries P G w =
     fold (\<lambda>i C. C[i := rap_sum P G (C ! 0) (rap_start i w) i])
       [0..<BIT_LENGTH - 1] (replicate (BIT_LENGTH - 1) False)"

definition rapcla :: "(nat \<Rightarrow> u64) \<Rightarrow> u64 \<Rightarrow> u64 \<Rightarrow> u64 \<Rightarrow> u64" where
  "rapcla shl a b w =
     (let A = rap_bit shl a; B = rap_bit shl b;
          G = (\<lambda>i. A i \<and> B i); P = (\<lambda>i. A i \<noteq> B i);
          C = rap_carries P G w;
          S = (\<lambda>i. (A i \<noteq> B i) \<noteq> C ! i)
      in fold (\<lambda>i s. if S i then s OR shl i else s) [0..<BIT_LENGTH - 1] 0)"

section \<open>The carries the loops compute\<close>

definition carry_from :: "(nat \<Rightarrow> bool) \<Rightarrow> (nat \<Rightarrow> bool) \<Rightarrow> nat \<Rightarrow> nat \<Rightarrow> bool" where
  "carry_from P G lo i \<longleftrightarrow> (\<exists>g<i. lo \<le> g \<and> G g \<and> (\<forall>z. g < z \<and> z < i \<longrightarrow> P z))"

lemma fold_conj: "fold (\<lambda>z p. p \<and> P z) zs b \<longleftrightarrow> b \<and> (\<forall>z\<in>set zs. P z)"
  by (induction zs arbitrary: b) auto

lemma fold_disj: "fold (\<lambda>z p. p \<or> P z) zs b \<longleftrightarrow> b \<or> (\<exists>z\<in>set zs. P z)"
  by (induction zs arbitrary: b) auto

lemma rap_sum_iff: "rap_sum P G False st i \<longleftrightarrow> carry_from P G (st - 1) i"
proof
  assume "rap_sum P G False st i"
  then obtain j where j: "st \<le> j" "j \<le> i" "j \<noteq> 0" "G (j - 1)" "\<forall>z\<in>{j..<i}. P z"
    by (auto simp: rap_sum_def fold_disj rap_prod_def fold_conj Let_def split: if_splits)
  then show "carry_from P G (st - 1) i"
    unfolding carry_from_def by (intro exI[of _ "j - 1"]) auto
next
  assume "carry_from P G (st - 1) i"
  then obtain g where g: "g < i" "st - 1 \<le> g" "G g" "\<forall>z. g < z \<and> z < i \<longrightarrow> P z"
    by (auto simp: carry_from_def)
  then have "st \<le> Suc g" "Suc g < i + 1" "rap_prod P G False i (Suc g)"
    by (auto simp: rap_prod_def fold_conj Let_def)
  then show "rap_sum P G False st i"
    unfolding rap_sum_def fold_disj by (metis atLeastLessThan_iff set_upt)
qed

lemma carry_from_0 [simp]: "\<not> carry_from P G lo 0"
  by (simp add: carry_from_def)

lemma fold_update_carry:
  assumes "n \<le> length C" "\<not> C ! 0" "0 < length C"
  shows "fold (\<lambda>i C. C[i := rap_sum P G (C ! 0) (f i) i]) [0..<n] C
    = map (\<lambda>i. carry_from P G (f i - 1) i) [0..<n] @ drop n C"
  using assms(1)
proof (induction n)
  case (Suc n)
  let ?D = "map (\<lambda>i. carry_from P G (f i - 1) i) [0..<n] @ drop n C"
  have z: "\<not> ?D ! 0" using assms(2,3) by (cases n) (simp_all add: nth_append del: upt_Suc)
  have d: "drop n C = C ! n # drop (Suc n) C"
    using Suc.prems by (intro Cons_nth_drop_Suc[symmetric]) simp
  have "fold (\<lambda>i C. C[i := rap_sum P G (C ! 0) (f i) i]) [0..<Suc n] C
      = ?D[n := rap_sum P G (?D ! 0) (f n) n]"
    using Suc by simp
  also have "\<dots> = ?D[n := carry_from P G (f n - 1) n]"
    using z rap_sum_iff[of P G "f n" n] by simp
  also have "\<dots> = map (\<lambda>i. carry_from P G (f i - 1) i) [0..<Suc n] @ drop (Suc n) C"
    by (subst d) (simp add: list_update_append)
  finally show ?case .
qed simp

lemma rap_carries_nth:
  "i < 63 \<Longrightarrow> rap_carries P G w ! i = carry_from P G (rap_start i w - 1) i"
  unfolding rap_carries_def BIT_LENGTH_def by (subst fold_update_carry) simp_all

lemma ucast_of_int_32: "(ucast (of_int k :: u64) :: u32) = of_int k"
  by (rule bit_word_eqI) (simp add: bit_ucast_iff bit_word_of_int_iff)

lemma len_u32: "LENGTH(32) - Suc 0 = 31"
  by simp

lemma rap_start_eq:
  assumes "i < 63" "unat w < 2 ^ 31"
  shows "rap_start i w = i + 1 - unat w"
proof -
  let ?k = "int (i + 1) - int (unat w)"
  have k: "of_nat (i + 1) - w = (of_int ?k :: u64)"
    by simp
  have "sint (ucast (of_nat (i + 1) - w :: u64) :: u32) = signed_take_bit 31 ?k"
    unfolding k
    by (simp only: ucast_of_int_32 signed_of_int len_u32 of_int_eq_id id_apply)
  also have "\<dots> = ?k"
  proof (rule signed_take_bit_int_eq_self)
    have "int (unat w) < 2 ^ 31" using assms(2) by (metis of_nat_less_iff of_nat_numeral of_nat_power)
    then show "- (2 ^ 31) \<le> ?k" by linarith
    have "?k \<le> int (i + 1)" by linarith
    also have "\<dots> < 2 ^ 31" using assms(1) by simp
    finally show "?k < 2 ^ 31" .
  qed
  finally show ?thesis unfolding rap_start_def by (simp only: nat_minus_as_int)
qed

section \<open>Numbers as bit sequences\<close>

definition bval :: "(nat \<Rightarrow> bool) \<Rightarrow> nat \<Rightarrow> nat" where
  "bval f n = (\<Sum>i<n. of_bool (f i) * 2 ^ i)"

lemma bval_0 [simp]: "bval f 0 = 0"
  and bval_Suc: "bval f (Suc n) = bval f n + of_bool (f n) * 2 ^ n"
  by (simp_all add: bval_def)

lemma bval_cong: "(\<And>i. i < n \<Longrightarrow> f i = g i) \<Longrightarrow> bval f n = bval g n"
  by (simp add: bval_def)

lemma bval_bit: "bval (bit x) n = take_bit n (x :: nat)"
proof (induction n)
  case (Suc n)
  show ?case
    by (simp add: bval_Suc Suc take_bit_Suc_from_most)
qed simp

definition maj :: "bool \<Rightarrow> bool \<Rightarrow> bool \<Rightarrow> bool" where
  "maj a b c \<longleftrightarrow> (a \<and> b) \<or> (a \<noteq> b \<and> c)"

text \<open>
  One column of the addition, for carries that are never invented: the sum never exceeds
  the exact one, and equals it when no carry is dropped either.
\<close>

lemma column_le:
  assumes "\<And>i. i < n \<Longrightarrow> c (Suc i) \<Longrightarrow> maj (A i) (B i) (c i)" and "\<not> c 0"
  shows "bval (\<lambda>i. (A i \<noteq> B i) \<noteq> c i) n + of_bool (c n) * 2 ^ n \<le> bval A n + bval B n"
  using assms
proof (induction n)
  case (Suc n)
  then have "bval (\<lambda>i. (A i \<noteq> B i) \<noteq> c i) n + of_bool (c n) * 2 ^ n \<le> bval A n + bval B n"
    by simp
  moreover have "c (Suc n) \<longrightarrow> maj (A n) (B n) (c n)" using Suc.prems(1) by simp
  ultimately show ?case
    by (cases "A n"; cases "B n"; cases "c n"; cases "c (Suc n)") (auto simp: bval_Suc maj_def)
qed simp

lemma column_eq:
  assumes "\<And>i. i < n \<Longrightarrow> c (Suc i) = maj (A i) (B i) (c i)" and "\<not> c 0"
  shows "bval (\<lambda>i. (A i \<noteq> B i) \<noteq> c i) n + of_bool (c n) * 2 ^ n = bval A n + bval B n"
  using assms
proof (induction n)
  case (Suc n)
  then have "bval (\<lambda>i. (A i \<noteq> B i) \<noteq> c i) n + of_bool (c n) * 2 ^ n = bval A n + bval B n"
    by simp
  moreover have "c (Suc n) = maj (A n) (B n) (c n)" using Suc.prems(1) by simp
  ultimately show ?case
    by (cases "A n"; cases "B n"; cases "c n"; cases "c (Suc n)") (auto simp: bval_Suc maj_def)
qed simp

text \<open>Carries of a window follow from a majority; unbounded carries are exactly that.\<close>

lemma carry_from_Suc:
  "carry_from P G lo (Suc i) \<longleftrightarrow> (lo \<le> i \<and> G i) \<or> (P i \<and> carry_from P G lo i)"
proof
  assume "carry_from P G lo (Suc i)"
  then obtain g where g: "g < Suc i" "lo \<le> g" "G g" "\<forall>z. g < z \<and> z < Suc i \<longrightarrow> P z"
    by (auto simp: carry_from_def)
  show "(lo \<le> i \<and> G i) \<or> (P i \<and> carry_from P G lo i)"
  proof (cases "g = i")
    case False
    with g have "P i" "g < i" by auto
    with g show ?thesis by (auto simp: carry_from_def)
  qed (use g in auto)
next
  assume "(lo \<le> i \<and> G i) \<or> (P i \<and> carry_from P G lo i)"
  then show "carry_from P G lo (Suc i)"
    unfolding carry_from_def by (metis less_Suc_eq not_less_eq)
qed

lemma carry_from_mono: "lo' \<le> lo \<Longrightarrow> carry_from P G lo i \<Longrightarrow> carry_from P G lo' i"
  by (auto simp: carry_from_def)

section \<open>What the adder returns\<close>

lemma bit_shl_wide: "i < 64 \<Longrightarrow> bit (shl_wide i) k \<longleftrightarrow> k = i"
  by (auto simp: shl_wide_def bit_exp_iff)

lemma rap_bit_wide [simp]: "i < 64 \<Longrightarrow> rap_bit shl_wide x i = bit x i"
proof -
  assume i: "i < 64"
  have "(shl_wide i AND x = shl_wide i) \<longleftrightarrow> (\<forall>k<64. (k = i \<and> bit x k) = (k = i))"
    using i by (auto simp: bit_eq_iff bit_and_iff bit_shl_wide)
  then show ?thesis using i by (auto simp: rap_bit_def)
qed

lemma fold_or_wide:
  "n \<le> 64 \<Longrightarrow> bit (fold (\<lambda>i s. if S i then s OR shl_wide i else s) [0..<n] 0) k
    \<longleftrightarrow> k < n \<and> S k"
proof (induction n)
  case (Suc n)
  then have n: "n < 64" by simp
  show ?case using Suc
    by (auto simp: bit_or_iff bit_shl_wide[OF n] less_Suc_eq)
qed simp

lemma unat_bits: "(\<And>k. bit (w :: u64) k \<longleftrightarrow> k < n \<and> S k) \<Longrightarrow> n \<le> 64 \<Longrightarrow> unat w = bval S n"
proof -
  assume b: "\<And>k. bit w k \<longleftrightarrow> k < n \<and> S k" and n: "n \<le> 64"
  have "unat w = bval (bit (unat w)) 64"
    using unsigned_less[of w, where 'a = nat] by (simp add: bval_bit take_bit_nat_def)
  also have "\<dots> = bval (\<lambda>k. k < n \<and> S k) 64" by (rule bval_cong) (simp add: bit_unsigned_iff b)
  also have "\<dots> = bval S n" unfolding bval_def using n
    by (intro sum.mono_neutral_cong_right) auto
  finally show ?thesis .
qed

lemma bval_word: "n \<le> 64 \<Longrightarrow> bval (bit (w :: u64)) n = take_bit n (unat w)"
  by (subst bval_bit[symmetric]) (auto intro!: bval_cong simp: bit_unsigned_iff)

definition window_carry :: "u64 \<Rightarrow> u64 \<Rightarrow> nat \<Rightarrow> nat \<Rightarrow> bool" where
  "window_carry a b w i =
     carry_from (\<lambda>i. bit a i \<noteq> bit b i) (\<lambda>i. bit a i \<and> bit b i) (i - w) i"

lemma unat_rapcla_wide:
  assumes "unat w < 2 ^ 31"
  shows "unat (rapcla shl_wide a b w)
    = bval (\<lambda>i. (bit a i \<noteq> bit b i) \<noteq> window_carry a b (unat w) i) 63"
proof (rule unat_bits)
  fix k
  have c [simp]: "rap_carries (\<lambda>i. rap_bit shl_wide a i \<noteq> rap_bit shl_wide b i)
      (\<lambda>i. rap_bit shl_wide a i \<and> rap_bit shl_wide b i) w ! i = window_carry a b (unat w) i"
    if "i < 63" for i
    using that assms
    by (auto simp: rap_carries_nth rap_start_eq window_carry_def carry_from_def)
  have n63: "(63::nat) \<le> 64" by simp
  let ?S = "\<lambda>i. (rap_bit shl_wide a i \<noteq> rap_bit shl_wide b i) \<noteq>
    rap_carries (\<lambda>i. rap_bit shl_wide a i \<noteq> rap_bit shl_wide b i)
      (\<lambda>i. rap_bit shl_wide a i \<and> rap_bit shl_wide b i) w ! i"
  have r: "rapcla shl_wide a b w
      = fold (\<lambda>i s. if ?S i then s OR shl_wide i else s) [0..<63] 0"
    unfolding rapcla_def BIT_LENGTH_def Let_def by simp
  show "bit (rapcla shl_wide a b w) k \<longleftrightarrow>
      k < 63 \<and> ((bit a k \<noteq> bit b k) \<noteq> window_carry a b (unat w) k)"
    unfolding r fold_or_wide[OF n63] using c[of k] rap_bit_wide[of k]
    by (cases "k < 63") (simp_all del: c)
qed simp

lemma window_carry_step:
  assumes "window_carry a b w (Suc i)"
  shows "maj (bit a i) (bit b i) (window_carry a b w i)"
  using assms carry_from_mono[of "i - w" "Suc i - w"]
  by (auto simp: window_carry_def carry_from_Suc maj_def)

lemma window_carry_full:
  assumes "\<And>g. g < i \<Longrightarrow> bit a g \<and> bit b g \<Longrightarrow> (\<forall>z. g < z \<and> z < i \<longrightarrow> bit a z \<noteq> bit b z) \<Longrightarrow> i - w \<le> g"
  shows "window_carry a b w i
    = carry_from (\<lambda>i. bit a i \<noteq> bit b i) (\<lambda>i. bit a i \<and> bit b i) 0 i"
  using assms by (auto simp: window_carry_def carry_from_def)

lemma bval_lt: "bval f n < 2 ^ n"
  by (induction n) (auto simp: bval_Suc)

text \<open>With no dropped carry the result is the sum modulo \<open>2 ^ 63\<close>.\<close>

lemma rapcla_no_drop:
  assumes w: "unat w < 2 ^ 31"
    and full: "\<And>i. i \<le> 63 \<Longrightarrow> window_carry a b (unat w) i
      = carry_from (\<lambda>i. bit a i \<noteq> bit b i) (\<lambda>i. bit a i \<and> bit b i) 0 i"
  shows "unat (rapcla shl_wide a b w) = (unat a + unat b) mod 2 ^ 63"
proof -
  let ?c = "carry_from (\<lambda>i. bit a i \<noteq> bit b i) (\<lambda>i. bit a i \<and> bit b i) 0"
  let ?s = "bval (\<lambda>i. (bit a i \<noteq> bit b i) \<noteq> ?c i) 63"
  have "unat (rapcla shl_wide a b w) = ?s"
    unfolding unat_rapcla_wide[OF w] by (rule bval_cong) (simp add: full)
  moreover have "?s + of_bool (?c 63) * 2 ^ 63 = bval (bit a) 63 + bval (bit b) 63"
    by (rule column_eq) (auto simp: carry_from_Suc maj_def)
  moreover have "?s = (?s + of_bool (?c 63) * 2 ^ 63) mod 2 ^ 63"
    using bval_lt[of "\<lambda>i. (bit a i \<noteq> bit b i) \<noteq> ?c i" 63] by simp
  ultimately show ?thesis
    by (simp add: bval_word take_bit_eq_mod mod_add_eq)
qed

lemma bit_unat_small:
  assumes "unat (a :: u64) < 2 ^ k" "bit a i" shows "i < k"
proof -
  have "bit (unat a) i"
    using assms(2) bit_imp_le_length[OF assms(2)] by (simp add: bit_unsigned_iff)
  moreover have "take_bit k (unat a) = unat a"
    using assms(1) by (simp add: take_bit_nat_def)
  ultimately show ?thesis by (metis bit_take_bit_iff)
qed

section \<open>Properties of the adder\<close>

lemma rapcla_full_window:
  assumes "63 \<le> unat w" "unat w < 2 ^ 31"
  shows "unat (rapcla shl_wide a b w) = (unat a + unat b) mod 2 ^ 63"
proof (rule rapcla_no_drop[OF assms(2)], rule window_carry_full)
  fix i g :: nat assume "i \<le> 63"
  then show "i - unat w \<le> g" using assms(1) by simp
qed

lemma rapcla_small_operands:
  assumes w: "unat w < 2 ^ 31" and k: "unat a < 2 ^ k" "unat b < 2 ^ k" "k \<le> unat w" "k < 63"
  shows "unat (rapcla shl_wide a b w) = unat a + unat b"
proof -
  have "unat (rapcla shl_wide a b w) = (unat a + unat b) mod 2 ^ 63"
  proof (rule rapcla_no_drop[OF w], rule window_carry_full)
    fix i g assume g: "g < i" "\<forall>z. g < z \<and> z < i \<longrightarrow> bit a z \<noteq> bit b z" "bit a g \<and> bit b g"
    have "i - 1 < k"
    proof (cases "i - 1 = g")
      case True
      then show ?thesis using g bit_unat_small[OF k(1)] by auto
    next
      case False
      then have "bit a (i - 1) \<noteq> bit b (i - 1)" using g by auto
      then show ?thesis using bit_unat_small k(1,2) by blast
    qed
    then show "i - unat w \<le> g" using k by simp
  qed
  also have "\<dots> = unat a + unat b"
  proof (rule mod_less)
    have "(2::nat) ^ k \<le> 2 ^ 62" using k(4) by (intro power_increasing) simp_all
    with k(1,2) show "unat a + unat b < 2 ^ 63" by simp
  qed
  finally show ?thesis .
qed



lemma shl_x86_eq:
  assumes "i < 31" shows "shl_x86 i = push_bit i 1"
proof (rule bit_word_eqI)
  fix n assume "n < LENGTH(64)"
  then show "bit (shl_x86 i) n = bit (push_bit i (1 :: u64)) n"
    using assms by (auto simp: shl_x86_def bit_signed_iff bit_exp_iff min_def)
qed

lemma word_unat_eq: "unat (x :: u64) = unat y \<Longrightarrow> x = y"
  by (simp add: unsigned_word_eqI)

lemma bit_shl_x86: "bit (shl_x86 i) (i mod 32)"
  by (auto simp: shl_x86_def bit_signed_iff bit_exp_iff min_def)

lemma rap_bit_x86_high: "(\<And>k. k < 32 \<Longrightarrow> \<not> bit x k) \<Longrightarrow> \<not> rap_bit shl_x86 x i"
  using bit_shl_x86[of i] by (metis bit_and_iff mod_less_divisor rap_bit_def zero_less_numeral)

lemma fold_skip: "(\<And>i. i \<in> set is \<Longrightarrow> \<not> S i) \<Longrightarrow> fold (\<lambda>i s. if S i then f i s else s) is s = s"
  by (induction "is") auto

lemma rapcla_no_bits:
  assumes "\<And>i. \<not> rap_bit shl a i" "\<And>i. \<not> rap_bit shl b i"
  shows "rapcla shl a b w = 0"
proof -
  have b: "rap_bit shl a = (\<lambda>i. False)" "rap_bit shl b = (\<lambda>i. False)"
    using assms by auto
  have "\<not> rap_carries (\<lambda>i. False) (\<lambda>i. False) w ! i" if "i < 63" for i
    using that by (simp add: rap_carries_nth carry_from_def)
  then show ?thesis
    unfolding rapcla_def BIT_LENGTH_def Let_def b by (intro fold_skip) simp
qed

text \<open>The result rests on the undefined shift: two meanings of \<open>1 << i\<close> that agree wherever the
  language defines it give different sums, already for \<open>2 ^ 40 + 0\<close> with a full window.
\<close>

lemma rapcla_shift_dependent:
  "shl_defined shl_wide \<and> shl_defined shl_x86 \<and>
   rapcla shl_wide (2 ^ 40) 0 64 = 2 ^ 40 \<and> rapcla shl_x86 (2 ^ 40) 0 64 \<noteq> 2 ^ 40"
proof (intro conjI)
  show "shl_defined shl_wide" by (simp add: shl_defined_def shl_wide_def)
  show "shl_defined shl_x86"
    by (auto simp: shl_defined_def shl_x86_eq)
  show "rapcla shl_wide (2 ^ 40) 0 64 = 2 ^ 40"
    by (rule word_unat_eq) (subst rapcla_small_operands[where k = 41], simp_all)
  show "rapcla shl_x86 (2 ^ 40) 0 64 \<noteq> 2 ^ 40"
  proof -
    have "\<not> bit (2 ^ 40 :: u64) k" if "k < 32" for k
      unfolding bit_exp_iff using that by simp
    then have "rapcla shl_x86 (2 ^ 40) 0 64 = 0"
      by (intro rapcla_no_bits rap_bit_x86_high) auto
    then show ?thesis by simp
  qed
qed

section \<open>The approximate multipliers\<close>

text \<open>
  \<open>appmul\<close> strips the sign of the negative operand of a mixed pair, calls the multiplier
  \<open>mulnum\<close>, and negates the result when the product of the operands is negative. The
  multipliers \<open>mul16x16_000\<close> to \<open>mul16x16_019\<close> are not in the repository: \<open>mul n a b\<close> stands for
  the \<open>int\<close> that number \<open>n\<close> returns.
\<close>

definition appmul :: "(nat \<Rightarrow> 16 word \<Rightarrow> 16 word \<Rightarrow> u32) \<Rightarrow> 16 word \<Rightarrow> 16 word \<Rightarrow> int \<Rightarrow> u32 result" where
  "appmul mul a b mulnum =
     (let a = (if sint a < 0 \<and> sint b > 0 then - a else a);
          b = (if sint a > 0 \<and> sint b < 0 then - b else b)
      in if 0 \<le> mulnum \<and> mulnum \<le> 19 then
           (let res = mul (nat mulnum) a b
            in if sint a * sint b < 0 then Inr (- res) else Inr res)
         else Inl (LogError ''invalid approximate multiplier number''))"

lemma sint_uminus_16:
  fixes a :: "16 word"
  assumes "sint a \<noteq> - 32768"
  shows "sint (- a) = - sint a"
proof -
  have "- 32768 < sint a" "sint a < 32768"
    using sint_range_size[of a] assms by (simp_all add: word_size)
  moreover have "- a = of_int (- sint a)" by simp
  ultimately show ?thesis
    by (simp only: signed_of_int) (simp add: signed_take_bit_int_eq_self)
qed

text \<open>The sign is lost: even with an exact multiplier, \<open>appmul\<close> returns the absolute value of
  the product, because the operands are made non-negative before the test \<open>a*b < 0\<close>. Numbers
  outside 0 to 19 stop the simulator.
\<close>

lemma appmul_absolute_value:
  assumes "\<forall>n x y. mul n x y = of_int (sint x * sint y)"
    and "sint a \<noteq> - 32768" "sint b \<noteq> - 32768"
  shows "appmul mul a b n =
    (if 0 \<le> n \<and> n \<le> 19 then Inr (of_int \<bar>sint a * sint b\<bar>)
     else Inl (LogError ''invalid approximate multiplier number''))"
  using assms
  by (auto simp: appmul_def Let_def sint_uminus_16 abs_mult mult_less_0_iff simp del: of_int_mult)

lemma appmul_absolute_value_witness:
  "appmul (\<lambda>n x y. of_int (sint x * sint y)) (- 3) 5 7 = Inr 15"
  using appmul_absolute_value[of "\<lambda>n x y. of_int (sint x * sint y)" "- 3" 5 7] by simp

end
