(* ===== verification/Approx_Registry.thy ===== *)
theory Approx_Registry
  imports Sniper_Prelude
begin

text \<open>
  The registry of approximate addresses in \<open>src/common/system/magic_server.cc\<close>: the
  \<open>std::set<appvar,appcmp>\<close> \<open>approx_vars\<close> with its per-byte counters, and the globals
  \<open>start_addr\<close>, \<open>end_addr\<close> and \<open>app_cnter\<close>.

  A \<open>std::set\<close> ordered by \<open>appcmp\<close> is the list of its elements in ascending \<open>addr\<close>; an
  iterator is an index, \<open>end()\<close> the length. The counters an \<open>appvar\<close> points to are owned by
  it alone, so they are fields. They are C \<open>int\<close>s, whose overflow has no defined
  meaning; the model counts in \<open>int\<close>. The messages on \<open>std::cout\<close> are left out.
\<close>

section \<open>One approximate byte\<close>

record counts =
  approx_add_cnt :: int
  approx_mul_cnt :: int
  L1_write_cnt :: int
  L1_read_cnt :: int
  L1_1_write_cnt :: int
  L1_1_read_cnt :: int
  L1_2_write_cnt :: int
  L1_2_read_cnt :: int
  L1_3_write_cnt :: int
  L1_3_read_cnt :: int
  L2_write_cnt :: int
  L2_read_cnt :: int
  maxlifetime :: u64

text \<open>The footprint values and, in \<open>poten\<close>, the \<open>poten_\<close> values of the class.\<close>

record appvar =
  addr :: u64
  set_num :: u64
  footprint :: counts
  poten :: counts

definition upsave :: "appvar \<Rightarrow> appvar" where
  "upsave v = (let p = poten v; c = footprint v in
     v\<lparr>footprint := c\<lparr>
       L1_write_cnt := max (L1_write_cnt p) (L1_write_cnt c),
       L1_read_cnt := max (L1_read_cnt p) (L1_read_cnt c),
       L1_1_write_cnt := max (L1_1_write_cnt p) (L1_1_write_cnt c),
       L1_1_read_cnt := max (L1_1_read_cnt p) (L1_1_read_cnt c),
       L1_2_write_cnt := max (L1_2_write_cnt p) (L1_2_write_cnt c),
       L1_2_read_cnt := max (L1_2_read_cnt p) (L1_2_read_cnt c),
       L1_3_write_cnt := max (L1_3_write_cnt p) (L1_3_write_cnt c),
       L1_3_read_cnt := max (L1_3_read_cnt p) (L1_3_read_cnt c),
       L2_write_cnt := max (L2_write_cnt p) (L2_write_cnt c),
       L2_read_cnt := max (L2_read_cnt p) (L2_read_cnt c),
       approx_add_cnt := max (approx_add_cnt p) (approx_add_cnt c),
       approx_mul_cnt := max (approx_mul_cnt p) (approx_mul_cnt c)\<rparr>\<rparr>)"

definition appvar_reset :: "appvar \<Rightarrow> appvar" where
  "appvar_reset v = v\<lparr>poten := (poten v)\<lparr>
     L1_write_cnt := 0, L1_read_cnt := 0,
     L1_1_write_cnt := 0, L1_1_read_cnt := 0,
     L1_2_write_cnt := 0, L1_2_read_cnt := 0,
     L1_3_write_cnt := 0, L1_3_read_cnt := 0,
     L2_write_cnt := 0, L2_read_cnt := 0\<rparr>\<rparr>"

fun dec_digits :: "nat \<Rightarrow> string" where
  "dec_digits n = (if n < 10 then [char_of (48 + n)]
     else dec_digits (n div 10) @ [char_of (48 + n mod 10)])"

declare dec_digits.simps [simp del]

definition dec_int :: "int \<Rightarrow> string" where
  "dec_int i = (if i < 0 then CHR ''-'' # dec_digits (nat (- i)) else dec_digits (nat i))"

definition tabs :: string where "tabs = [CHR '' '', CHR 0x09, CHR 0x09]"

definition appvar_print :: "appvar \<Rightarrow> string" where
  "appvar_print v = (let c = footprint v in
     dec_digits (unat (addr v)) @ tabs @ dec_int (L1_read_cnt c) @ tabs @
     dec_int (L1_write_cnt c) @ tabs @ dec_int (L2_read_cnt c) @ tabs @
     dec_int (L2_write_cnt c) @ tabs @ dec_digits (unat (maxlifetime c)) @ tabs @
     dec_int (approx_add_cnt c) @ tabs @ dec_int (approx_mul_cnt c))"

definition is_l1d :: "string \<Rightarrow> bool" where
  "is_l1d lvl \<longleftrightarrow> lvl = ''L1-D'' \<or> lvl = ''l1d''"

definition is_l2 :: "string \<Rightarrow> bool" where
  "is_l2 lvl \<longleftrightarrow> lvl = ''L2'' \<or> lvl = ''l2''"

definition inc_write_cnt :: "int \<Rightarrow> string \<Rightarrow> appvar \<Rightarrow> appvar" where
  "inc_write_cnt cid lvl v =
     (let v = (if is_l1d lvl then
                 if cid = 0 then poten_update (L1_write_cnt_update (\<lambda>n. n + 1)) v
                 else if cid = 1 then poten_update (L1_1_write_cnt_update (\<lambda>n. n + 1)) v
                 else if cid = 2 then poten_update (L1_2_write_cnt_update (\<lambda>n. n + 1)) v
                 else if cid = 3 then poten_update (L1_3_write_cnt_update (\<lambda>n. n + 1)) v
                 else v
               else v)
      in if is_l2 lvl then poten_update (L2_write_cnt_update (\<lambda>n. n + 1)) v else v)"

definition inc_read_cnt :: "int \<Rightarrow> string \<Rightarrow> appvar \<Rightarrow> appvar" where
  "inc_read_cnt cid lvl v =
     (let v = (if is_l1d lvl then
                 if cid = 0 then poten_update (L1_read_cnt_update (\<lambda>n. n + 1)) v
                 else if cid = 1 then poten_update (L1_1_read_cnt_update (\<lambda>n. n + 1)) v
                 else if cid = 2 then poten_update (L1_2_read_cnt_update (\<lambda>n. n + 1)) v
                 else if cid = 3 then poten_update (L1_3_read_cnt_update (\<lambda>n. n + 1)) v
                 else v
               else v)
      in if is_l2 lvl then poten_update (L2_read_cnt_update (\<lambda>n. n + 1)) v else v)"

definition inc_add_cnt :: "int \<Rightarrow> appvar \<Rightarrow> appvar" where
  "inc_add_cnt val v = poten_update (approx_add_cnt_update (\<lambda>n. n + val)) v"

definition inc_mul_cnt :: "int \<Rightarrow> appvar \<Rightarrow> appvar" where
  "inc_mul_cnt val v = poten_update (approx_mul_cnt_update (\<lambda>n. n + val)) v"

section \<open>The ordered set\<close>

definition set_find :: "u64 \<Rightarrow> appvar list \<Rightarrow> nat" where
  "set_find a vs = length (takeWhile (\<lambda>v. addr v \<noteq> a) vs)"

fun set_insert :: "appvar \<Rightarrow> appvar list \<Rightarrow> bool \<times> appvar list" where
  "set_insert v [] = (True, [v])"
| "set_insert v (w # ws) =
     (if addr v < addr w then (True, v # w # ws)
      else if addr w < addr v then (let (new, ws') = set_insert v ws in (new, w # ws'))
      else (False, w # ws))"

definition set_erase :: "nat \<Rightarrow> appvar list \<Rightarrow> appvar list" where
  "set_erase i vs = take i vs @ drop (i + 1) vs"

text \<open>\<open>find\<close> an address and run a member of the \<open>appvar\<close> found, if any.\<close>

definition set_touch :: "u64 \<Rightarrow> (appvar \<Rightarrow> appvar) \<Rightarrow> appvar list \<Rightarrow> appvar list" where
  "set_touch a f vs = (let it = set_find a vs
     in if it = length vs then vs else vs[it := f (vs ! it)])"

section \<open>The registry\<close>

record registry =
  approx_vars :: "appvar list"
  start_addr :: u64
  end_addr :: u64
  app_cnter :: int

definition registry_init :: registry where
  "registry_init = \<lparr>approx_vars = [], start_addr = - 1, end_addr = 0, app_cnter = 0\<rparr>"

definition zero_counts :: counts where
  "zero_counts = \<lparr>approx_add_cnt = 0, approx_mul_cnt = 0, L1_write_cnt = 0, L1_read_cnt = 0,
     L1_1_write_cnt = 0, L1_1_read_cnt = 0, L1_2_write_cnt = 0, L1_2_read_cnt = 0,
     L1_3_write_cnt = 0, L1_3_read_cnt = 0, L2_write_cnt = 0, L2_read_cnt = 0, maxlifetime = 0\<rparr>"

definition new_appvar :: "u64 \<Rightarrow> appvar" where
  "new_appvar a = \<lparr>addr = a, set_num = 0, footprint = zero_counts, poten = zero_counts\<rparr>"

definition add_approx :: "u64 \<Rightarrow> u64 \<Rightarrow> registry \<Rightarrow> bool \<times> registry" where
  "add_approx address set_number s =
     (let (new, vs) = set_insert (new_appvar address) (approx_vars s)
      in if new then
           (let s = s\<lparr>approx_vars := vs\<rparr>;
                s = (if address > end_addr s then s\<lparr>end_addr := address\<rparr> else s);
                s = (if address < start_addr s then s\<lparr>start_addr := address\<rparr> else s)
            in (True, s\<lparr>app_cnter := app_cnter s + 1\<rparr>))
         else (False, s))"

definition del_approx :: "u64 \<Rightarrow> registry \<Rightarrow> bool \<times> registry" where
  "del_approx address s =
     (let it = set_find address (approx_vars s)
      in if it = length (approx_vars s) then (False, s)
         else (True, s\<lparr>approx_vars := set_erase it (approx_vars s)\<rparr>))"

definition is_approx :: "u64 \<Rightarrow> registry \<Rightarrow> bool" where
  "is_approx address s =
     (if set_find address (approx_vars s) = length (approx_vars s) then False else True)"

fun first_approx :: "u64 list \<Rightarrow> registry \<Rightarrow> bool" where
  "first_approx [] s = False"
| "first_approx (a # as) s = (if is_approx a s then True else first_approx as s)"

definition is_block_approx :: "u64 \<Rightarrow> u32 \<Rightarrow> registry \<Rightarrow> bool" where
  "is_block_approx address block_size s = first_approx (addr_range address (unat block_size)) s"

definition approx_addr_setnum :: "u64 \<Rightarrow> registry \<Rightarrow> int" where
  "approx_addr_setnum address s =
     (let it = set_find address (approx_vars s)
      in if it = length (approx_vars s) then - 1
         else sint (ucast (set_num (approx_vars s ! it)) :: u32))"

fun first_setnum :: "u64 list \<Rightarrow> registry \<Rightarrow> int" where
  "first_setnum [] s = - 1"
| "first_setnum (a # as) s =
     (let setnum = approx_addr_setnum a s
      in if setnum \<noteq> - 1 then setnum else first_setnum as s)"

definition approx_block_setnum :: "u64 \<Rightarrow> u32 \<Rightarrow> registry \<Rightarrow> int" where
  "approx_block_setnum address block_size s =
     first_setnum (addr_range address (unat block_size)) s"

text \<open>The guard of the access counters and of \<open>update_liftime\<close>.\<close>

definition outside_window :: "u64 \<Rightarrow> u32 \<Rightarrow> registry \<Rightarrow> bool" where
  "outside_window address block_size s \<longleftrightarrow>
     address + ucast block_size < start_addr s \<or> address > end_addr s"

fun acc_loop :: "(appvar \<Rightarrow> appvar) \<Rightarrow> u64 list \<Rightarrow> appvar list \<Rightarrow> appvar list" where
  "acc_loop inc [] vs = vs"
| "acc_loop inc (a # as) vs =
     (let it = set_find a vs
      in if it = length vs then vs else acc_loop inc as (vs[it := inc (vs ! it)]))"

definition add_read_acc :: "u64 \<Rightarrow> int \<Rightarrow> string \<Rightarrow> u32 \<Rightarrow> registry \<Rightarrow> registry" where
  "add_read_acc address cid lvl block_size s =
     (if outside_window address block_size s then s
      else s\<lparr>approx_vars := acc_loop (inc_read_cnt cid lvl)
                (addr_range address (unat block_size)) (approx_vars s)\<rparr>)"

definition add_write_acc :: "u64 \<Rightarrow> int \<Rightarrow> string \<Rightarrow> u32 \<Rightarrow> registry \<Rightarrow> registry" where
  "add_write_acc address cid lvl block_size s =
     (if outside_window address block_size s then s
      else s\<lparr>approx_vars := acc_loop (inc_write_cnt cid lvl)
                (addr_range address (unat block_size)) (approx_vars s)\<rparr>)"

definition PAGE_SIZE :: u64 where "PAGE_SIZE = 4096"

text \<open>The addresses \<open>(address/PAGE_SIZE)*PAGE_SIZE\<close> up to \<open>(address/PAGE_SIZE+1)*PAGE_SIZE\<close>,
  none when the bound wraps to 0.\<close>

definition page_addrs :: "u64 \<Rightarrow> u64 list" where
  "page_addrs address =
     (let lo = (address div PAGE_SIZE) * PAGE_SIZE; hi = (address div PAGE_SIZE + 1) * PAGE_SIZE
      in if lo < hi then addr_range lo (unat (hi - lo)) else [])"

definition poten_lifetime :: "u64 \<Rightarrow> appvar \<Rightarrow> appvar" where
  "poten_lifetime interv v =
     (if interv > maxlifetime (poten v) then v\<lparr>poten := (poten v)\<lparr>maxlifetime := interv\<rparr>\<rparr> else v)"

definition settle_lifetime :: "bool \<Rightarrow> appvar \<Rightarrow> appvar" where
  "settle_lifetime RW v =
     (if RW \<and> maxlifetime (footprint v) < maxlifetime (poten v)
      then v\<lparr>footprint := (footprint v)\<lparr>maxlifetime := maxlifetime (poten v)\<rparr>\<rparr>
      else if \<not> RW \<and> maxlifetime (footprint v) < maxlifetime (poten v)
      then v\<lparr>poten := (poten v)\<lparr>maxlifetime := maxlifetime (footprint v)\<rparr>\<rparr>
      else v)"

fun lifetime_loop ::
  "u64 \<Rightarrow> u32 \<Rightarrow> bool \<Rightarrow> nat list \<Rightarrow> nat \<Rightarrow> bool \<Rightarrow> appvar list \<Rightarrow> bool \<times> appvar list" where
  "lifetime_loop address bs RW [] it realend vs = (True, vs)"
| "lifetime_loop address bs RW (i # is) it realend vs =
     (if it = length vs then
        (if \<not> realend then
           lifetime_loop address bs RW is (set_find (address + of_nat i) vs) realend vs
         else (True, vs))
      else if address \<le> addr (vs ! it) \<and> addr (vs ! it) < address + ucast bs then
        lifetime_loop address bs RW is (it + 1) True (vs[it := settle_lifetime RW (vs ! it)])
      else lifetime_loop address bs RW is (it + 1) realend vs)"

definition update_liftime ::
  "u64 \<Rightarrow> u64 \<Rightarrow> u64 \<Rightarrow> bool \<Rightarrow> u32 \<Rightarrow> registry \<Rightarrow> bool \<times> registry" where
  "update_liftime address now lpacc RW block_size s =
     (let interv = (if now \<ge> lpacc then now - lpacc else lpacc - now);
          s = s\<lparr>approx_vars := fold (\<lambda>a. set_touch a (poten_lifetime interv))
                (page_addrs address) (approx_vars s)\<rparr>
      in if outside_window address block_size s then (False, s)
         else (let (r, vs) = lifetime_loop address block_size RW [0..<unat block_size + 1]
                     (set_find address (approx_vars s)) False (approx_vars s)
               in (r, s\<lparr>approx_vars := vs\<rparr>)))"

definition reset_cnters :: "u64 \<Rightarrow> u32 \<Rightarrow> registry \<Rightarrow> registry" where
  "reset_cnters address len s = s\<lparr>approx_vars :=
     fold (\<lambda>a. set_touch a appvar_reset) (addr_range address (unat len)) (approx_vars s)\<rparr>"

definition upsave_cnters :: "u64 \<Rightarrow> u32 \<Rightarrow> registry \<Rightarrow> registry" where
  "upsave_cnters address len s = s\<lparr>approx_vars :=
     fold (\<lambda>a. set_touch a upsave) (addr_range address (unat len)) (approx_vars s)\<rparr>"

definition display_approx :: "registry \<Rightarrow> string list" where
  "display_approx s = map (\<lambda>v. ''approx address in setnum: '' @ dec_digits (unat (addr v)) @
     [CHR 0x09] @ dec_digits (unat (set_num v))) (approx_vars s)"

definition pure_acc :: "int \<Rightarrow> string \<Rightarrow> bool \<Rightarrow> appvar \<Rightarrow> appvar" where
  "pure_acc corenum lvl read v =
     (let write = (\<not> read);
          v = (if is_l1d lvl \<and> read then
                 if corenum = 0 then footprint_update (L1_read_cnt_update (\<lambda>n. n + 1)) v
                 else if corenum = 1 then footprint_update (L1_1_read_cnt_update (\<lambda>n. n + 1)) v
                 else if corenum = 2 then footprint_update (L1_2_read_cnt_update (\<lambda>n. n + 1)) v
                 else if corenum = 3 then footprint_update (L1_3_read_cnt_update (\<lambda>n. n + 1)) v
                 else v
               else v);
          v = (if is_l1d lvl \<and> write then
                 if corenum = 0 then footprint_update (L1_write_cnt_update (\<lambda>n. n + 1)) v
                 else if corenum = 1 then footprint_update (L1_1_write_cnt_update (\<lambda>n. n + 1)) v
                 else if corenum = 2 then footprint_update (L1_2_write_cnt_update (\<lambda>n. n + 1)) v
                 else if corenum = 3 then footprint_update (L1_3_write_cnt_update (\<lambda>n. n + 1)) v
                 else v
               else v);
          v = (if is_l2 lvl \<and> read then footprint_update (L2_read_cnt_update (\<lambda>n. n + 1)) v else v)
      in if is_l2 lvl \<and> write then footprint_update (L2_write_cnt_update (\<lambda>n. n + 1)) v else v)"

definition add_pure_acc :: "u64 \<Rightarrow> int \<Rightarrow> string \<Rightarrow> bool \<Rightarrow> registry \<Rightarrow> registry" where
  "add_pure_acc address corenum lvl read s =
     s\<lparr>approx_vars := set_touch address (pure_acc corenum lvl read) (approx_vars s)\<rparr>"

section \<open>Lemmas on the ordered set\<close>

named_theorems reg_simps \<open>the registry operations as maps over the entries\<close>

definition set_ok :: "appvar list \<Rightarrow> bool" where
  "set_ok vs \<longleftrightarrow> sorted_wrt (\<lambda>v w. addr v < addr w) vs"

definition set_addrs :: "appvar list \<Rightarrow> u64 set" where
  "set_addrs vs = addr ` set vs"

definition keeps_addr :: "(appvar \<Rightarrow> appvar) \<Rightarrow> bool" where
  "keeps_addr f \<longleftrightarrow> (\<forall>v. addr (f v) = addr v \<and> set_num (f v) = set_num v)"

lemma keeps_addrD [simp]:
  "keeps_addr f \<Longrightarrow> addr (f v) = addr v" "keeps_addr f \<Longrightarrow> set_num (f v) = set_num v"
  by (simp_all add: keeps_addr_def)

lemma addr_if:
  "addr (if b then v else w) = (if b then addr v else addr w)"
  "set_num (if b then v else w) = (if b then set_num v else set_num w)"
  by simp_all

lemma keeps_addr_intros:
  "keeps_addr (\<lambda>v. v)" "keeps_addr (\<lambda>v. poten_update (g v) v)" "keeps_addr (\<lambda>v. footprint_update (g v) v)"
  "keeps_addr f1 \<Longrightarrow> keeps_addr f2 \<Longrightarrow> keeps_addr (\<lambda>v. if b v then f1 v else f2 v)"
  "keeps_addr f1 \<Longrightarrow> keeps_addr f2 \<Longrightarrow> keeps_addr (\<lambda>v. let w = f1 v in f2 w)"
  unfolding keeps_addr_def by simp_all

lemma keeps_addr_upsave [simp]: "keeps_addr upsave"
  unfolding upsave_def[abs_def] Let_def by (rule keeps_addr_intros)

lemma keeps_addr_reset [simp]: "keeps_addr appvar_reset"
  unfolding appvar_reset_def[abs_def] by (rule keeps_addr_intros)

lemma keeps_addr_simple [simp]:
  "keeps_addr (inc_add_cnt n)" "keeps_addr (inc_mul_cnt n)"
  "keeps_addr (poten_lifetime i)" "keeps_addr (settle_lifetime RW)"
  unfolding inc_add_cnt_def[abs_def] inc_mul_cnt_def[abs_def] poten_lifetime_def[abs_def]
    settle_lifetime_def[abs_def]
  by (intro keeps_addr_intros)+

lemma keeps_addr_inc [simp]: "keeps_addr (inc_read_cnt c l)" "keeps_addr (inc_write_cnt c l)"
  unfolding inc_read_cnt_def[abs_def] inc_write_cnt_def[abs_def]
  by (intro keeps_addr_intros)+

lemma keeps_addr_pure_acc [simp]: "keeps_addr (pure_acc c l r)"
  unfolding pure_acc_def[abs_def] Let_def[of "\<not> r"]
  by (intro keeps_addr_intros)+

lemma set_find_le [simp]: "set_find a vs \<le> length vs"
  by (simp add: set_find_def length_takeWhile_le)

lemma set_find_end: "set_find a vs = length vs \<longleftrightarrow> a \<notin> set_addrs vs"
  unfolding set_find_def set_addrs_def
  by (induction vs) auto

lemma set_find_nth: "a \<in> set_addrs vs \<Longrightarrow> set_find a vs < length vs \<and> addr (vs ! set_find a vs) = a"
proof (induction vs)
  case (Cons v vs)
  then show ?case by (cases "addr v = a") (auto simp: set_find_def set_addrs_def)
qed (simp add: set_addrs_def)

lemma set_ok_map [simp]: "(\<And>v. addr (f v) = addr v) \<Longrightarrow> set_ok (map f vs) = set_ok vs"
  by (simp add: set_ok_def sorted_wrt_map)

lemma set_addrs_map [simp]: "(\<And>v. addr (f v) = addr v) \<Longrightarrow> set_addrs (map f vs) = set_addrs vs"
  by (simp add: set_addrs_def image_image)

lemma set_ok_nth_less: "set_ok vs \<Longrightarrow> i < j \<Longrightarrow> j < length vs \<Longrightarrow> addr (vs ! i) < addr (vs ! j)"
  by (simp add: set_ok_def sorted_wrt_iff_nth_less)

lemma set_ok_nth_eq:
  "set_ok vs \<Longrightarrow> i < length vs \<Longrightarrow> j < length vs \<Longrightarrow> addr (vs ! i) = addr (vs ! j) \<longleftrightarrow> i = j"
  by (metis set_ok_nth_less linorder_neqE_nat less_irrefl)

text \<open>An update through an iterator changes the entry of that address and no other.\<close>

lemma update_at_index:
  assumes "set_ok vs" "i < length vs"
  shows "vs[i := f (vs ! i)] = map (\<lambda>v. if addr v = addr (vs ! i) then f v else v) vs"
  using assms by (auto intro!: nth_equalityI simp: nth_list_update set_ok_nth_eq)

lemma set_touch_map [reg_simps]:
  assumes "set_ok vs"
  shows "set_touch a f vs = map (\<lambda>v. if addr v = a then f v else v) vs"
proof (cases "a \<in> set_addrs vs")
  case True
  then show ?thesis
    using update_at_index[OF assms, of "set_find a vs" f] set_find_nth[OF True]
    by (simp add: set_touch_def Let_def set_find_end)
next
  case False
  then have "set_touch a f vs = vs" by (simp add: set_touch_def set_find_end)
  moreover have "map (\<lambda>v. if addr v = a then f v else v) vs = vs"
    using False by (intro map_idI) (auto simp: set_addrs_def)
  ultimately show ?thesis by simp
qed

lemma fold_set_touch [reg_simps]:
  assumes "set_ok vs" "distinct as" "keeps_addr f"
  shows "fold (\<lambda>a. set_touch a f) as vs = map (\<lambda>v. if addr v \<in> set as then f v else v) vs"
  using assms(1,2)
proof (induction as arbitrary: vs)
  case (Cons a as)
  have "set_ok (set_touch a f vs)"
    using Cons.prems assms(3) by (simp add: set_touch_map)
  then show ?case using Cons assms(3) by (auto simp: set_touch_map)
qed simp

section \<open>Insertion and erasure\<close>

lemma set_addrs_Cons [simp]: "set_addrs (v # vs) = insert (addr v) (set_addrs vs)"
  by (simp add: set_addrs_def)

lemma set_addrs_Nil [simp]: "set_addrs [] = {}"
  by (simp add: set_addrs_def)

lemma set_ok_Nil [simp]: "set_ok []"
  by (simp add: set_ok_def)

lemma set_ok_Cons [simp]: "set_ok (v # vs) \<longleftrightarrow> (\<forall>a\<in>set_addrs vs. addr v < a) \<and> set_ok vs"
  by (auto simp: set_ok_def set_addrs_def)

lemma set_insert_addrs: "set_addrs (snd (set_insert v vs)) = insert (addr v) (set_addrs vs)"
proof (induction v vs rule: set_insert.induct)
  case (2 v w ws)
  consider "addr v < addr w" | "addr w < addr v" | "addr v = addr w" by fastforce
  then show ?case
  proof cases
    case 2
    then show ?thesis using "2.IH" by (cases "set_insert v ws") (simp add: insert_commute less_imp_not_less)
  qed simp_all
qed simp

lemma set_insert_ok: "set_ok vs \<Longrightarrow> set_ok (snd (set_insert v vs))"
proof (induction v vs rule: set_insert.induct)
  case (2 v w ws)
  consider "addr v < addr w" | "addr w < addr v" | "addr v = addr w" by fastforce
  then show ?case
  proof cases
    case 1
    then show ?thesis using "2.prems" by auto
  next
    case 2
    then have "\<not> addr v < addr w" by simp
    then show ?thesis using 2 "2.IH" "2.prems" set_insert_addrs[of v ws]
      by (cases "set_insert v ws") simp
  qed (use "2.prems" in simp)
qed simp

lemma set_insert_new: "set_ok vs \<Longrightarrow> fst (set_insert v vs) \<longleftrightarrow> addr v \<notin> set_addrs vs"
proof (induction v vs rule: set_insert.induct)
  case (2 v w ws)
  consider "addr v < addr w" | "addr w < addr v" | "addr v = addr w" by fastforce
  then show ?case
  proof cases
    case 1
    then show ?thesis using "2.prems" by auto
  next
    case 2
    then show ?thesis using "2.IH" "2.prems"
      by (cases "set_insert v ws") (auto simp: less_imp_not_less)
  qed simp
qed simp

lemma set_insert_old: "\<not> fst (set_insert v vs) \<Longrightarrow> snd (set_insert v vs) = vs"
  by (induction v vs rule: set_insert.induct) (auto split: prod.splits if_splits)

lemma set_insert_elems:
  "set (snd (set_insert v vs)) = (if fst (set_insert v vs) then insert v (set vs) else set vs)"
proof (induction v vs rule: set_insert.induct)
  case (2 v w ws)
  consider "addr v < addr w" | "\<not> addr v < addr w" "addr w < addr v" | "addr v = addr w" by fastforce
  then show ?case
  proof cases
    case 2
    then show ?thesis using "2.IH" by (cases "set_insert v ws") (auto simp del: not_less)
  qed simp_all
qed simp

lemma set_erase_filter:
  assumes "set_ok vs" "i < length vs"
  shows "set_erase i vs = filter (\<lambda>v. addr v \<noteq> addr (vs ! i)) vs"
proof -
  let ?P = "\<lambda>v. addr v \<noteq> addr (vs ! i)"
  have "filter ?P vs = filter ?P (take i vs @ vs ! i # drop (Suc i) vs)"
    using assms(2) by (simp add: id_take_nth_drop[symmetric])
  moreover have "addr v \<noteq> addr (vs ! i)" if "v \<in> set (take i vs) \<union> set (drop (Suc i) vs)" for v
  proof -
    from that consider j where "j < i" "v = vs ! j"
      | j where "j < length vs - Suc i" "v = vs ! (Suc i + j)"
      using assms(2) by (auto simp: in_set_conv_nth)
    then obtain j where "j < length vs" "j \<noteq> i" "v = vs ! j"
    proof cases
      case (1 j) then show ?thesis using assms(2) that[of j] by simp
    next
      case (2 j) then show ?thesis using that[of "Suc i + j"] by simp
    qed
    then show ?thesis using set_ok_nth_eq[OF assms(1) _ assms(2)] by blast
  qed
  then have "filter ?P (take i vs) = take i vs" "filter ?P (drop (Suc i) vs) = drop (Suc i) vs"
    by (auto intro!: filter_True)
  ultimately show ?thesis by (simp add: set_erase_def)
qed

lemma set_ok_filter [simp]: "set_ok vs \<Longrightarrow> set_ok (filter P vs)"
  by (simp add: set_ok_def sorted_wrt_filter)

section \<open>The registry as a set of addresses\<close>

definition reg_addrs :: "registry \<Rightarrow> u64 set" where
  "reg_addrs s = set_addrs (approx_vars s)"

text \<open>The entries ascend strictly, all lie in the window, and all are in the first fault set.\<close>

definition registry_inv :: "registry \<Rightarrow> bool" where
  "registry_inv s \<longleftrightarrow> set_ok (approx_vars s) \<and>
     (\<forall>a\<in>reg_addrs s. start_addr s \<le> a \<and> a \<le> end_addr s) \<and>
     (\<forall>v\<in>set (approx_vars s). set_num v = 0)"

lemma registry_inv_init: "registry_inv registry_init"
  by (simp add: registry_inv_def registry_init_def reg_addrs_def)

lemma is_approx_iff [reg_simps]: "is_approx a s \<longleftrightarrow> a \<in> reg_addrs s"
  by (simp add: is_approx_def reg_addrs_def set_find_end)

lemma first_approx_iff: "first_approx as s \<longleftrightarrow> (\<exists>a\<in>set as. a \<in> reg_addrs s)"
  by (induction as) (auto simp: is_approx_iff)

lemma is_block_approx_iff [reg_simps]:
  "is_block_approx a n s \<longleftrightarrow> (\<exists>i<unat n. a + of_nat i \<in> reg_addrs s)"
  unfolding is_block_approx_def first_approx_iff Bex_def set_addr_range by blast

lemma set_insert_new_appvar:
  assumes "registry_inv s"
  shows "set_insert (new_appvar a) (approx_vars s) =
    (a \<notin> reg_addrs s, if a \<in> reg_addrs s then approx_vars s
       else snd (set_insert (new_appvar a) (approx_vars s)))"
  using set_insert_new[of "approx_vars s" "new_appvar a"]
    set_insert_old[of "new_appvar a" "approx_vars s"] assms
  by (cases "set_insert (new_appvar a) (approx_vars s)")
     (auto simp: registry_inv_def reg_addrs_def new_appvar_def)

lemma add_approx_old:
  "registry_inv s \<Longrightarrow> a \<in> reg_addrs s \<Longrightarrow> add_approx a n s = (False, s)"
  unfolding add_approx_def by (subst set_insert_new_appvar) simp_all

lemma add_approx_new:
  assumes "registry_inv s" "a \<notin> reg_addrs s"
  shows "fst (add_approx a n s)"
    and "approx_vars (snd (add_approx a n s)) = snd (set_insert (new_appvar a) (approx_vars s))"
    and "start_addr (snd (add_approx a n s)) = min a (start_addr s)"
    and "end_addr (snd (add_approx a n s)) = max a (end_addr s)"
    and "app_cnter (snd (add_approx a n s)) = app_cnter s + 1"
  using set_insert_new_appvar[OF assms(1), of a] assms(2)
  by (auto simp: add_approx_def Let_def min_def max_def split: prod.splits)

lemma add_approx_inv: "registry_inv s \<Longrightarrow> registry_inv (snd (add_approx a n s))"
proof (cases "a \<in> reg_addrs s")
  case False
  assume i: "registry_inv s"
  note new = add_approx_new[OF i False, of n]
  have "set (snd (set_insert (new_appvar a) (approx_vars s))) = insert (new_appvar a) (set (approx_vars s))"
    using set_insert_new_appvar[OF i, of a] False set_insert_elems[of "new_appvar a" "approx_vars s"]
    by (metis fst_conv)
  then show ?thesis
    using i unfolding registry_inv_def reg_addrs_def new set_insert_addrs
    by (auto simp: set_insert_ok new_appvar_def min_def max_def)
qed (simp add: add_approx_old)

lemma reg_addrs_add [reg_simps]:
  "registry_inv s \<Longrightarrow> reg_addrs (snd (add_approx a n s)) = insert a (reg_addrs s)"
  using add_approx_old[of s a n] add_approx_new(2)[of s a n]
    set_insert_addrs[of "new_appvar a" "approx_vars s"]
  by (cases "a \<in> reg_addrs s") (auto simp: reg_addrs_def new_appvar_def)

lemma add_approx_result [reg_simps]:
  "registry_inv s \<Longrightarrow> fst (add_approx a n s) \<longleftrightarrow> a \<notin> reg_addrs s"
  using add_approx_old[of s a n] add_approx_new(1)[of s a n] by auto

lemma del_approx_result [reg_simps]: "fst (del_approx a s) \<longleftrightarrow> a \<in> reg_addrs s"
  by (simp add: del_approx_def reg_addrs_def set_find_end Let_def)

lemma del_approx_vars:
  assumes "registry_inv s"
  shows "snd (del_approx a s) = s\<lparr>approx_vars := filter (\<lambda>v. addr v \<noteq> a) (approx_vars s)\<rparr>"
proof (cases "a \<in> reg_addrs s")
  case True
  then show ?thesis
    using assms set_find_nth[of a "approx_vars s"]
      set_erase_filter[of "approx_vars s" "set_find a (approx_vars s)"]
    by (simp add: del_approx_def reg_addrs_def set_find_end Let_def registry_inv_def)
next
  case False
  then have "filter (\<lambda>v. addr v \<noteq> a) (approx_vars s) = approx_vars s"
    by (auto simp: reg_addrs_def set_addrs_def intro!: filter_True)
  with False show ?thesis by (simp add: del_approx_def reg_addrs_def set_find_end)
qed

lemma reg_addrs_del [reg_simps]:
  "registry_inv s \<Longrightarrow> reg_addrs (snd (del_approx a s)) = reg_addrs s - {a}"
  by (auto simp: del_approx_vars reg_addrs_def set_addrs_def)

lemma del_approx_inv: "registry_inv s \<Longrightarrow> registry_inv (snd (del_approx a s))"
  by (auto simp: del_approx_vars registry_inv_def reg_addrs_def set_addrs_def)

subsection \<open>The interface the clients use\<close>

text \<open>
  A mutable set of addresses: what the magic instructions, the fault injector and the DRAM
  controller rely on. \<open>inv\<close> is the invariant of the provider, \<open>addrs\<close> its abstraction.
\<close>

locale address_set =
  fixes inv :: "'s \<Rightarrow> bool"
    and addrs :: "'s \<Rightarrow> u64 set"
    and add :: "u64 \<Rightarrow> 's \<Rightarrow> bool \<times> 's"
    and del :: "u64 \<Rightarrow> 's \<Rightarrow> bool \<times> 's"
    and mem :: "u64 \<Rightarrow> 's \<Rightarrow> bool"
  assumes inv_add: "inv s \<Longrightarrow> inv (snd (add a s))"
    and addrs_add: "inv s \<Longrightarrow> addrs (snd (add a s)) = insert a (addrs s)"
    and add_new: "inv s \<Longrightarrow> fst (add a s) \<longleftrightarrow> a \<notin> addrs s"
    and inv_del: "inv s \<Longrightarrow> inv (snd (del a s))"
    and addrs_del: "inv s \<Longrightarrow> addrs (snd (del a s)) = addrs s - {a}"
    and del_old: "inv s \<Longrightarrow> fst (del a s) \<longleftrightarrow> a \<in> addrs s"
    and mem_iff: "inv s \<Longrightarrow> mem a s \<longleftrightarrow> a \<in> addrs s"
begin

lemma add_all:
  "inv s \<Longrightarrow> inv (fold (\<lambda>a s. snd (add a s)) as s) \<and>
    addrs (fold (\<lambda>a s. snd (add a s)) as s) = addrs s \<union> set as"
  by (induction as arbitrary: s) (auto simp: inv_add addrs_add)

lemma del_all:
  "inv s \<Longrightarrow> inv (fold (\<lambda>a s. snd (del a s)) as s) \<and>
    addrs (fold (\<lambda>a s. snd (del a s)) as s) = addrs s - set as"
  by (induction as arbitrary: s) (auto simp: inv_del addrs_del)

lemma add_del_all:
  assumes "inv s" "set as \<inter> addrs s = {}"
  shows "addrs (fold (\<lambda>a s. snd (del a s)) as (fold (\<lambda>a s. snd (add a s)) as s)) = addrs s"
  using add_all[OF assms(1), of as] del_all[of "fold (\<lambda>a s. snd (add a s)) as s" as] assms(2)
  by auto

lemma mem_add: "inv s \<Longrightarrow> mem b (snd (add a s)) \<longleftrightarrow> b = a \<or> mem b s"
  by (simp add: mem_iff inv_add addrs_add)

lemma mem_del: "inv s \<Longrightarrow> mem b (snd (del a s)) \<longleftrightarrow> b \<noteq> a \<and> mem b s"
  by (auto simp: mem_iff inv_del addrs_del)

end

interpretation rg: address_set registry_inv reg_addrs "\<lambda>a. add_approx a 0" del_approx is_approx
  by unfold_locales (simp_all add: reg_simps add_approx_inv del_approx_inv)

section \<open>Access counters\<close>

lemma unat_offset:
  "unat (a :: u64) + n < 2 ^ 64 \<Longrightarrow> unat (a + of_nat n) = unat a + n"
  by (subst unat_word_ariths) (simp add: unat_of_nat take_bit_nat_def)

lemma unat_ucast_64: "unat (ucast (n :: u32) :: u64) = unat n"
  using unsigned_less[of n, where 'a = nat] by (simp add: unsigned_ucast_eq take_bit_nat_def)

lemma unat_block_end:
  "unat (a :: u64) + unat (n :: u32) < 2 ^ 64 \<Longrightarrow> unat (a + ucast n) = unat a + unat n"
  by (subst unat_word_ariths) (simp add: unat_ucast_64)

definition in_block :: "u64 \<Rightarrow> u32 \<Rightarrow> appvar \<Rightarrow> bool" where
  "in_block a n v \<longleftrightarrow> a \<le> addr v \<and> addr v < a + ucast n"

lemma in_block_iff:
  assumes "unat a + unat n < 2 ^ 64"
  shows "in_block a n v \<longleftrightarrow> (\<exists>i<unat n. addr v = a + of_nat i)"
proof
  assume "in_block a n v"
  then have "unat a \<le> unat (addr v)" "unat (addr v) < unat a + unat n"
    by (simp_all add: in_block_def word_le_nat_alt word_less_nat_alt unat_block_end[OF assms])
  moreover from this assms have "unat (a + of_nat (unat (addr v) - unat a)) = unat (addr v)"
    by (subst unat_offset) simp_all
  ultimately show "\<exists>i<unat n. addr v = a + of_nat i"
    by (intro exI[of _ "unat (addr v) - unat a"]) (simp add: unsigned_word_eqI)
next
  assume "\<exists>i<unat n. addr v = a + of_nat i"
  then show "in_block a n v" using assms
    by (auto simp: in_block_def word_le_nat_alt word_less_nat_alt unat_block_end unat_offset)
qed

text \<open>The guard leaves out only blocks without an approximate byte.\<close>

lemma outside_window_sound:
  assumes "registry_inv s" "unat a + unat n < 2 ^ 64" "outside_window a n s"
    and "v \<in> set (approx_vars s)"
  shows "\<not> in_block a n v"
proof -
  have "start_addr s \<le> addr v" "addr v \<le> end_addr s"
    using assms(1,4) by (auto simp: registry_inv_def reg_addrs_def set_addrs_def)
  with assms(3) show ?thesis by (auto simp: outside_window_def in_block_def)
qed

lemma acc_loop_map:
  assumes "set_ok vs" "distinct as" "keeps_addr f"
  shows "acc_loop f as vs = map (\<lambda>v. if addr v \<in> set (takeWhile (\<lambda>a. a \<in> set_addrs vs) as)
    then f v else v) vs"
  using assms(1,2)
proof (induction as arbitrary: vs)
  case (Cons a as)
  show ?case
  proof (cases "a \<in> set_addrs vs")
    case True
    let ?vs = "map (\<lambda>v. if addr v = a then f v else v) vs"
    have touch: "vs[set_find a vs := f (vs ! set_find a vs)] = ?vs"
      using update_at_index[of vs "set_find a vs" f] Cons.prems set_find_nth[OF True] by simp
    have "set_ok ?vs" "set_addrs ?vs = set_addrs vs" using Cons.prems assms(3) by simp_all
    then have "acc_loop f as ?vs = map (\<lambda>v. if addr v \<in> set (takeWhile (\<lambda>a. a \<in> set_addrs vs) as)
        then f v else v) ?vs"
      using Cons.IH[of ?vs] Cons.prems by simp
    moreover have "a \<notin> set (takeWhile (\<lambda>a. a \<in> set_addrs vs) as)"
      using Cons.prems by (auto dest: set_takeWhileD)
    ultimately show ?thesis
      using True assms(3) by (auto simp: set_find_end Let_def touch)
  next
    case False
    then show ?thesis by (simp add: set_find_end)
  qed
qed simp

text \<open>The bytes of a block up to the first one that is not approximate.\<close>

definition approx_prefix :: "u64 \<Rightarrow> u32 \<Rightarrow> registry \<Rightarrow> u64 list" where
  "approx_prefix a n s = takeWhile (\<lambda>b. is_approx b s) (addr_range a (unat n))"

lemma distinct_block: "distinct (addr_range a (unat (n :: u32)))"
  using unsigned_less[of n, where 'a = nat] by (intro distinct_addr_range) simp

lemma acc_loop_block:
  assumes "registry_inv s" "keeps_addr f"
  shows "acc_loop f (addr_range a (unat n)) (approx_vars s) =
    map (\<lambda>v. if addr v \<in> set (approx_prefix a n s) then f v else v) (approx_vars s)"
  using acc_loop_map[of "approx_vars s" "addr_range a (unat n)" f] assms distinct_block
  by (simp add: registry_inv_def approx_prefix_def is_approx_iff reg_addrs_def)

lemma approx_prefix_outside:
  assumes "registry_inv s" "unat a + unat n < 2 ^ 64" "outside_window a n s"
  shows "approx_prefix a n s = []"
proof (cases "unat n")
  case (Suc m)
  have "a \<notin> reg_addrs s"
  proof
    assume "a \<in> reg_addrs s"
    then obtain v where v: "v \<in> set (approx_vars s)" "addr v = a"
      by (auto simp: reg_addrs_def set_addrs_def)
    then have "in_block a n v"
      unfolding in_block_iff[OF assms(2)] using Suc by (intro exI[of _ 0]) simp
    then show False using outside_window_sound[OF assms v(1)] by blast
  qed
  then have "\<not> is_approx (addr_range a (unat n) ! 0) s" using Suc by (simp add: is_approx_iff)
  moreover obtain b bs where "addr_range a (unat n) = b # bs"
    using Suc by (cases "addr_range a (unat n)") (auto dest: arg_cong[of _ _ length])
  ultimately show ?thesis by (simp add: approx_prefix_def)
qed (simp add: approx_prefix_def addr_range_def)

lemma guarded_acc:
  assumes "registry_inv s" "unat a + unat n < 2 ^ 64" "keeps_addr f"
  shows "(if outside_window a n s then s
      else s\<lparr>approx_vars := acc_loop f (addr_range a (unat n)) (approx_vars s)\<rparr>)
    = s\<lparr>approx_vars := map (\<lambda>v. if addr v \<in> set (approx_prefix a n s) then f v else v)
        (approx_vars s)\<rparr>"
  using approx_prefix_outside[OF assms(1,2)] acc_loop_block[OF assms(1,3)] by auto

section \<open>Lifetimes\<close>

lemma lifetime_loop_from:
  assumes "set_ok vs" "it \<le> length vs" "\<And>j. it \<le> j \<Longrightarrow> j < length vs \<Longrightarrow> a \<le> addr (vs ! j)"
    and "realend \<or> it < length vs \<and> in_block a bs (vs ! it)"
    and "length (filter (in_block a bs) (drop it vs)) \<le> length is"
  shows "lifetime_loop a bs RW is it realend vs = (True, take it vs @
    map (\<lambda>v. if in_block a bs v then settle_lifetime RW v else v) (drop it vs))"
  using assms
proof (induction "is" arbitrary: it realend vs)
  case Nil
  then have "map (\<lambda>v. if in_block a bs v then settle_lifetime RW v else v) (drop it vs) = drop it vs"
    by (intro map_idI) (auto simp: filter_empty_conv)
  then show ?case by simp
next
  case (Cons i "is")
  let ?g = "\<lambda>v. if in_block a bs v then settle_lifetime RW v else v"
  show ?case
  proof (cases "it < length vs")
    case False
    then show ?thesis using Cons.prems by simp
  next
    case True
    let ?x = "vs ! it"
    have d: "drop it vs = ?x # drop (Suc it) vs" using True by (simp add: Cons_nth_drop_Suc)
    show ?thesis
    proof (cases "in_block a bs ?x")
      case blk: True
      let ?vs = "vs[it := settle_lifetime RW ?x]"
      have m: "?vs = map (\<lambda>v. if addr v = addr ?x then settle_lifetime RW v else v) vs"
        using update_at_index[OF Cons.prems(1) True] .
      have "lifetime_loop a bs RW is (it + 1) True ?vs = (True, take (it + 1) ?vs @ map ?g (drop (it + 1) ?vs))"
      proof (rule Cons.IH)
        show "set_ok ?vs" unfolding m using Cons.prems(1) by simp
        show "length (filter (in_block a bs) (drop (it + 1) ?vs)) \<le> length is"
          using Cons.prems(5) blk by (simp add: d)
        show "a \<le> addr (?vs ! j)" if "it + 1 \<le> j" "j < length ?vs" for j
          using Cons.prems(3)[of j] that by simp
      qed (use True in simp_all)
      moreover have "take (it + 1) ?vs = take it vs @ [settle_lifetime RW ?x]"
        using True by (simp add: take_Suc_conv_app_nth)
      ultimately show ?thesis using True blk by (simp add: d in_block_def)
    next
      case out: False
      have re: realend using Cons.prems(4) out by simp
      have a_x: "a + ucast bs \<le> addr ?x"
        using out Cons.prems(3)[of it] True by (simp add: in_block_def not_less)
      have "\<not> in_block a bs v" if "v \<in> set (drop (Suc it) vs)" for v
      proof -
        from that obtain j where "v = vs ! (Suc it + j)" "Suc it + j < length vs"
          by (auto simp: in_set_conv_nth)
        then have "addr ?x < addr v" using set_ok_nth_less[OF Cons.prems(1), of it "Suc it + j"] by simp
        with a_x show ?thesis by (auto simp: in_block_def)
      qed
      then have none: "filter (in_block a bs) (drop (Suc it) vs) = []" by (simp add: filter_empty_conv)
      have "lifetime_loop a bs RW is (it + 1) realend vs = (True, take (it + 1) vs @ map ?g (drop (it + 1) vs))"
        using Cons.prems(1,3) True re none by (intro Cons.IH) simp_all
      moreover have "take (it + 1) vs = take it vs @ [?x]"
        using True by (simp add: take_Suc_conv_app_nth)
      moreover have "\<not> (a \<le> addr ?x \<and> addr ?x < a + ucast bs)"
        using out by (simp add: in_block_def)
      ultimately show ?thesis using True out by (simp add: d del: de_Morgan_conj)
    qed
  qed
qed

text \<open>An ordered set has at most \<open>n - k\<close> entries between offsets \<open>k\<close> and \<open>n\<close>.\<close>

lemma block_entries_bound:
  assumes "set_ok vs" "unat a + unat n < 2 ^ 64" "\<And>v. v \<in> set vs \<Longrightarrow> unat a + k \<le> unat (addr v)"
  shows "length (filter (in_block a n) vs) \<le> unat n - k"
proof -
  let ?ws = "filter (in_block a n) vs"
  have "sorted_wrt (<) (map addr ?ws)"
    using assms(1) by (simp add: set_ok_def sorted_wrt_map sorted_wrt_filter)
  then have "distinct (map addr ?ws)" by (simp add: strict_sorted_iff)
  then have d: "distinct (map (unat \<circ> addr) ?ws)"
    by (simp add: distinct_map inj_on_def) (metis unsigned_word_eqI)
  have "set (map (unat \<circ> addr) ?ws) \<subseteq> {unat a + k ..< unat a + unat n}"
    using assms(3) by (auto simp: in_block_def word_less_nat_alt unat_block_end[OF assms(2)])
  then have "card (set (map (unat \<circ> addr) ?ws)) \<le> card {unat a + k ..< unat a + unat n}"
    by (intro card_mono) simp_all
  then show ?thesis using distinct_card[OF d] by simp
qed

definition settle_block :: "u64 \<Rightarrow> u32 \<Rightarrow> bool \<Rightarrow> appvar \<Rightarrow> appvar" where
  "settle_block a n RW v = (if in_block a n v then settle_lifetime RW v else v)"

lemma no_settle:
  "(\<And>v. v \<in> set vs \<Longrightarrow> \<not> in_block a n v) \<Longrightarrow> map (settle_block a n RW) vs = vs"
  by (intro map_idI) (simp add: settle_block_def)

lemma set_before_find:
  assumes "set_ok vs" "b \<in> set_addrs vs" "v \<in> set vs"
  shows "v \<in> set (take (set_find b vs) vs) \<longleftrightarrow> addr v < b"
proof -
  let ?k = "set_find b vs"
  have k: "?k < length vs" "addr (vs ! ?k) = b" using set_find_nth[OF assms(2)] by auto
  obtain j where j: "j < length vs" "v = vs ! j" using assms(3) by (auto simp: in_set_conv_nth)
  have "v \<in> set (take ?k vs) \<longleftrightarrow> j < ?k"
  proof
    assume "v \<in> set (take ?k vs)"
    then obtain i where "i < ?k" "v = vs ! i" using k by (auto simp: in_set_conv_nth)
    then show "j < ?k" using j k set_ok_nth_eq[OF assms(1), of i j] by auto
  next
    assume "j < ?k"
    then have "take ?k vs ! j = v" "j < length (take ?k vs)" using j k by simp_all
    then show "v \<in> set (take ?k vs)" by (metis nth_mem)
  qed
  also have "j < ?k \<longleftrightarrow> addr v < b"
    using set_ok_nth_less[OF assms(1), of j ?k] set_ok_nth_less[OF assms(1), of ?k j] j k
    by (metis less_asym linorder_neqE_nat order_less_irrefl)
  finally show ?thesis .
qed

lemma set_addrsI: "v \<in> set vs \<Longrightarrow> addr v = b \<Longrightarrow> b \<in> set_addrs vs"
  by (auto simp: set_addrs_def)

lemma block_free:
  assumes "unat a + unat n < 2 ^ 64" "\<And>i. i < unat n \<Longrightarrow> a + of_nat i \<notin> set_addrs vs"
    and "v \<in> set vs"
  shows "\<not> in_block a n v"
  unfolding in_block_iff[OF assms(1)] using assms(2) set_addrsI[OF assms(3)] by blast

text \<open>From the iterator found at offset \<open>k\<close> on, the loop settles all that is left of the block.\<close>

lemma lifetime_loop_found:
  assumes "set_ok vs" "unat a + unat n < 2 ^ 64" "k < unat n" "a + of_nat k \<in> set_addrs vs"
    and "\<And>i. i < k \<Longrightarrow> a + of_nat i \<notin> set_addrs vs" and "unat n - k \<le> length is"
  shows "lifetime_loop a n RW is (set_find (a + of_nat k) vs) False vs
    = (True, map (settle_block a n RW) vs)"
proof -
  let ?b = "a + of_nat k" and ?it = "set_find (a + of_nat k) vs"
  have k: "?it < length vs" "addr (vs ! ?it) = ?b" using set_find_nth[OF assms(4)] by auto
  have b: "unat ?b = unat a + k" using assms(2,3) by (simp add: unat_offset)
  have after_it: "unat a + k \<le> unat (addr (vs ! j))" if "?it \<le> j" "j < length vs" for j
    using set_ok_nth_less[OF assms(1), of ?it j] that k b
    by (cases "j = ?it") (auto simp: word_less_nat_alt)
  have r: "lifetime_loop a n RW is ?it False vs = (True, take ?it vs @
    map (\<lambda>v. if in_block a n v then settle_lifetime RW v else v) (drop ?it vs))"
  proof (rule lifetime_loop_from[OF assms(1)])
    show "a \<le> addr (vs ! j)" if "?it \<le> j" "j < length vs" for j
      using after_it[OF that] by (simp add: word_le_nat_alt)
    have "in_block a n (vs ! ?it)" unfolding in_block_iff[OF assms(2)] using k assms(3) by auto
    then show "False \<or> ?it < length vs \<and> in_block a n (vs ! ?it)" using k by simp
    have "length (filter (in_block a n) (drop ?it vs)) \<le> unat n - k"
    proof (rule block_entries_bound[OF _ assms(2)])
      show "set_ok (drop ?it vs)" using assms(1) by (simp add: set_ok_def sorted_wrt_drop)
      show "unat a + k \<le> unat (addr v)" if "v \<in> set (drop ?it vs)" for v
        using that after_it by (auto simp: in_set_conv_nth)
    qed
    then show "length (filter (in_block a n) (drop ?it vs)) \<le> length is" using assms(6) by simp
  qed simp
  have "\<not> in_block a n v" if "v \<in> set (take ?it vs)" for v
  proof
    assume "in_block a n v"
    then obtain i where i: "i < unat n" "addr v = a + of_nat i"
      unfolding in_block_iff[OF assms(2)] by auto
    have v: "v \<in> set vs" using that by (rule in_set_takeD)
    then have "addr v < ?b" using set_before_find[OF assms(1,4) v] that by simp
    then have "i < k" using i assms(2,3) by (simp add: word_less_nat_alt unat_offset)
    then show False using assms(5) set_addrsI[OF v i(2)] by blast
  qed
  then have "take ?it vs = map (settle_block a n RW) (take ?it vs)" using no_settle by metis
  then show ?thesis unfolding r settle_block_def[abs_def] 
    by (metis (no_types, lifting) append_take_drop_id map_append)
qed

lemma lifetime_loop_search:
  assumes "set_ok vs" "unat a + unat n < 2 ^ 64" "k \<le> unat n + 1"
    and "\<And>i. i < k \<Longrightarrow> i < unat n \<Longrightarrow> a + of_nat i \<notin> set_addrs vs"
  shows "lifetime_loop a n RW [k..<unat n + 1] (length vs) False vs
    = (True, map (settle_block a n RW) vs)"
  using assms(3,4)
proof (induction "unat n + 1 - k" arbitrary: k)
  case 0
  then have "\<not> in_block a n v" if "v \<in> set vs" for v
    using that by (intro block_free[OF assms(2)]) simp_all
  then show ?case using 0 by (simp add: no_settle)
next
  case (Suc m)
  then have l: "[k..<unat n + 1] = k # [Suc k..<unat n + 1]" by (intro upt_conv_Cons) simp
  show ?case
  proof (cases "a + of_nat k \<in> set_addrs vs")
    case True
    show ?thesis
    proof (cases "k < unat n")
      case k: True
      have "lifetime_loop a n RW [Suc k..<unat n + 1] (set_find (a + of_nat k) vs) False vs
        = (True, map (settle_block a n RW) vs)"
        by (rule lifetime_loop_found[OF assms(1,2) k True]) (use Suc.prems k in simp_all)
      then show ?thesis unfolding l by simp
    next
      case False
      then have "\<not> in_block a n v" if "v \<in> set vs" for v
        using that Suc.prems by (intro block_free[OF assms(2)]) simp_all
      then show ?thesis using False unfolding l by (simp add: no_settle)
    qed
  next
    case False
    then have "set_find (a + of_nat k) vs = length vs" by (simp add: set_find_end)
    moreover have "lifetime_loop a n RW [Suc k..<unat n + 1] (length vs) False vs
        = (True, map (settle_block a n RW) vs)"
      using Suc False by (intro Suc.hyps(1)) (auto simp: less_Suc_eq)
    ultimately show ?thesis unfolding l by simp
  qed
qed

lemma lifetime_loop_block:
  assumes "set_ok vs" "unat a + unat n < 2 ^ 64"
  shows "lifetime_loop a n RW [0..<unat n + 1] (set_find a vs) False vs
    = (True, map (settle_block a n RW) vs)"
proof (cases "a \<in> set_addrs vs \<and> 0 < unat n")
  case True
  then show ?thesis using lifetime_loop_found[OF assms, of 0 "[0..<unat n + 1]"] by simp
next
  case False
  show ?thesis
  proof (cases "a \<in> set_addrs vs")
    case True
    with False have "unat n = 0" by simp
    then have nb: "\<not> in_block a n v" for v unfolding in_block_iff[OF assms(2)] by simp
    have "\<not> (a \<le> addr v \<and> addr v < a + ucast n)" for v :: appvar
      using nb[of v] unfolding in_block_def .
    then show ?thesis using \<open>unat n = 0\<close> nb by (simp add: no_settle del: de_Morgan_conj)
  next
    case False
    then have "set_find a vs = length vs" by (simp add: set_find_end)
    then show ?thesis using lifetime_loop_search[OF assms, of 0] by simp
  qed
qed

lemma distinct_page: "distinct (page_addrs a)"
proof -
  have "distinct (addr_range b (unat (c :: u64)))" for b c
    using unsigned_less[of c, where 'a = nat] by (intro distinct_addr_range) simp
  then show ?thesis by (simp add: page_addrs_def Let_def)
qed

definition page_lifetime :: "u64 \<Rightarrow> u64 \<Rightarrow> appvar \<Rightarrow> appvar" where
  "page_lifetime a i v = (if addr v \<in> set (page_addrs a) then poten_lifetime i v else v)"

lemma keeps_addr_block [simp]: "keeps_addr (settle_block a n RW)" "keeps_addr (page_lifetime a i)"
  unfolding settle_block_def[abs_def] page_lifetime_def[abs_def]
  by (intro keeps_addr_intros keeps_addr_simple)+

lemma update_liftime_eq:
  assumes "registry_inv s" "unat a + unat n < 2 ^ 64"
  shows "update_liftime a now lpacc RW n s = (\<not> outside_window a n s,
    s\<lparr>approx_vars := map (settle_block a n RW \<circ>
       page_lifetime a (if now \<ge> lpacc then now - lpacc else lpacc - now)) (approx_vars s)\<rparr>)"
proof -
  let ?i = "if now \<ge> lpacc then now - lpacc else lpacc - now"
  let ?vs = "map (page_lifetime a ?i) (approx_vars s)"
  have ok: "set_ok (approx_vars s)" using assms(1) by (simp add: registry_inv_def)
  have page: "fold (\<lambda>a. set_touch a (poten_lifetime ?i)) (page_addrs a) (approx_vars s) = ?vs"
    by (simp add: fold_set_touch[OF ok distinct_page] page_lifetime_def[abs_def])
  have "set_ok ?vs" using ok by simp
  note loop = lifetime_loop_block[OF this assms(2), of RW]
  have out: "outside_window a n (s\<lparr>approx_vars := ?vs\<rparr>) = outside_window a n s"
    by (simp add: outside_window_def)
  have "update_liftime a now lpacc RW n s = (\<not> outside_window a n s,
      s\<lparr>approx_vars := map (settle_block a n RW) ?vs\<rparr>)"
  proof (cases "outside_window a n s")
    case True
    have "map (settle_block a n RW) ?vs = ?vs"
    proof (rule no_settle)
      fix v assume "v \<in> set ?vs"
      then obtain w where "w \<in> set (approx_vars s)" "v = page_lifetime a ?i w" by auto
      then show "\<not> in_block a n v"
        using outside_window_sound[OF assms True] by (simp add: in_block_def)
    qed
    then show ?thesis using True
      unfolding update_liftime_def Let_def page out by simp
  next
    case False
    then show ?thesis
      unfolding update_liftime_def Let_def page out using loop by simp
  qed
  then show ?thesis by (simp only: map_map)
qed

text \<open>The page loop visits the 4096 bytes of the page; the last page of the address space is
  skipped, because its upper bound wraps to 0.\<close>

lemma page_bounds:
  "(a div PAGE_SIZE) * PAGE_SIZE = of_nat (unat a div 4096 * 4096)"
  "(a div PAGE_SIZE + 1) * PAGE_SIZE = of_nat ((unat a div 4096 + 1) * 4096)"
proof -
  have "a div PAGE_SIZE = of_nat (unat a div 4096)"
    unfolding PAGE_SIZE_def by (simp add: word_arith_nat_div)
  then show "(a div PAGE_SIZE) * PAGE_SIZE = of_nat (unat a div 4096 * 4096)"
    and "(a div PAGE_SIZE + 1) * PAGE_SIZE = of_nat ((unat a div 4096 + 1) * 4096)"
    by (simp_all add: PAGE_SIZE_def)
qed

lemma unat_of_nat_64: "k < 2 ^ 64 \<Longrightarrow> unat (of_nat k :: u64) = k"
  by (simp add: unat_of_nat)

lemma mem_page_addrs:
  assumes "unat a < 2 ^ 64 - 4096"
  shows "b \<in> set (page_addrs a) \<longleftrightarrow> unat b div 4096 = unat a div 4096"
proof -
  let ?q = "unat a div 4096"
  let ?lo = "of_nat (?q * 4096) :: u64"
  have q: "(?q + 1) * 4096 < 2 ^ 64"
    using assms div_times_less_eq_dividend[of "unat a" 4096] by simp
  have lo: "unat ?lo = ?q * 4096" using q by (intro unat_of_nat_64) simp
  have hi: "of_nat ((?q + 1) * 4096) = ?lo + 4096" by simp
  have "unat (?lo + 4096) = ?q * 4096 + 4096"
    using unat_offset[of ?lo 4096] lo q by simp
  then have "?lo < ?lo + 4096" by (simp only: word_less_nat_alt lo)
  then have "page_addrs a = addr_range ?lo 4096"
    unfolding page_addrs_def Let_def page_bounds hi by simp
  moreover have "(\<exists>i<4096. b = ?lo + of_nat i) \<longleftrightarrow> unat b div 4096 = ?q"
  proof
    assume "\<exists>i<4096. b = ?lo + of_nat i"
    then obtain i where "i < 4096" "b = ?lo + of_nat i" by auto
    then have "unat b = ?q * 4096 + i" using unat_offset[of ?lo i] lo q by simp
    then show "unat b div 4096 = ?q" using \<open>i < 4096\<close> by simp
  next
    assume b: "unat b div 4096 = ?q"
    have "unat (?lo + of_nat (unat b mod 4096)) = unat b"
    proof -
      have e: "?q * 4096 + unat b mod 4096 = unat b" using b div_mult_mod_eq[of "unat b" 4096] by simp
      have r: "unat ?lo + unat b mod 4096 < 2 ^ 64"
        unfolding lo e using unsigned_less[of b, where 'a = nat] by simp
      show ?thesis unfolding unat_offset[OF r] lo e ..
    qed
    then show "\<exists>i<4096. b = ?lo + of_nat i"
      by (intro exI[of _ "unat b mod 4096"] conjI) (rule mod_less_divisor, simp, rule sym, erule unsigned_word_eqI)
  qed
  ultimately show ?thesis by (simp only: set_addr_range)
qed

lemma registry_inv_map:
  assumes "registry_inv s" "keeps_addr f"
  shows "registry_inv (s\<lparr>approx_vars := map f (approx_vars s)\<rparr>)"
  using assms by (simp add: registry_inv_def reg_addrs_def)

lemma fold_touch_block:
  assumes "registry_inv s" "keeps_addr f"
  shows "fold (\<lambda>a. set_touch a f) (addr_range a (unat (n :: u32))) (approx_vars s) =
    map (\<lambda>v. if addr v \<in> set (addr_range a (unat n)) then f v else v) (approx_vars s)"
  using fold_set_touch[OF _ distinct_block assms(2)] assms(1) by (simp add: registry_inv_def)

lemma keeps_addr_if: "keeps_addr f \<Longrightarrow> keeps_addr (\<lambda>v. if b v then f v else v)"
  by (rule keeps_addr_intros) (auto intro: keeps_addr_intros)

section \<open>Accesses do not change which addresses are approximate\<close>

lemma set_addrs_update [simp]: "keeps_addr f \<Longrightarrow> set_addrs (vs[i := f (vs ! i)]) = set_addrs vs"
proof -
  assume k: "keeps_addr f"
  have "map addr (vs[i := f (vs ! i)]) = map addr vs"
    using k by (cases "i < length vs") (simp_all add: map_update list_update_same_conv list_update_beyond)
  then show ?thesis by (metis set_addrs_def set_map)
qed

lemma acc_loop_addrs: "keeps_addr f \<Longrightarrow> set_addrs (acc_loop f as vs) = set_addrs vs"
proof (induction as arbitrary: vs)
  case (Cons a as)
  show ?case
  proof (cases "a \<in> set_addrs vs")
    case True
    then show ?thesis using Cons by (simp add: Let_def)
  qed (simp add: set_find_end)
qed simp

lemma acc_same_approx [simp]:
  "is_approx b (add_read_acc a c l n rg) = is_approx b rg"
  "is_approx b (add_write_acc a c l n rg) = is_approx b rg"
  by (simp_all add: is_approx_iff reg_addrs_def add_read_acc_def add_write_acc_def acc_loop_addrs)

lemma acc_same_block [simp]:
  "is_block_approx b m (add_read_acc a c l n rg) = is_block_approx b m rg"
  "is_block_approx b m (add_write_acc a c l n rg) = is_block_approx b m rg"
  by (simp_all add: is_block_approx_iff is_approx_iff[symmetric])

lemma set_touch_addrs [simp]: "keeps_addr f \<Longrightarrow> set_addrs (set_touch a f vs) = set_addrs vs"
  by (simp add: set_touch_def Let_def)

lemma fold_touch_addrs: "keeps_addr f \<Longrightarrow> set_addrs (fold (\<lambda>a. set_touch a f) as vs) = set_addrs vs"
  by (induction as arbitrary: vs) simp_all

lemma lifetime_loop_addrs: "set_addrs (snd (lifetime_loop a bs RW js it re vs)) = set_addrs vs"
  by (induction a bs RW js it re vs rule: lifetime_loop.induct) simp_all

lemma lifetime_same_approx [simp]:
  "is_approx b (snd (update_liftime a now l RW n rg)) = is_approx b rg"
  "is_block_approx e m (snd (update_liftime a now l RW n rg)) = is_block_approx e m rg"
proof -
  have "reg_addrs (snd (update_liftime a now l RW n rg)) = reg_addrs rg"
    using lifetime_loop_addrs
    by (simp add: update_liftime_def reg_addrs_def Let_def case_prod_beta fold_touch_addrs)
  then show "is_approx b (snd (update_liftime a now l RW n rg)) = is_approx b rg"
    and "is_block_approx e m (snd (update_liftime a now l RW n rg)) = is_block_approx e m rg"
    by (simp_all add: is_approx_iff is_block_approx_iff)
qed

section \<open>Properties of the registry\<close>

text \<open>
  C12. The ordered set is a set of addresses: \<open>add_approx\<close> and \<open>del_approx\<close> insert and remove
  exactly their address and report whether it was new or present, and \<open>is_block_approx\<close> finds a
  block iff one of its bytes was registered.
\<close>

theorem registry_is_set:
  assumes "registry_inv s"
  shows "(fst (add_approx a 0 s) \<longleftrightarrow> \<not> is_approx a s) \<and>
    (fst (del_approx a s) \<longleftrightarrow> is_approx a s) \<and>
    (is_approx b (snd (add_approx a 0 s)) \<longleftrightarrow> b = a \<or> is_approx b s) \<and>
    (is_approx b (snd (del_approx a s)) \<longleftrightarrow> b \<noteq> a \<and> is_approx b s) \<and>
    (is_block_approx b n s \<longleftrightarrow> (\<exists>i<unat n. is_approx (b + of_nat i) s))"
  using rg.mem_add[OF assms] rg.mem_del[OF assms] rg.add_new[OF assms] rg.del_old[OF assms]
  by (simp add: is_block_approx_iff is_approx_iff)

theorem registry_is_set_witness:
  "is_approx 7 (snd (add_approx 7 0 registry_init)) \<and>
   \<not> is_approx 8 (snd (add_approx 7 0 registry_init))"
proof -
  have "\<not> is_approx 8 registry_init" by (simp add: is_approx_def registry_init_def set_find_def)
  then show ?thesis
    using registry_is_set[OF registry_inv_init, of 7 7] registry_is_set[OF registry_inv_init, of 7 8]
    by auto
qed

text \<open>
  Every operation keeps the registry well formed: entries in strictly ascending order, inside
  the window \<open>start_addr\<close> to \<open>end_addr\<close> that the access counters filter by.
\<close>

theorem registry_ops_inv:
  assumes "registry_inv s" "unat a + unat n < 2 ^ 64"
  shows "registry_inv (snd (add_approx a k s)) \<and> registry_inv (snd (del_approx a s)) \<and>
    registry_inv (add_read_acc a cid lvl n s) \<and> registry_inv (add_write_acc a cid lvl n s) \<and>
    registry_inv (snd (update_liftime a now lpacc RW n s)) \<and>
    registry_inv (reset_cnters a n s) \<and> registry_inv (upsave_cnters a n s) \<and>
    registry_inv (add_pure_acc a cid lvl rd s)"
proof (intro conjI)
  show "registry_inv (add_read_acc a cid lvl n s)" "registry_inv (add_write_acc a cid lvl n s)"
    unfolding add_read_acc_def add_write_acc_def guarded_acc[OF assms keeps_addr_inc(1)]
      guarded_acc[OF assms keeps_addr_inc(2)]
    by (intro registry_inv_map[OF assms(1)] keeps_addr_if keeps_addr_inc)+
  have "keeps_addr (settle_block a n RW \<circ> page_lifetime a i)" for i
    unfolding keeps_addr_def by simp
  then show "registry_inv (snd (update_liftime a now lpacc RW n s))"
    unfolding update_liftime_eq[OF assms] snd_conv by (intro registry_inv_map[OF assms(1)])
  show "registry_inv (reset_cnters a n s)" "registry_inv (upsave_cnters a n s)"
    unfolding reset_cnters_def upsave_cnters_def fold_touch_block[OF assms(1) keeps_addr_reset]
      fold_touch_block[OF assms(1) keeps_addr_upsave]
    by (intro registry_inv_map[OF assms(1)] keeps_addr_if keeps_addr_reset keeps_addr_upsave)+
  have "set_ok (approx_vars s)" using assms(1) by (simp add: registry_inv_def)
  from set_touch_map[OF this] show "registry_inv (add_pure_acc a cid lvl rd s)"
    unfolding add_pure_acc_def
    by (simp only:) (intro registry_inv_map[OF assms(1)] keeps_addr_if keeps_addr_pure_acc)
qed (simp_all add: assms(1) add_approx_inv del_approx_inv)

theorem registry_ops_inv_witness: "registry_inv (upsave_cnters 64 64 registry_init)"
  using registry_ops_inv[OF registry_inv_init, of 64 64] by simp

text \<open>\<open>add_read_acc\<close> and \<open>add_write_acc\<close> count one access for the approximate bytes of a block
  up to the first byte that is not approximate, and change nothing else; the window guard never
  loses an access. (The loops \<open>return\<close> at that byte, so the approximate bytes after it are
  not counted.)
\<close>

lemma block_accesses_counted:
  assumes "registry_inv s" "unat a + unat n < 2 ^ 64"
  shows "add_read_acc a cid lvl n s = s\<lparr>approx_vars := map (\<lambda>v.
      if addr v \<in> set (approx_prefix a n s) then inc_read_cnt cid lvl v else v) (approx_vars s)\<rparr> \<and>
    add_write_acc a cid lvl n s = s\<lparr>approx_vars := map (\<lambda>v.
      if addr v \<in> set (approx_prefix a n s) then inc_write_cnt cid lvl v else v) (approx_vars s)\<rparr>"
  unfolding add_read_acc_def add_write_acc_def
  by (simp only: guarded_acc[OF assms keeps_addr_inc(1)] guarded_acc[OF assms keeps_addr_inc(2)])

lemma block_accesses_counted_witness:
  "L2_read_cnt (poten (hd (approx_vars
     (add_read_acc 4 0 ''L2'' 2 (snd (add_approx 4 0 registry_init)))))) = 1"
  using block_accesses_counted[OF add_approx_inv[OF registry_inv_init, of 4 0], of 4 2 0 "''L2''"]
  by (simp add: add_approx_def registry_init_def new_appvar_def zero_counts_def approx_prefix_def
      addr_range_def is_approx_def set_find_def inc_read_cnt_def is_l1d_def is_l2_def upt_rec)

text \<open>
  C27. \<open>update_liftime\<close> raises the potential lifetime of every registered byte of the page to the
  interval since the last access of the page, then settles the registered bytes of the block: a
  read makes the potential value the lifetime, a write takes it back. The iterator loop misses no
  byte of the block and touches none outside. The result tells whether the block meets the
  window, not whether it is approximate.
\<close>

theorem update_liftime_spec:
  assumes "registry_inv s" "unat a + unat n < 2 ^ 64" "unat a < 2 ^ 64 - 4096"
  shows "update_liftime a now lpacc RW n s = (\<not> outside_window a n s,
    s\<lparr>approx_vars := map (\<lambda>v.
        let w = (if unat (addr v) div 4096 = unat a div 4096
                 then poten_lifetime (if now \<ge> lpacc then now - lpacc else lpacc - now) v else v)
        in if \<exists>i<unat n. addr v = a + of_nat i then settle_lifetime RW w else w) (approx_vars s)\<rparr>)"
proof -
  have k: "addr (page_lifetime a i v) = addr v" for i v by simp
  have "(settle_block a n RW \<circ> page_lifetime a i) v = (let w = (if unat (addr v) div 4096 = unat a div 4096
      then poten_lifetime i v else v)
    in if \<exists>i<unat n. addr v = a + of_nat i then settle_lifetime RW w else w)" for i v
    unfolding comp_def settle_block_def in_block_iff[OF assms(2)] k
    unfolding page_lifetime_def mem_page_addrs[OF assms(3)] Let_def by (rule refl)
  then show ?thesis unfolding update_liftime_eq[OF assms(1,2)] by (simp only: comp_def)
qed

theorem update_liftime_spec_witness:
  "fst (update_liftime 8192 9 4 True 64 registry_init) = (\<not> outside_window 8192 64 registry_init)"
  by (subst update_liftime_spec[OF registry_inv_init]) simp_all

end
