(* ===== verification/Magic_Server.thy ===== *)
theory Magic_Server
  imports Approx_Adder Approx_Registry
begin

text \<open>
  The magic instructions: \<open>src/common/system/magic_client.cc\<close> decides which commands reach the
  server, \<open>MagicServer::Magic_unlocked\<close> and its helpers in
  \<open>src/common/system/magic_server.cc\<close> execute them.

  The rest of the simulator is an environment: what it answers (configuration, instruction
  counts, frequencies, memory contents, the value of a user hook) is the record \<open>magic_env\<close>,
  what it is told is the list of \<open>magic_event\<close>s. The commands are a datatype with one constructor per name of
  \<open>src/include/sim_api.h\<close>; \<open>decode_cmd\<close> reads their numbers.

  A command can stop the simulator (\<open>Inl\<close>) and the loops of \<open>SIM_CMD_ADD_APPROX_ADDRS\<close> and
  \<open>SIM_CMD_DEL_APPROX_ADDRS\<close> need not end (\<open>None\<close>): they compare a 32-bit counter with a 64-bit
  bound.
\<close>

section \<open>Commands, environment and state\<close>

datatype magic_cmd =
    SIM_CMD_ROI_TOGGLE | SIM_CMD_ROI_START | SIM_CMD_ROI_END
  | SIM_CMD_MHZ_SET | SIM_CMD_MHZ_GET
  | SIM_CMD_NAMED_MARKER | SIM_CMD_SET_THREAD_NAME | SIM_CMD_MARKER | SIM_CMD_USER
  | SIM_CMD_INSTRUMENT_MODE
  | SIM_CMD_ADD_APPROX_ADDRS | SIM_CMD_DEL_APPROX_ADDRS
  | SIM_CMD_ADD_OP | SIM_CMD_ADD_CNT | SIM_CMD_MUL_OP | SIM_CMD_MUL_CNT
  | SIM_CMD_PROC_ID | SIM_CMD_THREAD_ID | SIM_CMD_NUM_PROCS | SIM_CMD_NUM_THREADS
  | SIM_CMD_IN_SIMULATOR
  | SIM_CMD_UNKNOWN u64

text \<open>The numbers an instrumented program passes.\<close>

definition numbered_cmds :: "magic_cmd list" where
  "numbered_cmds =
     [SIM_CMD_ROI_TOGGLE, SIM_CMD_ROI_START, SIM_CMD_ROI_END, SIM_CMD_MHZ_SET, SIM_CMD_MARKER,
      SIM_CMD_USER, SIM_CMD_INSTRUMENT_MODE, SIM_CMD_MHZ_GET, SIM_CMD_IN_SIMULATOR, SIM_CMD_PROC_ID,
      SIM_CMD_THREAD_ID, SIM_CMD_NUM_PROCS, SIM_CMD_NUM_THREADS, SIM_CMD_NAMED_MARKER,
      SIM_CMD_SET_THREAD_NAME, SIM_CMD_ADD_OP, SIM_CMD_ADD_CNT, SIM_CMD_ADD_APPROX_ADDRS,
      SIM_CMD_DEL_APPROX_ADDRS, SIM_CMD_MUL_OP, SIM_CMD_MUL_CNT]"

definition decode_cmd :: "u64 \<Rightarrow> magic_cmd" where
  "decode_cmd n = (if unat n < length numbered_cmds then numbered_cmds ! unat n else SIM_CMD_UNKNOWN n)"

datatype inst_mode = DETAILED | CACHE_ONLY | FAST_FORWARD | inst_mode_roi | inst_mode_end

record magic_marker =
  mm_thread_id :: int
  mm_core_id :: int
  mm_arg0 :: u64
  mm_arg1 :: u64
  mm_str :: "bytes option"

datatype magic_event =
    HookApplicationRoiBegin | HookApplicationRoiEnd
  | HookRoiBegin | HookRoiEnd
  | HookCpufreqChange u64
  | HookMagicMarker magic_marker
  | HookMagicUser magic_marker
  | LogmemEnable bool | LogmemWriteAllocations
  | RecordStats string
  | EnablePerformanceModels | DisablePerformanceModels
  | SetInstrumentationMode inst_mode
  | SimulatedInstructions u64
  | PinDetach
  | SetCoreDomain u64 u64
  | StallThread u64 | SetCoreBroken u64
  | LogThreadName int int bytes | SetThreadName int bytes
  | ApproxLog "string list"

record magic_env =
  roi_magic :: bool
  app_cores :: u32
  injector_cfg :: string
  footprint_enable :: bool
  instruction_count :: "nat \<Rightarrow> u64"
  core_freq_mhz :: "u64 \<Rightarrow> u64"
  read_memory :: "int \<Rightarrow> u64 \<Rightarrow> bytes"
  user_hook :: "magic_marker \<Rightarrow> u64"
  shift_one :: "nat \<Rightarrow> u64"
  multiplier :: "nat \<Rightarrow> 16 word \<Rightarrow> 16 word \<Rightarrow> u32"
  core_of_thread :: "int \<Rightarrow> int option"
  current_core :: int
  num_threads :: u64
  invalid_thread_id :: int
  invalid_core_id :: int

record magic_server =
  m_performance_enabled :: bool
  approx_adds :: u64
  approx_muls :: u64
  reg :: registry
  marker_log_opened :: bool
  del_log_opened :: bool
  ninstrs_start :: u64
  events :: "magic_event list"

text \<open>The constructor leaves \<open>approx_adds\<close> and \<open>approx_muls\<close> as they are in memory: their initial
  values are the arguments.\<close>

definition magic_server_init :: "u64 \<Rightarrow> u64 \<Rightarrow> magic_server" where
  "magic_server_init adds muls = \<lparr>m_performance_enabled = False, approx_adds = adds,
     approx_muls = muls, reg = registry_init, marker_log_opened = False, del_log_opened = False,
     ninstrs_start = 0, events = []\<rparr>"

definition emit :: "magic_event list \<Rightarrow> magic_server \<Rightarrow> magic_server" where
  "emit es s = s\<lparr>events := events s @ es\<rparr>"

section \<open>Regions of interest\<close>

definition getGlobalInstructionCount :: "magic_env \<Rightarrow> u64" where
  "getGlobalInstructionCount env =
     fold (\<lambda>i n. n + instruction_count env i) [0..<unat (app_cores env)] 0"

definition enablePerformance :: "magic_env \<Rightarrow> magic_server \<Rightarrow> magic_server" where
  "enablePerformance env s =
     (let s = emit [RecordStats ''roi-begin''] s;
          s = s\<lparr>ninstrs_start := getGlobalInstructionCount env\<rparr>
      in emit [EnablePerformanceModels, SetInstrumentationMode inst_mode_roi] s)"

definition disablePerformance :: "magic_env \<Rightarrow> magic_server \<Rightarrow> magic_server" where
  "disablePerformance env s =
     emit [DisablePerformanceModels, RecordStats ''roi-end'',
           SimulatedInstructions (getGlobalInstructionCount env - ninstrs_start s),
           SetInstrumentationMode inst_mode_end, PinDetach] s"

definition setPerformance :: "magic_env \<Rightarrow> bool \<Rightarrow> magic_server \<Rightarrow> u64 \<times> magic_server" where
  "setPerformance env enabled s =
     (if m_performance_enabled s = enabled then (1, s)
      else (let s = s\<lparr>m_performance_enabled := enabled\<rparr>;
                s = (if m_performance_enabled s then emit [LogmemEnable True, HookRoiBegin] s
                     else emit [HookRoiEnd, LogmemEnable False, LogmemWriteAllocations] s);
                s = (if enabled then enablePerformance env s else disablePerformance env s)
            in (0, s)))"

definition setFrequency :: "magic_env \<Rightarrow> u64 \<Rightarrow> u64 \<Rightarrow> magic_server \<Rightarrow> u64 \<times> magic_server" where
  "setFrequency env core_number freq_in_mhz s =
     (if core_number \<ge> ucast (app_cores env) then (1, s)
      else (let freq_in_hz = 1000000 * freq_in_mhz;
                s = (if freq_in_hz > 0 then emit [SetCoreDomain core_number freq_in_hz] s
                     else emit [StallThread core_number, SetCoreBroken core_number] s)
            in (0, emit [HookCpufreqChange core_number] s)))"

definition getFrequency :: "magic_env \<Rightarrow> u64 \<Rightarrow> u64" where
  "getFrequency env core_number =
     (if core_number \<ge> ucast (app_cores env) then - 1 else core_freq_mhz env core_number)"

definition setInstrumentationMode :: "u64 \<Rightarrow> magic_server \<Rightarrow> (u64 \<times> magic_server) result" where
  "setInstrumentationMode sim_api_opt s =
     bindE (if sim_api_opt = 0 then Inr DETAILED
            else if sim_api_opt = 1 then Inr CACHE_ONLY
            else if sim_api_opt = 2 then Inr FAST_FORWARD
            else Inl (LogError ''Unexpected magic instrument opt type''))
       (\<lambda>mode. Inr (0, emit [SetInstrumentationMode mode] s))"

section \<open>Approximate addresses\<close>

text \<open>\<open>for (unsigned int i=0; i<arg1; i++)\<close> with a body that is given the address \<open>arg0+i\<close>.\<close>

partial_function (option) u32_loop ::
  "(u64 \<Rightarrow> 'r \<Rightarrow> 'r) \<Rightarrow> u32 \<Rightarrow> u64 \<Rightarrow> u64 \<Rightarrow> 'r \<Rightarrow> 'r option" where
  "u32_loop body i arg0 arg1 r =
     (if ucast i < arg1 then u32_loop body (i + 1) arg0 arg1 (body (arg0 + ucast i) r)
      else Some r)"

declare u32_loop.simps [code]

definition add_range :: "u64 \<Rightarrow> u64 \<Rightarrow> registry \<Rightarrow> registry option" where
  "add_range arg0 arg1 = u32_loop (\<lambda>a r. snd (add_approx a 0 r)) 0 arg0 arg1"

definition del_range :: "u64 \<Rightarrow> u64 \<Rightarrow> registry \<Rightarrow> registry option" where
  "del_range arg0 arg1 = u32_loop (\<lambda>a r. snd (del_approx a r)) 0 arg0 arg1"

definition marker_header :: string where
  "marker_header = concat (map (\<lambda>c. c @ tabs) [''ADDR '', ''L1_READS(0)'', ''L1_WRITES(0)'',
     ''L1_READS(1)'', ''L1_WRITES(1)'', ''L1_READS(2)'', ''L1_WRITES(2)'', ''L1_READS(3)'',
     ''L1_WRITES(3)'', ''L2_READS'', ''L2_WRITES'']) @ ''LIFETIME''"

definition del_header :: string where
  "del_header = concat (map (\<lambda>c. c @ tabs) [''ADDR '', ''L1_READS'', ''L1_WRITES'', ''L2_READS'',
     ''L2_WRITES'', ''LIFETIME'', ''APPROX_ADD'']) @ ''APPROX_MUL''"

text \<open>The log a marker writes: every entry is upsaved and printed, in the order of the set.\<close>

definition marker_log :: "magic_env \<Rightarrow> magic_server \<Rightarrow> magic_server" where
  "marker_log env s =
     (if \<not> marker_log_opened s \<and> injector_cfg env = ''none'' then
        (if footprint_enable env then
           (let vs = map upsave (approx_vars (reg s));
                s = s\<lparr>marker_log_opened := True, reg := (reg s)\<lparr>approx_vars := vs\<rparr>\<rparr>
            in emit [ApproxLog (marker_header # map appvar_print vs)] s)
         else emit [ApproxLog [''mem footprint disabled!'']] s)
      else s)"

definition del_log :: "magic_env \<Rightarrow> magic_server \<Rightarrow> magic_server" where
  "del_log env s =
     (if \<not> del_log_opened s \<and> injector_cfg env = ''none'' then
        (if footprint_enable env then
           (let s = s\<lparr>del_log_opened := True\<rparr>
            in emit [ApproxLog (del_header # map appvar_print (approx_vars (reg s)))] s)
         else emit [ApproxLog [''mem footprint disabled!'']] s)
      else s)"

definition magic_marker_cmd ::
  "magic_env \<Rightarrow> int \<Rightarrow> int \<Rightarrow> u64 \<Rightarrow> u64 \<Rightarrow> magic_server \<Rightarrow> u64 \<times> magic_server" where
  "magic_marker_cmd env thread_id core_id arg0 arg1 s =
     (let s = (if arg0 mod 100 = 7 then s\<lparr>reg := snd (add_approx arg1 (arg0 div 100) (reg s))\<rparr> else s);
          s = (if arg0 mod 100 = 6 then
                 (let s = marker_log env s in s\<lparr>reg := snd (del_approx arg1 (reg s))\<rparr>)
               else s)
      in (0, emit [HookMagicMarker \<lparr>mm_thread_id = thread_id, mm_core_id = core_id,
                     mm_arg0 = arg0, mm_arg1 = arg1, mm_str = None\<rparr>] s))"

text \<open>A registered address gets the operation counter raised by the \<open>int\<close> value of \<open>arg1\<close>.\<close>

definition count_op ::
  "(int \<Rightarrow> appvar \<Rightarrow> appvar) \<Rightarrow> u64 \<Rightarrow> u64 \<Rightarrow> magic_server \<Rightarrow> u64 \<times> magic_server" where
  "count_op inc arg0 arg1 s =
     (let vs = approx_vars (reg s); it = set_find arg0 vs
      in if it \<noteq> length vs then
           (1, s\<lparr>reg := (reg s)\<lparr>approx_vars := vs[it := inc (sint (ucast arg1 :: u32)) (vs ! it)]\<rparr>\<rparr>)
         else (0, s))"

definition add_op :: "magic_env \<Rightarrow> u64 \<Rightarrow> u64 \<Rightarrow> magic_server \<Rightarrow> u64 \<times> magic_server" where
  "add_op env arg0 arg1 s =
     (let s = s\<lparr>approx_adds := approx_adds s + 1\<rparr>
      in if injector_cfg env = ''random'' then (rapcla (shift_one env) arg0 arg1 16, s)
         else (arg0 + arg1, s))"

definition mul_op :: "magic_env \<Rightarrow> u64 \<Rightarrow> u64 \<Rightarrow> magic_server \<Rightarrow> (u64 \<times> magic_server) result" where
  "mul_op env arg0 arg1 s =
     (let s = s\<lparr>approx_muls := approx_muls s + 1\<rparr>
      in if injector_cfg env = ''random'' then
           bindE (appmul (multiplier env) (ucast arg0) (ucast arg1) 19) (\<lambda>r. Inr (scast r, s))
         else Inr (arg0 * arg1, s))"

section \<open>The dispatcher\<close>

definition read_string :: "magic_env \<Rightarrow> int \<Rightarrow> u64 \<Rightarrow> bytes" where
  "read_string env core_id address = (buf_slice 0 256 (read_memory env core_id address))[255 := 0]"

fun Magic_unlocked ::
  "magic_env \<Rightarrow> int \<Rightarrow> int \<Rightarrow> magic_cmd \<Rightarrow> u64 \<Rightarrow> u64 \<Rightarrow> magic_server \<Rightarrow>
   (u64 \<times> magic_server) result option" where
  "Magic_unlocked env tid cid SIM_CMD_ROI_TOGGLE arg0 arg1 s =
     Some (Inr (if roi_magic env then setPerformance env (\<not> m_performance_enabled s) s else (0, s)))"
| "Magic_unlocked env tid cid SIM_CMD_ROI_START arg0 arg1 s =
     (let s = emit [HookApplicationRoiBegin] s
      in Some (Inr (if roi_magic env then setPerformance env True s else (0, s))))"
| "Magic_unlocked env tid cid SIM_CMD_ROI_END arg0 arg1 s =
     (let s = emit [HookApplicationRoiEnd] s
      in Some (Inr (if roi_magic env then setPerformance env False s else (0, s))))"
| "Magic_unlocked env tid cid SIM_CMD_MHZ_SET arg0 arg1 s =
     Some (Inr (setFrequency env arg0 arg1 s))"
| "Magic_unlocked env tid cid SIM_CMD_NAMED_MARKER arg0 arg1 s =
     Some (Inr (0, emit [HookMagicMarker \<lparr>mm_thread_id = tid, mm_core_id = cid, mm_arg0 = arg0,
        mm_arg1 = 0, mm_str = Some (read_string env cid arg1)\<rparr>] s))"
| "Magic_unlocked env tid cid SIM_CMD_SET_THREAD_NAME arg0 arg1 s =
     (let str = read_string env cid arg0
      in Some (Inr (0, emit [LogThreadName cid tid str, SetThreadName tid str] s)))"
| "Magic_unlocked env tid cid SIM_CMD_MARKER arg0 arg1 s =
     Some (Inr (magic_marker_cmd env tid cid arg0 arg1 s))"
| "Magic_unlocked env tid cid SIM_CMD_USER arg0 arg1 s =
     (let args = \<lparr>mm_thread_id = tid, mm_core_id = cid, mm_arg0 = arg0, mm_arg1 = arg1, mm_str = None\<rparr>
      in Some (Inr (user_hook env args, emit [HookMagicUser args] s)))"
| "Magic_unlocked env tid cid SIM_CMD_INSTRUMENT_MODE arg0 arg1 s =
     Some (setInstrumentationMode arg0 s)"
| "Magic_unlocked env tid cid SIM_CMD_MHZ_GET arg0 arg1 s = Some (Inr (getFrequency env arg0, s))"
| "Magic_unlocked env tid cid SIM_CMD_ADD_APPROX_ADDRS arg0 arg1 s =
     (case add_range arg0 arg1 (reg s) of None \<Rightarrow> None
      | Some r \<Rightarrow> Some (Inr (0, s\<lparr>reg := r\<rparr>)))"
| "Magic_unlocked env tid cid SIM_CMD_DEL_APPROX_ADDRS arg0 arg1 s =
     (let s = del_log env s
      in case del_range arg0 arg1 (reg s) of None \<Rightarrow> None
         | Some r \<Rightarrow> Some (Inr (0, s\<lparr>reg := r\<rparr>)))"
| "Magic_unlocked env tid cid SIM_CMD_ADD_OP arg0 arg1 s = Some (Inr (add_op env arg0 arg1 s))"
| "Magic_unlocked env tid cid SIM_CMD_ADD_CNT arg0 arg1 s = Some (Inr (count_op inc_add_cnt arg0 arg1 s))"
| "Magic_unlocked env tid cid SIM_CMD_MUL_OP arg0 arg1 s = Some (mul_op env arg0 arg1 s)"
| "Magic_unlocked env tid cid SIM_CMD_MUL_CNT arg0 arg1 s = Some (Inr (count_op inc_mul_cnt arg0 arg1 s))"
| "Magic_unlocked env tid cid cmd arg0 arg1 s = Some (Inl (LogAssert ''Got invalid Magic''))"

section \<open>The client\<close>

definition handleMagic ::
  "magic_env \<Rightarrow> int \<Rightarrow> magic_cmd \<Rightarrow> u64 \<Rightarrow> u64 \<Rightarrow> magic_server \<Rightarrow> (u64 \<times> magic_server) result option"
  where
  "handleMagic env thread_id cmd arg0 arg1 s =
     (let core = (if thread_id = invalid_thread_id env then None else core_of_thread env thread_id)
      in Magic_unlocked env thread_id (case core of Some c \<Rightarrow> c | None \<Rightarrow> invalid_core_id env)
           cmd arg0 arg1 s)"

definition client_setInstrumentationMode ::
  "magic_env \<Rightarrow> u64 \<Rightarrow> magic_server \<Rightarrow> (u64 \<times> magic_server) result option" where
  "client_setInstrumentationMode env opt s =
     handleMagic env (invalid_thread_id env) SIM_CMD_INSTRUMENT_MODE opt 0 s"

fun handleMagicInstruction ::
  "magic_env \<Rightarrow> int \<Rightarrow> magic_cmd \<Rightarrow> u64 \<Rightarrow> u64 \<Rightarrow> magic_server \<Rightarrow> (u64 \<times> magic_server) result option"
  where
  "handleMagicInstruction env tid SIM_CMD_PROC_ID arg0 arg1 s =
     Some (Inr (of_int (current_core env), s))"
| "handleMagicInstruction env tid SIM_CMD_THREAD_ID arg0 arg1 s = Some (Inr (of_int tid, s))"
| "handleMagicInstruction env tid SIM_CMD_NUM_PROCS arg0 arg1 s =
     Some (Inr (ucast (app_cores env), s))"
| "handleMagicInstruction env tid SIM_CMD_NUM_THREADS arg0 arg1 s = Some (Inr (num_threads env, s))"
| "handleMagicInstruction env tid SIM_CMD_IN_SIMULATOR arg0 arg1 s = Some (Inr (0, s))"
| "handleMagicInstruction env tid (SIM_CMD_UNKNOWN n) arg0 arg1 s = Some (Inr (1, s))"
| "handleMagicInstruction env tid cmd arg0 arg1 s = handleMagic env tid cmd arg0 arg1 s"

section \<open>The address loops\<close>

lemma ucast_u32_lt: "unat (ucast (i :: u32) :: u64) < 2 ^ 32"
  using unsigned_less[of i, where 'a = nat] by (simp add: unat_ucast_64)

lemma unat_Suc_u32: "unat (i :: u32) + 1 < 2 ^ 32 \<Longrightarrow> unat (i + 1) = unat i + 1"
  by (subst unat_word_ariths) simp

lemma ucast_of_nat_u32: "(ucast (i :: u32) :: u64) = of_nat (unat i)"
  by (simp add: word_unat_eq_iff unat_ucast_64 unat_of_nat take_bit_nat_def)

lemma u32_loop_eq:
  assumes "unat i \<le> unat arg1" "unat arg1 < 2 ^ 32"
  shows "u32_loop body i arg0 arg1 r =
    Some (fold (\<lambda>k. body (arg0 + of_nat k)) [unat i..<unat arg1] r)"
  using assms(1)
proof (induction "unat arg1 - unat i" arbitrary: i r)
  case 0
  then show ?case
    by (subst u32_loop.simps) (simp add: word_less_nat_alt unat_ucast_64)
next
  case (Suc m)
  then have lt: "unat i < unat arg1" by simp
  then have s: "unat (i + 1) = unat i + 1" using assms(2) by (intro unat_Suc_u32) simp
  have "u32_loop body (i + 1) arg0 arg1 (body (arg0 + ucast i) r) =
    Some (fold (\<lambda>k. body (arg0 + of_nat k)) [unat i + 1..<unat arg1] (body (arg0 + ucast i) r))"
    using Suc.hyps(1)[of "i + 1" "body (arg0 + ucast i) r"] Suc.hyps(2) lt s by simp
  moreover have "[unat i..<unat arg1] = unat i # [unat i + 1..<unat arg1]"
    using lt upt_conv_Cons by simp
  moreover have "ucast i < arg1" using lt by (simp add: word_less_nat_alt unat_ucast_64)
  moreover have "(ucast i :: u64) = of_nat (unat i)" by (rule ucast_of_nat_u32)
  ultimately show ?case by (subst u32_loop.simps) (simp only: if_True fold.simps comp_def)
qed

lemma fold_addr_range:
  "fold (\<lambda>k. body (a + of_nat k)) [0..<n] r = fold body (addr_range a n) r"
  by (simp add: addr_range_def fold_map comp_def)

text \<open>A bound of \<open>2 ^ 32\<close> or more is never reached.\<close>

lemma u32_loop_returns: "u32_loop body i arg0 arg1 r = Some r' \<Longrightarrow> unat arg1 < 2 ^ 32"
proof (erule u32_loop.raw_induct[rotated, where P = "\<lambda>body i arg0 arg1 r r'. unat arg1 < 2 ^ 32"])
  fix f :: "(u64 \<Rightarrow> 'a \<Rightarrow> 'a) \<Rightarrow> u32 \<Rightarrow> u64 \<Rightarrow> u64 \<Rightarrow> 'a \<Rightarrow> 'a option"
    and body i arg0 arg1 r y
  assume IH: "\<And>body i arg0 arg1 r y. f body i arg0 arg1 r = Some y \<Longrightarrow> unat arg1 < 2 ^ 32"
    and step: "(if ucast i < arg1 then f body (i + 1) arg0 arg1 (body (arg0 + ucast i) r) else Some r)
      = Some y"
  show "unat arg1 < 2 ^ 32"
  proof (cases "ucast i < arg1")
    case True
    with step have "f body (i + 1) arg0 arg1 (body (arg0 + ucast i) r) = Some y" by simp
    then show ?thesis by (rule IH)
  next
    case False
    then show ?thesis using ucast_u32_lt[of i] by (simp add: word_less_nat_alt)
  qed
qed

lemma u32_loop_iff:
  "u32_loop body 0 arg0 arg1 r = (if unat arg1 < 2 ^ 32
     then Some (fold body (addr_range arg0 (unat arg1)) r) else None)"
  using u32_loop_eq[of 0 arg1 body arg0 r] u32_loop_returns[of body 0 arg0 arg1 r]
  by (cases "u32_loop body 0 arg0 arg1 r") (auto simp: fold_addr_range)

section \<open>Properties of the magic instructions\<close>



text \<open>
  C36. The range commands return iff the number of addresses fits 32 bits: the 32-bit loop counter
  never reaches a larger bound, and the simulator hangs.
\<close>

theorem range_commands_return_iff:
  "(Magic_unlocked env t c SIM_CMD_ADD_APPROX_ADDRS arg0 arg1 s \<noteq> None \<longleftrightarrow> unat arg1 < 2 ^ 32) \<and>
   (Magic_unlocked env t c SIM_CMD_DEL_APPROX_ADDRS arg0 arg1 s \<noteq> None \<longleftrightarrow> unat arg1 < 2 ^ 32)"
  by (simp add: add_range_def del_range_def u32_loop_iff Let_def)

text \<open>
  The approximate addition instruction counts itself and is exact for operands below
  \<open>2 ^ 16\<close> even when faults are injected; without the random injector it is the machine sum.
\<close>

lemma add_op_result:
  assumes "shift_one env = shl_wide" "injector_cfg env = ''random'' \<longrightarrow> unat x < 2 ^ 16 \<and> unat y < 2 ^ 16"
  shows "Magic_unlocked env t c SIM_CMD_ADD_OP x y s =
    Some (Inr (x + y, s\<lparr>approx_adds := approx_adds s + 1\<rparr>))"
proof -
  have "rapcla shl_wide x y 16 = x + y" if "unat x < 2 ^ 16" "unat y < 2 ^ 16"
  proof (rule word_unat_eq)
    have "unat (x + y) = unat x + unat y"
      using that by (subst unat_word_ariths) simp
    then show "unat (rapcla shl_wide x y 16) = unat (x + y)"
      using rapcla_small_operands[of 16 x 16 y] that by simp
  qed
  then show ?thesis using assms by (simp add: add_op_def Let_def)
qed

definition demo_magic_env :: magic_env where
  "demo_magic_env = \<lparr>roi_magic = True, app_cores = 2, injector_cfg = ''random'', footprint_enable = False,
     instruction_count = (\<lambda>i. of_nat i), core_freq_mhz = (\<lambda>c. 2660), read_memory = (\<lambda>c a. replicate 256 0),
     user_hook = (\<lambda>m. 0), shift_one = shl_wide, multiplier = (\<lambda>n x y. ucast x * ucast y),
     core_of_thread = Some, current_core = 0, num_threads = 2, invalid_thread_id = - 1,
     invalid_core_id = - 1\<rparr>"

section \<open>Reachable states\<close>

text \<open>
  The states of the server: any sequence of magic instructions from its construction, with any
  answers of the rest of the simulator.
\<close>

inductive magic_reach :: "magic_server \<Rightarrow> bool" where
  start: "magic_reach (magic_server_init adds muls)"
| magic: "magic_reach s \<Longrightarrow> handleMagicInstruction env tid cmd arg0 arg1 s = Some (Inr (v, s')) \<Longrightarrow>
    magic_reach s'"

text \<open>The state of the region of interest a listener of the hooks computes; \<open>None\<close> when a region
  begins inside a region or ends outside one.\<close>

fun roi_state :: "bool \<Rightarrow> magic_event list \<Rightarrow> bool option" where
  "roi_state b [] = Some b"
| "roi_state b (HookRoiBegin # es) = (if b then None else roi_state True es)"
| "roi_state b (HookRoiEnd # es) = (if b then roi_state False es else None)"
| "roi_state b (e # es) = roi_state b es"

definition magic_inv :: "magic_server \<Rightarrow> bool" where
  "magic_inv s \<longleftrightarrow> registry_inv (reg s) \<and> roi_state False (events s) = Some (m_performance_enabled s)"

lemma roi_state_append:
  "roi_state b (es @ fs) = (case roi_state b es of None \<Rightarrow> None | Some c \<Rightarrow> roi_state c fs)"
  by (induction b es rule: roi_state.induct) simp_all

lemma magic_inv_emit: "magic_inv s \<Longrightarrow> (\<And>b. roi_state b es = Some b) \<Longrightarrow> magic_inv (emit es s)"
  by (simp add: magic_inv_def emit_def roi_state_append)

lemma magic_inv_reg: "magic_inv s \<Longrightarrow> registry_inv r \<Longrightarrow> magic_inv (s\<lparr>reg := r\<rparr>)"
  by (simp add: magic_inv_def)

lemma magic_inv_frame [simp]:
  "magic_inv (s\<lparr>approx_adds := a\<rparr>) = magic_inv s" "magic_inv (s\<lparr>approx_muls := a\<rparr>) = magic_inv s"
  "magic_inv (s\<lparr>ninstrs_start := a\<rparr>) = magic_inv s"
  "magic_inv (s\<lparr>marker_log_opened := b\<rparr>) = magic_inv s" "magic_inv (s\<lparr>del_log_opened := b\<rparr>) = magic_inv s"
  by (simp_all add: magic_inv_def)

lemma magic_inv_setPerformance: "magic_inv s \<Longrightarrow> magic_inv (snd (setPerformance env b s))"
  by (auto simp: magic_inv_def setPerformance_def enablePerformance_def disablePerformance_def
      emit_def Let_def roi_state_append)

lemma magic_inv_marker_log: "magic_inv s \<Longrightarrow> magic_inv (marker_log env s)"
  using registry_inv_map[of "reg s" upsave]
  by (auto simp: marker_log_def Let_def intro!: magic_inv_emit) (simp add: magic_inv_def)

lemma magic_inv_del_log: "magic_inv s \<Longrightarrow> magic_inv (del_log env s)"
  by (auto simp: del_log_def Let_def intro!: magic_inv_emit)

lemma registry_inv_update:
  assumes "registry_inv r" "keeps_addr f"
  shows "registry_inv (r\<lparr>approx_vars := (approx_vars r)[i := f (approx_vars r ! i)]\<rparr>)"
proof (cases "i < length (approx_vars r)")
  case True
  let ?vs = "(approx_vars r)[i := f (approx_vars r ! i)]"
  have k: "map addr ?vs = map addr (approx_vars r)" "map set_num ?vs = map set_num (approx_vars r)"
    using assms(2) True by (simp_all add: map_update list_update_same_conv)
  then have "sorted_wrt (<) (map addr ?vs) = sorted_wrt (<) (map addr (approx_vars r))"
    "addr ` set ?vs = addr ` set (approx_vars r)" "set_num ` set ?vs = set_num ` set (approx_vars r)"
    by (simp_all only: list.set_map[symmetric])
  moreover have "(\<forall>v\<in>set ?vs. set_num v = 0) \<longleftrightarrow> set_num ` set ?vs \<subseteq> {0}"
    "(\<forall>v\<in>set (approx_vars r). set_num v = 0) \<longleftrightarrow> set_num ` set (approx_vars r) \<subseteq> {0}" by auto
  ultimately show ?thesis using assms(1)
    by (simp add: registry_inv_def set_ok_def reg_addrs_def set_addrs_def sorted_wrt_map)
qed (use assms in \<open>simp add: list_update_beyond\<close>)

lemma magic_inv_reg_inv: "magic_inv s \<Longrightarrow> registry_inv (reg s)"
  by (simp add: magic_inv_def)

lemma magic_inv_count_op:
  assumes "magic_inv s" "\<And>n. keeps_addr (inc n)"
  shows "magic_inv (snd (count_op inc arg0 arg1 s))"
  using assms registry_inv_update[OF magic_inv_reg_inv[OF assms(1)], of "inc (sint (ucast arg1 :: u32))"]
  by (auto simp: count_op_def Let_def intro!: magic_inv_reg)

lemma magic_inv_marker:
  assumes "magic_inv s"
  shows "magic_inv (snd (magic_marker_cmd env tid cid arg0 arg1 s))"
proof -
  have add: "magic_inv (s\<lparr>reg := snd (add_approx a n (reg s))\<rparr>)" if "magic_inv s" for a n s
    using that by (intro magic_inv_reg add_approx_inv magic_inv_reg_inv)
  have del: "magic_inv (s\<lparr>reg := snd (del_approx a (reg s))\<rparr>)" if "magic_inv s" for a s
    using that by (intro magic_inv_reg del_approx_inv magic_inv_reg_inv)
  show ?thesis using assms
    by (auto simp: magic_marker_cmd_def Let_def intro!: magic_inv_emit add del magic_inv_marker_log)
qed

lemma magic_inv_setFrequency: "magic_inv s \<Longrightarrow> magic_inv (snd (setFrequency env n f s))"
  by (auto simp: setFrequency_def Let_def intro!: magic_inv_emit)

lemma magic_inv_range:
  assumes "magic_inv s"
  shows "add_range arg0 arg1 (reg s) = Some r \<Longrightarrow> magic_inv (s\<lparr>reg := r\<rparr>)"
    and "del_range arg0 arg1 (reg s) = Some r \<Longrightarrow> magic_inv (s\<lparr>reg := r\<rparr>)"
  using assms rg.add_all[OF magic_inv_reg_inv[OF assms], of "addr_range arg0 (unat arg1)"]
    rg.del_all[OF magic_inv_reg_inv[OF assms], of "addr_range arg0 (unat arg1)"]
  by (auto simp: add_range_def del_range_def u32_loop_iff intro!: magic_inv_reg split: if_splits)

lemma magic_inv_snd: "magic_inv (snd x) \<Longrightarrow> x = (v, s) \<Longrightarrow> magic_inv s"
  by simp

lemmas magic_inv_pair = magic_inv_setPerformance[THEN magic_inv_snd] magic_inv_setFrequency[THEN magic_inv_snd]
  magic_inv_marker[THEN magic_inv_snd] magic_inv_count_op[OF _ keeps_addr_simple(1), THEN magic_inv_snd]
  magic_inv_count_op[OF _ keeps_addr_simple(2), THEN magic_inv_snd]

lemma magic_inv_unlocked:
  assumes "Magic_unlocked env t c cmd arg0 arg1 s = Some (Inr (v, s'))" "magic_inv s"
  shows "magic_inv s'"
  using assms
  by (cases cmd) (auto simp: Let_def setInstrumentationMode_def add_op_def mul_op_def err_simps
      split: if_splits option.splits
      intro: magic_inv_emit magic_inv_range magic_inv_del_log
      elim!: magic_inv_pair[rotated])

lemma handleMagicInstruction_cases:
  assumes "handleMagicInstruction env tid cmd arg0 arg1 s = Some (Inr (v, s'))"
  shows "s' = s \<or> (\<exists>cid. Magic_unlocked env tid cid cmd arg0 arg1 s = Some (Inr (v, s')))"
  using assms by (cases cmd) (simp_all only: handleMagicInstruction.simps handleMagic_def Let_def, auto)

text \<open>
  C29. Whatever sequence of magic instructions a program issues, the regions of interest the hooks
  report begin and end in turn, the performance models are on exactly inside a region, and the
  registry of approximate addresses keeps its order and its window.
\<close>

theorem magic_reach_inv:
  assumes "magic_reach s"
  shows "roi_state False (events s) = Some (m_performance_enabled s) \<and> registry_inv (reg s)"
proof -
  from assms have "magic_inv s"
  proof (induction rule: magic_reach.induct)
    case (start adds muls)
    then show ?case using registry_inv_init by (simp add: magic_inv_def magic_server_init_def)
  next
    case (magic s env tid cmd arg0 arg1 v s')
    then show ?case using handleMagicInstruction_cases[OF magic.hyps(2)] magic_inv_unlocked by blast
  qed
  then show ?thesis by (simp add: magic_inv_def)
qed

theorem magic_reach_inv_witness:
  "\<exists>v s. handleMagicInstruction demo_magic_env 1 SIM_CMD_ROI_TOGGLE 0 0 (magic_server_init 0 0) = Some (Inr (v, s)) \<and>
    m_performance_enabled s \<and> roi_state False (events s) = Some (m_performance_enabled s) \<and> registry_inv (reg s)"
proof -
  obtain v s where s: "handleMagicInstruction demo_magic_env 1 SIM_CMD_ROI_TOGGLE 0 0 (magic_server_init 0 0) = Some (Inr (v, s))"
    "m_performance_enabled s"
    by (simp add: handleMagic_def Let_def demo_magic_env_def setPerformance_def magic_server_init_def
        enablePerformance_def emit_def)
  with magic_reach_inv[OF magic_reach.magic[OF magic_reach.start s(1)]] show ?thesis by blast
qed

end
