(* ===== verification/Fault_Injection.thy ===== *)
theory Fault_Injection
  imports Approx_Registry
begin

unbundle bit_operations_syntax

text \<open>
  The fault injectors of \<open>src/common/fault_injection\<close>. An injector is given the place of a block
  in the array of fault-carrying bytes (\<open>m_blocks\<close> of a cache set, a page of the DRAM): \<open>buf\<close>
  is the whole array and \<open>off\<close> the index \<open>fault\<close> points to, so a write past the array
  is the error \<open>OutOfBounds\<close>.

  The random engine and \<open>std::bernoulli_distribution\<close> are the parameter \<open>sample\<close>: a draw with
  probability \<open>p\<close> from a generator state returns a truth value and the next state. The memory
  component of an injector is named by the string \<open>MemComponentString\<close> returns.
\<close>

section \<open>The manager\<close>

datatype fault_type = FAULT_TYPE_TOGGLE | FAULT_TYPE_SET0 | FAULT_TYPE_SET1

datatype injector_kind = FAULT_INJECTOR_NONE | FAULT_INJECTOR_RANDOM

record fault_manager =
  m_type :: fault_type
  m_injector :: injector_kind
  FaultApplied :: bool

definition create_manager :: "string \<Rightarrow> string \<Rightarrow> fault_manager option result" where
  "create_manager s_type s_injector =
     bindE (if s_type = ''toggle'' then Inr (Some FAULT_TYPE_TOGGLE)
            else if s_type = ''set0'' then Inr (Some FAULT_TYPE_SET0)
            else if s_type = ''set1'' then Inr (Some FAULT_TYPE_SET1)
            else if s_type = ''none'' then Inr None
            else Inl (LogError ''Unknown fault-injection scheme''))
       (\<lambda>t. case t of None \<Rightarrow> Inr None
          | Some type \<Rightarrow>
              bindE (if s_injector = ''none'' then Inr FAULT_INJECTOR_NONE
                     else if s_injector = ''random'' then Inr FAULT_INJECTOR_RANDOM
                     else Inl (LogError ''Unknown fault injector''))
                (\<lambda>fi. Inr (Some \<lparr>m_type = type, m_injector = fi, FaultApplied = True\<rparr>)))"

text \<open>\<open>applyFault\<close> returns before its loop.\<close>

definition applyFault :: "fault_manager \<Rightarrow> u64 \<Rightarrow> u32 \<Rightarrow> bytes \<Rightarrow> bytes \<Rightarrow> bytes" where
  "applyFault mgr read_address data_size data fault = data"

section \<open>Probabilities\<close>

text \<open>The rows of \<open>faultProbabilities.txt\<close>, \<open>None\<close> for a file that does not open: the row of the
  core and component, zeros when there is none.\<close>

type_synonym 'p prob_row = "u32 \<times> string \<times> 'p \<times> 'p \<times> 'p"

fun scan_probs :: "u32 \<Rightarrow> string \<Rightarrow> ('p :: zero) prob_row list \<Rightarrow> 'p \<times> 'p \<times> 'p" where
  "scan_probs core cmp_name [] = (0, 0, 0)"
| "scan_probs core cmp_name ((c, m, r, h, w) # rows) =
     (if c = core \<and> m = cmp_name then (r, h, w) else scan_probs core cmp_name rows)"

definition Raul_GetProb ::
  "u32 \<Rightarrow> string \<Rightarrow> ('p :: zero) prob_row list option \<Rightarrow> 'p \<times> 'p \<times> 'p" where
  "Raul_GetProb core cmp_name file =
     (case file of None \<Rightarrow> (0, 0, 0) | Some rows \<Rightarrow> scan_probs core cmp_name rows)"

section \<open>The injectors\<close>

record ('p, 'g) random_injector =
  m_core_id :: u32
  m_mem_component :: string
  rand_numR :: 'p
  rand_numH :: 'p
  rand_numW :: 'p
  rand_numR_2 :: 'p
  rand_numH_2 :: 'p
  rand_numW_2 :: 'p
  generatorR :: 'g
  generatorH :: 'g
  generatorW :: 'g
  generatorR_2 :: 'g
  generatorH_2 :: 'g
  generatorW_2 :: 'g

datatype ('p, 'g) injector =
    FaultInjector u32 string
  | FaultInjectorRandom "('p, 'g) random_injector"

text \<open>\<open>seed\<close> is the state of a generator seeded with the time; the second set of probabilities
  stays 0, its scan is commented out.\<close>

definition new_random_injector ::
  "('p :: zero) prob_row list option \<Rightarrow> 'g \<Rightarrow> u32 \<Rightarrow> string \<Rightarrow> ('p, 'g) random_injector" where
  "new_random_injector file seed core cmp_name =
     (let (r, h, w) = Raul_GetProb core cmp_name file
      in \<lparr>m_core_id = core, m_mem_component = cmp_name,
          rand_numR = r, rand_numH = h, rand_numW = w,
          rand_numR_2 = 0, rand_numH_2 = 0, rand_numW_2 = 0,
          generatorR = seed, generatorH = seed, generatorW = seed,
          generatorR_2 = seed, generatorH_2 = seed, generatorW_2 = seed\<rparr>)"

definition getFaultInjector ::
  "('p :: zero) prob_row list option \<Rightarrow> 'g \<Rightarrow> fault_manager \<Rightarrow> u32 \<Rightarrow> string \<Rightarrow> ('p, 'g) injector" where
  "getFaultInjector file seed mgr core cmp_name =
     (case m_injector mgr of
        FAULT_INJECTOR_NONE \<Rightarrow> FaultInjector core cmp_name
      | FAULT_INJECTOR_RANDOM \<Rightarrow> FaultInjectorRandom (new_random_injector file seed core cmp_name))"

text \<open>\<open>fault[i] ^= (1 << j)\<close>\<close>

definition flip_bit_at :: "nat \<Rightarrow> nat \<Rightarrow> bytes \<Rightarrow> bytes result" where
  "flip_bit_at k j buf =
     (if k < length buf then Inr (buf[k := buf ! k XOR push_bit j 1]) else Inl OutOfBounds)"

definition draw_flip ::
  "('p \<Rightarrow> 'g \<Rightarrow> bool \<times> 'g) \<Rightarrow> 'p \<Rightarrow> nat \<Rightarrow> nat \<Rightarrow> 'g \<times> bytes \<Rightarrow> ('g \<times> bytes) result" where
  "draw_flip sample p k j = (\<lambda>(g, buf).
     (let (hit, g') = sample p g
      in bindE (if hit then flip_bit_at k j buf else Inr buf) (\<lambda>buf. Inr (g', buf))))"

text \<open>One bit of the read loop: a read fault, then a hold fault.\<close>

definition read_bit ::
  "('p \<Rightarrow> 'g \<Rightarrow> bool \<times> 'g) \<Rightarrow> 'p \<Rightarrow> 'p \<Rightarrow> nat \<Rightarrow> nat \<Rightarrow> ('g \<times> 'g) \<times> bytes \<Rightarrow> (('g \<times> 'g) \<times> bytes) result"
  where
  "read_bit sample pR pH k j = (\<lambda>((gR, gH), buf).
     bindE (draw_flip sample pR k j (gR, buf)) (\<lambda>(gR, buf).
     bindE (draw_flip sample pH k j (gH, buf)) (\<lambda>(gH, buf). Inr ((gR, gH), buf))))"

definition preRead_byte ::
  "('p \<Rightarrow> 'g \<Rightarrow> bool \<times> 'g) \<Rightarrow> u64 \<Rightarrow> registry \<Rightarrow> nat \<Rightarrow> nat \<Rightarrow>
   ('p, 'g) random_injector \<times> bytes \<Rightarrow> (('p, 'g) random_injector \<times> bytes) result" where
  "preRead_byte sample address reg off i = (\<lambda>(fi, buf).
     (let setnum = approx_addr_setnum (address + of_nat i) reg
      in if setnum = 0 then
           bindE (foldE (read_bit sample (rand_numR fi) (rand_numH fi) (off + i)) [0..<8]
                   ((generatorR fi, generatorH fi), buf))
             (\<lambda>((gR, gH), buf). Inr (fi\<lparr>generatorR := gR, generatorH := gH\<rparr>, buf))
         else if setnum = 1 then
           bindE (foldE (read_bit sample (rand_numR_2 fi) (rand_numH_2 fi) (off + i)) [0..<8]
                   ((generatorR_2 fi, generatorH_2 fi), buf))
             (\<lambda>((gR, gH), buf). Inr (fi\<lparr>generatorR_2 := gR, generatorH_2 := gH\<rparr>, buf))
         else Inr (fi, buf)))"

definition postWrite_byte ::
  "('p \<Rightarrow> 'g \<Rightarrow> bool \<times> 'g) \<Rightarrow> u64 \<Rightarrow> registry \<Rightarrow> nat \<Rightarrow> nat \<Rightarrow>
   ('p, 'g) random_injector \<times> bytes \<Rightarrow> (('p, 'g) random_injector \<times> bytes) result" where
  "postWrite_byte sample address reg off i = (\<lambda>(fi, buf).
     (let setnum = approx_addr_setnum (address + of_nat i) reg
      in if setnum = 0 then
           bindE (foldE (draw_flip sample (rand_numW fi) (off + i)) [0..<8] (generatorW fi, buf))
             (\<lambda>(g, buf). Inr (fi\<lparr>generatorW := g\<rparr>, buf))
         else if setnum = 1 then
           bindE (foldE (draw_flip sample (rand_numW_2 fi) (off + i)) [0..<8] (generatorW_2 fi, buf))
             (\<lambda>(g, buf). Inr (fi\<lparr>generatorW_2 := g\<rparr>, buf))
         else Inr (fi, buf)))"

definition preRead_random ::
  "('p \<Rightarrow> 'g \<Rightarrow> bool \<times> 'g) \<Rightarrow> u64 \<Rightarrow> u32 \<Rightarrow> registry \<Rightarrow> nat \<Rightarrow>
   ('p, 'g) random_injector \<times> bytes \<Rightarrow> (('p, 'g) random_injector \<times> bytes) result" where
  "preRead_random sample address data_size reg off =
     foldE (preRead_byte sample address reg off) [0..<unat data_size]"

definition postWrite_random ::
  "('p \<Rightarrow> 'g \<Rightarrow> bool \<times> 'g) \<Rightarrow> u64 \<Rightarrow> u32 \<Rightarrow> registry \<Rightarrow> nat \<Rightarrow>
   ('p, 'g) random_injector \<times> bytes \<Rightarrow> (('p, 'g) random_injector \<times> bytes) result" where
  "postWrite_random sample address data_size reg off =
     foldE (postWrite_byte sample address reg off) [0..<unat data_size]"

text \<open>The virtual calls: the base class leaves the data alone.\<close>

definition preRead ::
  "('p \<Rightarrow> 'g \<Rightarrow> bool \<times> 'g) \<Rightarrow> u64 \<Rightarrow> u32 \<Rightarrow> registry \<Rightarrow> nat \<Rightarrow>
   ('p, 'g) injector \<times> bytes \<Rightarrow> (('p, 'g) injector \<times> bytes) result" where
  "preRead sample address data_size reg off = (\<lambda>(fi, buf). case fi of
     FaultInjector c m \<Rightarrow> Inr (fi, buf)
   | FaultInjectorRandom r \<Rightarrow> bindE (preRead_random sample address data_size reg off (r, buf))
       (\<lambda>(r, buf). Inr (FaultInjectorRandom r, buf)))"

definition postWrite ::
  "('p \<Rightarrow> 'g \<Rightarrow> bool \<times> 'g) \<Rightarrow> u64 \<Rightarrow> u32 \<Rightarrow> registry \<Rightarrow> nat \<Rightarrow>
   ('p, 'g) injector \<times> bytes \<Rightarrow> (('p, 'g) injector \<times> bytes) result" where
  "postWrite sample address data_size reg off = (\<lambda>(fi, buf). case fi of
     FaultInjector c m \<Rightarrow> Inr (fi, buf)
   | FaultInjectorRandom r \<Rightarrow> bindE (postWrite_random sample address data_size reg off (r, buf))
       (\<lambda>(r, buf). Inr (FaultInjectorRandom r, buf)))"

section \<open>Which bytes an injection can touch\<close>

text \<open>\<open>only_at K r buf\<close>: the operation succeeds iff it stays in the array, keeps the length, and
  changes no byte outside \<open>K\<close>.\<close>

definition changes_only :: "nat set \<Rightarrow> bytes \<Rightarrow> bytes \<Rightarrow> bool" where
  "changes_only K buf buf' \<longleftrightarrow>
     length buf' = length buf \<and> (\<forall>k<length buf. k \<notin> K \<longrightarrow> buf' ! k = buf ! k)"

lemma changes_only_refl [simp]: "changes_only K buf buf"
  by (simp add: changes_only_def)

lemma changes_only_trans: "changes_only K a b \<Longrightarrow> changes_only K b c \<Longrightarrow> changes_only K a c"
  by (simp add: changes_only_def)

lemma changes_only_mono: "changes_only K a b \<Longrightarrow> K \<subseteq> L \<Longrightarrow> changes_only L a b"
  by (auto simp: changes_only_def)

lemma changes_only_length: "changes_only K a b \<Longrightarrow> length b = length a"
  by (simp add: changes_only_def)

lemma flip_bit_at_frame: "flip_bit_at k j buf = Inr buf' \<Longrightarrow> changes_only {k} buf buf'"
  by (auto simp: flip_bit_at_def changes_only_def split: if_splits)

lemma draw_flip_frame: "draw_flip sample p k j (g, buf) = Inr (g', buf') \<Longrightarrow> changes_only {k} buf buf'"
  by (auto simp: draw_flip_def err_simps Let_def split: prod.splits if_splits dest: flip_bit_at_frame)

lemma draw_flip_total: "k < length buf \<Longrightarrow> \<exists>g' buf'. draw_flip sample p k j (g, buf) = Inr (g', buf')"
  by (auto simp: draw_flip_def flip_bit_at_def split: prod.splits)

lemma read_bit_frame:
  "read_bit sample pR pH k j ((gR, gH), buf) = Inr (gs, buf') \<Longrightarrow> changes_only {k} buf buf'"
  by (auto simp: read_bit_def err_simps dest!: draw_flip_frame intro: changes_only_trans)

lemma read_bit_total:
  assumes "k < length buf"
  shows "\<exists>gs buf'. read_bit sample pR pH k j ((gR, gH), buf) = Inr (gs, buf')"
proof -
  obtain g b where 1: "draw_flip sample pR k j (gR, buf) = Inr (g, b)"
    using draw_flip_total[OF assms, of sample pR j gR] by auto
  then have "k < length b" using assms by (auto dest!: draw_flip_frame changes_only_length)
  then obtain g' b' where "draw_flip sample pH k j (gH, b) = Inr (g', b')"
    using draw_flip_total[of k b sample pH j gH] by auto
  with 1 show ?thesis by (simp add: read_bit_def)
qed

text \<open>A loop over bits keeps the frame of its body.\<close>

lemma foldE_frame:
  assumes "foldE f js (g, buf) = Inr (g', buf')"
    and "\<And>j g b g' b'. j \<in> set js \<Longrightarrow> f j (g, b) = Inr (g', b') \<Longrightarrow> changes_only K b b'"
  shows "changes_only K buf buf'"
  using assms(1,2)
proof (induction js arbitrary: g buf)
  case (Cons j js)
  then obtain h b where "f j (g, buf) = Inr (h, b)" "foldE f js (h, b) = Inr (g', buf')"
    by (auto simp: err_simps)
  moreover from this have "changes_only K b buf'" using Cons by (metis list.set_intros(2))
  ultimately show ?case using Cons.prems(2) by (metis changes_only_trans list.set_intros(1))
qed simp

lemma foldE_frame_total:
  fixes f :: "'j \<Rightarrow> 'g \<times> bytes \<Rightarrow> ('g \<times> bytes) result"
  assumes "\<And>j g b. j \<in> set js \<Longrightarrow> length b = length buf \<Longrightarrow>
      \<exists>g' b'. f j (g, b) = Inr (g', b') \<and> length b' = length b"
  shows "\<exists>g' buf'. foldE f js (g, buf) = Inr (g', buf')"
proof -
  have "\<exists>t. foldE f js (g, buf) = Inr t \<and> (case t of (_, b) \<Rightarrow> length b = length buf)"
  proof (rule foldE_total)
    fix j and s :: "'g \<times> bytes" assume "j \<in> set js" "case s of (_, b) \<Rightarrow> length b = length buf"
    then show "\<exists>t. f j s = Inr t \<and> (case t of (_, b) \<Rightarrow> length b = length buf)"
      using assms by (cases s) fastforce
  qed simp
  then show ?thesis by auto
qed

lemma read_bits_frame:
  "foldE (read_bit sample pR pH k) js (gs, buf) = Inr (gs', buf') \<Longrightarrow> changes_only {k} buf buf'"
  by (erule foldE_frame) (auto dest: read_bit_frame)

lemma draw_bits_frame:
  "foldE (draw_flip sample p k) js (g, buf) = Inr (g', buf') \<Longrightarrow> changes_only {k} buf buf'"
  by (erule foldE_frame) (rule draw_flip_frame)

lemma read_bits_total:
  assumes "k < length buf"
  shows "\<exists>gs' buf'. foldE (read_bit sample pR pH k) js (gs, buf) = Inr (gs', buf')"
proof (rule foldE_frame_total)
  fix j and g :: "'a \<times> 'a" and b :: bytes assume "length b = length buf"
  then have "k < length b" using assms by simp
  moreover obtain gR gH where g: "g = (gR, gH)" by (cases g)
  ultimately obtain h b' where h: "read_bit sample pR pH k j (g, b) = Inr (h, b')"
    using read_bit_total[of k b sample pR pH j gR gH] by auto
  then show "\<exists>g' b'. read_bit sample pR pH k j (g, b) = Inr (g', b') \<and> length b' = length b"
    using changes_only_length[OF read_bit_frame[OF h[unfolded g]]] by auto
qed

lemma draw_bits_total:
  assumes "k < length buf"
  shows "\<exists>g' buf'. foldE (draw_flip sample p k) js (g, buf) = Inr (g', buf')"
proof (rule foldE_frame_total)
  fix j and g :: 'a and b :: bytes assume "length b = length buf"
  then have "k < length b" using assms by simp
  then obtain h b' where h: "draw_flip sample p k j (g, b) = Inr (h, b')"
    using draw_flip_total[of k b sample p j g] by auto
  then show "\<exists>g' b'. draw_flip sample p k j (g, b) = Inr (g', b') \<and> length b' = length b"
    using changes_only_length[OF draw_flip_frame[OF h]] by auto
qed

text \<open>A byte that is not registered has set number -1.\<close>

lemma setnum_not_approx: "\<not> is_approx a s \<Longrightarrow> approx_addr_setnum a s = - 1"
  by (simp add: is_approx_def approx_addr_setnum_def split: if_splits)

definition approx_places :: "u64 \<Rightarrow> u32 \<Rightarrow> registry \<Rightarrow> nat \<Rightarrow> nat set" where
  "approx_places a n reg off = {off + i | i. i < unat n \<and> is_approx (a + of_nat i) reg}"

lemma preRead_byte_frame:
  "preRead_byte sample a reg off i (fi, buf) = Inr (fi', buf') \<Longrightarrow>
    changes_only {k. k = off + i \<and> is_approx (a + of_nat i) reg} buf buf'"
  by (cases "is_approx (a + of_nat i) reg")
     (auto simp: preRead_byte_def Let_def err_simps setnum_not_approx
       split: if_splits dest!: read_bits_frame)

lemma postWrite_byte_frame:
  "postWrite_byte sample a reg off i (fi, buf) = Inr (fi', buf') \<Longrightarrow>
    changes_only {k. k = off + i \<and> is_approx (a + of_nat i) reg} buf buf'"
  by (cases "is_approx (a + of_nat i) reg")
     (auto simp: postWrite_byte_def Let_def err_simps setnum_not_approx
       split: if_splits dest!: draw_bits_frame)

lemma preRead_byte_total:
  "off + i < length buf \<Longrightarrow> \<exists>fi' buf'. preRead_byte sample a reg off i (fi, buf) = Inr (fi', buf')"
  using read_bits_total[of "off + i" buf sample "rand_numR fi" "rand_numH fi" "[0..<8]"
      "(generatorR fi, generatorH fi)"]
    read_bits_total[of "off + i" buf sample "rand_numR_2 fi" "rand_numH_2 fi" "[0..<8]"
      "(generatorR_2 fi, generatorH_2 fi)"]
  by (auto simp: preRead_byte_def Let_def)

lemma postWrite_byte_total:
  "off + i < length buf \<Longrightarrow> \<exists>fi' buf'. postWrite_byte sample a reg off i (fi, buf) = Inr (fi', buf')"
  using draw_bits_total[of "off + i" buf sample "rand_numW fi" "[0..<8]" "generatorW fi"]
    draw_bits_total[of "off + i" buf sample "rand_numW_2 fi" "[0..<8]" "generatorW_2 fi"]
  by (auto simp: postWrite_byte_def Let_def)

text \<open>A loop over the bytes of a block touches only the approximate ones.\<close>

lemma block_loop_frame:
  fixes f :: "nat \<Rightarrow> 'i \<times> bytes \<Rightarrow> ('i \<times> bytes) result"
  assumes "foldE f [0..<unat n] (fi, buf) = Inr (fi', buf')"
    and "\<And>i g b g' b'. f i (g, b) = Inr (g', b') \<Longrightarrow>
      changes_only {k. k = off + i \<and> is_approx (a + of_nat i) reg} b b'"
  shows "changes_only (approx_places a n reg off) buf buf'"
  using assms(1)
proof (rule foldE_frame)
  fix j g b g' b' assume "j \<in> set [0..<unat n]" "f j (g, b) = Inr (g', b')"
  with assms(2)[of j g b g' b'] show "changes_only (approx_places a n reg off) b b'"
    by (auto simp: approx_places_def intro: changes_only_mono)
qed

lemma block_loop_total:
  fixes f :: "nat \<Rightarrow> 'i \<times> bytes \<Rightarrow> ('i \<times> bytes) result"
  assumes "off + unat n \<le> length buf"
    and "\<And>i g b. off + i < length b \<Longrightarrow> \<exists>g' b'. f i (g, b) = Inr (g', b')"
    and "\<And>i g b g' b'. f i (g, b) = Inr (g', b') \<Longrightarrow>
      changes_only {k. k = off + i \<and> is_approx (a + of_nat i) reg} b b'"
  shows "\<exists>fi' buf'. foldE f [0..<unat n] (fi, buf) = Inr (fi', buf')"
proof (rule foldE_frame_total)
  fix i g and b :: bytes assume "i \<in> set [0..<unat n]" "length b = length buf"
  then have "off + i < length b" using assms(1) by simp
  then obtain g' b' where "f i (g, b) = Inr (g', b')" using assms(2) by blast
  then show "\<exists>g' b'. f i (g, b) = Inr (g', b') \<and> length b' = length b"
    using changes_only_length[OF assms(3)] by auto
qed

lemma preRead_frame:
  "preRead sample a n reg off (fi, buf) = Inr (fi', buf') \<Longrightarrow>
    changes_only (approx_places a n reg off) buf buf'"
  by (auto simp: preRead_def preRead_random_def err_simps split: injector.splits
      dest!: block_loop_frame[OF _ preRead_byte_frame])

lemma postWrite_frame:
  "postWrite sample a n reg off (fi, buf) = Inr (fi', buf') \<Longrightarrow>
    changes_only (approx_places a n reg off) buf buf'"
  by (auto simp: postWrite_def postWrite_random_def err_simps split: injector.splits
      dest!: block_loop_frame[OF _ postWrite_byte_frame])

lemma preRead_total:
  assumes "off + unat n \<le> length buf"
  shows "\<exists>fi' buf'. preRead sample a n reg off (fi, buf) = Inr (fi', buf')"
proof (cases fi)
  case (FaultInjectorRandom r)
  have "\<exists>r' buf'. foldE (preRead_byte sample a reg off) [0..<unat n] (r, buf) = Inr (r', buf')"
    by (rule block_loop_total[where a = a and reg = reg, OF assms])
       (erule preRead_byte_total, erule preRead_byte_frame)
  then show ?thesis by (auto simp: preRead_def preRead_random_def FaultInjectorRandom)
qed (simp add: preRead_def)

lemma postWrite_total:
  assumes "off + unat n \<le> length buf"
  shows "\<exists>fi' buf'. postWrite sample a n reg off (fi, buf) = Inr (fi', buf')"
proof (cases fi)
  case (FaultInjectorRandom r)
  have "\<exists>r' buf'. foldE (postWrite_byte sample a reg off) [0..<unat n] (r, buf) = Inr (r', buf')"
    by (rule block_loop_total[where a = a and reg = reg, OF assms])
       (erule postWrite_byte_total, erule postWrite_byte_frame)
  then show ?thesis by (auto simp: postWrite_def postWrite_random_def FaultInjectorRandom)
qed (simp add: postWrite_def)

section \<open>The contract of an injector\<close>

text \<open>
  What the cache and the DRAM controller rely on: an injection inside the array succeeds, keeps
  its length and changes approximate bytes only.
\<close>

locale fault_channel =
  fixes inject :: "u64 \<Rightarrow> u32 \<Rightarrow> registry \<Rightarrow> nat \<Rightarrow> 'i \<times> bytes \<Rightarrow> ('i \<times> bytes) result"
  assumes frame: "inject a n reg off (f, buf) = Inr (f', buf') \<Longrightarrow>
      changes_only (approx_places a n reg off) buf buf'"
    and total: "off + unat n \<le> length buf \<Longrightarrow> \<exists>f' buf'. inject a n reg off (f, buf) = Inr (f', buf')"
begin

lemma keeps_length: "inject a n reg off (f, buf) = Inr (f', buf') \<Longrightarrow> length buf' = length buf"
  using frame by (blast dest: changes_only_length)

lemma precise_byte:
  assumes "inject a n reg off (f, buf) = Inr (f', buf')" "i < unat n"
    and "off + unat n \<le> length buf" "\<not> is_approx (a + of_nat i) reg"
  shows "buf' ! (off + i) = buf ! (off + i)"
  using frame[OF assms(1)] assms(2-4) by (auto simp: changes_only_def approx_places_def)

lemma outside_block:
  assumes "inject a n reg off (f, buf) = Inr (f', buf')" "off' + m \<le> length buf"
    and "off' + m \<le> off \<or> off + unat n \<le> off'"
  shows "buf_slice off' m buf' = buf_slice off' m buf"
proof (rule nth_equalityI)
  have l: "length buf' = length buf" using keeps_length[OF assms(1)] .
  then show "length (buf_slice off' m buf') = length (buf_slice off' m buf)"
    using assms(2) by (simp add: buf_simps)
  fix i assume "i < length (buf_slice off' m buf')"
  then have "i < m" using assms(2) l by (simp add: buf_simps)
  moreover have "off' + i \<notin> approx_places a n reg off"
    using assms(3) \<open>i < m\<close> by (auto simp: approx_places_def)
  ultimately show "buf_slice off' m buf' ! i = buf_slice off' m buf ! i"
    using frame[OF assms(1)] assms(2) l by (auto simp: buf_simps changes_only_def)
qed

lemma no_approx_block:
  assumes "inject a n reg off (f, buf) = Inr (f', buf')" "\<not> is_block_approx a n reg"
  shows "buf' = buf"
proof -
  have "approx_places a n reg off = {}"
    using assms(2) by (auto simp: approx_places_def is_block_approx_iff is_approx_iff)
  then show ?thesis using frame[OF assms(1)] by (auto simp: changes_only_def intro: nth_equalityI)
qed

end

interpretation rd: fault_channel "preRead sample" for sample :: "'p \<Rightarrow> 'g \<Rightarrow> bool \<times> 'g"
  by unfold_locales (rule preRead_frame, assumption, rule preRead_total, assumption)

interpretation wr: fault_channel "postWrite sample" for sample :: "'p \<Rightarrow> 'g \<Rightarrow> bool \<times> 'g"
  by unfold_locales (rule postWrite_frame, assumption, rule postWrite_total, assumption)

section \<open>What an injection does to an approximate byte\<close>

fun draws :: "('p \<Rightarrow> 'g \<Rightarrow> bool \<times> 'g) \<Rightarrow> 'p \<Rightarrow> nat \<Rightarrow> 'g \<Rightarrow> bool list \<times> 'g" where
  "draws sample p 0 g = ([], g)"
| "draws sample p (Suc n) g =
     (let (bs, g) = draws sample p n g; (b, g) = sample p g in (bs @ [b], g))"

definition bit_mask :: "bool list \<Rightarrow> u8" where
  "bit_mask bs = horner_sum of_bool 2 bs"

lemma length_draws [simp]: "length (fst (draws sample p n g)) = n"
  by (induction n) (simp_all add: case_prod_beta Let_def)

lemma bit_mask_iff: "bit (bit_mask bs) j \<longleftrightarrow> j < 8 \<and> j < length bs \<and> bs ! j"
  by (auto simp: bit_mask_def bit_horner_sum_bit_word_iff)

lemma bit_mask_Nil [simp]: "bit_mask [] = 0"
  by (simp add: bit_mask_def)

lemma bit_mask_snoc:
  "length bs < 8 \<Longrightarrow> bit_mask (bs @ [b]) = bit_mask bs XOR (if b then push_bit (length bs) 1 else 0)"
  by (rule bit_word_eqI) (auto simp: bit_mask_iff bit_xor_iff bit_exp_iff nth_append)

lemma draw_bits_eq:
  assumes "k < length buf" "n \<le> 8"
  shows "foldE (draw_flip sample p k) [0..<n] (g, buf) =
    Inr (snd (draws sample p n g), buf[k := buf ! k XOR bit_mask (fst (draws sample p n g))])"
  using assms(2)
proof (induction n)
  case (Suc n)
  obtain bs g' where d: "draws sample p n g = (bs, g')" by (cases "draws sample p n g")
  have "length bs = n" using length_draws[of sample p n g] d by simp
  then show ?case
    using Suc d assms(1)
    by (auto simp: foldE_append draw_flip_def flip_bit_at_def bit_mask_snoc xor.assoc
        split: prod.splits)
qed simp

lemma setnum_approx:
  "registry_inv s \<Longrightarrow> approx_addr_setnum a s = (if is_approx a s then 0 else - 1)"
proof (cases "is_approx a s")
  case True
  assume i: "registry_inv s"
  from True have "a \<in> set_addrs (approx_vars s)" by (simp add: is_approx_iff reg_addrs_def)
  then have "set_find a (approx_vars s) < length (approx_vars s)" using set_find_nth by blast
  moreover from this have "set_num (approx_vars s ! set_find a (approx_vars s)) = 0"
    using i nth_mem unfolding registry_inv_def by blast
  ultimately show ?thesis using True by (simp add: approx_addr_setnum_def Let_def)
qed (simp add: setnum_not_approx)

text \<open>A sample that never hits leaves the bytes as they are.\<close>

definition never_hits :: "('p \<Rightarrow> 'g \<Rightarrow> bool \<times> 'g) \<Rightarrow> 'p \<Rightarrow> bool" where
  "never_hits sample p \<longleftrightarrow> (\<forall>g. \<not> fst (sample p g))"

lemma draw_flip_never:
  "never_hits sample p \<Longrightarrow> draw_flip sample p k j (g, buf) = Inr (snd (sample p g), buf)"
  by (simp add: never_hits_def draw_flip_def case_prod_beta Let_def)

lemma foldE_same_data:
  assumes "foldE f js (g, buf) = Inr (g', buf')"
    and "\<And>j g b g' b'. P g \<Longrightarrow> f j (g, b) = Inr (g', b') \<Longrightarrow> P g' \<and> b' = b" and "P g"
  shows "P g' \<and> buf' = buf"
  using assms(1,3)
proof (induction js arbitrary: g buf)
  case (Cons j js)
  then obtain h b where "f j (g, buf) = Inr (h, b)" "foldE f js (h, b) = Inr (g', buf')"
    by (auto simp: err_simps)
  then show ?case using Cons.IH Cons.prems assms(2) by blast
qed simp

lemma draw_bits_never:
  assumes "never_hits sample p" "foldE (draw_flip sample p k) js (g, buf) = Inr (g', buf')"
  shows "buf' = buf"
  using foldE_same_data[OF assms(2), of "\<lambda>_. True"] assms(1) by (simp add: draw_flip_never)

lemma read_bits_never:
  assumes "never_hits sample pR" "never_hits sample pH"
    and "foldE (read_bit sample pR pH k) js (gs, buf) = Inr (gs', buf')"
  shows "buf' = buf"
  using foldE_same_data[OF assms(3), of "\<lambda>_. True"] assms(1,2)
  by (auto simp: read_bit_def draw_flip_never)

definition harmless :: "('p \<Rightarrow> 'g \<Rightarrow> bool \<times> 'g) \<Rightarrow> ('p, 'g) random_injector \<Rightarrow> bool" where
  "harmless sample fi \<longleftrightarrow> (\<forall>p\<in>{rand_numR fi, rand_numH fi, rand_numW fi,
     rand_numR_2 fi, rand_numH_2 fi, rand_numW_2 fi}. never_hits sample p)"

lemma preRead_byte_harmless:
  "harmless sample g \<Longrightarrow> preRead_byte sample a reg off j (g, b) = Inr (g', b') \<Longrightarrow>
    harmless sample g' \<and> b' = b"
  by (auto simp: preRead_byte_def Let_def err_simps harmless_def split: if_splits
      dest!: read_bits_never[rotated 2])

lemma postWrite_byte_harmless:
  "harmless sample g \<Longrightarrow> postWrite_byte sample a reg off j (g, b) = Inr (g', b') \<Longrightarrow>
    harmless sample g' \<and> b' = b"
  by (auto simp: postWrite_byte_def Let_def err_simps harmless_def split: if_splits
      dest!: draw_bits_never[rotated])

lemma preRead_random_harmless:
  assumes "preRead_random sample a n reg off (r, buf) = Inr (r', buf')" "harmless sample r"
  shows "buf' = buf"
  using foldE_same_data[OF assms(1)[unfolded preRead_random_def], of "harmless sample"]
    preRead_byte_harmless assms(2) by blast

lemma postWrite_random_harmless:
  assumes "postWrite_random sample a n reg off (r, buf) = Inr (r', buf')" "harmless sample r"
  shows "buf' = buf"
  using foldE_same_data[OF assms(1)[unfolded postWrite_random_def], of "harmless sample"]
    postWrite_byte_harmless assms(2) by blast

section \<open>Properties of the injectors\<close>

text \<open>
  C9. Precise data is never corrupted: an injection inside the array, of either kind and by
  either injector, succeeds, keeps the length of the array, and changes no byte other than those
  of the block whose address is registered as approximate.
\<close>

theorem injection_precise:
  assumes "off + unat n \<le> length buf"
  shows "(\<exists>fi' buf'. preRead sample a n reg off (fi, buf) = Inr (fi', buf') \<and>
      changes_only (approx_places a n reg off) buf buf') \<and>
    (\<exists>fi' buf'. postWrite sample a n reg off (fi, buf) = Inr (fi', buf') \<and>
      changes_only (approx_places a n reg off) buf buf')"
  using rd.total[OF assms, of sample a reg fi] wr.total[OF assms, of sample a reg fi]
    rd.frame[of sample a n reg off fi buf] wr.frame[of sample a n reg off fi buf] by blast

theorem injection_precise_witness:
  "\<exists>fi' buf'. preRead (\<lambda>p g. (True, g)) 4 2 (snd (add_approx 4 0 registry_init)) 1
       (FaultInjector 0 ''L1-D'' :: (nat, nat) injector, [7, 8, 9]) = Inr (fi', buf') \<and>
     changes_only (approx_places 4 2 (snd (add_approx 4 0 registry_init)) 1) [7, 8, 9] buf'"
  using injection_precise[of 1 2 "[7, 8, 9]" "\<lambda>p g. (True, g)" 4
      "snd (add_approx 4 0 registry_init)" "FaultInjector 0 ''L1-D'' :: (nat, nat) injector"]
  by simp

text \<open>A write fault is the exclusive or of an approximate byte with the eight draws of the write
  generator, draw \<open>j\<close> for bit \<open>j\<close>; a byte that is not approximate is left alone and costs no draw.
\<close>

lemma write_fault_mask:
  assumes "registry_inv reg" "off + i < length buf"
  shows "postWrite_byte sample a reg off i (fi, buf) =
    (if is_approx (a + of_nat i) reg then
       (let (bs, g) = draws sample (rand_numW fi) 8 (generatorW fi)
        in Inr (fi\<lparr>generatorW := g\<rparr>, buf[off + i := buf ! (off + i) XOR bit_mask bs]))
     else Inr (fi, buf))"
  using draw_bits_eq[OF assms(2), of 8 sample "rand_numW fi" "generatorW fi"]
  by (simp add: postWrite_byte_def Let_def setnum_approx[OF assms(1)] case_prod_beta)

lemma write_fault_mask_witness:
  "\<exists>fi'. postWrite_byte (\<lambda>p g. (True, g)) 4 (snd (add_approx 4 0 registry_init)) 1 0
     (new_random_injector None (0 :: nat) 0 ''L1-D'' :: (nat, nat) random_injector, [7, 8, 9])
    = Inr (fi', [7, 8 XOR bit_mask (replicate 8 True), 9])"
proof -
  have "is_approx (4 + of_nat 0) (snd (add_approx 4 0 registry_init))"
    by (simp add: reg_simps registry_inv_init)
  then show ?thesis
    using write_fault_mask[OF add_approx_inv[OF registry_inv_init, of 4 0], of 1 0 "[7, 8, 9]"
        "\<lambda>p g. (True, g)" 4 "new_random_injector None (0 :: nat) 0 ''L1-D'' :: (nat, nat) random_injector"]
    by (auto simp: numeral_eq_Suc)
qed

text \<open>
  No probabilities, no faults: an injector created without a probability file (or with the
  random injector switched off) never changes a byte, given that a Bernoulli trial of probability
  0 never succeeds.
\<close>

lemma no_probability_no_fault:
  assumes "never_hits sample 0"
    and "preRead sample a n reg off (getFaultInjector None seed mgr core m, buf) = Inr (fi', buf') \<or>
      postWrite sample a n reg off (getFaultInjector None seed mgr core m, buf) = Inr (fi', buf')"
  shows "buf' = buf"
proof (cases "m_injector mgr")
  case FAULT_INJECTOR_NONE
  then show ?thesis using assms(2) by (auto simp: getFaultInjector_def preRead_def postWrite_def)
next
  case FAULT_INJECTOR_RANDOM
  let ?r = "new_random_injector None seed core m"
  have h: "harmless sample ?r"
    using assms(1) by (simp add: harmless_def new_random_injector_def Raul_GetProb_def)
  show ?thesis
    using assms(2) FAULT_INJECTOR_RANDOM h
    by (auto simp: getFaultInjector_def preRead_def postWrite_def err_simps
        dest: preRead_random_harmless postWrite_random_harmless)
qed

text \<open>Every registered byte is in fault set 0, whatever set number it was registered with:
  \<open>add_approx\<close> drops its argument, so the second set of probabilities is never used.
\<close>

lemma second_set_unreachable:
  assumes "registry_inv s"
  shows "approx_addr_setnum b (snd (add_approx a k s)) = (if b = a \<or> is_approx b s then 0 else - 1)"
  by (simp add: setnum_approx[OF add_approx_inv[OF assms]] is_approx_iff reg_addrs_add[OF assms])

lemma second_set_unreachable_witness:
  "approx_addr_setnum 4 (snd (add_approx 4 1 registry_init)) = 0"
  using second_set_unreachable[OF registry_inv_init, of 4 4 1] by simp

end
