(* ===== verification/Cache_Set.thy ===== *)
theory Cache_Set
  imports Fault_Injection
begin

unbundle bit_operations_syntax

text \<open>
  A set of a cache: \<open>src/common/core/memory_subsystem/cache/cache_set.cc\<close> and its header. The set
  holds one \<open>CacheBlockInfo\<close> per way and, when fault injection is on, the bytes of all its lines
  in one array \<open>m_blocks\<close>.

  \<open>CacheBlockInfo\<close> is not part of the repository: its member functions are the record
  \<open>block_api\<close>, and \<open>block_laws\<close> states what the code relies on. The virtual functions of a
  replacement policy are the record \<open>repl_policy\<close>; the LRU2 policy of the repository is in
  \<open>Cache_Set_LRU2\<close>. Ways, sizes and offsets are natural numbers: the products the code forms
  are indices into an array of that size.
\<close>

section \<open>Cache states and block information\<close>

datatype cstate =
    INVALID | SHARED | SHARED_UPGRADING | MODIFIED | EXCLUSIVE | OWNED
  | INVALID_COLD | INVALID_EVICT | INVALID_COHERENCY | CSTATE_OTHER nat

fun CStateString :: "cstate \<Rightarrow> char" where
  "CStateString INVALID = CHR ''I''"
| "CStateString SHARED = CHR ''S''"
| "CStateString SHARED_UPGRADING = CHR ''u''"
| "CStateString MODIFIED = CHR ''M''"
| "CStateString EXCLUSIVE = CHR ''E''"
| "CStateString OWNED = CHR ''O''"
| "CStateString INVALID_COLD = CHR ''_''"
| "CStateString INVALID_EVICT = CHR ''e''"
| "CStateString INVALID_COHERENCY = CHR ''c''"
| "CStateString (CSTATE_OTHER n) = CHR ''?''"

record 'b block_api =
  bi_create :: 'b
  getTag :: "'b \<Rightarrow> u64"
  setTag :: "u64 \<Rightarrow> 'b \<Rightarrow> 'b"
  getCState :: "'b \<Rightarrow> cstate"
  setCState :: "cstate \<Rightarrow> 'b \<Rightarrow> 'b"
  isValid :: "'b \<Rightarrow> bool"
  bi_invalidate :: "'b \<Rightarrow> 'b"
  bi_clone :: "'b \<Rightarrow> 'b \<Rightarrow> 'b"    \<comment> \<open>destination, source\<close>

text \<open>The documented behaviour: getters read what the setters wrote, an invalidated block is not
  valid, and a clone has the tag, state and validity of its source.\<close>

definition block_laws :: "'b block_api \<Rightarrow> bool" where
  "block_laws api \<longleftrightarrow>
     (\<forall>t b. getTag api (setTag api t b) = t) \<and>
     (\<forall>c b. getCState api (setCState api c b) = c \<and> getTag api (setCState api c b) = getTag api b) \<and>
     (\<forall>b. \<not> isValid api (bi_invalidate api b)) \<and>
     (\<forall>d s. getTag api (bi_clone api d s) = getTag api s \<and>
        getCState api (bi_clone api d s) = getCState api s \<and>
        isValid api (bi_clone api d s) = isValid api s)"

section \<open>The set\<close>

record ('b, 'r) cache_set =
  m_cache_block_info_array :: "'b list"
  m_blocks :: "bytes option"
  m_associativity :: nat
  m_blocksize :: nat
  m_approx_flag :: bool
  m_repl :: 'r

text \<open>The two virtual functions; they change the state of the policy only.\<close>

record ('b, 'r) repl_policy =
  rp_get :: "('b, 'r) cache_set \<Rightarrow> (nat \<times> 'r) result"
  rp_update :: "nat \<Rightarrow> ('b, 'r) cache_set \<Rightarrow> 'r result"

definition getReplacementIndex ::
  "('b, 'r) repl_policy \<Rightarrow> ('b, 'r) cache_set \<Rightarrow> (nat \<times> ('b, 'r) cache_set) result" where
  "getReplacementIndex rp s = bindE (rp_get rp s) (\<lambda>(i, r). Inr (i, s\<lparr>m_repl := r\<rparr>))"

definition updateReplacementIndex ::
  "('b, 'r) repl_policy \<Rightarrow> nat \<Rightarrow> ('b, 'r) cache_set \<Rightarrow> ('b, 'r) cache_set result" where
  "updateReplacementIndex rp i s = bindE (rp_update rp i s) (\<lambda>r. Inr (s\<lparr>m_repl := r\<rparr>))"

definition new_cache_set ::
  "'b block_api \<Rightarrow> bool \<Rightarrow> nat \<Rightarrow> nat \<Rightarrow> 'r \<Rightarrow> ('b, 'r) cache_set" where
  "new_cache_set api faults assoc bsize r =
     \<lparr>m_cache_block_info_array = replicate assoc (bi_create api),
      m_blocks = (if faults then Some (replicate (assoc * bsize) 0) else None),
      m_associativity = assoc, m_blocksize = bsize, m_approx_flag = False, m_repl = r\<rparr>"

text \<open>\<open>memcpy\<close> out of and into \<open>m_blocks\<close>.\<close>

definition copy_out :: "nat \<Rightarrow> nat \<Rightarrow> bytes \<Rightarrow> bytes result" where
  "copy_out off n blocks =
     (if off + n \<le> length blocks then Inr (buf_slice off n blocks) else Inl OutOfBounds)"

definition copy_in :: "nat \<Rightarrow> nat \<Rightarrow> bytes \<Rightarrow> bytes \<Rightarrow> bytes result" where
  "copy_in off n src blocks =
     (if off + n \<le> length blocks \<and> n \<le> length src then Inr (overwrite off (take n src) blocks)
      else Inl OutOfBounds)"

text \<open>\<open>want\<close>: the caller passed a buffer. The result is what was copied into it, if anything.\<close>

definition read_line ::
  "('b, 'r) repl_policy \<Rightarrow> nat \<Rightarrow> nat \<Rightarrow> bool \<Rightarrow> nat \<Rightarrow> bool \<Rightarrow> ('b, 'r) cache_set \<Rightarrow>
   (bytes option \<times> ('b, 'r) cache_set) result" where
  "read_line rp line_index offset want bytes update_replacement s =
     bindE (checkE (CAssert ''offset + bytes <= m_blocksize'') (offset + bytes \<le> m_blocksize s)) (\<lambda>_.
     bindE (case m_blocks s of
              Some blocks \<Rightarrow> (if want then
                bindE (copy_out (line_index * m_blocksize s + offset) bytes blocks) (\<lambda>d. Inr (Some d))
                else Inr None)
            | None \<Rightarrow> Inr None) (\<lambda>out.
     bindE (if update_replacement then updateReplacementIndex rp line_index s else Inr s) (\<lambda>s.
     Inr (out, s))))"

definition write_line ::
  "('b, 'r) repl_policy \<Rightarrow> nat \<Rightarrow> nat \<Rightarrow> bytes option \<Rightarrow> nat \<Rightarrow> bool \<Rightarrow> ('b, 'r) cache_set \<Rightarrow>
   ('b, 'r) cache_set result" where
  "write_line rp line_index offset in_buff bytes update_replacement s =
     bindE (checkE (CAssert ''offset + bytes <= m_blocksize'') (offset + bytes \<le> m_blocksize s)) (\<lambda>_.
     bindE (case (in_buff, m_blocks s) of
              (Some src, Some blocks) \<Rightarrow>
                bindE (copy_in (line_index * m_blocksize s + offset) bytes src blocks)
                  (\<lambda>b. Inr (s\<lparr>m_blocks := Some b\<rparr>))
            | _ \<Rightarrow> Inr s) (\<lambda>s.
     if update_replacement then updateReplacementIndex rp line_index s else Inr s))"

text \<open>The search from the last way down to way 0.\<close>

fun find_down :: "'b block_api \<Rightarrow> u64 \<Rightarrow> 'b list \<Rightarrow> nat \<Rightarrow> nat option" where
  "find_down api tag infos 0 = None"
| "find_down api tag infos (Suc i) =
     (if getTag api (infos ! i) = tag then Some i else find_down api tag infos i)"

definition find_line :: "'b block_api \<Rightarrow> u64 \<Rightarrow> ('b, 'r) cache_set \<Rightarrow> nat option" where
  "find_line api tag s = find_down api tag (m_cache_block_info_array s) (m_associativity s)"

definition set_info :: "nat \<Rightarrow> ('b \<Rightarrow> 'b) \<Rightarrow> ('b, 'r) cache_set \<Rightarrow> ('b, 'r) cache_set" where
  "set_info i f s = s\<lparr>m_cache_block_info_array :=
     (m_cache_block_info_array s)[i := f (m_cache_block_info_array s ! i)]\<rparr>"

definition invalidate_line :: "'b block_api \<Rightarrow> u64 \<Rightarrow> ('b, 'r) cache_set \<Rightarrow> bool \<times> ('b, 'r) cache_set" where
  "invalidate_line api tag s =
     (case find_line api tag s of
        Some i \<Rightarrow> (True, set_info i (bi_invalidate api) s)
      | None \<Rightarrow> (False, s))"

record 'b eviction =
  ev_eviction :: bool
  ev_block_info :: 'b
  ev_buff :: "bytes option"

text \<open>\<open>want_evict\<close>: the caller passed an eviction buffer; \<open>evict_block_info\<close> is the object it
  passed for the victim's information.\<close>

definition insert_line ::
  "'b block_api \<Rightarrow> ('b, 'r) repl_policy \<Rightarrow> registry \<Rightarrow> 'b \<Rightarrow> bytes option \<Rightarrow> 'b \<Rightarrow> bool \<Rightarrow>
   ('b, 'r) cache_set \<Rightarrow> ('b eviction \<times> ('b, 'r) cache_set) result" where
  "insert_line api rp reg cache_block_info fill_buff evict_block_info want_evict s =
     (let address = push_bit (ilog2 (m_blocksize s)) (getTag api cache_block_info);
          s = s\<lparr>m_approx_flag := is_block_approx address (of_nat (m_blocksize s)) reg\<rparr>
      in bindE (getReplacementIndex rp s) (\<lambda>(index, s).
         let s = s\<lparr>m_approx_flag := False\<rparr>
         in bindE (checkE (CAssert ''index < m_associativity'') (index < m_associativity s)) (\<lambda>_.
         let info = m_cache_block_info_array s ! index
         in bindE (if isValid api info then
                bindE (case m_blocks s of
                    Some blocks \<Rightarrow> (if want_evict then
                        bindE (copy_out (index * m_blocksize s) (m_blocksize s) blocks) (\<lambda>d. Inr (Some d))
                      else Inr None)
                  | None \<Rightarrow> Inr None)
                (\<lambda>d. Inr \<lparr>ev_eviction = True, ev_block_info = bi_clone api evict_block_info info,
                          ev_buff = d\<rparr>)
              else Inr \<lparr>ev_eviction = False, ev_block_info = evict_block_info, ev_buff = None\<rparr>) (\<lambda>ev.
         let s = set_info index (\<lambda>b. bi_clone api b cache_block_info) s
         in bindE (case (fill_buff, m_blocks s) of
              (Some src, Some blocks) \<Rightarrow>
                bindE (copy_in (index * m_blocksize s) (m_blocksize s) src blocks)
                  (\<lambda>b. Inr (s\<lparr>m_blocks := Some b\<rparr>))
            | _ \<Rightarrow> Inr s) (\<lambda>s. Inr (ev, s))))))"

definition isValidReplacement :: "'b block_api \<Rightarrow> nat \<Rightarrow> ('b, 'r) cache_set \<Rightarrow> bool" where
  "isValidReplacement api index s =
     (if getCState api (m_cache_block_info_array s ! index) = SHARED_UPGRADING then False else True)"

section \<open>Replacement policies by name\<close>

datatype ReplacementPolicy =
    ROUND_ROBIN | LRU | LRU2 | LRU_QBS | NRU | MRU | NMRU | PLRU | SRRIP | SRRIP_QBS | RANDOM

definition parsePolicyType :: "string \<Rightarrow> ReplacementPolicy result" where
  "parsePolicyType policy =
     (if policy = ''round_robin'' then Inr ROUND_ROBIN
      else if policy = ''lru'' then Inr LRU
      else if policy = ''lru2'' then Inr LRU2
      else if policy = ''lru_qbs'' then Inr LRU_QBS
      else if policy = ''nru'' then Inr NRU
      else if policy = ''mru'' then Inr MRU
      else if policy = ''nmru'' then Inr NMRU
      else if policy = ''plru'' then Inr PLRU
      else if policy = ''srrip'' then Inr SRRIP
      else if policy = ''srrip_qbs'' then Inr SRRIP_QBS
      else if policy = ''random'' then Inr RANDOM
      else Inl (LogError ''Unknown replacement policy''))"

definition getNumQBSAttempts :: "ReplacementPolicy \<Rightarrow> u8 \<Rightarrow> u8" where
  "getNumQBSAttempts policy attempts_cfg =
     (if policy = LRU_QBS \<or> policy = SRRIP_QBS then attempts_cfg else 1)"

text \<open>Which class a set is made of, with its number of QBS attempts where it takes one.\<close>

datatype set_class =
    CacheSetRoundRobin | CacheSetLRU u8 | CacheSetLRU2 | CacheSetNRU | CacheSetMRU | CacheSetNMRU
  | CacheSetPLRU | CacheSetSRRIP u8 | CacheSetRandom

fun createCacheSet :: "u8 \<Rightarrow> ReplacementPolicy \<Rightarrow> set_class" where
  "createCacheSet q ROUND_ROBIN = CacheSetRoundRobin"
| "createCacheSet q LRU = CacheSetLRU (getNumQBSAttempts LRU q)"
| "createCacheSet q LRU_QBS = CacheSetLRU (getNumQBSAttempts LRU_QBS q)"
| "createCacheSet q LRU2 = CacheSetLRU2"
| "createCacheSet q NRU = CacheSetNRU"
| "createCacheSet q MRU = CacheSetMRU"
| "createCacheSet q NMRU = CacheSetNMRU"
| "createCacheSet q PLRU = CacheSetPLRU"
| "createCacheSet q SRRIP = CacheSetSRRIP (getNumQBSAttempts SRRIP q)"
| "createCacheSet q SRRIP_QBS = CacheSetSRRIP (getNumQBSAttempts SRRIP_QBS q)"
| "createCacheSet q RANDOM = CacheSetRandom"

text \<open>The statistics object of the policy: \<open>Some\<close> number of attempts of a \<open>CacheSetInfoLRU\<close>.\<close>

definition createCacheSetInfo :: "u8 \<Rightarrow> ReplacementPolicy \<Rightarrow> u8 option" where
  "createCacheSetInfo q policy =
     (if policy \<in> {LRU, LRU_QBS, LRU2, SRRIP, SRRIP_QBS} then Some (getNumQBSAttempts policy q)
      else None)"

section \<open>Well-formed sets\<close>

definition cset_wf :: "('b, 'r) cache_set \<Rightarrow> bool" where
  "cset_wf s \<longleftrightarrow> length (m_cache_block_info_array s) = m_associativity s \<and>
     (\<forall>b. m_blocks s = Some b \<longrightarrow> length b = m_associativity s * m_blocksize s)"

lemma new_cache_set_wf: "cset_wf (new_cache_set api faults assoc bsize r)"
  by (simp add: cset_wf_def new_cache_set_def)

lemma find_down_Some:
  "find_down api tag infos n = Some i \<Longrightarrow> i < n \<and> getTag api (infos ! i) = tag \<and>
    (\<forall>j. i < j \<and> j < n \<longrightarrow> getTag api (infos ! j) \<noteq> tag)"
  by (induction n) (auto split: if_splits simp: less_Suc_eq)

lemma find_down_None:
  "find_down api tag infos n = None \<longleftrightarrow> (\<forall>i<n. getTag api (infos ! i) \<noteq> tag)"
  by (induction n) (auto simp: less_Suc_eq)

lemma find_line_bound: "find_line api tag s = Some i \<Longrightarrow> i < m_associativity s"
  by (simp add: find_line_def find_down_Some)

lemma set_info_wf [simp]: "cset_wf (set_info i f s) = cset_wf s"
  by (simp add: set_info_def cset_wf_def)

lemma set_info_sel [simp]:
  "m_blocks (set_info i f s) = m_blocks s" "m_associativity (set_info i f s) = m_associativity s"
  "m_blocksize (set_info i f s) = m_blocksize s" "m_repl (set_info i f s) = m_repl s"
  by (simp_all add: set_info_def)

lemma repl_wf [simp]:
  "cset_wf (s\<lparr>m_repl := r\<rparr>) = cset_wf s" "cset_wf (s\<lparr>m_approx_flag := b\<rparr>) = cset_wf s"
  by (simp_all add: cset_wf_def)

lemma copy_in_length: "copy_in off n src blocks = Inr b \<Longrightarrow> length b = length blocks"
  by (auto simp: copy_in_def buf_simps split: if_splits)

lemma write_line_wf: "write_line rp l off src n u s = Inr s' \<Longrightarrow> cset_wf s \<Longrightarrow> cset_wf s'"
  by (auto simp: write_line_def updateReplacementIndex_def err_simps split: option.splits if_splits
      dest!: copy_in_length) (auto simp: cset_wf_def)

lemma read_line_wf: "read_line rp l off w n u s = Inr (d, s') \<Longrightarrow> cset_wf s \<Longrightarrow> cset_wf s'"
  by (auto simp: read_line_def updateReplacementIndex_def err_simps split: option.splits if_splits)

section \<open>The data of a line\<close>

definition line_data :: "('b, 'r) cache_set \<Rightarrow> nat \<Rightarrow> bytes option" where
  "line_data s i = map_option (buf_slice (i * m_blocksize s) (m_blocksize s)) (m_blocks s)"

lemma line_bound: "(i :: nat) < n \<Longrightarrow> i * k + k \<le> n * k"
  using line_in_array[of i n 0 k k] by simp

lemma line_data_length: "cset_wf s \<Longrightarrow> i < m_associativity s \<Longrightarrow> line_data s i = Some d \<Longrightarrow>
  length d = m_blocksize s"
  by (auto simp: line_data_def cset_wf_def line_bound buf_simps)

lemma copy_in_ok:
  "off + n \<le> length blocks \<Longrightarrow> n \<le> length src \<Longrightarrow>
    copy_in off n src blocks = Inr (overwrite off (take n src) blocks)"
  by (simp add: copy_in_def)

lemma copy_in_line:
  assumes "cset_wf s" "m_blocks s = Some blocks" "i < m_associativity s" "length d = m_blocksize s"
    and "copy_in (i * m_blocksize s) (m_blocksize s) d blocks = Inr b" "j < m_associativity s"
  shows "buf_slice (j * m_blocksize s) (m_blocksize s) b =
    (if j = i then d else buf_slice (j * m_blocksize s) (m_blocksize s) blocks)"
proof -
  have len: "length blocks = m_associativity s * m_blocksize s"
    using assms(1,2) by (simp add: cset_wf_def)
  have b: "b = overwrite (i * m_blocksize s) d blocks"
    using assms(4,5) by (auto simp: copy_in_def split: if_splits)
  have "j \<noteq> i \<Longrightarrow> j * m_blocksize s + m_blocksize s \<le> i * m_blocksize s \<or>
      i * m_blocksize s + m_blocksize s \<le> j * m_blocksize s"
    using lines_disjoint[of j i 0 "m_blocksize s" "m_blocksize s" 0 "m_blocksize s"] by simp
  then show ?thesis
    using line_bound[OF assms(3), of "m_blocksize s"] line_bound[OF assms(6), of "m_blocksize s"]
      assms(4) len by (simp add: b buf_simps)
qed

text \<open>What an insertion does, for any policy that answers.\<close>

definition flagged :: "'b block_api \<Rightarrow> registry \<Rightarrow> 'b \<Rightarrow> ('b, 'r) cache_set \<Rightarrow> ('b, 'r) cache_set" where
  "flagged api rg bi s = s\<lparr>m_approx_flag := is_block_approx
     (push_bit (ilog2 (m_blocksize s)) (getTag api bi)) (of_nat (m_blocksize s)) rg\<rparr>"

lemma flagged_sel [simp]:
  "m_blocks (flagged api rg bi s) = m_blocks s"
  "m_associativity (flagged api rg bi s) = m_associativity s"
  "m_blocksize (flagged api rg bi s) = m_blocksize s"
  "m_repl (flagged api rg bi s) = m_repl s"
  "m_cache_block_info_array (flagged api rg bi s) = m_cache_block_info_array s"
  "cset_wf (flagged api rg bi s) = cset_wf s"
  by (simp_all add: flagged_def)

definition inserted ::
  "'b block_api \<Rightarrow> 'b \<Rightarrow> bytes option \<Rightarrow> nat \<Rightarrow> ('b, 'r) cache_set \<Rightarrow> ('b, 'r) cache_set \<Rightarrow> bool" where
  "inserted api bi fill i s s' \<longleftrightarrow>
     m_associativity s' = m_associativity s \<and> m_blocksize s' = m_blocksize s \<and>
     m_cache_block_info_array s' =
       (m_cache_block_info_array s)[i := bi_clone api (m_cache_block_info_array s ! i) bi] \<and>
     (\<forall>j<m_associativity s. line_data s' j =
        (if j = i \<and> fill \<noteq> None \<and> m_blocks s \<noteq> None then fill else line_data s j))"

definition victim_of ::
  "'b block_api \<Rightarrow> 'b \<Rightarrow> bool \<Rightarrow> nat \<Rightarrow> ('b, 'r) cache_set \<Rightarrow> 'b eviction \<Rightarrow> bool" where
  "victim_of api evict_info want i s ev \<longleftrightarrow>
     (if isValid api (m_cache_block_info_array s ! i) then
        ev = \<lparr>ev_eviction = True,
              ev_block_info = bi_clone api evict_info (m_cache_block_info_array s ! i),
              ev_buff = (if want then line_data s i else None)\<rparr>
      else ev = \<lparr>ev_eviction = False, ev_block_info = evict_info, ev_buff = None\<rparr>)"

lemma insert_line_eq:
  assumes "cset_wf s" "rp_get rp (flagged api rg bi s) = Inr (i, r)" "i < m_associativity s"
    and "\<And>d. fill = Some d \<Longrightarrow> length d = m_blocksize s"
  shows "\<exists>ev s'. insert_line api rp rg bi fill evict_info want s = Inr (ev, s') \<and>
    cset_wf s' \<and> m_repl s' = r \<and> inserted api bi fill i s s' \<and> victim_of api evict_info want i s ev"
proof -
  let ?n = "m_blocksize s"
  have fl: "s\<lparr>m_approx_flag := is_block_approx (push_bit (ilog2 ?n) (getTag api bi)) (of_nat ?n) rg\<rparr>
    = flagged api rg bi s" by (simp add: flagged_def)
  let ?s1 = "(flagged api rg bi s)\<lparr>m_repl := r, m_approx_flag := False\<rparr>"
  let ?s2 = "set_info i (\<lambda>b. bi_clone api b bi) ?s1"
  have len: "length b = m_associativity s * ?n" if "m_blocks s = Some b" for b
    using assms(1) that by (simp add: cset_wf_def)
  define ev where "ev = (if isValid api (m_cache_block_info_array s ! i) then
      \<lparr>ev_eviction = True, ev_block_info = bi_clone api evict_info (m_cache_block_info_array s ! i),
        ev_buff = (if want then line_data s i else None)\<rparr>
    else \<lparr>ev_eviction = False, ev_block_info = evict_info, ev_buff = None\<rparr>)"
  define s' where "s' = (case (fill, m_blocks s) of
      (Some d, Some b) \<Rightarrow> ?s2\<lparr>m_blocks := Some (overwrite (i * ?n) d b)\<rparr> | _ \<Rightarrow> ?s2)"
  have bound: "i * ?n + ?n \<le> m_associativity s * ?n" by (rule line_bound[OF assms(3)])
  have run: "insert_line api rp rg bi fill evict_info want s = Inr (ev, s')"
    unfolding insert_line_def Let_def fl getReplacementIndex_def
    using assms(2,3) assms(4) bound len
    by (cases "m_blocks s"; cases fill)
       (auto simp: ev_def s'_def line_data_def copy_out_def copy_in_def set_info_def)
  have wf: "cset_wf s'"
    using assms(1,4) bound len
    by (cases "m_blocks s"; cases fill)
       (auto simp: s'_def cset_wf_def buf_simps set_info_def)
  have repl: "m_repl s' = r"
    by (cases "m_blocks s"; cases fill) (simp_all add: s'_def)
  have "line_data s' j = (if j = i \<and> fill \<noteq> None \<and> m_blocks s \<noteq> None then fill else line_data s j)"
    if j: "j < m_associativity s" for j
  proof (cases "m_blocks s")
    case (Some b)
    show ?thesis
    proof (cases fill)
      case (Some d)
      have "copy_in (i * ?n) ?n d b = Inr (overwrite (i * ?n) d b)"
        using assms(4)[OF Some] bound len[OF \<open>m_blocks s = Some b\<close>] by (simp add: copy_in_ok)
      from copy_in_line[OF assms(1) \<open>m_blocks s = Some b\<close> assms(3) assms(4)[OF Some] this j]
      show ?thesis using Some \<open>m_blocks s = Some b\<close> by (simp add: s'_def line_data_def)
    qed (simp add: s'_def line_data_def Some)
  qed (simp add: s'_def line_data_def split: option.splits)
  then have "inserted api bi fill i s s'"
    by (cases "m_blocks s"; cases fill) (simp_all add: inserted_def s'_def set_info_def)
  then show ?thesis using run wf repl by (auto simp: victim_of_def ev_def)
qed

section \<open>The contract of a replacement policy\<close>

text \<open>
  \<open>rp_ok n r\<close> is the invariant of the policy state for \<open>n\<close> ways. A policy answers with a way of
  the set and keeps its invariant.
\<close>

locale repl_contract =
  fixes rp :: "('b, 'r) repl_policy" and rp_ok :: "nat \<Rightarrow> 'r \<Rightarrow> bool"
  assumes get_ok: "rp_ok (m_associativity s) (m_repl s) \<Longrightarrow>
      \<exists>i r. rp_get rp s = Inr (i, r) \<and> i < m_associativity s \<and> rp_ok (m_associativity s) r"
    and update_ok: "rp_ok (m_associativity s) (m_repl s) \<Longrightarrow> i < m_associativity s \<Longrightarrow>
      \<exists>r. rp_update rp i s = Inr r \<and> rp_ok (m_associativity s) r"
begin

lemma insert_total:
  assumes "cset_wf s" "rp_ok (m_associativity s) (m_repl s)"
    and "\<And>d. fill = Some d \<Longrightarrow> length d = m_blocksize s"
  shows "\<exists>i ev s'. insert_line api rp rg bi fill evict_info want s = Inr (ev, s') \<and>
    i < m_associativity s \<and> cset_wf s' \<and> rp_ok (m_associativity s') (m_repl s') \<and>
    inserted api bi fill i s s' \<and> victim_of api evict_info want i s ev"
proof -
  obtain i r where "rp_get rp (flagged api rg bi s) = Inr (i, r)" "i < m_associativity s"
    "rp_ok (m_associativity s) r"
    using get_ok[of "flagged api rg bi s"] assms(2) by auto
  with insert_line_eq[OF assms(1) this(1,2) assms(3)] show ?thesis
    by (metis inserted_def)
qed

text \<open>An inserted block is found, and what is found under its tag carries its state.\<close>

lemma insert_found:
  assumes "cset_wf s" "rp_ok (m_associativity s) (m_repl s)" "block_laws api"
    and "\<And>d. fill = Some d \<Longrightarrow> length d = m_blocksize s" "find_line api (getTag api bi) s = None"
  shows "\<exists>i ev s'. insert_line api rp rg bi fill evict_info want s = Inr (ev, s') \<and>
    cset_wf s' \<and> rp_ok (m_associativity s') (m_repl s') \<and>
    find_line api (getTag api bi) s' = Some i \<and>
    getCState api (m_cache_block_info_array s' ! i) = getCState api bi \<and>
    i < m_associativity s \<and> inserted api bi fill i s s' \<and> victim_of api evict_info want i s ev"
proof -
  obtain i ev s' where i: "i < m_associativity s"
    and run: "insert_line api rp rg bi fill evict_info want s = Inr (ev, s')"
    and ok: "cset_wf s'" "rp_ok (m_associativity s') (m_repl s')"
    and ins: "inserted api bi fill i s s'" and vic: "victim_of api evict_info want i s ev"
    using insert_total[OF assms(1,2,4)] by metis
  have infos: "m_cache_block_info_array s' =
      (m_cache_block_info_array s)[i := bi_clone api (m_cache_block_info_array s ! i) bi]"
    and assoc: "m_associativity s' = m_associativity s"
    using ins by (simp_all add: inserted_def)
  have il: "i < length (m_cache_block_info_array s)" using assms(1) i by (simp add: cset_wf_def)
  have new: "getTag api (m_cache_block_info_array s' ! i) = getTag api bi"
    "getCState api (m_cache_block_info_array s' ! i) = getCState api bi"
    using infos il assms(3) by (simp_all add: block_laws_def)
  obtain j where j: "find_line api (getTag api bi) s' = Some j"
    using new(1) i assoc by (cases "find_line api (getTag api bi) s'")
      (auto simp: find_line_def find_down_None)
  have "j = i"
  proof (rule ccontr)
    assume "j \<noteq> i"
    then have "getTag api (m_cache_block_info_array s ! j) = getTag api bi" "j < m_associativity s"
      using j infos assoc by (auto simp: find_line_def dest!: find_down_Some)
    then show False using assms(5) by (auto simp: find_line_def find_down_None)
  qed
  then show ?thesis using run ok j new(2) vic ins i by blast
qed

lemma update_total:
  assumes "cset_wf s" "rp_ok (m_associativity s) (m_repl s)" "i < m_associativity s"
  shows "\<exists>r. updateReplacementIndex rp i s = Inr (s\<lparr>m_repl := r\<rparr>) \<and> rp_ok (m_associativity s) r"
  using update_ok[OF assms(2,3)] by (auto simp: updateReplacementIndex_def)

text \<open>Reads and writes inside a line succeed, and a read returns what the last write of the same
  bytes stored.\<close>

lemma read_total:
  assumes "cset_wf s" "rp_ok (m_associativity s) (m_repl s)" "l < m_associativity s"
    and "off + n \<le> m_blocksize s"
  shows "\<exists>r. read_line rp l off want n u s =
      Inr (if want then map_option (buf_slice (l * m_blocksize s + off) n) (m_blocks s) else None,
           s\<lparr>m_repl := r\<rparr>) \<and> rp_ok (m_associativity s) r"
proof -
  have b: "l * m_blocksize s + off + n \<le> length b" if "m_blocks s = Some b" for b
    using line_in_array[OF assms(3,4)] assms(1) that by (simp add: cset_wf_def)
  obtain r where r: "updateReplacementIndex rp l s = Inr (s\<lparr>m_repl := r\<rparr>)" "rp_ok (m_associativity s) r"
    using update_total[OF assms(1-3)] by blast
  have "read_line rp l off want n u s = bindE (if u then updateReplacementIndex rp l s else Inr s)
      (\<lambda>s'. Inr (if want then map_option (buf_slice (l * m_blocksize s + off) n) (m_blocks s) else None, s'))"
    using assms(4) b by (cases "m_blocks s") (auto simp: read_line_def copy_out_def)
  then show ?thesis
    using r assms(2) by (intro exI[of _ "if u then r else m_repl s"]) simp
qed

lemma write_total:
  assumes "cset_wf s" "rp_ok (m_associativity s) (m_repl s)" "l < m_associativity s"
    and "off + n \<le> m_blocksize s" "\<And>d. src = Some d \<Longrightarrow> length d = n"
  shows "\<exists>r. write_line rp l off src n u s = Inr (s\<lparr>m_repl := r,
      m_blocks := (case src of Some d \<Rightarrow> map_option (overwrite (l * m_blocksize s + off) d) (m_blocks s)
                   | None \<Rightarrow> m_blocks s)\<rparr>) \<and> rp_ok (m_associativity s) r"
proof -
  let ?m = "case src of Some d \<Rightarrow> map_option (overwrite (l * m_blocksize s + off) d) (m_blocks s)
                   | None \<Rightarrow> m_blocks s"
  let ?t = "s\<lparr>m_blocks := ?m\<rparr>"
  have b: "l * m_blocksize s + off + n \<le> length b" if "m_blocks s = Some b" for b
    using line_in_array[OF assms(3,4)] assms(1) that by (simp add: cset_wf_def)
  have "cset_wf ?t"
    using assms(1,5) b by (auto simp: cset_wf_def buf_simps split: option.splits)
  then obtain r where r: "updateReplacementIndex rp l ?t = Inr (?t\<lparr>m_repl := r\<rparr>)"
    "rp_ok (m_associativity s) r"
    using update_total[of ?t l] assms(2,3) by auto
  have same: "s\<lparr>m_blocks := m\<rparr> = s" if "m_blocks s = m" for m
    using that by (cases s) simp
  have "write_line rp l off src n u s = (if u then updateReplacementIndex rp l ?t else Inr ?t)"
    using assms(4,5) b
    by (cases "m_blocks s"; cases src) (auto simp: write_line_def copy_in_def same)
  then show ?thesis using r assms(2) by (intro exI[of _ "if u then r else m_repl s"]) simp
qed

end

end
