(* ===== verification/Cache_Set_LRU2.thy ===== *)
theory Cache_Set_LRU2
  imports Cache_Set
begin

text \<open>
  The LRU2 replacement policy, \<open>src/common/core/memory_subsystem/cache/cache_set_lru2.cc\<close>. The
  first \<open>approx_margin = log2(associativity)\<close> ways are for exact blocks, the others for
  approximate ones; each part keeps its own 8-bit ages \<open>m_lru_bits\<close>, 0 for the way used last.

  The abstraction of a part is the list of its ways from the most to the least recently used one
  (\<open>lru_order\<close>); the policy then moves a way to the front and evicts the last one.
\<close>

record lru2 =
  m_lru_bits :: "u8 list"
  approx_margin :: nat

definition new_lru2 :: "nat \<Rightarrow> lru2" where
  "new_lru2 assoc = (let margin = ilog2 assoc
     in \<lparr>m_lru_bits = map of_nat [0..<margin] @ map (\<lambda>i. of_nat (i - margin)) [margin..<assoc],
         approx_margin = margin\<rparr>)"

text \<open>One pass over the ways \<open>lo\<close> to \<open>hi - 1\<close>: those younger than the accessed way age.\<close>

definition age_younger :: "nat \<Rightarrow> nat \<Rightarrow> nat \<Rightarrow> u8 list \<Rightarrow> u8 list" where
  "age_younger lo hi x bits =
     fold (\<lambda>i b. if b ! i < b ! x then b[i := b ! i + 1] else b) [lo..<hi] bits"

definition lru2_update :: "nat \<Rightarrow> (('b, lru2) cache_set) \<Rightarrow> lru2 result" where
  "lru2_update accessed_index s =
     (let r = m_repl s; lo = (if accessed_index < approx_margin r then 0 else approx_margin r);
          hi = (if accessed_index < approx_margin r then approx_margin r else m_associativity s)
      in if accessed_index < length (m_lru_bits r) then
           Inr (r\<lparr>m_lru_bits := (age_younger lo hi accessed_index (m_lru_bits r))[accessed_index := 0]\<rparr>)
         else Inl OutOfBounds)"

fun first_invalid :: "'b block_api \<Rightarrow> 'b list \<Rightarrow> nat list \<Rightarrow> nat option" where
  "first_invalid api infos [] = None"
| "first_invalid api infos (i # is) =
     (if \<not> isValid api (infos ! i) then Some i else first_invalid api infos is)"

definition oldest :: "'b block_api \<Rightarrow> ('b, lru2) cache_set \<Rightarrow> nat \<Rightarrow> nat \<Rightarrow> nat" where
  "oldest api s lo hi = fst (fold (\<lambda>i (index, max_bits).
       if m_lru_bits (m_repl s) ! i > max_bits \<and> isValidReplacement api i s
       then (i, m_lru_bits (m_repl s) ! i) else (index, max_bits)) [lo..<hi] (lo, 0))"

definition lru2_get :: "'b block_api \<Rightarrow> ('b, lru2) cache_set \<Rightarrow> (nat \<times> lru2) result" where
  "lru2_get api s =
     (let lo = (if m_approx_flag s = False then 0 else approx_margin (m_repl s));
          hi = (if m_approx_flag s = False then approx_margin (m_repl s) else m_associativity s)
      in case first_invalid api (m_cache_block_info_array s) [lo..<hi] of
           Some i \<Rightarrow> bindE (lru2_update i s) (\<lambda>r. Inr (i, r))
         | None \<Rightarrow>
             (let index = oldest api s lo hi
              in bindE (checkE (LogAssert ''Error Finding LRU bits'') (index < hi)) (\<lambda>_.
                 bindE (lru2_update index s) (\<lambda>r. Inr (index, r)))))"

definition lru2_policy :: "'b block_api \<Rightarrow> ('b, lru2) repl_policy" where
  "lru2_policy api = \<lparr>rp_get = lru2_get api, rp_update = lru2_update\<rparr>"

section \<open>Recency order\<close>

definition lru_order :: "nat \<Rightarrow> nat \<Rightarrow> u8 list \<Rightarrow> nat list \<Rightarrow> bool" where
  "lru_order lo hi bits ws \<longleftrightarrow> distinct ws \<and> set ws = {lo..<hi} \<and>
     (\<forall>j<length ws. unat (bits ! (ws ! j)) = j)"

lemma lru_order_length: "lru_order lo hi bits ws \<Longrightarrow> length ws = hi - lo"
  by (metis card_atLeastLessThan distinct_card lru_order_def)

lemma lru_order_cong:
  "(\<And>i. lo \<le> i \<Longrightarrow> i < hi \<Longrightarrow> bits' ! i = bits ! i) \<Longrightarrow> lru_order lo hi bits' ws = lru_order lo hi bits ws"
  unfolding lru_order_def by (metis atLeastLessThan_iff nth_mem)

lemma age_younger_nth:
  assumes "n \<le> length bits" "x < length bits"
  shows "length (age_younger lo n x bits) = length bits \<and>
    (\<forall>i<length bits. age_younger lo n x bits ! i =
      (if lo \<le> i \<and> i < n \<and> bits ! i < bits ! x then bits ! i + 1 else bits ! i))"
  using assms(1)
proof (induction n)
  case (Suc n)
  let ?b = "age_younger lo n x bits"
  have l: "length ?b = length bits"
    and b: "\<And>i. i < length bits \<Longrightarrow> ?b ! i =
      (if lo \<le> i \<and> i < n \<and> bits ! i < bits ! x then bits ! i + 1 else bits ! i)"
    using Suc by simp_all
  have x: "?b ! x = bits ! x" using b[OF assms(2)] by simp
  have n: "?b ! n = bits ! n" using b[of n] Suc.prems by simp
  have step: "age_younger lo (Suc n) x bits =
      (if lo \<le> n \<and> bits ! n < bits ! x then ?b[n := bits ! n + 1] else ?b)"
    using x n by (simp add: age_younger_def)
  show ?case unfolding step using l b n Suc.prems
    by (auto simp: nth_list_update less_Suc_eq)
qed (simp add: age_younger_def)

text \<open>An access moves its way to the front of the order, in its part; other ways keep their age.\<close>

lemma lru_order_touch:
  assumes "lru_order lo hi bits ws" "x \<in> set ws" "hi \<le> length bits"
  shows "lru_order lo hi ((age_younger lo hi x bits)[x := 0]) (x # remove1 x ws)"
    and "\<And>i. i < length bits \<Longrightarrow> i < lo \<or> hi \<le> i \<Longrightarrow>
      ((age_younger lo hi x bits)[x := 0]) ! i = bits ! i"
    and "length ((age_younger lo hi x bits)[x := 0]) = length bits"
proof -
  let ?b = "(age_younger lo hi x bits)[x := 0]"
  have ws: "distinct ws" "set ws = {lo..<hi}"
    and age: "\<And>j. j < length ws \<Longrightarrow> unat (bits ! (ws ! j)) = j"
    using assms(1) by (auto simp: lru_order_def)
  have xl: "x < length bits" "lo \<le> x" "x < hi" using assms(2,3) ws by auto
  have len: "length (age_younger lo hi x bits) = length bits"
    and nth: "\<And>i. i < length bits \<Longrightarrow> age_younger lo hi x bits ! i =
      (if lo \<le> i \<and> i < hi \<and> bits ! i < bits ! x then bits ! i + 1 else bits ! i)"
    using age_younger_nth[OF assms(3) xl(1), of lo] by auto
  show "length ?b = length bits" using len by simp
  show "?b ! i = bits ! i" if "i < length bits" "i < lo \<or> hi \<le> i" for i
    using nth[OF that(1)] that xl by auto
  obtain as bs where split: "ws = as @ x # bs" "x \<notin> set as" "x \<notin> set bs"
    using split_list[OF assms(2)] ws(1) by auto
  have rm: "remove1 x ws = as @ bs" using split by (simp add: remove1_append)
  have px: "unat (bits ! x) = length as" using age[of "length as"] split by simp
  have in_part: "w < length bits \<and> lo \<le> w \<and> w < hi" if "w \<in> set ws" for w
    using that ws assms(3) by auto
  have young: "unat (?b ! (as ! j)) = Suc j" if "j < length as" for j
  proof -
    have w: "as ! j \<in> set ws" "as ! j \<noteq> x" using that split by auto
    have a: "unat (bits ! (as ! j)) = j" using age[of j] that split by (simp add: nth_append)
    have lt: "bits ! (as ! j) < bits ! x" using a px that by (simp add: word_less_nat_alt)
    have "unat (bits ! (as ! j)) + 1 < 2 ^ 8"
      using a that px unsigned_less[of "bits ! x", where 'a = nat] by simp
    then have "unat (bits ! (as ! j) + 1) = Suc j"
      using a by (subst unat_word_ariths) simp
    then show ?thesis using nth[of "as ! j"] in_part[OF w(1)] w(2) lt by simp
  qed
  have old: "unat (?b ! (bs ! j)) = Suc (length as + j)" if "j < length bs" for j
  proof -
    have w: "bs ! j \<in> set ws" "bs ! j \<noteq> x" using that split by auto
    have a: "unat (bits ! (bs ! j)) = Suc (length as + j)"
      using age[of "Suc (length as + j)"] that split by (simp add: nth_append)
    then have "\<not> bits ! (bs ! j) < bits ! x" using px by (simp add: word_less_nat_alt)
    then show ?thesis using nth[of "bs ! j"] in_part[OF w(1)] w(2) a by simp
  qed
  have "unat (?b ! ((x # as @ bs) ! j)) = j" if "j < length (x # as @ bs)" for j
  proof (cases j)
    case 0
    then show ?thesis using xl len by simp
  next
    case (Suc k)
    then show ?thesis using young[of k] old[of "k - length as"] that by (cases "k < length as") (simp_all add: nth_append)
  qed
  moreover have "distinct (x # as @ bs)" "set (x # as @ bs) = {lo..<hi}"
    using ws split by auto
  ultimately show "lru_order lo hi ?b (x # remove1 x ws)" by (simp add: lru_order_def rm)
qed

section \<open>The policy invariant and contract\<close>

text \<open>Both parts have an order. The lower part is not empty: with one way there is no exact way.\<close>

definition lru2_state :: "nat \<Rightarrow> lru2 \<Rightarrow> nat list \<Rightarrow> nat list \<Rightarrow> bool" where
  "lru2_state assoc r exact approx \<longleftrightarrow>
     0 < approx_margin r \<and> approx_margin r < assoc \<and> length (m_lru_bits r) = assoc \<and>
     lru_order 0 (approx_margin r) (m_lru_bits r) exact \<and>
     lru_order (approx_margin r) assoc (m_lru_bits r) approx"

definition lru2_ok :: "nat \<Rightarrow> lru2 \<Rightarrow> bool" where
  "lru2_ok assoc r \<longleftrightarrow> (\<exists>exact approx. lru2_state assoc r exact approx)"

lemma lru2_update_state:
  assumes "lru2_state (m_associativity s) (m_repl s) exact approx" "i < m_associativity s"
  shows "\<exists>r. lru2_update i s = Inr r \<and> approx_margin r = approx_margin (m_repl s) \<and>
    lru2_state (m_associativity s) r
      (if i < approx_margin (m_repl s) then i # remove1 i exact else exact)
      (if i < approx_margin (m_repl s) then approx else i # remove1 i approx)"
proof -
  let ?r = "m_repl s" and ?n = "m_associativity s"
  let ?k = "approx_margin ?r" and ?b = "m_lru_bits ?r"
  have st: "0 < ?k" "?k < ?n" "length ?b = ?n" "lru_order 0 ?k ?b exact" "lru_order ?k ?n ?b approx"
    using assms(1) by (auto simp: lru2_state_def)
  show ?thesis
  proof (cases "i < ?k")
    case True
    then have "i \<in> set exact" using st(4) by (simp add: lru_order_def)
    note t = lru_order_touch[OF st(4) this]
    have "lru_order ?k ?n ((age_younger 0 ?k i ?b)[i := 0]) approx = lru_order ?k ?n ?b approx"
      using t(2) st by (intro lru_order_cong) simp
    then show ?thesis using True t st assms(2)
      by (auto simp: lru2_update_def Let_def lru2_state_def)
  next
    case False
    then have "i \<in> set approx" using st(5) assms(2) by (simp add: lru_order_def)
    note t = lru_order_touch[OF st(5) this]
    have "lru_order 0 ?k ((age_younger ?k ?n i ?b)[i := 0]) exact = lru_order 0 ?k ?b exact"
      using t(2) st by (intro lru_order_cong) simp
    then show ?thesis using False t st assms(2)
      by (auto simp: lru2_update_def Let_def lru2_state_def)
  qed
qed

lemma first_invalid_Some:
  "first_invalid api infos is = Some i \<Longrightarrow> i \<in> set is \<and> \<not> isValid api (infos ! i)"
  by (induction "is") (auto split: if_splits)

lemma first_invalid_None:
  "first_invalid api infos is = None \<longleftrightarrow> (\<forall>i\<in>set is. isValid api (infos ! i))"
  by (induction "is") auto

text \<open>The scan keeps the oldest way seen so far among those that may be replaced.\<close>

lemma oldest_scan:
  fixes bits :: "nat \<Rightarrow> u8" and P :: "nat \<Rightarrow> bool"
  defines "f \<equiv> \<lambda>i (index, mx). if bits i > mx \<and> P i then (i, bits i) else (index, mx)"
  shows "fst (fold f js (a, m)) \<in> insert a (set js) \<and> m \<le> snd (fold f js (a, m)) \<and>
    (\<forall>i\<in>set js. P i \<longrightarrow> bits i \<le> snd (fold f js (a, m))) \<and>
    (fold f js (a, m) = (a, m) \<or> (\<exists>i\<in>set js. P i \<and> fold f js (a, m) = (i, bits i)))"
proof (induction js arbitrary: a m)
  case (Cons i js)
  show ?case
  proof (cases "bits i > m \<and> P i")
    case True
    then have "fold f (i # js) (a, m) = fold f js (i, bits i)" by (simp add: f_def)
    then show ?thesis using Cons[of i "bits i"] True by auto
  next
    case False
    then have "fold f (i # js) (a, m) = fold f js (a, m)" by (auto simp: f_def)
    then show ?thesis using Cons[of a m] False by (auto simp: not_less intro: order_trans)
  qed
qed simp

lemma oldest_in: "lo < hi \<Longrightarrow> lo \<le> oldest api s lo hi \<and> oldest api s lo hi < hi"
  using oldest_scan[where bits = "\<lambda>i. m_lru_bits (m_repl s) ! i"
    and P = "\<lambda>i. isValidReplacement api i s" and js = "[lo..<hi]" and a = lo and m = 0]
  by (auto simp: oldest_def)

text \<open>If every way of the part may be replaced, the victim is the last of the recency order.\<close>

lemma oldest_last:
  assumes "lru_order lo hi (m_lru_bits (m_repl s)) ws" "lo < hi"
    and "\<And>i. lo \<le> i \<Longrightarrow> i < hi \<Longrightarrow> isValidReplacement api i s"
  shows "oldest api s lo hi = last ws"
proof -
  let ?bits = "\<lambda>i. m_lru_bits (m_repl s) ! i"
  let ?f = "\<lambda>i (index, mx). if ?bits i > mx \<and> isValidReplacement api i s then (i, ?bits i) else (index, mx)"
  define r where "r = fold ?f [lo..<hi] (lo, 0)"
  have ws: "distinct ws" "set ws = {lo..<hi}" "\<And>j. j < length ws \<Longrightarrow> unat (?bits (ws ! j)) = j"
    using assms(1) by (auto simp: lru_order_def)
  then have ne: "ws \<noteq> []" using assms(2) by auto
  let ?l = "last ws"
  have l: "?l \<in> {lo..<hi}" using ne ws(2) by (metis last_in_set)
  have bl: "unat (?bits ?l) = length ws - 1" using ws(3)[of "length ws - 1"] ne by (simp add: last_conv_nth)
  note scan = oldest_scan[where bits = ?bits and P = "\<lambda>i. isValidReplacement api i s"
    and js = "[lo..<hi]" and a = lo and m = 0, folded r_def]
  have max: "?bits ?l \<le> snd r" using scan l assms(3) by auto
  have rr: "r = (lo, 0) \<or> (\<exists>i\<in>{lo..<hi}. r = (i, ?bits i))" using scan by auto
  then have "fst r \<in> {lo..<hi}" using assms(2) by auto
  then obtain j where j: "j < length ws" "fst r = ws ! j" using ws(2) by (metis in_set_conv_nth)
  have "unat (?bits ?l) \<le> unat (snd r)" using max by (simp add: word_le_nat_alt)
  moreover have "unat (snd r) \<le> unat (?bits (fst r))"
    using rr by auto
  ultimately have "length ws - 1 \<le> j" using bl ws(3)[OF j(1)] j(2) by simp
  then have "j = length ws - 1" using j(1) by simp
  then have "fst r = ?l" using j ne by (simp add: last_conv_nth)
  then show ?thesis by (simp add: oldest_def r_def)
qed

lemma new_lru2_state:
  assumes "2 \<le> n" "n \<le> 256"
  shows "lru2_state n (new_lru2 n) [0..<ilog2 n] [ilog2 n..<n]"
proof -
  have k: "0 < ilog2 n" "ilog2 n < n" using assms by (simp_all add: ilog2_pos ilog2_less)
  have u: "unat (of_nat j :: u8) = j" if "j < n" for j
    using that assms(2) by (simp add: unat_of_nat take_bit_nat_def)
  show ?thesis
    using k u by (auto simp: lru2_state_def new_lru2_def Let_def lru_order_def nth_append)
qed

text \<open>The part a block belongs to, its recency order, and the way chosen for it.\<close>

definition part_lo :: "('b, lru2) cache_set \<Rightarrow> nat" where
  "part_lo s = (if m_approx_flag s then approx_margin (m_repl s) else 0)"

definition part_hi :: "('b, lru2) cache_set \<Rightarrow> nat" where
  "part_hi s = (if m_approx_flag s then m_associativity s else approx_margin (m_repl s))"

lemma lru2_get_state:
  assumes "lru2_state (m_associativity s) (m_repl s) exact approx"
  shows "\<exists>i r. lru2_get api s = Inr (i, r) \<and> part_lo s \<le> i \<and> i < part_hi s \<and>
    approx_margin r = approx_margin (m_repl s) \<and>
    lru2_state (m_associativity s) r
      (if m_approx_flag s then exact else i # remove1 i exact)
      (if m_approx_flag s then i # remove1 i approx else approx) \<and>
    (\<not> isValid api (m_cache_block_info_array s ! i) \<or>
     (\<forall>j. part_lo s \<le> j \<and> j < part_hi s \<longrightarrow> isValid api (m_cache_block_info_array s ! j)) \<and>
      i = oldest api s (part_lo s) (part_hi s))"
proof -
  let ?k = "approx_margin (m_repl s)" and ?infos = "m_cache_block_info_array s"
  let ?lo = "part_lo s" and ?hi = "part_hi s"
  have k: "0 < ?k" "?k < m_associativity s" using assms by (auto simp: lru2_state_def)
  have part: "?lo < ?hi" "?hi \<le> m_associativity s" using k by (simp_all add: part_lo_def part_hi_def)
  have side: "i < ?k \<longleftrightarrow> \<not> m_approx_flag s" if "?lo \<le> i" "i < ?hi" for i
    using that by (auto simp: part_lo_def part_hi_def split: if_splits)
  have upd: "\<exists>r. lru2_update i s = Inr r \<and> approx_margin r = ?k \<and>
      lru2_state (m_associativity s) r
      (if m_approx_flag s then exact else i # remove1 i exact)
      (if m_approx_flag s then i # remove1 i approx else approx)" if i: "?lo \<le> i" "i < ?hi" for i
    using lru2_update_state[OF assms, of i] part(2) i side[OF i] by auto
  have get: "lru2_get api s = (case first_invalid api ?infos [?lo..<?hi] of
      Some i \<Rightarrow> bindE (lru2_update i s) (\<lambda>r. Inr (i, r))
    | None \<Rightarrow> bindE (checkE (LogAssert ''Error Finding LRU bits'') (oldest api s ?lo ?hi < ?hi)) (\<lambda>_.
         bindE (lru2_update (oldest api s ?lo ?hi) s) (\<lambda>r. Inr (oldest api s ?lo ?hi, r))))"
    unfolding lru2_get_def Let_def part_lo_def part_hi_def by (cases "m_approx_flag s") simp_all
  show ?thesis
  proof (cases "first_invalid api ?infos [?lo..<?hi]")
    case None
    then have "\<forall>j. ?lo \<le> j \<and> j < ?hi \<longrightarrow> isValid api (?infos ! j)" by (auto simp: first_invalid_None)
    moreover have o: "?lo \<le> oldest api s ?lo ?hi" "oldest api s ?lo ?hi < ?hi"
      using oldest_in[OF part(1)] by auto
    ultimately show ?thesis using upd[OF o] None unfolding get by auto
  next
    case (Some i)
    then have i: "?lo \<le> i" "i < ?hi" "\<not> isValid api (?infos ! i)"
      using first_invalid_Some[OF Some] by auto
    then show ?thesis using upd[OF i(1,2)] Some unfolding get by auto
  qed
qed

interpretation lru2: repl_contract "lru2_policy api" lru2_ok for api :: "'b block_api"
proof
  fix s :: "('b, lru2) cache_set"
  assume "lru2_ok (m_associativity s) (m_repl s)"
  then obtain exact approx where st: "lru2_state (m_associativity s) (m_repl s) exact approx"
    by (auto simp: lru2_ok_def)
  then have "part_hi s \<le> m_associativity s" by (simp add: part_hi_def lru2_state_def)
  moreover obtain i r where "lru2_get api s = Inr (i, r)" "i < part_hi s" "lru2_ok (m_associativity s) r"
    using lru2_get_state[OF st, of api] unfolding lru2_ok_def by blast
  ultimately
  show "\<exists>i r. rp_get (lru2_policy api) s = Inr (i, r) \<and> i < m_associativity s \<and> lru2_ok (m_associativity s) r"
    by (intro exI[of _ i] exI[of _ r]) (simp add: lru2_policy_def)
  fix i assume "i < m_associativity s"
  then obtain r where "lru2_update i s = Inr r" "lru2_ok (m_associativity s) r"
    using lru2_update_state[OF st, of i] unfolding lru2_ok_def by blast
  then show "\<exists>r. rp_update (lru2_policy api) i s = Inr r \<and> lru2_ok (m_associativity s) r"
    by (intro exI[of _ r]) (simp add: lru2_policy_def)
qed

section \<open>Properties\<close>

text \<open>
  C11. LRU2 is least-recently-used replacement on each part: \<open>updateReplacementIndex\<close> moves the
  accessed way to the front of its part's recency order, and when every way of the part is valid
  and replaceable the victim is the last of that order.
\<close>

theorem lru2_refines_lru:
  assumes "lru2_state (m_associativity s) (m_repl s) exact approx"
  shows "(i < m_associativity s \<longrightarrow> (\<exists>r. lru2_update i s = Inr r \<and>
      (if i < approx_margin (m_repl s)
       then lru2_state (m_associativity s) r (i # remove1 i exact) approx
       else lru2_state (m_associativity s) r exact (i # remove1 i approx)))) \<and>
    ((\<forall>j. part_lo s \<le> j \<and> j < part_hi s \<longrightarrow>
        isValid api (m_cache_block_info_array s ! j) \<and> isValidReplacement api j s) \<longrightarrow>
      (\<exists>r. lru2_get api s = Inr (last (if m_approx_flag s then approx else exact), r)))"
proof (intro conjI impI)
  assume "i < m_associativity s"
  with lru2_update_state[OF assms this] show "\<exists>r. lru2_update i s = Inr r \<and>
      (if i < approx_margin (m_repl s)
       then lru2_state (m_associativity s) r (i # remove1 i exact) approx
       else lru2_state (m_associativity s) r exact (i # remove1 i approx))" by auto
next
  let ?ws = "if m_approx_flag s then approx else exact"
  assume a: "\<forall>j. part_lo s \<le> j \<and> j < part_hi s \<longrightarrow>
        isValid api (m_cache_block_info_array s ! j) \<and> isValidReplacement api j s"
  obtain i r where g: "lru2_get api s = Inr (i, r)" "part_lo s \<le> i" "i < part_hi s"
    "\<not> isValid api (m_cache_block_info_array s ! i) \<or> i = oldest api s (part_lo s) (part_hi s)"
    using lru2_get_state[OF assms, of api] by auto
  have "lru_order (part_lo s) (part_hi s) (m_lru_bits (m_repl s)) ?ws"
    using assms by (simp add: lru2_state_def part_lo_def part_hi_def)
  then have "oldest api s (part_lo s) (part_hi s) = last ?ws"
    using oldest_last[of "part_lo s" "part_hi s" s ?ws api] a g(2,3) by simp
  then show "\<exists>r. lru2_get api s = Inr (last ?ws, r)" using g a by auto
qed

definition plain_api :: "(u64 \<times> cstate) block_api" where
  "plain_api = \<lparr>bi_create = (- 1, INVALID), getTag = fst, setTag = (\<lambda>t b. (t, snd b)), getCState = snd,
     setCState = (\<lambda>c b. (fst b, c)), isValid = (\<lambda>b. fst b \<noteq> - 1),
     bi_invalidate = (\<lambda>b. (- 1, INVALID)), bi_clone = (\<lambda>d s. s)\<rparr>"

lemma plain_api_laws: "block_laws plain_api"
  by (simp add: block_laws_def plain_api_def)

theorem lru2_refines_lru_witness:
  "\<exists>r. lru2_update 1 (new_cache_set plain_api True 4 64 (new_lru2 4)) = Inr r \<and>
     lru2_state 4 r [1, 0] [2, 3]"
proof -
  let ?s = "new_cache_set plain_api True 4 64 (new_lru2 4)"
  have k: "ilog2 4 = 2" using ilog2_power[of 2] by simp
  then have "lru2_state 4 (new_lru2 4) [0, 1] [2, 3]"
    using new_lru2_state[of 4] by (simp add: upt_rec)
  then have st: "lru2_state (m_associativity ?s) (m_repl ?s) [0, 1] [2, 3]"
    by (simp add: new_cache_set_def)
  show ?thesis
    using lru2_refines_lru[OF st, of 1 plain_api] k by (auto simp: new_cache_set_def new_lru2_def Let_def)
qed

text \<open>
  C10. Approximate and exact blocks never displace each other: on a well-formed set, inserting a
  block succeeds, and the way it takes is among the first \<open>approx_margin\<close> iff the block holds no
  approximate byte; all other ways keep their block and data.
\<close>

theorem lru2_partition:
  assumes "cset_wf s" "lru2_ok (m_associativity s) (m_repl s)"
    and "\<And>d. fill = Some d \<Longrightarrow> length d = m_blocksize s"
  shows "\<exists>i ev s'. insert_line api (lru2_policy api) rg bi fill evict_info want s = Inr (ev, s') \<and>
    cset_wf s' \<and> lru2_ok (m_associativity s') (m_repl s') \<and>
    i < m_associativity s \<and> inserted api bi fill i s s' \<and> victim_of api evict_info want i s ev \<and>
    (i < approx_margin (m_repl s) \<longleftrightarrow> \<not> is_block_approx
       (push_bit (ilog2 (m_blocksize s)) (getTag api bi)) (of_nat (m_blocksize s)) rg)"
proof -
  let ?f = "flagged api rg bi s"
  obtain exact approx where st: "lru2_state (m_associativity ?f) (m_repl ?f) exact approx"
    using assms(2) by (auto simp: lru2_ok_def)
  obtain i r where g: "lru2_get api ?f = Inr (i, r)" "part_lo ?f \<le> i" "i < part_hi ?f"
    and ok: "lru2_ok (m_associativity s) r"
    using lru2_get_state[OF st, of api] unfolding lru2_ok_def flagged_sel by blast
  have km: "approx_margin (m_repl s) < m_associativity s" using st by (simp add: lru2_state_def)
  have i: "i < m_associativity s" using g(3) km by (auto simp: part_hi_def split: if_splits)
  have "rp_get (lru2_policy api) ?f = Inr (i, r)" using g(1) by (simp add: lru2_policy_def)
  from insert_line_eq[where evict_info = evict_info and want = want, OF assms(1) this i assms(3)]
  obtain ev s' where e: "insert_line api (lru2_policy api) rg bi fill evict_info want s = Inr (ev, s')"
    "cset_wf s'" "m_repl s' = r" "inserted api bi fill i s s'" "victim_of api evict_info want i s ev"
    by blast
  moreover have "i < approx_margin (m_repl s) \<longleftrightarrow> \<not> m_approx_flag ?f"
    using g(2,3) by (auto simp: part_lo_def part_hi_def split: if_splits)
  ultimately show ?thesis using ok i by (auto simp: inserted_def flagged_def)
qed

theorem lru2_partition_witness:
  "\<exists>i ev s'. insert_line plain_api (lru2_policy plain_api) registry_init (7, SHARED)
      (Some (replicate 64 1)) (- 1, INVALID) True (new_cache_set plain_api True 4 64 (new_lru2 4)) = Inr (ev, s') \<and>
     i < approx_margin (new_lru2 4) \<and>
     inserted plain_api (7, SHARED) (Some (replicate 64 1)) i
       (new_cache_set plain_api True 4 64 (new_lru2 4)) s'"
proof -
  let ?s = "new_cache_set plain_api True 4 64 (new_lru2 4)"
  have "lru2_ok 4 (new_lru2 4)" unfolding lru2_ok_def using new_lru2_state[of 4] by auto
  then have ok: "lru2_ok (m_associativity ?s) (m_repl ?s)" by (simp add: new_cache_set_def)
  have na: "\<not> is_block_approx a n registry_init" for a n
    by (simp add: is_block_approx_iff reg_addrs_def registry_init_def)
  show ?thesis
    using lru2_partition[OF new_cache_set_wf ok, of "Some (replicate 64 1)" plain_api registry_init
        "(7, SHARED)" "(- 1, INVALID)" True]
    by (auto simp: na new_cache_set_def)
qed

text \<open>A direct-mapped cache cannot use LRU2: \<open>log2(1)\<close> is 0, no way is left for exact blocks, and
  inserting one fails the assertion of \<open>getReplacementIndex\<close>.
\<close>

lemma lru2_direct_mapped_fails:
  assumes "\<not> is_block_approx (push_bit (ilog2 n) (getTag api bi)) (of_nat n) rg"
  shows "insert_line api (lru2_policy api) rg bi fill evict_info want
      (new_cache_set api faults 1 n (new_lru2 1)) = Inl (LogAssert ''Error Finding LRU bits'')"
proof -
  have "ilog2 (Suc 0) = 0" by (subst ilog2.simps) simp
  then show ?thesis using assms
    by (simp add: insert_line_def new_cache_set_def getReplacementIndex_def lru2_policy_def
        lru2_get_def new_lru2_def oldest_def Let_def)
qed

lemma lru2_direct_mapped_fails_witness:
  "insert_line plain_api (lru2_policy plain_api) registry_init (7, SHARED) None (- 1, INVALID) True
      (new_cache_set plain_api False 1 64 (new_lru2 1)) = Inl (LogAssert ''Error Finding LRU bits'')"
  by (rule lru2_direct_mapped_fails)
     (simp add: is_block_approx_iff reg_addrs_def registry_init_def)

end
