(* ===== verification/Cache_Model.thy ===== *)
theory Cache_Model
  imports Cache_Set_LRU2
begin

text \<open>
  A cache, \<open>src/common/core/memory_subsystem/cache/cache.cc\<close>: an array of sets, counters, and the
  fault injector that corrupts its lines. Accesses report to the registry of approximate
  addresses, so they take and return it.

  The address arithmetic of the base class (\<open>splitAddress\<close>, \<open>tagToAddress\<close>) is not part of the
  repository and is the record \<open>geometry\<close>. A returned \<open>CacheBlockInfo*\<close> is the pair of its set
  and way. A line without data bytes (\<open>m_blocks == NULL\<close>) is an empty array for the injector.
\<close>

datatype access_t = INVALID_ACCESS_TYPE | LOAD | STORE

datatype cache_t = INVALID_CACHE_TYPE | PR_L1_CACHE | PR_L2_CACHE | SHARED_CACHE

record geometry =
  splitAddress :: "u64 \<Rightarrow> u64 \<times> nat \<times> nat"   \<comment> \<open>tag, set index, block offset\<close>
  tagToAddress :: "u64 \<Rightarrow> u64"

record ('b, 'r, 'p, 'g) cache =
  m_enabled :: bool
  Raul_core_id :: int
  Raul_name :: string
  m_cache_type :: cache_t
  m_num_accesses :: u64
  m_num_hits :: u64
  m_sets :: "('b, 'r) cache_set list"
  m_fault_injector :: "('p, 'g) injector option"
  c_associativity :: nat
  c_blocksize :: nat

definition new_cache ::
  "'b block_api \<Rightarrow> string \<Rightarrow> int \<Rightarrow> nat \<Rightarrow> nat \<Rightarrow> nat \<Rightarrow> 'r \<Rightarrow> cache_t \<Rightarrow> bool \<Rightarrow>
   ('p, 'g) injector option \<Rightarrow> ('b, 'r, 'p, 'g) cache" where
  "new_cache api name core_id num_sets assoc bsize repl ctype faults fi =
     \<lparr>m_enabled = False, Raul_core_id = core_id, Raul_name = name, m_cache_type = ctype,
      m_num_accesses = 0, m_num_hits = 0,
      m_sets = replicate num_sets (new_cache_set api faults assoc bsize repl),
      m_fault_injector = fi, c_associativity = assoc, c_blocksize = bsize\<rparr>"

definition get_set :: "nat \<Rightarrow> ('b, 'r, 'p, 'g) cache \<Rightarrow> ('b, 'r) cache_set result" where
  "get_set i c = (if i < length (m_sets c) then Inr (m_sets c ! i) else Inl OutOfBounds)"

definition put_set :: "nat \<Rightarrow> ('b, 'r) cache_set \<Rightarrow> ('b, 'r, 'p, 'g) cache \<Rightarrow> ('b, 'r, 'p, 'g) cache" where
  "put_set i s c = c\<lparr>m_sets := (m_sets c)[i := s]\<rparr>"

definition getSetLock :: "geometry \<Rightarrow> u64 \<Rightarrow> ('b, 'r, 'p, 'g) cache \<Rightarrow> nat result" where
  "getSetLock geo address c =
     (case splitAddress geo address of (tag, set_index, _) \<Rightarrow>
        bindE (checkE (CAssert ''set_index < m_num_sets'') (set_index < length (m_sets c)))
          (\<lambda>_. Inr set_index))"

definition invalidateSingleLine ::
  "'b block_api \<Rightarrow> geometry \<Rightarrow> u64 \<Rightarrow> ('b, 'r, 'p, 'g) cache \<Rightarrow> (bool \<times> ('b, 'r, 'p, 'g) cache) result" where
  "invalidateSingleLine api geo address c =
     (case splitAddress geo address of (tag, set_index, _) \<Rightarrow>
        bindE (checkE (CAssert ''set_index < m_num_sets'') (set_index < length (m_sets c))) (\<lambda>_.
        let (found, s) = invalidate_line api tag (m_sets c ! set_index)
        in Inr (found, put_set set_index s c)))"

text \<open>Running the injector on the bytes from \<open>off\<close> of a set.\<close>

definition inject_set ::
  "(('p, 'g) injector \<times> bytes \<Rightarrow> (('p, 'g) injector \<times> bytes) result) \<Rightarrow>
   nat \<Rightarrow> ('b, 'r, 'p, 'g) cache \<Rightarrow> ('b, 'r, 'p, 'g) cache result" where
  "inject_set run i c =
     (case m_fault_injector c of
        None \<Rightarrow> Inr c
      | Some fi \<Rightarrow>
          bindE (get_set i c) (\<lambda>s.
          bindE (run (fi, case m_blocks s of Some b \<Rightarrow> b | None \<Rightarrow> [])) (\<lambda>(fi, b).
          Inr (put_set i (s\<lparr>m_blocks := map_option (\<lambda>_. b) (m_blocks s)\<rparr>)
                 (c\<lparr>m_fault_injector := Some fi\<rparr>)))))"

text \<open>\<open>accessSingleLine\<close>: a miss returns \<open>None\<close> and touches nothing. \<open>buff\<close> is the data to store,
  \<open>want\<close> tells whether the caller passed a buffer for a load; the data read is returned.\<close>

definition accessSingleLine ::
  "'b block_api \<Rightarrow> geometry \<Rightarrow> ('b, 'r) repl_policy \<Rightarrow> ('p \<Rightarrow> 'g \<Rightarrow> bool \<times> 'g) \<Rightarrow>
   u64 \<Rightarrow> access_t \<Rightarrow> bytes option \<Rightarrow> bool \<Rightarrow> nat \<Rightarrow> bool \<Rightarrow> registry \<Rightarrow> ('b, 'r, 'p, 'g) cache \<Rightarrow>
   ((nat \<times> nat) option \<times> bytes option \<times> registry \<times> ('b, 'r, 'p, 'g) cache) result" where
  "accessSingleLine api geo rp sample address access_type buff want bytes update_replacement rg c =
     (case splitAddress geo address of (tag, set_index, block_offset) \<Rightarrow>
      bindE (get_set set_index c) (\<lambda>s.
      case find_line api tag s of
        None \<Rightarrow> Inr (None, None, rg, c)
      | Some line_index \<Rightarrow>
          (let ptr = line_index * m_blocksize s + block_offset
           in if access_type = LOAD then
                (let rg = add_read_acc address (Raul_core_id c) (Raul_name c) (of_nat (c_blocksize c)) rg
                 in bindE (inject_set (preRead sample address (of_nat bytes) rg ptr) set_index c) (\<lambda>c.
                    bindE (get_set set_index c) (\<lambda>s.
                    bindE (read_line rp line_index block_offset want bytes update_replacement s) (\<lambda>(out, s).
                    Inr (Some (set_index, line_index), out, rg, put_set set_index s c)))))
              else
                (let rg = add_write_acc address (Raul_core_id c) (Raul_name c) (of_nat (c_blocksize c)) rg
                 in bindE (write_line rp line_index block_offset buff bytes update_replacement s) (\<lambda>s.
                    bindE (inject_set (postWrite sample address (of_nat bytes) rg ptr) set_index
                             (put_set set_index s c)) (\<lambda>c.
                    Inr (Some (set_index, line_index), None, rg, c)))))))"

record 'b insertion =
  in_eviction :: bool
  in_evict_addr :: u64
  in_evict_info :: 'b
  in_evict_buff :: "bytes option"

definition insertSingleLine ::
  "'b block_api \<Rightarrow> geometry \<Rightarrow> ('b, 'r) repl_policy \<Rightarrow> ('p \<Rightarrow> 'g \<Rightarrow> bool \<times> 'g) \<Rightarrow>
   u64 \<Rightarrow> bytes option \<Rightarrow> 'b \<Rightarrow> bool \<Rightarrow> registry \<Rightarrow> ('b, 'r, 'p, 'g) cache \<Rightarrow>
   ('b insertion \<times> ('b, 'r, 'p, 'g) cache) result" where
  "insertSingleLine api geo rp sample address fill_buff evict_block_info want_evict rg c =
     (case splitAddress geo address of (tag, set_index, _) \<Rightarrow>
      let cache_block_info = setTag api tag (bi_create api)
      in bindE (get_set set_index c) (\<lambda>s.
         bindE (insert_line api rp rg cache_block_info fill_buff evict_block_info want_evict s) (\<lambda>(ev, s).
         let c = put_set set_index s c;
             out = \<lparr>in_eviction = ev_eviction ev, in_evict_addr = tagToAddress geo (getTag api (ev_block_info ev)),
                    in_evict_info = ev_block_info ev, in_evict_buff = ev_buff ev\<rparr>
         in case m_fault_injector c of
              None \<Rightarrow> Inr (out, c)
            | Some _ \<Rightarrow>
                (case find_line api tag s of
                   None \<Rightarrow> Inl (LogAssert ''Inserted line no longer there?'')
                 | Some line_index \<Rightarrow>
                     bindE (inject_set (postWrite sample address (of_nat (m_blocksize s)) rg
                              (line_index * m_blocksize s)) set_index c) (\<lambda>c.
                     Inr (out, c))))))"

definition peekSingleLine ::
  "'b block_api \<Rightarrow> geometry \<Rightarrow> u64 \<Rightarrow> ('b, 'r, 'p, 'g) cache \<Rightarrow> (nat \<times> nat) option result" where
  "peekSingleLine api geo address c =
     (case splitAddress geo address of (tag, set_index, _) \<Rightarrow>
      bindE (get_set set_index c) (\<lambda>s. Inr (map_option (Pair set_index) (find_line api tag s))))"

definition cache_updateCounters :: "bool \<Rightarrow> ('b, 'r, 'p, 'g) cache \<Rightarrow> ('b, 'r, 'p, 'g) cache" where
  "cache_updateCounters cache_hit c =
     (if m_enabled c then
        (let c = c\<lparr>m_num_accesses := m_num_accesses c + 1\<rparr>
         in if cache_hit then c\<lparr>m_num_hits := m_num_hits c + 1\<rparr> else c)
      else c)"

definition cache_updateHits :: "u64 \<Rightarrow> ('b, 'r, 'p, 'g) cache \<Rightarrow> ('b, 'r, 'p, 'g) cache" where
  "cache_updateHits hits c =
     (if m_enabled c then c\<lparr>m_num_accesses := m_num_accesses c + hits, m_num_hits := m_num_hits c + hits\<rparr>
      else c)"

section \<open>Well-formed caches\<close>

definition cache_wf :: "geometry \<Rightarrow> (nat \<Rightarrow> 'r \<Rightarrow> bool) \<Rightarrow> ('b, 'r, 'p, 'g) cache \<Rightarrow> bool" where
  "cache_wf geo ok c \<longleftrightarrow>
     (\<forall>a. case splitAddress geo a of (_, i, off) \<Rightarrow> i < length (m_sets c) \<and> off < c_blocksize c) \<and>
     (\<forall>s\<in>set (m_sets c). cset_wf s \<and> m_associativity s = c_associativity c \<and>
        m_blocksize s = c_blocksize c \<and> ok (c_associativity c) (m_repl s)) \<and>
     c_blocksize c < 2 ^ 32 \<and>
     (m_fault_injector c \<noteq> None \<longrightarrow> (\<forall>s\<in>set (m_sets c). m_blocks s \<noteq> None))"

lemma put_set_sel [simp]:
  "m_sets (put_set i s c) = (m_sets c)[i := s]" "m_fault_injector (put_set i s c) = m_fault_injector c"
  "c_associativity (put_set i s c) = c_associativity c" "c_blocksize (put_set i s c) = c_blocksize c"
  "Raul_core_id (put_set i s c) = Raul_core_id c" "Raul_name (put_set i s c) = Raul_name c"
  "put_set i s (put_set i t c) = put_set i s c"
  by (simp_all add: put_set_def)

lemma cache_wf_set:
  "cache_wf geo ok c \<Longrightarrow> i < length (m_sets c) \<Longrightarrow> cset_wf (m_sets c ! i) \<and>
    m_associativity (m_sets c ! i) = c_associativity c \<and> m_blocksize (m_sets c ! i) = c_blocksize c \<and>
    ok (c_associativity c) (m_repl (m_sets c ! i))"
  by (simp add: cache_wf_def)

lemma cache_wf_split:
  "cache_wf geo ok c \<Longrightarrow> splitAddress geo a = (t, i, off) \<Longrightarrow> i < length (m_sets c) \<and> off < c_blocksize c"
  by (auto simp: cache_wf_def dest: spec[of _ a])

lemma cache_wf_put:
  assumes "cache_wf geo ok c" "cset_wf s" "m_associativity s = c_associativity c"
    and "m_blocksize s = c_blocksize c" "ok (c_associativity c) (m_repl s)"
    and "m_fault_injector c \<noteq> None \<longrightarrow> m_blocks s \<noteq> None"
  shows "cache_wf geo ok (put_set i s c)"
  using assms by (auto simp: cache_wf_def dest!: set_update_subset_insert[THEN subsetD])

lemma cache_wf_injector:
  "cache_wf geo ok c \<Longrightarrow> m_fault_injector c \<noteq> None \<Longrightarrow> cache_wf geo ok (c\<lparr>m_fault_injector := fi\<rparr>)"
  by (simp add: cache_wf_def)

lemma cache_wf_blocks:
  "cache_wf geo ok c \<Longrightarrow> i < length (m_sets c) \<Longrightarrow> m_fault_injector c \<noteq> None \<Longrightarrow>
    m_blocks (m_sets c ! i) \<noteq> None"
  by (simp add: cache_wf_def)

section \<open>Injection and access on a well-formed cache\<close>

text \<open>\<open>same_but_data i K c c'\<close>: only the bytes \<open>K\<close> of set \<open>i\<close> and the injector may differ.\<close>

definition same_but_data ::
  "nat \<Rightarrow> nat set \<Rightarrow> ('b, 'r, 'p, 'g) cache \<Rightarrow> ('b, 'r, 'p, 'g) cache \<Rightarrow> bool" where
  "same_but_data i K c c' \<longleftrightarrow>
     c_associativity c' = c_associativity c \<and> c_blocksize c' = c_blocksize c \<and>
     Raul_core_id c' = Raul_core_id c \<and> Raul_name c' = Raul_name c \<and>
     length (m_sets c') = length (m_sets c) \<and>
     (\<forall>j<length (m_sets c). j \<noteq> i \<longrightarrow> m_sets c' ! j = m_sets c ! j) \<and>
     (\<exists>b'. m_sets c' ! i = (m_sets c ! i)\<lparr>m_blocks := b'\<rparr> \<and>
        (case m_blocks (m_sets c ! i) of None \<Rightarrow> b' = None
         | Some b \<Rightarrow> (\<exists>d. b' = Some d \<and> changes_only K b d)))"

lemma same_but_data_refl: "same_but_data i K c c"
proof -
  have "m_sets c ! i = (m_sets c ! i)\<lparr>m_blocks := m_blocks (m_sets c ! i)\<rparr>" by simp
  then show ?thesis unfolding same_but_data_def
    by (auto split: option.splits intro!: exI[of _ "m_blocks (m_sets c ! i)"])
qed

lemma cset_wf_blocks:
  "cset_wf s \<Longrightarrow> (\<And>b. m_blocks s = Some b \<Longrightarrow> length b' = length b) \<Longrightarrow>
    cset_wf (s\<lparr>m_blocks := map_option (\<lambda>_. b') (m_blocks s)\<rparr>)"
  by (auto simp: cset_wf_def)

lemma inject_set_ok:
  fixes c :: "('b, 'r, 'p, 'g) cache"
    and inject :: "u64 \<Rightarrow> u32 \<Rightarrow> registry \<Rightarrow> nat \<Rightarrow> ('p, 'g) injector \<times> bytes \<Rightarrow>
      (('p, 'g) injector \<times> bytes) result"
  assumes "fault_channel inject" "cache_wf geo ok c" "i < length (m_sets c)"
    and "ptr + unat n \<le> c_associativity c * c_blocksize c"
  shows "\<exists>c'. inject_set (inject a n rg ptr) i c = Inr c' \<and> cache_wf geo ok c' \<and>
    same_but_data i (approx_places a n rg ptr) c c'"
proof (cases "m_fault_injector c")
  case None
  then show ?thesis using assms(2) same_but_data_refl by (auto simp: inject_set_def)
next
  case (Some fi)
  let ?s = "m_sets c ! i"
  obtain b where b: "m_blocks ?s = Some b"
    using cache_wf_blocks[OF assms(2,3)] Some by auto
  have len: "length b = c_associativity c * c_blocksize c"
    using cache_wf_set[OF assms(2,3)] b by (auto simp: cset_wf_def)
  obtain fi' b' where run: "inject a n rg ptr (fi, b) = Inr (fi', b')"
    using fault_channel.total[OF assms(1), of ptr n b a rg fi] assms(4) len by auto
  have ch: "changes_only (approx_places a n rg ptr) b b'"
    using fault_channel.frame[OF assms(1) run] .
  let ?c = "put_set i (?s\<lparr>m_blocks := Some b'\<rparr>) (c\<lparr>m_fault_injector := Some fi'\<rparr>)"
  have r: "inject_set (inject a n rg ptr) i c = Inr ?c"
    using Some b run assms(3) by (simp add: inject_set_def get_set_def)
  have wf: "cache_wf geo ok ?c"
  proof (rule cache_wf_put)
    show "cache_wf geo ok (c\<lparr>m_fault_injector := Some fi'\<rparr>)"
      using assms(2) Some by (simp add: cache_wf_injector)
    show "cset_wf (?s\<lparr>m_blocks := Some b'\<rparr>)"
      using cache_wf_set[OF assms(2,3)] len ch by (auto simp: cset_wf_def changes_only_def)
  qed (use cache_wf_set[OF assms(2,3)] in simp_all)
  have "same_but_data i (approx_places a n rg ptr) c ?c"
    using b ch assms(3) by (auto simp: same_but_data_def put_set_def)
  then show ?thesis using r wf by blast
qed

text \<open>What a changed byte range means for a line: bytes outside \<open>K\<close> keep their value.\<close>

lemma changes_only_slice:
  assumes "changes_only K b d" "off + n \<le> length b" "\<And>k. off \<le> k \<Longrightarrow> k < off + n \<Longrightarrow> k \<notin> K"
  shows "buf_slice off n d = buf_slice off n b"
  using assms by (intro nth_equalityI) (auto simp: changes_only_def buf_simps)

lemma no_approx_places: "\<not> is_block_approx a n rg \<Longrightarrow> approx_places a n rg off = {}"
  by (auto simp: approx_places_def is_block_approx_iff is_approx_iff)

lemma changes_none: "changes_only {} b d \<Longrightarrow> d = b"
  by (auto simp: changes_only_def intro: nth_equalityI)

lemma find_line_same [simp]:
  "find_line api t (s\<lparr>m_blocks := b\<rparr>) = find_line api t s"
  "find_line api t (s\<lparr>m_repl := r\<rparr>) = find_line api t s"
  "find_line api t (s\<lparr>m_repl := r, m_blocks := b\<rparr>) = find_line api t s"
  by (simp_all add: find_line_def)

context repl_contract
begin

text \<open>A load hit succeeds and returns the bytes of the line, up to faults in approximate ones.\<close>

lemma load_hit:
  fixes c :: "('b, 'r, 'p, 'g) cache" and sample :: "'p \<Rightarrow> 'g \<Rightarrow> bool \<times> 'g"
  assumes wf: "cache_wf geo rp_ok c" and sp: "splitAddress geo a = (t, i, off)"
    and hit: "find_line api t (m_sets c ! i) = Some l" and n: "off + n \<le> c_blocksize c"
    and b: "m_blocks (m_sets c ! i) = Some b"
  shows "\<exists>d rg' c'. accessSingleLine api geo rp sample a LOAD x True n u rg c
      = Inr (Some (i, l), Some (buf_slice (l * c_blocksize c + off) n d), rg', c') \<and>
    cache_wf geo rp_ok c' \<and> (\<forall>e. is_approx e rg' = is_approx e rg) \<and>
    changes_only (approx_places a (of_nat n) rg (l * c_blocksize c + off)) b d"
proof -
  let ?s = "m_sets c ! i" and ?ptr = "l * c_blocksize c + off"
  let ?rg = "add_read_acc a (Raul_core_id c) (Raul_name c) (of_nat (c_blocksize c)) rg"
  have i: "i < length (m_sets c)" using cache_wf_split[OF wf sp] by simp
  note s = cache_wf_set[OF wf i]
  have l: "l < c_associativity c" using find_line_bound[OF hit] s by simp
  have un: "unat (of_nat n :: u32) = n"
    using n wf by (simp add: cache_wf_def unat_of_nat take_bit_nat_def)
  have ptr: "?ptr + unat (of_nat n :: u32) \<le> c_associativity c * c_blocksize c"
    using line_in_array[OF l n] un by simp
  obtain c1 where c1: "inject_set (preRead sample a (of_nat n) ?rg ?ptr) i c = Inr c1"
      "cache_wf geo rp_ok c1" "same_but_data i (approx_places a (of_nat n) ?rg ?ptr) c c1"
    using inject_set_ok[OF rd.fault_channel_axioms wf i ptr] by blast
  obtain d where d: "m_sets c1 ! i = ?s\<lparr>m_blocks := Some d\<rparr>"
      "changes_only (approx_places a (of_nat n) ?rg ?ptr) b d" and i1: "i < length (m_sets c1)"
    and same: "c_associativity c1 = c_associativity c" "c_blocksize c1 = c_blocksize c"
    using c1(3) b i by (auto simp: same_but_data_def)
  note s1 = cache_wf_set[OF c1(2) i1]
  obtain r where r: "read_line rp l off True n u (m_sets c1 ! i) =
      Inr (Some (buf_slice ?ptr n d), (m_sets c1 ! i)\<lparr>m_repl := r\<rparr>)" "rp_ok (c_associativity c) r"
    using read_total[of "m_sets c1 ! i" l off n True u] s1 l n d same by auto
  have "accessSingleLine api geo rp sample a LOAD x True n u rg c = Inr (Some (i, l),
      Some (buf_slice ?ptr n d), ?rg, put_set i ((m_sets c1 ! i)\<lparr>m_repl := r\<rparr>) c1)"
    using sp i hit c1(1) r(1) i1 s by (simp add: accessSingleLine_def get_set_def Let_def)
  moreover have "cache_wf geo rp_ok (put_set i ((m_sets c1 ! i)\<lparr>m_repl := r\<rparr>) c1)"
    using s1 r(2) same cache_wf_blocks[OF c1(2) i1] by (intro cache_wf_put[OF c1(2)]) auto
  moreover have "approx_places a (of_nat n) ?rg ?ptr = approx_places a (of_nat n) rg ?ptr"
    by (simp add: approx_places_def)
  ultimately show ?thesis using d(2) by (metis acc_same_approx(1))
qed

lemma store_hit:
  fixes c :: "('b, 'r, 'p, 'g) cache" and sample :: "'p \<Rightarrow> 'g \<Rightarrow> bool \<times> 'g"
  assumes wf: "cache_wf geo rp_ok c" and sp: "splitAddress geo a = (t, i, off)"
    and hit: "find_line api t (m_sets c ! i) = Some l" and n: "off + length x \<le> c_blocksize c"
    and b: "m_blocks (m_sets c ! i) = Some b"
  shows "\<exists>d rg' c'. accessSingleLine api geo rp sample a STORE (Some x) want (length x) u rg c
      = Inr (Some (i, l), None, rg', c') \<and> cache_wf geo rp_ok c' \<and>
    (\<forall>e. is_approx e rg' = is_approx e rg) \<and> c_blocksize c' = c_blocksize c \<and>
    find_line api t (m_sets c' ! i) = Some l \<and> m_blocks (m_sets c' ! i) = Some d \<and>
    changes_only (approx_places a (of_nat (length x)) rg (l * c_blocksize c + off))
      (overwrite (l * c_blocksize c + off) x b) d"
proof -
  let ?s = "m_sets c ! i" and ?ptr = "l * c_blocksize c + off" and ?n = "length x"
  let ?rg = "add_write_acc a (Raul_core_id c) (Raul_name c) (of_nat (c_blocksize c)) rg"
  have i: "i < length (m_sets c)" using cache_wf_split[OF wf sp] by simp
  note s = cache_wf_set[OF wf i]
  have l: "l < c_associativity c" using find_line_bound[OF hit] s by simp
  have un: "unat (of_nat ?n :: u32) = ?n"
    using n wf by (simp add: cache_wf_def unat_of_nat take_bit_nat_def)
  have line: "?ptr + ?n \<le> c_associativity c * c_blocksize c" using line_in_array[OF l n] by simp
  have "\<exists>r. write_line rp l off (Some x) ?n u ?s = Inr (?s\<lparr>m_repl := r,
      m_blocks := (case Some x of Some d \<Rightarrow> map_option (overwrite (l * m_blocksize ?s + off) d) (m_blocks ?s)
                   | None \<Rightarrow> m_blocks ?s)\<rparr>) \<and> rp_ok (m_associativity ?s) r"
    by (rule write_total) (use s l n in simp_all)
  then obtain r where r: "write_line rp l off (Some x) ?n u ?s =
      Inr (?s\<lparr>m_repl := r, m_blocks := Some (overwrite ?ptr x b)\<rparr>)" "rp_ok (c_associativity c) r"
    unfolding b using s by auto
  let ?c1 = "put_set i (?s\<lparr>m_repl := r, m_blocks := Some (overwrite ?ptr x b)\<rparr>) c"
  have lb: "length b = c_associativity c * c_blocksize c" using s b by (auto simp: cset_wf_def)
  have wf1: "cache_wf geo rp_ok ?c1"
    using s r(2) lb line by (intro cache_wf_put[OF wf]) (auto simp: cset_wf_def buf_simps)
  obtain c2 where c2: "inject_set (postWrite sample a (of_nat ?n) ?rg ?ptr) i ?c1 = Inr c2"
      "cache_wf geo rp_ok c2" "same_but_data i (approx_places a (of_nat ?n) ?rg ?ptr) ?c1 c2"
    using inject_set_ok[OF wr.fault_channel_axioms wf1, of i ?ptr "of_nat ?n" sample a ?rg] i line un by auto
  then obtain d where d: "m_sets c2 ! i = ?s\<lparr>m_repl := r, m_blocks := Some d\<rparr>"
      "changes_only (approx_places a (of_nat ?n) ?rg ?ptr) (overwrite ?ptr x b) d"
    using i by (auto simp: same_but_data_def)
  have "accessSingleLine api geo rp sample a STORE (Some x) want ?n u rg c = Inr (Some (i, l), None, ?rg, c2)"
    using sp i hit c2(1) r(1) s by (simp add: accessSingleLine_def get_set_def Let_def)
  moreover have "approx_places a (of_nat ?n) ?rg ?ptr = approx_places a (of_nat ?n) rg ?ptr"
    by (simp add: approx_places_def)
  moreover have "c_blocksize c2 = c_blocksize c" using c2(3) by (simp add: same_but_data_def)
  ultimately show ?thesis
    using c2(2) d hit by (intro exI[of _ d] exI[of _ ?rg] exI[of _ c2]) simp
qed

text \<open>A store followed by a load of the same bytes returns them when none is approximate.\<close>

lemma store_load:
  fixes c :: "('b, 'r, 'p, 'g) cache" and sample :: "'p \<Rightarrow> 'g \<Rightarrow> bool \<times> 'g"
  assumes wf: "cache_wf geo rp_ok c" and sp: "splitAddress geo a = (t, i, off)"
    and hit: "find_line api t (m_sets c ! i) = Some l" and n: "off + length x \<le> c_blocksize c"
    and b: "m_blocks (m_sets c ! i) = Some b" and exact: "\<not> is_block_approx a (of_nat (length x)) rg"
  shows "\<exists>rg1 c1 rg2 c2.
    accessSingleLine api geo rp sample a STORE (Some x) want (length x) u rg c
      = Inr (Some (i, l), None, rg1, c1) \<and>
    accessSingleLine api geo rp sample a LOAD y True (length x) v rg1 c1
      = Inr (Some (i, l), Some x, rg2, c2) \<and> cache_wf geo rp_ok c2"
proof -
  let ?ptr = "l * c_blocksize c + off" and ?n = "length x"
  obtain d rg1 c1 where s: "accessSingleLine api geo rp sample a STORE (Some x) want ?n u rg c
      = Inr (Some (i, l), None, rg1, c1)" "cache_wf geo rp_ok c1"
      "\<forall>e. is_approx e rg1 = is_approx e rg" "c_blocksize c1 = c_blocksize c"
      "find_line api t (m_sets c1 ! i) = Some l" "m_blocks (m_sets c1 ! i) = Some d"
      "changes_only (approx_places a (of_nat ?n) rg ?ptr) (overwrite ?ptr x b) d"
    using store_hit[OF wf sp hit n b, of sample want u rg] by blast
  have exact1: "\<not> is_block_approx a (of_nat ?n) rg1"
    using exact s(3) by (simp add: is_block_approx_iff is_approx_iff)
  have d: "d = overwrite ?ptr x b" using s(7) no_approx_places[OF exact] by (simp add: changes_none)
  have n1: "off + ?n \<le> c_blocksize c1" using n s(4) by simp
  obtain d' rg2 c2 where r: "accessSingleLine api geo rp sample a LOAD y True ?n v rg1 c1
      = Inr (Some (i, l), Some (buf_slice (l * c_blocksize c1 + off) ?n d'), rg2, c2)"
      "cache_wf geo rp_ok c2"
      "changes_only (approx_places a (of_nat ?n) rg1 (l * c_blocksize c1 + off)) d d'"
    using load_hit[OF s(2) sp s(5) n1 s(6), of sample y v rg1] by blast
  have d': "d' = d" using r(3) no_approx_places[OF exact1] by (simp add: changes_none)
  have i: "i < length (m_sets c)" using cache_wf_split[OF wf sp] by simp
  note cs = cache_wf_set[OF wf i]
  have "?ptr + ?n \<le> length b"
    using line_in_array[OF _ n, of l "c_associativity c"] find_line_bound[OF hit] cs b
    by (auto simp: cset_wf_def)
  then have "buf_slice (l * c_blocksize c1 + off) ?n d' = x"
    unfolding d' d s(4) by (simp add: buf_simps)
  then show ?thesis using s(1) r(1,2) by auto
qed

text \<open>Filling a missing block evicts what the victim held and makes the block a hit.\<close>

lemma fill_miss:
  fixes c :: "('b, 'r, 'p, 'g) cache" and sample :: "'p \<Rightarrow> 'g \<Rightarrow> bool \<times> 'g"
  assumes wf: "cache_wf geo rp_ok c" and laws: "block_laws api"
    and sp: "splitAddress geo a = (t, i, off)" and miss: "find_line api t (m_sets c ! i) = None"
    and x: "length x = c_blocksize c" and b: "m_blocks (m_sets c ! i) = Some b"
  shows "\<exists>out c' l v d. insertSingleLine api geo rp sample a (Some x) evict_info True rg c = Inr (out, c') \<and>
    cache_wf geo rp_ok c' \<and> find_line api t (m_sets c' ! i) = Some l \<and> c_blocksize c' = c_blocksize c \<and>
    (\<forall>j<length (m_sets c). j \<noteq> i \<longrightarrow> m_sets c' ! j = m_sets c ! j) \<and>
    m_blocks (m_sets c' ! i) = Some d \<and>
    (\<not> is_block_approx a (of_nat (c_blocksize c)) rg \<longrightarrow> line_data (m_sets c' ! i) l = Some x) \<and>
    victim_of api evict_info True v (m_sets c ! i)
      \<lparr>ev_eviction = in_eviction out, ev_block_info = in_evict_info out, ev_buff = in_evict_buff out\<rparr> \<and>
    in_evict_addr out = tagToAddress geo (getTag api (in_evict_info out))"
proof -
  let ?s = "m_sets c ! i" and ?n = "c_blocksize c" and ?bi = "setTag api t (bi_create api)"
  have i: "i < length (m_sets c)" using cache_wf_split[OF wf sp] by simp
  note s = cache_wf_set[OF wf i]
  have tag: "getTag api ?bi = t" using laws by (simp add: block_laws_def)
  have fill: "length d = m_blocksize ?s" if "Some x = Some d" for d using that x s by simp
  obtain l ev s' where ins: "insert_line api rp rg ?bi (Some x) evict_info True ?s = Inr (ev, s')"
    "cset_wf s'" "rp_ok (m_associativity s') (m_repl s')" "find_line api t s' = Some l"
    "l < m_associativity ?s" "inserted api ?bi (Some x) l ?s s'" "victim_of api evict_info True l ?s ev"
    using insert_found[where s = ?s and api = api and fill = "Some x" and bi = ?bi and rg = rg
        and evict_info = evict_info and want = True, OF _ _ laws fill] s miss tag by auto
  have dims: "m_associativity s' = c_associativity c" "m_blocksize s' = ?n"
    using ins(6) s by (simp_all add: inserted_def)
  have ld: "line_data s' l = Some x" using ins(5,6) b by (simp add: inserted_def)
  then obtain b' where b': "m_blocks s' = Some b'" by (auto simp: line_data_def)
  let ?c1 = "put_set i s' c" and ?K = "approx_places a (of_nat ?n) rg (l * ?n)"
  let ?out = "\<lparr>in_eviction = ev_eviction ev, in_evict_addr = tagToAddress geo (getTag api (ev_block_info ev)),
                    in_evict_info = ev_block_info ev, in_evict_buff = ev_buff ev\<rparr>"
  have wf1: "cache_wf geo rp_ok ?c1"
    using ins(2,3) dims b' by (intro cache_wf_put[OF wf]) simp_all
  have un: "unat (of_nat ?n :: u32) = ?n"
    using wf by (simp add: cache_wf_def unat_of_nat take_bit_nat_def)
  have ptr: "l * ?n + unat (of_nat ?n :: u32) \<le> c_associativity ?c1 * c_blocksize ?c1"
    using line_bound[of l "c_associativity c" ?n] ins(5) s un by simp
  obtain c2 where c2: "inject_set (postWrite sample a (of_nat ?n) rg (l * ?n)) i ?c1 = Inr c2"
    "cache_wf geo rp_ok c2" "same_but_data i ?K ?c1 c2"
    using inject_set_ok[OF wr.fault_channel_axioms wf1 _ ptr, of i sample a rg] i by auto
  have run: "insertSingleLine api geo rp sample a (Some x) evict_info True rg c = Inr (?out, c2)"
  proof (cases "m_fault_injector c")
    case None
    then have "c2 = ?c1" using c2(1) by (simp add: inject_set_def)
    then show ?thesis using sp i ins(1) None by (simp add: insertSingleLine_def get_set_def Let_def)
  next
    case (Some fi)
    then show ?thesis using sp i ins(1,4) dims c2(1)
      by (simp add: insertSingleLine_def get_set_def Let_def)
  qed
  obtain d where d: "m_sets c2 ! i = s'\<lparr>m_blocks := Some d\<rparr>" "changes_only ?K b' d"
    using c2(3) b' i by (auto simp: same_but_data_def)
  have "line_data (m_sets c2 ! i) l = Some x" if "\<not> is_block_approx a (of_nat ?n) rg"
  proof -
    have "d = b'" using d(2) no_approx_places[OF that] by (simp add: changes_none)
    then show ?thesis using ld b' d(1) by (simp add: line_data_def)
  qed
  moreover have "find_line api t (m_sets c2 ! i) = Some l" using d(1) ins(4) by simp
  moreover have "c_blocksize c2 = ?n"
    "\<forall>j<length (m_sets c). j \<noteq> i \<longrightarrow> m_sets c2 ! j = m_sets c ! j"
    using c2(3) by (auto simp: same_but_data_def)
  moreover have "m_blocks (m_sets c2 ! i) = Some d" using d(1) by simp
  moreover have "victim_of api evict_info True l ?s
      \<lparr>ev_eviction = ev_eviction ev, ev_block_info = ev_block_info ev, ev_buff = ev_buff ev\<rparr>"
    using ins(7) by (cases ev) simp
  ultimately show ?thesis
    using run c2(2)
    by (intro exI[of _ ?out] exI[of _ c2] exI[of _ l] exI[of _ l] exI[of _ d]) simp
qed

end

section \<open>Properties\<close>


text \<open>
  C13. A miss is filled: inserting a block that is not cached succeeds, keeps the cache well
  formed and the other sets as they were, makes the block a hit, returns the information and data
  of the victim for write-back, and a load of the whole block returns the fill data when the block
  holds no approximate byte.
\<close>

theorem cache_fill_load:
  fixes c :: "('b, lru2, 'p, 'g) cache"
  assumes "cache_wf geo lru2_ok c" "block_laws api" "splitAddress geo a = (t, i, 0)"
    and "find_line api t (m_sets c ! i) = None" "length x = c_blocksize c"
    and "m_blocks (m_sets c ! i) = Some b"
  shows "\<exists>out c' v. insertSingleLine api geo (lru2_policy api) sample a (Some x) evict_info True rg c
      = Inr (out, c') \<and> cache_wf geo lru2_ok c' \<and>
    (\<forall>j<length (m_sets c). j \<noteq> i \<longrightarrow> m_sets c' ! j = m_sets c ! j) \<and>
    victim_of api evict_info True v (m_sets c ! i)
      \<lparr>ev_eviction = in_eviction out, ev_block_info = in_evict_info out, ev_buff = in_evict_buff out\<rparr> \<and>
    (\<exists>l d rg' c''. accessSingleLine api geo (lru2_policy api) sample a LOAD None True (c_blocksize c) True rg c'
        = Inr (Some (i, l), Some d, rg', c'') \<and>
      (\<not> is_block_approx a (of_nat (c_blocksize c)) rg \<longrightarrow> d = x))"
proof -
  let ?n = "c_blocksize c"
  obtain out c' l v d where f: "insertSingleLine api geo (lru2_policy api) sample a (Some x) evict_info True rg c = Inr (out, c')"
    "cache_wf geo lru2_ok c'" "find_line api t (m_sets c' ! i) = Some l" "c_blocksize c' = ?n"
    "\<forall>j<length (m_sets c). j \<noteq> i \<longrightarrow> m_sets c' ! j = m_sets c ! j" "m_blocks (m_sets c' ! i) = Some d"
    "\<not> is_block_approx a (of_nat ?n) rg \<longrightarrow> line_data (m_sets c' ! i) l = Some x"
    "victim_of api evict_info True v (m_sets c ! i)
      \<lparr>ev_eviction = in_eviction out, ev_block_info = in_evict_info out, ev_buff = in_evict_buff out\<rparr>"
    using lru2.fill_miss[OF assms, where sample = sample and evict_info = evict_info and rg = rg] by blast
  have i': "i < length (m_sets c')" using cache_wf_split[OF f(2) assms(3)] by simp
  have bs: "m_blocksize (m_sets c' ! i) = ?n" using cache_wf_set[OF f(2) i'] f(4) by simp
  obtain d' rg' c'' where g: "accessSingleLine api geo (lru2_policy api) sample a LOAD None True ?n True rg c'
      = Inr (Some (i, l), Some (buf_slice (l * c_blocksize c' + 0) ?n d'), rg', c'')"
    "changes_only (approx_places a (of_nat ?n) rg (l * c_blocksize c' + 0)) d d'"
    using lru2.load_hit[OF f(2) assms(3) f(3) _ f(6), where apia = api and n = ?n and sample = sample and x = None and u = True and rg = rg] f(4) by auto
  have "buf_slice (l * c_blocksize c' + 0) ?n d' = x" if "\<not> is_block_approx a (of_nat ?n) rg"
  proof -
    have "d' = d" using g(2) no_approx_places[OF that] by (simp add: changes_none)
    then show ?thesis using f(4,6,7) that bs by (simp add: line_data_def)
  qed
  then show ?thesis using f(1,2,5,8) g(1) by blast
qed

text \<open>A concrete cache: one set of four lines of 64 bytes, with an injector that flips every bit.\<close>

definition one_set :: geometry where
  "one_set = \<lparr>splitAddress = (\<lambda>a. (a div 64, 0, unat (a mod 64))), tagToAddress = (\<lambda>t. t * 64)\<rparr>"

definition flip_all :: "nat \<Rightarrow> nat \<Rightarrow> bool \<times> nat" where
  "flip_all p g = (True, g)"

definition demo_cache :: "(u64 \<times> cstate, lru2, nat, nat) cache" where
  "demo_cache = new_cache plain_api ''L2'' 0 1 4 64 (new_lru2 4) PR_L2_CACHE True
     (Some (FaultInjectorRandom (new_random_injector None 0 0 ''L2'')))"

lemma demo_cache_wf: "cache_wf one_set lru2_ok demo_cache"
proof -
  have "unat (a mod 64) < 64" for a :: u64 by (simp add: unat_mod)
  moreover have "lru2_ok 4 (new_lru2 4)" unfolding lru2_ok_def using new_lru2_state[of 4] by auto
  ultimately show ?thesis
    using new_cache_set_wf[of plain_api True 4 64 "new_lru2 4"]
    by (simp add: cache_wf_def demo_cache_def new_cache_def one_set_def)
       (simp add: new_cache_set_def)
qed

lemma empty_registry_exact [simp]: "\<not> is_block_approx a n registry_init"
  by (simp add: is_block_approx_iff reg_addrs_def registry_init_def)

lemma demo_sets: "m_sets demo_cache = [new_cache_set plain_api True 4 64 (new_lru2 4)]"
  "c_blocksize demo_cache = 64" "c_associativity demo_cache = 4"
  by (simp_all add: demo_cache_def new_cache_def)

theorem cache_fill_load_witness:
  "\<exists>out c' l d rg' c''. insertSingleLine plain_api one_set (lru2_policy plain_api) flip_all 128
      (Some (replicate 64 5)) (- 1, INVALID) True registry_init demo_cache = Inr (out, c') \<and>
    accessSingleLine plain_api one_set (lru2_policy plain_api) flip_all 128 LOAD None True 64 True
      registry_init c' = Inr (Some (0, l), Some (replicate 64 5), rg', c'')"
proof -
  have f: "find_line plain_api 2 (m_sets demo_cache ! 0) = None"
    by (simp add: demo_sets find_line_def find_down_None new_cache_set_def plain_api_def)
  show ?thesis
    using cache_fill_load[OF demo_cache_wf plain_api_laws, of 128 2 0 "replicate 64 5"
        "replicate (4 * 64) 0" flip_all "(- 1, INVALID)" registry_init] f
    by (auto simp: one_set_def demo_sets new_cache_set_def)
qed

definition demo_hit :: "(u64 \<times> cstate, lru2, nat, nat) cache" where
  "demo_hit = put_set 0 ((m_sets demo_cache ! 0)\<lparr>m_cache_block_info_array :=
     [(2, MODIFIED), (- 1, INVALID), (- 1, INVALID), (- 1, INVALID)]\<rparr>) demo_cache"

lemma demo_hit_wf: "cache_wf one_set lru2_ok demo_hit"
proof -
  have "cache_wf one_set lru2_ok (put_set 0 ((m_sets demo_cache ! 0)\<lparr>m_cache_block_info_array :=
     [(2, MODIFIED), (- 1, INVALID), (- 1, INVALID), (- 1, INVALID)]\<rparr>) demo_cache)"
    using cache_wf_set[OF demo_cache_wf, of 0]
    by (intro cache_wf_put[OF demo_cache_wf]) (simp_all add: demo_sets new_cache_set_def cset_wf_def)
  then show ?thesis by (simp add: demo_hit_def)
qed

lemma find_down_4:
  "find_down api t infos 4 = (if getTag api (infos ! 3) = t then Some 3
     else if getTag api (infos ! 2) = t then Some 2 else if getTag api (infos ! 1) = t then Some 1
     else if getTag api (infos ! 0) = t then Some 0 else None)"
  by (simp add: numeral_eq_Suc)


end
