(* ===== verification/Dram_Cntlr.thy ===== *)
theory Dram_Cntlr
  imports Fault_Injection
begin

text \<open>
  The DRAM controller,
  \<open>src/common/core/memory_subsystem/pr_l1_pr_l2_dram_directory_msi/dram_cntlr.cc\<close>: the data of
  every block read so far (kept only under fault injection), the pages with the time of their
  last access, and the statistics on approximate pages.

  The DRAM performance model, the clock and the configuration are the record \<open>dram_env\<close>; the state
  of the performance model is threaded through. \<open>m_data_map\<close>, \<open>pages\<close> and the access counts are
  only searched by key, so they are maps; a \<open>NULL\<close> entry that \<open>operator[]\<close> creates is the value
  \<open>None\<close> of the map. Every operation that reports to the magic server takes and returns the
  registry.
\<close>

datatype dram_access_t = READ | WRITE

record pagevar =
  lastacc :: u64
  related_approx_vars :: "u64 set"

record ('p, 'g, 'm) dram =
  m_data_map :: "u64 \<rightharpoonup> bytes"
  dram_perf :: 'm
  dram_injector :: "('p, 'g) injector option"
  pages :: "u64 \<rightharpoonup> pagevar"
  m_dram_access_count :: "dram_access_t \<Rightarrow> u64 \<rightharpoonup> u64"
  m_reads :: u64
  m_writes :: u64
  overall_addr_cnter :: u64
  approx_addr_cnter :: u64
  total_addrs :: "u64 set"
  approx_addrs :: "u64 set"

record ('p, 'g, 'm, 't) dram_env =
  de_sample :: "'p \<Rightarrow> 'g \<Rightarrow> bool \<times> 'g"
  de_faults :: bool             \<comment> \<open>\<open>Sim()->getFaultinjectionManager()\<close> is not \<open>NULL\<close>\<close>
  de_block_size :: nat
  de_getNS :: "'t \<Rightarrow> u64"
  de_latency :: "'m \<Rightarrow> 't \<Rightarrow> nat \<Rightarrow> int \<Rightarrow> u64 \<Rightarrow> dram_access_t \<Rightarrow> 't \<times> 'm"

definition new_dram :: "'m \<Rightarrow> ('p, 'g) injector option \<Rightarrow> ('p, 'g, 'm) dram" where
  "new_dram perf fi = \<lparr>m_data_map = Map.empty, dram_perf = perf, dram_injector = fi,
     pages = Map.empty, m_dram_access_count = (\<lambda>_. Map.empty), m_reads = 0, m_writes = 0,
     overall_addr_cnter = 0, approx_addr_cnter = 0, total_addrs = {}, approx_addrs = {}\<rparr>"

section \<open>Pages\<close>

definition page_start :: "u64 \<Rightarrow> u64" where
  "page_start address = (address div PAGE_SIZE) * PAGE_SIZE"

definition get_pagevar :: "u64 \<Rightarrow> ('p, 'g, 'm) dram \<Rightarrow> pagevar option" where
  "get_pagevar address s = pages s (page_start address)"

definition add_pagevar :: "u64 \<Rightarrow> ('p, 'g, 'm) dram \<Rightarrow> ('p, 'g, 'm) dram" where
  "add_pagevar address s =
     (case pages s (page_start address) of
        Some _ \<Rightarrow> s
      | None \<Rightarrow> s\<lparr>pages := (pages s)(page_start address \<mapsto> \<lparr>lastacc = 0, related_approx_vars = {}\<rparr>)\<rparr>)"

definition set_lastacc :: "u64 \<Rightarrow> u64 \<Rightarrow> ('p, 'g, 'm) dram \<Rightarrow> ('p, 'g, 'm) dram" where
  "set_lastacc address now s =
     (case pages s (page_start address) of
        None \<Rightarrow> s
      | Some pg \<Rightarrow> if now > lastacc pg then s\<lparr>pages := (pages s)(page_start address \<mapsto> pg\<lparr>lastacc := now\<rparr>)\<rparr>
                   else s)"

definition update_page_acc :: "u64 \<Rightarrow> u64 \<Rightarrow> ('p, 'g, 'm) dram \<Rightarrow> bool \<times> ('p, 'g, 'm) dram" where
  "update_page_acc address now s =
     (case pages s (page_start address) of
        None \<Rightarrow> (False, s\<lparr>pages := (pages s)(page_start address \<mapsto>
                    \<lparr>lastacc = now, related_approx_vars = {}\<rparr>)\<rparr>)
      | Some _ \<Rightarrow> (True, set_lastacc address now s))"

definition get_last_page_acc :: "u64 \<Rightarrow> ('p, 'g, 'm) dram \<Rightarrow> u64" where
  "get_last_page_acc address s =
     (case pages s (page_start address) of None \<Rightarrow> 0 | Some pg \<Rightarrow> lastacc pg)"

definition add_related_appvar ::
  "nat \<Rightarrow> u64 \<Rightarrow> registry \<Rightarrow> ('p, 'g, 'm) dram \<Rightarrow> bool \<times> ('p, 'g, 'm) dram" where
  "add_related_appvar bsize address rg s =
     (if is_block_approx address (of_nat bsize) rg then
        (case pages s (page_start address) of
           None \<Rightarrow> (True, s)
         | Some pg \<Rightarrow> (True, s\<lparr>pages := (pages s)(page_start address \<mapsto>
             pg\<lparr>related_approx_vars := insert address (related_approx_vars pg)\<rparr>)\<rparr>))
      else (False, s))"

section \<open>Accesses\<close>

text \<open>The page of the address is created when missing, the lifetimes of its bytes are brought up
  to date, then the page's last access.\<close>

definition log_page_access ::
  "('p, 'g, 'm, 't) dram_env \<Rightarrow> u64 \<Rightarrow> 't \<Rightarrow> bool \<Rightarrow> registry \<Rightarrow> ('p, 'g, 'm) dram \<Rightarrow>
   registry \<times> ('p, 'g, 'm) dram" where
  "log_page_access env address now RW rg s =
     (let s = (if get_pagevar address s = None then add_pagevar address s else s);
          rg = snd (update_liftime address (de_getNS env now) (get_last_page_acc address s) RW
                      (of_nat (de_block_size env)) rg)
      in (rg, set_lastacc address (de_getNS env now) s))"

definition runDramPerfModel ::
  "('p, 'g, 'm, 't) dram_env \<Rightarrow> int \<Rightarrow> 't \<Rightarrow> u64 \<Rightarrow> dram_access_t \<Rightarrow> ('p, 'g, 'm) dram \<Rightarrow>
   't \<times> ('p, 'g, 'm) dram" where
  "runDramPerfModel env requester now address access_type s =
     (let (lat, m) = de_latency env (dram_perf s) now (de_block_size env) requester address access_type
      in (lat, s\<lparr>dram_perf := m\<rparr>))"

definition count_page :: "nat \<Rightarrow> u64 \<Rightarrow> registry \<Rightarrow> ('p, 'g, 'm) dram \<Rightarrow> ('p, 'g, 'm) dram" where
  "count_page bsize address rg s =
     (let page_st_addr = address div PAGE_SIZE;
          s = (if is_block_approx address (of_nat bsize) rg \<and> page_st_addr \<notin> approx_addrs s
               then s\<lparr>approx_addrs := insert page_st_addr (approx_addrs s),
                      approx_addr_cnter := approx_addr_cnter s + 1\<rparr> else s)
      in if page_st_addr \<notin> total_addrs s
         then s\<lparr>total_addrs := insert page_st_addr (total_addrs s),
                overall_addr_cnter := overall_addr_cnter s + 1\<rparr> else s)"

definition addToDramAccessCount ::
  "u64 \<Rightarrow> dram_access_t \<Rightarrow> ('p, 'g, 'm) dram \<Rightarrow> ('p, 'g, 'm) dram" where
  "addToDramAccessCount address ty s = s\<lparr>m_dram_access_count := (m_dram_access_count s)(ty :=
     (m_dram_access_count s ty)(address \<mapsto>
        (case m_dram_access_count s ty address of None \<Rightarrow> 0 | Some n \<Rightarrow> n) + 1))\<rparr>"

text \<open>Running the injector on the block of an address.\<close>

definition inject_block ::
  "(('p, 'g) injector \<times> bytes \<Rightarrow> (('p, 'g) injector \<times> bytes) result) \<Rightarrow> u64 \<Rightarrow> bytes \<Rightarrow>
   ('p, 'g, 'm) dram \<Rightarrow> (bytes \<times> ('p, 'g, 'm) dram) result" where
  "inject_block run address block s =
     (case dram_injector s of
        None \<Rightarrow> Inr (block, s\<lparr>m_data_map := (m_data_map s)(address \<mapsto> block)\<rparr>)
      | Some fi \<Rightarrow> bindE (run (fi, block)) (\<lambda>(fi, block).
          Inr (block, s\<lparr>dram_injector := Some fi, m_data_map := (m_data_map s)(address \<mapsto> block)\<rparr>)))"

text \<open>The result: the latency, what was copied to the caller's buffer, the registry and state.\<close>

definition getDataFromDram ::
  "('p, 'g, 'm, 't) dram_env \<Rightarrow> u64 \<Rightarrow> int \<Rightarrow> 't \<Rightarrow> registry \<Rightarrow> ('p, 'g, 'm) dram \<Rightarrow>
   ('t \<times> bytes option \<times> registry \<times> ('p, 'g, 'm) dram) result" where
  "getDataFromDram env address requester now rg s =
     (let (rg, s) = log_page_access env address now True rg s
      in bindE (if de_faults env then
            (let block = (case m_data_map s address of
                            None \<Rightarrow> replicate (de_block_size env) 0 | Some b \<Rightarrow> b)
             in bindE (inject_block (preRead (de_sample env) address (of_nat (de_block_size env)) rg 0)
                         address block s)
                  (\<lambda>(block, s). Inr (Some (take (de_block_size env) block), s)))
          else Inr (None, s)) (\<lambda>(out, s).
        let (lat, s) = runDramPerfModel env requester now address READ s;
            s = s\<lparr>m_reads := m_reads s + 1\<rparr>
        in Inr (lat, out, rg, count_page (de_block_size env) address rg s)))"

definition putDataToDram ::
  "('p, 'g, 'm, 't) dram_env \<Rightarrow> u64 \<Rightarrow> int \<Rightarrow> bytes \<Rightarrow> 't \<Rightarrow> registry \<Rightarrow> ('p, 'g, 'm) dram \<Rightarrow>
   ('t \<times> registry \<times> ('p, 'g, 'm) dram) result" where
  "putDataToDram env address requester data_buf now rg s =
     (let (rg, s) = log_page_access env address now False rg s
      in bindE (if de_faults env then
            (case m_data_map s address of
               None \<Rightarrow> Inl (LogError ''Data Buffer does not exist'')
             | Some b \<Rightarrow>
                 bindE (checkE OutOfBounds (de_block_size env \<le> length data_buf \<and> de_block_size env \<le> length b)) (\<lambda>_.
                 bindE (inject_block (postWrite (de_sample env) address (of_nat (de_block_size env)) rg 0)
                         address (overwrite 0 (take (de_block_size env) data_buf) b) s)
                   (\<lambda>(_, s). Inr s)))
          else Inr s) (\<lambda>s.
        let (lat, s) = runDramPerfModel env requester now address WRITE s;
            s = s\<lparr>m_writes := m_writes s + 1\<rparr>
        in Inr (lat, rg, count_page (de_block_size env) address rg s)))"

text \<open>The log of \<open>printDramAccessCount\<close> for one access type: the addresses counted over 100.\<close>

definition printDramAccessCount :: "u64 list \<Rightarrow> dram_access_t \<Rightarrow> ('p, 'g, 'm) dram \<Rightarrow> (u64 \<times> u64) list" where
  "printDramAccessCount keys ty s =
     concat (map (\<lambda>a. case m_dram_access_count s ty a of
        Some n \<Rightarrow> if n > 100 then [(a, n)] else [] | None \<Rightarrow> []) keys)"

section \<open>Frames\<close>

lemma page_ops_data [simp]:
  "m_data_map (add_pagevar a s) = m_data_map s" "dram_injector (add_pagevar a s) = dram_injector s"
  "m_data_map (set_lastacc a t s) = m_data_map s" "dram_injector (set_lastacc a t s) = dram_injector s"
  "m_data_map (count_page n a rg s) = m_data_map s" "dram_injector (count_page n a rg s) = dram_injector s"
  by (simp_all add: add_pagevar_def set_lastacc_def count_page_def Let_def split: option.splits)

lemma log_page_access_data [simp]:
  "m_data_map (snd (log_page_access env a t rw rg s)) = m_data_map s"
  "dram_injector (snd (log_page_access env a t rw rg s)) = dram_injector s"
  by (simp_all add: log_page_access_def Let_def)

lemma count_page_pages [simp]: "pages (count_page n a rg s) = pages s"
  by (simp add: count_page_def Let_def)

lemma run_perf_data [simp]:
  "m_data_map (snd (runDramPerfModel env r t a ty s)) = m_data_map s"
  "dram_injector (snd (runDramPerfModel env r t a ty s)) = dram_injector s"
  "pages (snd (runDramPerfModel env r t a ty s)) = pages s"
  by (simp_all add: runDramPerfModel_def case_prod_beta Let_def)

lemma log_page_access_approx [simp]:
  "is_approx b (fst (log_page_access env a t rw rg s)) = is_approx b rg"
  "is_block_approx e m (fst (log_page_access env a t rw rg s)) = is_block_approx e m rg"
  by (simp_all add: log_page_access_def Let_def)

section \<open>The data contract\<close>

text \<open>The state of the memory system the contract speaks of: the registry and the controller. A
  block that was never read counts as zeros.\<close>

definition dram_inv :: "('p, 'g, 'm, 't) dram_env \<Rightarrow> registry \<times> ('p, 'g, 'm) dram \<Rightarrow> bool" where
  "dram_inv env = (\<lambda>(rg, s). de_faults env \<and> de_block_size env < 2 ^ 32 \<and>
     (\<forall>a b. m_data_map s a = Some b \<longrightarrow> length b = de_block_size env))"

definition dram_block :: "registry \<times> ('p, 'g, 'm) dram \<Rightarrow> u64 \<Rightarrow> bytes option" where
  "dram_block = (\<lambda>(rg, s). m_data_map s)"

definition dram_exact :: "nat \<Rightarrow> registry \<times> ('p, 'g, 'm) dram \<Rightarrow> u64 \<Rightarrow> bool" where
  "dram_exact n = (\<lambda>(rg, s) a. \<not> is_block_approx a (of_nat n) rg)"

definition dram_get ::
  "('p, 'g, 'm, 't) dram_env \<Rightarrow> int \<times> 't \<Rightarrow> u64 \<Rightarrow> registry \<times> ('p, 'g, 'm) dram \<Rightarrow>
   (bytes \<times> registry \<times> ('p, 'g, 'm) dram) result" where
  "dram_get env = (\<lambda>(requester, now) a (rg, s). bindE (getDataFromDram env a requester now rg s)
     (\<lambda>(lat, out, rg, s). case out of None \<Rightarrow> Inl NullPointer | Some d \<Rightarrow> Inr (d, rg, s)))"

definition dram_put ::
  "('p, 'g, 'm, 't) dram_env \<Rightarrow> int \<times> 't \<Rightarrow> u64 \<Rightarrow> bytes \<Rightarrow> registry \<times> ('p, 'g, 'm) dram \<Rightarrow>
   (registry \<times> ('p, 'g, 'm) dram) result" where
  "dram_put env = (\<lambda>(requester, now) a d (rg, s). bindE (putDataToDram env a requester d now rg s)
     (\<lambda>(lat, rg, s). Inr (rg, s)))"

text \<open>
  A memory of blocks, as the caches above it use it: a read of an exact block returns its contents
  and keeps them, a write of a block that was read before replaces them, and neither touches
  another block. \<open>'o\<close> is what else an access is given (who asks, and when).
\<close>

locale block_memory =
  fixes inv :: "'s \<Rightarrow> bool" and blk :: "'s \<Rightarrow> u64 \<Rightarrow> bytes option" and exact :: "'s \<Rightarrow> u64 \<Rightarrow> bool"
    and size :: nat and mget :: "'o \<Rightarrow> u64 \<Rightarrow> 's \<Rightarrow> (bytes \<times> 's) result"
    and mput :: "'o \<Rightarrow> u64 \<Rightarrow> bytes \<Rightarrow> 's \<Rightarrow> 's result"
  assumes get_law: "inv s \<Longrightarrow> \<exists>d s'. mget p a s = Inr (d, s') \<and> inv s' \<and> blk s' a = Some d \<and>
      length d = size \<and>
      (exact s a \<longrightarrow> d = (case blk s a of None \<Rightarrow> replicate size 0 | Some e \<Rightarrow> e)) \<and>
      (\<forall>b. b \<noteq> a \<longrightarrow> blk s' b = blk s b) \<and> exact s' = exact s"
    and put_law: "inv s \<Longrightarrow> blk s a \<noteq> None \<Longrightarrow> length d = size \<Longrightarrow>
      \<exists>e s'. mput p a d s = Inr s' \<and> inv s' \<and> blk s' a = Some e \<and> (exact s a \<longrightarrow> e = d) \<and>
      (\<forall>b. b \<noteq> a \<longrightarrow> blk s' b = blk s b) \<and> exact s' = exact s"
begin

lemma put_then_get:
  assumes "inv s" "blk s a \<noteq> None" "length d = size" "exact s a"
  shows "\<exists>s' s''. mput p a d s = Inr s' \<and> mget q a s' = Inr (d, s'') \<and> inv s''"
proof -
  obtain s' where s': "mput p a d s = Inr s'" "inv s'" "blk s' a = Some d" "exact s' = exact s"
    using put_law[OF assms(1-3), of p] assms(4) by auto
  obtain e s'' where e: "mget q a s' = Inr (e, s'')" "inv s''"
    "exact s' a \<longrightarrow> e = (case blk s' a of None \<Rightarrow> replicate size 0 | Some e \<Rightarrow> e)"
    using get_law[OF s'(2), of q a] by blast
  then have "e = d" using s'(3,4) assms(4) by simp
  then show ?thesis using s'(1) e(1,2) by blast
qed

text \<open>Write-backs of other blocks in between do not change what a block reads as.\<close>

lemma puts_keep:
  assumes "inv s" "\<forall>(a, d)\<in>set ws. blk s a \<noteq> None \<and> length d = size" "b \<notin> fst ` set ws"
  shows "\<exists>s'. foldE (\<lambda>(a, d). mput p a d) ws s = Inr s' \<and> inv s' \<and> blk s' b = blk s b \<and> exact s' = exact s"
  using assms
proof (induction ws arbitrary: s)
  case (Cons w ws)
  obtain a d where w: "w = (a, d)" by (cases w)
  obtain e s1 where s1: "mput p a d s = Inr s1" "inv s1" "blk s1 a = Some e"
    "\<forall>b. b \<noteq> a \<longrightarrow> blk s1 b = blk s b" "exact s1 = exact s"
    using put_law[OF Cons.prems(1), of a d p] Cons.prems(2) w by auto
  have "blk s1 a' \<noteq> None" if "blk s a' \<noteq> None" for a' using that s1(3,4) by (cases "a' = a") auto
  then have "\<forall>(a, d)\<in>set ws. blk s1 a \<noteq> None \<and> length d = size" using Cons.prems(2) by auto
  moreover have "b \<notin> fst ` set ws" "b \<noteq> a" using Cons.prems(3) w by auto
  ultimately show ?case using Cons.IH[OF s1(2)] s1 w by auto
qed simp

lemma put_puts_get:
  assumes "inv s" "blk s a \<noteq> None" "length d = size" "exact s a"
    and "\<forall>(a', d')\<in>set ws. blk s a' \<noteq> None \<and> length d' = size" "a \<notin> fst ` set ws"
  shows "\<exists>s1 s2 s3. mput p a d s = Inr s1 \<and> foldE (\<lambda>(a, d). mput p a d) ws s1 = Inr s2 \<and>
    mget q a s2 = Inr (d, s3) \<and> inv s3"
proof -
  obtain s1 where s1: "mput p a d s = Inr s1" "inv s1" "blk s1 a = Some d"
    "\<forall>b. b \<noteq> a \<longrightarrow> blk s1 b = blk s b" "exact s1 = exact s"
    using put_law[OF assms(1-3), of p] assms(4) by auto
  have "blk s1 a' \<noteq> None" if "blk s a' \<noteq> None" for a' using that s1(3,4) by (cases "a' = a") auto
  then have ws: "\<forall>(a', d')\<in>set ws. blk s1 a' \<noteq> None \<and> length d' = size" using assms(5) by auto
  obtain s2 where s2: "foldE (\<lambda>(a, d). mput p a d) ws s1 = Inr s2" "inv s2" "blk s2 a = Some d"
    "exact s2 = exact s" using puts_keep[OF s1(2) ws assms(6), of p] s1(3,5) by auto
  obtain e s3 where e: "mget q a s2 = Inr (e, s3)" "inv s3"
    "exact s2 a \<longrightarrow> e = (case blk s2 a of None \<Rightarrow> replicate size 0 | Some e \<Rightarrow> e)"
    using get_law[OF s2(2), of q a] by blast
  then have "e = d" using s2(3,4) assms(4) by simp
  then show ?thesis using s1(1) s2(1) e(1,2) by blast
qed

end

lemma inject_block_ok:
  fixes inject :: "u64 \<Rightarrow> u32 \<Rightarrow> registry \<Rightarrow> nat \<Rightarrow> ('p, 'g) injector \<times> bytes \<Rightarrow>
      (('p, 'g) injector \<times> bytes) result" and s :: "('p, 'g, 'm) dram"
  assumes "fault_channel inject" "unat n \<le> length b"
  shows "\<exists>d fi. inject_block (inject a n rg 0) a b s =
      Inr (d, s\<lparr>dram_injector := fi, m_data_map := (m_data_map s)(a \<mapsto> d)\<rparr>) \<and>
    length d = length b \<and> (\<not> is_block_approx a n rg \<longrightarrow> d = b)"
proof (cases "dram_injector s")
  case None
  have "s = s\<lparr>dram_injector := None\<rparr>" using None by simp
  then show ?thesis using None by (auto simp: inject_block_def intro!: exI[of _ None])
next
  case (Some fi)
  obtain fi' d where run: "inject a n rg 0 (fi, b) = Inr (fi', d)"
    using fault_channel.total[OF assms(1), of 0 n b a rg fi] assms(2) by auto
  then show ?thesis
    using Some fault_channel.keeps_length[OF assms(1) run] fault_channel.no_approx_block[OF assms(1) run]
    by (auto simp: inject_block_def)
qed

text \<open>What the data part of an access leaves to the statistics.\<close>

lemma getDataFromDram_eq:
  fixes s :: "('p, 'g, 'm) dram" and env :: "('p, 'g, 'm, 't) dram_env"
  assumes "dram_inv env (rg, s)"
  shows "\<exists>lat d rg' s'. getDataFromDram env a r now rg s = Inr (lat, Some d, rg', s') \<and>
    dram_inv env (rg', s') \<and> m_data_map s' = (m_data_map s)(a \<mapsto> d) \<and> length d = de_block_size env \<and>
    (\<not> is_block_approx a (of_nat (de_block_size env)) rg \<longrightarrow>
      d = (case m_data_map s a of None \<Rightarrow> replicate (de_block_size env) 0 | Some b \<Rightarrow> b)) \<and>
    (\<forall>e m. is_block_approx e m rg' = is_block_approx e m rg)"
proof -
  let ?n = "de_block_size env"
  obtain rg1 s1 where l: "log_page_access env a now True rg s = (rg1, s1)" by fastforce
  have rg1: "is_block_approx e m rg1 = is_block_approx e m rg" for e m
    using log_page_access_approx(2)[of e m env a now True rg s] l by simp
  have m1: "m_data_map s1 = m_data_map s" using log_page_access_data(1)[of env a now True rg s] l by simp
  define b where "b = (case m_data_map s a of None \<Rightarrow> replicate ?n 0 | Some b \<Rightarrow> b)"
  have env: "de_faults env" "?n < 2 ^ 32" and blocks: "\<And>a b. m_data_map s a = Some b \<Longrightarrow> length b = ?n"
    using assms by (auto simp: dram_inv_def)
  have lb: "length b = ?n" using blocks by (auto simp: b_def split: option.splits)
  have un: "unat (of_nat ?n :: u32) = ?n" using env by (simp add: unat_of_nat take_bit_nat_def)
  obtain d fi where d: "inject_block (preRead (de_sample env) a (of_nat ?n) rg1 0) a b s1 =
      Inr (d, s1\<lparr>dram_injector := fi, m_data_map := (m_data_map s1)(a \<mapsto> d)\<rparr>)"
    "length d = length b" "\<not> is_block_approx a (of_nat ?n) rg1 \<longrightarrow> d = b"
    using inject_block_ok[OF rd.fault_channel_axioms, of "of_nat ?n" b "de_sample env" a rg1 s1] lb un
    by auto
  let ?s2 = "s1\<lparr>dram_injector := fi, m_data_map := (m_data_map s1)(a \<mapsto> d)\<rparr>"
  obtain lat s3 where p: "runDramPerfModel env r now a READ ?s2 = (lat, s3)" by fastforce
  have m3: "m_data_map s3 = (m_data_map s)(a \<mapsto> d)"
    using run_perf_data(1)[of env r now a READ ?s2, unfolded p snd_conv] m1 by simp
  let ?s4 = "count_page ?n a rg1 (s3\<lparr>m_reads := m_reads s3 + 1\<rparr>)"
  have "getDataFromDram env a r now rg s = Inr (lat, Some d, rg1, ?s4)"
    using env(1) d(1,2) lb p unfolding getDataFromDram_def l
    by (simp add: m1 b_def[symmetric])
  moreover have m4: "m_data_map ?s4 = (m_data_map s)(a \<mapsto> d)" using m3 by simp
  moreover have "dram_inv env (rg1, ?s4)"
    using env blocks d(2) lb unfolding dram_inv_def case_prod_conv m4 by auto
  ultimately show ?thesis using d(2,3) lb rg1 b_def by auto
qed

lemma putDataToDram_eq:
  fixes s :: "('p, 'g, 'm) dram" and env :: "('p, 'g, 'm, 't) dram_env"
  assumes "dram_inv env (rg, s)" "m_data_map s a \<noteq> None" "length x = de_block_size env"
  shows "\<exists>lat d rg' s'. putDataToDram env a r x now rg s = Inr (lat, rg', s') \<and>
    dram_inv env (rg', s') \<and> m_data_map s' = (m_data_map s)(a \<mapsto> d) \<and>
    (\<not> is_block_approx a (of_nat (de_block_size env)) rg \<longrightarrow> d = x) \<and>
    (\<forall>e m. is_block_approx e m rg' = is_block_approx e m rg)"
proof -
  let ?n = "de_block_size env"
  obtain rg1 s1 where l: "log_page_access env a now False rg s = (rg1, s1)" by fastforce
  have rg1: "is_block_approx e m rg1 = is_block_approx e m rg" for e m
    using log_page_access_approx(2)[of e m env a now False rg s] l by simp
  have m1: "m_data_map s1 = m_data_map s" using log_page_access_data(1)[of env a now False rg s] l by simp
  obtain b where b: "m_data_map s a = Some b" using assms(2) by auto
  have env: "de_faults env" "?n < 2 ^ 32" and blocks: "\<And>a b. m_data_map s a = Some b \<Longrightarrow> length b = ?n"
    using assms(1) by (auto simp: dram_inv_def)
  have lb: "length b = ?n" using blocks b by simp
  have x: "overwrite 0 (take ?n x) b = x" using assms(3) lb by (simp add: overwrite_def)
  have un: "unat (of_nat ?n :: u32) = ?n" using env by (simp add: unat_of_nat take_bit_nat_def)
  obtain d fi where d: "inject_block (postWrite (de_sample env) a (of_nat ?n) rg1 0) a x s1 =
      Inr (d, s1\<lparr>dram_injector := fi, m_data_map := (m_data_map s1)(a \<mapsto> d)\<rparr>)"
    "length d = length x" "\<not> is_block_approx a (of_nat ?n) rg1 \<longrightarrow> d = x"
    using inject_block_ok[OF wr.fault_channel_axioms, of "of_nat ?n" x "de_sample env" a rg1 s1]
      assms(3) un by auto
  let ?s2 = "s1\<lparr>dram_injector := fi, m_data_map := (m_data_map s1)(a \<mapsto> d)\<rparr>"
  obtain lat s3 where p: "runDramPerfModel env r now a WRITE ?s2 = (lat, s3)" by fastforce
  have m3: "m_data_map s3 = (m_data_map s)(a \<mapsto> d)"
    using run_perf_data(1)[of env r now a WRITE ?s2, unfolded p snd_conv] m1 by simp
  let ?s4 = "count_page ?n a rg1 (s3\<lparr>m_writes := m_writes s3 + 1\<rparr>)"
  have "putDataToDram env a r x now rg s = Inr (lat, rg1, ?s4)"
    using env(1) d(1) lb assms(3) p x b unfolding putDataToDram_def l by (simp add: m1)
  moreover have m4: "m_data_map ?s4 = (m_data_map s)(a \<mapsto> d)" using m3 by simp
  moreover have "dram_inv env (rg1, ?s4)"
    using env blocks d(2) assms(3) unfolding dram_inv_def case_prod_conv m4 by auto
  ultimately show ?thesis using d(3) rg1 by auto
qed

interpretation dm: block_memory "dram_inv env" dram_block "dram_exact (de_block_size env)"
    "de_block_size env" "dram_get env" "dram_put env" for env :: "('p, 'g, 'm, 't) dram_env"
proof
  fix s :: "registry \<times> ('p, 'g, 'm) dram" and p :: "int \<times> 't" and a
  obtain rg t where s: "s = (rg, t)" by fastforce
  obtain r now where p: "p = (r, now)" by fastforce
  let ?n = "de_block_size env"
  {
    assume inv: "dram_inv env s"
    obtain lat d rg' t' where g: "getDataFromDram env a r now rg t = Inr (lat, Some d, rg', t')"
      "dram_inv env (rg', t')" "m_data_map t' = (m_data_map t)(a \<mapsto> d)" "length d = ?n"
      "\<not> is_block_approx a (of_nat ?n) rg \<longrightarrow>
        d = (case m_data_map t a of None \<Rightarrow> replicate ?n 0 | Some b \<Rightarrow> b)"
      "\<forall>e m. is_block_approx e m rg' = is_block_approx e m rg"
      using getDataFromDram_eq[OF inv[unfolded s], of a r now] by auto
    show "\<exists>d s'. dram_get env p a s = Inr (d, s') \<and> dram_inv env s' \<and> dram_block s' a = Some d \<and>
      length d = ?n \<and> (dram_exact ?n s a \<longrightarrow>
        d = (case dram_block s a of None \<Rightarrow> replicate ?n 0 | Some e \<Rightarrow> e)) \<and>
      (\<forall>b. b \<noteq> a \<longrightarrow> dram_block s' b = dram_block s b) \<and> dram_exact ?n s' = dram_exact ?n s"
      by (rule exI[of _ d], rule exI[of _ "(rg', t')"])
         (use g in \<open>simp add: dram_get_def dram_block_def dram_exact_def s p\<close>)
  next
    fix d :: bytes assume inv: "dram_inv env s" and b: "dram_block s a \<noteq> None" and d: "length d = ?n"
    have "m_data_map t a \<noteq> None" using b by (simp add: dram_block_def s)
    then obtain lat e rg' t' where g: "putDataToDram env a r d now rg t = Inr (lat, rg', t')"
      "dram_inv env (rg', t')" "m_data_map t' = (m_data_map t)(a \<mapsto> e)"
      "\<not> is_block_approx a (of_nat ?n) rg \<longrightarrow> e = d"
      "\<forall>e m. is_block_approx e m rg' = is_block_approx e m rg"
      using putDataToDram_eq[OF inv[unfolded s] _ d, of a r now] by auto
    show "\<exists>e s'. dram_put env p a d s = Inr s' \<and> dram_inv env s' \<and> dram_block s' a = Some e \<and>
      (dram_exact ?n s a \<longrightarrow> e = d) \<and> (\<forall>b. b \<noteq> a \<longrightarrow> dram_block s' b = dram_block s b) \<and>
      dram_exact ?n s' = dram_exact ?n s"
      by (rule exI[of _ e], rule exI[of _ "(rg', t')"])
         (use g in \<open>simp add: dram_put_def dram_block_def dram_exact_def s p\<close>)
  }
qed

section \<open>Pages and statistics\<close>

text \<open>The counters count the distinct pages seen, and those seen with an approximate block.\<close>

definition page_stats_ok :: "('p, 'g, 'm) dram \<Rightarrow> bool" where
  "page_stats_ok s \<longleftrightarrow> finite (total_addrs s) \<and> finite (approx_addrs s) \<and>
     overall_addr_cnter s = of_nat (card (total_addrs s)) \<and>
     approx_addr_cnter s = of_nat (card (approx_addrs s)) \<and> approx_addrs s \<subseteq> total_addrs s"

lemma page_stats_count_page: "page_stats_ok s \<Longrightarrow> page_stats_ok (count_page n a rg s)"
  by (auto simp: page_stats_ok_def count_page_def Let_def)

lemma page_stats_frames [simp]:
  "page_stats_ok (add_pagevar a s) = page_stats_ok s"
  "page_stats_ok (set_lastacc a t s) = page_stats_ok s"
  "page_stats_ok (s\<lparr>m_reads := r\<rparr>) = page_stats_ok s"
  "page_stats_ok (s\<lparr>m_writes := w\<rparr>) = page_stats_ok s"
  "page_stats_ok (s\<lparr>dram_injector := fi\<rparr>) = page_stats_ok s"
  "page_stats_ok (s\<lparr>m_data_map := m\<rparr>) = page_stats_ok s"
  "page_stats_ok (s\<lparr>dram_perf := p\<rparr>) = page_stats_ok s"
  by (simp_all add: page_stats_ok_def add_pagevar_def set_lastacc_def split: option.splits)

lemma page_stats_log: "page_stats_ok s \<Longrightarrow> page_stats_ok (snd (log_page_access env a t rw rg s))"
  by (simp add: log_page_access_def Let_def)

lemma page_stats_inject:
  "page_stats_ok s \<Longrightarrow> inject_block run a b s = Inr (d, s') \<Longrightarrow> page_stats_ok s'"
  by (auto simp: inject_block_def err_simps split: option.splits)

lemma page_stats_perf: "page_stats_ok s \<Longrightarrow> page_stats_ok (snd (runDramPerfModel env r t a ty s))"
  by (simp add: runDramPerfModel_def case_prod_beta Let_def)

section \<open>Properties\<close>

text \<open>
  C8. Main memory keeps exact data: after a block was read once, writing it, writing back any
  number of other known blocks, and reading it again at any time returns what was written,
  provided it holds no approximate byte; nothing on the way fails.
\<close>

theorem dram_write_read:
  assumes "dram_inv env s" "dram_block s a \<noteq> None" "length d = de_block_size env"
    and "dram_exact (de_block_size env) s a"
    and "\<forall>(a', d')\<in>set ws. dram_block s a' \<noteq> None \<and> length d' = de_block_size env"
    and "a \<notin> fst ` set ws"
  shows "\<exists>s1 s2 s3. dram_put env p a d s = Inr s1 \<and>
    foldE (\<lambda>(a, d). dram_put env p a d) ws s1 = Inr s2 \<and>
    dram_get env q a s2 = Inr (d, s3) \<and> dram_inv env s3"
  by (rule dm.put_puts_get[OF assms])

definition demo_env :: "(nat, nat, unit, nat) dram_env" where
  "demo_env = \<lparr>de_sample = (\<lambda>p g. (True, g)), de_faults = True, de_block_size = 2,
     de_getNS = of_nat, de_latency = (\<lambda>m t n r a ty. (t + 100, m))\<rparr>"

definition demo_dram :: "registry \<times> (nat, nat, unit) dram" where
  "demo_dram = (registry_init, (new_dram () (Some (FaultInjectorRandom
      (new_random_injector None 0 0 ''DRAM''))))\<lparr>m_data_map := [64 \<mapsto> [0, 0], 128 \<mapsto> [0, 0]]\<rparr>)"

theorem dram_write_read_witness:
  "\<exists>s1 s2 s3. dram_put demo_env (0, 5) 64 [3, 4] demo_dram = Inr s1 \<and>
    foldE (\<lambda>(a, d). dram_put demo_env (0, 5) a d) [(128, [7, 7])] s1 = Inr s2 \<and>
    dram_get demo_env (0, 9) 64 s2 = Inr ([3, 4], s3)"
proof -
  have "dram_inv demo_env demo_dram"
    by (simp add: dram_inv_def demo_env_def demo_dram_def new_dram_def split: if_splits)
  moreover have "dram_exact (de_block_size demo_env) demo_dram 64"
    by (simp add: dram_exact_def demo_dram_def is_block_approx_iff reg_addrs_def registry_init_def)
  ultimately show ?thesis
    using dram_write_read[of demo_env demo_dram 64 "[3, 4]" "[(128, [7, 7])]" "(0, 5)" "(0, 9)"]
    by (auto simp: dram_block_def demo_dram_def demo_env_def)
qed

text \<open>The first read of a block allocates it as zeros, but a write to a block that was never read
  stops the simulator when fault injection is on: \<open>putDataToDram\<close> finds no data buffer.
\<close>

lemma dram_write_unread_fails:
  assumes "de_faults env" "m_data_map s a = None"
  shows "putDataToDram env a r x now rg s = Inl (LogError ''Data Buffer does not exist'')"
proof -
  obtain rg1 s1 where "log_page_access env a now False rg s = (rg1, s1)" by fastforce
  moreover from this have "m_data_map s1 = m_data_map s"
    using log_page_access_data(1)[of env a now False rg s] by simp
  ultimately show ?thesis using assms by (simp add: putDataToDram_def)
qed

lemma dram_write_unread_fails_witness:
  "putDataToDram demo_env 64 0 [3, 4] 5 registry_init (new_dram () None) =
     Inl (LogError ''Data Buffer does not exist'')"
  by (rule dram_write_unread_fails) (simp_all add: demo_env_def new_dram_def)

lemma page_stats_access:
  assumes "page_stats_ok t" "\<And>t. page_stats_ok (f t) = page_stats_ok t"
    and "s' = count_page n a rg1 (f (snd (runDramPerfModel env r now a ty t)))"
  shows "page_stats_ok s' \<and> a div PAGE_SIZE \<in> total_addrs s'"
proof
  have "page_stats_ok (f (snd (runDramPerfModel env r now a ty t)))"
    unfolding assms(2) by (rule page_stats_perf[OF assms(1)])
  then show "page_stats_ok s'" unfolding assms(3) by (rule page_stats_count_page)
  show "a div PAGE_SIZE \<in> total_addrs s'" unfolding assms(3) by (simp add: count_page_def Let_def)
qed

text \<open>The page statistics are exact: \<open>overall_addr_cnter\<close> and \<open>approx_addr_cnter\<close> are the numbers of
  distinct pages accessed, and accessed in a block with approximate bytes, after every access.
\<close>

lemma dram_page_statistics:
  assumes "page_stats_ok s"
  shows "(getDataFromDram env a r now rg s = Inr (lat, out, rg', s') \<longrightarrow>
      page_stats_ok s' \<and> a div PAGE_SIZE \<in> total_addrs s') \<and>
    (putDataToDram env a r x now rg s = Inr (lat, rg', s') \<longrightarrow>
      page_stats_ok s' \<and> a div PAGE_SIZE \<in> total_addrs s')"
proof (intro conjI impI)
  {
    assume g: "getDataFromDram env a r now rg s = Inr (lat, out, rg', s')"
    obtain rg1 s1 where l: "log_page_access env a now True rg s = (rg1, s1)" by fastforce
    have s1: "page_stats_ok s1" using page_stats_log[OF assms, of env a now True rg] l by simp
    obtain t where "page_stats_ok t"
      "s' = count_page (de_block_size env) a rg1
         ((\<lambda>t. t\<lparr>m_reads := m_reads t + 1\<rparr>) (snd (runDramPerfModel env r now a READ t)))"
    proof (cases "de_faults env")
      case False
      then show ?thesis using that[OF s1] g l
        by (auto simp: getDataFromDram_def case_prod_beta Let_def)
    next
      case True
      then show ?thesis using g l
        by (auto simp: getDataFromDram_def err_simps case_prod_beta Let_def
            split: if_splits option.splits dest!: page_stats_inject[OF s1] intro!: that)
    qed
    from page_stats_access[where f = "\<lambda>t. t\<lparr>m_reads := m_reads t + 1\<rparr>", OF this(1) _ this(2)]
    show "page_stats_ok s'" and "a div PAGE_SIZE \<in> total_addrs s'" by simp_all
  next
    assume g: "putDataToDram env a r x now rg s = Inr (lat, rg', s')"
    obtain rg1 s1 where l: "log_page_access env a now False rg s = (rg1, s1)" by fastforce
    have s1: "page_stats_ok s1" using page_stats_log[OF assms, of env a now False rg] l by simp
    obtain t where "page_stats_ok t"
      "s' = count_page (de_block_size env) a rg1
         ((\<lambda>t. t\<lparr>m_writes := m_writes t + 1\<rparr>) (snd (runDramPerfModel env r now a WRITE t)))"
    proof (cases "de_faults env")
      case False
      then show ?thesis using that[OF s1] g l
        by (auto simp: putDataToDram_def case_prod_beta Let_def)
    next
      case True
      then show ?thesis using g l
        by (auto simp: putDataToDram_def err_simps case_prod_beta Let_def
            split: if_splits option.splits dest!: page_stats_inject[OF s1] intro!: that)
    qed
    from page_stats_access[where f = "\<lambda>t. t\<lparr>m_writes := m_writes t + 1\<rparr>", OF this(1) _ this(2)]
    show "page_stats_ok s'" and "a div PAGE_SIZE \<in> total_addrs s'" by simp_all
  }
qed

lemma dram_page_statistics_witness:
  "page_stats_ok (new_dram () None :: (nat, nat, unit) dram) \<and>
   (\<exists>lat out rg' s'. getDataFromDram demo_env 64 0 5 registry_init (new_dram () None) = Inr (lat, out, rg', s') \<and>
      page_stats_ok s')"
proof -
  let ?s = "new_dram () None :: (nat, nat, unit) dram"
  have ok: "page_stats_ok ?s" by (simp add: page_stats_ok_def new_dram_def)
  have "dram_inv demo_env (registry_init, ?s)" by (simp add: dram_inv_def demo_env_def new_dram_def)
  from getDataFromDram_eq[OF this, of 64 0 5] obtain lat d rg' s' where
    g: "getDataFromDram demo_env 64 0 5 registry_init ?s = Inr (lat, Some d, rg', s')" by blast
  then have "page_stats_ok s'"
    using dram_page_statistics[OF ok, of demo_env 64 0 5 registry_init lat "Some d" rg' s'] by blast
  with ok g show ?thesis by blast
qed

end
