(* ===== verification/Sniper_Monad.thy ===== *)
theory Sniper_Monad
  imports Sniper_Prelude
begin

text \<open>
  Operations on a large shared state that can fail: the controllers of the memory hierarchy call
  each other many times, so their operations are functions \<open>'s \<Rightarrow> ('a \<times> 's) result\<close> and are
  composed by \<open>bindS\<close>. \<open>op_rel R m\<close> says that every successful run of \<open>m\<close> relates its first and last
  state by \<open>R\<close>; for a reflexive and transitive \<open>R\<close> (locale \<open>step_order\<close>) it is checked along the
  structure of the operation by the rules of the collection \<open>op_rules\<close>.
\<close>

named_theorems op_defs \<open>the combinators\<close>

type_synonym ('s, 'a) op = "'s \<Rightarrow> ('a \<times> 's) result"

definition retS :: "'a \<Rightarrow> ('s, 'a) op" where
  [op_defs]: "retS x = (\<lambda>s. Inr (x, s))"

definition failS :: "sim_error \<Rightarrow> ('s, 'a) op" where
  [op_defs]: "failS e = (\<lambda>s. Inl e)"

definition bindS :: "('s, 'a) op \<Rightarrow> ('a \<Rightarrow> ('s, 'b) op) \<Rightarrow> ('s, 'b) op" where
  [op_defs]: "bindS m f = (\<lambda>s. bindE (m s) (\<lambda>(x, s). f x s))"

definition seqS :: "('s, unit) op \<Rightarrow> ('s, 'b) op \<Rightarrow> ('s, 'b) op" where
  [op_defs]: "seqS m k = bindS m (\<lambda>_. k)"

definition getS :: "('s \<Rightarrow> 'a) \<Rightarrow> ('s, 'a) op" where
  [op_defs]: "getS f = (\<lambda>s. Inr (f s, s))"

definition modS :: "('s \<Rightarrow> 's) \<Rightarrow> ('s, unit) op" where
  [op_defs]: "modS f = (\<lambda>s. Inr ((), f s))"

definition liftS :: "'a result \<Rightarrow> ('s, 'a) op" where
  [op_defs]: "liftS r = (\<lambda>s. bindE r (\<lambda>x. Inr (x, s)))"

definition assertS :: "sim_error \<Rightarrow> bool \<Rightarrow> ('s, unit) op" where
  [op_defs]: "assertS e b = (\<lambda>s. if b then Inr ((), s) else Inl e)"

definition whenS :: "bool \<Rightarrow> ('s, unit) op \<Rightarrow> ('s, unit) op" where
  [op_defs]: "whenS b m = (if b then m else retS ())"

text \<open>A loop over a list with an accumulator.\<close>

primrec foldS :: "('a \<Rightarrow> 'c \<Rightarrow> ('s, 'c) op) \<Rightarrow> 'a list \<Rightarrow> 'c \<Rightarrow> ('s, 'c) op" where
  "foldS f [] a = retS a"
| "foldS f (x # xs) a = bindS (f x a) (foldS f xs)"

definition forS :: "('a \<Rightarrow> ('s, unit) op) \<Rightarrow> 'a list \<Rightarrow> ('s, unit) op" where
  "forS f xs = foldS (\<lambda>x _. f x) xs ()"

lemma bindS_Inr [err_simps]:
  "bindS m f s = Inr r \<longleftrightarrow> (\<exists>x t. m s = Inr (x, t) \<and> f x t = Inr r)"
  by (cases "m s") (auto simp: bindS_def)

lemma seqS_Inr [err_simps]:
  "seqS m k s = Inr r \<longleftrightarrow> (\<exists>t. m s = Inr ((), t) \<and> k t = Inr r)"
  by (auto simp: seqS_def err_simps)

lemma basic_Inr [err_simps]:
  "retS x s = Inr r \<longleftrightarrow> r = (x, s)" "failS e s = Inr r \<longleftrightarrow> False"
  "getS f s = Inr r \<longleftrightarrow> r = (f s, s)" "modS g s = Inr u \<longleftrightarrow> u = ((), g s)"
  "liftS q s = Inr r \<longleftrightarrow> (\<exists>x. q = Inr x \<and> r = (x, s))"
  "assertS e b s = Inr u \<longleftrightarrow> b \<and> u = ((), s)"
  "whenS b m s = Inr u \<longleftrightarrow> (if b then m s = Inr u else u = ((), s))"
  by (auto simp: op_defs err_simps)

section \<open>Runs that succeed\<close>

text \<open>\<open>wpS m Q s\<close>: from \<open>s\<close> the operation succeeds, with a result and a last state in \<open>Q\<close>. The rules
  \<open>wp_simps\<close> compute it along the operation; a call of another operation is replaced by its
  specification with \<open>wp_mono\<close>.\<close>

definition wpS :: "('s, 'a) op \<Rightarrow> ('a \<Rightarrow> 's \<Rightarrow> bool) \<Rightarrow> 's \<Rightarrow> bool" where
  "wpS m Q s \<longleftrightarrow> (\<exists>x t. m s = Inr (x, t) \<and> Q x t)"

named_theorems wp_simps \<open>total correctness of the combinators\<close>

lemma wpS_basic [wp_simps]:
  "wpS (retS x) Q = Q x" "wpS (failS e) Q = (\<lambda>s. False)" "wpS (getS f) Q = (\<lambda>s. Q (f s) s)"
  "wpS (modS g) R = (\<lambda>s. R () (g s))" "wpS (liftS r) Q = (\<lambda>s. \<exists>x. r = Inr x \<and> Q x s)"
  "wpS (assertS e b) R = (\<lambda>s. b \<and> R () s)" "wpS (whenS b k) R = (if b then wpS k R else R ())"
  by (auto simp: wpS_def err_simps fun_eq_iff)

lemma wpS_bind [wp_simps]: "wpS (bindS m f) Q = wpS m (\<lambda>x. wpS (f x) Q)"
  by (auto simp: wpS_def err_simps fun_eq_iff)

lemma wpS_seq [wp_simps]: "wpS (seqS m k) Q = wpS m (\<lambda>_. wpS k Q)"
  by (simp add: seqS_def wpS_bind)

lemma wpS_fold [wp_simps]:
  "wpS (foldS f [] a) Q = Q a"
  "wpS (foldS f (x # xs) a) Q = wpS (f x a) (\<lambda>b. wpS (foldS f xs b) Q)"
  by (simp_all add: wpS_basic wpS_bind)

lemma wp_mono: "wpS m P s \<Longrightarrow> (\<And>x t. P x t \<Longrightarrow> Q x t) \<Longrightarrow> wpS m Q s"
  by (auto simp: wpS_def)

lemma wpSI: "m s = Inr (x, t) \<Longrightarrow> Q x t \<Longrightarrow> wpS m Q s"
  by (auto simp: wpS_def)

lemma wpSE: "wpS m Q s \<Longrightarrow> (\<And>x t. m s = Inr (x, t) \<Longrightarrow> Q x t \<Longrightarrow> R) \<Longrightarrow> R"
  by (auto simp: wpS_def)

text \<open>The invariant of a loop speaks of the number of iterations done.\<close>

lemma wp_for:
  assumes "I 0 s" and "\<And>k s. k < length xs \<Longrightarrow> I k s \<Longrightarrow> wpS (f (xs ! k)) (\<lambda>_. I (Suc k)) s"
    and "\<And>t. I (length xs) t \<Longrightarrow> R () t"
  shows "wpS (forS f xs) R s"
proof -
  have "wpS (forS f (drop k xs)) R s" if "k \<le> length xs" "I k s" for k s
    using that
  proof (induction "length xs - k" arbitrary: k s)
    case 0
    then show ?case using assms(3) by (simp add: forS_def wp_simps)
  next
    case (Suc n)
    then have k: "k < length xs" by simp
    have "wpS (forS f (drop (Suc k) xs)) R t" if "I (Suc k) t" for t
      using Suc.hyps(1)[of "Suc k" t] Suc.hyps(2) k that by simp
    then show ?case
      using wp_mono[OF assms(2)[OF k Suc.prems(2)], of "\<lambda>_. wpS (forS f (drop (Suc k) xs)) R"]
      by (simp add: forS_def wp_simps Cons_nth_drop_Suc[OF k, symmetric])
  qed
  from this[of 0 s] assms(1) show ?thesis by simp
qed

section \<open>What a successful run establishes\<close>

definition hoareS :: "('s \<Rightarrow> bool) \<Rightarrow> ('s, 'a) op \<Rightarrow> ('a \<Rightarrow> 's \<Rightarrow> bool) \<Rightarrow> bool" where
  "hoareS P m Q \<longleftrightarrow> (\<forall>s x t. P s \<longrightarrow> m s = Inr (x, t) \<longrightarrow> Q x t)"

lemma hoareSD: "hoareS P m Q \<Longrightarrow> P s \<Longrightarrow> m s = Inr (x, t) \<Longrightarrow> Q x t"
  by (auto simp: hoareS_def)

lemma hoare_bind: "hoareS P m R \<Longrightarrow> (\<And>x. hoareS (R x) (f x) Q) \<Longrightarrow> hoareS P (bindS m f) Q"
  by (auto simp: hoareS_def err_simps)

lemma hoare_seq: "hoareS P m (\<lambda>_. R) \<Longrightarrow> hoareS R k Q \<Longrightarrow> hoareS P (seqS m k) Q"
  by (auto simp: hoareS_def err_simps)

lemma hoare_weaken: "hoareS P m Q \<Longrightarrow> (\<And>s. P' s \<Longrightarrow> P s) \<Longrightarrow> (\<And>x s. Q x s \<Longrightarrow> Q' x s) \<Longrightarrow> hoareS P' m Q'"
  unfolding hoareS_def by blast

lemma hoare_ret: "(\<And>s. P s \<Longrightarrow> Q x s) \<Longrightarrow> hoareS P (retS x) Q"
  by (auto simp: hoareS_def err_simps)

lemma hoare_fail: "hoareS P (failS e) Q"
  by (auto simp: hoareS_def err_simps)

lemma hoare_get: "hoareS P (getS f) (\<lambda>x s. P s \<and> x = f s)"
  by (auto simp: hoareS_def err_simps)

lemma hoare_assert: "hoareS P (assertS e b) (\<lambda>_. P)"
  by (auto simp: hoareS_def err_simps)

lemma hoare_when: "(b \<Longrightarrow> hoareS P m (\<lambda>_. P)) \<Longrightarrow> hoareS P (whenS b m) (\<lambda>_. P)"
  by (auto simp: hoareS_def err_simps)

lemma hoare_if: "(b \<Longrightarrow> hoareS P m Q) \<Longrightarrow> (\<not> b \<Longrightarrow> hoareS P k Q) \<Longrightarrow> hoareS P (if b then m else k) Q"
  by simp

lemma hoare_pre: "(b \<Longrightarrow> hoareS P m Q) \<Longrightarrow> hoareS (\<lambda>s. P s \<and> b) m Q"
  by (auto simp: hoareS_def)

section \<open>Relations between the first and the last state\<close>

definition op_rel :: "('s \<Rightarrow> 's \<Rightarrow> bool) \<Rightarrow> ('s, 'a) op \<Rightarrow> bool" where
  "op_rel R m \<longleftrightarrow> (\<forall>s x t. m s = Inr (x, t) \<longrightarrow> R s t)"

lemma op_relD: "op_rel R m \<Longrightarrow> m s = Inr (x, t) \<Longrightarrow> R s t"
  by (auto simp: op_rel_def)

lemma op_relI: "(\<And>s x t. m s = Inr (x, t) \<Longrightarrow> R s t) \<Longrightarrow> op_rel R m"
  by (auto simp: op_rel_def)

named_theorems op_rules \<open>composition rules for \<open>op_rel\<close>\<close>

locale step_order =
  fixes R :: "'s \<Rightarrow> 's \<Rightarrow> bool"
  assumes refl: "R s s" and trans: "R s t \<Longrightarrow> R t u \<Longrightarrow> R s u"
begin

lemma rel_ret: "op_rel R (retS x)"
  by (auto simp: op_rel_def err_simps refl)

lemma rel_fail: "op_rel R (failS e)"
  by (auto simp: op_rel_def err_simps)

lemma rel_get: "op_rel R (getS f)"
  by (auto simp: op_rel_def err_simps refl)

lemma rel_mod: "(\<And>s. R s (f s)) \<Longrightarrow> op_rel R (modS f)"
  by (auto simp: op_rel_def err_simps)

lemma rel_lift: "op_rel R (liftS r)"
  by (auto simp: op_rel_def err_simps refl)

lemma rel_assert: "op_rel R (assertS e b)"
  by (auto simp: op_rel_def err_simps refl)

lemma rel_bind: "op_rel R m \<Longrightarrow> (\<And>x. op_rel R (f x)) \<Longrightarrow> op_rel R (bindS m f)"
  unfolding op_rel_def err_simps by (meson trans)

lemma rel_seq: "op_rel R m \<Longrightarrow> op_rel R k \<Longrightarrow> op_rel R (seqS m k)"
  unfolding seqS_def by (rule rel_bind)

lemma rel_when: "(b \<Longrightarrow> op_rel R m) \<Longrightarrow> op_rel R (whenS b m)"
  by (auto simp: whenS_def rel_ret)

lemma rel_if: "(b \<Longrightarrow> op_rel R m) \<Longrightarrow> (\<not> b \<Longrightarrow> op_rel R k) \<Longrightarrow> op_rel R (if b then m else k)"
  by simp

lemma rel_fold: "(\<And>x a. x \<in> set xs \<Longrightarrow> op_rel R (f x a)) \<Longrightarrow> op_rel R (foldS f xs a)"
  by (induction xs arbitrary: a) (auto intro!: rel_ret rel_bind)

lemma rel_for: "(\<And>x. x \<in> set xs \<Longrightarrow> op_rel R (f x)) \<Longrightarrow> op_rel R (forS f xs)"
  unfolding forS_def by (rule rel_fold)

lemma rel_option:
  "(x = None \<Longrightarrow> op_rel R m) \<Longrightarrow> (\<And>y. x = Some y \<Longrightarrow> op_rel R (f y)) \<Longrightarrow>
    op_rel R (case x of None \<Rightarrow> m | Some y \<Rightarrow> f y)"
  by (cases x) auto

lemma rel_prod: "(\<And>a b. x = (a, b) \<Longrightarrow> op_rel R (f a b)) \<Longrightarrow> op_rel R (case x of (a, b) \<Rightarrow> f a b)"
  by (cases x) auto

lemma rel_let: "(\<And>y. y = x \<Longrightarrow> op_rel R (f y)) \<Longrightarrow> op_rel R (let y = x in f y)"
  by simp

lemmas rel_rules = rel_ret rel_fail rel_get rel_lift rel_assert rel_bind rel_seq rel_when rel_if
  rel_fold rel_for rel_option rel_prod rel_let

end

end
