(* ===== verification/Cache_Cntlr_State.thy ===== *)
theory Cache_Cntlr_State
  imports Cache_Model Dram_Cntlr Sniper_Monad
begin

unbundle bit_operations_syntax

text \<open>
  The state of the cache controllers and their small operations, from
  \<open>src/common/core/memory_subsystem/parametric_dram_directory_msi/cache_cntlr.cc\<close> and its header.

  Controllers and their masters are objects that point at each other: they live in the maps
  \<open>cntlrs\<close> and \<open>masters\<close> of the record \<open>hier\<close> and are named by numbers. A \<open>CacheBlockInfo*\<close> is the
  set and way it points at. \<open>SubsecondTime\<close> is a natural number.

  Objects of classes that are not in the repository (set locks, contention models, prefetchers,
  auxiliary tag directories, \<open>ShmemPerf\<close>, the network) are known through the calls made on them: a
  call is appended to \<open>trace\<close>, and what such an object answers is a function, given in the
  environment, of the calls before. Scoped locks around statistics are not modelled: an
  operation is atomic between the points where the code waits for the other thread.
\<close>

section \<open>Enumerations\<close>

type_synonym time = nat

datatype thread = USER_THREAD | SIM_THREAD

datatype mem_op = OP_READ | OP_READ_EX | OP_WRITE | OP_OTHER nat

datatype lock_signal = SIG_NONE | SIG_LOCK | SIG_UNLOCK | SIG_INVALID

text \<open>\<open>LX_CACHE n\<close> is \<open>L2_CACHE + n\<close>.\<close>

datatype component =
    CORE | FIRST_LEVEL_CACHE | L1_ICACHE | L1_DCACHE | LX_CACHE nat | LAST_LEVEL_CACHE
  | TAG_DIR | NUCA_CACHE | DRAM_CACHE | DRAM | COMPONENT_OTHER nat

text \<open>\<open>where_t(c)\<close> and \<open>where_t(c + SIBLING)\<close> for a component \<open>c\<close>.\<close>

datatype where_t = MISS | UNKNOWN | WHERE component | WHERE_SIBLING component | WHERE_OTHER nat

datatype reason = CORE_RD | CORE_WR | CORE_RDEX | UPGRADE | EVICT | BACK_INVAL | COHERENCY | NUM_REASONS

fun ReasonString :: "reason \<Rightarrow> string" where
  "ReasonString CORE_RD = ''read''"
| "ReasonString CORE_RDEX = ''readex''"
| "ReasonString CORE_WR = ''write''"
| "ReasonString UPGRADE = ''upgrade''"
| "ReasonString EVICT = ''evict''"
| "ReasonString BACK_INVAL = ''backinval''"
| "ReasonString COHERENCY = ''coherency''"
| "ReasonString r = ''other''"

datatype prefetch_type = PF_NONE | PF_OWN | PF_OTHER

datatype cache_access = ACCESS_CACHE_DATA_AND_TAGS | ACCESS_CACHE_DATA | ACCESS_CACHE_TAGS

datatype block_option = PREFETCH | WARMUP

datatype msg_t =
    EX_REQ | SH_REQ | UPGRADE_REQ | INV_REQ | FLUSH_REQ | WB_REQ
  | EX_REP | SH_REP | UPGRADE_REP | INV_REP | FLUSH_REP | WB_REP | NULLIFY_REQ
  | MSG_OTHER nat

datatype perf_reason = PENDING_HIT | REMOTE_CACHE_INV | REMOTE_CACHE_WB | REMOTE_CACHE_FWD | PERF_UNKNOWN

text \<open>Whose \<open>ShmemPerf\<close>: of a controller, of a last level, the dummy of a controller, or the one a
  message carries.\<close>

datatype perf_ref = OwnPerf nat | GlobalPerf nat | DummyPerf nat | MsgPerf nat

text \<open>A buffer pointer is \<open>None\<close> when it is \<open>NULL\<close>; what it points at is unknown (inner \<open>None\<close>) when the
  caches keep no data. \<open>buf_bytes\<close> is what a \<open>memcpy\<close> from it transfers.\<close>

type_synonym bufptr = "bytes option option"

definition buf_bytes :: "bufptr \<Rightarrow> bytes option" where
  "buf_bytes p = (case p of None \<Rightarrow> None | Some d \<Rightarrow> d)"

record shmem_msg =
  msg_type :: msg_t
  msg_sender_mem_component :: component
  msg_receiver_mem_component :: component
  msg_requester :: int
  msg_receiver :: int
  msg_address :: u64
  msg_data :: bufptr
  msg_length :: nat
  msg_where :: where_t
  msg_perf :: perf_ref

section \<open>Calls on objects outside the repository\<close>

datatype ext_call =
    LockAcquireShared nat nat int      \<comment> \<open>master, set, core\<close>
  | LockReleaseShared nat nat int
  | LockUpgrade nat nat int
  | LockDowngrade nat nat int
  | LockAcquireExclusive nat nat
  | LockReleaseExclusive nat nat
  | SendMsg nat shmem_msg thread
  | AtdAccess nat nat mem_op bool u64
  | L1MshrStart nat time
  | L1MshrDone nat time time u64
  | NextReadDone nat time time
  | WritebackStart nat time
  | WritebackDone nat time time
  | PrefetcherNext nat u64 int
  | PerfReset perf_ref time int
  | PerfUpdate perf_ref time perf_reason
  | PerfDisable perf_ref
  | PerfAdd perf_ref perf_ref
  | NotifyEvict bool nat nat u64 nat
  | NotifyAccess nat mem_op where_t
  | SemSignalUser nat | SemWaitUser nat | SemSignalNetwork nat | SemWaitNetwork nat
  | RegisterRoiEndHook nat

text \<open>\<open>CacheBlockInfo\<close>'s options, owner and usage bits.\<close>

record 'b block_ext =
  hasOption :: "block_option \<Rightarrow> 'b \<Rightarrow> bool"
  setOption :: "block_option \<Rightarrow> 'b \<Rightarrow> 'b"
  clearOption :: "block_option \<Rightarrow> 'b \<Rightarrow> 'b"
  getOwner :: "'b \<Rightarrow> nat"
  setOwner :: "nat \<Rightarrow> 'b \<Rightarrow> 'b"
  getUsage :: "'b \<Rightarrow> u64"
  updateUsage :: "u64 \<Rightarrow> 'b \<Rightarrow> bool \<times> 'b"
  updateUsageRange :: "nat \<Rightarrow> nat \<Rightarrow> 'b \<Rightarrow> bool \<times> 'b"
  usage_offset :: nat

record ('b, 'p, 'g, 'm) cc_env =
  e_api :: "'b block_api"
  e_ext :: "'b block_ext"
  e_sample :: "'p \<Rightarrow> 'g \<Rightarrow> bool \<times> 'g"
  e_dram :: "('p, 'g, 'm, time) dram_env"
  e_depth :: nat                    \<comment> \<open>bound on the number of cache levels\<close>
  e_readable :: "cstate \<Rightarrow> bool"
  e_writable :: "cstate \<Rightarrow> bool"
  e_latency :: "component \<Rightarrow> cache_access \<Rightarrow> time"
  e_home :: "u64 \<Rightarrow> int"
  e_cache_only :: bool              \<comment> \<open>instrumentation mode \<open>CACHE_ONLY\<close>\<close>
  e_callbacks :: bool               \<comment> \<open>\<open>hasCacheEfficiencyCallbacks\<close>\<close>
  e_notify_access :: bool
  e_owner :: "int \<Rightarrow> u64 \<Rightarrow> nat"
  e_max_time :: time
  e_invalid_core :: int
  e_invalid_address :: u64
  e_l1_mshr_start :: "ext_call list \<Rightarrow> nat \<Rightarrow> time \<Rightarrow> time"
  e_l1_mshr_tag :: "ext_call list \<Rightarrow> nat \<Rightarrow> u64 \<Rightarrow> time"
  e_next_read_done :: "ext_call list \<Rightarrow> nat \<Rightarrow> time \<Rightarrow> time \<Rightarrow> time"
  e_writeback_start :: "ext_call list \<Rightarrow> nat \<Rightarrow> time \<Rightarrow> time"
  e_prefetch :: "ext_call list \<Rightarrow> nat \<Rightarrow> u64 \<Rightarrow> int \<Rightarrow> u64 list"
  e_perf_initial :: "ext_call list \<Rightarrow> perf_ref \<Rightarrow> time"

section \<open>The objects\<close>

record cstats =
  approx_loads :: u64
  approx_stores :: u64
  approx_load_misses :: u64
  approx_store_misses :: u64
  approx_loads_2 :: u64
  approx_stores_2 :: u64
  approx_load_misses_2 :: u64
  approx_store_misses_2 :: u64
  loads :: u64
  stores :: u64
  load_misses :: u64
  store_misses :: u64
  load_overlapping_misses :: u64
  store_overlapping_misses :: u64
  loads_state :: "cstate \<Rightarrow> u64"
  stores_state :: "cstate \<Rightarrow> u64"
  loads_where :: "where_t \<Rightarrow> u64"
  stores_where :: "where_t \<Rightarrow> u64"
  load_misses_state :: "cstate \<Rightarrow> u64"
  store_misses_state :: "cstate \<Rightarrow> u64"
  loads_prefetch :: u64
  stores_prefetch :: u64
  hits_prefetch :: u64
  evict_prefetch :: u64
  invalidate_prefetch :: u64
  st_evict :: "cstate \<Rightarrow> u64"
  st_backinval :: "cstate \<Rightarrow> u64"
  hits_warmup :: u64
  evict_warmup :: u64
  invalidate_warmup :: u64
  total_latency :: time
  snoop_latency :: time
  qbs_query_latency :: time
  mshr_latency :: time
  prefetches :: u64
  coherency_downgrades :: u64
  coherency_upgrades :: u64
  coherency_invalidates :: u64
  coherency_writebacks :: u64

text \<open>\<open>bzero(&stats, sizeof(stats))\<close>\<close>

definition zero_stats :: cstats where
  "zero_stats = \<lparr>approx_loads = 0, approx_stores = 0, approx_load_misses = 0, approx_store_misses = 0,
     approx_loads_2 = 0, approx_stores_2 = 0, approx_load_misses_2 = 0, approx_store_misses_2 = 0,
     loads = 0, stores = 0, load_misses = 0, store_misses = 0, load_overlapping_misses = 0,
     store_overlapping_misses = 0, loads_state = (\<lambda>_. 0), stores_state = (\<lambda>_. 0), loads_where = (\<lambda>_. 0),
     stores_where = (\<lambda>_. 0), load_misses_state = (\<lambda>_. 0), store_misses_state = (\<lambda>_. 0),
     loads_prefetch = 0, stores_prefetch = 0, hits_prefetch = 0, evict_prefetch = 0,
     invalidate_prefetch = 0, st_evict = (\<lambda>_. 0), st_backinval = (\<lambda>_. 0), hits_warmup = 0,
     evict_warmup = 0, invalidate_warmup = 0, total_latency = 0, snoop_latency = 0,
     qbs_query_latency = 0, mshr_latency = 0, prefetches = 0, coherency_downgrades = 0,
     coherency_upgrades = 0, coherency_invalidates = 0, coherency_writebacks = 0\<rparr>"

record mshr_entry =
  t_issue :: time
  t_complete :: time

definition make_mshr :: "time \<Rightarrow> time \<Rightarrow> mshr_entry" where
  "make_mshr ti tc = \<lparr>t_issue = ti, t_complete = tc\<rparr>"

record waiter =
  w_exclusive :: bool
  w_isPrefetch :: bool
  w_cntlr :: nat
  w_t_issue :: time

record cntlr =
  m_mem_component :: component
  m_master :: nat
  m_next :: "nat option"
  m_last_level :: "nat option"
  m_perfect :: bool
  m_passthrough :: bool
  m_coherent :: bool
  m_prefetch_on_prefetch_hit :: bool
  m_l1_mshr :: bool
  stats :: cstats
  m_core_id :: int
  m_cache_block_size :: nat
  m_cache_writethrough :: bool
  m_writeback_time :: time
  m_next_level_read_bandwidth :: "(nat \<Rightarrow> time) option"   \<comment> \<open>\<open>None\<close>: infinite; else the latency of a number of bits\<close>
  m_shared_cores :: int
  m_core_id_master :: int
  m_last_remote_hit_where :: where_t
  m_shmem_perf_totaltime :: time
  m_shmem_perf_numrequests :: u64

text \<open>\<open>mshr\<close>, an \<open>unordered_map\<close>, is an association list with distinct keys, in the order of its
  iteration.\<close>

record ('b, 'r, 'p, 'g) master =
  m_cache :: "('b, 'r, 'p, 'g) cache"
  m_geo :: geometry
  m_policy :: "('b, 'r) repl_policy"
  m_prev_cache_cntlrs :: "nat list"
  m_prefetcher :: bool
  m_dram_cntlr :: bool
  m_dram_outstanding_writebacks :: bool
  mshr :: "(u64 \<times> mshr_entry) list"
  m_directory_waiters :: "u64 \<Rightarrow> waiter list"
  m_evicting_address :: u64
  m_evicting_buf :: bufptr
  m_atds :: nat
  m_log_blocksize :: nat
  m_num_sets :: u32
  m_setlocks :: nat
  m_prefetch_list :: "u64 list"
  m_prefetch_next :: time

record ('b, 'r, 'p, 'g, 'm) hier =
  cntlrs :: "nat \<Rightarrow> cntlr"
  masters :: "nat \<Rightarrow> ('b, 'r, 'p, 'g) master"
  clock :: "int \<Rightarrow> thread \<Rightarrow> time"
  h_rg :: registry
  h_dram :: "('p, 'g, 'm) dram"
  trace :: "ext_call list"

end
