(* ===== verification/Cache_Cntlr_Basic.thy ===== *)
theory Cache_Cntlr_Basic
  imports Cache_Cntlr_State
begin

unbundle bit_operations_syntax

text \<open>
  The operations of a cache controller that do not talk to other levels: time, locks, block
  information, construction, DRAM access, messages. Controller \<open>i\<close> is \<open>cntlrs s i\<close>; its master, shared
  with the sibling controllers of the same cache, is \<open>my_master i s\<close>.
\<close>

section \<open>Reading and changing objects\<close>

definition my_master :: "nat \<Rightarrow> ('b, 'r, 'p, 'g, 'm) hier \<Rightarrow> ('b, 'r, 'p, 'g) master" where
  "my_master i s = masters s (m_master (cntlrs s i))"

definition upd_cntlr :: "nat \<Rightarrow> (cntlr \<Rightarrow> cntlr) \<Rightarrow> (('b, 'r, 'p, 'g, 'm) hier, unit) op" where
  "upd_cntlr i f = modS (\<lambda>s. s\<lparr>cntlrs := (cntlrs s)(i := f (cntlrs s i))\<rparr>)"

definition upd_stats :: "nat \<Rightarrow> (cstats \<Rightarrow> cstats) \<Rightarrow> (('b, 'r, 'p, 'g, 'm) hier, unit) op" where
  "upd_stats i f = upd_cntlr i (\<lambda>c. c\<lparr>stats := f (stats c)\<rparr>)"

definition upd_master ::
  "nat \<Rightarrow> (('b, 'r, 'p, 'g) master \<Rightarrow> ('b, 'r, 'p, 'g) master) \<Rightarrow> (('b, 'r, 'p, 'g, 'm) hier, unit) op" where
  "upd_master i f = modS (\<lambda>s. s\<lparr>masters := (masters s)
     (m_master (cntlrs s i) := f (my_master i s))\<rparr>)"

definition ext :: "ext_call \<Rightarrow> (('b, 'r, 'p, 'g, 'm) hier, unit) op" where
  "ext e = modS (\<lambda>s. s\<lparr>trace := trace s @ [e]\<rparr>)"

abbreviation cntlr_of :: "nat \<Rightarrow> (('b, 'r, 'p, 'g, 'm) hier, cntlr) op" where
  "cntlr_of i \<equiv> getS (\<lambda>s. cntlrs s i)"

abbreviation master_of :: "nat \<Rightarrow> (('b, 'r, 'p, 'g, 'm) hier, ('b, 'r, 'p, 'g) master) op" where
  "master_of i \<equiv> getS (my_master i)"

section \<open>Time\<close>

definition getElapsedTime :: "nat \<Rightarrow> thread \<Rightarrow> (('b, 'r, 'p, 'g, 'm) hier, time) op" where
  "getElapsedTime i th = getS (\<lambda>s. clock s (m_core_id (cntlrs s i)) th)"

definition setElapsedTime :: "nat \<Rightarrow> thread \<Rightarrow> time \<Rightarrow> (('b, 'r, 'p, 'g, 'm) hier, unit) op" where
  "setElapsedTime i th t = modS (\<lambda>s. s\<lparr>clock := (clock s)(m_core_id (cntlrs s i) :=
     (clock s (m_core_id (cntlrs s i)))(th := t))\<rparr>)"

definition incrElapsedTime :: "nat \<Rightarrow> time \<Rightarrow> thread \<Rightarrow> (('b, 'r, 'p, 'g, 'm) hier, unit) op" where
  "incrElapsedTime i latency th = bindS (getElapsedTime i th) (\<lambda>t. setElapsedTime i th (t + latency))"

definition incrAccessTime ::
  "('b, 'p, 'g, 'm) cc_env \<Rightarrow> nat \<Rightarrow> cache_access \<Rightarrow> thread \<Rightarrow> (('b, 'r, 'p, 'g, 'm) hier, unit) op" where
  "incrAccessTime env i access_type th =
     bindS (cntlr_of i) (\<lambda>c. incrElapsedTime i (e_latency env (m_mem_component c) access_type) th)"

section \<open>Set locks\<close>

definition createSetLocks :: "nat \<Rightarrow> u32 \<Rightarrow> ('b, 'r, 'p, 'g) master \<Rightarrow> ('b, 'r, 'p, 'g) master" where
  "createSetLocks cache_block_size num_sets m =
     m\<lparr>m_log_blocksize := ilog2 cache_block_size, m_num_sets := num_sets, m_setlocks := unat num_sets\<rparr>"

definition getSetLock_index :: "u64 \<Rightarrow> ('b, 'r, 'p, 'g) master \<Rightarrow> nat" where
  "getSetLock_index address m = unat (drop_bit (m_log_blocksize m) address AND ucast (m_num_sets m - 1))"

definition master_getSetLock :: "u64 \<Rightarrow> ('b, 'r, 'p, 'g) master \<Rightarrow> nat result" where
  "master_getSetLock address m =
     (let i = getSetLock_index address m in if i < m_setlocks m then Inr i else Inl OutOfBounds)"

definition isFirstLevel :: "nat \<Rightarrow> ('b, 'r, 'p, 'g, 'm) hier \<Rightarrow> bool" where
  "isFirstLevel i s = (m_prev_cache_cntlrs (my_master i s) = [])"

definition isLastLevel :: "nat \<Rightarrow> ('b, 'r, 'p, 'g, 'm) hier \<Rightarrow> bool" where
  "isLastLevel i s = (m_next (cntlrs s i) = None)"

definition isMasterCache :: "cntlr \<Rightarrow> bool" where
  "isMasterCache c = (m_core_id c = m_core_id_master c)"

definition isShared :: "int \<Rightarrow> cntlr \<Rightarrow> bool" where
  "isShared core_id c = (core_id - core_id mod m_shared_cores c = m_core_id_master c)"

text \<open>The walk to the last level; the result is remembered in \<open>m_last_level\<close>.\<close>

primrec walk_last :: "nat \<Rightarrow> (nat \<Rightarrow> cntlr) \<Rightarrow> nat \<Rightarrow> nat option" where
  "walk_last 0 cs i = None"
| "walk_last (Suc n) cs i = (case m_next (cs i) of None \<Rightarrow> Some i | Some j \<Rightarrow> walk_last n cs j)"

definition lastLevelCache ::
  "('b, 'p, 'g, 'm) cc_env \<Rightarrow> nat \<Rightarrow> (('b, 'r, 'p, 'g, 'm) hier, nat) op" where
  "lastLevelCache env i = bindS (cntlr_of i) (\<lambda>c.
     case m_last_level c of
       Some l \<Rightarrow> retS l
     | None \<Rightarrow> bindS (getS (\<lambda>s. walk_last (e_depth env) (cntlrs s) i)) (\<lambda>r.
         case r of None \<Rightarrow> failS OutOfFuel
         | Some l \<Rightarrow> seqS (upd_cntlr i (\<lambda>c. c\<lparr>m_last_level := Some l\<rparr>)) (retS l)))"

definition set_lock_call ::
  "('b, 'p, 'g, 'm) cc_env \<Rightarrow> nat \<Rightarrow> u64 \<Rightarrow> (nat \<Rightarrow> nat \<Rightarrow> int \<Rightarrow> ext_call) \<Rightarrow>
   (('b, 'r, 'p, 'g, 'm) hier, unit) op" where
  "set_lock_call env i address f =
     bindS (lastLevelCache env i) (\<lambda>l.
     bindS (getS (\<lambda>s. m_master (cntlrs s l))) (\<lambda>k.
     bindS (master_of l) (\<lambda>m.
     bindS (liftS (master_getSetLock address m)) (\<lambda>n.
     bindS (cntlr_of i) (\<lambda>c. ext (f k n (m_core_id c)))))))"

definition acquireLock :: "('b, 'p, 'g, 'm) cc_env \<Rightarrow> nat \<Rightarrow> u64 \<Rightarrow> (('b, 'r, 'p, 'g, 'm) hier, unit) op" where
  "acquireLock env i address =
     bindS (getS (isFirstLevel i)) (\<lambda>b. seqS (assertS (CAssert ''isFirstLevel()'') b)
       (set_lock_call env i address LockAcquireShared))"

definition releaseLock :: "('b, 'p, 'g, 'm) cc_env \<Rightarrow> nat \<Rightarrow> u64 \<Rightarrow> (('b, 'r, 'p, 'g, 'm) hier, unit) op" where
  "releaseLock env i address =
     bindS (getS (isFirstLevel i)) (\<lambda>b. seqS (assertS (CAssert ''isFirstLevel()'') b)
       (set_lock_call env i address LockReleaseShared))"

definition acquireStackLock ::
  "('b, 'p, 'g, 'm) cc_env \<Rightarrow> nat \<Rightarrow> u64 \<Rightarrow> bool \<Rightarrow> (('b, 'r, 'p, 'g, 'm) hier, unit) op" where
  "acquireStackLock env i address this_is_locked =
     set_lock_call env i address
       (if this_is_locked then LockUpgrade else (\<lambda>k n c. LockAcquireExclusive k n))"

definition releaseStackLock ::
  "('b, 'p, 'g, 'm) cc_env \<Rightarrow> nat \<Rightarrow> u64 \<Rightarrow> bool \<Rightarrow> (('b, 'r, 'p, 'g, 'm) hier, unit) op" where
  "releaseStackLock env i address this_is_locked =
     set_lock_call env i address
       (if this_is_locked then LockDowngrade else (\<lambda>k n c. LockReleaseExclusive k n))"

section \<open>Semaphores\<close>

text \<open>The controller whose semaphore is meant; the default argument \<open>NULL\<close> is its own.\<close>

definition wakeUpUserThread :: "nat \<Rightarrow> (('b, 'r, 'p, 'g, 'm) hier, unit) op" where
  "wakeUpUserThread j = ext (SemSignalUser j)"

definition waitForUserThread :: "nat \<Rightarrow> (('b, 'r, 'p, 'g, 'm) hier, unit) op" where
  "waitForUserThread j = ext (SemWaitNetwork j)"

definition waitForNetworkThread :: "nat \<Rightarrow> (('b, 'r, 'p, 'g, 'm) hier, unit) op" where
  "waitForNetworkThread i = ext (SemWaitUser i)"

definition wakeUpNetworkThread :: "nat \<Rightarrow> (('b, 'r, 'p, 'g, 'm) hier, unit) op" where
  "wakeUpNetworkThread i = ext (SemSignalNetwork i)"

section \<open>Block information\<close>

definition block_at :: "('b, 'r, 'p, 'g) cache \<Rightarrow> nat \<times> nat \<Rightarrow> 'b" where
  "block_at c p = m_cache_block_info_array (m_sets c ! fst p) ! snd p"

definition upd_cache_block ::
  "nat \<times> nat \<Rightarrow> ('b \<Rightarrow> 'b) \<Rightarrow> ('b, 'r, 'p, 'g) cache \<Rightarrow> ('b, 'r, 'p, 'g) cache" where
  "upd_cache_block p f c = put_set (fst p) (set_info (snd p) f (m_sets c ! fst p)) c"

definition upd_block ::
  "nat \<Rightarrow> nat \<times> nat \<Rightarrow> ('b \<Rightarrow> 'b) \<Rightarrow> (('b, 'r, 'p, 'g, 'm) hier, unit) op" where
  "upd_block i p f = upd_master i (\<lambda>m. m\<lparr>m_cache := upd_cache_block p f (m_cache m)\<rparr>)"

abbreviation block_of :: "nat \<Rightarrow> nat \<times> nat \<Rightarrow> (('b, 'r, 'p, 'g, 'm) hier, 'b) op" where
  "block_of i p \<equiv> getS (\<lambda>s. block_at (m_cache (my_master i s)) p)"

definition getCacheBlockInfo ::
  "('b, 'p, 'g, 'm) cc_env \<Rightarrow> nat \<Rightarrow> u64 \<Rightarrow> (('b, 'r, 'p, 'g, 'm) hier, (nat \<times> nat) option) op" where
  "getCacheBlockInfo env i address =
     bindS (master_of i) (\<lambda>m. liftS (peekSingleLine (e_api env) (m_geo m) address (m_cache m)))"

definition getCacheState_of ::
  "('b, 'p, 'g, 'm) cc_env \<Rightarrow> nat \<Rightarrow> (nat \<times> nat) option \<Rightarrow> (('b, 'r, 'p, 'g, 'm) hier, cstate) op" where
  "getCacheState_of env i po =
     (case po of None \<Rightarrow> retS INVALID
      | Some p \<Rightarrow> bindS (block_of i p) (\<lambda>b. retS (getCState (e_api env) b)))"

definition getCacheState ::
  "('b, 'p, 'g, 'm) cc_env \<Rightarrow> nat \<Rightarrow> u64 \<Rightarrow> (('b, 'r, 'p, 'g, 'm) hier, cstate) op" where
  "getCacheState env i address =
     bindS (getCacheBlockInfo env i address) (getCacheState_of env i)"

definition setCacheState ::
  "('b, 'p, 'g, 'm) cc_env \<Rightarrow> nat \<Rightarrow> u64 \<Rightarrow> cstate \<Rightarrow> (('b, 'r, 'p, 'g, 'm) hier, nat \<times> nat) op" where
  "setCacheState env i address st =
     bindS (getCacheBlockInfo env i address) (\<lambda>po.
     case po of None \<Rightarrow> failS NullPointer
     | Some p \<Rightarrow> seqS (upd_block i p (setCState (e_api env) st)) (retS p))"

text \<open>A block through a pointer that must not be \<open>NULL\<close>.\<close>

definition with_block ::
  "(nat \<times> nat) option \<Rightarrow> (nat \<times> nat \<Rightarrow> (('b, 'r, 'p, 'g, 'm) hier, 'a) op) \<Rightarrow>
   (('b, 'r, 'p, 'g, 'm) hier, 'a) op" where
  "with_block po f = (case po of None \<Rightarrow> failS NullPointer | Some p \<Rightarrow> f p)"

definition setBlockOption ::
  "('b, 'p, 'g, 'm) cc_env \<Rightarrow> nat \<Rightarrow> u64 \<Rightarrow> block_option \<Rightarrow> (('b, 'r, 'p, 'g, 'm) hier, unit) op" where
  "setBlockOption env i address opt =
     bindS (getCacheBlockInfo env i address) (\<lambda>po.
     with_block po (\<lambda>p. upd_block i p (setOption (e_ext env) opt)))"

definition operationPermissibleinCache ::
  "('b, 'p, 'g, 'm) cc_env \<Rightarrow> nat \<Rightarrow> u64 \<Rightarrow> mem_op \<Rightarrow>
   (('b, 'r, 'p, 'g, 'm) hier, (nat \<times> nat) option \<times> bool) op" where
  "operationPermissibleinCache env i address op =
     bindS (getCacheBlockInfo env i address) (\<lambda>po.
     bindS (getCacheState_of env i po) (\<lambda>st.
     case op of
       OP_READ \<Rightarrow> retS (po, e_readable env st)
     | OP_READ_EX \<Rightarrow> retS (po, e_writable env st)
     | OP_WRITE \<Rightarrow> retS (po, e_writable env st)
     | OP_OTHER n \<Rightarrow> failS (LogError ''Unsupported mem_op_type'')))"

text \<open>An access to the cache of the master, which reports to the registry. \<open>buff\<close> is the data to store
  and \<open>want\<close> says that the caller gave a buffer for the data read.\<close>

definition access_line ::
  "('b, 'p, 'g, 'm) cc_env \<Rightarrow> nat \<Rightarrow> u64 \<Rightarrow> access_t \<Rightarrow> bytes option \<Rightarrow> bool \<Rightarrow> nat \<Rightarrow> bool \<Rightarrow>
   (('b, 'r, 'p, 'g, 'm) hier, (nat \<times> nat) option \<times> bytes option) op" where
  "access_line env i address ty buff want n update_replacement =
     bindS (master_of i) (\<lambda>m.
     bindS (getS h_rg) (\<lambda>rg.
     bindS (liftS (accessSingleLine (e_api env) (m_geo m) (m_policy m) (e_sample env) address ty buff
              want n update_replacement rg (m_cache m))) (\<lambda>(po, out, rg', c).
     seqS (modS (\<lambda>s. s\<lparr>h_rg := rg'\<rparr>)) (seqS (upd_master i (\<lambda>m. m\<lparr>m_cache := c\<rparr>))
       (retS (po, out))))))"

definition retrieveCacheBlock ::
  "('b, 'p, 'g, 'm) cc_env \<Rightarrow> nat \<Rightarrow> u64 \<Rightarrow> bool \<Rightarrow> (('b, 'r, 'p, 'g, 'm) hier, bytes option) op" where
  "retrieveCacheBlock env i address update_replacement =
     bindS (cntlr_of i) (\<lambda>c.
     bindS (access_line env i address LOAD None True (m_cache_block_size c) update_replacement) (\<lambda>(po, out).
     seqS (assertS (LogAssert ''Expected block to be there but it was not'') (po \<noteq> None))
       (retS out)))"

text \<open>The two notifications do nothing: \<open>ENABLE_TRACK_SHARING_PREVCACHES\<close> is not defined, and what is
  left of \<open>notifyPrevLevelEvict\<close> is a log message.\<close>

definition notifyPrevLevelInsert :: "nat \<Rightarrow> int \<Rightarrow> component \<Rightarrow> u64 \<Rightarrow> (('b, 'r, 'p, 'g, 'm) hier, unit) op" where
  "notifyPrevLevelInsert i core_id mem_component address = retS ()"

definition notifyPrevLevelEvict :: "nat \<Rightarrow> int \<Rightarrow> component \<Rightarrow> u64 \<Rightarrow> (('b, 'r, 'p, 'g, 'm) hier, unit) op" where
  "notifyPrevLevelEvict i core_id mem_component address = retS ()"

definition invalidateCacheBlock ::
  "('b, 'p, 'g, 'm) cc_env \<Rightarrow> nat \<Rightarrow> u64 \<Rightarrow> (('b, 'r, 'p, 'g, 'm) hier, unit) op" where
  "invalidateCacheBlock env i address =
     bindS (getCacheState env i address) (\<lambda>old.
     seqS (assertS (CAssert ''old_cstate != MODIFIED'') (old \<noteq> MODIFIED))
    (seqS (assertS (CAssert ''old_cstate != INVALID'') (old \<noteq> INVALID))
    (bindS (master_of i) (\<lambda>m.
     bindS (liftS (invalidateSingleLine (e_api env) (m_geo m) address (m_cache m))) (\<lambda>(found, c).
     seqS (upd_master i (\<lambda>m. m\<lparr>m_cache := c\<rparr>))
    (bindS (cntlr_of i) (\<lambda>ct.
     case m_next ct of None \<Rightarrow> retS ()
     | Some j \<Rightarrow> notifyPrevLevelEvict j (m_core_id_master ct) (m_mem_component ct) address)))))))"

definition isInLowerLevelCache ::
  "('b, 'p, 'g, 'm) cc_env \<Rightarrow> nat \<Rightarrow> 'b \<Rightarrow> (('b, 'r, 'p, 'g, 'm) hier, bool) op" where
  "isInLowerLevelCache env i info =
     bindS (master_of i) (\<lambda>m.
     let address = tagToAddress (m_geo m) (getTag (e_api env) info)
     in foldS (\<lambda>j found. if found then retS True
           else bindS (getCacheBlockInfo env j address) (\<lambda>po. retS (po \<noteq> None)))
         (m_prev_cache_cntlrs m) False)"

definition incrementQBSLookupCost :: "nat \<Rightarrow> (('b, 'r, 'p, 'g, 'm) hier, unit) op" where
  "incrementQBSLookupCost i =
     bindS (cntlr_of i) (\<lambda>c. seqS (incrElapsedTime i (m_writeback_time c) USER_THREAD)
       (upd_stats i (\<lambda>st. st\<lparr>qbs_query_latency := qbs_query_latency st + m_writeback_time c\<rparr>)))"

section \<open>Usage bits\<close>

primrec updateUsageBits ::
  "nat \<Rightarrow> ('b, 'p, 'g, 'm) cc_env \<Rightarrow> nat \<Rightarrow> u64 \<Rightarrow> u64 \<Rightarrow> (('b, 'r, 'p, 'g, 'm) hier, unit) op" where
  "updateUsageBits 0 = (\<lambda>env i address used. failS OutOfFuel)"
| "updateUsageBits (Suc fuel) = (\<lambda>env i address used.
     bindS (getCacheBlockInfo env i address) (\<lambda>po.
     with_block po (\<lambda>p.
     bindS (block_of i p) (\<lambda>b.
     let (new_bits, b') = updateUsage (e_ext env) used b
     in seqS (upd_block i p (\<lambda>_. b'))
       (bindS (cntlr_of i) (\<lambda>c.
        case m_next c of
          None \<Rightarrow> retS ()
        | Some j \<Rightarrow> whenS (new_bits \<and> \<not> m_perfect c) (updateUsageBits fuel env j address used)))))))"

definition walkUsageBits ::
  "('b, 'p, 'g, 'm) cc_env \<Rightarrow> nat \<Rightarrow> (('b, 'r, 'p, 'g, 'm) hier, unit) op" where
  "walkUsageBits env i =
     bindS (cntlr_of i) (\<lambda>c.
     bindS (master_of i) (\<lambda>m.
     whenS (m_next c = None \<and> e_callbacks env)
       (forS (\<lambda>set_index. forS (\<lambda>way.
           bindS (block_of i (set_index, way)) (\<lambda>b.
           whenS (isValid (e_api env) b \<and> \<not> hasOption (e_ext env) WARMUP b)
             (ext (NotifyEvict True (getOwner (e_ext env) b) 0 (getUsage (e_ext env) b)
                (m_cache_block_size c div 2 ^ usage_offset (e_ext env))))))
          [0..<c_associativity (m_cache m)]) [0..<length (m_sets (m_cache m))])))"

section \<open>Main memory and the network\<close>

text \<open>\<open>accessDRAM\<close> returns where the data was found, the latency, and for a read what was written into
  the buffer. \<open>m_dram_cntlr\<close> is the DRAM controller of \<open>Dram_Cntlr\<close>.\<close>

definition accessDRAM ::
  "('b, 'p, 'g, 'm) cc_env \<Rightarrow> nat \<Rightarrow> mem_op \<Rightarrow> u64 \<Rightarrow> bytes option \<Rightarrow>
   (('b, 'r, 'p, 'g, 'm) hier, where_t \<times> time \<times> bytes option) op" where
  "accessDRAM env i op address data_buf =
     bindS (getElapsedTime i USER_THREAD) (\<lambda>t.
     bindS (cntlr_of i) (\<lambda>c.
     bindS (getS h_rg) (\<lambda>rg.
     bindS (getS h_dram) (\<lambda>d.
     let put = bindS (liftS (putDataToDram (e_dram env) address (m_core_id_master c)
                       (case data_buf of Some x \<Rightarrow> x | None \<Rightarrow> []) t rg d)) (\<lambda>(lat, rg, d).
                 seqS (modS (\<lambda>s. s\<lparr>h_rg := rg, h_dram := d\<rparr>)) (retS (WHERE DRAM, lat, data_buf)))
     in case op of
       OP_READ \<Rightarrow> bindS (liftS (getDataFromDram (e_dram env) address (m_core_id_master c) t rg d)) (\<lambda>(lat, out, rg, d).
                 seqS (modS (\<lambda>s. s\<lparr>h_rg := rg, h_dram := d\<rparr>)) (retS (WHERE DRAM, lat, out)))
     | OP_READ_EX \<Rightarrow> put
     | OP_WRITE \<Rightarrow> put
     | OP_OTHER n \<Rightarrow> failS (LogError ''Unsupported Mem Op Type'')))))"

text \<open>\<open>MemoryManager::sendMsg\<close> of the core of controller \<open>i\<close>.\<close>

definition sendMsg ::
  "nat \<Rightarrow> msg_t \<Rightarrow> component \<Rightarrow> component \<Rightarrow> int \<Rightarrow> int \<Rightarrow> u64 \<Rightarrow> bufptr \<Rightarrow> nat \<Rightarrow> where_t \<Rightarrow> perf_ref \<Rightarrow>
   thread \<Rightarrow> (('b, 'r, 'p, 'g, 'm) hier, unit) op" where
  "sendMsg i ty sender receiver_comp requester receiver address data n wh perf th =
     seqS (assertS (CAssert ''(data_buf == NULL) == (data_length == 0)'') ((data = None) = (n = 0)))
    (bindS (getElapsedTime i th) (\<lambda>t.
     seqS (ext (PerfUpdate perf t PERF_UNKNOWN))
       (ext (SendMsg i \<lparr>msg_type = ty, msg_sender_mem_component = sender,
          msg_receiver_mem_component = receiver_comp, msg_requester = requester, msg_receiver = receiver,
          msg_address = address, msg_data = data, msg_length = n, msg_where = wh, msg_perf = perf\<rparr> th))))"

section \<open>Uncore statistics\<close>

definition updateUncoreStatistics ::
  "('b, 'p, 'g, 'm) cc_env \<Rightarrow> nat \<Rightarrow> where_t \<Rightarrow> time \<Rightarrow> (('b, 'r, 'p, 'g, 'm) hier, unit) op" where
  "updateUncoreStatistics env i hit_where now =
     seqS (upd_cntlr i (\<lambda>c. c\<lparr>m_last_remote_hit_where := hit_where\<rparr>))
    (bindS (getS (\<lambda>s. e_perf_initial env (trace s) (OwnPerf i))) (\<lambda>t0.
     whenS (t0 > 0)
      (seqS (ext (PerfDisable (OwnPerf i)))
      (seqS (ext (PerfAdd (GlobalPerf i) (OwnPerf i)))
      (seqS (upd_cntlr i (\<lambda>c. c\<lparr>m_shmem_perf_totaltime := m_shmem_perf_totaltime c + (now - t0),
               m_shmem_perf_numrequests := m_shmem_perf_numrequests c + 1\<rparr>))
        (ext (PerfReset (OwnPerf i) 0 (e_invalid_core env))))))))"

end
