(* ===== verification/Cache_Cntlr_Stats.thy ===== *)
theory Cache_Cntlr_Stats
  imports Cache_Cntlr_Basic "HOL-Library.AList"
begin

text \<open>
  Parameters, construction and bookkeeping of a cache controller: \<open>CacheParameters\<close>, the
  constructor, the access counters, the outstanding misses and the list of addresses to prefetch.

  \<open>cleanupMshr\<close> repeats "remove the entry that completes first" until eight are left. The loop is given
  one turn more than there are entries; \<open>mshr_trim_latest\<close> shows that this is enough when every
  entry completes before \<open>MaxTime\<close>, and \<open>mshr_trim_stuck\<close> that no number is enough when too many do not.
\<close>

section \<open>Parameters and construction\<close>

record cache_params =
  cp_size :: nat
  cp_num_sets :: nat
  cp_associativity :: nat
  cp_perfect :: bool
  cp_coherent :: bool
  cp_writeback_time :: time
  cp_next_level_read_bandwidth :: "(nat \<Rightarrow> time) option"
  cp_writethrough :: bool
  cp_shared_cores :: nat
  cp_prefetcher :: bool
  cp_outstanding_misses :: nat

text \<open>A division by zero stops the program.\<close>

definition CacheParameters ::
  "nat \<Rightarrow> nat \<Rightarrow> nat \<Rightarrow> bool \<Rightarrow> bool \<Rightarrow> time \<Rightarrow> (nat \<Rightarrow> time) option \<Rightarrow> bool \<Rightarrow> nat \<Rightarrow> bool \<Rightarrow> nat \<Rightarrow>
   cache_params result" where
  "CacheParameters sz assoc block_size perfect coherent wb_time bandwidth writethrough shared prefetcher misses =
     (if assoc * block_size = 0 then Inl (CAssert ''division by zero'')
      else (let num_sets = 1024 * sz div (assoc * block_size)
        in bindE (checkE (LogAssert ''Invalid cache configuration'') (1024 * sz = num_sets * assoc * block_size))
          (\<lambda>_. Inr \<lparr>cp_size = sz, cp_num_sets = num_sets, cp_associativity = assoc, cp_perfect = perfect,
             cp_coherent = coherent, cp_writeback_time = wb_time, cp_next_level_read_bandwidth = bandwidth,
             cp_writethrough = writethrough, cp_shared_cores = shared, cp_prefetcher = prefetcher,
             cp_outstanding_misses = misses\<rparr>)))"

definition new_master ::
  "'b block_api \<Rightarrow> string \<Rightarrow> int \<Rightarrow> nat \<Rightarrow> cache_params \<Rightarrow> geometry \<Rightarrow> ('b, 'r) repl_policy \<Rightarrow> 'r \<Rightarrow> bool \<Rightarrow>
   ('p, 'g) injector option \<Rightarrow> bool \<Rightarrow> ('b, 'r, 'p, 'g) master" where
  "new_master api name core_id bsize cp geo rp repl faults fi atd_enabled =
     \<lparr>m_cache = new_cache api name core_id (cp_num_sets cp) (cp_associativity cp) bsize repl SHARED_CACHE faults fi,
      m_geo = geo, m_policy = rp, m_prev_cache_cntlrs = [], m_prefetcher = cp_prefetcher cp, m_dram_cntlr = False,
      m_dram_outstanding_writebacks = False, mshr = [], m_directory_waiters = (\<lambda>_. []),
      m_evicting_address = 0, m_evicting_buf = None, m_atds = (if atd_enabled then cp_shared_cores cp else 0),
      m_log_blocksize = 0, m_num_sets = 0, m_setlocks = 0, m_prefetch_list = [], m_prefetch_next = 0\<rparr>"

text \<open>The constructor of controller \<open>i\<close>: \<open>mid\<close> is the master object it creates when it is the master
  cache, or \<open>getCacheCntlrAt(m_core_id_master, mem_component)->m_master\<close> otherwise.\<close>

definition new_cntlr ::
  "component \<Rightarrow> int \<Rightarrow> nat \<Rightarrow> bool \<Rightarrow> bool \<Rightarrow> bool \<Rightarrow> bool \<Rightarrow> cache_params \<Rightarrow> ('b, 'r, 'p, 'g) master \<Rightarrow> nat \<Rightarrow> nat \<Rightarrow>
   (('b, 'r, 'p, 'g, 'm) hier, unit) op" where
  "new_cntlr comp_id core_id bsize passthrough perfect_llc_key prefetch_hit_key is_llc cp m mid i =
     (let c = \<lparr>m_mem_component = comp_id, m_master = mid, m_next = None, m_last_level = None,
           m_perfect = cp_perfect cp, m_passthrough = passthrough, m_coherent = cp_coherent cp,
           m_prefetch_on_prefetch_hit = False, m_l1_mshr = cp_outstanding_misses cp > 0,
           stats = zero_stats, m_core_id = core_id, m_cache_block_size = bsize,
           m_cache_writethrough = cp_writethrough cp, m_writeback_time = cp_writeback_time cp,
           m_next_level_read_bandwidth = cp_next_level_read_bandwidth cp,
           m_shared_cores = int (cp_shared_cores cp),
           m_core_id_master = core_id - core_id mod int (cp_shared_cores cp),
           m_last_remote_hit_where = UNKNOWN, m_shmem_perf_totaltime = 0, m_shmem_perf_numrequests = 0\<rparr>
      in seqS (assertS (LogAssert ''perf_model/perfect_llc is deprecated'') (\<not> perfect_llc_key))
        (seqS (assertS (LogAssert ''Cache pass-through not supported on last-level cache'') (is_llc \<longrightarrow> \<not> passthrough))
        (seqS (upd_cntlr i (\<lambda>_. c))
        (seqS (whenS (isMasterCache c) (seqS (upd_master i (\<lambda>_. m)) (ext (RegisterRoiEndHook i))))
          (bindS (master_of i) (\<lambda>m. whenS (m_prefetcher m)
             (upd_cntlr i (\<lambda>c. c\<lparr>m_prefetch_on_prefetch_hit := prefetch_hit_key\<rparr>))))))))"

text \<open>The states below \<open>NUM_CSTATE_STATES\<close>, which index the counters.\<close>

definition counted_states :: "cstate list" where
  "counted_states = [INVALID, SHARED, SHARED_UPGRADING, EXCLUSIVE, OWNED, MODIFIED]"

text \<open>The metrics a controller registers, in order; \<open>where_strings\<close> are the names of the \<open>HitWhere\<close> values.\<close>

definition state_metrics :: "string list" where
  "state_metrics = concat (map (\<lambda>st. map (\<lambda>p. p @ [CStateString st])
     [''loads-'', ''stores-'', ''load-misses-'', ''store-misses-'', ''evict-'', ''backinval-''])
     counted_states)"

definition registered_metrics :: "component \<Rightarrow> bool \<Rightarrow> string list \<Rightarrow> string list \<Rightarrow> string list" where
  "registered_metrics comp_id is_llc where_strings reason_strings =
     [''approx-loads'', ''approx-stores'', ''approx-load-misses'', ''approx-store-misses'', ''approx-ratio'',
      ''approx-loads-2'', ''approx-stores-2'', ''approx-load-misses-2'', ''approx-store-misses-2'',
      ''approx-ratio-2'', ''loads'', ''stores'', ''load-misses'', ''store-misses'',
      ''load-overlapping-misses'', ''store-overlapping-misses'', ''loads-prefetch'', ''stores-prefetch'',
      ''hits-prefetch'', ''evict-prefetch'', ''invalidate-prefetch'', ''hits-warmup'', ''evict-warmup'',
      ''invalidate-warmup'', ''total-latency'', ''snoop-latency'', ''qbs-query-latency'', ''mshr-latency'',
      ''prefetches''] @ state_metrics @
     (if comp_id = L1_ICACHE \<or> comp_id = L1_DCACHE then
        concat (map (\<lambda>w. [''loads-where-'' @ w, ''stores-where-'' @ w])
          (filter (\<lambda>w. take 1 w \<noteq> ''?'') where_strings)) else []) @
     [''coherency-downgrades'', ''coherency-upgrades'', ''coherency-writebacks'', ''coherency-invalidates''] @
     (if is_llc then map (\<lambda>r. ''uncore-time-'' @ r) reason_strings @ [''uncore-totaltime'', ''uncore-requests'']
      else [])"

definition setPrevCacheCntlrs :: "nat \<Rightarrow> nat list \<Rightarrow> (('b, 'r, 'p, 'g, 'm) hier, unit) op" where
  "setPrevCacheCntlrs i prevs =
     forS (\<lambda>j. bindS (cntlr_of j) (\<lambda>c. whenS (isMasterCache c)
       (upd_master i (\<lambda>m. m\<lparr>m_prev_cache_cntlrs := m_prev_cache_cntlrs m @ [j]\<rparr>)))) prevs"

definition setNextCacheCntlr :: "nat \<Rightarrow> nat option \<Rightarrow> (('b, 'r, 'p, 'g, 'm) hier, unit) op" where
  "setNextCacheCntlr i j = upd_cntlr i (\<lambda>c. c\<lparr>m_next := j\<rparr>)"

definition setDRAMDirectAccess :: "nat \<Rightarrow> (('b, 'r, 'p, 'g, 'm) hier, unit) op" where
  "setDRAMDirectAccess i =
     upd_master i (\<lambda>m. m\<lparr>m_dram_cntlr := True, m_dram_outstanding_writebacks := True\<rparr>)"

section \<open>Outstanding misses\<close>

definition mshr_min_step :: "u64 \<times> mshr_entry \<Rightarrow> u64 \<times> time \<Rightarrow> u64 \<times> time" where
  "mshr_min_step e acc = (if t_complete (snd e) < snd acc then (fst e, t_complete (snd e)) else acc)"

definition mshr_min :: "time \<Rightarrow> (u64 \<times> mshr_entry) list \<Rightarrow> u64 \<times> time" where
  "mshr_min max_time l = fold mshr_min_step l (0, max_time)"

primrec mshr_trim :: "nat \<Rightarrow> time \<Rightarrow> (u64 \<times> mshr_entry) list \<Rightarrow> (u64 \<times> mshr_entry) list option" where
  "mshr_trim 0 max_time l = None"
| "mshr_trim (Suc fuel) max_time l =
     (if length l > 8 then mshr_trim fuel max_time (AList.delete (fst (mshr_min max_time l)) l) else Some l)"

definition cleanupMshr :: "('b, 'p, 'g, 'm) cc_env \<Rightarrow> nat \<Rightarrow> (('b, 'r, 'p, 'g, 'm) hier, unit) op" where
  "cleanupMshr env i = bindS (master_of i) (\<lambda>m.
     case mshr_trim (Suc (length (mshr m))) (e_max_time env) (mshr m) of
       None \<Rightarrow> failS OutOfFuel
     | Some l \<Rightarrow> upd_master i (\<lambda>m. m\<lparr>mshr := l\<rparr>))"

definition put_mshr :: "nat \<Rightarrow> u64 \<Rightarrow> time \<Rightarrow> time \<Rightarrow> (('b, 'r, 'p, 'g, 'm) hier, unit) op" where
  "put_mshr i address ti tc = upd_master i (\<lambda>m. m\<lparr>mshr := AList.update address (make_mshr ti tc) (mshr m)\<rparr>)"

text \<open>A miss on the address issued before \<open>t\<close> that completes after \<open>t\<close>.\<close>

definition in_flight :: "u64 \<Rightarrow> time \<Rightarrow> ('b, 'r, 'p, 'g) master \<Rightarrow> bool" where
  "in_flight address t m = (case map_of (mshr m) address of None \<Rightarrow> False
     | Some e \<Rightarrow> t_issue e < t \<and> t_complete e > t)"

section \<open>Access counters\<close>

definition accessATDs ::
  "nat \<Rightarrow> mem_op \<Rightarrow> bool \<Rightarrow> u64 \<Rightarrow> int \<Rightarrow> (('b, 'r, 'p, 'g, 'm) hier, unit) op" where
  "accessATDs i op hit address core_num =
     bindS (getS (\<lambda>s. m_master (cntlrs s i))) (\<lambda>k.
     bindS (master_of i) (\<lambda>m.
     whenS (m_atds m \<noteq> 0)
       (seqS (assertS OutOfBounds (0 \<le> core_num \<and> nat core_num < m_atds m))
         (ext (AtdAccess k (nat core_num) op hit address)))))"

definition count_store :: "int \<Rightarrow> bool \<Rightarrow> bool \<Rightarrow> cstate \<Rightarrow> prefetch_type \<Rightarrow> cstats \<Rightarrow> cstats" where
  "count_store setnum hit overlapping st pf s =
     (let s = (if pf \<noteq> PF_NONE then s\<lparr>stores_prefetch := stores_prefetch s + 1\<rparr> else s)
      in if pf = PF_OWN then s else
       (let s = s\<lparr>stores := stores s + 1\<rparr>;
            s = (if setnum = 0 then s\<lparr>approx_stores := approx_stores s + 1\<rparr> else s);
            s = (if setnum = 1 then s\<lparr>approx_stores_2 := approx_stores_2 s + 1\<rparr> else s);
            s = s\<lparr>stores_state := (stores_state s)(st := stores_state s st + 1)\<rparr>
        in if \<not> hit \<or> overlapping then
            (let s = s\<lparr>store_misses := store_misses s + 1\<rparr>;
                 s = (if setnum = 0 then s\<lparr>approx_store_misses := approx_store_misses s + 1\<rparr> else s);
                 s = (if setnum = 1 then s\<lparr>approx_store_misses_2 := approx_store_misses_2 s + 1\<rparr> else s);
                 s = s\<lparr>store_misses_state := (store_misses_state s)(st := store_misses_state s st + 1)\<rparr>
             in if overlapping then s\<lparr>store_overlapping_misses := store_overlapping_misses s + 1\<rparr> else s)
           else s))"

definition count_load :: "int \<Rightarrow> bool \<Rightarrow> bool \<Rightarrow> cstate \<Rightarrow> prefetch_type \<Rightarrow> cstats \<Rightarrow> cstats" where
  "count_load setnum hit overlapping st pf s =
     (let s = (if pf \<noteq> PF_NONE then s\<lparr>loads_prefetch := loads_prefetch s + 1\<rparr> else s)
      in if pf = PF_OWN then s else
       (let s = s\<lparr>loads := loads s + 1\<rparr>;
            s = (if setnum = 0 then s\<lparr>approx_loads := approx_loads s + 1\<rparr> else s);
            s = (if setnum = 1 then s\<lparr>approx_loads_2 := approx_loads_2 s + 1\<rparr> else s);
            s = s\<lparr>loads_state := (loads_state s)(st := loads_state s st + 1)\<rparr>
        in if \<not> hit then
            (let s = s\<lparr>load_misses := load_misses s + 1\<rparr>;
                 s = (if setnum = 0 then s\<lparr>approx_load_misses := approx_load_misses s + 1\<rparr> else s);
                 s = (if setnum = 1 then s\<lparr>approx_load_misses_2 := approx_load_misses_2 s + 1\<rparr> else s);
                 s = s\<lparr>load_misses_state := (load_misses_state s)(st := load_misses_state s st + 1)\<rparr>
             in if overlapping then s\<lparr>load_overlapping_misses := load_overlapping_misses s + 1\<rparr> else s)
           else s))"

definition updateCounters ::
  "('b, 'p, 'g, 'm) cc_env \<Rightarrow> nat \<Rightarrow> mem_op \<Rightarrow> u64 \<Rightarrow> bool \<Rightarrow> cstate \<Rightarrow> prefetch_type \<Rightarrow>
   (('b, 'r, 'p, 'g, 'm) hier, unit) op" where
  "updateCounters env i op address cache_hit st pf =
     bindS (getElapsedTime i USER_THREAD) (\<lambda>t.
     bindS (getS (\<lambda>s. in_flight address t (my_master i s))) (\<lambda>overlapping.
     bindS (cntlr_of i) (\<lambda>c.
     seqS (accessATDs i op (st \<noteq> INVALID) address (m_core_id c - m_core_id_master c))
    (bindS (getS (\<lambda>s. approx_block_setnum address (of_nat (m_cache_block_size c)) (h_rg s))) (\<lambda>setnum.
     seqS (upd_stats i (if op = OP_WRITE then count_store setnum cache_hit overlapping st pf
                        else count_load setnum cache_hit overlapping st pf))
       (cleanupMshr env i))))))"

definition count_cache_access :: "nat \<Rightarrow> bool \<Rightarrow> (('b, 'r, 'p, 'g, 'm) hier, unit) op" where
  "count_cache_access i hit = upd_master i (\<lambda>m. m\<lparr>m_cache := cache_updateCounters hit (m_cache m)\<rparr>)"

text \<open>\<open>updateHits\<close> counts \<open>hits\<close> hits one at a time.\<close>

primrec update_hits_loop ::
  "('b, 'p, 'g, 'm) cc_env \<Rightarrow> nat \<Rightarrow> mem_op \<Rightarrow> nat \<Rightarrow> (('b, 'r, 'p, 'g, 'm) hier, unit) op" where
  "update_hits_loop env i op 0 = retS ()"
| "update_hits_loop env i op (Suc n) =
     seqS (count_cache_access i True)
    (seqS (updateCounters env i op 0 True (if op = OP_READ then SHARED else MODIFIED) PF_NONE)
       (update_hits_loop env i op n))"

definition updateHits ::
  "('b, 'p, 'g, 'm) cc_env \<Rightarrow> nat \<Rightarrow> mem_op \<Rightarrow> u64 \<Rightarrow> (('b, 'r, 'p, 'g, 'm) hier, unit) op" where
  "updateHits env i op hits = update_hits_loop env i op (unat hits)"

section \<open>The prefetch list\<close>

definition PREFETCH_MAX_QUEUE_LENGTH :: nat where "PREFETCH_MAX_QUEUE_LENGTH = 32"

definition PREFETCH_INTERVAL :: time where "PREFETCH_INTERVAL = 1000000"   \<comment> \<open>1 ns in fs\<close>

text \<open>The loop stops when the list is already longer than the maximum.\<close>

primrec fill_prefetch_list ::
  "('b, 'p, 'g, 'm) cc_env \<Rightarrow> nat \<Rightarrow> u64 list \<Rightarrow> (('b, 'r, 'p, 'g, 'm) hier, unit) op" where
  "fill_prefetch_list env i [] = retS ()"
| "fill_prefetch_list env i (a # as) =
     bindS (master_of i) (\<lambda>m.
     if length (m_prefetch_list m) > PREFETCH_MAX_QUEUE_LENGTH then retS ()
     else bindS (operationPermissibleinCache env i a OP_READ) (\<lambda>(po, ok).
       seqS (whenS (\<not> ok) (upd_master i (\<lambda>m. m\<lparr>m_prefetch_list := m_prefetch_list m @ [a]\<rparr>)))
         (fill_prefetch_list env i as)))"

definition trainPrefetcher ::
  "('b, 'p, 'g, 'm) cc_env \<Rightarrow> nat \<Rightarrow> u64 \<Rightarrow> bool \<Rightarrow> bool \<Rightarrow> time \<Rightarrow> (('b, 'r, 'p, 'g, 'm) hier, unit) op" where
  "trainPrefetcher env i address cache_hit prefetch_hit ti =
     bindS (cntlr_of i) (\<lambda>c.
     bindS (getS (\<lambda>s. e_prefetch env (trace s) (m_master c) address (m_core_id c))) (\<lambda>prefetchList.
     seqS (ext (PrefetcherNext (m_master c) address (m_core_id c)))
       (whenS (\<not> cache_hit \<or> (m_prefetch_on_prefetch_hit c \<and> prefetch_hit))
         (seqS (upd_master i (\<lambda>m. m\<lparr>m_prefetch_list := [], m_prefetch_next := ti + PREFETCH_INTERVAL\<rparr>))
           (fill_prefetch_list env i prefetchList)))))"

text \<open>\<open>Prefetch\<close> takes addresses off the list until one is not in the cache.\<close>

primrec next_prefetch ::
  "('b, 'p, 'g, 'm) cc_env \<Rightarrow> nat \<Rightarrow> u64 list \<Rightarrow> (('b, 'r, 'p, 'g, 'm) hier, u64) op" where
  "next_prefetch env i [] = retS (e_invalid_address env)"
| "next_prefetch env i (a # as) =
     seqS (upd_master i (\<lambda>m. m\<lparr>m_prefetch_list := as\<rparr>))
    (bindS (operationPermissibleinCache env i a OP_READ) (\<lambda>(po, ok).
     if \<not> ok then retS a else next_prefetch env i as))"

section \<open>Trimming the outstanding misses\<close>

definition mshr_ok :: "time \<Rightarrow> (u64 \<times> mshr_entry) list \<Rightarrow> bool" where
  "mshr_ok max_time l \<longleftrightarrow> distinct (map fst l) \<and> (\<forall>e\<in>set l. t_complete (snd e) < max_time)"

lemma mshr_min_fold:
  "snd (fold mshr_min_step l acc) \<le> snd acc \<and>
   (\<forall>e\<in>set l. snd (fold mshr_min_step l acc) \<le> t_complete (snd e)) \<and>
   (fold mshr_min_step l acc = acc \<or>
     (\<exists>e\<in>set l. fold mshr_min_step l acc = (fst e, t_complete (snd e))))"
proof (induction l arbitrary: acc)
  case (Cons e l)
  let ?acc = "mshr_min_step e acc"
  have "snd ?acc \<le> snd acc" "snd ?acc \<le> t_complete (snd e)"
    by (simp_all add: mshr_min_step_def)
  moreover have "?acc = acc \<or> ?acc = (fst e, t_complete (snd e))" by (simp add: mshr_min_step_def)
  ultimately show ?case using Cons.IH[of ?acc] by auto
qed simp

lemma mshr_min_entry:
  assumes "l \<noteq> []" "\<forall>e\<in>set l. t_complete (snd e) < max_time"
  obtains e where "e \<in> set l" "fst (mshr_min max_time l) = fst e"
    "\<And>k. k \<in> set l \<Longrightarrow> t_complete (snd e) \<le> t_complete (snd k)"
proof -
  note f = mshr_min_fold[of l "(0, max_time)", folded mshr_min_def]
  obtain k where "k \<in> set l" using assms(1) by (cases l) auto
  then have "snd (mshr_min max_time l) < max_time" using f assms(2) by fastforce
  then have "mshr_min max_time l \<noteq> (0, max_time)" by auto
  then obtain e where "e \<in> set l" "mshr_min max_time l = (fst e, t_complete (snd e))"
    using f by blast
  with f show ?thesis by (intro that[of e]) simp_all
qed

lemma delete_entry:
  assumes "distinct (map fst l)" "e \<in> set l"
  shows "set (AList.delete (fst e) l) = set l - {e}" "length (AList.delete (fst e) l) = length l - 1"
    "distinct (map fst (AList.delete (fst e) l))"
proof -
  show s: "set (AList.delete (fst e) l) = set l - {e}"
    using assms by (auto simp: AList.delete_eq) (metis eq_key_imp_eq_value prod.collapse)
  show d: "distinct (map fst (AList.delete (fst e) l))"
    using assms(1) by (rule distinct_delete)
  have "length (AList.delete (fst e) l) = card (set (AList.delete (fst e) l))"
    using d by (simp add: distinct_map distinct_card)
  also have "\<dots> = length l - 1"
    using assms by (simp add: s distinct_map distinct_card)
  finally show "length (AList.delete (fst e) l) = length l - 1" .
qed

lemma mshr_trim_latest:
  assumes "mshr_ok max_time l" "length l < fuel"
  shows "\<exists>r. mshr_trim fuel max_time l = Some r \<and> mshr_ok max_time r \<and> length r = min 8 (length l) \<and>
    set r \<subseteq> set l \<and> (\<forall>e\<in>set l - set r. \<forall>k\<in>set r. t_complete (snd e) \<le> t_complete (snd k))"
  using assms
proof (induction fuel arbitrary: l)
  case (Suc fuel)
  show ?case
  proof (cases "length l > 8")
    case False
    then show ?thesis using Suc.prems by auto
  next
    case True
    then have ne: "l \<noteq> []" by auto
    have lt: "\<forall>e\<in>set l. t_complete (snd e) < max_time" using Suc.prems(1) by (simp add: mshr_ok_def)
    obtain e where e: "e \<in> set l" "fst (mshr_min max_time l) = fst e"
      "\<And>k. k \<in> set l \<Longrightarrow> t_complete (snd e) \<le> t_complete (snd k)"
      using mshr_min_entry[OF ne lt] by blast
    let ?l = "AList.delete (fst e) l"
    note d = delete_entry[OF _ e(1)]
    have ok: "mshr_ok max_time ?l" "length ?l < fuel"
      using d Suc.prems True by (auto simp: mshr_ok_def)
    then obtain r where r: "mshr_trim fuel max_time ?l = Some r" "mshr_ok max_time r"
      "length r = min 8 (length ?l)" "set r \<subseteq> set ?l"
      "\<forall>e\<in>set ?l - set r. \<forall>k\<in>set r. t_complete (snd e) \<le> t_complete (snd k)"
      using Suc.IH[OF ok] by blast
    have "length r = min 8 (length l)" "set r \<subseteq> set l"
      using r(3,4) d Suc.prems(1) True by (auto simp: mshr_ok_def)
    moreover have "t_complete (snd f) \<le> t_complete (snd k)" if "f \<in> set l - set r" "k \<in> set r" for f k
      using r(4,5) d(1) Suc.prems(1) e(3)[of k] that by (cases "f = e") (auto simp: mshr_ok_def)
    ultimately show ?thesis using r(1,2) e(2) True by auto
  qed
qed simp

text \<open>When no entry completes before \<open>MaxTime\<close>, the loop erases the entry of address 0, which there need
  not be: it turns for ever.\<close>

lemma mshr_trim_stuck:
  assumes "length l > 8" "\<forall>e\<in>set l. max_time \<le> t_complete (snd e)" "0 \<notin> fst ` set l"
  shows "mshr_trim fuel max_time l = None"
proof (induction fuel)
  case (Suc fuel)
  have "fold mshr_min_step l (0, max_time) = (0, max_time)"
    using assms(2) by (induction l) (auto simp: mshr_min_step_def)
  then have "AList.delete (fst (mshr_min max_time l)) l = l"
    using assms(3) by (simp add: mshr_min_def delete_idem)
  then show ?case using Suc assms(1) by simp
qed simp

end
