(* ===== verification/Cache_Cntlr_Block.thy ===== *)
theory Cache_Cntlr_Block
  imports Cache_Cntlr_Stats
begin

text \<open>
  The block operations that involve other levels of the hierarchy: \<open>writeCacheBlock\<close> passes dirty data
  to the next level, \<open>updateCacheBlock\<close> changes the state of a block here and in all previous levels,
  \<open>insertCacheBlock\<close> adds a block and disposes of its victim.

  The two recursions follow the pointers \<open>m_next\<close> and \<open>m_prev_cache_cntlrs\<close>, so they take a depth as
  fuel; a call that would exceed it ends in \<open>OutOfFuel\<close>. The environment gives the depth of the
  hierarchy, \<open>e_depth\<close>.
\<close>

section \<open>Writing to the next level\<close>

primrec writeCacheBlock ::
  "nat \<Rightarrow> ('b, 'p, 'g, 'm) cc_env \<Rightarrow> nat \<Rightarrow> u64 \<Rightarrow> nat \<Rightarrow> bufptr \<Rightarrow> nat \<Rightarrow> thread \<Rightarrow>
   (('b, 'r, 'p, 'g, 'm) hier, unit) op" where
  "writeCacheBlock 0 = (\<lambda>env i address offset data_buf n th. failS OutOfFuel)"
| "writeCacheBlock (Suc fuel) = (\<lambda>env i address offset data_buf n th.
     bindS (cntlr_of i) (\<lambda>c.
     bindS (master_of i) (\<lambda>m.
     seqS (if m_evicting_buf m \<noteq> None \<and> address = m_evicting_address m then
             seqS (assertS (CAssert ''offset==0'') (offset = 0))
            (seqS (assertS (CAssert ''data_length==getCacheBlockSize()'') (n = m_cache_block_size c))
              (whenS (data_buf \<noteq> None)
                (upd_master i (\<lambda>m. m\<lparr>m_evicting_buf := Some (map_option (take n) (buf_bytes data_buf))\<rparr>))))
           else
             bindS (access_line env i (address + of_nat offset) STORE (buf_bytes data_buf) False n False) (\<lambda>(po, out).
             case po of
               None \<Rightarrow> failS (LogAssert ''writethrough expected a hit at next-level cache but got miss'')
             | Some p \<Rightarrow> bindS (block_of i p) (\<lambda>b.
                 assertS (LogAssert ''Got writeback for non-MODIFIED line'') (getCState (e_api env) b = MODIFIED))))
       (whenS (m_cache_writethrough c)
         (seqS (acquireStackLock env i 1 False)
         (seqS (case m_next c of
                  None \<Rightarrow> failS NullPointer
                | Some j \<Rightarrow> writeCacheBlock fuel env j address offset data_buf n th)
            (releaseStackLock env i 1 False)))))))"

section \<open>Changing the state of a block\<close>

definition count_transition ::
  "reason \<Rightarrow> cstate \<Rightarrow> cstate \<Rightarrow> bool \<Rightarrow> bool \<Rightarrow> cstats \<Rightarrow> cstats" where
  "count_transition rs new_cstate cur prefetched warmup s =
     (let s = (if rs = COHERENCY then
            (let s = (if new_cstate = SHARED then s\<lparr>coherency_downgrades := coherency_downgrades s + 1\<rparr>
                      else if cur = MODIFIED then s\<lparr>coherency_writebacks := coherency_writebacks s + 1\<rparr>
                      else s\<lparr>coherency_invalidates := coherency_invalidates s + 1\<rparr>);
                 s = (if prefetched \<and> new_cstate = INVALID
                      then s\<lparr>invalidate_prefetch := invalidate_prefetch s + 1\<rparr> else s)
             in if warmup \<and> new_cstate = INVALID then s\<lparr>invalidate_warmup := invalidate_warmup s + 1\<rparr> else s)
          else s)
      in if rs = UPGRADE then s\<lparr>coherency_upgrades := coherency_upgrades s + 1\<rparr>
         else if rs = BACK_INVAL then s\<lparr>st_backinval := (st_backinval s)(cur := st_backinval s cur + 1)\<rparr>
         else s)"

text \<open>What the local variables of \<open>updateCacheBlock\<close> hold, with the bytes written to \<open>out_buf\<close>.\<close>

record ucb =
  u_sibling_hit :: bool
  u_buf_written :: bool
  u_is_writeback :: bool
  u_data :: "bytes option"

definition wrote :: "bytes option \<Rightarrow> ucb \<Rightarrow> ucb" where
  "wrote d u = u\<lparr>u_sibling_hit := True, u_buf_written := True, u_is_writeback := True, u_data := d\<rparr>"

text \<open>Copying the block into \<open>out_buf\<close>, when there is one.\<close>

definition copy_to_out ::
  "('b, 'p, 'g, 'm) cc_env \<Rightarrow> nat \<Rightarrow> u64 \<Rightarrow> bool \<Rightarrow> ucb \<Rightarrow> (('b, 'r, 'p, 'g, 'm) hier, ucb) op" where
  "copy_to_out env i address out u =
     (if out then bindS (retrieveCacheBlock env i address False) (\<lambda>d. retS (wrote d u)) else retS u)"

definition write_back_modified ::
  "('b, 'p, 'g, 'm) cc_env \<Rightarrow> nat \<Rightarrow> u64 \<Rightarrow> nat \<times> nat \<Rightarrow> bool \<Rightarrow> thread \<Rightarrow> ucb \<Rightarrow>
   (('b, 'r, 'p, 'g, 'm) hier, ucb) op" where
  "write_back_modified env i address p out th u =
     bindS (cntlr_of i) (\<lambda>c.
     bindS (if m_cache_writethrough c then retS u
            else case m_next c of
              Some j \<Rightarrow>
                bindS (retrieveCacheBlock env i address False) (\<lambda>d.
                seqS (writeCacheBlock (e_depth env) env j address 0 (Some d) (m_cache_block_size c) th)
                  (retS (u\<lparr>u_sibling_hit := True, u_is_writeback := True\<rparr>)))
            | None \<Rightarrow>
                if out then copy_to_out env i address out u
                else failS (LogAssert ''MODIFIED data is about to get lost!'')) (\<lambda>u.
     seqS (upd_block i p (setCState (e_api env) SHARED)) (retS u)))"

definition enter_state ::
  "('b, 'p, 'g, 'm) cc_env \<Rightarrow> nat \<Rightarrow> u64 \<Rightarrow> nat \<times> nat \<Rightarrow> cstate \<Rightarrow> bool \<Rightarrow> ucb \<Rightarrow>
   (('b, 'r, 'p, 'g, 'm) hier, ucb) op" where
  "enter_state env i address p new_cstate out u =
     (if new_cstate = INVALID then
        bindS (copy_to_out env i address out u) (\<lambda>u.
        bindS (cntlr_of i) (\<lambda>c.
        seqS (whenS (m_coherent c) (invalidateCacheBlock env i address)) (retS u)))
      else if new_cstate = SHARED then
        bindS (copy_to_out env i address out u) (\<lambda>u.
        seqS (upd_block i p (setCState (e_api env) new_cstate)) (retS u))
      else if new_cstate = MODIFIED then
        seqS (upd_block i p (setCState (e_api env) new_cstate)) (retS u)
      else failS (LogAssert ''Cannot change block status''))"

definition change_block ::
  "('b, 'p, 'g, 'm) cc_env \<Rightarrow> nat \<Rightarrow> u64 \<Rightarrow> nat \<times> nat \<Rightarrow> cstate \<Rightarrow> reason \<Rightarrow> bool \<Rightarrow> thread \<Rightarrow> ucb \<Rightarrow>
   (('b, 'r, 'p, 'g, 'm) hier, ucb) op" where
  "change_block env i address p new_cstate rs out th u =
     bindS (block_of i p) (\<lambda>b.
     if new_cstate = getCState (e_api env) b \<and> out then copy_to_out env i address out u
     else
       seqS (upd_stats i (count_transition rs new_cstate (getCState (e_api env) b)
              (hasOption (e_ext env) PREFETCH b) (hasOption (e_ext env) WARMUP b)))
      (bindS (if getCState (e_api env) b = MODIFIED then write_back_modified env i address p out th u
              else retS u) (\<lambda>u.
       enter_state env i address p new_cstate out u)))"

text \<open>The checks at the end, and the result: the latency, whether a sibling had the block, and what was
  written to \<open>out_buf\<close>.\<close>

definition finish_update ::
  "('b, 'p, 'g, 'm) cc_env \<Rightarrow> nat \<Rightarrow> u64 \<Rightarrow> cstate \<Rightarrow> bool \<Rightarrow> cntlr \<Rightarrow> (nat \<times> nat) option \<Rightarrow> ucb \<Rightarrow>
   (('b, 'r, 'p, 'g, 'm) hier, time \<times> bool \<times> bytes option) op" where
  "finish_update env i address new_cstate out c po u =
     bindS (getCacheState env i address) (\<lambda>st.
     seqS (assertS (LogAssert ''state didnt change as we wanted'')
             (st = INVALID \<or> st = new_cstate \<or> \<not> m_coherent c))
    (bindS (getCacheState_of env i po) (\<lambda>cur.
     seqS (assertS (LogAssert ''state didnt change as we wanted'')
             (cur = INVALID \<or> cur = new_cstate \<or> \<not> m_coherent c))
    (seqS (assertS (LogAssert ''out_buf passed in but never written to'') (out \<longrightarrow> u_buf_written u))
      (retS (if u_is_writeback u then m_writeback_time c else 0, u_sibling_hit u, u_data u))))))"

text \<open>This controller's own copy, after the previous levels.\<close>

definition update_own ::
  "('b, 'p, 'g, 'm) cc_env \<Rightarrow> nat \<Rightarrow> u64 \<Rightarrow> cstate \<Rightarrow> reason \<Rightarrow> bool \<Rightarrow> thread \<Rightarrow> cntlr \<Rightarrow> bool \<Rightarrow>
   (('b, 'r, 'p, 'g, 'm) hier, time \<times> bool \<times> bytes option) op" where
  "update_own env i address new_cstate rs out th c sibling_hit =
     bindS (getCacheBlockInfo env i address) (\<lambda>po.
     let u = \<lparr>u_sibling_hit = sibling_hit, u_buf_written = False, u_is_writeback = False, u_data = None\<rparr>
     in bindS (case po of None \<Rightarrow> retS u
               | Some p \<Rightarrow> change_block env i address p new_cstate rs out th u)
          (finish_update env i address new_cstate out c po))"

primrec updateCacheBlock ::
  "nat \<Rightarrow> ('b, 'p, 'g, 'm) cc_env \<Rightarrow> nat \<Rightarrow> u64 \<Rightarrow> cstate \<Rightarrow> reason \<Rightarrow> bool \<Rightarrow> thread \<Rightarrow>
   (('b, 'r, 'p, 'g, 'm) hier, time \<times> bool \<times> bytes option) op" where
  "updateCacheBlock 0 = (\<lambda>env i address new_cstate rs out th. failS OutOfFuel)"
| "updateCacheBlock (Suc fuel) = (\<lambda>env i address new_cstate rs out th.
     seqS (assertS (LogAssert ''Invalid new cstate'') (new_cstate \<in> set counted_states))
    (bindS (cntlr_of i) (\<lambda>c.
     bindS (master_of i) (\<lambda>m.
     bindS (foldS (\<lambda>j hit.
         bindS (updateCacheBlock fuel env j address new_cstate (if rs = EVICT then BACK_INVAL else rs) False th)
           (\<lambda>(lat, h, d). retS (hit \<or> h))) (m_prev_cache_cntlrs m) False)
       (update_own env i address new_cstate rs out th c)))))"

section \<open>Inserting a block\<close>

definition count_eviction :: "cstate \<Rightarrow> bool \<Rightarrow> bool \<Rightarrow> cstats \<Rightarrow> cstats" where
  "count_eviction old prefetched warmup s =
     (let s = s\<lparr>st_evict := (st_evict s)(old := st_evict s old + 1)\<rparr>;
          s = (if prefetched then s\<lparr>evict_prefetch := evict_prefetch s + 1\<rparr> else s)
      in if warmup then s\<lparr>evict_warmup := evict_warmup s + 1\<rparr> else s)"

definition add_snoop_latency :: "nat \<Rightarrow> time \<Rightarrow> (('b, 'r, 'p, 'g, 'm) hier, unit) op" where
  "add_snoop_latency i latency = upd_stats i (\<lambda>st. st\<lparr>snoop_latency := snoop_latency st + latency\<rparr>)"

text \<open>The largest latency and whether any sibling had the block, over a list of previous-level caches.\<close>

definition snoop ::
  "('b, 'p, 'g, 'm) cc_env \<Rightarrow> nat list \<Rightarrow> u64 \<Rightarrow> cstate \<Rightarrow> reason \<Rightarrow> thread \<Rightarrow>
   (('b, 'r, 'p, 'g, 'm) hier, time \<times> bool) op" where
  "snoop env js address new_cstate rs th =
     foldS (\<lambda>j (lat, hit). bindS (updateCacheBlock (e_depth env) env j address new_cstate rs False th)
       (\<lambda>(l, h, d). retS (max lat l, hit \<or> h))) js (0, False)"

text \<open>The previous levels give up the victim; what they write back lands in the eviction buffer, whose
  final content is returned.\<close>

definition evict_from_prev ::
  "('b, 'p, 'g, 'm) cc_env \<Rightarrow> nat \<Rightarrow> u64 \<Rightarrow> bytes option \<Rightarrow> thread \<Rightarrow>
   (('b, 'r, 'p, 'g, 'm) hier, bytes option) op" where
  "evict_from_prev env i evict_address evict_buf th =
     bindS (master_of i) (\<lambda>m.
     if m_prev_cache_cntlrs m = [] then retS evict_buf
     else
       seqS (upd_master i (\<lambda>m. m\<lparr>m_evicting_address := evict_address, m_evicting_buf := Some evict_buf\<rparr>))
      (bindS (snoop env (m_prev_cache_cntlrs m) evict_address INVALID BACK_INVAL th) (\<lambda>(latency, hit).
       seqS (incrElapsedTime i latency th)
      (seqS (add_snoop_latency i latency)
      (bindS (master_of i) (\<lambda>m.
       seqS (upd_master i (\<lambda>m. m\<lparr>m_evicting_address := 0, m_evicting_buf := None\<rparr>))
         (retS (buf_bytes (m_evicting_buf m)))))))))"

definition write_victim_to_dram ::
  "('b, 'p, 'g, 'm) cc_env \<Rightarrow> nat \<Rightarrow> u64 \<Rightarrow> bytes option \<Rightarrow> (('b, 'r, 'p, 'g, 'm) hier, unit) op" where
  "write_victim_to_dram env i evict_address evict_buf =
     bindS (getElapsedTime i USER_THREAD) (\<lambda>t_now.
     bindS (getS (\<lambda>s. m_master (cntlrs s i))) (\<lambda>k.
     bindS (master_of i) (\<lambda>m.
     seqS (whenS (m_dram_outstanding_writebacks m)
            (bindS (getS (\<lambda>s. e_writeback_start env (trace s) k t_now)) (\<lambda>ti.
             seqS (ext (WritebackStart k t_now)) (incrElapsedTime i (ti - t_now) USER_THREAD))))
    (bindS (accessDRAM env i OP_WRITE evict_address evict_buf) (\<lambda>(hit_where, latency, d).
       whenS (m_dram_outstanding_writebacks m) (ext (WritebackDone k t_now latency)))))))"

definition dispose_victim ::
  "('b, 'p, 'g, 'm) cc_env \<Rightarrow> nat \<Rightarrow> u64 \<Rightarrow> cstate \<Rightarrow> bytes option \<Rightarrow> thread \<Rightarrow>
   (('b, 'r, 'p, 'g, 'm) hier, unit) op" where
  "dispose_victim env i evict_address old_state evict_buf th =
     bindS (cntlr_of i) (\<lambda>c.
     bindS (master_of i) (\<lambda>m.
     if m_perfect c then retS ()
     else if \<not> m_coherent c then
       whenS (\<not> m_cache_writethrough c)
         (assertS (LogAssert ''Non-coherent cache is throwing away dirty data'') (old_state \<noteq> MODIFIED))
     else case m_next c of
       Some j \<Rightarrow>
         seqS (whenS (\<not> m_cache_writethrough c \<and> old_state = MODIFIED)
                (writeCacheBlock (e_depth env) env j evict_address 0 (Some evict_buf) (m_cache_block_size c) th))
           (notifyPrevLevelEvict j (m_core_id_master c) (m_mem_component c) evict_address)
     | None \<Rightarrow>
         if m_dram_cntlr m then
           whenS (old_state = MODIFIED) (write_victim_to_dram env i evict_address evict_buf)
         else if old_state = MODIFIED then
           sendMsg i FLUSH_REP LAST_LEVEL_CACHE TAG_DIR (m_core_id c) (e_home env evict_address) evict_address
             (Some evict_buf) (m_cache_block_size c) UNKNOWN (DummyPerf i) th
         else
           seqS (assertS (LogAssert ''evict_state'') (old_state = SHARED \<or> old_state = EXCLUSIVE))
             (sendMsg i INV_REP LAST_LEVEL_CACHE TAG_DIR (m_core_id c) (e_home env evict_address) evict_address
               None 0 UNKNOWN (DummyPerf i) th)))"

definition handle_eviction ::
  "('b, 'p, 'g, 'm) cc_env \<Rightarrow> nat \<Rightarrow> nat \<times> nat \<Rightarrow> u64 \<Rightarrow> 'b \<Rightarrow> bytes option \<Rightarrow> thread \<Rightarrow>
   (('b, 'r, 'p, 'g, 'm) hier, unit) op" where
  "handle_eviction env i p evict_address info evict_buf th =
     bindS (cntlr_of i) (\<lambda>c.
     bindS (block_of i p) (\<lambda>b.
     seqS (whenS (m_next c = None \<and> \<not> hasOption (e_ext env) WARMUP info \<and> e_callbacks env)
            (ext (NotifyEvict False (getOwner (e_ext env) info) (getOwner (e_ext env) b)
               (getUsage (e_ext env) info) (m_cache_block_size c div 2 ^ usage_offset (e_ext env)))))
    (seqS (upd_stats i (count_eviction (getCState (e_api env) info) (hasOption (e_ext env) PREFETCH info)
             (hasOption (e_ext env) WARMUP info)))
    (bindS (evict_from_prev env i evict_address evict_buf th) (\<lambda>evict_buf.
     seqS (dispose_victim env i evict_address (getCState (e_api env) info) evict_buf th)
    (bindS (getCacheState env i evict_address) (\<lambda>st.
       assertS (LogAssert ''Evicted address did not become invalid'') (st = INVALID))))))))"

definition insertCacheBlock ::
  "('b, 'p, 'g, 'm) cc_env \<Rightarrow> nat \<Rightarrow> u64 \<Rightarrow> cstate \<Rightarrow> bufptr \<Rightarrow> int \<Rightarrow> thread \<Rightarrow>
   (('b, 'r, 'p, 'g, 'm) hier, nat \<times> nat) op" where
  "insertCacheBlock env i address st data_buf requester th =
     bindS (getCacheState env i address) (\<lambda>st0.
     seqS (assertS (LogAssert ''we already have this line, cant add it again'') (st0 = INVALID))
    (bindS (master_of i) (\<lambda>m.
     bindS (getS h_rg) (\<lambda>rg.
     bindS (liftS (insertSingleLine (e_api env) (m_geo m) (m_policy m) (e_sample env) address
              (buf_bytes data_buf) (bi_create (e_api env)) True rg (m_cache m))) (\<lambda>(out, c).
     seqS (upd_master i (\<lambda>m. m\<lparr>m_cache := c\<rparr>))
    (bindS (setCacheState env i address st) (\<lambda>p.
     seqS (whenS (e_cache_only env) (upd_block i p (setOption (e_ext env) WARMUP)))
    (seqS (whenS (e_callbacks env) (upd_block i p (setOwner (e_ext env) (e_owner env requester address))))
    (bindS (cntlr_of i) (\<lambda>ct.
     seqS (case m_next ct of
             None \<Rightarrow> retS ()
           | Some j \<Rightarrow> whenS (\<not> m_perfect ct)
               (notifyPrevLevelInsert j (m_core_id_master ct) (m_mem_component ct) address))
    (seqS (whenS (in_eviction out)
            (handle_eviction env i p (in_evict_addr out) (in_evict_info out) (in_evict_buff out) th))
       (retS p))))))))))))"

section \<open>The access of the core\<close>

text \<open>Returns what was written into the caller's buffer.\<close>

definition accessCache ::
  "('b, 'p, 'g, 'm) cc_env \<Rightarrow> nat \<Rightarrow> mem_op \<Rightarrow> u64 \<Rightarrow> nat \<Rightarrow> bufptr \<Rightarrow> nat \<Rightarrow> bool \<Rightarrow>
   (('b, 'r, 'p, 'g, 'm) hier, bytes option) op" where
  "accessCache env i op ca_address offset data_buf n update_replacement =
     (let load = bindS (access_line env i (ca_address + of_nat offset) LOAD None (data_buf \<noteq> None) n
                   update_replacement) (\<lambda>(po, out). retS out)
      in case op of
        OP_READ \<Rightarrow> load
      | OP_READ_EX \<Rightarrow> load
      | OP_WRITE \<Rightarrow>
          bindS (access_line env i (ca_address + of_nat offset) STORE (buf_bytes data_buf) False n
            update_replacement) (\<lambda>(po, out).
          bindS (cntlr_of i) (\<lambda>c.
          seqS (whenS (m_cache_writethrough c)
                 (case m_next c of
                    None \<Rightarrow> failS (LogAssert ''Writethrough enabled on last-level cache !?'')
                  | Some j \<Rightarrow> writeCacheBlock (e_depth env) env j ca_address offset data_buf n USER_THREAD))
            (retS None)))
      | OP_OTHER k \<Rightarrow> failS (LogError ''Unsupported Mem Op Type''))"

end
