(* ===== verification/Cache_Cntlr_Requests.thy ===== *)
theory Cache_Cntlr_Requests
  imports Cache_Cntlr_Block
begin

unbundle bit_operations_syntax

text \<open>
  Requests: from the core to the first level (\<open>processMemOpFromCore\<close>), from a level to the next
  (\<open>processShmemReqFromPrevCache\<close>), from the last level to main memory or to the directory, and the
  prefetches. The requests between levels recurse along \<open>m_next\<close> with the depth as fuel.

  Where the user thread waits for the network thread, the state changes under it: \<open>net\<close> is what
  happens between \<open>waitForNetworkThread\<close> and \<open>wakeUpNetworkThread\<close>: an operation on the state that may depend
  on the controller and the address.
\<close>

section \<open>Requests to the directory\<close>

definition processExReqToDirectory ::
  "('b, 'p, 'g, 'm) cc_env \<Rightarrow> nat \<Rightarrow> u64 \<Rightarrow> (('b, 'r, 'p, 'g, 'm) hier, unit) op" where
  "processExReqToDirectory env i address =
     bindS (getCacheState env i address) (\<lambda>st.
     seqS (assertS (LogAssert ''ExReq for a Cacheblock in S, should be a UpgradeReq'') (st \<noteq> SHARED))
    (seqS (assertS (CAssert ''cstate == INVALID'') (st = INVALID))
    (bindS (cntlr_of i) (\<lambda>c.
       sendMsg i EX_REQ LAST_LEVEL_CACHE TAG_DIR (m_core_id_master c) (e_home env address) address
         None 0 UNKNOWN (OwnPerf i) USER_THREAD))))"

definition processUpgradeReqToDirectory ::
  "('b, 'p, 'g, 'm) cc_env \<Rightarrow> nat \<Rightarrow> u64 \<Rightarrow> perf_ref \<Rightarrow> thread \<Rightarrow> (('b, 'r, 'p, 'g, 'm) hier, unit) op" where
  "processUpgradeReqToDirectory env i address perf th =
     bindS (getCacheState env i address) (\<lambda>st.
     seqS (assertS (CAssert ''cstate == SHARED'') (st = SHARED))
    (bindS (setCacheState env i address SHARED_UPGRADING) (\<lambda>p.
     bindS (cntlr_of i) (\<lambda>c.
       sendMsg i UPGRADE_REQ LAST_LEVEL_CACHE TAG_DIR (m_core_id_master c) (e_home env address) address
         None 0 UNKNOWN perf th))))"

definition processShReqToDirectory ::
  "('b, 'p, 'g, 'm) cc_env \<Rightarrow> nat \<Rightarrow> u64 \<Rightarrow> (('b, 'r, 'p, 'g, 'm) hier, unit) op" where
  "processShReqToDirectory env i address =
     bindS (cntlr_of i) (\<lambda>c.
       sendMsg i SH_REQ LAST_LEVEL_CACHE TAG_DIR (m_core_id_master c) (e_home env address) address
         None 0 UNKNOWN (OwnPerf i) USER_THREAD)"

definition enqueue_waiter ::
  "u64 \<Rightarrow> waiter \<Rightarrow> ('b, 'r, 'p, 'g) master \<Rightarrow> ('b, 'r, 'p, 'g) master" where
  "enqueue_waiter address w m = m\<lparr>m_directory_waiters := (m_directory_waiters m)
     (address := m_directory_waiters m address @ [w])\<rparr>"

definition initiateDirectoryAccess ::
  "('b, 'p, 'g, 'm) cc_env \<Rightarrow> nat \<Rightarrow> mem_op \<Rightarrow> u64 \<Rightarrow> bool \<Rightarrow> time \<Rightarrow> (('b, 'r, 'p, 'g, 'm) hier, unit) op" where
  "initiateDirectoryAccess env i op address isPrefetch ti =
     bindS (case op of OP_READ \<Rightarrow> retS False | OP_READ_EX \<Rightarrow> retS True | OP_WRITE \<Rightarrow> retS True
            | OP_OTHER n \<Rightarrow> failS (LogError ''Unsupported Mem Op Type'')) (\<lambda>exclusive.
     seqS (upd_master i (enqueue_waiter address
             \<lparr>w_exclusive = exclusive, w_isPrefetch = isPrefetch, w_cntlr = i, w_t_issue = ti\<rparr>))
    (bindS (master_of i) (\<lambda>m.
     whenS (length (m_directory_waiters m address) = 1)
      (bindS (getElapsedTime i USER_THREAD) (\<lambda>t.
       bindS (cntlr_of i) (\<lambda>c.
       seqS (ext (PerfReset (OwnPerf i) t (m_core_id c)))
        (if exclusive then
           bindS (getCacheBlockInfo env i address) (\<lambda>po.
           bindS (getCacheState_of env i po) (\<lambda>st.
           if po \<noteq> None \<and> st = SHARED then processUpgradeReqToDirectory env i address (OwnPerf i) USER_THREAD
           else processExReqToDirectory env i address))
         else processShReqToDirectory env i address)))))))"

section \<open>Filling from the next level\<close>

definition next_read_delay ::
  "('b, 'p, 'g, 'm) cc_env \<Rightarrow> nat \<Rightarrow> time \<Rightarrow> (('b, 'r, 'p, 'g, 'm) hier, unit) op" where
  "next_read_delay env i t_now =
     bindS (cntlr_of i) (\<lambda>c.
     case m_next_level_read_bandwidth c of
       None \<Rightarrow> retS ()
     | Some f \<Rightarrow>
         (let delay = f (m_cache_block_size c * 8)
          in bindS (getS (\<lambda>s. e_next_read_done env (trace s) (m_master c) t_now delay)) (\<lambda>t_done.
             seqS (ext (NextReadDone (m_master c) t_now delay))
            (seqS (assertS (LogAssert ''Did not expect next-level cache to be this fast'') (t_done \<ge> t_now + delay))
               (incrElapsedTime i (t_done - t_now - delay) USER_THREAD)))))"

definition copyDataFromNextLevel ::
  "('b, 'p, 'g, 'm) cc_env \<Rightarrow> nat \<Rightarrow> mem_op \<Rightarrow> u64 \<Rightarrow> bool \<Rightarrow> time \<Rightarrow> (('b, 'r, 'p, 'g, 'm) hier, unit) op" where
  "copyDataFromNextLevel env i op address modeled t_now =
     bindS (cntlr_of i) (\<lambda>c.
     case m_next c of
       None \<Rightarrow> failS NullPointer
     | Some j \<Rightarrow>
         bindS (operationPermissibleinCache env j address op) (\<lambda>(pj, ok).
         seqS (assertS (LogAssert ''Tried to read from next-level cache, but data is already gone'') ok)
        (bindS (retrieveCacheBlock env j address False) (\<lambda>d.
         bindS (getCacheState env j address) (\<lambda>st.
         seqS (whenS modeled (next_read_delay env i t_now))
        (bindS (getCacheBlockInfo env i address) (\<lambda>po.
         if po \<noteq> None then
           bindS (updateCacheBlock (e_depth env) env i address st UPGRADE False SIM_THREAD) (\<lambda>r. retS ())
         else
           bindS (insertCacheBlock env i address st (Some d) (m_core_id c) USER_THREAD) (\<lambda>p. retS ()))))))))"

section \<open>A request from the previous level\<close>

text \<open>All previous-level caches but the requester are told to change state.\<close>

definition snoop_others ::
  "('b, 'p, 'g, 'm) cc_env \<Rightarrow> nat \<Rightarrow> nat \<Rightarrow> u64 \<Rightarrow> cstate \<Rightarrow> reason \<Rightarrow> (('b, 'r, 'p, 'g, 'm) hier, bool) op" where
  "snoop_others env i requester address new_cstate rs =
     bindS (master_of i) (\<lambda>m.
     bindS (snoop env (filter (\<lambda>j. j \<noteq> requester) (m_prev_cache_cntlrs m)) address new_cstate rs USER_THREAD) (\<lambda>(latency, hit).
     seqS (incrElapsedTime i latency USER_THREAD) (seqS (add_snoop_latency i latency) (retS hit))))"

definition invalidate_pointer ::
  "('b, 'p, 'g, 'm) cc_env \<Rightarrow> nat \<Rightarrow> (nat \<times> nat) option \<Rightarrow> (('b, 'r, 'p, 'g, 'm) hier, unit) op" where
  "invalidate_pointer env i po = with_block po (\<lambda>p. upd_block i p (bi_invalidate (e_api env)))"

text \<open>The state a perfect cache gives to a missing block, and its insertion.\<close>

definition insert_perfect ::
  "('b, 'p, 'g, 'm) cc_env \<Rightarrow> nat \<Rightarrow> mem_op \<Rightarrow> u64 \<Rightarrow> (nat \<times> nat) option \<Rightarrow>
   (('b, 'r, 'p, 'g, 'm) hier, (nat \<times> nat) option) op" where
  "insert_perfect env i op address po =
     (case po of
        Some p \<Rightarrow> seqS (upd_block i p (setCState (e_api env) MODIFIED)) (retS po)
      | None \<Rightarrow>
          bindS (cntlr_of i) (\<lambda>c.
          bindS (insertCacheBlock env i address (if op = OP_READ then SHARED else MODIFIED) None (m_core_id c)
                   USER_THREAD) (\<lambda>p. retS (Some p))))"

definition use_prefetched ::
  "('b, 'p, 'g, 'm) cc_env \<Rightarrow> nat \<Rightarrow> nat \<times> nat \<Rightarrow> (('b, 'r, 'p, 'g, 'm) hier, bool) op" where
  "use_prefetched env i p =
     bindS (block_of i p) (\<lambda>b.
     if hasOption (e_ext env) PREFETCH b then
       seqS (upd_stats i (\<lambda>st. st\<lparr>hits_prefetch := hits_prefetch st + 1\<rparr>))
      (seqS (upd_block i p (clearOption (e_ext env) PREFETCH)) (retS True))
     else retS False)"

definition use_warmup ::
  "('b, 'p, 'g, 'm) cc_env \<Rightarrow> nat \<Rightarrow> nat \<times> nat \<Rightarrow> (('b, 'r, 'p, 'g, 'm) hier, unit) op" where
  "use_warmup env i p =
     bindS (block_of i p) (\<lambda>b.
     whenS (hasOption (e_ext env) WARMUP b \<and> \<not> e_cache_only env)
       (seqS (upd_stats i (\<lambda>st. st\<lparr>hits_warmup := hits_warmup st + 1\<rparr>))
         (upd_block i p (clearOption (e_ext env) WARMUP))))"

text \<open>A hit on a line whose miss is still in flight waits for it; returns whether it did.\<close>

definition wait_in_flight :: "nat \<Rightarrow> u64 \<Rightarrow> (('b, 'r, 'p, 'g, 'm) hier, bool) op" where
  "wait_in_flight i address =
     bindS (getElapsedTime i USER_THREAD) (\<lambda>t_now.
     bindS (master_of i) (\<lambda>m.
     if in_flight address t_now m then
       (let latency = (case map_of (mshr m) address of Some e \<Rightarrow> t_complete e - t_now | None \<Rightarrow> 0)
        in seqS (upd_stats i (\<lambda>st. st\<lparr>mshr_latency := mshr_latency st + latency\<rparr>))
          (seqS (incrElapsedTime i latency USER_THREAD) (retS True)))
     else retS False))"

definition process_hit ::
  "('b, 'p, 'g, 'm) cc_env \<Rightarrow> nat \<Rightarrow> nat \<Rightarrow> mem_op \<Rightarrow> u64 \<Rightarrow> bool \<Rightarrow> prefetch_type \<Rightarrow> (nat \<times> nat) option \<Rightarrow>
   (('b, 'r, 'p, 'g, 'm) hier, where_t \<times> bool) op" where
  "process_hit env i requester op address modeled pf po =
     with_block po (\<lambda>p.
     bindS (if pf = PF_NONE then use_prefetched env i p else retS False) (\<lambda>prefetch_hit.
     seqS (use_warmup env i p)
    (seqS (whenS modeled (bindS (wait_in_flight i address) (\<lambda>waited.
             whenS (\<not> waited) (incrAccessTime env i ACCESS_CACHE_DATA_AND_TAGS USER_THREAD))))
    (bindS (getCacheState_of env i po) (\<lambda>st.
     bindS (if op \<noteq> OP_READ then snoop_others env i requester address INVALID COHERENCY
            else if st = MODIFIED then snoop_others env i requester address SHARED COHERENCY
            else if st = EXCLUSIVE then snoop_others env i requester address SHARED COHERENCY
            else retS False) (\<lambda>sibling_hit.
     bindS (cntlr_of i) (\<lambda>c.
     if m_last_remote_hit_where c \<noteq> UNKNOWN then
       seqS (upd_cntlr i (\<lambda>c. c\<lparr>m_last_remote_hit_where := UNKNOWN\<rparr>))
         (retS (m_last_remote_hit_where c, prefetch_hit))
     else retS (if sibling_hit then WHERE_SIBLING (m_mem_component c) else WHERE (m_mem_component c),
                prefetch_hit))))))))"

text \<open>The last level reads a missing block from its own DRAM controller.\<close>

definition fill_from_dram ::
  "('b, 'p, 'g, 'm) cc_env \<Rightarrow> nat \<Rightarrow> mem_op \<Rightarrow> u64 \<Rightarrow> prefetch_type \<Rightarrow> (('b, 'r, 'p, 'g, 'm) hier, where_t) op" where
  "fill_from_dram env i op address pf =
     bindS (getElapsedTime i USER_THREAD) (\<lambda>t.
     bindS (cntlr_of i) (\<lambda>c.
     seqS (ext (PerfReset (OwnPerf i) t (m_core_id c)))
    (bindS (accessDRAM env i OP_READ address None) (\<lambda>(hit_where, latency, d).
     seqS (incrElapsedTime i latency USER_THREAD)
    (bindS (insertCacheBlock env i address (if op = OP_READ then SHARED else MODIFIED) (Some d) (m_core_id c)
              USER_THREAD) (\<lambda>p.
     seqS (whenS (pf \<noteq> PF_NONE) (setBlockOption env i address PREFETCH))
    (bindS (getElapsedTime i USER_THREAD) (\<lambda>t.
     seqS (updateUncoreStatistics env i hit_where t) (retS hit_where)))))))))"

text \<open>\<open>next_req\<close> is the same request at the next level. Returns where the block was found and whether
  it is here now.\<close>

definition process_miss ::
  "('b, 'p, 'g, 'm) cc_env \<Rightarrow> nat \<Rightarrow> nat \<Rightarrow> mem_op \<Rightarrow> u64 \<Rightarrow> bool \<Rightarrow> prefetch_type \<Rightarrow> time \<Rightarrow>
   (nat \<times> nat) option \<Rightarrow> (nat \<Rightarrow> (('b, 'r, 'p, 'g, 'm) hier, where_t) op) \<Rightarrow>
   (('b, 'r, 'p, 'g, 'm) hier, where_t \<times> bool) op" where
  "process_miss env i requester op address modeled pf ti po next_req =
     seqS (whenS modeled (incrAccessTime env i ACCESS_CACHE_TAGS USER_THREAD))
    (bindS (getCacheState_of env i po) (\<lambda>st.
     seqS (whenS (po \<noteq> None \<and> st = SHARED)
             (bindS (snoop_others env i requester address INVALID UPGRADE) (\<lambda>h. retS ())))
    (bindS (cntlr_of i) (\<lambda>c.
     case m_next c of
       Some j \<Rightarrow>
         seqS (whenS (po \<noteq> None) (invalidateCacheBlock env i address))
        (bindS (next_req j) (\<lambda>hit_where.
         if hit_where \<noteq> MISS then
           bindS (getElapsedTime i USER_THREAD) (\<lambda>t_now.
           seqS (copyDataFromNextLevel env i op address modeled t_now)
          (seqS (whenS (pf \<noteq> PF_NONE) (setBlockOption env i address PREFETCH)) (retS (hit_where, True))))
         else retS (hit_where, False)))
     | None \<Rightarrow>
         bindS (getCacheState_of env i po) (\<lambda>st.
         if po \<noteq> None \<and> st = EXCLUSIVE then
           bindS (snoop_others env i requester address INVALID UPGRADE) (\<lambda>h.
           seqS (with_block po (\<lambda>p. upd_block i p (setCState (e_api env) MODIFIED)))
             (retS (WHERE (m_mem_component c), True)))
         else bindS (master_of i) (\<lambda>m.
           if m_dram_cntlr m then
             (case po of
                Some p \<Rightarrow> seqS (upd_block i p (setCState (e_api env) MODIFIED))
                            (retS (WHERE (m_mem_component c), True))
              | None \<Rightarrow> bindS (fill_from_dram env i op address pf) (\<lambda>hit_where. retS (hit_where, True)))
           else seqS (initiateDirectoryAccess env i op address (pf \<noteq> PF_NONE) ti) (retS (MISS, False))))))))"

primrec processShmemReqFromPrevCache ::
  "nat \<Rightarrow> ('b, 'p, 'g, 'm) cc_env \<Rightarrow> nat \<Rightarrow> nat \<Rightarrow> mem_op \<Rightarrow> u64 \<Rightarrow> bool \<Rightarrow> bool \<Rightarrow> prefetch_type \<Rightarrow> time \<Rightarrow>
   (('b, 'r, 'p, 'g, 'm) hier, where_t) op" where
  "processShmemReqFromPrevCache 0 = (\<lambda>env i requester op address modeled count pf ti. failS OutOfFuel)"
| "processShmemReqFromPrevCache (Suc fuel) = (\<lambda>env i requester op address modeled count pf ti.
     bindS (operationPermissibleinCache env i address op) (\<lambda>(p0, hit).
     bindS (getCacheBlockInfo env i address) (\<lambda>po.
     bindS (cntlr_of i) (\<lambda>c.
     bindS (if \<not> hit \<and> m_perfect c then
              bindS (insert_perfect env i op address po) (\<lambda>po. retS (True, False, po))
            else if hit \<and> m_passthrough c \<and> count then
              seqS (invalidate_pointer env i po)
             (seqS (assertS (LogAssert ''Cannot do passthrough on an LLC'') (m_next c \<noteq> None))
                (retS (False, False, None)))
            else retS (hit, hit, po)) (\<lambda>(hit, first_hit, po).
     seqS (whenS count
            (bindS (getCacheState env i address) (\<lambda>st.
             seqS (whenS (pf = PF_NONE) (count_cache_access i hit))
               (updateCounters env i op address hit st pf))))
    (bindS (if hit then
              bindS (process_hit env i requester op address modeled pf po) (\<lambda>(w, ph). retS (w, True, ph))
            else
              bindS (process_miss env i requester op address modeled pf ti po
                (\<lambda>j. processShmemReqFromPrevCache fuel env j i op address modeled count
                  (if pf = PF_NONE then PF_NONE else PF_OTHER) ti)) (\<lambda>(w, h). retS (w, h, False))) (\<lambda>(hit_where, hit, prefetch_hit).
     seqS (whenS hit
            (bindS (retrieveCacheBlock env i address (first_hit \<and> count)) (\<lambda>d.
             whenS (modeled \<and> \<not> first_hit \<and> \<not> m_passthrough c)
               (bindS (getElapsedTime i USER_THREAD) (\<lambda>t. seqS (put_mshr i address ti t) (cleanupMshr env i))))))
    (bindS (master_of i) (\<lambda>m.
     seqS (whenS (modeled \<and> m_prefetcher m) (trainPrefetcher env i address hit prefetch_hit ti))
       (retS hit_where))))))))))"

end
