(* ===== verification/Cache_Cntlr_Core.thy ===== *)
theory Cache_Cntlr_Core
  imports Cache_Cntlr_Requests
begin

unbundle bit_operations_syntax

text \<open>
  The operations a core starts on its first-level cache: \<open>processMemOpFromCore\<close> and the prefetches
  that follow it. \<open>net i address\<close> is what the network thread does for the request of controller \<open>i\<close> while
  the user thread waits for it.
\<close>

section \<open>Prefetching\<close>

text \<open>After the last level sent a message the stack lock is released; the network thread hands it back.\<close>

definition wait_for_reply ::
  "('b, 'p, 'g, 'm) cc_env \<Rightarrow> (nat \<Rightarrow> u64 \<Rightarrow> (('b, 'r, 'p, 'g, 'm) hier, unit) op) \<Rightarrow> nat \<Rightarrow> u64 \<Rightarrow>
   (('b, 'r, 'p, 'g, 'm) hier, unit) op" where
  "wait_for_reply env net i address =
     seqS (releaseStackLock env i address False)
    (seqS (waitForNetworkThread i) (seqS (net i address) (wakeUpNetworkThread i)))"

definition doPrefetch ::
  "('b, 'p, 'g, 'm) cc_env \<Rightarrow> (nat \<Rightarrow> u64 \<Rightarrow> (('b, 'r, 'p, 'g, 'm) hier, unit) op) \<Rightarrow> nat \<Rightarrow> u64 \<Rightarrow> time \<Rightarrow>
   (('b, 'r, 'p, 'g, 'm) hier, unit) op" where
  "doPrefetch env net i address t_start =
     seqS (upd_stats i (\<lambda>st. st\<lparr>prefetches := prefetches st + 1\<rparr>))
    (seqS (acquireStackLock env i address False)
    (bindS (getElapsedTime i USER_THREAD) (\<lambda>t_before.
     seqS (setElapsedTime i USER_THREAD t_start)
    (bindS (processShmemReqFromPrevCache (e_depth env) env i i OP_READ address True True PF_OWN t_start) (\<lambda>hit_where.
     seqS (whenS (hit_where = MISS)
            (seqS (wait_for_reply env net i address)
              (bindS (processShmemReqFromPrevCache (e_depth env) env i i OP_READ address False False PF_OWN t_start)
                (\<lambda>hit_where. assertS (LogAssert ''Line was not there after prefetch'') (hit_where \<noteq> MISS)))))
    (seqS (setElapsedTime i USER_THREAD t_before)
      (releaseStackLock env i address False)))))))"

primrec Prefetch_op ::
  "nat \<Rightarrow> ('b, 'p, 'g, 'm) cc_env \<Rightarrow> (nat \<Rightarrow> u64 \<Rightarrow> (('b, 'r, 'p, 'g, 'm) hier, unit) op) \<Rightarrow> nat \<Rightarrow> time \<Rightarrow>
   (('b, 'r, 'p, 'g, 'm) hier, unit) op" where
  "Prefetch_op 0 = (\<lambda>env net i t_now. failS OutOfFuel)"
| "Prefetch_op (Suc fuel) = (\<lambda>env net i t_now.
     bindS (master_of i) (\<lambda>m.
     bindS (if m_prefetch_next m \<le> t_now then next_prefetch env i (m_prefetch_list m)
            else retS (e_invalid_address env)) (\<lambda>address.
     seqS (whenS (address \<noteq> e_invalid_address env)
            (bindS (master_of i) (\<lambda>m.
             seqS (doPrefetch env net i address (m_prefetch_next m))
               (upd_master i (\<lambda>m. m\<lparr>m_prefetch_next := m_prefetch_next m + PREFETCH_INTERVAL\<rparr>)))))
    (bindS (cntlr_of i) (\<lambda>c.
     case m_next c of None \<Rightarrow> retS () | Some j \<Rightarrow> Prefetch_op fuel env net j t_now)))))"

section \<open>A memory operation of the core\<close>

definition count_overlapping :: "mem_op \<Rightarrow> cstats \<Rightarrow> cstats" where
  "count_overlapping op st = (if op = OP_WRITE
     then st\<lparr>store_overlapping_misses := store_overlapping_misses st + 1\<rparr>
     else st\<lparr>load_overlapping_misses := load_overlapping_misses st + 1\<rparr>)"

definition wait_l1_mshr ::
  "('b, 'p, 'g, 'm) cc_env \<Rightarrow> nat \<Rightarrow> mem_op \<Rightarrow> u64 \<Rightarrow> (('b, 'r, 'p, 'g, 'm) hier, unit) op" where
  "wait_l1_mshr env i op ca_address =
     bindS (getElapsedTime i USER_THREAD) (\<lambda>t_now.
     bindS (getS (\<lambda>s. e_l1_mshr_tag env (trace s) (m_master (cntlrs s i)) ca_address)) (\<lambda>t_completed.
     whenS (t_completed \<noteq> e_max_time env \<and> t_completed > t_now)
       (seqS (upd_stats i (count_overlapping op))
         (incrElapsedTime i (t_completed - t_now) USER_THREAD))))"

definition l1_hit ::
  "('b, 'p, 'g, 'm) cc_env \<Rightarrow> nat \<Rightarrow> mem_op \<Rightarrow> u64 \<Rightarrow> bool \<Rightarrow> (nat \<times> nat) option \<Rightarrow>
   (('b, 'r, 'p, 'g, 'm) hier, where_t \<times> bool) op" where
  "l1_hit env i op ca_address modeled po =
     seqS (incrAccessTime env i ACCESS_CACHE_DATA_AND_TAGS USER_THREAD)
    (bindS (cntlr_of i) (\<lambda>c.
     with_block po (\<lambda>p.
     seqS (use_warmup env i p)
    (bindS (use_prefetched env i p) (\<lambda>prefetch_hit.
     seqS (whenS (modeled \<and> m_l1_mshr c) (wait_l1_mshr env i op ca_address))
    (seqS (whenS modeled (bindS (wait_in_flight i ca_address) (\<lambda>w. retS ())))
       (retS (WHERE (m_mem_component c), prefetch_hit))))))))"

text \<open>The wait for a free slot of the MSHR; returns when there is one.\<close>

definition l1_mshr_slot ::
  "('b, 'p, 'g, 'm) cc_env \<Rightarrow> nat \<Rightarrow> bool \<Rightarrow> time \<Rightarrow> (('b, 'r, 'p, 'g, 'm) hier, time) op" where
  "l1_mshr_slot env i used t_miss_begin =
     (if used then
        bindS (getS (\<lambda>s. m_master (cntlrs s i))) (\<lambda>k.
        bindS (getS (\<lambda>s. e_l1_mshr_start env (trace s) k t_miss_begin)) (\<lambda>t_mshr_avail.
        seqS (ext (L1MshrStart k t_miss_begin))
       (seqS (assertS (LogAssert ''t_mshr_avail < t_miss_begin'') (t_mshr_avail \<ge> t_miss_begin))
       (seqS (incrElapsedTime i (t_mshr_avail - t_miss_begin) USER_THREAD)
       (seqS (upd_stats i (\<lambda>st. st\<lparr>mshr_latency := mshr_latency st + (t_mshr_avail - t_miss_begin)\<rparr>))
          (retS t_mshr_avail))))))
      else retS t_miss_begin)"

text \<open>The request to the next level, with the wait for the directory when even the last level misses.\<close>

definition request_next ::
  "('b, 'p, 'g, 'm) cc_env \<Rightarrow> (nat \<Rightarrow> u64 \<Rightarrow> (('b, 'r, 'p, 'g, 'm) hier, unit) op) \<Rightarrow> nat \<Rightarrow> mem_op \<Rightarrow> u64 \<Rightarrow> bool \<Rightarrow> bool \<Rightarrow> time \<Rightarrow>
   (('b, 'r, 'p, 'g, 'm) hier, where_t) op" where
  "request_next env net i op ca_address modeled count t_start =
     bindS (cntlr_of i) (\<lambda>c.
     case m_next c of
       None \<Rightarrow> failS NullPointer
     | Some j \<Rightarrow>
         bindS (processShmemReqFromPrevCache (e_depth env) env j i op ca_address modeled count PF_NONE t_start) (\<lambda>hit_where.
         if hit_where \<noteq> MISS then retS hit_where
         else
           seqS (wait_for_reply env net i ca_address)
          (bindS (processShmemReqFromPrevCache (e_depth env) env j i op ca_address False False PF_NONE t_start) (\<lambda>hit_where.
           seqS (assertS (LogAssert ''Tried to read in next-level cache, but data is already gone'') (hit_where \<noteq> MISS))
             (retS hit_where)))))"

definition l1_miss ::
  "('b, 'p, 'g, 'm) cc_env \<Rightarrow> (nat \<Rightarrow> u64 \<Rightarrow> (('b, 'r, 'p, 'g, 'm) hier, unit) op) \<Rightarrow> nat \<Rightarrow> lock_signal \<Rightarrow> mem_op \<Rightarrow> u64 \<Rightarrow> bool \<Rightarrow>
   bool \<Rightarrow> bool \<Rightarrow> time \<Rightarrow> (('b, 'r, 'p, 'g, 'm) hier, where_t \<times> (nat \<times> nat) option) op" where
  "l1_miss env net i sig op ca_address modeled count lock_all t_start =
     bindS (cntlr_of i) (\<lambda>c.
     seqS (whenS (\<not> m_passthrough c) (incrAccessTime env i ACCESS_CACHE_TAGS USER_THREAD))
    (bindS (getElapsedTime i USER_THREAD) (\<lambda>t_miss_begin.
     bindS (l1_mshr_slot env i (modeled \<and> m_l1_mshr c \<and> \<not> m_passthrough c) t_miss_begin) (\<lambda>t_mshr_avail.
     seqS (if sig = SIG_UNLOCK then failS (LogError ''Expected to find address in L1 Cache'') else retS ())
    (seqS (whenS (\<not> lock_all) (acquireStackLock env i ca_address True))
    (bindS (getCacheState env i ca_address) (\<lambda>st.
     seqS (whenS (st \<noteq> INVALID) (invalidateCacheBlock env i ca_address))
    (bindS (request_next env net i op ca_address modeled count t_start) (\<lambda>hit_where.
     bindS (getElapsedTime i USER_THREAD) (\<lambda>t_now.
     seqS (copyDataFromNextLevel env i op ca_address modeled t_now)
    (bindS (getCacheBlockInfo env i ca_address) (\<lambda>po.
     seqS (whenS (\<not> lock_all) (releaseStackLock env i ca_address True))
    (bindS (operationPermissibleinCache env i ca_address op) (\<lambda>(p, ok).
     seqS (assertS (LogAssert ''Expected address to be valid in L1'') ok)
    (seqS (whenS (modeled \<and> m_l1_mshr c \<and> \<not> m_passthrough c)
            (bindS (getElapsedTime i USER_THREAD) (\<lambda>t_miss_end.
             ext (L1MshrDone (m_master c) t_miss_begin (t_miss_end - t_mshr_avail) ca_address))))
       (retS (hit_where, po)))))))))))))))))"

text \<open>The lookup of a perfect or pass-through first level; returns the block, whether it is a hit, and
  where it was found so far.\<close>

definition l1_lookup ::
  "('b, 'p, 'g, 'm) cc_env \<Rightarrow> nat \<Rightarrow> mem_op \<Rightarrow> u64 \<Rightarrow>
   (('b, 'r, 'p, 'g, 'm) hier, (nat \<times> nat) option \<times> bool) op" where
  "l1_lookup env i op ca_address =
     bindS (cntlr_of i) (\<lambda>c.
     bindS (operationPermissibleinCache env i ca_address op) (\<lambda>(po, hit).
     if \<not> hit \<and> m_perfect c then
       (case po of
          Some p \<Rightarrow> seqS (upd_block i p (setCState (e_api env) MODIFIED)) (retS (po, True))
        | None \<Rightarrow>
            bindS (insertCacheBlock env i ca_address (if op = OP_READ then SHARED else MODIFIED) None
                     (m_core_id c) USER_THREAD) (\<lambda>p.
            bindS (getCacheBlockInfo env i ca_address) (\<lambda>po. retS (po, True))))
     else if hit \<and> m_passthrough c then
       seqS (invalidate_pointer env i po) (retS (None, False))
     else retS (po, hit)))"

definition lock_for_op ::
  "('b, 'p, 'g, 'm) cc_env \<Rightarrow> nat \<Rightarrow> u64 \<Rightarrow> bool \<Rightarrow> (('b, 'r, 'p, 'g, 'm) hier, unit) op" where
  "lock_for_op env i ca_address lock_all =
     (if lock_all then acquireStackLock env i ca_address False else acquireLock env i ca_address)"

definition unlock_after_op ::
  "('b, 'p, 'g, 'm) cc_env \<Rightarrow> nat \<Rightarrow> u64 \<Rightarrow> bool \<Rightarrow> (('b, 'r, 'p, 'g, 'm) hier, unit) op" where
  "unlock_after_op env i ca_address lock_all =
     (if lock_all then releaseStackLock env i ca_address False else releaseLock env i ca_address)"

definition update_usage ::
  "('b, 'p, 'g, 'm) cc_env \<Rightarrow> nat \<Rightarrow> u64 \<Rightarrow> nat \<Rightarrow> nat \<Rightarrow> bool \<Rightarrow> (nat \<times> nat) option \<Rightarrow>
   (('b, 'r, 'p, 'g, 'm) hier, unit) op" where
  "update_usage env i ca_address offset n modeled po =
     bindS (cntlr_of i) (\<lambda>c.
     case m_next c of
       None \<Rightarrow> retS ()
     | Some j \<Rightarrow>
         whenS (modeled \<and> \<not> m_perfect c \<and> e_callbacks env)
           (with_block po (\<lambda>p.
            bindS (block_of i p) (\<lambda>b.
            let (new_bits, b') = updateUsageRange (e_ext env) offset n b
            in seqS (upd_block i p (\<lambda>_. b'))
                 (whenS new_bits (updateUsageBits (e_depth env) env j ca_address (getUsage (e_ext env) b')))))))"

definition count_where :: "mem_op \<Rightarrow> where_t \<Rightarrow> cstats \<Rightarrow> cstats" where
  "count_where op w st = (if op = OP_WRITE
     then st\<lparr>stores_where := (stores_where st)(w := stores_where st w + 1)\<rparr>
     else st\<lparr>loads_where := (loads_where st)(w := loads_where st w + 1)\<rparr>)"

text \<open>After the access: the lock is released, unless it is to be kept, and the prefetcher may start.\<close>

definition after_access ::
  "('b, 'p, 'g, 'm) cc_env \<Rightarrow> (nat \<Rightarrow> u64 \<Rightarrow> (('b, 'r, 'p, 'g, 'm) hier, unit) op) \<Rightarrow> nat \<Rightarrow> lock_signal \<Rightarrow> mem_op \<Rightarrow>
   u64 \<Rightarrow> bool \<Rightarrow> bool \<Rightarrow> time \<Rightarrow> bool \<Rightarrow> where_t \<Rightarrow> bool \<Rightarrow> (nat \<times> nat) option \<Rightarrow>
   (('b, 'r, 'p, 'g, 'm) hier, unit) op" where
  "after_access env net i sig op ca_address modeled lock_all t_start hit hit_where prefetch_hit po =
     seqS (whenS (sig \<noteq> SIG_LOCK) (unlock_after_op env i ca_address lock_all))
    (seqS (upd_stats i (count_where op hit_where))
    (bindS (master_of i) (\<lambda>m.
     seqS (whenS (modeled \<and> m_prefetcher m) (trainPrefetcher env i ca_address hit prefetch_hit t_start))
    (seqS (whenS (sig \<noteq> SIG_LOCK \<and> modeled) (Prefetch_op (e_depth env) env net i t_start))
       (whenS (e_notify_access env)
            (with_block po (\<lambda>p. bindS (block_of i p) (\<lambda>b.
               ext (NotifyAccess (getOwner (e_ext env) b) op hit_where)))))))))"

text \<open>The access under the lock; the result is where the data was found and what was written into
  \<open>data_buf\<close>.\<close>

definition locked_access ::
  "('b, 'p, 'g, 'm) cc_env \<Rightarrow> (nat \<Rightarrow> u64 \<Rightarrow> (('b, 'r, 'p, 'g, 'm) hier, unit) op) \<Rightarrow> nat \<Rightarrow> lock_signal \<Rightarrow> mem_op \<Rightarrow>
   u64 \<Rightarrow> nat \<Rightarrow> bufptr \<Rightarrow> nat \<Rightarrow> bool \<Rightarrow> bool \<Rightarrow> cntlr \<Rightarrow> bool \<Rightarrow>
   (('b, 'r, 'p, 'g, 'm) hier, where_t \<times> bytes option) op" where
  "locked_access env net i sig op ca_address offset data_buf n modeled count c lock_all =
     bindS (getElapsedTime i USER_THREAD) (\<lambda>t_start.
     bindS (l1_lookup env i op ca_address) (\<lambda>(po, hit).
     seqS (whenS count
            (seqS (count_cache_access i hit)
              (bindS (getCacheState_of env i po) (\<lambda>st. updateCounters env i op ca_address hit st PF_NONE))))
    (bindS (if hit then bindS (l1_hit env i op ca_address modeled po) (\<lambda>(w, ph). retS (w, ph, po))
            else bindS (l1_miss env net i sig op ca_address modeled count lock_all t_start)
                   (\<lambda>(w, po). retS (w, False, po))) (\<lambda>(hit_where, prefetch_hit, po).
     seqS (update_usage env i ca_address offset n modeled po)
    (bindS (accessCache env i op ca_address offset data_buf n
              (hit_where = WHERE (m_mem_component c) \<and> count)) (\<lambda>out.
     bindS (getElapsedTime i USER_THREAD) (\<lambda>t_now.
     seqS (whenS (\<not> hit \<and> count) (upd_stats i (\<lambda>st. st\<lparr>total_latency := total_latency st + (t_now - t_start)\<rparr>)))
    (seqS (after_access env net i sig op ca_address modeled lock_all t_start hit hit_where prefetch_hit po)
       (retS (hit_where, out))))))))))"

definition processMemOpFromCore ::
  "('b, 'p, 'g, 'm) cc_env \<Rightarrow> (nat \<Rightarrow> u64 \<Rightarrow> (('b, 'r, 'p, 'g, 'm) hier, unit) op) \<Rightarrow> nat \<Rightarrow> lock_signal \<Rightarrow> mem_op \<Rightarrow>
   u64 \<Rightarrow> nat \<Rightarrow> bufptr \<Rightarrow> nat \<Rightarrow> bool \<Rightarrow> bool \<Rightarrow> (('b, 'r, 'p, 'g, 'm) hier, where_t \<times> bytes option) op" where
  "processMemOpFromCore env net i sig op ca_address offset data_buf n modeled count =
     bindS (cntlr_of i) (\<lambda>c.
     seqS (assertS (LogAssert ''address at cache line'')
             (ca_address AND ucast (of_nat (m_cache_block_size c) - 1 :: u32) = 0))
    (seqS (assertS (LogAssert ''access until'') (offset + n \<le> m_cache_block_size c))
    (let lock_all = m_cache_writethrough c \<and> (op = OP_WRITE \<or> sig \<noteq> SIG_NONE)
     in seqS (whenS (sig \<noteq> SIG_UNLOCK) (lock_for_op env i ca_address lock_all))
          (locked_access env net i sig op ca_address offset data_buf n modeled count c lock_all))))"

end
