(* ===== verification/Cache_View.thy ===== *)
theory Cache_View
  imports Cache_Cntlr_Basic
begin

text \<open>
  What a controller relies on when it uses its cache: a cache is a map from blocks to a coherence
  state and data (\<open>lookup\<close>, \<open>state_of\<close>, \<open>data_of\<close>), and the four ways the controllers touch it (a load of a
  block, a store of a block, a change of state, an invalidation) have the expected effect on the block
  and none on the others. What is relied on of \<open>CacheBlockInfo\<close> is \<open>inval_laws\<close>.
\<close>

section \<open>The view of a cache\<close>

definition lookup ::
  "'b block_api \<Rightarrow> geometry \<Rightarrow> u64 \<Rightarrow> ('b, 'r, 'p, 'g) cache \<Rightarrow> (nat \<times> nat) option" where
  "lookup api geo a c =
     (case splitAddress geo a of (t, i, _) \<Rightarrow> map_option (Pair i) (find_line api t (m_sets c ! i)))"

definition state_of :: "'b block_api \<Rightarrow> geometry \<Rightarrow> u64 \<Rightarrow> ('b, 'r, 'p, 'g) cache \<Rightarrow> cstate" where
  "state_of api geo a c =
     (case lookup api geo a c of None \<Rightarrow> INVALID | Some p \<Rightarrow> getCState api (block_at c p))"

definition data_of :: "'b block_api \<Rightarrow> geometry \<Rightarrow> u64 \<Rightarrow> ('b, 'r, 'p, 'g) cache \<Rightarrow> bytes option" where
  "data_of api geo a c =
     (case lookup api geo a c of None \<Rightarrow> None | Some p \<Rightarrow> line_data (m_sets c ! fst p) (snd p))"

definition same_block :: "geometry \<Rightarrow> u64 \<Rightarrow> u64 \<Rightarrow> bool" where
  "same_block geo a a' \<longleftrightarrow> fst (splitAddress geo a) = fst (splitAddress geo a') \<and>
     fst (snd (splitAddress geo a)) = fst (snd (splitAddress geo a'))"

text \<open>No two ways of a set hold the same tag, unless it is the tag of an invalid block.\<close>

definition unique_tags :: "'b block_api \<Rightarrow> u64 \<Rightarrow> ('b, 'r) cache_set \<Rightarrow> bool" where
  "unique_tags api itag s \<longleftrightarrow> (\<forall>l l'. l < m_associativity s \<longrightarrow> l' < m_associativity s \<longrightarrow>
     getTag api (m_cache_block_info_array s ! l) = getTag api (m_cache_block_info_array s ! l') \<longrightarrow>
     getTag api (m_cache_block_info_array s ! l) \<noteq> itag \<longrightarrow> l = l')"

definition cache_ok ::
  "'b block_api \<Rightarrow> u64 \<Rightarrow> (nat \<Rightarrow> 'r \<Rightarrow> bool) \<Rightarrow> geometry \<Rightarrow> ('b, 'r, 'p, 'g) cache \<Rightarrow> bool" where
  "cache_ok api itag rp_ok geo c \<longleftrightarrow> cache_wf geo rp_ok c \<and>
     (\<forall>a. fst (splitAddress geo a) \<noteq> itag) \<and> (\<forall>s\<in>set (m_sets c). unique_tags api itag s)"

text \<open>Only the block of \<open>a\<close> may differ.\<close>

definition others_same ::
  "'b block_api \<Rightarrow> geometry \<Rightarrow> u64 \<Rightarrow> ('b, 'r, 'p, 'g) cache \<Rightarrow> ('b, 'r, 'p, 'g) cache \<Rightarrow> bool" where
  "others_same api geo a c c' \<longleftrightarrow> c_blocksize c' = c_blocksize c \<and>
     (\<forall>a'. \<not> same_block geo a a' \<longrightarrow> lookup api geo a' c' = lookup api geo a' c \<and>
        state_of api geo a' c' = state_of api geo a' c \<and> data_of api geo a' c' = data_of api geo a' c)"

lemma others_same_refl [simp]: "others_same api geo a c c"
  by (simp add: others_same_def)

lemma others_same_trans:
  "others_same api geo a c c' \<Longrightarrow> others_same api geo a c' c'' \<Longrightarrow> others_same api geo a c c''"
  by (simp add: others_same_def)

section \<open>Changing one line\<close>

text \<open>A change of the information or the data of way \<open>l\<close> of set \<open>i\<close>, or of the policy of that set.\<close>

definition line_change ::
  "nat \<Rightarrow> nat \<Rightarrow> ('b, 'r) cache_set \<Rightarrow> ('b, 'r, 'p, 'g) cache \<Rightarrow> ('b, 'r, 'p, 'g) cache \<Rightarrow> bool" where
  "line_change i l s' c c' \<longleftrightarrow> i < length (m_sets c) \<and> m_sets c' = (m_sets c)[i := s'] \<and>
     c_blocksize c' = c_blocksize c \<and> c_associativity c' = c_associativity c \<and>
     m_associativity s' = m_associativity (m_sets c ! i) \<and> m_blocksize s' = m_blocksize (m_sets c ! i) \<and>
     (\<forall>k. k \<noteq> l \<longrightarrow> m_cache_block_info_array s' ! k = m_cache_block_info_array (m_sets c ! i) ! k) \<and>
     (\<forall>k<m_associativity s'. k \<noteq> l \<longrightarrow> line_data s' k = line_data (m_sets c ! i) k)"

lemma lookup_Some_iff:
  assumes "cache_ok api itag rp_ok geo c" "splitAddress geo a = (t, i, off)"
  shows "lookup api geo a c = Some (j, l) \<longleftrightarrow> j = i \<and> l < m_associativity (m_sets c ! i) \<and>
    getTag api (m_cache_block_info_array (m_sets c ! i) ! l) = t"
proof -
  let ?s = "m_sets c ! i"
  have i: "i < length (m_sets c)" "t \<noteq> itag"
    using assms by (auto simp: cache_ok_def dest: cache_wf_split) (metis fst_conv)
  then have u: "unique_tags api itag ?s" using assms(1) by (simp add: cache_ok_def)
  show ?thesis
  proof (cases "find_line api t ?s")
    case None
    then have "\<forall>k<m_associativity ?s. getTag api (m_cache_block_info_array ?s ! k) \<noteq> t"
      by (simp add: find_line_def find_down_None)
    then show ?thesis using None assms(2) by (auto simp: lookup_def)
  next
    case (Some k)
    then have "k < m_associativity ?s" "getTag api (m_cache_block_info_array ?s ! k) = t"
      by (auto simp: find_line_def dest: find_down_Some)
    then show ?thesis using Some assms(2) u i(2) by (auto simp: lookup_def unique_tags_def)
  qed
qed

lemma lookup_set_index:
  "splitAddress geo a = (t, i, off) \<Longrightarrow> lookup api geo a c = Some p \<Longrightarrow> fst p = i"
  by (auto simp: lookup_def)

lemma lookup_None_iff:
  assumes "splitAddress geo a = (t, i, off)"
  shows "lookup api geo a c = None \<longleftrightarrow>
    (\<forall>l<m_associativity (m_sets c ! i). getTag api (m_cache_block_info_array (m_sets c ! i) ! l) \<noteq> t)"
  using assms by (simp add: lookup_def find_line_def find_down_None)

lemma option_eqI: "(\<And>x. p = Some x \<longleftrightarrow> q = Some x) \<Longrightarrow> p = q"
  by (cases p; cases q) auto

text \<open>A change of a line that held \<open>a\<close> and now holds \<open>a\<close> or nothing concerns no other block.\<close>

lemma line_change_others:
  assumes ok: "cache_ok api itag rp_ok geo c" and ok': "cache_ok api itag rp_ok geo c'"
    and ch: "line_change i l s' c c'" and lk: "lookup api geo a c = Some (i, l)"
    and tag: "getTag api (m_cache_block_info_array s' ! l) \<in> {fst (splitAddress geo a), itag}"
  shows "others_same api geo a c c'"
  unfolding others_same_def
proof (intro conjI allI impI)
  show "c_blocksize c' = c_blocksize c" using ch by (simp add: line_change_def)
  fix a' assume ns: "\<not> same_block geo a a'"
  obtain t j off where sp: "splitAddress geo a' = (t, j, off)" by (metis surj_pair)
  obtain u k of2 where sa: "splitAddress geo a = (u, k, of2)" by (metis surj_pair)
  have ki: "k = i" and l: "l < m_associativity (m_sets c ! i)"
    and u: "getTag api (m_cache_block_info_array (m_sets c ! i) ! l) = u"
    using lookup_Some_iff[OF ok sa, of i l] lk by simp_all
  have i: "i < length (m_sets c)" using ch by (simp add: line_change_def)
  have tinv: "t \<noteq> itag" using ok sp by (auto simp: cache_ok_def) (metis fst_conv)
  have nt: "j = i \<Longrightarrow> t \<noteq> u" using ns sp sa ki by (simp add: same_block_def)
  have lks: "lookup api geo a' c' = lookup api geo a' c"
  proof (rule option_eqI)
    fix x :: "nat \<times> nat"
    obtain x1 x2 where x: "x = (x1, x2)" by fastforce
    show "lookup api geo a' c' = Some x \<longleftrightarrow> lookup api geo a' c = Some x"
    proof (cases "j = i")
      case True
      then show ?thesis
        using ch i nt u tag tinv sa unfolding x lookup_Some_iff[OF ok' sp] lookup_Some_iff[OF ok sp]
        by (cases "x2 = l") (auto simp: line_change_def)
    next
      case False
      then show ?thesis using ch unfolding x lookup_Some_iff[OF ok' sp] lookup_Some_iff[OF ok sp]
        by (simp add: line_change_def)
    qed
  qed
  then show "lookup api geo a' c' = lookup api geo a' c" .
  have "block_at c' p = block_at c p \<and>
      line_data (m_sets c' ! fst p) (snd p) = line_data (m_sets c ! fst p) (snd p)"
    if p: "lookup api geo a' c = Some p" for p
  proof -
    have fp: "fst p = j" "snd p < m_associativity (m_sets c ! j)"
      "getTag api (m_cache_block_info_array (m_sets c ! j) ! snd p) = t"
      using p lookup_Some_iff[OF ok sp, of "fst p" "snd p"] by auto
    have "j = i \<Longrightarrow> snd p \<noteq> l" using fp(3) nt u by auto
    then show ?thesis using ch i fp by (cases "j = i") (auto simp: line_change_def block_at_def)
  qed
  then show "state_of api geo a' c' = state_of api geo a' c" "data_of api geo a' c' = data_of api geo a' c"
    using lks by (auto simp: state_of_def data_of_def split: option.splits)
qed

text \<open>A change of a line that keeps its block.\<close>

lemma line_change_same:
  assumes ok: "cache_ok api itag rp_ok geo c" and ok': "cache_ok api itag rp_ok geo c'"
    and ch: "line_change i l s' c c'" and lk: "lookup api geo a c = Some (i, l)"
    and tag: "getTag api (m_cache_block_info_array s' ! l) = fst (splitAddress geo a)"
  shows "lookup api geo a c' = Some (i, l)"
    "state_of api geo a c' = getCState api (m_cache_block_info_array s' ! l)"
    "data_of api geo a c' = line_data s' l"
proof -
  obtain u k of2 where sa: "splitAddress geo a = (u, k, of2)" by (metis surj_pair)
  have i: "i < length (m_sets c)" using ch by (simp add: line_change_def)
  have k: "k = i" "l < m_associativity (m_sets c ! i)"
    using lookup_Some_iff[OF ok sa, of i l] lk by simp_all
  show *: "lookup api geo a c' = Some (i, l)"
    using lookup_Some_iff[OF ok' sa, of i l] k ch i tag sa by (auto simp: line_change_def)
  show "state_of api geo a c' = getCState api (m_cache_block_info_array s' ! l)"
    "data_of api geo a c' = line_data s' l"
    using * ch i by (simp_all add: state_of_def data_of_def block_at_def line_change_def)
qed

text \<open>A change of a line that drops its block.\<close>

lemma line_change_drop:
  assumes ok: "cache_ok api itag rp_ok geo c" and ok': "cache_ok api itag rp_ok geo c'"
    and ch: "line_change i l s' c c'" and lk: "lookup api geo a c = Some (i, l)"
    and tag: "getTag api (m_cache_block_info_array s' ! l) = itag"
  shows "lookup api geo a c' = None" "state_of api geo a c' = INVALID" "data_of api geo a c' = None"
proof -
  obtain u k of2 where sa: "splitAddress geo a = (u, k, of2)" by (metis surj_pair)
  have i: "i < length (m_sets c)" using ch by (simp add: line_change_def)
  have k: "k = i" "l < m_associativity (m_sets c ! i)"
    "getTag api (m_cache_block_info_array (m_sets c ! i) ! l) = u"
    using lookup_Some_iff[OF ok sa, of i l] lk by simp_all
  have uinv: "u \<noteq> itag" using ok sa by (auto simp: cache_ok_def) (metis fst_conv)
  have other: "l' = l" if "l' < m_associativity (m_sets c ! i)"
    "getTag api (m_cache_block_info_array (m_sets c ! i) ! l') = u" for l'
    using that k lookup_Some_iff[OF ok sa, of i l'] lk by simp
  show *: "lookup api geo a c' = None"
    unfolding lookup_None_iff[OF sa]
  proof (intro allI impI)
    fix l' assume l': "l' < m_associativity (m_sets c' ! k)"
    show "getTag api (m_cache_block_info_array (m_sets c' ! k) ! l') \<noteq> u"
      using l' other[of l'] ch i k(1) tag uinv by (cases "l' = l") (auto simp: line_change_def)
  qed
  then show "state_of api geo a c' = INVALID" "data_of api geo a c' = None"
    by (simp_all add: state_of_def data_of_def)
qed

section \<open>The four operations on an exact block\<close>

text \<open>\<open>CacheBlockInfo\<close>: what \<open>invalidate\<close> leaves, beside \<open>block_laws\<close>.\<close>

definition inval_laws :: "'b block_api \<Rightarrow> u64 \<Rightarrow> bool" where
  "inval_laws api itag \<longleftrightarrow> block_laws api \<and>
     (\<forall>b. getCState api (bi_invalidate api b) = INVALID \<and> getTag api (bi_invalidate api b) = itag)"

text \<open>A cache that keeps data and holds no line in state \<open>INVALID\<close> under a tag of its own.\<close>

definition data_cache :: "'b block_api \<Rightarrow> geometry \<Rightarrow> u64 \<Rightarrow> ('b, 'r, 'p, 'g) cache \<Rightarrow> bool" where
  "data_cache api geo a c \<longleftrightarrow> (\<forall>s\<in>set (m_sets c). m_blocks s \<noteq> None) \<and>
     (\<forall>p. lookup api geo a c = Some p \<longrightarrow> getCState api (block_at c p) \<noteq> INVALID)"

lemma same_sets_view:
  assumes "m_sets c' = m_sets c"
  shows "lookup api geo a c' = lookup api geo a c" "state_of api geo a c' = state_of api geo a c"
    "data_of api geo a c' = data_of api geo a c" "data_cache api geo a c' = data_cache api geo a c"
proof -
  have b: "block_at c' = block_at c" using assms by (simp add: fun_eq_iff block_at_def)
  show l: "lookup api geo a c' = lookup api geo a c" using assms by (simp add: lookup_def)
  show "state_of api geo a c' = state_of api geo a c" by (simp add: state_of_def l b split: option.splits)
  show "data_of api geo a c' = data_of api geo a c" by (simp add: data_of_def l assms split: option.splits)
  show "data_cache api geo a c' = data_cache api geo a c" by (simp add: data_cache_def l b assms)
qed

lemma same_sets_others:
  assumes "m_sets c' = m_sets c" "c_blocksize c' = c_blocksize c"
  shows "others_same api geo a c c'"
  using same_sets_view[OF assms(1), where api = api and geo = geo] assms(2) by (simp add: others_same_def)

lemma blocks_unchanged: "m_blocks s = b \<Longrightarrow> s\<lparr>m_blocks := b\<rparr> = s"
  by (cases s) simp

lemma same_but_data_none:
  assumes "same_but_data i {} c c'" "i < length (m_sets c)"
  shows "m_sets c' = m_sets c"
proof -
  obtain b' where b': "m_sets c' ! i = (m_sets c ! i)\<lparr>m_blocks := b'\<rparr>"
    "case m_blocks (m_sets c ! i) of None \<Rightarrow> b' = None
     | Some b \<Rightarrow> \<exists>d. b' = Some d \<and> changes_only {} b d"
    using assms(1) unfolding same_but_data_def by blast
  then have "m_blocks (m_sets c ! i) = b'"
    by (auto dest: changes_none split: option.splits)
  then have i: "m_sets c' ! i = m_sets c ! i" using b'(1) by (simp add: blocks_unchanged)
  have len: "length (m_sets c') = length (m_sets c)"
    and oth: "\<forall>j<length (m_sets c). j \<noteq> i \<longrightarrow> m_sets c' ! j = m_sets c ! j"
    using assms(1) by (simp_all add: same_but_data_def)
  show ?thesis
  proof (rule nth_equalityI[OF len])
    show "m_sets c' ! j = m_sets c ! j" if "j < length (m_sets c')" for j
      using i oth len that by (cases "j = i") simp_all
  qed
qed

lemma lookup_find:
  assumes "lookup api geo a c = Some (i, l)"
  obtains t off where "splitAddress geo a = (t, i, off)" "find_line api t (m_sets c ! i) = Some l"
  using assms by (auto simp: lookup_def split: prod.splits)

lemma cache_ok_same_sets:
  "cache_ok api itag rp_ok geo c \<Longrightarrow> m_sets c' = m_sets c \<Longrightarrow> cache_wf geo rp_ok c' \<Longrightarrow>
    cache_ok api itag rp_ok geo c'"
  by (simp add: cache_ok_def)

lemma cache_ok_set:
  "cache_ok api itag rp_ok geo c \<Longrightarrow> i < length (m_sets c) \<Longrightarrow> unique_tags api itag (m_sets c ! i)"
  by (simp add: cache_ok_def)

lemma cache_ok_update:
  assumes "cache_ok api itag rp_ok geo c" "cache_wf geo rp_ok c'" "m_sets c' = (m_sets c)[i := s']"
    and "unique_tags api itag s'"
  shows "cache_ok api itag rp_ok geo c'"
  using assms by (auto simp: cache_ok_def dest!: set_update_subset_insert[THEN subsetD])

text \<open>A load of a whole exact block returns its data and changes nothing.\<close>

lemma load_block:
  fixes c :: "('b, 'r, 'p, 'g) cache" and sample :: "'p \<Rightarrow> 'g \<Rightarrow> bool \<times> 'g"
  assumes ok: "cache_ok api itag rp_ok geo c" and d: "data_of api geo a c = Some x"
    and lk: "lookup api geo a c = Some (i, l)"
    and al: "snd (snd (splitAddress geo a)) = 0" and n: "n = c_blocksize c"
    and exact: "\<not> is_block_approx a (of_nat n) rg"
  shows "\<exists>rg' c'. accessSingleLine api geo rp sample a LOAD y True n False rg c
      = Inr (Some (i, l), Some x, rg', c') \<and> cache_ok api itag rp_ok geo c' \<and> m_sets c' = m_sets c \<and>
    c_blocksize c' = c_blocksize c \<and> (\<forall>e. is_approx e rg' = is_approx e rg)"
proof -
  obtain t off where sp: "splitAddress geo a = (t, i, off)" and hit: "find_line api t (m_sets c ! i) = Some l"
    using lookup_find[OF lk] .
  have off: "off = 0" using al sp by simp
  let ?s = "m_sets c ! i" and ?ptr = "l * c_blocksize c"
  let ?rg = "add_read_acc a (Raul_core_id c) (Raul_name c) (of_nat (c_blocksize c)) rg"
  have wf: "cache_wf geo rp_ok c" using ok by (simp add: cache_ok_def)
  have i: "i < length (m_sets c)" using cache_wf_split[OF wf sp] by simp
  note s = cache_wf_set[OF wf i]
  have l: "l < c_associativity c" using find_line_bound[OF hit] s by simp
  have un: "unat (of_nat n :: u32) = n"
    using n wf by (simp add: cache_wf_def unat_of_nat take_bit_nat_def)
  have ptr: "?ptr + unat (of_nat n :: u32) \<le> c_associativity c * c_blocksize c"
    using line_bound[OF l, of "c_blocksize c"] un n by simp
  obtain c1 where c1: "inject_set (preRead sample a (of_nat n) ?rg ?ptr) i c = Inr c1"
      "cache_wf geo rp_ok c1" "same_but_data i (approx_places a (of_nat n) ?rg ?ptr) c c1"
    using inject_set_ok[OF rd.fault_channel_axioms wf i ptr] by blast
  have ap: "approx_places a (of_nat n) ?rg ?ptr = {}"
    using no_approx_places[OF exact] by (simp add: approx_places_def)
  have sets: "m_sets c1 = m_sets c" using same_but_data_none c1(3) i unfolding ap by blast
  have bs: "c_blocksize c1 = c_blocksize c" using c1(3) by (simp add: same_but_data_def)
  obtain b where b: "m_blocks ?s = Some b" "x = buf_slice ?ptr (c_blocksize c) b"
    using d lk s by (auto simp: data_of_def line_data_def)
  have "length b = c_associativity c * c_blocksize c" using b s by (auto simp: cset_wf_def)
  then have "read_line rp l 0 True n False ?s = Inr (Some x, ?s)"
    using b s n line_bound[OF l, of "c_blocksize c"] by (simp add: read_line_def copy_out_def)
  then have "accessSingleLine api geo rp sample a LOAD y True n False rg c
      = Inr (Some (i, l), Some x, ?rg, put_set i ?s c1)"
    using sp i hit c1(1) s off sets by (simp add: accessSingleLine_def get_set_def Let_def)
  moreover have "put_set i ?s c1 = c1" using sets by (simp add: put_set_def)
  ultimately show ?thesis
    using sets bs cache_ok_same_sets[OF ok sets c1(2)] acc_same_approx(1) by metis
qed

text \<open>A store of a whole exact block replaces its data and nothing else.\<close>

lemma store_block:
  fixes c :: "('b, 'r, 'p, 'g) cache" and sample :: "'p \<Rightarrow> 'g \<Rightarrow> bool \<times> 'g"
  assumes ok: "cache_ok api itag rp_ok geo c" and dc: "data_cache api geo a c"
    and lk: "lookup api geo a c = Some (i, l)"
    and al: "snd (snd (splitAddress geo a)) = 0" and n: "length x = c_blocksize c"
    and exact: "\<not> is_block_approx a (of_nat (length x)) rg"
  shows "\<exists>rg' c'. accessSingleLine api geo rp sample a STORE (Some x) want (length x) False rg c
      = Inr (Some (i, l), None, rg', c') \<and> cache_ok api itag rp_ok geo c' \<and>
    others_same api geo a c c' \<and> lookup api geo a c' = Some (i, l) \<and>
    block_at c' (i, l) = block_at c (i, l) \<and>
    data_of api geo a c' = Some x \<and> data_cache api geo a c' \<and> (\<forall>e. is_approx e rg' = is_approx e rg)"
proof -
  obtain t off where sp: "splitAddress geo a = (t, i, off)" and hit: "find_line api t (m_sets c ! i) = Some l"
    using lookup_find[OF lk] .
  have off: "off = 0" using al sp by simp
  let ?s = "m_sets c ! i" and ?ptr = "l * c_blocksize c" and ?n = "length x"
  let ?rg = "add_write_acc a (Raul_core_id c) (Raul_name c) (of_nat (c_blocksize c)) rg"
  have wf: "cache_wf geo rp_ok c" using ok by (simp add: cache_ok_def)
  have i: "i < length (m_sets c)" using cache_wf_split[OF wf sp] by simp
  note s = cache_wf_set[OF wf i]
  have l: "l < c_associativity c" using find_line_bound[OF hit] s by simp
  obtain b where b: "m_blocks ?s = Some b" using dc i unfolding data_cache_def by force
  have lb: "length b = c_associativity c * c_blocksize c" using s b by (auto simp: cset_wf_def)
  have un: "unat (of_nat ?n :: u32) = ?n"
    using n wf by (simp add: cache_wf_def unat_of_nat take_bit_nat_def)
  have line: "?ptr + ?n \<le> c_associativity c * c_blocksize c"
    using line_bound[OF l, of "c_blocksize c"] n by simp
  let ?s1 = "?s\<lparr>m_blocks := Some (overwrite ?ptr x b)\<rparr>"
  let ?c1 = "put_set i ?s1 c"
  have w: "write_line rp l 0 (Some x) ?n False ?s = Inr ?s1"
    using b s n lb line by (simp add: write_line_def copy_in_def)
  have wf1: "cache_wf geo rp_ok ?c1"
    using s lb line by (intro cache_wf_put[OF wf]) (auto simp: cset_wf_def buf_simps)
  obtain c2 where c2: "inject_set (postWrite sample a (of_nat ?n) ?rg ?ptr) i ?c1 = Inr c2"
      "cache_wf geo rp_ok c2" "same_but_data i (approx_places a (of_nat ?n) ?rg ?ptr) ?c1 c2"
    using inject_set_ok[OF wr.fault_channel_axioms wf1, of i ?ptr "of_nat ?n" sample a ?rg] i line un by auto
  have ap: "approx_places a (of_nat ?n) ?rg ?ptr = {}"
    using no_approx_places[OF exact] by (simp add: approx_places_def)
  have sets: "m_sets c2 = (m_sets c)[i := ?s1]"
    using same_but_data_none[of i ?c1 c2] c2(3) i unfolding ap by simp
  have run: "accessSingleLine api geo rp sample a STORE (Some x) want ?n False rg c = Inr (Some (i, l), None, ?rg, c2)"
    using sp i hit c2(1) w s off by (simp add: accessSingleLine_def get_set_def Let_def)
  have dims: "c_blocksize c2 = c_blocksize c" "c_associativity c2 = c_associativity c"
    using c2(3) by (simp_all add: same_but_data_def)
  have ok2: "cache_ok api itag rp_ok geo c2"
    using cache_ok_update[OF ok c2(2) sets] cache_ok_set[OF ok i] by (simp add: unique_tags_def)
  have data: "line_data ?s1 l = Some x"
    using lb line s n by (simp add: line_data_def buf_simps)
  have keep: "line_data ?s1 k = line_data ?s k" if k: "k < m_associativity ?s" "k \<noteq> l" for k
  proof -
    have "k * c_blocksize c + c_blocksize c \<le> ?ptr \<or> ?ptr + ?n \<le> k * c_blocksize c"
      using lines_disjoint[OF k(2), of 0 "c_blocksize c" "c_blocksize c" 0 "c_blocksize c"] n by simp
    then show ?thesis using lb line s n b k line_bound[of k "c_associativity c" "c_blocksize c"]
      by (simp add: line_data_def buf_simps)
  qed
  have ch: "line_change i l ?s1 c c2"
    using sets i dims keep by (simp add: line_change_def)
  have tag: "getTag api (m_cache_block_info_array ?s1 ! l) = fst (splitAddress geo a)"
    using lookup_Some_iff[OF ok sp, of i l] lk sp by simp
  note same = line_change_same[OF ok ok2 ch lk tag]
  have blk: "block_at c2 (i, l) = block_at c (i, l)" using sets i by (simp add: block_at_def)
  have dc2: "data_cache api geo a c2"
    using dc sets i same(1) lk blk
    by (auto simp: data_cache_def dest!: set_update_subset_insert[THEN subsetD])
  show ?thesis
    using run ok2 line_change_others[OF ok ok2 ch lk] tag same(1,3) data blk dc2 acc_same_approx(2)
    by (intro exI[of _ ?rg] exI[of _ c2]) simp
qed

text \<open>A new state, other than \<open>INVALID\<close>, of a block that is here.\<close>

lemma upd_cache_block_sets:
  "m_sets (upd_cache_block p f c) = (m_sets c)[fst p := set_info (snd p) f (m_sets c ! fst p)]"
  "c_blocksize (upd_cache_block p f c) = c_blocksize c"
  by (simp_all add: upd_cache_block_def)

lemma upd_cache_block_wf:
  assumes "cache_wf geo rp_ok c" "fst p < length (m_sets c)"
  shows "cache_wf geo rp_ok (upd_cache_block p f c)"
  unfolding upd_cache_block_def
  using cache_wf_set[OF assms] cache_wf_blocks[OF assms]
  by (intro cache_wf_put[OF assms(1)]) auto

lemma upd_line_change:
  assumes "i < length (m_sets c)"
  shows "line_change i l (set_info l f (m_sets c ! i)) c (upd_cache_block (i, l) f c)"
  using assms by (simp add: line_change_def upd_cache_block_def line_data_def set_info_def)

lemma set_state_block:
  fixes c :: "('b, 'r, 'p, 'g) cache"
  assumes laws: "block_laws api" and ok: "cache_ok api itag rp_ok geo c" and dc: "data_cache api geo a c"
    and lk: "lookup api geo a c = Some (i, l)" and st: "st \<noteq> INVALID"
  shows "\<exists>c'. upd_cache_block (i, l) (setCState api st) c = c' \<and> cache_ok api itag rp_ok geo c' \<and>
    others_same api geo a c c' \<and> lookup api geo a c' = Some (i, l) \<and> state_of api geo a c' = st \<and>
    data_of api geo a c' = data_of api geo a c \<and> data_cache api geo a c'"
proof -
  obtain t off where sp: "splitAddress geo a = (t, i, off)"
    using lookup_find[OF lk] .
  let ?s = "m_sets c ! i" and ?f = "setCState api st"
  let ?c' = "upd_cache_block (i, l) ?f c"
  have wf: "cache_wf geo rp_ok c" using ok by (simp add: cache_ok_def)
  have i: "i < length (m_sets c)" using cache_wf_split[OF wf sp] by simp
  have sets: "m_sets ?c' = (m_sets c)[i := set_info l ?f ?s]" by (simp add: upd_cache_block_sets)
  have li: "l < length (m_cache_block_info_array ?s)"
    and tag: "getTag api (m_cache_block_info_array (set_info l ?f ?s) ! l) = fst (splitAddress geo a)"
  proof -
    show l: "l < length (m_cache_block_info_array ?s)"
      using lookup_Some_iff[OF ok sp, of i l] lk cache_wf_set[OF wf i] by (simp add: cset_wf_def)
    show "getTag api (m_cache_block_info_array (set_info l ?f ?s) ! l) = fst (splitAddress geo a)"
      using lookup_Some_iff[OF ok sp, of i l] lk l sp laws by (simp add: set_info_def block_laws_def)
  qed
  have tags: "getTag api (m_cache_block_info_array (set_info l ?f ?s) ! k) = getTag api (m_cache_block_info_array ?s ! k)" for k
    using laws li by (cases "k = l") (simp_all add: set_info_def block_laws_def)
  have ok': "cache_ok api itag rp_ok geo ?c'"
    using cache_ok_update[OF ok upd_cache_block_wf[OF wf] sets] cache_ok_set[OF ok i] i tags
    by (simp add: unique_tags_def)
  note ch = upd_line_change[OF i, of l ?f]
  note same = line_change_same[OF ok ok' ch lk tag]
  have state: "getCState api (m_cache_block_info_array (set_info l ?f ?s) ! l) = st"
    using li laws by (simp add: set_info_def block_laws_def)
  have data: "line_data (set_info l ?f ?s) l = line_data ?s l" by (simp add: line_data_def)
  have "data_cache api geo a ?c'"
    using dc same(1) state st i unfolding data_cache_def sets
    by (auto simp: block_at_def sets dest!: set_update_subset_insert[THEN subsetD])
  then show ?thesis
    using ok' line_change_others[OF ok ok' ch lk] tag same state data lk by (simp add: data_of_def)
qed

text \<open>An invalidation.\<close>

lemma invalidate_block:
  fixes c :: "('b, 'r, 'p, 'g) cache"
  assumes laws: "inval_laws api itag" and ok: "cache_ok api itag rp_ok geo c" and dc: "data_cache api geo a c"
    and lk: "lookup api geo a c = Some (i, l)"
  shows "\<exists>c'. invalidateSingleLine api geo a c = Inr (True, c') \<and> cache_ok api itag rp_ok geo c' \<and>
    others_same api geo a c c' \<and> lookup api geo a c' = None \<and> data_cache api geo a c' \<and>
    getCState api (block_at c' (i, l)) = INVALID"
proof -
  obtain t off where sp: "splitAddress geo a = (t, i, off)" and hit: "find_line api t (m_sets c ! i) = Some l"
    using lookup_find[OF lk] .
  let ?s = "m_sets c ! i" and ?f = "bi_invalidate api"
  let ?c' = "upd_cache_block (i, l) ?f c"
  have wf: "cache_wf geo rp_ok c" using ok by (simp add: cache_ok_def)
  have i: "i < length (m_sets c)" using cache_wf_split[OF wf sp] by simp
  have run: "invalidateSingleLine api geo a c = Inr (True, ?c')"
    using sp hit i by (simp add: invalidateSingleLine_def invalidate_line_def upd_cache_block_def)
  have sets: "m_sets ?c' = (m_sets c)[i := set_info l ?f ?s]" by (simp add: upd_cache_block_sets)
  have li: "l < length (m_cache_block_info_array ?s)"
    using lookup_Some_iff[OF ok sp, of i l] lk cache_wf_set[OF wf i] by (simp add: cset_wf_def)
  then have new: "m_cache_block_info_array (set_info l ?f ?s) ! l = ?f (m_cache_block_info_array ?s ! l)"
    by (simp add: set_info_def)
  have tag: "getTag api (m_cache_block_info_array (set_info l ?f ?s) ! l) = itag"
    using laws new by (simp add: inval_laws_def)
  have others: "k \<noteq> l \<Longrightarrow> m_cache_block_info_array (set_info l ?f ?s) ! k = m_cache_block_info_array ?s ! k" for k
    by (simp add: set_info_def)
  have "unique_tags api itag (set_info l ?f ?s)"
    using cache_ok_set[OF ok i] tag others unfolding unique_tags_def set_info_sel by metis
  then have ok': "cache_ok api itag rp_ok geo ?c'"
    using cache_ok_update[OF ok upd_cache_block_wf[OF wf] sets] i by simp
  note ch = upd_line_change[OF i, of l ?f]
  note drop = line_change_drop[OF ok ok' ch lk tag]
  have "data_cache api geo a ?c'"
    using dc drop(1) i unfolding data_cache_def sets by (auto dest!: set_update_subset_insert[THEN subsetD])
  moreover have "getCState api (block_at ?c' (i, l)) = INVALID"
    using new laws i by (simp add: block_at_def sets inval_laws_def)
  ultimately show ?thesis
    using run ok' line_change_others[OF ok ok' ch lk] tag drop(1) by auto
qed

end
