(* ===== verification/Cache_Cntlr_Directory.thy ===== *)
theory Cache_Cntlr_Directory
  imports Cache_Cntlr_Requests
begin

text \<open>
  Messages from the directory, handled by the network thread: \<open>handleMsgFromDramDirectory\<close> and the
  six message types. After a reply every waiting controller is woken in turn; \<open>user j\<close> is what the
  user thread of controller \<open>j\<close> does between \<open>wakeUpUserThread\<close> and the signal that ends
  \<open>waitForUserThread\<close>. It may queue more waiters, so the loop takes a number of turns.
\<close>

definition processExRepFromDramDirectory ::
  "('b, 'p, 'g, 'm) cc_env \<Rightarrow> nat \<Rightarrow> int \<Rightarrow> shmem_msg \<Rightarrow> (('b, 'r, 'p, 'g, 'm) hier, unit) op" where
  "processExRepFromDramDirectory env i requester msg =
     bindS (insertCacheBlock env i (msg_address msg) EXCLUSIVE (msg_data msg) requester SIM_THREAD) (\<lambda>p. retS ())"

definition processShRepFromDramDirectory ::
  "('b, 'p, 'g, 'm) cc_env \<Rightarrow> nat \<Rightarrow> int \<Rightarrow> shmem_msg \<Rightarrow> (('b, 'r, 'p, 'g, 'm) hier, unit) op" where
  "processShRepFromDramDirectory env i requester msg =
     bindS (insertCacheBlock env i (msg_address msg) SHARED (msg_data msg) requester SIM_THREAD) (\<lambda>p. retS ())"

definition processUpgradeRepFromDramDirectory ::
  "('b, 'p, 'g, 'm) cc_env \<Rightarrow> nat \<Rightarrow> shmem_msg \<Rightarrow> (('b, 'r, 'p, 'g, 'm) hier, unit) op" where
  "processUpgradeRepFromDramDirectory env i msg =
     bindS (getCacheState env i (msg_address msg)) (\<lambda>st.
     if st = INVALID then
       seqS (assertS (LogAssert ''Trying to upgrade a block that is now INV and no data in the shmem_msg'')
               (msg_data msg \<noteq> None))
         (bindS (updateCacheBlock (e_depth env) env i (msg_address msg) MODIFIED UPGRADE True SIM_THREAD) (\<lambda>r. retS ()))
     else if st = SHARED_UPGRADING then
       bindS (updateCacheBlock (e_depth env) env i (msg_address msg) MODIFIED UPGRADE False SIM_THREAD) (\<lambda>r. retS ())
     else failS (LogError ''Trying to upgrade a block that is not SHARED_UPGRADING''))"

text \<open>What the invalidate, flush and write-back requests share: the timing before, the state change
  \<open>act\<close>, which gives the content of the reply's buffer, and the reply.\<close>

definition answer_request ::
  "('b, 'p, 'g, 'm) cc_env \<Rightarrow> nat \<Rightarrow> int \<Rightarrow> shmem_msg \<Rightarrow> cache_access \<Rightarrow> perf_reason \<Rightarrow> msg_t \<Rightarrow>
   (('b, 'r, 'p, 'g, 'm) hier, bufptr) op \<Rightarrow> (('b, 'r, 'p, 'g, 'm) hier, unit) op" where
  "answer_request env i sender msg acc why reply act =
     bindS (getElapsedTime i SIM_THREAD) (\<lambda>t.
     seqS (ext (PerfUpdate (msg_perf msg) t PERF_UNKNOWN))
    (seqS (incrAccessTime env i acc SIM_THREAD)
    (bindS act (\<lambda>data.
     bindS (getElapsedTime i SIM_THREAD) (\<lambda>t.
     seqS (ext (PerfUpdate (msg_perf msg) t why))
    (bindS (cntlr_of i) (\<lambda>c.
       sendMsg i reply LAST_LEVEL_CACHE TAG_DIR (msg_requester msg) sender (msg_address msg) data
         (if data = None then 0 else m_cache_block_size c) UNKNOWN (msg_perf msg) SIM_THREAD)))))))"

definition processInvReqFromDramDirectory ::
  "('b, 'p, 'g, 'm) cc_env \<Rightarrow> nat \<Rightarrow> int \<Rightarrow> shmem_msg \<Rightarrow> (('b, 'r, 'p, 'g, 'm) hier, unit) op" where
  "processInvReqFromDramDirectory env i sender msg =
     bindS (getCacheState env i (msg_address msg)) (\<lambda>st.
     if st \<noteq> INVALID then
       answer_request env i sender msg ACCESS_CACHE_TAGS REMOTE_CACHE_INV INV_REP
         (bindS (updateCacheBlock (e_depth env) env i (msg_address msg) INVALID COHERENCY False SIM_THREAD)
           (\<lambda>r. retS None))
     else incrAccessTime env i ACCESS_CACHE_TAGS SIM_THREAD)"

definition processFlushReqFromDramDirectory ::
  "('b, 'p, 'g, 'm) cc_env \<Rightarrow> nat \<Rightarrow> int \<Rightarrow> shmem_msg \<Rightarrow> (('b, 'r, 'p, 'g, 'm) hier, unit) op" where
  "processFlushReqFromDramDirectory env i sender msg =
     bindS (getCacheState env i (msg_address msg)) (\<lambda>st.
     if st \<noteq> INVALID then
       answer_request env i sender msg ACCESS_CACHE_DATA_AND_TAGS REMOTE_CACHE_WB FLUSH_REP
         (bindS (updateCacheBlock (e_depth env) env i (msg_address msg) INVALID COHERENCY True SIM_THREAD)
           (\<lambda>(lat, hit, d). retS (Some d)))
     else incrAccessTime env i ACCESS_CACHE_TAGS SIM_THREAD)"

text \<open>In state \<open>SHARED_UPGRADING\<close> the reply carries a buffer nobody has written.\<close>

definition processWbReqFromDramDirectory ::
  "('b, 'p, 'g, 'm) cc_env \<Rightarrow> nat \<Rightarrow> int \<Rightarrow> shmem_msg \<Rightarrow> (('b, 'r, 'p, 'g, 'm) hier, unit) op" where
  "processWbReqFromDramDirectory env i sender msg =
     bindS (getCacheState env i (msg_address msg)) (\<lambda>st.
     if st \<noteq> INVALID then
       answer_request env i sender msg ACCESS_CACHE_DATA_AND_TAGS REMOTE_CACHE_FWD WB_REP
         (if st \<noteq> SHARED_UPGRADING then
            bindS (updateCacheBlock (e_depth env) env i (msg_address msg) SHARED COHERENCY True SIM_THREAD)
              (\<lambda>(lat, hit, d). retS (Some d))
          else retS (Some None))
     else
       seqS (incrAccessTime env i ACCESS_CACHE_TAGS SIM_THREAD)
         (bindS (getElapsedTime i SIM_THREAD) (\<lambda>t. ext (PerfUpdate (msg_perf msg) t REMOTE_CACHE_WB))))"

section \<open>Waking the waiters\<close>

definition dequeue_waiter :: "u64 \<Rightarrow> ('b, 'r, 'p, 'g) master \<Rightarrow> ('b, 'r, 'p, 'g) master" where
  "dequeue_waiter address m = m\<lparr>m_directory_waiters := (m_directory_waiters m)
     (address := tl (m_directory_waiters m address))\<rparr>"

definition wake_waiter ::
  "('b, 'p, 'g, 'm) cc_env \<Rightarrow> (nat \<Rightarrow> (('b, 'r, 'p, 'g, 'm) hier, unit) op) \<Rightarrow> nat \<Rightarrow> u64 \<Rightarrow> where_t \<Rightarrow> waiter \<Rightarrow>
   (('b, 'r, 'p, 'g, 'm) hier, unit) op" where
  "wake_waiter env user i address wh r =
     seqS (whenS (w_isPrefetch r) (setBlockOption env i address PREFETCH))
    (bindS (getElapsedTime (w_cntlr r) USER_THREAD) (\<lambda>t_core.
     bindS (getElapsedTime i SIM_THREAD) (\<lambda>t_here.
     seqS (whenS (t_here > t_core) (setElapsedTime (w_cntlr r) USER_THREAD t_here))
    (seqS (updateUncoreStatistics env (w_cntlr r) wh t_here)
    (seqS (wakeUpUserThread (w_cntlr r))
    (seqS (user (w_cntlr r))
    (seqS (waitForUserThread (w_cntlr r))
    (seqS (acquireStackLock env i address False)
    (bindS (getElapsedTime i SIM_THREAD) (\<lambda>t.
     seqS (put_mshr (w_cntlr r) address (w_t_issue r) t)
    (seqS (cleanupMshr env i)
       (upd_master i (dequeue_waiter address)))))))))))))"

text \<open>The result tells whether the loop ran to its end; when it stopped to send an upgrade request the
  stack lock is released already.\<close>

primrec wake_waiters ::
  "nat \<Rightarrow> ('b, 'p, 'g, 'm) cc_env \<Rightarrow> (nat \<Rightarrow> (('b, 'r, 'p, 'g, 'm) hier, unit) op) \<Rightarrow> nat \<Rightarrow> u64 \<Rightarrow> where_t \<Rightarrow>
   (('b, 'r, 'p, 'g, 'm) hier, bool) op" where
  "wake_waiters 0 = (\<lambda>env user i address wh. failS OutOfFuel)"
| "wake_waiters (Suc turns) = (\<lambda>env user i address wh.
     bindS (master_of i) (\<lambda>m.
     case m_directory_waiters m address of
       [] \<Rightarrow> retS True
     | r # rs \<Rightarrow>
         bindS (getElapsedTime i SIM_THREAD) (\<lambda>t.
         seqS (ext (PerfUpdate (OwnPerf (w_cntlr r)) t PENDING_HIT))
        (bindS (getCacheState env i address) (\<lambda>st.
         if w_exclusive r \<and> st = SHARED then
           seqS (processUpgradeReqToDirectory env i address (OwnPerf (w_cntlr r)) SIM_THREAD)
          (seqS (releaseStackLock env i address False) (retS False))
         else
           seqS (wake_waiter env user i address wh r) (wake_waiters turns env user i address wh))))))"

definition is_reply :: "msg_t \<Rightarrow> bool" where
  "is_reply ty \<longleftrightarrow> ty = EX_REP \<or> ty = SH_REP \<or> ty = UPGRADE_REP"

definition process_msg ::
  "('b, 'p, 'g, 'm) cc_env \<Rightarrow> nat \<Rightarrow> int \<Rightarrow> int \<Rightarrow> shmem_msg \<Rightarrow> (('b, 'r, 'p, 'g, 'm) hier, unit) op" where
  "process_msg env i sender requester msg =
     (case msg_type msg of
        EX_REP \<Rightarrow> processExRepFromDramDirectory env i requester msg
      | SH_REP \<Rightarrow> processShRepFromDramDirectory env i requester msg
      | UPGRADE_REP \<Rightarrow> processUpgradeRepFromDramDirectory env i msg
      | INV_REQ \<Rightarrow> processInvReqFromDramDirectory env i sender msg
      | FLUSH_REQ \<Rightarrow> processFlushReqFromDramDirectory env i sender msg
      | WB_REQ \<Rightarrow> processWbReqFromDramDirectory env i sender msg
      | _ \<Rightarrow> failS (LogError ''Unrecognized msg type''))"

definition handleMsgFromDramDirectory ::
  "nat \<Rightarrow> ('b, 'p, 'g, 'm) cc_env \<Rightarrow> (nat \<Rightarrow> (('b, 'r, 'p, 'g, 'm) hier, unit) op) \<Rightarrow> nat \<Rightarrow> int \<Rightarrow> shmem_msg \<Rightarrow>
   (('b, 'r, 'p, 'g, 'm) hier, unit) op" where
  "handleMsgFromDramDirectory turns env user i sender msg =
     bindS (if is_reply (msg_type msg) then
              bindS (master_of i) (\<lambda>m.
              case m_directory_waiters m (msg_address msg) of
                [] \<Rightarrow> failS NullPointer
              | r # rs \<Rightarrow> getS (\<lambda>s. m_core_id (cntlrs s (w_cntlr r))))
            else retS (e_invalid_core env)) (\<lambda>requester.
     seqS (acquireStackLock env i (msg_address msg) False)
    (seqS (process_msg env i sender requester msg)
    (bindS (if is_reply (msg_type msg)
            then wake_waiters turns env user i (msg_address msg) (msg_where msg) else retS True) (\<lambda>locked.
       whenS locked (releaseStackLock env i (msg_address msg) False)))))"

end
