(* ===== verification/Cache_Coherence.thy ===== *)
theory Cache_Coherence
  imports Cache_View Cache_Cntlr_Directory
begin

text \<open>
  Coherence of the levels: what \<open>updateCacheBlock\<close> (\<open>Cache_Cntlr_Block\<close>) does to one block in all the
  caches below a controller. The concrete run is related to a function on views, a state and data per
  cache (\<open>collect\<close>), which in turn keeps the freshest data (\<open>fresh\<close>): the last modified copy on the way
  down. The properties at the end are those of the requests of the directory.

  Controllers of one cache and its previous levels form a tree (\<open>ctree\<close>, \<open>tree_ok\<close>); the theorems are
  about caches that are coherent, not write-through and keep data, and about a block without
  approximate bytes, so that no fault is injected into it.
\<close>

section \<open>One block in all caches\<close>

type_synonym view = "nat \<Rightarrow> cstate \<times> bytes option"

definition master_view ::
  "('b, 'p, 'g, 'm) cc_env \<Rightarrow> u64 \<Rightarrow> ('b, 'r, 'p, 'g) master \<Rightarrow> cstate \<times> bytes option" where
  "master_view env a m = (state_of (e_api env) (m_geo m) a (m_cache m), data_of (e_api env) (m_geo m) a (m_cache m))"

definition ready ::
  "('b, 'p, 'g, 'm) cc_env \<Rightarrow> u64 \<Rightarrow> (nat \<Rightarrow> 'r \<Rightarrow> bool) \<Rightarrow> u64 \<Rightarrow> nat \<Rightarrow> ('b, 'r, 'p, 'g) master \<Rightarrow> bool" where
  "ready env itag rp_ok a n m \<longleftrightarrow> cache_ok (e_api env) itag rp_ok (m_geo m) (m_cache m) \<and>
     data_cache (e_api env) (m_geo m) a (m_cache m) \<and> c_blocksize (m_cache m) = n \<and>
     snd (snd (splitAddress (m_geo m) a)) = 0 \<and> m_evicting_buf m = None"

text \<open>Nothing but the block \<open>a\<close>, statistics and access counts changed.\<close>

definition only_block ::
  "('b, 'p, 'g, 'm) cc_env \<Rightarrow> u64 \<Rightarrow> ('b, 'r, 'p, 'g, 'm) hier \<Rightarrow> ('b, 'r, 'p, 'g, 'm) hier \<Rightarrow> bool" where
  "only_block env a s s' \<longleftrightarrow>
     (\<forall>i. (cntlrs s' i)\<lparr>stats := zero_stats\<rparr> = (cntlrs s i)\<lparr>stats := zero_stats\<rparr>) \<and>
     (\<forall>k. (masters s' k)\<lparr>m_cache := m_cache (masters s k)\<rparr> = masters s k \<and>
        others_same (e_api env) (m_geo (masters s k)) a (m_cache (masters s k)) (m_cache (masters s' k))) \<and>
     clock s' = clock s \<and> h_dram s' = h_dram s \<and> trace s' = trace s \<and>
     (\<forall>e. is_approx e (h_rg s') = is_approx e (h_rg s))"

definition block_sim ::
  "('b, 'p, 'g, 'm) cc_env \<Rightarrow> u64 \<Rightarrow> (nat \<Rightarrow> 'r \<Rightarrow> bool) \<Rightarrow> u64 \<Rightarrow> nat \<Rightarrow> nat set \<Rightarrow>
   ('b, 'r, 'p, 'g, 'm) hier \<Rightarrow> view \<Rightarrow> ('b, 'r, 'p, 'g, 'm) hier \<Rightarrow> bool" where
  "block_sim env itag rp_ok a n K s0 v s \<longleftrightarrow> only_block env a s0 s \<and>
     \<not> is_block_approx a (of_nat n) (h_rg s0) \<and> inval_laws (e_api env) itag \<and>
     (\<forall>k\<in>K. ready env itag rp_ok a n (masters s k) \<and> master_view env a (masters s k) = v k)"

lemma only_block_cntlr:
  assumes "only_block env a s s'"
  shows "m_master (cntlrs s' i) = m_master (cntlrs s i)" "m_next (cntlrs s' i) = m_next (cntlrs s i)"
    "m_coherent (cntlrs s' i) = m_coherent (cntlrs s i)"
    "m_cache_writethrough (cntlrs s' i) = m_cache_writethrough (cntlrs s i)"
    "m_cache_block_size (cntlrs s' i) = m_cache_block_size (cntlrs s i)"
    "m_core_id (cntlrs s' i) = m_core_id (cntlrs s i)"
proof -
  have e: "(cntlrs s' i)\<lparr>stats := zero_stats\<rparr> = (cntlrs s i)\<lparr>stats := zero_stats\<rparr>"
    using assms by (simp add: only_block_def)
  show "m_master (cntlrs s' i) = m_master (cntlrs s i)" "m_next (cntlrs s' i) = m_next (cntlrs s i)"
    "m_coherent (cntlrs s' i) = m_coherent (cntlrs s i)"
    "m_cache_writethrough (cntlrs s' i) = m_cache_writethrough (cntlrs s i)"
    "m_cache_block_size (cntlrs s' i) = m_cache_block_size (cntlrs s i)"
    "m_core_id (cntlrs s' i) = m_core_id (cntlrs s i)"
    using arg_cong[OF e, of m_master] arg_cong[OF e, of m_next] arg_cong[OF e, of m_coherent]
      arg_cong[OF e, of m_cache_writethrough] arg_cong[OF e, of m_cache_block_size]
      arg_cong[OF e, of m_core_id] by simp_all
qed

lemma only_block_master:
  assumes "only_block env a s s'"
  shows "m_geo (masters s' k) = m_geo (masters s k)" "m_policy (masters s' k) = m_policy (masters s k)"
    "m_prev_cache_cntlrs (masters s' k) = m_prev_cache_cntlrs (masters s k)"
    "m_evicting_buf (masters s' k) = m_evicting_buf (masters s k)"
proof -
  have e: "(masters s' k)\<lparr>m_cache := m_cache (masters s k)\<rparr> = masters s k"
    using assms by (simp add: only_block_def)
  show "m_geo (masters s' k) = m_geo (masters s k)" "m_policy (masters s' k) = m_policy (masters s k)"
    "m_prev_cache_cntlrs (masters s' k) = m_prev_cache_cntlrs (masters s k)"
    "m_evicting_buf (masters s' k) = m_evicting_buf (masters s k)"
    using arg_cong[OF e, of m_geo] arg_cong[OF e, of m_policy] arg_cong[OF e, of m_prev_cache_cntlrs]
      arg_cong[OF e, of m_evicting_buf] by simp_all
qed

lemma only_block_refl: "only_block env a s s"
  by (simp add: only_block_def)

lemma only_block_trans:
  assumes "only_block env a s t" "only_block env a t u"
  shows "only_block env a s u"
proof -
  have m: "(masters u k)\<lparr>m_cache := m_cache (masters s k)\<rparr> = masters s k" for k
  proof -
    have 1: "(masters t k)\<lparr>m_cache := m_cache (masters s k)\<rparr> = masters s k"
      and 2: "(masters u k)\<lparr>m_cache := m_cache (masters t k)\<rparr> = masters t k"
      using assms by (simp_all add: only_block_def)
    show ?thesis using arg_cong[OF 2, of "\<lambda>m. m\<lparr>m_cache := m_cache (masters s k)\<rparr>"] 1 by simp
  qed
  have o: "others_same (e_api env) (m_geo (masters s k)) a (m_cache (masters s k)) (m_cache (masters u k))" for k
  proof -
    have "others_same (e_api env) (m_geo (masters s k)) a (m_cache (masters s k)) (m_cache (masters t k))"
      "others_same (e_api env) (m_geo (masters t k)) a (m_cache (masters t k)) (m_cache (masters u k))"
      using assms by (simp_all add: only_block_def)
    then show ?thesis using only_block_master(1)[OF assms(1), of k] by (simp add: others_same_trans)
  qed
  show ?thesis using assms m o by (simp add: only_block_def)
qed

text \<open>A step that changes the cache of master \<open>k\<close> at block \<open>a\<close>.\<close>

definition put_cache ::
  "nat \<Rightarrow> ('b, 'r, 'p, 'g) cache \<Rightarrow> registry \<Rightarrow> ('b, 'r, 'p, 'g, 'm) hier \<Rightarrow> ('b, 'r, 'p, 'g, 'm) hier" where
  "put_cache k c rg s = s\<lparr>h_rg := rg, masters := (masters s)(k := (masters s k)\<lparr>m_cache := c\<rparr>)\<rparr>"

lemma block_sim_put:
  assumes sim: "block_sim env itag rp_ok a n K s0 v s" and k: "k \<in> K"
    and c: "cache_ok (e_api env) itag rp_ok (m_geo (masters s k)) c"
      "others_same (e_api env) (m_geo (masters s k)) a (m_cache (masters s k)) c"
      "data_cache (e_api env) (m_geo (masters s k)) a c"
    and x: "x = (state_of (e_api env) (m_geo (masters s k)) a c, data_of (e_api env) (m_geo (masters s k)) a c)"
    and rg: "\<forall>e. is_approx e rg = is_approx e (h_rg s)"
  shows "block_sim env itag rp_ok a n K s0 (v(k := x)) (put_cache k c rg s)"
proof -
  have "only_block env a s (put_cache k c rg s)"
    using c(2) rg by (simp add: only_block_def put_cache_def)
  moreover have "ready env itag rp_ok a n (masters (put_cache k c rg s) j) \<and>
      master_view env a (masters (put_cache k c rg s) j) = (v(k := x)) j" if "j \<in> K" for j
    using sim that c x by (auto simp: block_sim_def put_cache_def ready_def master_view_def others_same_def)
  ultimately show ?thesis using sim only_block_trans unfolding block_sim_def by blast
qed

lemma block_simD:
  assumes "block_sim env itag rp_ok a n K s0 v s"
  shows "m_master (cntlrs s i) = m_master (cntlrs s0 i)" "m_next (cntlrs s i) = m_next (cntlrs s0 i)"
    "m_coherent (cntlrs s i) = m_coherent (cntlrs s0 i)"
    "m_cache_writethrough (cntlrs s i) = m_cache_writethrough (cntlrs s0 i)"
    "m_cache_block_size (cntlrs s i) = m_cache_block_size (cntlrs s0 i)"
    "m_prev_cache_cntlrs (masters s k) = m_prev_cache_cntlrs (masters s0 k)"
    "block_laws (e_api env)" "\<not> is_block_approx a (of_nat n) (h_rg s)"
  using assms only_block_cntlr[of env a s0 s i] only_block_master(3)[of env a s0 s k]
  by (auto simp: block_sim_def inval_laws_def is_block_approx_iff only_block_def is_approx_iff)

text \<open>A cache has the block with data, or nothing.\<close>

lemma view_cases:
  assumes "ready env itag rp_ok a n m"
  obtains "lookup (e_api env) (m_geo m) a (m_cache m) = None" "master_view env a m = (INVALID, None)"
  | i l x where "lookup (e_api env) (m_geo m) a (m_cache m) = Some (i, l)" "length x = n"
      "master_view env a m = (getCState (e_api env) (block_at (m_cache m) (i, l)), Some x)"
      "getCState (e_api env) (block_at (m_cache m) (i, l)) \<noteq> INVALID"
proof (cases "lookup (e_api env) (m_geo m) a (m_cache m)")
  case None
  then show ?thesis using that(1) by (simp add: master_view_def state_of_def data_of_def)
next
  case (Some p)
  obtain i l where p: "p = (i, l)" by fastforce
  obtain t off where sp: "splitAddress (m_geo m) a = (t, i, off)"
    using lookup_find Some[unfolded p] .
  have ok: "cache_ok (e_api env) itag rp_ok (m_geo m) (m_cache m)" using assms by (simp add: ready_def)
  then have wf: "cache_wf (m_geo m) rp_ok (m_cache m)" by (simp add: cache_ok_def)
  have i: "i < length (m_sets (m_cache m))" using cache_wf_split[OF wf sp] by simp
  note s = cache_wf_set[OF wf i]
  have l: "l < m_associativity (m_sets (m_cache m) ! i)"
    using lookup_Some_iff[OF ok sp, of i l] Some p by simp
  obtain b where b: "m_blocks (m_sets (m_cache m) ! i) = Some b"
    using assms i unfolding ready_def data_cache_def by force
  then obtain x where x: "line_data (m_sets (m_cache m) ! i) l = Some x" by (simp add: line_data_def)
  have "length x = n" using line_data_length[OF _ l x] s assms by (simp add: ready_def)
  moreover have "getCState (e_api env) (block_at (m_cache m) (i, l)) \<noteq> INVALID"
    using assms Some p by (simp add: ready_def data_cache_def)
  ultimately show ?thesis using that(2)[OF Some[unfolded p]] Some x p
    by (simp add: master_view_def state_of_def data_of_def)
qed

section \<open>The operations on one block\<close>

definition pos ::
  "('b, 'p, 'g, 'm) cc_env \<Rightarrow> u64 \<Rightarrow> ('b, 'r, 'p, 'g, 'm) hier \<Rightarrow> nat \<Rightarrow> (nat \<times> nat) option" where
  "pos env a s k = lookup (e_api env) (m_geo (masters s k)) a (m_cache (masters s k))"

lemma pos_cases:
  assumes "block_sim env itag rp_ok a n K s0 v s" "k \<in> K"
  obtains "pos env a s k = None" "v k = (INVALID, None)"
  | p x where "pos env a s k = Some p" "v k = (getCState (e_api env) (block_at (m_cache (masters s k)) p), Some x)"
      "fst (v k) \<noteq> INVALID" "length x = n"
proof -
  have r: "ready env itag rp_ok a n (masters s k)" and v: "v k = master_view env a (masters s k)"
    using assms by (simp_all add: block_sim_def)
  show ?thesis
    by (rule view_cases[OF r]) (use that v in \<open>auto simp: pos_def\<close>)
qed

lemma info_run:
  assumes sim: "block_sim env itag rp_ok a n K s0 v s" and k: "k \<in> K" "m_master (cntlrs s0 i) = k"
  shows "getCacheBlockInfo env i a s = Inr (pos env a s k, s)"
proof -
  have m: "my_master i s = masters s k" using block_simD(1)[OF sim, of i] k by (simp add: my_master_def)
  obtain t j off where sp: "splitAddress (m_geo (masters s k)) a = (t, j, off)" by (metis surj_pair)
  have wf: "cache_wf (m_geo (masters s k)) rp_ok (m_cache (masters s k))"
    using sim k by (simp add: block_sim_def ready_def cache_ok_def)
  have "j < length (m_sets (m_cache (masters s k)))" using cache_wf_split[OF wf sp] by simp
  then show ?thesis
    by (simp add: getCacheBlockInfo_def m peekSingleLine_def sp get_set_def pos_def lookup_def bindS_def
        liftS_def getS_def)
qed

lemma wp_info:
  assumes "block_sim env itag rp_ok a n K s0 v s" "k \<in> K" "m_master (cntlrs s0 i) = k"
  shows "wpS (getCacheBlockInfo env i a) Q s \<longleftrightarrow> Q (pos env a s k) s"
  using info_run[OF assms] by (simp add: wpS_def)

lemma wp_state_of:
  assumes sim: "block_sim env itag rp_ok a n K s0 v s" and k: "k \<in> K" "m_master (cntlrs s0 i) = k"
  shows "wpS (getCacheState_of env i (pos env a s k)) Q s \<longleftrightarrow> Q (fst (v k)) s"
proof -
  have m: "my_master i s = masters s k" using block_simD(1)[OF sim, of i] k by (simp add: my_master_def)
  show ?thesis
    by (rule pos_cases[OF sim k(1)]) (simp_all add: getCacheState_of_def wp_simps m)
qed

lemma wp_getCacheState:
  assumes sim: "block_sim env itag rp_ok a n K s0 v s" and k: "k \<in> K" "m_master (cntlrs s0 i) = k"
  shows "wpS (getCacheState env i a) Q s \<longleftrightarrow> Q (fst (v k)) s"
  by (simp add: getCacheState_def wp_simps wp_info[OF assms] wp_state_of[OF assms])

lemma put_cache_sel [simp]:
  "cntlrs (put_cache k c rg s) = cntlrs s" "h_rg (put_cache k c rg s) = rg"
  "m_cache (masters (put_cache k c rg s) k) = c"
  "m_geo (masters (put_cache k c rg s) j) = m_geo (masters s j)"
  by (simp_all add: put_cache_def)

lemma pos_put_cache:
  "pos env a (put_cache k c rg s) j =
    (if j = k then lookup (e_api env) (m_geo (masters s k)) a c else pos env a s j)"
  by (simp add: pos_def put_cache_def)

lemma pos_put_same:
  "lookup (e_api env) (m_geo (masters s k)) a c = pos env a s k \<Longrightarrow>
    pos env a (put_cache k c rg s) = pos env a s"
  by (simp add: fun_eq_iff pos_put_cache)

text \<open>The counters of a controller are not seen.\<close>

lemma wp_upd_stats:
  assumes "block_sim env itag rp_ok a n K s0 v s"
    and "\<And>t. block_sim env itag rp_ok a n K s0 v t \<Longrightarrow> masters t = masters s \<Longrightarrow> Q () t"
  shows "wpS (upd_stats i f) Q s"
proof -
  let ?t = "s\<lparr>cntlrs := (cntlrs s)(i := (cntlrs s i)\<lparr>stats := f (stats (cntlrs s i))\<rparr>)\<rparr>"
  have "only_block env a s ?t" by (simp add: only_block_def)
  then have "block_sim env itag rp_ok a n K s0 v ?t"
    using assms(1) only_block_trans by (fastforce simp: block_sim_def)
  then show ?thesis using assms(2)[of ?t] by (simp add: upd_stats_def upd_cntlr_def wp_simps)
qed

text \<open>Reading the data of the block.\<close>

lemma wp_retrieve:
  assumes sim: "block_sim env itag rp_ok a n K s0 v s" and k: "k \<in> K" "m_master (cntlrs s0 i) = k"
    and n: "m_cache_block_size (cntlrs s0 i) = n" and x: "v k = (st, Some x)"
    and Q: "\<And>t. block_sim env itag rp_ok a n K s0 v t \<Longrightarrow> pos env a t = pos env a s \<Longrightarrow> Q (Some x) t"
  shows "wpS (retrieveCacheBlock env i a False) Q s"
proof -
  let ?m = "masters s k"
  have m: "my_master i s = ?m" and mi: "m_master (cntlrs s i) = k" "m_cache_block_size (cntlrs s i) = n"
    using block_simD(1,5)[OF sim, of i] k n by (simp_all add: my_master_def)
  have r: "ready env itag rp_ok a n ?m" and v: "master_view env a ?m = v k"
    using sim k by (simp_all add: block_sim_def)
  obtain j l where p: "lookup (e_api env) (m_geo ?m) a (m_cache ?m) = Some (j, l)"
    by (rule pos_cases[OF sim k(1)]) (use x in \<open>auto simp: pos_def\<close>)
  have d: "data_of (e_api env) (m_geo ?m) a (m_cache ?m) = Some x" using v x by (simp add: master_view_def)
  have ok: "cache_ok (e_api env) itag rp_ok (m_geo ?m) (m_cache ?m)" using r by (simp add: ready_def)
  have al: "snd (snd (splitAddress (m_geo ?m) a)) = 0" and nn: "n = c_blocksize (m_cache ?m)"
    using r by (simp_all add: ready_def)
  obtain rg c where run: "accessSingleLine (e_api env) (m_geo ?m) (m_policy ?m) (e_sample env) a LOAD None True n
        False (h_rg s) (m_cache ?m) = Inr (Some (j, l), Some x, rg, c)"
    and c: "cache_ok (e_api env) itag rp_ok (m_geo ?m) c" "m_sets c = m_sets (m_cache ?m)"
      "c_blocksize c = c_blocksize (m_cache ?m)" "\<forall>e. is_approx e rg = is_approx e (h_rg s)"
    using load_block[OF ok d p al nn block_simD(8)[OF sim], where rp = "m_policy ?m" and sample = "e_sample env" and y = None]
    by blast
  let ?t = "put_cache k c rg s"
  have st: "(state_of (e_api env) (m_geo ?m) a c, data_of (e_api env) (m_geo ?m) a c) = v k"
    using same_sets_view(2,3)[OF c(2)] v by (simp add: master_view_def)
  have simt: "block_sim env itag rp_ok a n K s0 v ?t"
    using block_sim_put[OF sim k(1) c(1) same_sets_others[OF c(2,3)] _ st[symmetric] c(4)]
      same_sets_view(4)[OF c(2)] r by (simp add: ready_def)
  have "pos env a ?t = pos env a s"
    using same_sets_view(1)[OF c(2)] by (intro pos_put_same) (simp add: pos_def)
  then show ?thesis
    using Q[OF simt] run
    by (simp add: retrieveCacheBlock_def access_line_def wp_simps m mi my_master_def upd_master_def put_cache_def)
qed

text \<open>Writing it in the next level, which must have it \<open>MODIFIED\<close>.\<close>

lemma wp_write:
  assumes sim: "block_sim env itag rp_ok a n K s0 v s" and k: "k \<in> K" "m_master (cntlrs s0 j) = k"
    and wt: "\<not> m_cache_writethrough (cntlrs s0 j)" and st: "fst (v k) = MODIFIED" and x: "length x = n"
    and Q: "\<And>t. block_sim env itag rp_ok a n K s0 (v(k := (MODIFIED, Some x))) t \<Longrightarrow>
      pos env a t = pos env a s \<Longrightarrow> Q () t"
  shows "wpS (writeCacheBlock (Suc f) env j a 0 (Some (Some x)) n th) Q s"
proof -
  let ?m = "masters s k"
  have m: "my_master j s = ?m" and mj: "m_master (cntlrs s j) = k" "\<not> m_cache_writethrough (cntlrs s j)"
    using block_simD(1,4)[OF sim, of j] k wt by (simp_all add: my_master_def)
  have r: "ready env itag rp_ok a n ?m" and v: "master_view env a ?m = v k"
    using sim k by (simp_all add: block_sim_def)
  obtain i l where p: "lookup (e_api env) (m_geo ?m) a (m_cache ?m) = Some (i, l)"
    and b: "getCState (e_api env) (block_at (m_cache ?m) (i, l)) = MODIFIED"
    by (rule pos_cases[OF sim k(1)]) (use st in \<open>auto simp: pos_def\<close>)
  have ok: "cache_ok (e_api env) itag rp_ok (m_geo ?m) (m_cache ?m)"
    and dc: "data_cache (e_api env) (m_geo ?m) a (m_cache ?m)"
    and al: "snd (snd (splitAddress (m_geo ?m) a)) = 0" and nn: "length x = c_blocksize (m_cache ?m)"
    and ev: "m_evicting_buf ?m = None"
    using r x by (simp_all add: ready_def)
  have ex: "\<not> is_block_approx a (of_nat (length x)) (h_rg s)" using block_simD(8)[OF sim] x by simp
  obtain rg c where run: "accessSingleLine (e_api env) (m_geo ?m) (m_policy ?m) (e_sample env) a STORE (Some x) False
        n False (h_rg s) (m_cache ?m) = Inr (Some (i, l), None, rg, c)"
    and c: "cache_ok (e_api env) itag rp_ok (m_geo ?m) c"
      "others_same (e_api env) (m_geo ?m) a (m_cache ?m) c"
      "lookup (e_api env) (m_geo ?m) a c = Some (i, l)" "block_at c (i, l) = block_at (m_cache ?m) (i, l)"
      "data_of (e_api env) (m_geo ?m) a c = Some x" "data_cache (e_api env) (m_geo ?m) a c"
      "\<forall>e. is_approx e rg = is_approx e (h_rg s)"
    using store_block[OF ok dc p al nn ex, where rp = "m_policy ?m" and sample = "e_sample env" and want = False]
    unfolding x by blast
  let ?t = "put_cache k c rg s"
  have new: "(MODIFIED, Some x) = (state_of (e_api env) (m_geo ?m) a c, data_of (e_api env) (m_geo ?m) a c)"
    using c b by (simp add: state_of_def)
  have "pos env a ?t = pos env a s" using c(3) p by (intro pos_put_same) (simp add: pos_def)
  then show ?thesis
    using Q[OF block_sim_put[OF sim k(1) c(1,2,6) new c(7)]] run m mj ev b c(4)
    by (simp add: access_line_def wp_simps my_master_def upd_master_def put_cache_def buf_bytes_def)
qed

text \<open>A new state.\<close>

lemma wp_set_state:
  assumes sim: "block_sim env itag rp_ok a n K s0 v s" and k: "k \<in> K" "m_master (cntlrs s0 i) = k"
    and p: "pos env a s k = Some p" and st: "st \<noteq> INVALID"
    and Q: "\<And>t. block_sim env itag rp_ok a n K s0 (v(k := (st, snd (v k)))) t \<Longrightarrow>
      pos env a t = pos env a s \<Longrightarrow> Q () t"
  shows "wpS (upd_block i p (setCState (e_api env) st)) Q s"
proof -
  let ?m = "masters s k"
  have mi: "m_master (cntlrs s i) = k" using block_simD(1)[OF sim, of i] k by simp
  have r: "ready env itag rp_ok a n ?m" and v: "master_view env a ?m = v k"
    using sim k by (simp_all add: block_sim_def)
  obtain j l where jl: "p = (j, l)" by fastforce
  have lk: "lookup (e_api env) (m_geo ?m) a (m_cache ?m) = Some (j, l)" using p jl by (simp add: pos_def)
  have ok: "cache_ok (e_api env) itag rp_ok (m_geo ?m) (m_cache ?m)"
    and dc: "data_cache (e_api env) (m_geo ?m) a (m_cache ?m)"
    using r by (simp_all add: ready_def)
  let ?c = "upd_cache_block (j, l) (setCState (e_api env) st) (m_cache ?m)"
  have c: "cache_ok (e_api env) itag rp_ok (m_geo ?m) ?c"
      "others_same (e_api env) (m_geo ?m) a (m_cache ?m) ?c"
      "lookup (e_api env) (m_geo ?m) a ?c = Some (j, l)" "state_of (e_api env) (m_geo ?m) a ?c = st"
      "data_of (e_api env) (m_geo ?m) a ?c = data_of (e_api env) (m_geo ?m) a (m_cache ?m)"
      "data_cache (e_api env) (m_geo ?m) a ?c"
    using set_state_block[OF block_simD(7)[OF sim] ok dc lk st] by simp_all
  let ?t = "put_cache k ?c (h_rg s) s"
  have new: "(st, snd (v k)) = (state_of (e_api env) (m_geo ?m) a ?c, data_of (e_api env) (m_geo ?m) a ?c)"
    using c(4,5) v by (simp add: master_view_def flip: v)
  have "pos env a ?t = pos env a s" using c(3) lk by (intro pos_put_same) (simp add: pos_def)
  with Q[OF block_sim_put[OF sim k(1) c(1,2,6) new]] have "Q () ?t" by simp
  then show ?thesis
    using mi jl
    by (simp add: upd_block_def upd_master_def wp_simps my_master_def put_cache_def)
qed

text \<open>An invalidation. The pointer \<open>p\<close> stays valid and its block is \<open>INVALID\<close>.\<close>

lemma wp_invalidate:
  assumes sim: "block_sim env itag rp_ok a n K s0 v s" and k: "k \<in> K" "m_master (cntlrs s0 i) = k"
    and p: "pos env a s k = Some p" and st: "fst (v k) \<noteq> MODIFIED"
    and Q: "\<And>t. block_sim env itag rp_ok a n K s0 (v(k := (INVALID, None))) t \<Longrightarrow>
      pos env a t = (pos env a s)(k := None) \<Longrightarrow>
      getCState (e_api env) (block_at (m_cache (my_master i t)) p) = INVALID \<Longrightarrow> Q () t"
  shows "wpS (invalidateCacheBlock env i a) Q s"
proof -
  let ?m = "masters s k"
  have m: "my_master i s = ?m" and mi: "m_master (cntlrs s i) = k"
    using block_simD(1)[OF sim, of i] k by (simp_all add: my_master_def)
  have r: "ready env itag rp_ok a n ?m" and v: "master_view env a ?m = v k"
    using sim k by (simp_all add: block_sim_def)
  obtain j l where jl: "p = (j, l)" by fastforce
  have lk: "lookup (e_api env) (m_geo ?m) a (m_cache ?m) = Some (j, l)" using p jl by (simp add: pos_def)
  have ok: "cache_ok (e_api env) itag rp_ok (m_geo ?m) (m_cache ?m)"
    and dc: "data_cache (e_api env) (m_geo ?m) a (m_cache ?m)"
    and laws: "inval_laws (e_api env) itag"
    using r sim by (simp_all add: ready_def block_sim_def)
  obtain c where c: "invalidateSingleLine (e_api env) (m_geo ?m) a (m_cache ?m) = Inr (True, c)"
      "cache_ok (e_api env) itag rp_ok (m_geo ?m) c" "others_same (e_api env) (m_geo ?m) a (m_cache ?m) c"
      "lookup (e_api env) (m_geo ?m) a c = None" "data_cache (e_api env) (m_geo ?m) a c"
      "getCState (e_api env) (block_at c (j, l)) = INVALID"
    using invalidate_block[OF laws ok dc lk] by blast
  let ?t = "put_cache k c (h_rg s) s"
  have new: "(INVALID, None) = (state_of (e_api env) (m_geo ?m) a c, data_of (e_api env) (m_geo ?m) a c)"
    using c(4) by (simp add: state_of_def data_of_def)
  have "pos env a ?t = (pos env a s)(k := None)"
    using c(4) by (simp add: fun_eq_iff pos_put_cache)
  with Q[OF block_sim_put[OF sim k(1) c(2,3,5) new]] have Qt: "Q () ?t"
    using c(6) mi jl by (simp add: my_master_def)
  have "fst (v k) \<noteq> INVALID" by (rule pos_cases[OF sim k(1)]) (use p in auto)
  then show ?thesis
    using Qt st c(1) m mi
    by (cases "m_next (cntlrs s i)")
       (auto simp: invalidateCacheBlock_def wp_simps wp_getCacheState[OF sim k] upd_master_def my_master_def
          put_cache_def notifyPrevLevelEvict_def)
qed

section \<open>Giving up a block\<close>

text \<open>What a cache does with its own copy when it must go to \<open>INVALID\<close> or \<open>SHARED\<close>: modified data
  moves to the next level.\<close>

definition give_up :: "cstate \<Rightarrow> nat option \<Rightarrow> nat \<Rightarrow> view \<Rightarrow> view" where
  "give_up ns parent k v =
     (if fst (v k) = INVALID then v
      else (case parent of
              Some p \<Rightarrow> if fst (v k) = MODIFIED then v(p := (fst (v p), snd (v k))) else v
            | None \<Rightarrow> v)
           (k := if ns = INVALID then (INVALID, None) else (ns, snd (v k))))"

text \<open>The next level of a controller: the master of \<open>m_next\<close>, which takes its modified data.\<close>

definition next_ok ::
  "nat set \<Rightarrow> ('b, 'r, 'p, 'g, 'm) hier \<Rightarrow> nat \<Rightarrow> nat option \<Rightarrow> bool" where
  "next_ok K s i parent \<longleftrightarrow>
     (case m_next (cntlrs s i) of
        None \<Rightarrow> parent = None
      | Some j \<Rightarrow> parent = Some (m_master (cntlrs s j)) \<and> m_master (cntlrs s j) \<in> K \<and>
          m_master (cntlrs s j) \<noteq> m_master (cntlrs s i) \<and> \<not> m_cache_writethrough (cntlrs s j))"

definition level_ok :: "nat \<Rightarrow> ('b, 'r, 'p, 'g, 'm) hier \<Rightarrow> nat \<Rightarrow> bool" where
  "level_ok n s i \<longleftrightarrow> m_cache_block_size (cntlrs s i) = n \<and> m_coherent (cntlrs s i) \<and>
     \<not> m_cache_writethrough (cntlrs s i)"

lemma wp_upd_info:
  "wpS (cntlr_of i) Q s \<longleftrightarrow> Q (cntlrs s i) s" "wpS (master_of i) R s \<longleftrightarrow> R (my_master i s) s"
  "wpS (block_of i p) T s \<longleftrightarrow> T (block_at (m_cache (my_master i s)) p) s"
  by (simp_all add: wp_simps)

lemma wp_copy_to_out:
  assumes sim: "block_sim env itag rp_ok a n K s0 v s" and k: "k \<in> K" "m_master (cntlrs s0 i) = k"
    and n: "m_cache_block_size (cntlrs s0 i) = n" and x: "v k = (st, Some x)"
    and Q: "\<And>t. block_sim env itag rp_ok a n K s0 v t \<Longrightarrow> pos env a t = pos env a s \<Longrightarrow>
      Q (if out then wrote (Some x) u else u) t"
  shows "wpS (copy_to_out env i a out u) Q s"
proof (cases out)
  case True
  then show ?thesis
    unfolding copy_to_out_def using Q
    by (auto simp: wp_simps intro!: wp_retrieve[OF sim k n x])
next
  case False
  then show ?thesis using Q[OF sim] by (simp add: copy_to_out_def wp_simps)
qed

lemma wp_write_back:
  assumes sim: "block_sim env itag rp_ok a n K s0 v s" and k: "k \<in> K" "m_master (cntlrs s0 i) = k"
    and lev: "level_ok n s0 i" and nxt: "next_ok K s0 i parent" and depth: "0 < e_depth env"
    and p: "pos env a s k = Some p" and x: "v k = (MODIFIED, Some x)" "length x = n"
    and par: "\<And>q. parent = Some q \<Longrightarrow> fst (v q) = MODIFIED" "parent = None \<Longrightarrow> out"
    and Q: "\<And>t u'. block_sim env itag rp_ok a n K s0
        ((case parent of Some q \<Rightarrow> v(q := (MODIFIED, Some x)) | None \<Rightarrow> v)(k := (SHARED, Some x))) t \<Longrightarrow>
      pos env a t = pos env a s \<Longrightarrow> Q u' t"
  shows "wpS (write_back_modified env i a p out th u) Q s"
proof -
  have c: "\<not> m_cache_writethrough (cntlrs s i)" "m_cache_block_size (cntlrs s i) = n"
    "m_next (cntlrs s i) = m_next (cntlrs s0 i)"
    using lev block_simD(2,4,5)[OF sim, of i] by (simp_all add: level_ok_def)
  have n: "m_cache_block_size (cntlrs s0 i) = n" using lev by (simp add: level_ok_def)
  have fin: "wpS (upd_block i p (setCState (e_api env) SHARED)) (\<lambda>_. wpS (retS u') Q) t"
    if "block_sim env itag rp_ok a n K s0 w t" "pos env a t = pos env a s" "snd (w k) = Some x"
      "w(k := (SHARED, Some x)) = (case parent of Some q \<Rightarrow> v(q := (MODIFIED, Some x)) | None \<Rightarrow> v)(k := (SHARED, Some x))"
    for w t u'
  proof (rule wp_set_state[OF that(1) k])
    show "pos env a t k = Some p" using that(2) p by simp
    show "SHARED \<noteq> INVALID" by simp
    show "wpS (retS u') Q t'"
      if "block_sim env itag rp_ok a n K s0 (w(k := (SHARED, snd (w k)))) t'" "pos env a t' = pos env a t" for t'
      using Q[of t' u'] that \<open>pos env a t = pos env a s\<close> \<open>snd (w k) = Some x\<close>
        \<open>w(k := (SHARED, Some x)) = _\<close> by (simp add: wp_simps)
  qed
  show ?thesis
  proof (cases "m_next (cntlrs s0 i)")
    case None
    then have pn: "parent = None" using nxt by (simp add: next_ok_def)
    then have "wpS (copy_to_out env i a out u) (\<lambda>u. wpS (upd_block i p (setCState (e_api env) SHARED)) (\<lambda>_. wpS (retS u) Q)) s"
      by (intro wp_copy_to_out[OF sim k n x(1)] fin) (use pn x in simp_all)
    then show ?thesis
      using None c par(2)[OF pn] by (simp add: write_back_modified_def wp_simps)
  next
    case (Some j)
    let ?q = "m_master (cntlrs s0 j)"
    have q: "parent = Some ?q" "?q \<in> K" "?q \<noteq> k" "\<not> m_cache_writethrough (cntlrs s0 j)"
      using nxt Some k by (simp_all add: next_ok_def)
    obtain f where f: "e_depth env = Suc f" using depth by (cases "e_depth env") auto
    have "wpS (retrieveCacheBlock env i a False) (\<lambda>d. wpS (writeCacheBlock (e_depth env) env j a 0 (Some d) n th)
        (\<lambda>_. wpS (upd_block i p (setCState (e_api env) SHARED))
          (\<lambda>_. wpS (retS (u\<lparr>u_sibling_hit := True, u_is_writeback := True\<rparr>)) Q))) s"
    proof (rule wp_retrieve[OF sim k n x(1)])
      fix t assume t: "block_sim env itag rp_ok a n K s0 v t" "pos env a t = pos env a s"
      show "wpS (writeCacheBlock (e_depth env) env j a 0 (Some (Some x)) n th)
        (\<lambda>_. wpS (upd_block i p (setCState (e_api env) SHARED))
          (\<lambda>_. wpS (retS (u\<lparr>u_sibling_hit := True, u_is_writeback := True\<rparr>)) Q)) t"
        unfolding f
      proof (rule wp_write[OF t(1) q(2) refl q(4) par(1)[OF q(1)] x(2)])
        fix t' assume t': "block_sim env itag rp_ok a n K s0 (v(?q := (MODIFIED, Some x))) t'" "pos env a t' = pos env a t"
        show "wpS (upd_block i p (setCState (e_api env) SHARED))
          (\<lambda>_. wpS (retS (u\<lparr>u_sibling_hit := True, u_is_writeback := True\<rparr>)) Q) t'"
          by (rule fin[OF t'(1)]) (use t t' q x in simp_all)
      qed
    qed
    then show ?thesis using Some c by (simp add: write_back_modified_def wp_simps)
  qed
qed


text \<open>All of \<open>change_block\<close>: the copy is given up, and the pointer \<open>p\<close>, possibly stale, shows a state
  that \<open>updateCacheBlock\<close> accepts.\<close>

definition settled ::
  "('b, 'p, 'g, 'm) cc_env \<Rightarrow> nat \<Rightarrow> cstate \<Rightarrow> nat \<times> nat \<Rightarrow> ('b, 'r, 'p, 'g, 'm) hier \<Rightarrow> bool" where
  "settled env i ns p s \<longleftrightarrow> getCState (e_api env) (block_at (m_cache (my_master i s)) p) \<in> {INVALID, ns}"

lemma settledI:
  assumes sim: "block_sim env itag rp_ok a n K s0 v s" and k: "k \<in> K" "m_master (cntlrs s0 i) = k"
    and p: "pos env a s k = Some p" and "fst (v k) \<in> {INVALID, ns}"
  shows "settled env i ns p s"
proof -
  have m: "my_master i s = masters s k" using block_simD(1)[OF sim, of i] k by (simp add: my_master_def)
  show ?thesis
    by (rule pos_cases[OF sim k(1)]) (use p assms(5) m in \<open>auto simp: settled_def\<close>)
qed

lemma wp_enter_state:
  assumes sim: "block_sim env itag rp_ok a n K s0 v s" and k: "k \<in> K" "m_master (cntlrs s0 i) = k"
    and lev: "level_ok n s0 i" and p: "pos env a s k = Some p" and x: "v k = (st, Some x)" "st \<noteq> MODIFIED"
    and ns: "ns \<in> {INVALID, SHARED}"
    and Q: "\<And>t. block_sim env itag rp_ok a n K s0 (v(k := if ns = INVALID then (INVALID, None) else (ns, Some x))) t \<Longrightarrow>
      settled env i ns p t \<Longrightarrow> Q (if out then wrote (Some x) u else u) t"
  shows "wpS (enter_state env i a p ns out u) Q s"
proof -
  have n: "m_cache_block_size (cntlrs s0 i) = n" using lev by (simp add: level_ok_def)
  let ?u = "if out then wrote (Some x) u else u"
  show ?thesis
  proof (cases "ns = INVALID")
    case True
    have "wpS (copy_to_out env i a out u) (\<lambda>u s. wpS (whenS (m_coherent (cntlrs s i)) (invalidateCacheBlock env i a))
        (\<lambda>_. wpS (retS u) Q) s) s"
    proof (rule wp_copy_to_out[OF sim k n x(1)])
      fix t assume t: "block_sim env itag rp_ok a n K s0 v t" "pos env a t = pos env a s"
      have c: "m_coherent (cntlrs t i)" using lev block_simD(3)[OF t(1), of i] by (simp add: level_ok_def)
      have "wpS (invalidateCacheBlock env i a) (\<lambda>_. wpS (retS ?u) Q) t"
      proof (rule wp_invalidate[OF t(1) k])
        show "pos env a t k = Some p" using t p by simp
        show "fst (v k) \<noteq> MODIFIED" using x by simp
        fix t' assume t': "block_sim env itag rp_ok a n K s0 (v(k := (INVALID, None))) t'"
          "getCState (e_api env) (block_at (m_cache (my_master i t')) p) = INVALID"
        then show "wpS (retS ?u) Q t'" using Q[of t'] True by (simp add: wp_simps settled_def)
      qed
      then show "wpS (whenS (m_coherent (cntlrs t i)) (invalidateCacheBlock env i a)) (\<lambda>_. wpS (retS ?u) Q) t"
        using c by (simp add: wp_simps)
    qed
    then show ?thesis using True by (simp add: enter_state_def wp_simps)
  next
    case False
    then have sh: "ns = SHARED" using ns by simp
    have "wpS (copy_to_out env i a out u) (\<lambda>u. wpS (upd_block i p (setCState (e_api env) ns)) (\<lambda>_. wpS (retS u) Q)) s"
    proof (rule wp_copy_to_out[OF sim k n x(1)])
      fix t assume t: "block_sim env itag rp_ok a n K s0 v t" "pos env a t = pos env a s"
      show "wpS (upd_block i p (setCState (e_api env) ns)) (\<lambda>_. wpS (retS ?u) Q) t"
      proof (rule wp_set_state[OF t(1) k _ False])
        show pt: "pos env a t k = Some p" using t p by simp
        fix t' assume t': "block_sim env itag rp_ok a n K s0 (v(k := (ns, snd (v k)))) t'" "pos env a t' = pos env a t"
        have "settled env i ns p t'" by (rule settledI[OF t'(1) k]) (use t' pt in simp_all)
        then show "wpS (retS ?u) Q t'" using Q[of t'] t' x sh by (simp add: wp_simps)
      qed
    qed
    then show ?thesis using sh by (simp add: enter_state_def wp_simps)
  qed
qed

lemma wp_change_block:
  assumes sim: "block_sim env itag rp_ok a n K s0 v s" and k: "k \<in> K" "m_master (cntlrs s0 i) = k"
    and lev: "level_ok n s0 i" and nxt: "next_ok K s0 i parent" and depth: "0 < e_depth env"
    and p: "pos env a s k = Some p" and ns: "ns \<in> {INVALID, SHARED}"
    and par: "\<And>q. parent = Some q \<Longrightarrow> fst (v k) = MODIFIED \<Longrightarrow> fst (v q) = MODIFIED"
      "parent = None \<Longrightarrow> fst (v k) = MODIFIED \<Longrightarrow> out"
    and Q: "\<And>t u'. block_sim env itag rp_ok a n K s0 (give_up ns parent k v) t \<Longrightarrow> settled env i ns p t \<Longrightarrow>
      (out \<Longrightarrow> u_buf_written u' \<and> u_data u' = snd (v k)) \<Longrightarrow> Q u' t"
  shows "wpS (change_block env i a p ns rs out th u) Q s"
proof -
  have n: "m_cache_block_size (cntlrs s0 i) = n" using lev by (simp add: level_ok_def)
  have m: "my_master i s = masters s k" using block_simD(1)[OF sim, of i] k by (simp add: my_master_def)
  obtain st x where x: "v k = (st, Some x)" "st = getCState (e_api env) (block_at (m_cache (my_master i s)) p)"
      "st \<noteq> INVALID" "length x = n"
    by (rule pos_cases[OF sim k(1)]) (use p m in auto)
  show ?thesis
  proof (cases "ns = st \<and> out")
    case True
    then have sh: "st = SHARED" using ns x by auto
    have same: "give_up ns parent k v = v" using True x sh by (auto simp: give_up_def split: option.splits)
    have "wpS (copy_to_out env i a out u) Q s"
    proof (rule wp_copy_to_out[OF sim k n x(1)])
      fix t assume t: "block_sim env itag rp_ok a n K s0 v t" "pos env a t = pos env a s"
      have "settled env i ns p t" by (rule settledI[OF t(1) k]) (use t p x True in simp_all)
      then show "Q (if out then wrote (Some x) u else u) t"
        using Q[of t] t(1) same x by (simp add: wrote_def)
    qed
    then show ?thesis using True x(2) by (simp add: change_block_def wp_simps)
  next
    case False
    have "wpS (upd_stats i f) (\<lambda>_. wpS (if st = MODIFIED then write_back_modified env i a p out th u else retS u)
        (\<lambda>u. wpS (enter_state env i a p ns out u) Q)) s" for f
    proof (rule wp_upd_stats[OF sim])
      fix t assume t: "block_sim env itag rp_ok a n K s0 v t" "masters t = masters s"
      have pt: "pos env a t = pos env a s" using t(2) by (simp add: fun_eq_iff pos_def)
      show "wpS (if st = MODIFIED then write_back_modified env i a p out th u else retS u)
        (\<lambda>u. wpS (enter_state env i a p ns out u) Q) t"
      proof (cases "st = MODIFIED")
        case True
        let ?w = "(case parent of Some q \<Rightarrow> v(q := (MODIFIED, Some x)) | None \<Rightarrow> v)(k := (SHARED, Some x))"
        have give: "give_up ns parent k v = ?w(k := if ns = INVALID then (INVALID, None) else (ns, Some x))"
          using x True par(1) by (auto simp: give_up_def split: option.splits)
        have xm: "v k = (MODIFIED, Some x)" "length x = n" "pos env a t k = Some p"
          using x True pt p by simp_all
        have "wpS (write_back_modified env i a p out th u) (\<lambda>u. wpS (enter_state env i a p ns out u) Q) t"
        proof (rule wp_write_back[OF t(1) k lev nxt depth xm(3,1,2)])
          show "fst (v q) = MODIFIED" if "parent = Some q" for q using par(1)[OF that] xm by simp
          show out if "parent = None" using par(2)[OF that] xm by simp
          fix t' u' assume t': "block_sim env itag rp_ok a n K s0 ?w t'" "pos env a t' = pos env a t"
          have pt': "pos env a t' k = Some p" and wk: "?w k = (SHARED, Some x)" using t' xm by simp_all
          show "wpS (enter_state env i a p ns out u') Q t'"
          proof (rule wp_enter_state[OF t'(1) k lev pt' wk _ ns])
            fix t2 assume t2: "block_sim env itag rp_ok a n K s0
              (?w(k := if ns = INVALID then (INVALID, None) else (ns, Some x))) t2" "settled env i ns p t2"
            show "Q (if out then wrote (Some x) u' else u') t2"
              using Q[OF t2(1)[folded give] t2(2)] xm by (simp add: wrote_def)
          qed simp
        qed
        then show ?thesis using True by simp
      next
        case False
        have give: "give_up ns parent k v = v(k := if ns = INVALID then (INVALID, None) else (ns, Some x))"
          using x False by (auto simp: give_up_def split: option.splits)
        have "wpS (enter_state env i a p ns out u) Q t"
          by (rule wp_enter_state[OF t(1) k lev _ x(1) False ns])
             (use Q give x pt p in \<open>auto simp: wrote_def\<close>)
        then show ?thesis using False by (simp add: wp_simps)
      qed
    qed
    then show ?thesis using False x(2) by (auto simp: change_block_def wp_simps)
  qed
qed


section \<open>The levels below a cache\<close>

datatype ctree = CNode (t_cntlr: nat) (t_kids: "ctree list")

text \<open>The tree of the controllers that \<open>m_prev_cache_cntlrs\<close> reaches from one of them.\<close>

fun tree_ok :: "nat \<Rightarrow> nat set \<Rightarrow> ('b, 'r, 'p, 'g, 'm) hier \<Rightarrow> ctree \<Rightarrow> bool" where
  "tree_ok n K s (CNode i ts) \<longleftrightarrow> level_ok n s i \<and> m_prev_cache_cntlrs (my_master i s) = map t_cntlr ts \<and>
     (\<forall>t\<in>set ts. tree_ok n K s t \<and> next_ok K s (t_cntlr t) (Some (m_master (cntlrs s i))))"

fun t_masters :: "(nat \<Rightarrow> nat) \<Rightarrow> ctree \<Rightarrow> nat list" where
  "t_masters ms (CNode i ts) = ms i # concat (map (t_masters ms) ts)"

fun t_levels :: "ctree \<Rightarrow> nat" where
  "t_levels (CNode i ts) = Suc (foldr max (map t_levels ts) 0)"

text \<open>Of the previous levels of a cache at most one has modified data, and then so has the cache.\<close>

fun one_writer :: "(nat \<Rightarrow> nat) \<Rightarrow> view \<Rightarrow> ctree \<Rightarrow> bool" where
  "one_writer ms v (CNode i ts) \<longleftrightarrow>
     (\<forall>t\<in>set ts. one_writer ms v t \<and> (fst (v (ms (t_cntlr t))) = MODIFIED \<longrightarrow> fst (v (ms i)) = MODIFIED)) \<and>
     length (filter (\<lambda>t. fst (v (ms (t_cntlr t))) = MODIFIED) ts) \<le> 1"

text \<open>The data of the lowest modified copy.\<close>

fun fresh :: "(nat \<Rightarrow> nat) \<Rightarrow> view \<Rightarrow> ctree \<Rightarrow> bytes option" where
  "fresh ms v (CNode i ts) = foldr (\<lambda>t d. if fst (v (ms (t_cntlr t))) = MODIFIED then fresh ms v t else d)
     ts (snd (v (ms i)))"

text \<open>What \<open>updateCacheBlock\<close> does to the views: bottom up, each cache gives up its copy.\<close>

fun collect :: "(nat \<Rightarrow> nat) \<Rightarrow> cstate \<Rightarrow> nat option \<Rightarrow> ctree \<Rightarrow> view \<Rightarrow> view" where
  "collect ms ns parent (CNode i ts) v =
     give_up ns parent (ms i) (fold (collect ms ns (Some (ms i))) ts v)"

lemma t_levels_kid: "t \<in> set ts \<Longrightarrow> t_levels t < t_levels (CNode i ts)"
proof -
  have "t \<in> set ts \<Longrightarrow> t_levels t \<le> foldr max (map t_levels ts) 0" by (induction ts) auto
  then show "t \<in> set ts \<Longrightarrow> ?thesis" by (simp add: le_imp_less_Suc)
qed

lemma root_in_masters: "ms (t_cntlr t) \<in> set (t_masters ms t)"
  by (cases t) simp

lemma give_up_other: "q \<noteq> k \<Longrightarrow> parent \<noteq> Some q \<Longrightarrow> give_up ns parent k v q = v q"
  by (auto simp: give_up_def split: option.splits)

lemma give_up_parent: "parent = Some q \<Longrightarrow> q \<noteq> k \<Longrightarrow> fst (give_up ns parent k v q) = fst (v q)"
  by (auto simp: give_up_def)

lemma give_up_own: "fst (give_up ns parent k v k) \<in> {INVALID, ns}"
  by (auto simp: give_up_def)

lemma collect_other:
  "q \<notin> set (t_masters ms t) \<Longrightarrow> parent \<noteq> Some q \<Longrightarrow> collect ms ns parent t v q = v q"
proof (induction t arbitrary: v parent)
  case (CNode i ts)
  have "fold (collect ms ns (Some (ms i))) us v q = v q" if "set us \<subseteq> set ts" for us v
    using that
  proof (induction us arbitrary: v)
    case (Cons u us)
    have "collect ms ns (Some (ms i)) u v q = v q"
      using CNode.IH[of u "Some (ms i)" v] CNode.prems Cons.prems by auto
    then show ?case using Cons by simp
  qed simp
  then show ?case using CNode.prems by (simp add: give_up_other)
qed

text \<open>The trees of a list are done one after the other: the others' caches, and the state of the cache
  above, stay as they are.\<close>

lemma fold_collect_other:
  "q \<notin> set (concat (map (t_masters ms) ts)) \<Longrightarrow> q \<noteq> k \<Longrightarrow>
    fold (collect ms ns (Some k)) ts v q = v q"
  by (induction ts arbitrary: v) (auto simp: collect_other)

lemma collect_parent:
  "q \<notin> set (t_masters ms t) \<Longrightarrow> fst (collect ms ns (Some q) t v q) = fst (v q)"
  by (cases t) (simp add: give_up_parent fold_collect_other)

lemma fold_collect_parent:
  "k \<notin> set (concat (map (t_masters ms) ts)) \<Longrightarrow> fst (fold (collect ms ns (Some k)) ts v k) = fst (v k)"
  by (induction ts arbitrary: v) (auto simp: collect_parent)

lemma one_writer_cong:
  "(\<And>q. q \<in> set (t_masters ms t) \<Longrightarrow> fst (v q) = fst (w q)) \<Longrightarrow> one_writer ms v t = one_writer ms w t"
proof (induction t)
  case (CNode i ts)
  have root: "fst (v (ms (t_cntlr u))) = fst (w (ms (t_cntlr u)))" if "u \<in> set ts" for u
    using CNode.prems root_in_masters[of ms u] that by auto
  have own: "fst (v (ms i)) = fst (w (ms i))" using CNode.prems by simp
  have "filter (\<lambda>t. fst (v (ms (t_cntlr t))) = MODIFIED) ts = filter (\<lambda>t. fst (w (ms (t_cntlr t))) = MODIFIED) ts"
    using root by (intro filter_cong) auto
  moreover have "one_writer ms v u = one_writer ms w u" if "u \<in> set ts" for u
    using CNode.IH[OF that] CNode.prems that by auto
  ultimately show ?case using root own by simp
qed


section \<open>\<open>updateCacheBlock\<close> implements \<open>collect\<close>\<close>

definition ucb_spec ::
  "('b, 'p, 'g, 'm) cc_env \<Rightarrow> u64 \<Rightarrow> (nat \<Rightarrow> 'r \<Rightarrow> bool) \<Rightarrow> u64 \<Rightarrow> nat \<Rightarrow> nat set \<Rightarrow> (nat \<Rightarrow> nat) \<Rightarrow> cstate \<Rightarrow>
   ('b, 'r, 'p, 'g, 'm) hier \<Rightarrow> ctree \<Rightarrow> nat option \<Rightarrow> bool \<Rightarrow> bool" where
  "ucb_spec env itag rp_ok a n K ms ns s0 tr parent out \<longleftrightarrow>
     (\<forall>fuel v s rs th Q. block_sim env itag rp_ok a n K s0 v s \<longrightarrow> t_levels tr \<le> fuel \<longrightarrow>
        one_writer ms v tr \<longrightarrow>
        (\<forall>q. parent = Some q \<longrightarrow> fst (v (ms (t_cntlr tr))) = MODIFIED \<longrightarrow> fst (v q) = MODIFIED) \<longrightarrow>
        (parent = None \<longrightarrow> fst (v (ms (t_cntlr tr))) = MODIFIED \<longrightarrow> out) \<longrightarrow>
        (out \<longrightarrow> fst (v (ms (t_cntlr tr))) \<noteq> INVALID) \<longrightarrow>
        (\<forall>r t. block_sim env itag rp_ok a n K s0 (collect ms ns parent tr v) t \<longrightarrow>
           (out \<longrightarrow> snd (snd r) = snd (fold (collect ms ns (Some (ms (t_cntlr tr)))) (t_kids tr) v (ms (t_cntlr tr)))) \<longrightarrow>
           Q r t) \<longrightarrow>
        wpS (updateCacheBlock fuel env (t_cntlr tr) a ns rs out th) Q s)"

lemma ucb_specD:
  assumes "ucb_spec env itag rp_ok a n K ms ns s0 tr parent out"
    and "block_sim env itag rp_ok a n K s0 v s" "t_levels tr \<le> fuel" "one_writer ms v tr"
    and "\<And>q. parent = Some q \<Longrightarrow> fst (v (ms (t_cntlr tr))) = MODIFIED \<Longrightarrow> fst (v q) = MODIFIED"
    and "parent = None \<Longrightarrow> fst (v (ms (t_cntlr tr))) = MODIFIED \<Longrightarrow> out"
    and "out \<Longrightarrow> fst (v (ms (t_cntlr tr))) \<noteq> INVALID"
    and "\<And>r t. block_sim env itag rp_ok a n K s0 (collect ms ns parent tr v) t \<Longrightarrow>
      (out \<Longrightarrow> snd (snd r) = snd (fold (collect ms ns (Some (ms (t_cntlr tr)))) (t_kids tr) v (ms (t_cntlr tr)))) \<Longrightarrow>
      Q r t"
  shows "wpS (updateCacheBlock fuel env (t_cntlr tr) a ns rs out th) Q s"
  using assms(1)[unfolded ucb_spec_def, THEN spec, of fuel, THEN spec, of v, THEN spec, of s, THEN spec, of rs,
      THEN spec, of th, THEN spec, of Q] assms(2-8) by simp

text \<open>The loop over the previous levels.\<close>

lemma wp_kids:
  assumes kids: "\<And>t. t \<in> set ts \<Longrightarrow> ucb_spec env itag rp_ok a n K ms ns s0 t (Some k) False"
    and sim: "block_sim env itag rp_ok a n K s0 v s" and lev: "\<And>t. t \<in> set ts \<Longrightarrow> t_levels t \<le> fuel"
    and one: "\<And>t. t \<in> set ts \<Longrightarrow> one_writer ms v t \<and> (fst (v (ms (t_cntlr t))) = MODIFIED \<longrightarrow> fst (v k) = MODIFIED)"
    and dist: "distinct (concat (map (t_masters ms) ts))" "k \<notin> set (concat (map (t_masters ms) ts))"
    and Q: "\<And>t hit. block_sim env itag rp_ok a n K s0 (fold (collect ms ns (Some k)) ts v) t \<Longrightarrow> Q hit t"
  shows "wpS (foldS (\<lambda>j hit. bindS (updateCacheBlock fuel env j a ns rs False th)
      (\<lambda>(lat, h, d). retS (hit \<or> h))) (map t_cntlr ts) hit0) Q s"
  using assms
proof (induction ts arbitrary: v s hit0)
  case Nil
  then show ?case by (simp add: wp_simps)
next
  case (Cons t ts)
  let ?w = "collect ms ns (Some k) t v"
  have dt: "set (t_masters ms t) \<inter> set (concat (map (t_masters ms) ts)) = {}"
    "k \<notin> set (t_masters ms t)" using Cons.prems(5,6) by auto
  have one': "one_writer ms ?w u \<and> (fst (?w (ms (t_cntlr u))) = MODIFIED \<longrightarrow> fst (?w k) = MODIFIED)"
    if u: "u \<in> set ts" for u
  proof -
    have "?w q = v q" if "q \<in> set (t_masters ms u)" for q
      using that u dt Cons.prems(6) by (intro collect_other) auto
    then have "one_writer ms ?w u = one_writer ms v u" "?w (ms (t_cntlr u)) = v (ms (t_cntlr u))"
      using root_in_masters[of ms u] one_writer_cong[of ms u ?w v] by auto
    then show ?thesis using Cons.prems(4)[of u] u collect_parent[OF dt(2)] by simp
  qed
  have rest: "wpS (foldS (\<lambda>j hit. bindS (updateCacheBlock fuel env j a ns rs False th)
      (\<lambda>(lat, h, d). retS (hit \<or> h))) (map t_cntlr ts) b) Q s'"
    if "block_sim env itag rp_ok a n K s0 ?w s'" for b s'
    using Cons.prems(1,3,5,6,7) one' that by (intro Cons.IH[of ?w]) auto
  have spec: "ucb_spec env itag rp_ok a n K ms ns s0 t (Some k) False" using Cons.prems(1) by simp
  have "wpS (updateCacheBlock fuel env (t_cntlr t) a ns rs False th)
      (\<lambda>(lat, h, d). wpS (foldS (\<lambda>j hit. bindS (updateCacheBlock fuel env j a ns rs False th)
      (\<lambda>(lat, h, d). retS (hit \<or> h))) (map t_cntlr ts) (hit0 \<or> h)) Q) s"
    by (rule ucb_specD[OF spec Cons.prems(2)])
       (use Cons.prems(3,4)[of t] rest in \<open>auto split: prod.splits\<close>)
  then show ?case by (simp add: wp_simps case_prod_unfold)
qed


text \<open>A cache's own copy, when its previous levels are done.\<close>

lemma wp_finish:
  assumes sim: "block_sim env itag rp_ok a n K s0 v t" and k: "k \<in> K" "m_master (cntlrs s0 i) = k"
    and own: "fst (v k) \<in> {INVALID, ns}" and po: "case po of None \<Rightarrow> True | Some p \<Rightarrow> settled env i ns p t"
    and out: "out \<Longrightarrow> u_buf_written u"
    and Q: "\<And>r. (out \<Longrightarrow> snd (snd r) = u_data u) \<Longrightarrow> Q r t"
  shows "wpS (finish_update env i a ns out c po u) Q t"
proof -
  have "wpS (getCacheState_of env i po) R t \<longleftrightarrow> R (case po of None \<Rightarrow> INVALID
      | Some p \<Rightarrow> getCState (e_api env) (block_at (m_cache (my_master i t)) p)) t" for R
    by (cases po) (simp_all add: getCacheState_of_def wp_simps)
  then show ?thesis
    unfolding finish_update_def wp_simps using own po out Q
    by (auto simp: wp_getCacheState[OF sim k] settled_def split: option.splits)
qed

lemma wp_update_own:
  assumes sim: "block_sim env itag rp_ok a n K s0 v s" and k: "k \<in> K" "m_master (cntlrs s0 i) = k"
    and lev: "level_ok n s0 i" and nxt: "next_ok K s0 i parent" and depth: "0 < e_depth env"
    and ns: "ns \<in> {INVALID, SHARED}"
    and par: "\<And>q. parent = Some q \<Longrightarrow> fst (v k) = MODIFIED \<Longrightarrow> fst (v q) = MODIFIED"
      "parent = None \<Longrightarrow> fst (v k) = MODIFIED \<Longrightarrow> out" "out \<Longrightarrow> fst (v k) \<noteq> INVALID"
    and Q: "\<And>t r. block_sim env itag rp_ok a n K s0 (give_up ns parent k v) t \<Longrightarrow>
      (out \<Longrightarrow> snd (snd r) = snd (v k)) \<Longrightarrow> Q r t"
  shows "wpS (update_own env i a ns rs out th c hit) Q s"
proof (cases "pos env a s k")
  case None
  have vk: "v k = (INVALID, None)" by (rule pos_cases[OF sim k(1)]) (use None in auto)
  then have same: "give_up ns parent k v = v" "\<not> out" using par(3) by (auto simp: give_up_def)
  then have "Q r s" for r using Q[of s r] sim by simp
  then have "wpS (finish_update env i a ns out c None u) Q s" for u
    using vk same(2) by (intro wp_finish[OF sim k]) simp_all
  then show ?thesis using None by (simp add: update_own_def wp_simps wp_info[OF sim k] Let_def)
next
  case (Some p)
  have "wpS (change_block env i a p ns rs out th u) (\<lambda>u. wpS (finish_update env i a ns out c (Some p) u) Q) s" for u
  proof (rule wp_change_block[OF sim k lev nxt depth Some ns par(1,2)])
    fix t and u' :: ucb
    assume t: "block_sim env itag rp_ok a n K s0 (give_up ns parent k v) t" "settled env i ns p t"
      and u': "out \<Longrightarrow> u_buf_written u' \<and> u_data u' = snd (v k)"
    show "wpS (finish_update env i a ns out c (Some p) u') Q t"
      by (rule wp_finish[OF t(1) k give_up_own]) (use t u' Q in auto)
  qed
  then show ?thesis using Some by (simp add: update_own_def wp_simps wp_info[OF sim k] Let_def)
qed

lemma ucb_impl:
  assumes depth: "0 < e_depth env" and ns: "ns \<in> {INVALID, SHARED}" and ms: "ms = (\<lambda>j. m_master (cntlrs s0 j))"
  shows "tree_ok n K s0 tr \<Longrightarrow> set (t_masters ms tr) \<subseteq> K \<Longrightarrow> distinct (t_masters ms tr) \<Longrightarrow>
    next_ok K s0 (t_cntlr tr) parent \<Longrightarrow> parent \<notin> Some ` set (t_masters ms tr) \<Longrightarrow>
    ucb_spec env itag rp_ok a n K ms ns s0 tr parent out"
proof (induction tr arbitrary: parent out)
  case (CNode i ts parent out)
  let ?k = "ms i" and ?kids = "\<lambda>v. fold (collect ms ns (Some (ms i))) ts v"
  have lev: "level_ok n s0 i" and prev: "m_prev_cache_cntlrs (masters s0 ?k) = map t_cntlr ts"
    and kK: "?k \<in> K" and ki: "m_master (cntlrs s0 i) = ?k"
    using CNode.prems ms by (simp_all add: my_master_def)
  have dist: "distinct (concat (map (t_masters ms) ts))" "?k \<notin> set (concat (map (t_masters ms) ts))"
    using CNode.prems(3) by simp_all
  have kids: "ucb_spec env itag rp_ok a n K ms ns s0 t (Some ?k) False" if t: "t \<in> set ts" for t
  proof (rule CNode.IH[OF t])
    show "tree_ok n K s0 t" "next_ok K s0 (t_cntlr t) (Some ?k)" using CNode.prems(1) t ms by simp_all
    show "set (t_masters ms t) \<subseteq> K" "distinct (t_masters ms t)" "Some ?k \<notin> Some ` set (t_masters ms t)"
      using CNode.prems(2) dist t by (auto simp: distinct_concat_iff)
  qed
  show ?case unfolding ucb_spec_def
  proof (intro allI impI, goal_cases)
    case (1 fuel v s rs th Q)
    obtain f where f: "fuel = Suc f" "\<And>t. t \<in> set ts \<Longrightarrow> t_levels t \<le> f"
      using 1(2) t_levels_kid[of _ ts i] by (cases fuel) force+
    have m: "m_prev_cache_cntlrs (my_master i s) = map t_cntlr ts"
      using block_simD(1)[OF 1(1), of i] block_simD(6)[OF 1(1), of ?k] prev ki by (simp add: my_master_def)
    have own: "fst (?kids v ?k) = fst (v ?k)" by (rule fold_collect_parent[OF dist(2)])
    have up: "fst (?kids v q) = fst (v q)" if "parent = Some q" for q
    proof -
      have "q \<notin> set (t_masters ms (CNode i ts))" using CNode.prems(5) that by blast
      then show ?thesis using fold_collect_other[of q ms ts ?k ns v] by simp
    qed
    have nxt: "next_ok K s0 i parent" using CNode.prems(4) by simp
    have "wpS (foldS (\<lambda>j hit. bindS (updateCacheBlock f env j a ns (if rs = EVICT then BACK_INVAL else rs) False th)
        (\<lambda>(lat, h, d). retS (hit \<or> h))) (map t_cntlr ts) False)
      (\<lambda>hit. wpS (update_own env i a ns rs out th (cntlrs s i) hit) Q) s"
    proof (rule wp_kids[OF kids 1(1) f(2) _ dist])
      show "one_writer ms v t \<and> (fst (v (ms (t_cntlr t))) = MODIFIED \<longrightarrow> fst (v ?k) = MODIFIED)" if "t \<in> set ts" for t
        using 1(3) that by simp
      fix t hit assume t: "block_sim env itag rp_ok a n K s0 (?kids v) t"
      show "wpS (update_own env i a ns rs out th (cntlrs s i) hit) Q t"
        by (rule wp_update_own[OF t kK ki lev nxt depth ns]) (use 1(4-7) own up in auto)
    qed
    moreover have "ns \<in> set counted_states" using ns by (auto simp: counted_states_def)
    ultimately show ?case by (simp add: f(1) wp_simps m)
  qed
qed

section \<open>\<open>collect\<close> keeps the freshest data\<close>

lemma fresh_cong:
  "(\<And>q. q \<in> set (t_masters ms t) \<Longrightarrow> v q = w q) \<Longrightarrow> fresh ms v t = fresh ms w t"
proof (induction t)
  case (CNode i ts)
  have kid: "fresh ms v u = fresh ms w u" "v (ms (t_cntlr u)) = w (ms (t_cntlr u))" if "u \<in> set ts" for u
    using CNode.IH[OF that] CNode.prems root_in_masters[of ms u] that by auto
  have "v (ms i) = w (ms i)" using CNode.prems by simp
  then show ?case using kid by (auto intro!: foldr_cong)
qed

abbreviation pick_fresh :: "(nat \<Rightarrow> nat) \<Rightarrow> view \<Rightarrow> ctree \<Rightarrow> bytes option \<Rightarrow> bytes option" where
  "pick_fresh ms v \<equiv> \<lambda>t d. if fst (v (ms (t_cntlr t))) = MODIFIED then fresh ms v t else d"

lemma pick_none:
  "(\<And>t. t \<in> set ts \<Longrightarrow> fst (v (ms (t_cntlr t))) \<noteq> MODIFIED) \<Longrightarrow> foldr (pick_fresh ms v) ts d = d"
  by (induction ts) auto

text \<open>The previous levels of a cache leave the freshest data in it.\<close>

lemma fold_collect_fresh:
  assumes "\<And>t v. t \<in> set ts \<Longrightarrow> one_writer ms v t \<Longrightarrow>
      snd (collect ms ns (Some k) t v k) = pick_fresh ms v t (snd (v k))"
    and "\<And>t. t \<in> set ts \<Longrightarrow> one_writer ms v t"
    and "length (filter (\<lambda>t. fst (v (ms (t_cntlr t))) = MODIFIED) ts) \<le> 1"
    and "distinct (concat (map (t_masters ms) ts))" "k \<notin> set (concat (map (t_masters ms) ts))"
  shows "snd (fold (collect ms ns (Some k)) ts v k) = foldr (pick_fresh ms v) ts (snd (v k))"
  using assms
proof (induction ts arbitrary: v)
  case (Cons t ts)
  let ?w = "collect ms ns (Some k) t v"
  have same: "?w q = v q" if "u \<in> set ts" "q \<in> set (t_masters ms u)" for u q
    using that Cons.prems(4,5) by (intro collect_other) auto
  have root: "?w (ms (t_cntlr u)) = v (ms (t_cntlr u))" if "u \<in> set ts" for u
    using same[OF that root_in_masters] .
  have "one_writer ms ?w u" if "u \<in> set ts" for u
    using one_writer_cong[of ms u ?w v] same[OF that] Cons.prems(2)[of u] that by simp
  moreover have "filter (\<lambda>t. fst (?w (ms (t_cntlr t))) = MODIFIED) ts = filter (\<lambda>t. fst (v (ms (t_cntlr t))) = MODIFIED) ts"
    using root by (intro filter_cong) auto
  ultimately have "snd (fold (collect ms ns (Some k)) ts ?w k) = foldr (pick_fresh ms ?w) ts (snd (?w k))"
    using Cons.prems by (intro Cons.IH) (auto split: if_splits)
  also have "\<dots> = foldr (pick_fresh ms v) ts (snd (?w k))"
    using fresh_cong[of ms _ ?w v] same root by (intro foldr_cong) auto
  also have "\<dots> = foldr (pick_fresh ms v) (t # ts) (snd (v k))"
  proof (cases "fst (v (ms (t_cntlr t))) = MODIFIED")
    case True
    then have "\<And>u. u \<in> set ts \<Longrightarrow> fst (v (ms (t_cntlr u))) \<noteq> MODIFIED"
      using Cons.prems(3) by (auto simp: filter_empty_conv)
    then have "foldr (pick_fresh ms v) ts d = d" for d by (rule pick_none)
    then show ?thesis using True Cons.prems(1,2)[of t] by simp
  next
    case False
    then show ?thesis using Cons.prems(1,2)[of t] by simp
  qed
  finally show ?case by simp
qed simp

lemma collect_fresh:
  "one_writer ms v t \<Longrightarrow> distinct (t_masters ms t) \<Longrightarrow> p \<notin> set (t_masters ms t) \<Longrightarrow>
    snd (collect ms ns (Some p) t v p) = pick_fresh ms v t (snd (v p))"
proof (induction t arbitrary: v p)
  case (CNode i ts)
  have dist: "distinct (concat (map (t_masters ms) ts))" "ms i \<notin> set (concat (map (t_masters ms) ts))"
    using CNode.prems(2) by simp_all
  let ?w = "fold (collect ms ns (Some (ms i))) ts v"
  have "snd (?w (ms i)) = fresh ms v (CNode i ts)"
    using CNode.IH CNode.prems(1) dist by (subst fold_collect_fresh) (auto simp: distinct_concat_iff)
  moreover have "fst (?w (ms i)) = fst (v (ms i))" by (rule fold_collect_parent[OF dist(2)])
  moreover have "?w p = v p" using CNode.prems(3) by (intro fold_collect_other) auto
  ultimately show ?case using CNode.prems(3) by (auto simp: give_up_def)
qed

lemma kids_fresh:
  assumes "one_writer ms v (CNode i ts)" "distinct (t_masters ms (CNode i ts))"
  shows "snd (fold (collect ms ns (Some (ms i))) ts v (ms i)) = fresh ms v (CNode i ts)"
  using assms collect_fresh by (subst fold_collect_fresh) (auto simp: distinct_concat_iff)

text \<open>Afterwards no cache of the tree has the block in another state than \<open>INVALID\<close> or the new one.\<close>

lemma collect_states:
  "distinct (t_masters ms t) \<Longrightarrow> parent \<notin> Some ` set (t_masters ms t) \<Longrightarrow> q \<in> set (t_masters ms t) \<Longrightarrow>
    fst (collect ms ns parent t v q) \<in> {INVALID, ns}"
proof (induction t arbitrary: v parent)
  case (CNode i ts)
  have dist: "distinct (concat (map (t_masters ms) ts))" "ms i \<notin> set (concat (map (t_masters ms) ts))"
    using CNode.prems(1) by simp_all
  show ?case
  proof (cases "q = ms i")
    case False
    then have qk: "q \<in> set (concat (map (t_masters ms) ts))" using CNode.prems(3) by simp
    have "fst (fold (collect ms ns (Some (ms i))) us w q) \<in> {INVALID, ns}"
      if "set us \<subseteq> set ts" "q \<in> set (concat (map (t_masters ms) us)) \<or> fst (w q) \<in> {INVALID, ns}"
        "distinct (concat (map (t_masters ms) us))" for us w
      using that
    proof (induction us arbitrary: w)
      case (Cons u us)
      have u: "distinct (t_masters ms u)" "Some (ms i) \<notin> Some ` set (t_masters ms u)" "u \<in> set ts"
        using dist Cons.prems by auto
      have "q \<in> set (t_masters ms u) \<Longrightarrow> fst (collect ms ns (Some (ms i)) u w q) \<in> {INVALID, ns}"
        using CNode.IH[OF u(3,1,2)] .
      moreover have "q \<notin> set (t_masters ms u) \<Longrightarrow> collect ms ns (Some (ms i)) u w q = w q"
        using False by (intro collect_other) auto
      ultimately have "q \<in> set (concat (map (t_masters ms) us)) \<or>
          fst (collect ms ns (Some (ms i)) u w q) \<in> {INVALID, ns}"
        using Cons.prems(2) by (cases "q \<in> set (t_masters ms u)") auto
      then have "fst (fold (collect ms ns (Some (ms i))) us (collect ms ns (Some (ms i)) u w) q) \<in> {INVALID, ns}"
        using Cons.prems(1,3) by (intro Cons.IH) simp_all
      then show ?case by simp
    qed auto
    moreover have "parent \<noteq> Some q" using CNode.prems(2,3) by auto
    ultimately show ?thesis using qk dist False by (simp add: give_up_other)
  qed (use give_up_own in auto)
qed


section \<open>Properties\<close>

definition views :: "('b, 'p, 'g, 'm) cc_env \<Rightarrow> u64 \<Rightarrow> ('b, 'r, 'p, 'g, 'm) hier \<Rightarrow> view" where
  "views env a s = (\<lambda>k. master_view env a (masters s k))"

abbreviation masters_of :: "('b, 'r, 'p, 'g, 'm) hier \<Rightarrow> ctree \<Rightarrow> nat set" where
  "masters_of s tr \<equiv> set (t_masters (\<lambda>j. m_master (cntlrs s j)) tr)"

text \<open>A last level with its previous levels, all well formed with respect to the block \<open>a\<close>.\<close>

definition stack_ok ::
  "('b, 'p, 'g, 'm) cc_env \<Rightarrow> u64 \<Rightarrow> (nat \<Rightarrow> 'r \<Rightarrow> bool) \<Rightarrow> u64 \<Rightarrow> nat \<Rightarrow> ('b, 'r, 'p, 'g, 'm) hier \<Rightarrow> ctree \<Rightarrow> bool" where
  "stack_ok env itag rp_ok a n s tr \<longleftrightarrow>
     tree_ok n (masters_of s tr) s tr \<and> distinct (t_masters (\<lambda>j. m_master (cntlrs s j)) tr) \<and>
     t_levels tr \<le> e_depth env \<and> m_next (cntlrs s (t_cntlr tr)) = None \<and> inval_laws (e_api env) itag \<and>
     \<not> is_block_approx a (of_nat n) (h_rg s) \<and> (\<forall>k\<in>masters_of s tr. ready env itag rp_ok a n (masters s k)) \<and>
     one_writer (\<lambda>j. m_master (cntlrs s j)) (views env a s) tr"

text \<open>The freshest data of block \<open>a\<close>, and its state in the cache of controller \<open>i\<close>.\<close>

definition freshest :: "('b, 'p, 'g, 'm) cc_env \<Rightarrow> u64 \<Rightarrow> ('b, 'r, 'p, 'g, 'm) hier \<Rightarrow> ctree \<Rightarrow> bytes option" where
  "freshest env a s tr = fresh (\<lambda>j. m_master (cntlrs s j)) (views env a s) tr"

definition cstate_at :: "('b, 'p, 'g, 'm) cc_env \<Rightarrow> u64 \<Rightarrow> ('b, 'r, 'p, 'g, 'm) hier \<Rightarrow> nat \<Rightarrow> cstate" where
  "cstate_at env a s k = state_of (e_api env) (m_geo (masters s k)) a (m_cache (masters s k))"

lemma stack_sim:
  "stack_ok env itag rp_ok a n s tr \<Longrightarrow> block_sim env itag rp_ok a n (masters_of s tr) s (views env a s) s"
  by (simp add: stack_ok_def block_sim_def only_block_refl views_def)

lemma stack_cong:
  "cntlrs t = cntlrs s \<Longrightarrow> masters t = masters s \<Longrightarrow> h_rg t = h_rg s \<Longrightarrow> stack_ok env itag rp_ok a n s tr \<Longrightarrow>
    stack_ok env itag rp_ok a n t tr \<and> freshest env a t tr = freshest env a s tr"
proof -
  assume eq: "cntlrs t = cntlrs s" "masters t = masters s" "h_rg t = h_rg s"
    and ok: "stack_ok env itag rp_ok a n s tr"
  have "level_ok n t i = level_ok n s i" "next_ok K t i q = next_ok K s i q" "my_master i t = my_master i s" for K i q
    using eq by (simp_all add: level_ok_def next_ok_def my_master_def split: option.splits)
  then have "tree_ok n K t u = tree_ok n K s u" for K u
    using eq by (induction u) auto
  then show ?thesis using eq ok by (simp add: stack_ok_def views_def freshest_def)
qed

text \<open>The run of \<open>updateCacheBlock\<close> at the last level.\<close>

lemma wp_stack:
  assumes ok: "stack_ok env itag rp_ok a n s tr" and ns: "ns \<in> {INVALID, SHARED}"
    and here: "cstate_at env a s (m_master (cntlrs s (t_cntlr tr))) \<noteq> INVALID"
    and Q: "\<And>lat hit t. (\<And>k. k \<in> masters_of s tr \<Longrightarrow> cstate_at env a t k \<in> {INVALID, ns}) \<Longrightarrow>
      only_block env a s t \<Longrightarrow> Q (lat, hit, freshest env a s tr) t"
  shows "wpS (updateCacheBlock (e_depth env) env (t_cntlr tr) a ns rs True th) Q s"
proof -
  let ?ms = "\<lambda>j. m_master (cntlrs s j)" and ?v = "views env a s"
  obtain i ts where tr: "tr = CNode i ts" by (cases tr)
  have d: "0 < e_depth env" using ok tr by (simp add: stack_ok_def)
  have nxt: "next_ok (masters_of s tr) s (t_cntlr tr) None"
    using ok by (simp add: stack_ok_def next_ok_def)
  have spec: "ucb_spec env itag rp_ok a n (masters_of s tr) ?ms ns s tr None True"
    by (rule ucb_impl[OF d ns refl _ _ _ nxt]) (use ok in \<open>auto simp: stack_ok_def\<close>)
  show ?thesis
  proof (rule ucb_specD[OF spec stack_sim[OF ok]])
    show "t_levels tr \<le> e_depth env" "one_writer ?ms ?v tr" using ok by (simp_all add: stack_ok_def)
    show "fst (?v (?ms (t_cntlr tr))) \<noteq> INVALID"
      using here by (simp add: views_def master_view_def cstate_at_def)
    fix r :: "time \<times> bool \<times> bytes option" and t
    assume t: "block_sim env itag rp_ok a n (masters_of s tr) s (collect ?ms ns None tr ?v) t"
      and "True \<Longrightarrow> snd (snd r) = snd (fold (collect ?ms ns (Some (?ms (t_cntlr tr)))) (t_kids tr) ?v (?ms (t_cntlr tr)))"
    then have "snd (snd r) = snd (fold (collect ?ms ns (Some (?ms i))) ts ?v (?ms i))" using tr by simp
    also have "\<dots> = freshest env a s tr"
      using ok unfolding tr freshest_def by (intro kids_fresh) (simp_all add: stack_ok_def)
    finally have data: "snd (snd r) = freshest env a s tr" .
    have "cstate_at env a t k \<in> {INVALID, ns}" if k: "k \<in> masters_of s tr" for k
    proof -
      have "fst (collect ?ms ns None tr ?v k) \<in> {INVALID, ns}"
        by (rule collect_states) (use ok k in \<open>auto simp: stack_ok_def\<close>)
      moreover have "collect ?ms ns None tr ?v k = master_view env a (masters t k)"
        using t k by (simp add: block_sim_def)
      ultimately show ?thesis by (simp add: master_view_def cstate_at_def)
    qed
    moreover have "only_block env a s t" using t by (simp add: block_sim_def)
    moreover obtain lat hit d where "r = (lat, hit, d)" by (metis surj_pair)
    ultimately show "Q r t" using data Q by simp
  qed simp_all
qed

text \<open>
  C1. Coherence of a stack of caches: when the last level is told to give up or to share a block it
  has, the call succeeds, it writes the freshest copy of the levels below to the buffer it was given,
  no cache of the stack keeps the block in another state than the one asked for or \<open>INVALID\<close>, and
  nothing but that block, counters and access counts changes anywhere.
\<close>

theorem update_returns_freshest:
  assumes "stack_ok env itag lru2_ok a n s tr" "ns \<in> {INVALID, SHARED}"
    and "cstate_at env a s (m_master (cntlrs s (t_cntlr tr))) \<noteq> INVALID"
  shows "\<exists>lat hit t. updateCacheBlock (e_depth env) env (t_cntlr tr) a ns rs True th s
      = Inr ((lat, hit, freshest env a s tr), t) \<and>
    (\<forall>k\<in>masters_of s tr. cstate_at env a t k \<in> {INVALID, ns}) \<and> only_block env a s t"
proof -
  have "wpS (updateCacheBlock (e_depth env) env (t_cntlr tr) a ns rs True th)
      (\<lambda>r t. (\<exists>lat hit. r = (lat, hit, freshest env a s tr)) \<and>
        (\<forall>k\<in>masters_of s tr. cstate_at env a t k \<in> {INVALID, ns}) \<and> only_block env a s t) s"
    by (rule wp_stack[OF assms]) auto
  then show ?thesis unfolding wpS_def by blast
qed


text \<open>A concrete stack: the caches \<open>L1\<close> (controller and master 0) and \<open>L2\<close> (1) of one set each. Block
  128 is modified in both, with sevens in \<open>L1\<close> and zeros in \<open>L2\<close>.\<close>

definition plain_ext :: "(u64 \<times> cstate) block_ext" where
  "plain_ext = \<lparr>hasOption = (\<lambda>_ _. False), setOption = (\<lambda>_ b. b), clearOption = (\<lambda>_ b. b),
     getOwner = (\<lambda>_. 0), setOwner = (\<lambda>_ b. b), getUsage = (\<lambda>_. 0), updateUsage = (\<lambda>_ b. (False, b)),
     updateUsageRange = (\<lambda>_ _ b. (False, b)), usage_offset = 0\<rparr>"

definition demo_cc_env :: "(u64 \<times> cstate, nat, nat, unit) cc_env" where
  "demo_cc_env = \<lparr>e_api = plain_api, e_ext = plain_ext, e_sample = flip_all, e_dram = demo_env, e_depth = 2,
     e_readable = (\<lambda>st. st \<noteq> INVALID), e_writable = (\<lambda>st. st = MODIFIED), e_latency = (\<lambda>_ _. 1),
     e_home = (\<lambda>_. 0), e_cache_only = False, e_callbacks = False, e_notify_access = False,
     e_owner = (\<lambda>_ _. 0), e_max_time = 1000, e_invalid_core = - 1, e_invalid_address = - 1,
     e_l1_mshr_start = (\<lambda>_ _ t. t), e_l1_mshr_tag = (\<lambda>_ _ _. 1000), e_next_read_done = (\<lambda>_ _ t d. t + d),
     e_writeback_start = (\<lambda>_ _ t. t), e_prefetch = (\<lambda>_ _ _ _. []), e_perf_initial = (\<lambda>_ _. 0)\<rparr>"

definition demo_cntlr :: "component \<Rightarrow> nat \<Rightarrow> nat option \<Rightarrow> cntlr" where
  "demo_cntlr cid mid nxt = \<lparr>m_mem_component = cid, m_master = mid, m_next = nxt, m_last_level = None,
     m_perfect = False, m_passthrough = False, m_coherent = True, m_prefetch_on_prefetch_hit = False,
     m_l1_mshr = False, stats = zero_stats, m_core_id = 0, m_cache_block_size = 64,
     m_cache_writethrough = False, m_writeback_time = 5, m_next_level_read_bandwidth = None,
     m_shared_cores = 1, m_core_id_master = 0, m_last_remote_hit_where = UNKNOWN,
     m_shmem_perf_totaltime = 0, m_shmem_perf_numrequests = 0\<rparr>"

definition demo_master ::
  "(u64 \<times> cstate, lru2, nat, nat) cache \<Rightarrow> nat list \<Rightarrow> (u64 \<times> cstate, lru2, nat, nat) master" where
  "demo_master c prevs = \<lparr>m_cache = c, m_geo = one_set, m_policy = lru2_policy plain_api,
     m_prev_cache_cntlrs = prevs, m_prefetcher = False, m_dram_cntlr = False,
     m_dram_outstanding_writebacks = False, mshr = [], m_directory_waiters = (\<lambda>_. []),
     m_evicting_address = 0, m_evicting_buf = None, m_atds = 0, m_log_blocksize = 6, m_num_sets = 1,
     m_setlocks = 1, m_prefetch_list = [], m_prefetch_next = 0\<rparr>"

definition demo_with :: "bytes \<Rightarrow> (u64 \<times> cstate, lru2, nat, nat) cache" where
  "demo_with d = put_set 0 ((m_sets demo_hit ! 0)\<lparr>m_blocks := Some d\<rparr>) demo_hit"

definition demo_hier :: "(u64 \<times> cstate, lru2, nat, nat, unit) hier" where
  "demo_hier = \<lparr>cntlrs = (\<lambda>i. if i = 0 then demo_cntlr L1_DCACHE 0 (Some 1) else demo_cntlr (LX_CACHE 0) 1 None),
     masters = (\<lambda>k. if k = 0 then demo_master (demo_with (replicate 256 7)) [] else demo_master (demo_with (replicate 256 0)) [0]),
     clock = (\<lambda>_ _. 0), h_rg = registry_init, h_dram = new_dram () None, trace = []\<rparr>"

abbreviation demo_tree :: ctree where
  "demo_tree \<equiv> CNode 1 [CNode 0 []]"

lemma plain_inval_laws: "inval_laws plain_api (- 1)"
  using plain_api_laws by (simp add: inval_laws_def plain_api_def)

lemma one_set_tag: "fst (splitAddress one_set b) \<noteq> - 1"
proof
  assume "fst (splitAddress one_set b) = - 1"
  then have "unat (b div 64) = unat (- 1 :: u64)" by (simp add: one_set_def)
  moreover have "unat (b div 64) = unat b div 64" by (simp add: unat_div)
  moreover have "unat (- 1 :: u64) = 2 ^ 64 - 1" by (simp add: unsigned_minus_1_eq_mask mask_eq_exp_minus_1)
  moreover have "unat b < 2 ^ 64" using unsigned_less[of b] by simp
  ultimately show False by simp
qed

lemma demo_hit_sets: "m_sets demo_hit = [(new_cache_set plain_api True 4 64 (new_lru2 4))
    \<lparr>m_cache_block_info_array := [(2, MODIFIED), (- 1, INVALID), (- 1, INVALID), (- 1, INVALID)]\<rparr>]"
  "c_blocksize demo_hit = 64" "c_associativity demo_hit = 4"
  by (simp_all add: demo_hit_def demo_sets put_set_def)

lemma demo_with_sets:
  "m_sets (demo_with d) = [(m_sets demo_hit ! 0)\<lparr>m_blocks := Some d\<rparr>]"
  "c_blocksize (demo_with d) = 64" "c_associativity (demo_with d) = 4"
  by (simp_all add: demo_with_def demo_hit_sets put_set_def)

lemma demo_with_wf:
  assumes "length d = 256" shows "cache_wf one_set lru2_ok (demo_with d)"
  unfolding demo_with_def
  using cache_wf_set[OF demo_hit_wf, of 0] assms
  by (intro cache_wf_put[OF demo_hit_wf]) (simp_all add: demo_hit_sets cset_wf_def new_cache_set_def)

lemma demo_with_ok:
  assumes "length d = 256" shows "cache_ok plain_api (- 1) lru2_ok one_set (demo_with d)"
proof -
  let ?infos = "[(2, MODIFIED), (- 1, INVALID), (- 1, INVALID), (- 1, INVALID)] :: (u64 \<times> cstate) list"
  have zero: "l = 0" if "l < 4" "fst (?infos ! l) \<noteq> - 1" for l
  proof -
    have "l = 0 \<or> l = 1 \<or> l = 2 \<or> l = 3" using that(1) by arith
    then show ?thesis using that(2) by auto
  qed
  then have "l = l'" if "l < 4" "l' < 4" "fst (?infos ! l) = fst (?infos ! l')" "fst (?infos ! l) \<noteq> - 1" for l l'
    using that by metis
  then have "unique_tags plain_api (- 1) (m_sets (demo_with d) ! 0)"
    by (simp add: demo_with_sets demo_hit_sets unique_tags_def new_cache_set_def plain_api_def)
  then show ?thesis
    using demo_with_wf[OF assms] one_set_tag by (simp add: cache_ok_def demo_with_sets)
qed

lemma demo_with_lookup: "lookup plain_api one_set 128 (demo_with d) = Some (0, 0)"
  by (simp add: lookup_def one_set_def find_line_def demo_with_sets demo_hit_sets new_cache_set_def
      find_down_4 plain_api_def)

lemma demo_with_block: "block_at (demo_with d) (0, 0) = (2, MODIFIED)"
  by (simp add: block_at_def demo_with_sets demo_hit_sets)

lemma demo_ready:
  assumes "length d = 256"
  shows "ready demo_cc_env (- 1) lru2_ok 128 64 (demo_master (demo_with d) prevs)"
  using demo_with_ok[OF assms]
  by (simp add: ready_def demo_master_def demo_cc_env_def data_cache_def demo_with_sets demo_with_lookup
      demo_with_block[unfolded numeral_eq_Suc]) (simp add: demo_with_block plain_api_def one_set_def)

lemma demo_view:
  "master_view demo_cc_env 128 (demo_master (demo_with d) prevs) = (MODIFIED, Some (take 64 d))"
  by (simp add: master_view_def demo_master_def demo_cc_env_def state_of_def data_of_def demo_with_lookup
      demo_with_block) (simp add: plain_api_def demo_with_sets line_data_def buf_slice_def demo_hit_sets new_cache_set_def)

lemma demo_stack_ok: "stack_ok demo_cc_env (- 1) lru2_ok 128 64 demo_hier demo_tree"
proof -
  have r: "ready demo_cc_env (- 1) lru2_ok 128 64 (masters demo_hier k)" for k
    by (simp add: demo_hier_def demo_ready)
  show ?thesis
    unfolding stack_ok_def
  proof (intro conjI ballI)
    show "tree_ok 64 (masters_of demo_hier demo_tree) demo_hier demo_tree"
      by (simp add: demo_hier_def level_ok_def next_ok_def my_master_def demo_master_def demo_cntlr_def)
    show "one_writer (\<lambda>j. m_master (cntlrs demo_hier j)) (views demo_cc_env 128 demo_hier) demo_tree"
      by (simp add: demo_hier_def demo_cntlr_def views_def demo_view)
    show "inval_laws (e_api demo_cc_env) (- 1)" using plain_inval_laws by (simp add: demo_cc_env_def)
  qed (use r in \<open>simp_all add: demo_hier_def demo_cntlr_def demo_cc_env_def\<close>)
qed

lemma demo_freshest: "freshest demo_cc_env 128 demo_hier demo_tree = Some (replicate 64 7)"
  by (simp add: freshest_def demo_hier_def demo_cntlr_def views_def demo_view)

lemma demo_state: "cstate_at demo_cc_env 128 demo_hier k = MODIFIED"
proof -
  have "cstate_at demo_cc_env 128 demo_hier k = fst (master_view demo_cc_env 128 (masters demo_hier k))"
    by (simp add: cstate_at_def master_view_def)
  then show ?thesis by (simp add: demo_hier_def demo_view)
qed

theorem update_returns_freshest_witness:
  "\<exists>lat hit t. updateCacheBlock 2 demo_cc_env 1 128 SHARED COHERENCY True SIM_THREAD demo_hier
      = Inr ((lat, hit, Some (replicate 64 7)), t) \<and>
    cstate_at demo_cc_env 128 t 0 \<in> {INVALID, SHARED} \<and> cstate_at demo_cc_env 128 t 1 \<in> {INVALID, SHARED}"
proof -
  have here: "cstate_at demo_cc_env 128 demo_hier (m_master (cntlrs demo_hier (t_cntlr demo_tree))) \<noteq> INVALID"
    by (simp add: demo_state)
  have ns: "SHARED \<in> {INVALID, SHARED}" by simp
  have e: "e_depth demo_cc_env = 2" by (simp add: demo_cc_env_def)
  have m: "masters_of demo_hier demo_tree = {0, 1}" by (auto simp: demo_hier_def demo_cntlr_def)
  obtain lat hit t where "updateCacheBlock 2 demo_cc_env 1 128 SHARED COHERENCY True SIM_THREAD demo_hier
      = Inr ((lat, hit, Some (replicate 64 7)), t)" "\<forall>k\<in>{0, 1}. cstate_at demo_cc_env 128 t k \<in> {INVALID, SHARED}"
    using update_returns_freshest[OF demo_stack_ok ns here, of COHERENCY SIM_THREAD]
    unfolding e m demo_freshest ctree.sel by (elim exE conjE) rule
  then show ?thesis by (intro exI conjI) (assumption, simp_all only: ball_simps insert_iff)
qed

section \<open>Answers to the directory\<close>

text \<open>An answer that takes its data from the stack: \<open>ns\<close> is the state the request asks for.\<close>

definition timed :: "('b, 'p, 'g, 'm) cc_env \<Rightarrow> nat \<Rightarrow> cache_access \<Rightarrow> ('b, 'r, 'p, 'g, 'm) hier \<Rightarrow> time" where
  "timed env i acc s = clock s (m_core_id (cntlrs s i)) SIM_THREAD + e_latency env (m_mem_component (cntlrs s i)) acc"

definition reply_msg ::
  "shmem_msg \<Rightarrow> int \<Rightarrow> msg_t \<Rightarrow> bufptr \<Rightarrow> nat \<Rightarrow> shmem_msg" where
  "reply_msg msg sender ty data n = \<lparr>msg_type = ty, msg_sender_mem_component = LAST_LEVEL_CACHE,
     msg_receiver_mem_component = TAG_DIR, msg_requester = msg_requester msg, msg_receiver = sender,
     msg_address = msg_address msg, msg_data = data, msg_length = n, msg_where = UNKNOWN, msg_perf = msg_perf msg\<rparr>"

lemma wp_answer:
  assumes ok: "stack_ok env itag rp_ok (msg_address msg) n s tr" and ns: "ns \<in> {INVALID, SHARED}"
    and here: "cstate_at env (msg_address msg) s (m_master (cntlrs s (t_cntlr tr))) \<noteq> INVALID" and n: "n \<noteq> 0"
  shows "wpS (answer_request env (t_cntlr tr) sender msg acc why reply
      (bindS (updateCacheBlock (e_depth env) env (t_cntlr tr) (msg_address msg) ns COHERENCY True SIM_THREAD)
        (\<lambda>(lat, hit, d). retS (Some d))))
    (\<lambda>_ t. (\<forall>k\<in>masters_of s tr. cstate_at env (msg_address msg) t k \<in> {INVALID, ns}) \<and>
      (\<forall>j. (cntlrs t j)\<lparr>stats := zero_stats\<rparr> = (cntlrs s j)\<lparr>stats := zero_stats\<rparr>) \<and>
      (\<forall>k. (masters t k)\<lparr>m_cache := m_cache (masters s k)\<rparr> = masters s k) \<and>
      trace t = trace s @ [PerfUpdate (msg_perf msg) (clock s (m_core_id (cntlrs s (t_cntlr tr))) SIM_THREAD) PERF_UNKNOWN,
        PerfUpdate (msg_perf msg) (timed env (t_cntlr tr) acc s) why,
        PerfUpdate (msg_perf msg) (timed env (t_cntlr tr) acc s) PERF_UNKNOWN,
        SendMsg (t_cntlr tr) (reply_msg msg sender reply (Some (freshest env (msg_address msg) s tr)) n) SIM_THREAD]) s"
proof -
  let ?i = "t_cntlr tr" and ?a = "msg_address msg"
  let ?core = "m_core_id (cntlrs s ?i)" and ?T = "timed env ?i acc s"
  let ?s = "s\<lparr>trace := trace s @ [PerfUpdate (msg_perf msg) (clock s ?core SIM_THREAD) PERF_UNKNOWN],
      clock := (clock s)(?core := (clock s ?core)(SIM_THREAD := ?T))\<rparr>"
  have ok': "stack_ok env itag rp_ok ?a n ?s tr" "freshest env ?a ?s tr = freshest env ?a s tr"
    using stack_cong[of ?s s] ok by simp_all
  have here': "cstate_at env ?a ?s (m_master (cntlrs ?s ?i)) \<noteq> INVALID"
    using here by (simp add: cstate_at_def)
  have bs: "m_cache_block_size (cntlrs s ?i) = n"
    using ok by (cases tr) (simp add: stack_ok_def level_ok_def)
  have "wpS (updateCacheBlock (e_depth env) env ?i ?a ns COHERENCY True SIM_THREAD)
      (\<lambda>r t. (\<exists>lat hit. r = (lat, hit, freshest env ?a s tr)) \<and>
        (\<forall>k\<in>masters_of s tr. cstate_at env ?a t k \<in> {INVALID, ns}) \<and> only_block env ?a ?s t) ?s"
    by (rule wp_stack[OF ok'(1) ns here']) (use ok'(2) in auto)
  then show ?thesis
    unfolding answer_request_def wp_simps incrAccessTime_def incrElapsedTime_def getElapsedTime_def
      setElapsedTime_def ext_def
    apply (simp add: timed_def)
    apply (erule wp_mono)
    apply (elim conjE exE)
    subgoal for r t lat hit
      using only_block_cntlr(5,6)[of env ?a ?s t ?i] bs n
      by (simp add: wp_simps sendMsg_def getElapsedTime_def ext_def only_block_def cstate_at_def reply_msg_def timed_def)
    done
qed

text \<open>
  C2. A flush request for a block the stack has is answered: the handler succeeds, the block is
  \<open>INVALID\<close> in every cache of the stack, and the last message sent is the \<open>FLUSH_REP\<close> to the directory
  with the freshest data of the block.
\<close>

theorem flush_request_answered:
  assumes "stack_ok env itag lru2_ok (msg_address msg) n s tr" "n \<noteq> 0"
    and "cstate_at env (msg_address msg) s (m_master (cntlrs s (t_cntlr tr))) \<noteq> INVALID"
  shows "\<exists>t. processFlushReqFromDramDirectory env (t_cntlr tr) sender msg s = Inr ((), t) \<and>
    (\<forall>k\<in>masters_of s tr. cstate_at env (msg_address msg) t k = INVALID) \<and>
    last (trace t) = SendMsg (t_cntlr tr)
      (reply_msg msg sender FLUSH_REP (Some (freshest env (msg_address msg) s tr)) n) SIM_THREAD"
proof -
  have ms: "m_master (cntlrs s (t_cntlr tr)) \<in> masters_of s tr" by (rule root_in_masters)
  have st: "fst (views env (msg_address msg) s (m_master (cntlrs s (t_cntlr tr)))) =
      cstate_at env (msg_address msg) s (m_master (cntlrs s (t_cntlr tr)))"
    by (simp add: views_def master_view_def cstate_at_def)
  have "wpS (processFlushReqFromDramDirectory env (t_cntlr tr) sender msg)
      (\<lambda>_ t. (\<forall>k\<in>masters_of s tr. cstate_at env (msg_address msg) t k = INVALID) \<and>
        last (trace t) = SendMsg (t_cntlr tr)
          (reply_msg msg sender FLUSH_REP (Some (freshest env (msg_address msg) s tr)) n) SIM_THREAD) s"
    using assms(3) unfolding processFlushReqFromDramDirectory_def wp_simps
      wp_getCacheState[OF stack_sim[OF assms(1)] ms refl] st
    by (simp, intro wp_mono[OF wp_answer[OF assms(1) _ assms(3,2), where ns = INVALID]]) auto
  then show ?thesis by (auto simp: wpS_def)
qed

definition demo_msg :: "msg_t \<Rightarrow> u64 \<Rightarrow> bufptr \<Rightarrow> shmem_msg" where
  "demo_msg ty a data = \<lparr>msg_type = ty, msg_sender_mem_component = TAG_DIR,
     msg_receiver_mem_component = LAST_LEVEL_CACHE, msg_requester = 3, msg_receiver = 0, msg_address = a,
     msg_data = data, msg_length = (if data = None then 0 else 64), msg_where = UNKNOWN, msg_perf = MsgPerf 0\<rparr>"

lemma demo_msg_sel [simp]:
  "msg_address (demo_msg ty a data) = a" "msg_data (demo_msg ty a data) = data" "msg_type (demo_msg ty a data) = ty"
  by (simp_all add: demo_msg_def)

theorem flush_request_answered_witness:
  "\<exists>t. processFlushReqFromDramDirectory demo_cc_env 1 0 (demo_msg FLUSH_REQ 128 None) demo_hier = Inr ((), t) \<and>
    cstate_at demo_cc_env 128 t 0 = INVALID \<and> cstate_at demo_cc_env 128 t 1 = INVALID"
proof -
  have here: "cstate_at demo_cc_env 128 demo_hier (m_master (cntlrs demo_hier (t_cntlr demo_tree))) \<noteq> INVALID"
    by (simp add: demo_state)
  have m: "masters_of demo_hier demo_tree = {0, 1}" by (auto simp: demo_hier_def demo_cntlr_def)
  have "stack_ok demo_cc_env (- 1) lru2_ok (msg_address (demo_msg FLUSH_REQ 128 None)) 64 demo_hier demo_tree"
    using demo_stack_ok by simp
  from flush_request_answered[OF this, of 0] here show ?thesis
    unfolding m ctree.sel demo_msg_sel by (auto simp: m)
qed

section \<open>A block that is nowhere in the stack\<close>

lemma update_absent:
  assumes "block_sim env itag rp_ok a n K s v s" "ms = (\<lambda>j. m_master (cntlrs s j))"
    and "ns \<in> set counted_states"
  shows "tree_ok n L s tr \<Longrightarrow> set (t_masters ms tr) \<subseteq> K \<Longrightarrow> t_levels tr \<le> fuel \<Longrightarrow>
    (\<forall>k\<in>set (t_masters ms tr). fst (v k) = INVALID) \<Longrightarrow>
    updateCacheBlock fuel env (t_cntlr tr) a ns rs out th s =
      (if out then Inl (LogAssert ''out_buf passed in but never written to'') else Inr ((0, False, None), s))"
proof (induction tr arbitrary: fuel rs out)
  case (CNode i ts fuel rs out)
  obtain f where f: "fuel = Suc f" "\<And>t. t \<in> set ts \<Longrightarrow> t_levels t \<le> f"
    using CNode.prems(3) t_levels_kid[of _ ts i] by (cases fuel) force+
  have k: "ms i \<in> K" "m_master (cntlrs s i) = ms i" using CNode.prems(2) assms(2) by simp_all
  have prev: "m_prev_cache_cntlrs (my_master i s) = map t_cntlr ts" using CNode.prems(1) by simp
  have none: "pos env a s (ms i) = None"
    by (rule pos_cases[OF assms(1) k(1)]) (use CNode.prems(4) in auto)
  have loop: "foldS (\<lambda>j hit. bindS (updateCacheBlock f env j a ns r False th) (\<lambda>(lat, h, d). retS (hit \<or> h)))
      (map t_cntlr us) False s = Inr (False, s)" if "set us \<subseteq> set ts" for us r
    using that
  proof (induction us)
    case (Cons u us)
    have u: "u \<in> set ts" using Cons.prems by simp
    have "tree_ok n L s u" "set (t_masters ms u) \<subseteq> K" "\<forall>k\<in>set (t_masters ms u). fst (v k) = INVALID"
      using CNode.prems(1,2,4) u by auto
    from CNode.IH[OF u this(1,2) f(2)[OF u] this(3), of r False] show ?case
      using Cons by (simp add: bindS_def retS_def)
  qed (simp add: retS_def)
  have "getCacheState env i a s = Inr (INVALID, s)" "getCacheState_of env i None s = Inr (INVALID, s)"
    using info_run[OF assms(1) k] none by (simp_all add: getCacheState_def getCacheState_of_def bindS_def retS_def)
  then have own: "update_own env i a ns rs out th (cntlrs s i) False s = (if out
      then Inl (LogAssert ''out_buf passed in but never written to'') else Inr ((0, False, None), s))"
    using info_run[OF assms(1) k] none
    by (simp add: update_own_def finish_update_def bindS_def seqS_def retS_def assertS_def Let_def)
  show ?case
    using loop[OF subset_refl, of "if rs = EVICT then BACK_INVAL else rs"] own assms(3) prev
    by (simp add: f(1) bindS_def seqS_def assertS_def getS_def)
qed

text \<open>
  C39. The reply to an upgrade whose block was invalidated in the meantime is never handled: the call
  of \<open>updateCacheBlock\<close> passes it a buffer to read the block into, and ends in its assertion that the
  buffer was written.
\<close>

theorem upgrade_of_invalid_fails:
  assumes "stack_ok env itag lru2_ok (msg_address msg) n s tr" "msg_data msg \<noteq> None"
    and "\<forall>k\<in>masters_of s tr. cstate_at env (msg_address msg) s k = INVALID"
  shows "processUpgradeRepFromDramDirectory env (t_cntlr tr) msg s =
    Inl (LogAssert ''out_buf passed in but never written to'')"
proof -
  note sim = stack_sim[OF assms(1)]
  have ms: "m_master (cntlrs s (t_cntlr tr)) \<in> masters_of s tr" by (rule root_in_masters)
  have inv: "\<forall>k\<in>masters_of s tr. fst (views env (msg_address msg) s k) = INVALID"
    using assms(3) by (simp add: views_def master_view_def cstate_at_def)
  have "updateCacheBlock (e_depth env) env (t_cntlr tr) (msg_address msg) MODIFIED UPGRADE True SIM_THREAD s =
      Inl (LogAssert ''out_buf passed in but never written to'')"
    using update_absent[OF sim refl _ _ subset_refl _ inv, where ns = MODIFIED and out = True and L = "masters_of s tr"] assms(1)
    by (simp add: stack_ok_def counted_states_def)
  moreover have "getCacheState env (t_cntlr tr) (msg_address msg) s = Inr (INVALID, s)"
  proof -
    have "wpS (getCacheState env (t_cntlr tr) (msg_address msg)) (\<lambda>x t. x = INVALID \<and> t = s) s"
      using wp_getCacheState[OF sim ms refl] inv ms by simp
    then show ?thesis by (auto simp: wpS_def)
  qed
  ultimately show ?thesis
    using assms(2) by (simp add: processUpgradeRepFromDramDirectory_def bindS_def seqS_def assertS_def)
qed


lemma demo_absent: "state_of plain_api one_set 192 (demo_with d) = INVALID"
  by (simp add: state_of_def lookup_def one_set_def find_line_def demo_with_sets demo_hit_sets new_cache_set_def
      find_down_4 plain_api_def)

theorem upgrade_of_invalid_fails_witness:
  "processUpgradeRepFromDramDirectory demo_cc_env 1 (demo_msg UPGRADE_REP 192 (Some None)) demo_hier =
    Inl (LogAssert ''out_buf passed in but never written to'')"
proof -
  have lk: "lookup plain_api one_set 192 (demo_with d) = None" for d
    by (simp add: lookup_def one_set_def find_line_def demo_with_sets demo_hit_sets new_cache_set_def
        find_down_4 plain_api_def)
  have abs: "cstate_at demo_cc_env 192 demo_hier k = INVALID" for k
    by (simp add: cstate_at_def demo_hier_def demo_cc_env_def demo_master_def demo_absent)
  have r: "ready demo_cc_env (- 1) lru2_ok 192 64 (masters demo_hier k)" for k
    using demo_with_ok[of "replicate 256 7"] demo_with_ok[of "replicate 256 0"]
    by (simp add: ready_def demo_hier_def demo_master_def demo_cc_env_def data_cache_def lk)
       (simp add: demo_with_sets one_set_def)
  have "one_writer (\<lambda>j. m_master (cntlrs demo_hier j)) (views demo_cc_env 192 demo_hier) demo_tree"
    using abs by (simp add: views_def master_view_def cstate_at_def)
  then have "stack_ok demo_cc_env (- 1) lru2_ok (msg_address (demo_msg UPGRADE_REP 192 (Some None))) 64 demo_hier demo_tree"
    using demo_stack_ok r unfolding stack_ok_def by (simp add: demo_hier_def)
  from upgrade_of_invalid_fails[OF this] show ?thesis using abs by simp
qed


end
