(* ===== verification/Cache_Locks.thy ===== *)
theory Cache_Locks
  imports Cache_Cntlr_Core Cache_Coherence
begin

text \<open>
  The discipline of the set locks. The lock of a set is a call in the trace, made on the master of the
  last level; \<open>held_after\<close> runs the calls through the automaton of a lock, which a call out of turn
  breaks. \<open>quiet\<close> says that an operation makes no such call and keeps what names the locks; it is shown
  for all operations of the controllers but those that take locks, along their structure, by the rules
  of \<open>step_order\<close>.
\<close>

section \<open>The automaton\<close>

datatype held = Free | SharedBy int | Exclusive

fun lock_step :: "ext_call \<Rightarrow> (nat \<times> nat \<Rightarrow> held) option \<Rightarrow> (nat \<times> nat \<Rightarrow> held) option" where
  "lock_step (LockAcquireShared k n c) (Some h) = (if h (k, n) = Free then Some (h((k, n) := SharedBy c)) else None)"
| "lock_step (LockReleaseShared k n c) (Some h) = (if h (k, n) = SharedBy c then Some (h((k, n) := Free)) else None)"
| "lock_step (LockUpgrade k n c) (Some h) = (if h (k, n) = SharedBy c then Some (h((k, n) := Exclusive)) else None)"
| "lock_step (LockDowngrade k n c) (Some h) = (if h (k, n) = Exclusive then Some (h((k, n) := SharedBy c)) else None)"
| "lock_step (LockAcquireExclusive k n) (Some h) = (if h (k, n) = Free then Some (h((k, n) := Exclusive)) else None)"
| "lock_step (LockReleaseExclusive k n) (Some h) = (if h (k, n) = Exclusive then Some (h((k, n) := Free)) else None)"
| "lock_step e h = h"

definition held_after :: "ext_call list \<Rightarrow> (nat \<times> nat \<Rightarrow> held) option" where
  "held_after es = fold lock_step es (Some (\<lambda>_. Free))"

fun is_lock_call :: "ext_call \<Rightarrow> bool" where
  "is_lock_call (LockAcquireShared k n c) = True"
| "is_lock_call (LockReleaseShared k n c) = True"
| "is_lock_call (LockUpgrade k n c) = True"
| "is_lock_call (LockDowngrade k n c) = True"
| "is_lock_call (LockAcquireExclusive k n) = True"
| "is_lock_call (LockReleaseExclusive k n) = True"
| "is_lock_call e = False"

lemma held_after_snoc [simp]: "held_after (es @ [e]) = lock_step e (held_after es)"
  by (simp add: held_after_def)

lemma not_lock_step: "\<not> is_lock_call e \<Longrightarrow> lock_step e h = h"
  by (cases e; cases h) auto

section \<open>Which lock\<close>

text \<open>What names the lock of an address.\<close>

definition same_names :: "('b, 'r, 'p, 'g, 'm) hier \<Rightarrow> ('b, 'r, 'p, 'g, 'm) hier \<Rightarrow> bool" where
  "same_names s t \<longleftrightarrow>
     (\<forall>i. m_master (cntlrs t i) = m_master (cntlrs s i) \<and> m_next (cntlrs t i) = m_next (cntlrs s i) \<and>
        m_cache_writethrough (cntlrs t i) = m_cache_writethrough (cntlrs s i) \<and>
        m_core_id (cntlrs t i) = m_core_id (cntlrs s i)) \<and>
     (\<forall>k. m_log_blocksize (masters t k) = m_log_blocksize (masters s k) \<and>
        m_num_sets (masters t k) = m_num_sets (masters s k) \<and> m_setlocks (masters t k) = m_setlocks (masters s k))"

text \<open>A remembered last level is the last level.\<close>

definition last_ok :: "('b, 'p, 'g, 'm) cc_env \<Rightarrow> ('b, 'r, 'p, 'g, 'm) hier \<Rightarrow> bool" where
  "last_ok env s \<longleftrightarrow> (\<forall>i l. m_last_level (cntlrs s i) = Some l \<longrightarrow> walk_last (e_depth env) (cntlrs s) i = Some l)"

definition no_writethrough :: "('b, 'r, 'p, 'g, 'm) hier \<Rightarrow> bool" where
  "no_writethrough s \<longleftrightarrow> (\<forall>i. \<not> m_cache_writethrough (cntlrs s i))"

definition lock_key ::
  "('b, 'p, 'g, 'm) cc_env \<Rightarrow> nat \<Rightarrow> u64 \<Rightarrow> ('b, 'r, 'p, 'g, 'm) hier \<Rightarrow> nat \<times> nat" where
  "lock_key env i address s =
     (case walk_last (e_depth env) (cntlrs s) i of
        None \<Rightarrow> (0, 0)
      | Some l \<Rightarrow> (m_master (cntlrs s l), getSetLock_index address (my_master l s)))"

lemma walk_last_cong: "(\<And>i. m_next (cs i) = m_next (ds i)) \<Longrightarrow> walk_last n cs i = walk_last n ds i"
  by (induction n arbitrary: i) (auto split: option.splits)

lemma same_names_refl [simp]: "same_names s s"
  by (simp add: same_names_def)

lemma same_names_trans: "same_names s t \<Longrightarrow> same_names t u \<Longrightarrow> same_names s u"
  by (simp add: same_names_def)

lemma same_names_walk: "same_names s t \<Longrightarrow> walk_last n (cntlrs t) i = walk_last n (cntlrs s) i"
  by (rule walk_last_cong) (simp add: same_names_def)

lemma same_names_key: "same_names s t \<Longrightarrow> lock_key env i a t = lock_key env i a s"
  by (simp add: lock_key_def same_names_walk getSetLock_index_def my_master_def split: option.splits)
     (simp add: same_names_def)

section \<open>Operations that take no lock\<close>

definition quiet ::
  "('b, 'p, 'g, 'm) cc_env \<Rightarrow> ('b, 'r, 'p, 'g, 'm) hier \<Rightarrow> ('b, 'r, 'p, 'g, 'm) hier \<Rightarrow> bool" where
  "quiet env s t \<longleftrightarrow> no_writethrough s \<longrightarrow> same_names s t \<and> (last_ok env s \<longrightarrow> last_ok env t) \<and>
     held_after (trace t) = held_after (trace s)"

lemma quiet_no_writethrough: "quiet env s t \<Longrightarrow> no_writethrough s \<Longrightarrow> no_writethrough t"
  by (auto simp: quiet_def no_writethrough_def same_names_def)

interpretation quiet: step_order "quiet env" for env :: "('b, 'p, 'g, 'm) cc_env"
proof
  show "quiet env s s" for s :: "('b, 'r, 'p, 'g, 'm) hier" by (simp add: quiet_def)
  show "quiet env s u" if "quiet env s t" "quiet env t u" for s t u :: "('b, 'r, 'p, 'g, 'm) hier"
    using that quiet_no_writethrough[OF that(1)] same_names_trans unfolding quiet_def by metis
qed

named_theorems quiet_ops \<open>operations that take no lock\<close>

lemma quiet_upd_cntlr:
  assumes "\<And>c. m_master (f c) = m_master c \<and> m_next (f c) = m_next c \<and>
      m_cache_writethrough (f c) = m_cache_writethrough c \<and> m_core_id (f c) = m_core_id c \<and>
      m_last_level (f c) = m_last_level c"
  shows "op_rel (quiet env) (upd_cntlr i f)"
proof -
  have "quiet env s (s\<lparr>cntlrs := (cntlrs s)(i := f (cntlrs s i))\<rparr>)" for s
  proof -
    let ?t = "s\<lparr>cntlrs := (cntlrs s)(i := f (cntlrs s i))\<rparr>"
    have n: "same_names s ?t" using assms by (simp add: same_names_def)
    have "last_ok env ?t" if "last_ok env s"
      using that same_names_walk[OF n, of "e_depth env"] assms by (simp add: last_ok_def)
    then show ?thesis using n by (simp add: quiet_def)
  qed
  then show ?thesis unfolding upd_cntlr_def by (rule quiet.rel_mod)
qed

lemma quiet_upd_stats [quiet_ops]: "op_rel (quiet env) (upd_stats i f)"
  unfolding upd_stats_def by (rule quiet_upd_cntlr) simp

lemma quiet_upd_master:
  assumes "\<And>m. m_log_blocksize (f m) = m_log_blocksize m \<and> m_num_sets (f m) = m_num_sets m \<and>
      m_setlocks (f m) = m_setlocks m"
  shows "op_rel (quiet env) (upd_master i f)"
  unfolding upd_master_def using assms
  by (intro quiet.rel_mod) (simp add: quiet_def same_names_def last_ok_def my_master_def)

lemma quiet_ext: "\<not> is_lock_call e \<Longrightarrow> op_rel (quiet env) (ext e)"
  unfolding ext_def
  by (intro quiet.rel_mod) (simp add: quiet_def same_names_def last_ok_def not_lock_step)

lemma quiet_state:
  "op_rel (quiet env) (modS (\<lambda>s. s\<lparr>h_rg := rg\<rparr>))" "op_rel (quiet env) (modS (\<lambda>s. s\<lparr>h_rg := rg, h_dram := d\<rparr>))"
  by (intro quiet.rel_mod, simp add: quiet_def same_names_def last_ok_def)+

lemma quiet_upd_block [quiet_ops]: "op_rel (quiet env) (upd_block i p f)"
  unfolding upd_block_def by (rule quiet_upd_master) simp

lemmas quiet_basic = quiet.rel_rules quiet_state quiet_upd_cntlr quiet_upd_master quiet_ext

lemma quiet_time [quiet_ops]:
  "op_rel (quiet env) (getElapsedTime i th)" "op_rel (quiet env) (setElapsedTime i th t)"
proof -
  show "op_rel (quiet env) (getElapsedTime i th)" unfolding getElapsedTime_def by (rule quiet.rel_get)
  show "op_rel (quiet env) (setElapsedTime i th t)"
    unfolding setElapsedTime_def by (intro quiet.rel_mod) (simp add: quiet_def same_names_def last_ok_def)
qed

lemma quiet_incr [quiet_ops]:
  "op_rel (quiet env) (incrElapsedTime i d th)" "op_rel (quiet env) (incrAccessTime env' i acc th)"
  unfolding incrElapsedTime_def incrAccessTime_def by (intro quiet_basic quiet_ops)+

lemma quiet_info [quiet_ops]:
  "op_rel (quiet env) (getCacheBlockInfo env' i a)" "op_rel (quiet env) (getCacheState_of env' i po)"
  unfolding getCacheBlockInfo_def getCacheState_of_def by (intro quiet_basic quiet_ops)+

lemma quiet_with_block: "(\<And>p. op_rel (quiet env) (f p)) \<Longrightarrow> op_rel (quiet env) (with_block po f)"
  unfolding with_block_def by (intro quiet_basic)

lemma quiet_cstate [quiet_ops]:
  "op_rel (quiet env) (getCacheState env' i a)" "op_rel (quiet env) (setCacheState env' i a st)"
  "op_rel (quiet env) (setBlockOption env' i a opt)"
  unfolding getCacheState_def setCacheState_def setBlockOption_def
  by (intro quiet_basic quiet_ops quiet_with_block)+

lemma quiet_access_line [quiet_ops]: "op_rel (quiet env) (access_line env' i a ty buff want n u)"
  unfolding access_line_def by (intro quiet_basic quiet_ops quiet_with_block; simp)

lemma quiet_retrieve [quiet_ops]: "op_rel (quiet env) (retrieveCacheBlock env' i a u)"
  unfolding retrieveCacheBlock_def by (intro quiet_basic quiet_ops quiet_with_block; simp)

lemma quiet_notify_evict [quiet_ops]: "op_rel (quiet env) (notifyPrevLevelEvict j core c a)"
  unfolding notifyPrevLevelEvict_def by (intro quiet_basic quiet_ops quiet_with_block; simp)

lemma quiet_notify_insert [quiet_ops]: "op_rel (quiet env) (notifyPrevLevelInsert j core c a)"
  unfolding notifyPrevLevelInsert_def by (intro quiet_basic quiet_ops quiet_with_block; simp)

lemma quiet_invalidate [quiet_ops]: "op_rel (quiet env) (invalidateCacheBlock env' i a)"
  unfolding invalidateCacheBlock_def by (intro quiet_basic quiet_ops quiet_with_block; simp)

lemma quiet_permissible [quiet_ops]: "op_rel (quiet env) (operationPermissibleinCache env' i a op)"
  unfolding operationPermissibleinCache_def
  by (intro quiet_basic quiet_ops) (cases op; simp; intro quiet_basic)

lemma quiet_sendMsg [quiet_ops]: "op_rel (quiet env) (sendMsg i ty sc rc rq r a d n wh pf th)"
  unfolding sendMsg_def by (intro quiet_basic quiet_ops quiet_with_block; simp)

lemma quiet_uncore [quiet_ops]: "op_rel (quiet env) (updateUncoreStatistics env' i wh now)"
  unfolding updateUncoreStatistics_def by (intro quiet_basic quiet_ops quiet_with_block; simp)

lemma quiet_mem_op:
  "op_rel (quiet env) m1 \<Longrightarrow> op_rel (quiet env) m2 \<Longrightarrow> op_rel (quiet env) m3 \<Longrightarrow>
    (\<And>n. op_rel (quiet env) (f n)) \<Longrightarrow>
    op_rel (quiet env) (case op of OP_READ \<Rightarrow> m1 | OP_READ_EX \<Rightarrow> m2 | OP_WRITE \<Rightarrow> m3 | OP_OTHER n \<Rightarrow> f n)"
  by (cases op) simp_all

lemmas quiet_cases = quiet_with_block quiet_mem_op

lemma quiet_accessDRAM [quiet_ops]: "op_rel (quiet env) (accessDRAM env' i op a d)"
  unfolding accessDRAM_def Let_def by (intro quiet_basic quiet_ops quiet_cases; simp)

lemma quiet_usage_bits [quiet_ops]: "op_rel (quiet env) (updateUsageBits n env' i a used)"
  by (induction n arbitrary: i) (simp_all, (intro quiet_basic quiet_ops quiet_cases; simp)+)

lemma quiet_put_mshr [quiet_ops]: "op_rel (quiet env) (put_mshr i a ti tc)"
  unfolding put_mshr_def by (intro quiet_basic quiet_ops quiet_cases; simp)

lemma quiet_cleanup [quiet_ops]: "op_rel (quiet env) (cleanupMshr env' i)"
  unfolding cleanupMshr_def by (intro quiet_basic quiet_ops quiet_cases; simp)

lemma quiet_atds [quiet_ops]: "op_rel (quiet env) (accessATDs i op hit a core)"
  unfolding accessATDs_def by (intro quiet_basic quiet_ops quiet_cases; simp)

lemma quiet_counters [quiet_ops]: "op_rel (quiet env) (updateCounters env' i op a hit st pf)"
  unfolding updateCounters_def by (intro quiet_basic quiet_ops quiet_cases; simp)

lemma quiet_count_access [quiet_ops]: "op_rel (quiet env) (count_cache_access i hit)"
  unfolding count_cache_access_def by (intro quiet_basic quiet_ops quiet_cases; simp)

lemma quiet_fill_list [quiet_ops]: "op_rel (quiet env) (fill_prefetch_list env' i as)"
  by (induction as) (simp_all, (intro quiet_basic quiet_ops quiet_cases; simp)+)

lemma quiet_train [quiet_ops]: "op_rel (quiet env) (trainPrefetcher env' i a hit ph ti)"
  unfolding trainPrefetcher_def by (intro quiet_basic quiet_ops quiet_cases; simp)

lemma quiet_next_prefetch [quiet_ops]: "op_rel (quiet env) (next_prefetch env' i as)"
  by (induction as) (simp_all, (intro quiet_basic quiet_ops quiet_cases; simp)+)

text \<open>The write-through path, which takes the stack lock, is not followed.\<close>

lemma quiet_write [quiet_ops]: "op_rel (quiet env) (writeCacheBlock n env' i a off d k th)"
proof (cases n)
  case 0
  then show ?thesis by (simp add: quiet.rel_fail)
next
  case (Suc m)
  show ?thesis
  proof (rule op_relI)
    fix s x t assume run: "writeCacheBlock n env' i a off d k th s = Inr (x, t)"
    show "quiet env s t"
    proof (cases "no_writethrough s")
      case True
      then have wt: "\<not> m_cache_writethrough (cntlrs s i)" by (simp add: no_writethrough_def)
      let ?W = "\<lambda>c m. if m_evicting_buf m \<noteq> None \<and> a = m_evicting_address m then
             seqS (assertS (CAssert ''offset==0'') (off = 0))
            (seqS (assertS (CAssert ''data_length==getCacheBlockSize()'') (k = m_cache_block_size c))
              (whenS (d \<noteq> None)
                (upd_master i (\<lambda>m. m\<lparr>m_evicting_buf := Some (map_option (take k) (buf_bytes d))\<rparr>))))
           else
             bindS (access_line env' i (a + of_nat off) STORE (buf_bytes d) False k False) (\<lambda>(po, out).
             case po of
               None \<Rightarrow> failS (LogAssert ''writethrough expected a hit at next-level cache but got miss'')
             | Some p \<Rightarrow> bindS (block_of i p) (\<lambda>b.
                 assertS (LogAssert ''Got writeback for non-MODIFIED line'') (getCState (e_api env') b = MODIFIED)))"
      have "?W (cntlrs s i) (my_master i s) s = Inr ((), t)"
        using run wt unfolding Suc by (simp add: err_simps)
      moreover have "op_rel (quiet env) (?W c m)" for c m
        by (intro quiet_basic quiet_ops quiet_cases; simp)
      ultimately show ?thesis by (rule op_relD[rotated])
    qed (simp add: quiet_def)
  qed
qed

lemma quiet_copy_out [quiet_ops]: "op_rel (quiet env) (copy_to_out env' i a out u)"
  unfolding copy_to_out_def by (intro quiet_basic quiet_ops quiet_cases; simp)

lemma quiet_write_back [quiet_ops]: "op_rel (quiet env) (write_back_modified env' i a p out th u)"
  unfolding write_back_modified_def by (intro quiet_basic quiet_ops quiet_cases; simp)

lemma quiet_enter [quiet_ops]: "op_rel (quiet env) (enter_state env' i a p ns out u)"
  unfolding enter_state_def by (intro quiet_basic quiet_ops quiet_cases; simp)

lemma quiet_change [quiet_ops]: "op_rel (quiet env) (change_block env' i a p ns rs out th u)"
  unfolding change_block_def by (intro quiet_basic quiet_ops quiet_cases; simp)

lemma quiet_finish [quiet_ops]: "op_rel (quiet env) (finish_update env' i a ns out c po u)"
  unfolding finish_update_def by (intro quiet_basic quiet_ops quiet_cases; simp)

lemma quiet_own [quiet_ops]: "op_rel (quiet env) (update_own env' i a ns rs out th c hit)"
  unfolding update_own_def Let_def by (intro quiet_basic quiet_ops quiet_cases; simp)

lemma quiet_update [quiet_ops]: "op_rel (quiet env) (updateCacheBlock n env' i a ns rs out th)"
proof (induction n arbitrary: i rs out)
  case (Suc n)
  show ?case unfolding updateCacheBlock.simps by (intro quiet_basic quiet_ops quiet_cases Suc.IH; simp)
qed (simp add: quiet.rel_fail)

lemma quiet_snoop_latency [quiet_ops]: "op_rel (quiet env) (add_snoop_latency i d)"
  unfolding add_snoop_latency_def by (intro quiet_basic quiet_ops quiet_cases; simp)

lemma quiet_snoop [quiet_ops]: "op_rel (quiet env) (snoop env' js a ns rs th)"
  unfolding snoop_def by (intro quiet_basic quiet_ops quiet_cases; simp)

lemma quiet_evict_prev [quiet_ops]: "op_rel (quiet env) (evict_from_prev env' i a buf th)"
  unfolding evict_from_prev_def by (intro quiet_basic quiet_ops quiet_cases; simp)

lemma quiet_victim_dram [quiet_ops]: "op_rel (quiet env) (write_victim_to_dram env' i a buf)"
  unfolding write_victim_to_dram_def by (intro quiet_basic quiet_ops quiet_cases; simp)

lemma quiet_dispose [quiet_ops]: "op_rel (quiet env) (dispose_victim env' i a st buf th)"
  unfolding dispose_victim_def by (intro quiet_basic quiet_ops quiet_cases; simp)

lemma quiet_eviction [quiet_ops]: "op_rel (quiet env) (handle_eviction env' i p a info buf th)"
  unfolding handle_eviction_def by (intro quiet_basic quiet_ops quiet_cases; simp)

lemma quiet_insert [quiet_ops]: "op_rel (quiet env) (insertCacheBlock env' i a st d rq th)"
  unfolding insertCacheBlock_def by (intro quiet_basic quiet_ops quiet_cases; simp)

lemma quiet_accessCache [quiet_ops]: "op_rel (quiet env) (accessCache env' i op a off d k u)"
  unfolding accessCache_def Let_def by (intro quiet_basic quiet_ops quiet_cases; simp)

lemma quiet_exreq [quiet_ops]: "op_rel (quiet env) (processExReqToDirectory env' i a)"
  unfolding processExReqToDirectory_def by (intro quiet_basic quiet_ops quiet_cases; simp)

lemma quiet_upgrade [quiet_ops]: "op_rel (quiet env) (processUpgradeReqToDirectory env' i a pf th)"
  unfolding processUpgradeReqToDirectory_def by (intro quiet_basic quiet_ops quiet_cases; simp)

lemma quiet_shreq [quiet_ops]: "op_rel (quiet env) (processShReqToDirectory env' i a)"
  unfolding processShReqToDirectory_def by (intro quiet_basic quiet_ops quiet_cases; simp)

lemma quiet_initiate [quiet_ops]: "op_rel (quiet env) (initiateDirectoryAccess env' i op a pf ti)"
  unfolding initiateDirectoryAccess_def by (intro quiet_basic quiet_ops quiet_cases; simp add: enqueue_waiter_def)

lemma quiet_read_delay [quiet_ops]: "op_rel (quiet env) (next_read_delay env' i t)"
  unfolding next_read_delay_def Let_def by (intro quiet_basic quiet_ops quiet_cases; simp)

lemma quiet_copyData [quiet_ops]: "op_rel (quiet env) (copyDataFromNextLevel env' i op a m t)"
  unfolding copyDataFromNextLevel_def by (intro quiet_basic quiet_ops quiet_cases; simp)

lemma quiet_others [quiet_ops]: "op_rel (quiet env) (snoop_others env' i rq a ns rs)"
  unfolding snoop_others_def by (intro quiet_basic quiet_ops quiet_cases; simp)

lemma quiet_inval_ptr [quiet_ops]: "op_rel (quiet env) (invalidate_pointer env' i po)"
  unfolding invalidate_pointer_def by (intro quiet_basic quiet_ops quiet_cases; simp)

lemma quiet_perfect [quiet_ops]: "op_rel (quiet env) (insert_perfect env' i op a po)"
  unfolding insert_perfect_def by (intro quiet_basic quiet_ops quiet_cases; simp)

lemma quiet_prefetched [quiet_ops]: "op_rel (quiet env) (use_prefetched env' i p)"
  unfolding use_prefetched_def by (intro quiet_basic quiet_ops quiet_cases; simp)

lemma quiet_warmup [quiet_ops]: "op_rel (quiet env) (use_warmup env' i p)"
  unfolding use_warmup_def by (intro quiet_basic quiet_ops quiet_cases; simp)

lemma quiet_wait [quiet_ops]: "op_rel (quiet env) (wait_in_flight i a)"
  unfolding wait_in_flight_def Let_def by (intro quiet_basic quiet_ops quiet_cases; simp)

lemma quiet_hit [quiet_ops]: "op_rel (quiet env) (process_hit env' i rq op a m pf po)"
  unfolding process_hit_def by (intro quiet_basic quiet_ops quiet_cases; simp)

lemma quiet_fill [quiet_ops]: "op_rel (quiet env) (fill_from_dram env' i op a pf)"
  unfolding fill_from_dram_def by (intro quiet_basic quiet_ops quiet_cases; simp)

lemma quiet_miss:
  "(\<And>j. op_rel (quiet env) (next_req j)) \<Longrightarrow>
    op_rel (quiet env) (process_miss env' i rq op a m pf ti po next_req)"
  unfolding process_miss_def by (intro quiet_basic quiet_ops quiet_cases; simp)

lemma quiet_request [quiet_ops]:
  "op_rel (quiet env) (processShmemReqFromPrevCache n env' i rq op a m cnt pf ti)"
proof (induction n arbitrary: i rq pf)
  case (Suc n)
  show ?case unfolding processShmemReqFromPrevCache.simps
    by (intro quiet_basic quiet_ops quiet_cases quiet_miss Suc.IH; simp)
qed (simp add: quiet.rel_fail)

lemma quiet_wait_l1 [quiet_ops]: "op_rel (quiet env) (wait_l1_mshr env' i op a)"
  unfolding wait_l1_mshr_def by (intro quiet_basic quiet_ops quiet_cases; simp)

lemma quiet_l1_hit [quiet_ops]: "op_rel (quiet env) (l1_hit env' i op a m po)"
  unfolding l1_hit_def by (intro quiet_basic quiet_ops quiet_cases; simp)

lemma quiet_l1_slot [quiet_ops]: "op_rel (quiet env) (l1_mshr_slot env' i u t)"
  unfolding l1_mshr_slot_def by (intro quiet_basic quiet_ops quiet_cases; simp)

lemma quiet_l1_lookup [quiet_ops]: "op_rel (quiet env) (l1_lookup env' i op a)"
  unfolding l1_lookup_def by (intro quiet_basic quiet_ops quiet_cases; simp)

lemma quiet_update_usage [quiet_ops]: "op_rel (quiet env) (update_usage env' i a off k m po)"
  unfolding update_usage_def Let_def by (intro quiet_basic quiet_ops quiet_cases; simp)

section \<open>Taking and releasing locks\<close>

definition holds ::
  "('b, 'p, 'g, 'm) cc_env \<Rightarrow> ('b, 'r, 'p, 'g, 'm) hier \<Rightarrow> (nat \<times> nat \<Rightarrow> held) \<Rightarrow> ('b, 'r, 'p, 'g, 'm) hier \<Rightarrow> bool" where
  "holds env s0 h s \<longleftrightarrow> no_writethrough s \<and> last_ok env s \<and> same_names s0 s \<and> held_after (trace s) = Some h"

lemma hoare_quiet:
  assumes "op_rel (quiet env) m"
  shows "hoareS (holds env s0 h) m (\<lambda>_. holds env s0 h)"
  unfolding hoareS_def
proof (intro allI impI)
  fix s x t assume s: "holds env s0 h s" and run: "m s = Inr (x, t)"
  have q: "quiet env s t" using op_relD[OF assms run] .
  then have "same_names s t" using s by (simp add: quiet_def holds_def)
  then show "holds env s0 h t"
    using s q quiet_no_writethrough[OF q] same_names_trans[of s0 s t] by (simp add: holds_def quiet_def)
qed

lemma hoare_last:
  "hoareS (holds env s0 h) (lastLevelCache env i)
     (\<lambda>l s. holds env s0 h s \<and> walk_last (e_depth env) (cntlrs s0) i = Some l)"
  unfolding hoareS_def
proof (intro allI impI)
  fix s l t assume s: "holds env s0 h s" and run: "lastLevelCache env i s = Inr (l, t)"
  have w: "walk_last (e_depth env) (cntlrs s) i = walk_last (e_depth env) (cntlrs s0) i"
    using s by (intro same_names_walk) (simp add: holds_def)
  show "holds env s0 h t \<and> walk_last (e_depth env) (cntlrs s0) i = Some l"
  proof (cases "m_last_level (cntlrs s i)")
    case (Some k)
    then show ?thesis
      using run s w by (auto simp: lastLevelCache_def err_simps holds_def last_ok_def)
  next
    case None
    let ?t = "s\<lparr>cntlrs := (cntlrs s)(i := (cntlrs s i)\<lparr>m_last_level := Some l\<rparr>)\<rparr>"
    have t: "walk_last (e_depth env) (cntlrs s) i = Some l" "t = ?t"
      using run None by (auto simp: lastLevelCache_def err_simps upd_cntlr_def split: option.splits)
    have n: "same_names s ?t" by (simp add: same_names_def)
    have "last_ok env ?t"
      using s t(1) same_names_walk[OF n] by (auto simp: holds_def last_ok_def)
    then show ?thesis
      using s n w t same_names_trans[of s0 s ?t] by (auto simp: holds_def no_writethrough_def)
  qed
qed

text \<open>A lock call that the automaton accepts.\<close>

lemma hoare_lock_call:
  assumes key: "lock_key env i a s0 = (k, n)"
    and step: "lock_step (f k n (m_core_id (cntlrs s0 i))) (Some h) = Some h'"
  shows "hoareS (holds env s0 h) (set_lock_call env i a f) (\<lambda>_. holds env s0 h')"
  unfolding set_lock_call_def
proof (rule hoare_bind[OF hoare_last], rule hoare_pre)
  fix l assume l: "walk_last (e_depth env) (cntlrs s0) i = Some l"
  show "hoareS (holds env s0 h) (bindS (getS (\<lambda>s. m_master (cntlrs s l))) (\<lambda>k. bindS (master_of l) (\<lambda>m.
     bindS (liftS (master_getSetLock a m)) (\<lambda>n. bindS (cntlr_of i) (\<lambda>c. ext (f k n (m_core_id c)))))))
     (\<lambda>_. holds env s0 h')"
    unfolding hoareS_def
  proof (intro allI impI)
    fix s x t assume s: "holds env s0 h s"
      and run: "bindS (getS (\<lambda>s. m_master (cntlrs s l))) (\<lambda>k. bindS (master_of l) (\<lambda>m.
     bindS (liftS (master_getSetLock a m)) (\<lambda>n. bindS (cntlr_of i) (\<lambda>c. ext (f k n (m_core_id c)))))) s = Inr (x, t)"
    have sn: "same_names s0 s" using s by (simp add: holds_def)
    then have core: "m_core_id (cntlrs s i) = m_core_id (cntlrs s0 i)"
      and kn: "m_master (cntlrs s l) = k" "getSetLock_index a (my_master l s) = n"
      using key l by (auto simp: lock_key_def same_names_def getSetLock_index_def my_master_def)
    have "t = s\<lparr>trace := trace s @ [f k n (m_core_id (cntlrs s0 i))]\<rparr>"
      using run kn core by (auto simp: err_simps master_getSetLock_def Let_def ext_def split: if_splits)
    moreover from this have "same_names s t" by (simp add: same_names_def)
    ultimately show "holds env s0 h' t"
      using s step same_names_trans[OF sn] by (simp add: holds_def no_writethrough_def last_ok_def)
  qed
qed

lemma hoare_locks:
  assumes key: "lock_key env i a s0 = x" and c: "c = m_core_id (cntlrs s0 i)"
  shows "h x = Free \<Longrightarrow> hoareS (holds env s0 h) (acquireStackLock env i a False) (\<lambda>_. holds env s0 (h(x := Exclusive)))"
    "h x = Exclusive \<Longrightarrow> hoareS (holds env s0 h) (releaseStackLock env i a False) (\<lambda>_. holds env s0 (h(x := Free)))"
    "h x = SharedBy c \<Longrightarrow> hoareS (holds env s0 h) (acquireStackLock env i a True) (\<lambda>_. holds env s0 (h(x := Exclusive)))"
    "h x = Exclusive \<Longrightarrow> hoareS (holds env s0 h) (releaseStackLock env i a True) (\<lambda>_. holds env s0 (h(x := SharedBy c)))"
    "h x = Free \<Longrightarrow> hoareS (holds env s0 h) (acquireLock env i a) (\<lambda>_. holds env s0 (h(x := SharedBy c)))"
    "h x = SharedBy c \<Longrightarrow> hoareS (holds env s0 h) (releaseLock env i a) (\<lambda>_. holds env s0 (h(x := Free)))"
proof -
  obtain k n where kn: "lock_key env i a s0 = (k, n)" "x = (k, n)" using key by (cases x) simp
  note call = hoare_lock_call[OF kn(1)]
  have first: "hoareS P (bindS (getS g) (\<lambda>b. seqS (assertS e b) m)) Q" if "hoareS P m Q" for P m Q g e
    using that by (auto simp: hoareS_def err_simps)
  show "h x = Free \<Longrightarrow> hoareS (holds env s0 h) (acquireStackLock env i a False) (\<lambda>_. holds env s0 (h(x := Exclusive)))"
    "h x = Exclusive \<Longrightarrow> hoareS (holds env s0 h) (releaseStackLock env i a False) (\<lambda>_. holds env s0 (h(x := Free)))"
    "h x = SharedBy c \<Longrightarrow> hoareS (holds env s0 h) (acquireStackLock env i a True) (\<lambda>_. holds env s0 (h(x := Exclusive)))"
    "h x = Exclusive \<Longrightarrow> hoareS (holds env s0 h) (releaseStackLock env i a True) (\<lambda>_. holds env s0 (h(x := SharedBy c)))"
    "h x = Free \<Longrightarrow> hoareS (holds env s0 h) (acquireLock env i a) (\<lambda>_. holds env s0 (h(x := SharedBy c)))"
    "h x = SharedBy c \<Longrightarrow> hoareS (holds env s0 h) (releaseLock env i a) (\<lambda>_. holds env s0 (h(x := Free)))"
    unfolding acquireStackLock_def releaseStackLock_def acquireLock_def releaseLock_def
    by (auto intro!: call first simp: kn c)
qed


section \<open>The operations of the core\<close>

text \<open>The network thread takes the lock of the set and hands it over.\<close>

definition net_ok ::
  "('b, 'p, 'g, 'm) cc_env \<Rightarrow> (nat \<Rightarrow> u64 \<Rightarrow> (('b, 'r, 'p, 'g, 'm) hier, unit) op) \<Rightarrow> bool" where
  "net_ok env net \<longleftrightarrow> (\<forall>i a s0 h. h (lock_key env i a s0) = Free \<longrightarrow>
     hoareS (holds env s0 h) (net i a) (\<lambda>_. holds env s0 (h(lock_key env i a s0 := Exclusive))))"

lemma hoare_wait:
  assumes "net_ok env net" "h (lock_key env i a s0) = Exclusive"
  shows "hoareS (holds env s0 h) (wait_for_reply env net i a) (\<lambda>_. holds env s0 h)"
proof -
  let ?x = "lock_key env i a s0"
  have net: "hoareS (holds env s0 (h(?x := Free))) (net i a) (\<lambda>_. holds env s0 h)"
    using assms(1)[unfolded net_ok_def, rule_format, of "h(?x := Free)" i a s0] fun_upd_idem[of h ?x, OF assms(2)]
    by simp
  have w: "op_rel (quiet env) (waitForNetworkThread i)" "op_rel (quiet env) (wakeUpNetworkThread i)"
    unfolding waitForNetworkThread_def wakeUpNetworkThread_def by (rule quiet_ext, simp)+
  show ?thesis unfolding wait_for_reply_def
    by (rule hoare_seq[OF hoare_locks(2)[of env i a s0 ?x _ h, OF refl refl assms(2)]], rule hoare_seq[OF hoare_quiet[OF w(1)]],
        rule hoare_seq[OF net], rule hoare_quiet[OF w(2)])
qed

lemma hoare_doPrefetch:
  assumes "net_ok env net" "h (lock_key env i a s0) = Free"
  shows "hoareS (holds env s0 h) (doPrefetch env net i a t0) (\<lambda>_. holds env s0 h)"
proof -
  let ?x = "lock_key env i a s0" and ?h = "h(lock_key env i a s0 := Exclusive)"
  note q = hoare_quiet[of env _ s0 ?h]
  have rel: "hoareS (holds env s0 ?h) (releaseStackLock env i a False) (\<lambda>_. holds env s0 h)"
    using hoare_locks(2)[of env i a s0 ?x _ ?h] fun_upd_idem[of h ?x, OF assms(2)] by simp
  have wait: "hoareS (holds env s0 ?h) (wait_for_reply env net i a) (\<lambda>_. holds env s0 ?h)"
    using hoare_wait[OF assms(1), of ?h] by simp
  show ?thesis unfolding doPrefetch_def
    by (intro hoare_seq[OF hoare_quiet] hoare_seq[OF hoare_locks(1)[where x = ?x]] hoare_bind[OF q] hoare_seq[OF q]
        hoare_seq[OF hoare_when] hoare_seq[OF wait] rel q quiet_basic quiet_ops)
      (use assms in simp_all)
qed

lemma hoare_Prefetch:
  assumes "net_ok env net"
  shows "hoareS (holds env s0 (\<lambda>_. Free)) (Prefetch_op n env net i t0) (\<lambda>_. holds env s0 (\<lambda>_. Free))"
proof (induction n arbitrary: i)
  case (Suc n)
  let ?P = "holds env s0 (\<lambda>_. Free)"
  have next_level: "hoareS ?P (bindS (cntlr_of i) (\<lambda>c. case m_next c of None \<Rightarrow> retS ()
      | Some j \<Rightarrow> Prefetch_op n env net j t0)) (\<lambda>_. ?P)"
    by (rule hoare_bind[OF hoare_quiet[OF quiet.rel_get]]) (auto intro: Suc.IH hoare_ret split: option.splits)
  have one: "hoareS ?P (bindS (master_of i) (\<lambda>m. seqS (doPrefetch env net i a (m_prefetch_next m))
      (upd_master i (\<lambda>m. m\<lparr>m_prefetch_next := m_prefetch_next m + PREFETCH_INTERVAL\<rparr>)))) (\<lambda>_. ?P)" for a
    by (intro hoare_bind[OF hoare_quiet[OF quiet.rel_get]] hoare_seq[OF hoare_doPrefetch[OF assms]] hoare_quiet
        quiet_upd_master) simp_all
  show ?case unfolding Prefetch_op.simps
    by (intro hoare_bind[OF hoare_quiet[OF quiet.rel_get]] hoare_bind[OF hoare_quiet] hoare_seq[OF hoare_when]
        one next_level quiet_basic quiet_ops)
qed (simp add: hoare_fail)


lemma hoare_request_next:
  assumes "net_ok env net" "h (lock_key env i a s0) = Exclusive"
  shows "hoareS (holds env s0 h) (request_next env net i op a m cnt t0) (\<lambda>_. holds env s0 h)"
proof -
  note q = hoare_quiet[of env _ s0 h]
  have "hoareS (holds env s0 h) (case x of None \<Rightarrow> failS NullPointer | Some j \<Rightarrow>
      bindS (processShmemReqFromPrevCache (e_depth env) env j i op a m cnt PF_NONE t0) (\<lambda>hit_where.
         if hit_where \<noteq> MISS then retS hit_where
         else
           seqS (wait_for_reply env net i a)
          (bindS (processShmemReqFromPrevCache (e_depth env) env j i op a False False PF_NONE t0) (\<lambda>hit_where.
           seqS (assertS (LogAssert ''Tried to read in next-level cache, but data is already gone'') (hit_where \<noteq> MISS))
             (retS hit_where))))) (\<lambda>_. holds env s0 h)" for x
    by (cases x) (simp_all add: hoare_fail,
        intro hoare_bind[OF q] hoare_if hoare_seq[OF hoare_wait[where h = h, OF assms]] hoare_seq[OF q] q quiet_basic quiet_ops)
  then show ?thesis unfolding request_next_def by (intro hoare_bind[OF q] quiet_basic)
qed

lemma when_not_False: "whenS (\<not> False) k = k"
  by (simp add: whenS_def)

lemma hoare_l1_miss:
  assumes net: "net_ok env net" and h: "h (lock_key env i a s0) = SharedBy (m_core_id (cntlrs s0 i))"
  shows "hoareS (holds env s0 h) (l1_miss env net i sig op a m cnt False t0) (\<lambda>_. holds env s0 h)"
proof -
  let ?x = "lock_key env i a s0"
  let ?h = "h(?x := Exclusive)"
  note q = hoare_quiet[of env _ s0]
  have acq: "hoareS (holds env s0 h) (acquireStackLock env i a True) (\<lambda>_. holds env s0 ?h)"
    by (rule hoare_locks(3)[of env i a s0 ?x _ h, OF refl refl h])
  have rel: "hoareS (holds env s0 ?h) (releaseStackLock env i a True) (\<lambda>_. holds env s0 h)"
    using hoare_locks(4)[of env i a s0 ?x _ ?h] fun_upd_idem[of h ?x, OF h] by simp
  have req: "hoareS (holds env s0 ?h) (request_next env net i op a m cnt t0) (\<lambda>_. holds env s0 ?h)"
    by (rule hoare_request_next[OF net]) simp
  show ?thesis unfolding l1_miss_def when_not_False
    by ((rule hoare_bind[OF req] hoare_seq[OF acq] hoare_seq[OF rel] | rule hoare_bind[OF q] hoare_seq[OF q] q |
        intro quiet_basic quiet_ops; simp)+)
qed


lemma hoare_nonempty: "(\<And>s. P s \<Longrightarrow> hoareS P m Q) \<Longrightarrow> hoareS P m Q"
  by (auto simp: hoareS_def)

text \<open>What is held before and after an operation with signal \<open>sig\<close>.\<close>

definition held_when :: "bool \<Rightarrow> nat \<times> nat \<Rightarrow> int \<Rightarrow> nat \<times> nat \<Rightarrow> held" where
  "held_when b x c = (if b then (\<lambda>_. Free)(x := SharedBy c) else (\<lambda>_. Free))"

lemma hoare_after_access:
  assumes net: "net_ok env net" and x: "x = lock_key env i a s0" "c = m_core_id (cntlrs s0 i)"
  shows "hoareS (holds env s0 ((\<lambda>_. Free)(x := SharedBy c)))
    (after_access env net i sig op a modeled False ts hit w ph po) (\<lambda>_. holds env s0 (held_when (sig = SIG_LOCK) x c))"
proof -
  let ?h = "(\<lambda>_. Free)(x := SharedBy c)" and ?F = "held_when (sig = SIG_LOCK) x c"
  have unlock: "hoareS (holds env s0 ?h) (releaseLock env i a) (\<lambda>_. holds env s0 (\<lambda>_. Free))"
    using hoare_locks(6)[of env i a s0 x c ?h] fun_upd_idem[of "\<lambda>_. Free" x Free] x by simp
  have first: "hoareS (holds env s0 ?h) (whenS (sig \<noteq> SIG_LOCK) (unlock_after_op env i a False)) (\<lambda>_. holds env s0 ?F)"
    using unlock hoare_ret[of "holds env s0 ?h" "\<lambda>_. holds env s0 ?h" "()"]
    by (simp add: whenS_def unlock_after_op_def held_when_def)
  have pre: "hoareS (holds env s0 ?F) (whenS (sig \<noteq> SIG_LOCK \<and> modeled) (Prefetch_op (e_depth env) env net i ts))
      (\<lambda>_. holds env s0 ?F)"
    using hoare_Prefetch[OF net, of s0 "e_depth env" i ts] by (intro hoare_when) (simp add: held_when_def)
  note q = hoare_quiet[of env _ s0 ?F]
  show ?thesis
    unfolding after_access_def
    by (rule hoare_seq[OF first])
       ((rule hoare_seq[OF pre] | rule hoare_bind[OF q] hoare_seq[OF q] q | intro quiet_basic quiet_ops quiet_cases; simp)+)
qed

lemma hoare_locked_access:
  assumes net: "net_ok env net" and x: "x = lock_key env i a s0" "c = m_core_id (cntlrs s0 i)"
  shows "hoareS (holds env s0 ((\<lambda>_. Free)(x := SharedBy c)))
    (locked_access env net i sig op a off d n modeled count ct False)
    (\<lambda>_. holds env s0 (held_when (sig = SIG_LOCK) x c))"
proof -
  let ?h = "(\<lambda>_. Free)(x := SharedBy c)"
  note q = hoare_quiet[of env _ s0 ?h]
  have miss: "hoareS (holds env s0 ?h) (l1_miss env net i sig op a modeled count False ts) (\<lambda>_. holds env s0 ?h)" for ts
    by (rule hoare_l1_miss[OF net]) (use x in simp)
  have middle: "hoareS (holds env s0 ?h) (if hit then bindS (l1_hit env i op a modeled po) (\<lambda>(w, ph). retS (w, ph, po))
            else bindS (l1_miss env net i sig op a modeled count False ts) (\<lambda>(w, po). retS (w, False, po)))
      (\<lambda>_. holds env s0 ?h)" for hit po ts
    by (intro hoare_if hoare_bind[OF miss] hoare_bind[OF q] q quiet_basic quiet_ops)
  show ?thesis
    unfolding locked_access_def split_def
    by ((rule hoare_bind[OF middle[unfolded split_def]] hoare_seq[OF hoare_after_access[OF net x]] | rule hoare_ret, assumption |
        rule hoare_bind[OF q] hoare_seq[OF q] | intro quiet_basic quiet_ops quiet_cases; simp)+)
qed

lemma hoare_processMemOp:
  assumes net: "net_ok env net" and x: "x = lock_key env i a s0" "c = m_core_id (cntlrs s0 i)"
  shows "hoareS (holds env s0 (held_when (sig = SIG_UNLOCK) x c))
    (processMemOpFromCore env net i sig op a off d n modeled count)
    (\<lambda>_. holds env s0 (held_when (sig = SIG_LOCK) x c))"
proof -
  let ?P = "holds env s0 (held_when (sig = SIG_UNLOCK) x c)" and ?h = "(\<lambda>_. Free)(x := SharedBy c)"
  have lock: "hoareS ?P (whenS (sig \<noteq> SIG_UNLOCK) (lock_for_op env i a False)) (\<lambda>_. holds env s0 ?h)"
    using hoare_locks(5)[of env i a s0 x c "\<lambda>_. Free"] x hoare_ret[of ?P "\<lambda>_. holds env s0 ?h" "()"]
    by (cases "sig = SIG_UNLOCK") (simp_all add: whenS_def lock_for_op_def held_when_def)
  note access = hoare_locked_access[OF net x]
  show ?thesis
    unfolding processMemOpFromCore_def Let_def
  proof (rule hoare_bind[OF hoare_get], rule hoare_nonempty)
    fix ct s assume "?P s \<and> ct = cntlrs s i"
    then have wt: "m_cache_writethrough ct = False" by (simp add: holds_def no_writethrough_def)
    show "hoareS (\<lambda>s. ?P s \<and> ct = cntlrs s i) (seqS (assertS (LogAssert ''address at cache line'')
             (a AND ucast (of_nat (m_cache_block_size ct) - 1 :: u32) = 0))
      (seqS (assertS (LogAssert ''access until'') (off + n \<le> m_cache_block_size ct))
      (seqS (whenS (sig \<noteq> SIG_UNLOCK) (lock_for_op env i a (m_cache_writethrough ct \<and> (op = OP_WRITE \<or> sig \<noteq> SIG_NONE))))
        (locked_access env net i sig op a off d n modeled count ct (m_cache_writethrough ct \<and> (op = OP_WRITE \<or> sig \<noteq> SIG_NONE))))))
      (\<lambda>_. holds env s0 (held_when (sig = SIG_LOCK) x c))"
      unfolding wt simp_thms
      by (rule hoare_weaken[where P = ?P],
          rule hoare_seq[OF hoare_assert], rule hoare_seq[OF hoare_assert], rule hoare_seq[OF lock], rule access) simp_all
  qed
qed


section \<open>A concrete run\<close>

text \<open>A network thread that does just what \<open>net_ok\<close> asks, and a read that hits in \<open>L1\<close>. \<open>demo_at\<close> is the
  state of \<open>demo_hier\<close> after some steps: the remembered last level, the cache \<open>L1\<close>, the clock, the
  registry, the statistics and the trace.\<close>

definition demo_net :: "nat \<Rightarrow> u64 \<Rightarrow> ((u64 \<times> cstate, lru2, nat, nat, unit) hier, unit) op" where
  "demo_net i a = acquireStackLock demo_cc_env i a False"

lemma demo_net_ok: "net_ok demo_cc_env demo_net"
  unfolding net_ok_def demo_net_def
  by (intro allI impI hoare_locks(1)[OF refl refl])

lemma demo_peek: "peekSingleLine plain_api one_set 128 (demo_with d) = Inr (Some (0, 0))"
  using demo_with_lookup[of d]
  by (simp add: peekSingleLine_def lookup_def one_set_def get_set_def demo_with_sets)

lemma demo_load:
  assumes "length d = 256"
  obtains rg c where "accessSingleLine plain_api one_set (lru2_policy plain_api) flip_all 128 LOAD None True 64 False
      registry_init (demo_with d) = Inr (Some (0, 0), Some (take 64 d), rg, c)"
proof -
  have "data_of plain_api one_set 128 (demo_with d) = Some (take 64 d)"
    using demo_view[of d "[]"] by (simp add: master_view_def demo_master_def demo_cc_env_def)
  have al: "snd (snd (splitAddress one_set 128)) = 0" by (simp add: one_set_def)
  have n: "64 = c_blocksize (demo_with d)" by (simp add: demo_with_sets)
  have ex: "\<not> is_block_approx 128 (of_nat 64) registry_init" by simp
  obtain rg c where "accessSingleLine plain_api one_set (lru2_policy plain_api) flip_all 128 LOAD None True 64 False
      registry_init (demo_with d) = Inr (Some (0, 0), Some (take 64 d), rg, c)"
    using load_block[OF demo_with_ok[OF assms] \<open>data_of _ _ _ _ = _\<close> demo_with_lookup al n ex] by blast
  then show ?thesis by (rule that)
qed

definition demo_at :: "bool \<Rightarrow> (u64 \<times> cstate, lru2, nat, nat) cache \<Rightarrow> time \<Rightarrow> registry \<Rightarrow> cstats \<Rightarrow> ext_call list \<Rightarrow>
    (u64 \<times> cstate, lru2, nat, nat, unit) hier" where
  "demo_at l c tm rg st tr = \<lparr>cntlrs = (\<lambda>i. if i = 0 then (demo_cntlr L1_DCACHE 0 (Some 1))\<lparr>m_last_level := if l then Some 1 else None, stats := st\<rparr>
        else demo_cntlr (LX_CACHE 0) 1 None),
     masters = (\<lambda>k. if k = 0 then demo_master c [] else demo_master (demo_with (replicate 256 0)) [0]),
     clock = (\<lambda>i th. if i = 0 \<and> th = USER_THREAD then tm else 0), h_rg = rg, h_dram = new_dram () None, trace = tr\<rparr>"


abbreviation demo_l1_cache :: "(u64 \<times> cstate, lru2, nat, nat) cache" where
  "demo_l1_cache \<equiv> demo_with (replicate 256 7)"

lemma demo_at_start: "demo_hier = demo_at False demo_l1_cache 0 registry_init zero_stats []"
  by (simp add: demo_hier_def demo_at_def demo_cntlr_def fun_eq_iff)

lemma demo_at_sel:
  "m_master (cntlrs (demo_at l c tm rg st tr) i) = (if i = 0 then 0 else 1)"
  "m_next (cntlrs (demo_at l c tm rg st tr) i) = (if i = 0 then Some 1 else None)"
  "m_last_level (cntlrs (demo_at l c tm rg st tr) i) = (if l \<and> i = 0 then Some 1 else None)"
  "m_core_id (cntlrs (demo_at l c tm rg st tr) i) = 0"
  "m_perfect (cntlrs (demo_at l c tm rg st tr) i) = False"
  "m_passthrough (cntlrs (demo_at l c tm rg st tr) i) = False"
  "m_cache_writethrough (cntlrs (demo_at l c tm rg st tr) i) = False"
  "m_cache_block_size (cntlrs (demo_at l c tm rg st tr) i) = 64"
  "m_mem_component (cntlrs (demo_at l c tm rg st tr) 0) = L1_DCACHE"
  "masters (demo_at l c tm rg st tr) 0 = demo_master c []"
  "masters (demo_at l c tm rg st tr) (Suc 0) = demo_master (demo_with (replicate 256 0)) [0]"
  "h_rg (demo_at l c tm rg st tr) = rg" "trace (demo_at l c tm rg st tr) = tr"
  "clock (demo_at l c tm rg st tr) 0 USER_THREAD = tm"
  by (simp_all add: demo_at_def demo_cntlr_def)

lemma demo_at_upd:
  "ext e (demo_at l c tm rg st tr) = Inr ((), demo_at l c tm rg st (tr @ [e]))"
  "upd_stats 0 f (demo_at l c tm rg st tr) = Inr ((), demo_at l c tm rg (f st) tr)"
  "setElapsedTime 0 USER_THREAD t (demo_at l c tm rg st tr) = Inr ((), demo_at l c t rg st tr)"
  by (auto simp: ext_def upd_stats_def upd_cntlr_def setElapsedTime_def modS_def demo_at_def demo_cntlr_def fun_eq_iff)

lemma demo_env_sel:
  "e_api demo_cc_env = plain_api" "e_depth demo_cc_env = 2" "e_sample demo_cc_env = flip_all"
  "e_latency demo_cc_env co acc = 1" "e_readable demo_cc_env st = (st \<noteq> INVALID)" "e_callbacks demo_cc_env = False"
  "e_notify_access demo_cc_env = False" "e_cache_only demo_cc_env = False" "hasOption (e_ext demo_cc_env) opt b = False"
  by (simp_all add: demo_cc_env_def plain_ext_def)

lemma demo_last: "lastLevelCache demo_cc_env 0 (demo_at l c tm rg st tr) = Inr (1, demo_at True c tm rg st tr)"
  by (cases l) (simp_all add: lastLevelCache_def bindS_def getS_def demo_at_sel demo_env_sel numeral_2_eq_2 seqS_def
      upd_cntlr_def modS_def retS_def, simp add: demo_at_def fun_eq_iff)

lemma demo_lock:
  "acquireLock demo_cc_env 0 128 (demo_at l c tm rg st tr) = Inr ((), demo_at True c tm rg st (tr @ [LockAcquireShared 1 0 0]))"
  "releaseLock demo_cc_env 0 128 (demo_at l c tm rg st tr) = Inr ((), demo_at True c tm rg st (tr @ [LockReleaseShared 1 0 0]))"
  by (simp_all add: acquireLock_def releaseLock_def set_lock_call_def bindS_def seqS_def getS_def assertS_def liftS_def isFirstLevel_def
      my_master_def demo_at_sel demo_last demo_at_upd master_getSetLock_def getSetLock_index_def demo_master_def Let_def)


lemma demo_info:
  "getCacheBlockInfo demo_cc_env 0 128 (demo_at l demo_l1_cache tm rg st tr) = Inr (Some (0, 0), demo_at l demo_l1_cache tm rg st tr)"
  "getCacheState_of demo_cc_env 0 (Some (0, 0)) (demo_at l demo_l1_cache tm rg st tr) = Inr (MODIFIED, demo_at l demo_l1_cache tm rg st tr)"
  by (simp_all add: getCacheBlockInfo_def getCacheState_of_def bindS_def getS_def liftS_def retS_def my_master_def demo_at_sel
      demo_master_def demo_env_sel demo_peek demo_with_block) (simp add: plain_api_def)

lemma demo_access:
  assumes "access_line demo_cc_env 0 128 LOAD None True 64 False (demo_at l demo_l1_cache tm registry_init st tr) = Inr (x, t)"
  shows "\<exists>c rg. t = demo_at l c tm rg st tr"
  using assms by (auto simp: access_line_def err_simps upd_master_def my_master_def demo_at_sel)
    (auto simp: demo_at_def demo_master_def fun_eq_iff)

lemma demo_run:
  "\<exists>r t. processMemOpFromCore demo_cc_env demo_net 0 SIG_NONE OP_READ 128 0 (Some None) 64 False False demo_hier = Inr (r, t)"
proof -
  obtain rg c where ld: "accessSingleLine plain_api one_set (lru2_policy plain_api) flip_all 128 LOAD None True 64 False
      registry_init demo_l1_cache = Inr (Some (0, 0), Some (take 64 (replicate 256 7)), rg, c)"
    using demo_load[of "replicate 256 7"] by auto
  have acc: "access_line demo_cc_env 0 128 LOAD None True 64 False (demo_at l demo_l1_cache tm registry_init st tr) =
      Inr ((Some (0, 0), Some (take 64 (replicate 256 7))), demo_at l c tm rg st tr)" for l tm st tr
    using ld by (simp add: access_line_def bindS_def getS_def liftS_def seqS_def modS_def retS_def upd_master_def my_master_def demo_at_sel
        demo_master_def demo_env_sel) (simp add: demo_at_def demo_master_def fun_eq_iff)
  show ?thesis
    unfolding demo_at_start
    by (simp add: processMemOpFromCore_def locked_access_def after_access_def l1_lookup_def l1_hit_def lock_for_op_def
      unlock_after_op_def operationPermissibleinCache_def update_usage_def accessCache_def use_warmup_def use_prefetched_def
      with_block_def incrAccessTime_def incrElapsedTime_def getElapsedTime_def
      bindS_def seqS_def getS_def assertS_def whenS_def retS_def Let_def demo_at_sel demo_at_upd demo_env_sel demo_lock demo_info acc
      demo_master_def my_master_def buf_bytes_def)
qed



end
