(* ===== verification/Cache_Cntlr_Facts.thy ===== *)
theory Cache_Cntlr_Facts
  imports Cache_Locks
begin

text \<open>
  Properties of the bookkeeping of a cache controller: the outstanding misses, the access counters, the
  set locks, the prefetch list, the write-through path and the waiters for the directory.
\<close>

section \<open>Outstanding misses\<close>

text \<open>
  C30. Trimming the outstanding misses ends, when every miss completes before \<open>MaxTime\<close> and the keys
  are distinct, and keeps at most eight of them: those that complete last. Nothing else changes.
\<close>

theorem cleanupMshr_keeps_latest:
  assumes "mshr_ok (e_max_time env) (mshr (my_master i s))"
  shows "\<exists>l t. cleanupMshr env i s = Inr ((), t) \<and> t = s\<lparr>masters := (masters s)
      (m_master (cntlrs s i) := (my_master i s)\<lparr>mshr := l\<rparr>)\<rparr> \<and>
    mshr_ok (e_max_time env) l \<and> length l = min 8 (length (mshr (my_master i s))) \<and>
    set l \<subseteq> set (mshr (my_master i s)) \<and>
    (\<forall>e\<in>set (mshr (my_master i s)) - set l. \<forall>k\<in>set l. t_complete (snd e) \<le> t_complete (snd k))"
proof -
  obtain r where r: "mshr_trim (Suc (length (mshr (my_master i s)))) (e_max_time env) (mshr (my_master i s)) = Some r"
    "mshr_ok (e_max_time env) r \<and> length r = min 8 (length (mshr (my_master i s))) \<and>
    set r \<subseteq> set (mshr (my_master i s)) \<and>
    (\<forall>e\<in>set (mshr (my_master i s)) - set r. \<forall>k\<in>set r. t_complete (snd e) \<le> t_complete (snd k))"
    using mshr_trim_latest[OF assms, of "Suc (length (mshr (my_master i s)))"] by blast
  then show ?thesis
    by (auto simp: cleanupMshr_def op_defs upd_master_def my_master_def simp del: mshr_trim.simps)
qed

theorem cleanupMshr_keeps_latest_witness:
  "\<exists>l t. cleanupMshr demo_cc_env 0 (demo_hier\<lparr>masters := (\<lambda>_. (masters demo_hier 0)
      \<lparr>mshr := map (\<lambda>k. (of_nat k, make_mshr k (2 * k))) [0..<9]\<rparr>)\<rparr>) = Inr ((), t) \<and>
    mshr (masters t 0) = l \<and> length l = 8"
proof -
  let ?l = "map (\<lambda>k. (of_nat k :: u64, make_mshr k (2 * k))) [0..<9]"
  let ?s = "demo_hier\<lparr>masters := (\<lambda>_. (masters demo_hier 0)\<lparr>mshr := ?l\<rparr>)\<rparr>"
  have "mshr_ok 1000 ?l"
    by (auto simp: mshr_ok_def distinct_map make_mshr_def inj_on_def)
  then have "mshr_ok (e_max_time demo_cc_env) (mshr (my_master 0 ?s))"
    by (simp add: my_master_def demo_cc_env_def)
  from cleanupMshr_keeps_latest[OF this] show ?thesis
    by (auto simp: my_master_def demo_hier_def demo_cntlr_def)
qed

section \<open>Access counters\<close>

text \<open>The counters by state add up to the totals.\<close>

definition by_state :: "(cstate \<Rightarrow> u64) \<Rightarrow> u64" where
  "by_state f = sum_list (map f counted_states)"

definition counters_ok :: "cstats \<Rightarrow> bool" where
  "counters_ok st \<longleftrightarrow> loads st = by_state (loads_state st) \<and> stores st = by_state (stores_state st) \<and>
     load_misses st = by_state (load_misses_state st) \<and> store_misses st = by_state (store_misses_state st)"

lemma by_state_upd: "st \<in> set counted_states \<Longrightarrow> by_state (f(st := f st + 1)) = by_state f + 1"
  by (auto simp: by_state_def counted_states_def)

lemma counters_zero: "counters_ok zero_stats"
  by (simp add: counters_ok_def zero_stats_def by_state_def counted_states_def)

text \<open>The counters after one access.\<close>

lemma count_store_sel:
  "loads (count_store n hit ov st pf s) = loads s" "loads_state (count_store n hit ov st pf s) = loads_state s"
  "load_misses (count_store n hit ov st pf s) = load_misses s"
  "load_misses_state (count_store n hit ov st pf s) = load_misses_state s"
  "stores (count_store n hit ov st pf s) = (if pf = PF_OWN then stores s else stores s + 1)"
  "stores_state (count_store n hit ov st pf s) =
    (if pf = PF_OWN then stores_state s else (stores_state s)(st := stores_state s st + 1))"
  "store_misses (count_store n hit ov st pf s) =
    (if pf \<noteq> PF_OWN \<and> (\<not> hit \<or> ov) then store_misses s + 1 else store_misses s)"
  "store_misses_state (count_store n hit ov st pf s) =
    (if pf \<noteq> PF_OWN \<and> (\<not> hit \<or> ov) then (store_misses_state s)(st := store_misses_state s st + 1)
     else store_misses_state s)"
  by (cases "pf = PF_NONE"; cases "pf = PF_OWN"; cases "n = 0"; cases "n = 1"; cases hit; cases ov;
      simp add: count_store_def Let_def)+

lemma count_load_sel:
  "stores (count_load n hit ov st pf s) = stores s" "stores_state (count_load n hit ov st pf s) = stores_state s"
  "store_misses (count_load n hit ov st pf s) = store_misses s"
  "store_misses_state (count_load n hit ov st pf s) = store_misses_state s"
  "loads (count_load n hit ov st pf s) = (if pf = PF_OWN then loads s else loads s + 1)"
  "loads_state (count_load n hit ov st pf s) =
    (if pf = PF_OWN then loads_state s else (loads_state s)(st := loads_state s st + 1))"
  "load_misses (count_load n hit ov st pf s) =
    (if pf \<noteq> PF_OWN \<and> \<not> hit then load_misses s + 1 else load_misses s)"
  "load_misses_state (count_load n hit ov st pf s) =
    (if pf \<noteq> PF_OWN \<and> \<not> hit then (load_misses_state s)(st := load_misses_state s st + 1)
     else load_misses_state s)"
  by (cases "pf = PF_NONE"; cases "pf = PF_OWN"; cases "n = 0"; cases "n = 1"; cases hit; cases ov;
      simp add: count_load_def Let_def)+

lemma count_ok:
  assumes "st \<in> set counted_states" "counters_ok s"
  shows "counters_ok (count_store n hit ov st pf s)" "counters_ok (count_load n hit ov st pf s)"
  using assms by (simp_all add: counters_ok_def count_store_sel count_load_sel by_state_upd)

text \<open>
  C26. Every counted access counts once: \<open>updateCounters\<close> succeeds when the shadow tags, if there are any, cover the core and
  the outstanding misses are well formed, adds one to the loads or stores, except for a prefetch of its
  own, adds one to their misses when the access missed (a store also when it overlaps a miss), and the
  counters by state keep adding up to the totals.
\<close>

theorem updateCounters_adds_up:
  assumes "counters_ok (stats (cntlrs s i))" "st \<in> set counted_states"
    and "mshr_ok (e_max_time env) (mshr (my_master i s))"
    and "m_atds (my_master i s) = 0 \<or>
      m_core_id (cntlrs s i) - m_core_id_master (cntlrs s i) \<in> {0..<int (m_atds (my_master i s))}"
  shows "\<exists>t. updateCounters env i op address hit st pf s = Inr ((), t) \<and>
    counters_ok (stats (cntlrs t i)) \<and>
    loads (stats (cntlrs t i)) = loads (stats (cntlrs s i)) + (if op \<noteq> OP_WRITE \<and> pf \<noteq> PF_OWN then 1 else 0) \<and>
    stores (stats (cntlrs t i)) = stores (stats (cntlrs s i)) + (if op = OP_WRITE \<and> pf \<noteq> PF_OWN then 1 else 0) \<and>
    load_misses (stats (cntlrs t i)) = load_misses (stats (cntlrs s i)) +
      (if op \<noteq> OP_WRITE \<and> pf \<noteq> PF_OWN \<and> \<not> hit then 1 else 0)"
proof -
  let ?c = "cntlrs s i" and ?m = "my_master i s"
  have trim: "\<exists>l. mshr_trim (Suc (length (mshr ?m))) (e_max_time env) (mshr ?m) = Some l"
    using mshr_trim_latest[OF assms(3), of "Suc (length (mshr ?m))"] by blast
  have idx: "m_atds ?m \<noteq> 0 \<Longrightarrow> 0 \<le> m_core_id ?c - m_core_id_master ?c \<and>
      nat (m_core_id ?c - m_core_id_master ?c) < m_atds ?m"
    using assms(4) by auto
  let ?f = "\<lambda>n ov. if op = OP_WRITE then count_store n hit ov st pf else count_load n hit ov st pf"
  have f: "counters_ok (?f n ov (stats ?c))" for n ov using count_ok[OF assms(2,1)] by simp
  have "wpS (updateCounters env i op address hit st pf) (\<lambda>_ t. \<exists>n ov. stats (cntlrs t i) = ?f n ov (stats ?c)) s"
    using trim idx
    by (auto simp: updateCounters_def wp_simps getElapsedTime_def accessATDs_def ext_def upd_stats_def upd_cntlr_def
        cleanupMshr_def my_master_def upd_master_def simp del: mshr_trim.simps) blast+
  then obtain t n ov where run: "updateCounters env i op address hit st pf s = Inr ((), t)"
    "stats (cntlrs t i) = ?f n ov (stats ?c)" by (auto simp: wpS_def)
  then show ?thesis using f by (auto simp: count_store_sel count_load_sel)
qed

theorem updateCounters_adds_up_witness:
  "\<exists>t. updateCounters demo_cc_env 0 OP_READ 128 False SHARED PF_NONE demo_hier = Inr ((), t) \<and>
    loads (stats (cntlrs t 0)) = 1 \<and> load_misses (stats (cntlrs t 0)) = 1 \<and> counters_ok (stats (cntlrs t 0))"
proof -
  have "stats (cntlrs demo_hier 0) = zero_stats" by (simp add: demo_hier_def demo_cntlr_def)
  moreover have "mshr_ok (e_max_time demo_cc_env) (mshr (my_master 0 demo_hier))" "m_atds (my_master 0 demo_hier) = 0"
    by (simp_all add: mshr_ok_def demo_hier_def demo_master_def my_master_def demo_cntlr_def)
  ultimately show ?thesis
    using updateCounters_adds_up[of demo_hier 0 SHARED demo_cc_env OP_READ 128 False PF_NONE] counters_zero
    by (auto simp: counted_states_def) (auto simp: zero_stats_def)
qed

section \<open>Set locks\<close>

text \<open>The locks of the sets: after \<open>createSetLocks\<close> every address has a lock inside the array, and when
  the number of sets is a power of two it is the lock of the set that the address of the block gives,
  so addresses of one block share it.
\<close>

lemma set_lock_of_address:
  assumes "0 < num_sets"
  shows "\<exists>n. master_getSetLock address (createSetLocks bsize num_sets m) = Inr n \<and> n < unat num_sets \<and>
    (\<forall>k. num_sets = 2 ^ k \<longrightarrow> k < 32 \<longrightarrow> n = unat address div 2 ^ ilog2 bsize mod 2 ^ k)"
proof -
  let ?n = "unat (drop_bit (ilog2 bsize) address AND ucast (num_sets - 1))"
  have "unat (num_sets - 1) < unat num_sets" using assms by (simp add: unat_minus_one unat_gt_0)
  moreover have "unat (ucast (num_sets - 1) :: u64) = unat (num_sets - 1)"
  proof -
    have "unat (num_sets - 1) < 2 ^ LENGTH(32)" by (rule unsigned_less)
    then show ?thesis by (simp add: unsigned_ucast_eq take_bit_nat_eq_self_iff)
  qed
  moreover have "?n \<le> unat (ucast (num_sets - 1) :: u64)"
    by (simp add: word_and_le1 flip: word_le_nat_alt)
  ultimately have lt: "?n < unat num_sets" by simp
  have "?n = unat address div 2 ^ ilog2 bsize mod 2 ^ k" if k: "num_sets = 2 ^ k" "k < 32" for k
  proof -
    have "num_sets - 1 = mask k" using k by (simp add: mask_eq_exp_minus_1)
    then have "ucast (num_sets - 1) = (mask k :: u64)" using k by (simp add: ucast_mask_eq)
    then have "?n = unat (take_bit k (drop_bit (ilog2 bsize) address))" by (simp add: take_bit_eq_mask)
    also have "\<dots> = take_bit k (drop_bit (ilog2 bsize) (unat address))"
    proof -
      have "unat address < 2 ^ LENGTH(64)" by (rule unsigned_less)
      then have "take_bit 64 (unat address) = unat address" by (simp add: take_bit_nat_eq_self_iff)
      then show ?thesis by (simp add: unsigned_take_bit_eq unsigned_drop_bit_eq)
    qed
    finally show ?thesis by (simp add: take_bit_eq_mod drop_bit_eq_div)
  qed
  then show ?thesis using lt
    by (simp add: master_getSetLock_def getSetLock_index_def createSetLocks_def Let_def)
qed

lemma set_lock_of_address_witness:
  "\<exists>n. master_getSetLock 128 (createSetLocks 64 4 (demo_master demo_l1_cache [])) = Inr n \<and> n = 2"
proof -
  have "ilog2 64 = 6" using ilog2_power[of 6] by simp
  then show ?thesis
    using set_lock_of_address[of 4 128 64 "demo_master demo_l1_cache []"] by (auto dest: spec[of _ 2])
qed

section \<open>The prefetch list\<close>

text \<open>Of the addresses the prefetcher proposes, those that the cache cannot read, in order.\<close>

definition unreadable ::
  "('b, 'p, 'g, 'm) cc_env \<Rightarrow> nat \<Rightarrow> ('b, 'r, 'p, 'g, 'm) hier \<Rightarrow> u64 \<Rightarrow> bool" where
  "unreadable env i s a \<longleftrightarrow> (\<exists>po t. operationPermissibleinCache env i a OP_READ s = Inr ((po, False), t))"

definition put_list :: "nat \<Rightarrow> u64 list \<Rightarrow> ('b, 'r, 'p, 'g, 'm) hier \<Rightarrow> ('b, 'r, 'p, 'g, 'm) hier" where
  "put_list i as s = s\<lparr>masters := (masters s)(m_master (cntlrs s i) := (my_master i s)\<lparr>m_prefetch_list := as\<rparr>)\<rparr>"

lemma put_list_simps [simp]:
  "my_master i (put_list i as s) = (my_master i s)\<lparr>m_prefetch_list := as\<rparr>"
  "put_list i as (put_list i bs s) = put_list i as s"
  "upd_master i (\<lambda>m. m\<lparr>m_prefetch_list := m_prefetch_list m @ [a]\<rparr>) (put_list i as s) = Inr ((), put_list i (as @ [a]) s)"
  by (simp_all add: put_list_def my_master_def upd_master_def modS_def)

lemma permissible_iff:
  assumes "m_geo (my_master i t) = m_geo (my_master i s)" "m_cache (my_master i t) = m_cache (my_master i s)"
    and "operationPermissibleinCache env i a OP_READ s = Inr ((po, ok), u)"
  shows "operationPermissibleinCache env i a OP_READ t = Inr ((po, ok), t)" "u = s"
  using assms
  by (auto simp: operationPermissibleinCache_def getCacheBlockInfo_def getCacheState_of_def err_simps split: option.splits)

lemma unreadable_cong:
  assumes "m_geo (my_master i t) = m_geo (my_master i s)" "m_cache (my_master i t) = m_cache (my_master i s)"
  shows "unreadable env i t a = unreadable env i s a"
  using permissible_iff(1)[OF assms] permissible_iff(1)[OF assms[symmetric]]
  unfolding unreadable_def by blast

text \<open>The list fills up to one more than the maximum.\<close>

lemma fill_list_spec:
  assumes "\<And>a. a \<in> set as \<Longrightarrow> \<exists>r. operationPermissibleinCache env i a OP_READ s = Inr r" "length ps \<le> 33"
  shows "fill_prefetch_list env i as (put_list i ps s) =
    Inr ((), put_list i (take 33 (ps @ filter (unreadable env i s) as)) s)"
  using assms
proof (induction as arbitrary: ps)
  case Nil
  then show ?case by (simp add: retS_def)
next
  case (Cons a as)
  obtain po ok u where run0: "operationPermissibleinCache env i a OP_READ s = Inr ((po, ok), u)"
    using Cons.prems(1)[of a] by auto
  have run: "operationPermissibleinCache env i a OP_READ (put_list i qs s) = Inr ((po, ok), put_list i qs s)" for qs
    using permissible_iff(1)[OF _ _ run0, of "put_list i qs s"] by simp
  have un: "unreadable env i s a \<longleftrightarrow> \<not> ok" using run0 by (auto simp: unreadable_def)
  have IH: "fill_prefetch_list env i as (put_list i qs s) =
      Inr ((), put_list i (take 33 (qs @ filter (unreadable env i s) as)) s)" if "length qs \<le> 33" for qs
    using Cons that by simp
  show ?case
  proof (cases "length ps > 32")
    case True
    then show ?thesis using Cons.prems(2) by (simp add: bindS_def getS_def retS_def PREFETCH_MAX_QUEUE_LENGTH_def)
  next
    case False
    then show ?thesis
      using run un IH[of ps] IH[of "ps @ [a]"]
      by (simp add: bindS_def getS_def seqS_def retS_def whenS_def PREFETCH_MAX_QUEUE_LENGTH_def)
  qed
qed

text \<open>Training the prefetcher after a miss, or after a hit on a prefetched line when that is configured,
  replaces the prefetch list by the addresses it proposes that the cache cannot read, in their order,
  up to 33 of them; the queue length of the code is 32.
\<close>

lemma prefetch_list_after_training:
  assumes "\<not> cache_hit \<or> (m_prefetch_on_prefetch_hit (cntlrs s i) \<and> prefetch_hit)"
    and "as = e_prefetch env (trace s) (m_master (cntlrs s i)) address (m_core_id (cntlrs s i))"
    and "\<forall>a\<in>set as. \<exists>r. operationPermissibleinCache env i a OP_READ s = Inr r"
  shows "\<exists>t. trainPrefetcher env i address cache_hit prefetch_hit ti s = Inr ((), t) \<and>
    m_prefetch_list (my_master i t) = take 33 (filter (unreadable env i s) as) \<and>
    m_prefetch_next (my_master i t) = ti + PREFETCH_INTERVAL"
proof -
  let ?k = "m_master (cntlrs s i)"
  let ?u = "s\<lparr>trace := trace s @ [PrefetcherNext ?k address (m_core_id (cntlrs s i))],
      masters := (masters s)(?k := (masters s ?k)\<lparr>m_prefetch_list := [], m_prefetch_next := ti + PREFETCH_INTERVAL\<rparr>)\<rparr>"
  have same: "m_geo (my_master i ?u) = m_geo (my_master i s)" "m_cache (my_master i ?u) = m_cache (my_master i s)"
    by (simp_all add: my_master_def)
  have total: "\<exists>r. operationPermissibleinCache env i a OP_READ ?u = Inr r" if "a \<in> set as" for a
  proof -
    obtain po ok v where "operationPermissibleinCache env i a OP_READ s = Inr ((po, ok), v)"
      using assms(3) \<open>a \<in> set as\<close> by (metis surj_pair)
    from permissible_iff(1)[OF same this] show ?thesis by blast
  qed
  have u: "put_list i [] ?u = ?u" by (cases "masters s ?k") (simp add: put_list_def my_master_def)
  have fill: "fill_prefetch_list env i as ?u = Inr ((), put_list i (take 33 (filter (unreadable env i s) as)) ?u)"
    using fill_list_spec[of as env i ?u "[]"] total unreadable_cong[OF same, of env] u by (simp add: fun_eq_iff cong: filter_cong)
  have "trainPrefetcher env i address cache_hit prefetch_hit ti s = fill_prefetch_list env i as ?u"
    using assms(1,2)
    by (simp add: trainPrefetcher_def bindS_def getS_def seqS_def whenS_def ext_def modS_def upd_master_def my_master_def)
  then show ?thesis using fill by (simp add: my_master_def put_list_def)
qed

lemma prefetch_list_after_training_witness:
  "\<exists>t. trainPrefetcher (demo_cc_env\<lparr>e_prefetch := (\<lambda>_ _ _ _. [128, 192])\<rparr>) 0 128 False False 5 demo_hier = Inr ((), t) \<and>
    m_prefetch_list (my_master 0 t) = [192]"
proof -
  let ?env = "demo_cc_env\<lparr>e_prefetch := (\<lambda>_ _ _ _. [128, 192])\<rparr>"
  have lk: "find_line plain_api 2 (m_sets (demo_with d) ! 0) = Some 0" "find_line plain_api 3 (m_sets (demo_with d) ! 0) = None" for d
    by (simp_all add: find_line_def demo_with_sets demo_hit_sets new_cache_set_def find_down_4 plain_api_def)
  have run: "operationPermissibleinCache ?env 0 128 OP_READ demo_hier = Inr ((Some (0, 0), True), demo_hier)"
    "operationPermissibleinCache ?env 0 192 OP_READ demo_hier = Inr ((None, False), demo_hier)"
    using lk[of "replicate 256 7"]
    by (simp_all add: operationPermissibleinCache_def getCacheBlockInfo_def getCacheState_of_def op_defs
        peekSingleLine_def get_set_def my_master_def demo_hier_def demo_cntlr_def demo_master_def demo_cc_env_def
        one_set_def demo_with_sets demo_with_block) (simp add: plain_api_def)
  then have "\<forall>a\<in>set [128, 192]. \<exists>r. operationPermissibleinCache ?env 0 a OP_READ demo_hier = Inr r" by auto
  moreover have "filter (unreadable ?env 0 demo_hier) [128, 192] = [192]" using run by (simp add: unreadable_def)
  ultimately show ?thesis
    using prefetch_list_after_training[of False demo_hier 0 False "[128, 192]" ?env 128 5] by auto
qed

end
