(* ===== verification/Memory_State.thy ===== *)
theory Memory_State
  imports Cache_Locks
begin

unbundle bit_operations_syntax

text \<open>
  The memory manager of a core, from \<open>memory_manager.cc\<close> of the directory
  \<open>src/common/core/memory_subsystem/parametric_dram_directory_msi\<close>: it reads the parameters of the
  cache levels, places the tag directories, builds and links the cache controllers of its core, and
  hands accesses of the core to the first level and messages of the network to their receiver.

  The state \<open>system\<close> holds the cache hierarchy of all cores, the table \<open>m_all_cache_cntlrs\<close>, the number
  of controllers built so far (the next one gets the next number) and the memory manager of every
  core. Translation buffers, performance models, the directory, the DRAM cache and the network are
  outside the repository: the calls on them are appended to \<open>sys_calls\<close>, and the answers of the
  translation buffers are a function of the calls before.

  The configuration is a record: what \<open>Sim()->getCfg()\<close> returns, and for the classes built here what
  their constructors return (geometry, replacement policy, injector of a cache). All keys are there.
\<close>

section \<open>Components in order\<close>

text \<open>The numbers of the components up to the last level: \<open>FIRST_LEVEL_CACHE\<close> is \<open>L1_ICACHE\<close>.\<close>

fun comp_rank :: "component \<Rightarrow> nat option" where
  "comp_rank CORE = Some 0"
| "comp_rank FIRST_LEVEL_CACHE = Some 1"
| "comp_rank L1_ICACHE = Some 1"
| "comp_rank L1_DCACHE = Some 2"
| "comp_rank (LX_CACHE n) = Some (3 + n)"
| "comp_rank _ = None"

fun comp_of_rank :: "nat \<Rightarrow> component" where
  "comp_of_rank 0 = CORE"
| "comp_of_rank (Suc 0) = L1_ICACHE"
| "comp_of_rank (Suc (Suc 0)) = L1_DCACHE"
| "comp_of_rank (Suc (Suc (Suc n))) = LX_CACHE n"

text \<open>From \<open>FIRST_LEVEL_CACHE\<close> to the last level of \<open>levels\<close> levels.\<close>

definition cache_levels :: "nat \<Rightarrow> component list" where
  "cache_levels levels = map comp_of_rank [1..<levels + 2]"

definition last_level :: "nat \<Rightarrow> component" where
  "last_level levels = comp_of_rank (levels + 1)"

fun config_name :: "component \<Rightarrow> string" where
  "config_name L1_ICACHE = ''l1_icache''"
| "config_name L1_DCACHE = ''l1_dcache''"
| "config_name (LX_CACHE n) = ''l'' @ dec_digits (n + 2) @ ''_cache''"
| "config_name _ = ''''"

fun object_name :: "component \<Rightarrow> string" where
  "object_name L1_ICACHE = ''L1-I''"
| "object_name L1_DCACHE = ''L1-D''"
| "object_name (LX_CACHE n) = ''L'' @ dec_digits (n + 2)"
| "object_name _ = ''''"

section \<open>Configuration\<close>

record level_cfg =
  lc_dvfs_domain :: string
  lc_cache_block_size :: nat
  lc_cache_size :: nat
  lc_associativity :: nat
  lc_address_hash :: string
  lc_replacement_policy :: string
  lc_perfect :: bool
  lc_coherent :: bool
  lc_data_access_time :: time
  lc_tags_access_time :: time
  lc_writeback_time :: time
  lc_read_bandwidth :: "(nat \<Rightarrow> time) option"   \<comment> \<open>\<open>None\<close>: infinite\<close>
  lc_writethrough :: bool
  lc_shared_cores :: nat
  lc_prefetcher :: bool
  lc_outstanding_misses :: nat
  lc_passthrough :: bool
  lc_prefetch_on_prefetch_hit :: bool
  lc_atd_enabled :: bool

record ('b, 'r, 'p, 'g) config =
  cfg_levels :: nat
  cfg_block_size :: nat
  cfg_level :: "component \<Rightarrow> int \<Rightarrow> level_cfg"
  cfg_itlb :: bool
  cfg_dtlb :: bool
  cfg_tlb_penalty :: time
  cfg_tlb_parallel :: bool
  cfg_smt_cores :: nat
  cfg_nuca :: bool
  cfg_nuca_size :: "int \<Rightarrow> nat"
  cfg_nuca_associativity :: "int \<Rightarrow> nat"
  cfg_application_cores :: int
  cfg_dir_locations :: string
  cfg_dir_interleaving :: int
  cfg_direct_access :: bool
  cfg_dram_cache :: "int \<Rightarrow> bool"
  cfg_mem_controllers :: "int list"             \<comment> \<open>\<open>getCoreListWithMemoryControllers\<close>\<close>
  cfg_footprint :: bool                         \<comment> \<open>\<open>mem_footprint/enable\<close>\<close>
  cfg_perfect_llc_key :: bool                   \<comment> \<open>the deprecated key is there\<close>
  cfg_geometry :: "cache_params \<Rightarrow> string \<Rightarrow> geometry"
  cfg_policy :: "string \<Rightarrow> ('b, 'r) repl_policy"
  cfg_repl :: "string \<Rightarrow> cache_params \<Rightarrow> 'r"
  cfg_faults :: bool
  cfg_injector :: "int \<Rightarrow> component \<Rightarrow> ('p, 'g) injector option"

section \<open>State\<close>

datatype tlb = ITLB | DTLB

datatype mem_modeled =
    MEM_MODELED_NONE | MEM_MODELED_COUNT | MEM_MODELED_COUNT_TLBTIME | MEM_MODELED_TIME
  | MEM_MODELED_FENCED | MEM_MODELED_RETURN

datatype dram_target = DRAM_CACHE_TARGET | DRAM_CNTLR_TARGET

datatype sys_call =
    TlbLookup int tlb u64 time
  | QueueTLBMiss int time bool
  | DirectoryFromL2 int int shmem_msg           \<comment> \<open>core, sender\<close>
  | DirectoryFromDRAM int int shmem_msg
  | DramFromDirectory int dram_target int shmem_msg
  | PacketTime int shmem_msg                    \<comment> \<open>\<open>getPerf()->updatePacket\<close>\<close>
  | NetBroadcast int shmem_msg thread
  | BuildDramCntlr int | BuildDramCache int | BuildNuca int | BuildDirectory int
  | CachePerfEnable int component bool
  | DramPerfEnable int bool
  | RegisterNetwork int
  | TopologySetup int nat nat
  | CheetahAccess int mem_op u64
  | MemLockAcquire int | MemLockRelease int
  | GlobalLockAcquire | GlobalLockRelease
  | QueueMemAccess int time u64 u32 bool
  | HandleMemoryLatency int time where_t
  | TotalAccessLatency int time
  | CopyFromApplication u64 u32 | CopyToApplication u64 bytes
  | TraceAccess int lock_signal mem_op u64 u32
  | BbvCount int u64 u32
  | PerfCountInstructions int u64 u32
  | HookInstrCount int
  | HookPeriodicIns u64
  | PredictBranch int u64 u64 | UpdateBranch int bool bool u64 u64
  | ShmemPerfEnable int bool | NetworkEnable int bool | PerfModelEnable int bool
  | AddL1Hits int bool mem_op u64

record mem_manager =
  mm_levels :: nat
  mm_block_size :: nat
  mm_cache_cntlrs :: "component \<Rightarrow> nat option"
  mm_perf_models :: "component \<Rightarrow> (time \<times> time) option"
  mm_itlb :: bool
  mm_dtlb :: bool
  mm_tlb_miss_penalty :: time
  mm_tlb_miss_parallel :: bool
  mm_tag_directory_present :: bool
  mm_dram_cntlr_present :: bool
  mm_directory_cntlr :: bool                    \<comment> \<open>\<open>m_dram_directory_cntlr != NULL\<close>\<close>
  mm_dram_cache :: bool
  mm_enabled :: bool
  mm_core_id_master :: int

record core_rec =
  core_icache_last_block :: u64
  core_instructions :: u64
  core_instructions_callback :: u64
  core_hpi_callback :: u64
  core_hpi_last :: u64

record ('b, 'r, 'p, 'g, 'm) system =
  sys_hier :: "('b, 'r, 'p, 'g, 'm) hier"
  sys_all :: "int \<times> component \<Rightarrow> nat option"
  sys_objects :: nat
  sys_mm :: "int \<Rightarrow> mem_manager"
  sys_cores :: "int \<Rightarrow> core_rec"
  sys_hpi_global :: u64
  sys_hpi_global_callback :: u64
  sys_calls :: "sys_call list"

text \<open>An operation of the cache hierarchy on the whole system, and a call outside.\<close>

definition onH :: "(('b, 'r, 'p, 'g, 'm) hier, 'a) op \<Rightarrow> (('b, 'r, 'p, 'g, 'm) system, 'a) op" where
  "onH m = (\<lambda>s. bindE (m (sys_hier s)) (\<lambda>(x, h). Inr (x, s\<lparr>sys_hier := h\<rparr>)))"

definition call :: "sys_call \<Rightarrow> (('b, 'r, 'p, 'g, 'm) system, unit) op" where
  "call e = modS (\<lambda>s. s\<lparr>sys_calls := sys_calls s @ [e]\<rparr>)"

definition upd_mm :: "int \<Rightarrow> (mem_manager \<Rightarrow> mem_manager) \<Rightarrow> (('b, 'r, 'p, 'g, 'm) system, unit) op" where
  "upd_mm core f = modS (\<lambda>s. s\<lparr>sys_mm := (sys_mm s)(core := f (sys_mm s core))\<rparr>)"

abbreviation mm_of :: "int \<Rightarrow> (('b, 'r, 'p, 'g, 'm) system, mem_manager) op" where
  "mm_of core \<equiv> getS (\<lambda>s. sys_mm s core)"

text \<open>The clock of a core.\<close>

definition core_time :: "int \<Rightarrow> thread \<Rightarrow> (('b, 'r, 'p, 'g, 'm) system, time) op" where
  "core_time core th = getS (\<lambda>s. clock (sys_hier s) core th)"

definition set_core_time :: "int \<Rightarrow> thread \<Rightarrow> time \<Rightarrow> (('b, 'r, 'p, 'g, 'm) system, unit) op" where
  "set_core_time core th t = onH (modS (\<lambda>h. h\<lparr>clock := (clock h)(core := (clock h core)(th := t))\<rparr>))"

end
