(* ===== verification/Memory_Build.thy ===== *)
theory Memory_Build
  imports Memory_State
begin

text \<open>
  The constructor \<open>MemoryManager::MemoryManager\<close>: parameters of the levels, places of the tag
  directories, controllers of the core and the links between them, locks of the sets.

  \<open>cache_parameters[c]\<close> is the map \<open>ps\<close>; the constructor only reads the levels it has filled in. The
  list of cores with tag directories is built by a loop that has as much fuel as there are cores, which
  \<open>place_loop_multiples\<close> shows is enough for a positive step.
\<close>

section \<open>Parameters\<close>

definition level_params :: "('b, 'r, 'p, 'g) config \<Rightarrow> int \<Rightarrow> component \<Rightarrow> cache_params result" where
  "level_params cfg core cid =
     (let l = cfg_level cfg cid core
      in bindE (checkE (LogError ''dvfs_domain is invalid'')
           (lc_dvfs_domain l = ''core'' \<or> lc_dvfs_domain l = ''global''))
        (\<lambda>_. bindE (checkE (LogAssert ''The cache block size of the level is not the same as the l1_icache'')
           (lc_cache_block_size l = cfg_block_size cfg))
        (\<lambda>_. bindE (CacheParameters (lc_cache_size l) (lc_associativity l) (cfg_block_size cfg) (lc_perfect l)
           (if cid = L1_ICACHE then lc_coherent l else True) (lc_writeback_time l)
           (if cid = last_level (cfg_levels cfg) then None else lc_read_bandwidth l) (lc_writethrough l)
           (lc_shared_cores l * cfg_smt_cores cfg) (lc_prefetcher l)
           (if cid = L1_DCACHE then lc_outstanding_misses l else 0))
        (\<lambda>cp. Inr (if core \<ge> cfg_application_cores cfg then cp\<lparr>cp_shared_cores := 1\<rparr> else cp)))))"

definition read_params :: "('b, 'r, 'p, 'g) config \<Rightarrow> int \<Rightarrow> (component \<Rightarrow> cache_params option) result" where
  "read_params cfg core =
     bindE (foldE (\<lambda>cid ps. bindE (level_params cfg core cid) (\<lambda>cp. Inr (ps(cid := Some cp))))
       (cache_levels (cfg_levels cfg)) (\<lambda>_. None)) (\<lambda>ps.
     if cfg_nuca cfg then
       bindE (CacheParameters (cfg_nuca_size cfg core) (cfg_nuca_associativity cfg core) (cfg_block_size cfg)
         False True 0 None False 0 False 0) (\<lambda>_. Inr ps)
     else Inr ps)"

section \<open>Tag directories\<close>

primrec place_loop :: "nat \<Rightarrow> int \<Rightarrow> int \<Rightarrow> int \<Rightarrow> int list result" where
  "place_loop 0 core k n = Inl OutOfFuel"
| "place_loop (Suc fuel) core k n =
     (if core < n then bindE (place_loop fuel (core + k) k n) (\<lambda>l. Inr (core # l)) else Inr [])"

definition place_directories :: "('b, 'r, 'p, 'g) config \<Rightarrow> nat \<Rightarrow> int list result" where
  "place_directories cfg llc_shared_cores =
     (let n = cfg_application_cores cfg
      in if cfg_dir_locations cfg = ''dram'' then Inr (cfg_mem_controllers cfg)
         else if cfg_dir_locations cfg = ''llc'' then place_loop (Suc (nat n)) 0 (int llc_shared_cores) n
         else if cfg_dir_locations cfg = ''interleaved'' then
           place_loop (Suc (nat n)) 0 (cfg_dir_interleaving cfg * int (cfg_smt_cores cfg)) n
         else Inl (LogError ''Invalid perf_model/dram_directory/locations value''))"

section \<open>Controllers\<close>

definition build_cntlr ::
  "('b, 'p, 'g, 'm) cc_env \<Rightarrow> ('b, 'r, 'p, 'g) config \<Rightarrow> int \<Rightarrow> component \<Rightarrow> cache_params \<Rightarrow>
   (('b, 'r, 'p, 'g, 'm) system, unit) op" where
  "build_cntlr env cfg core cid cp =
     seqS (assertS (CAssert ''division by zero'') (cp_shared_cores cp \<noteq> 0))
    (let l = cfg_level cfg cid core; mcore = core - core mod int (cp_shared_cores cp)
     in bindS (getS sys_objects) (\<lambda>i.
        bindS (if core = mcore then retS i
               else bindS (getS (\<lambda>s. sys_all s (mcore, cid))) (\<lambda>j. case j of
                 None \<Rightarrow> failS NullPointer
               | Some j \<Rightarrow> getS (\<lambda>s. m_master (cntlrs (sys_hier s) j)))) (\<lambda>mid.
        seqS (onH (new_cntlr cid core (cfg_block_size cfg) (lc_passthrough l) (cfg_perfect_llc_key cfg)
               (lc_prefetch_on_prefetch_hit l) (cid = last_level (cfg_levels cfg)) cp
               (new_master (e_api env) (object_name cid) core (cfg_block_size cfg) cp
                  (cfg_geometry cfg cp (lc_address_hash l)) (cfg_policy cfg (lc_replacement_policy l))
                  (cfg_repl cfg (lc_replacement_policy l) cp) (cfg_faults cfg)
                  (cfg_injector cfg mcore cid) (lc_atd_enabled l)) mid i))
       (seqS (upd_mm core (\<lambda>mm. mm\<lparr>mm_cache_cntlrs := (mm_cache_cntlrs mm)(cid := Some i)\<rparr>))
          (modS (\<lambda>s. s\<lparr>sys_objects := i + 1, sys_all := (sys_all s)((core, cid) := Some i)\<rparr>))))))"

text \<open>A pointer of the table that must not be \<open>NULL\<close>.\<close>

definition with_cntlr ::
  "int \<Rightarrow> component \<Rightarrow> (nat \<Rightarrow> (('b, 'r, 'p, 'g, 'm) system, 'a) op) \<Rightarrow> (('b, 'r, 'p, 'g, 'm) system, 'a) op" where
  "with_cntlr core cid f = bindS (mm_of core) (\<lambda>mm.
     case mm_cache_cntlrs mm cid of None \<Rightarrow> failS NullPointer | Some i \<Rightarrow> f i)"

definition link_next :: "int \<Rightarrow> component \<Rightarrow> component \<Rightarrow> (('b, 'r, 'p, 'g, 'm) system, unit) op" where
  "link_next core a b = with_cntlr core a (\<lambda>i. bindS (mm_of core) (\<lambda>mm.
     onH (setNextCacheCntlr i (mm_cache_cntlrs mm b))))"

definition link_prev :: "int \<Rightarrow> component \<Rightarrow> component \<Rightarrow> (('b, 'r, 'p, 'g, 'm) system, unit) op" where
  "link_prev core a b = with_cntlr core b (\<lambda>j. with_cntlr core a (\<lambda>i. onH (setPrevCacheCntlrs j [i])))"

definition link_cntlrs :: "int \<Rightarrow> nat \<Rightarrow> (('b, 'r, 'p, 'g, 'm) system, unit) op" where
  "link_cntlrs core levels =
     seqS (link_next core L1_ICACHE (LX_CACHE 0))
    (seqS (link_next core L1_DCACHE (LX_CACHE 0))
    (seqS (forS (\<lambda>r. link_next core (comp_of_rank r) (comp_of_rank (r + 1))) [3..<levels + 1])
    (seqS (with_cntlr core (LX_CACHE 0) (\<lambda>j. with_cntlr core L1_ICACHE (\<lambda>a. with_cntlr core L1_DCACHE (\<lambda>b.
             onH (setPrevCacheCntlrs j [a, b])))))
       (forS (\<lambda>r. link_prev core (comp_of_rank r) (comp_of_rank (r + 1))) [3..<levels + 1]))))"

section \<open>Set locks and direct access\<close>

text \<open>One lock for all sets when the number of sets is no power of two or the first-level caches differ.\<close>

definition lock_sets :: "('b, 'r, 'p, 'g) config \<Rightarrow> cache_params \<Rightarrow> nat" where
  "lock_sets cfg l1d =
     (let n = cp_num_sets l1d
      in if n \<noteq> 2 ^ ilog2 n \<or>
           list_ex (\<lambda>core. lc_cache_size (cfg_level cfg L1_DCACHE core) \<noteq> cp_size l1d \<or>
             lc_address_hash (cfg_level cfg L1_DCACHE core) \<noteq> ''mask'') [0..cfg_application_cores cfg - 1]
         then 1 else n)"

definition setup_locks ::
  "('b, 'r, 'p, 'g) config \<Rightarrow> int \<Rightarrow> cache_params \<Rightarrow> cache_params \<Rightarrow> (('b, 'r, 'p, 'g, 'm) system, unit) op" where
  "setup_locks cfg core l1d llc =
     with_cntlr core (last_level (cfg_levels cfg)) (\<lambda>i.
     seqS (onH (upd_master i (createSetLocks (cfg_block_size cfg) (of_nat (lock_sets cfg l1d)))))
       (whenS (cfg_direct_access cfg \<and> core < cfg_application_cores cfg)
         (seqS (assertS (LogAssert ''DRAM direct access is only possible when there is just a single last-level cache'')
                  (cfg_application_cores cfg \<le> int (cp_shared_cores llc)))
         (bindS (mm_of core) (\<lambda>mm.
          seqS (assertS (LogAssert ''direct access to a DRAM controller, but there is none at this node'')
                  (mm_dram_cntlr_present mm))
            (onH (setDRAMDirectAccess i)))))))"

section \<open>The constructor\<close>

definition new_mm :: "('b, 'r, 'p, 'g) config \<Rightarrow> mem_manager" where
  "new_mm cfg = \<lparr>mm_levels = cfg_levels cfg, mm_block_size = cfg_block_size cfg, mm_cache_cntlrs = (\<lambda>_. None),
     mm_perf_models = (\<lambda>_. None), mm_itlb = cfg_itlb cfg, mm_dtlb = cfg_dtlb cfg,
     mm_tlb_miss_penalty = cfg_tlb_penalty cfg, mm_tlb_miss_parallel = cfg_tlb_parallel cfg,
     mm_tag_directory_present = False, mm_dram_cntlr_present = False, mm_directory_cntlr = False,
     mm_dram_cache = False, mm_enabled = False, mm_core_id_master = 0\<rparr>"

definition place_memory ::
  "('b, 'r, 'p, 'g) config \<Rightarrow> int \<Rightarrow> int list \<Rightarrow> (('b, 'r, 'p, 'g, 'm) system, unit) op" where
  "place_memory cfg core dirs =
     seqS (whenS (core \<in> set (cfg_mem_controllers cfg))
       (seqS (upd_mm core (\<lambda>mm. mm\<lparr>mm_dram_cntlr_present := True\<rparr>))
       (seqS (call (BuildDramCntlr core))
         (whenS (cfg_dram_cache cfg core)
           (seqS (upd_mm core (\<lambda>mm. mm\<lparr>mm_dram_cache := True\<rparr>)) (call (BuildDramCache core)))))))
     (whenS (core \<in> set dirs)
       (seqS (upd_mm core (\<lambda>mm. mm\<lparr>mm_tag_directory_present := True\<rparr>))
         (whenS (\<not> cfg_direct_access cfg)
           (seqS (whenS (cfg_nuca cfg) (call (BuildNuca core)))
           (seqS (upd_mm core (\<lambda>mm. mm\<lparr>mm_directory_cntlr := True\<rparr>)) (call (BuildDirectory core)))))))"

definition param_of :: "(component \<Rightarrow> cache_params option) \<Rightarrow> component \<Rightarrow> (('b, 'r, 'p, 'g, 'm) system, cache_params) op" where
  "param_of ps cid = (case ps cid of None \<Rightarrow> failS NullPointer | Some cp \<Rightarrow> retS cp)"

definition check_master :: "('b, 'r, 'p, 'g) config \<Rightarrow> int \<Rightarrow> (('b, 'r, 'p, 'g, 'm) system, unit) op" where
  "check_master cfg core =
     with_cntlr core (last_level (cfg_levels cfg)) (\<lambda>i.
     bindS (getS (\<lambda>s. isMasterCache (cntlrs (sys_hier s) i))) (\<lambda>b.
     bindS (mm_of core) (\<lambda>mm.
     seqS (assertS (LogAssert ''DRAM controllers may only be at master node of shared caches'')
             (mm_dram_cntlr_present mm \<longrightarrow> b))
       (assertS (LogAssert ''Tag directories may only be at master node of shared caches'')
             (mm_tag_directory_present mm \<longrightarrow> b)))))"

definition finish_mm ::
  "('b, 'r, 'p, 'g) config \<Rightarrow> int \<Rightarrow> (component \<Rightarrow> cache_params option) \<Rightarrow> (('b, 'r, 'p, 'g, 'm) system, unit) op" where
  "finish_mm cfg core ps =
     bindS (param_of ps (last_level (cfg_levels cfg))) (\<lambda>llc.
     let mcore = core - core mod int (cp_shared_cores llc)
     in seqS (upd_mm core (\<lambda>mm. mm\<lparr>mm_core_id_master := mcore\<rparr>))
       (seqS (whenS (mcore = core) (bindS (param_of ps L1_DCACHE) (\<lambda>l1d. setup_locks cfg core l1d llc)))
       (seqS (call (RegisterNetwork core))
         (call (TopologySetup core (cfg_smt_cores cfg) (cp_shared_cores llc))))))"

definition MemoryManager ::
  "('b, 'p, 'g, 'm) cc_env \<Rightarrow> ('b, 'r, 'p, 'g) config \<Rightarrow> int \<Rightarrow> (('b, 'r, 'p, 'g, 'm) system, unit) op" where
  "MemoryManager env cfg core =
     seqS (upd_mm core (\<lambda>_. new_mm cfg))
    (bindS (liftS (read_params cfg core)) (\<lambda>ps.
     bindS (param_of ps (last_level (cfg_levels cfg))) (\<lambda>llc.
     bindS (liftS (place_directories cfg (cp_shared_cores llc))) (\<lambda>dirs.
     seqS (place_memory cfg core dirs)
    (seqS (forS (\<lambda>cid. bindS (param_of ps cid) (build_cntlr env cfg core cid)) (cache_levels (cfg_levels cfg)))
    (seqS (link_cntlrs core (cfg_levels cfg))
    (seqS (forS (\<lambda>cid. upd_mm core (\<lambda>mm. mm\<lparr>mm_perf_models := (mm_perf_models mm)(cid :=
               Some (lc_data_access_time (cfg_level cfg cid core), lc_tags_access_time (cfg_level cfg cid core)))\<rparr>))
             (cache_levels (cfg_levels cfg)))
    (seqS (check_master cfg core) (finish_mm cfg core ps)))))))))"

end
