(* ===== verification/Memory_Access.thy ===== *)
theory Memory_Access
  imports Memory_Build
begin

text \<open>
  The operations of a memory manager: an access of the core, a message of the network, broadcasts,
  translation buffers and the switches of the models.

  \<open>MemoryManager::sendMsg\<close> and \<open>incrElapsedTime\<close> are in \<open>Cache_Cntlr_Basic\<close>, where the controllers
  use them. Log messages are left out. The memory manager of the base class
  (\<open>memory_manager_base.h\<close>) adds the fast entry.
\<close>

section \<open>Environment\<close>

text \<open>Besides the environment of the controllers: the network thread (\<open>net\<close>, see \<open>Cache_Cntlr_Core\<close>),
  what the user threads do when a reply wakes them (\<open>user\<close>) with the bound on the number of them
  (\<open>turns\<close>, see \<open>Cache_Cntlr_Directory\<close>), the answers of the translation buffers, and what the
  configuration says during a run.\<close>

record ('b, 'r, 'p, 'g, 'm) sys_env =
  x_cc :: "('b, 'p, 'g, 'm) cc_env"
  x_net :: "nat \<Rightarrow> u64 \<Rightarrow> (('b, 'r, 'p, 'g, 'm) hier, unit) op"
  x_user :: "nat \<Rightarrow> (('b, 'r, 'p, 'g, 'm) hier, unit) op"
  x_turns :: nat
  x_tlb :: "sys_call list \<Rightarrow> int \<Rightarrow> tlb \<Rightarrow> u64 \<Rightarrow> time \<Rightarrow> bool"
  x_footprint :: bool

section \<open>Translation buffers\<close>

definition untimed :: "mem_modeled \<Rightarrow> bool" where
  "untimed modeled \<longleftrightarrow> modeled = MEM_MODELED_NONE \<or> modeled = MEM_MODELED_COUNT"

definition accessTLB ::
  "('b, 'r, 'p, 'g, 'm) sys_env \<Rightarrow> int \<Rightarrow> tlb \<Rightarrow> u64 \<Rightarrow> bool \<Rightarrow> mem_modeled \<Rightarrow>
   (('b, 'r, 'p, 'g, 'm) system, unit) op" where
  "accessTLB x core tb address is_ifetch modeled =
     bindS (core_time core USER_THREAD) (\<lambda>t.
     bindS (getS (\<lambda>s. x_tlb x (sys_calls s) core tb address t)) (\<lambda>hit.
     seqS (call (TlbLookup core tb address t))
    (bindS (mm_of core) (\<lambda>mm.
     whenS (\<not> hit \<and> \<not> untimed modeled \<and> mm_tlb_miss_penalty mm \<noteq> 0)
       (if mm_tlb_miss_parallel mm then set_core_time core USER_THREAD (t + mm_tlb_miss_penalty mm)
        else call (QueueTLBMiss core (mm_tlb_miss_penalty mm) is_ifetch))))))"

section \<open>An access of the core\<close>

text \<open>Components below the last level pass the assertion; one without a controller is a null pointer.\<close>

definition within_levels :: "component \<Rightarrow> mem_manager \<Rightarrow> bool" where
  "within_levels cid mm = (case comp_rank cid of None \<Rightarrow> False | Some r \<Rightarrow> r \<le> mm_levels mm + 1)"

definition footprint ::
  "component \<Rightarrow> mem_op \<Rightarrow> u64 \<Rightarrow> u32 \<Rightarrow> (('b, 'r, 'p, 'g, 'm) system, unit) op" where
  "footprint cid op address n =
     whenS ((op = OP_READ \<or> op = OP_READ_EX) \<and> cid = L1_DCACHE)
       (onH (modS (\<lambda>h. h\<lparr>h_rg := reset_cnters address n (upsave_cnters address n (h_rg h))\<rparr>)))"

definition coreInitiateMemoryAccess ::
  "('b, 'r, 'p, 'g, 'm) sys_env \<Rightarrow> int \<Rightarrow> component \<Rightarrow> lock_signal \<Rightarrow> mem_op \<Rightarrow> u64 \<Rightarrow> u32 \<Rightarrow> bufptr \<Rightarrow> u32 \<Rightarrow>
   mem_modeled \<Rightarrow> (('b, 'r, 'p, 'g, 'm) system, where_t \<times> bytes option) op" where
  "coreInitiateMemoryAccess x core cid sig op address offset data_buf n modeled =
     bindS (mm_of core) (\<lambda>mm.
     seqS (assertS (LogAssert ''invalid mem_component for coreInitiateMemoryAccess'') (within_levels cid mm))
    (seqS (if cid = L1_ICACHE \<and> mm_itlb mm then accessTLB x core ITLB address True modeled
           else whenS (cid = L1_DCACHE \<and> mm_dtlb mm) (accessTLB x core DTLB address False modeled))
    (with_cntlr core cid (\<lambda>i.
     bindS (onH (processMemOpFromCore (x_cc x) (x_net x) i sig op address (unat offset) data_buf (unat n)
                  (\<not> untimed modeled) (modeled \<noteq> MEM_MODELED_NONE))) (\<lambda>r.
     seqS (whenS (x_footprint x) (footprint cid op (address + ucast offset) n))
       (retS r))))))"

text \<open>\<open>coreInitiateMemoryAccessFast\<close> of the base class: a whole block, returning the latency. The time of
  the performance model is the argument \<open>now\<close>.\<close>

definition coreInitiateMemoryAccessFast ::
  "('b, 'r, 'p, 'g, 'm) sys_env \<Rightarrow> int \<Rightarrow> time \<Rightarrow> bool \<Rightarrow> mem_op \<Rightarrow> u64 \<Rightarrow>
   (('b, 'r, 'p, 'g, 'm) system, time) op" where
  "coreInitiateMemoryAccessFast x core now icache op address =
     seqS (set_core_time core USER_THREAD now)
    (bindS (mm_of core) (\<lambda>mm.
     bindS (coreInitiateMemoryAccess x core (if icache then L1_ICACHE else L1_DCACHE) SIG_NONE op
              (address - address mod of_nat (mm_block_size mm)) 0 None (of_nat (mm_block_size mm))
              MEM_MODELED_COUNT_TLBTIME) (\<lambda>r.
     bindS (core_time core USER_THREAD) (\<lambda>t. retS (t - now)))))"

section \<open>Messages\<close>

text \<open>The assertions that a directory or a DRAM controller is present stand between \<open>switch\<close> and its
  first \<open>case\<close>, where they are never reached.\<close>

definition dispatch_msg ::
  "('b, 'r, 'p, 'g, 'm) sys_env \<Rightarrow> int \<Rightarrow> int \<Rightarrow> shmem_msg \<Rightarrow> (('b, 'r, 'p, 'g, 'm) system, unit) op" where
  "dispatch_msg x core sender msg =
     bindS (mm_of core) (\<lambda>mm.
     let comp_s = msg_sender_mem_component msg; comp_r = msg_receiver_mem_component msg
     in if comp_r = LX_CACHE 0 \<or> comp_r = LAST_LEVEL_CACHE then
          (if comp_s = TAG_DIR then
             with_cntlr core (last_level (mm_levels mm)) (\<lambda>i.
               onH (handleMsgFromDramDirectory (x_turns x) (x_cc x) (x_user x) i sender msg))
           else failS (LogError ''Unrecognized sender component''))
        else if comp_r = TAG_DIR then
          (if comp_s = LAST_LEVEL_CACHE then
             (if mm_directory_cntlr mm then call (DirectoryFromL2 core sender msg) else failS NullPointer)
           else if comp_s = DRAM then
             (if mm_directory_cntlr mm then call (DirectoryFromDRAM core sender msg) else failS NullPointer)
           else failS (LogError ''Unrecognized sender component''))
        else if comp_r = DRAM then
          (if comp_s = TAG_DIR then
             (if mm_dram_cache mm then call (DramFromDirectory core DRAM_CACHE_TARGET sender msg)
              else if mm_dram_cntlr_present mm then call (DramFromDirectory core DRAM_CNTLR_TARGET sender msg)
              else failS NullPointer)
           else failS (LogError ''Unrecognized sender component''))
        else failS (LogError ''Unrecognized receiver component''))"

definition handleMsgFromNetwork ::
  "('b, 'r, 'p, 'g, 'm) sys_env \<Rightarrow> int \<Rightarrow> int \<Rightarrow> time \<Rightarrow> shmem_msg \<Rightarrow> (('b, 'r, 'p, 'g, 'm) system, unit) op" where
  "handleMsgFromNetwork x core sender msg_time msg =
     seqS (set_core_time core SIM_THREAD msg_time)
    (seqS (call (PacketTime core msg))
    (seqS (dispatch_msg x core sender msg)
       (whenS (msg_length msg > 0) (assertS (CAssert ''shmem_msg->getDataBuf()'') (msg_data msg \<noteq> None)))))"

definition broadcastMsg ::
  "int \<Rightarrow> msg_t \<Rightarrow> component \<Rightarrow> component \<Rightarrow> int \<Rightarrow> int \<Rightarrow> u64 \<Rightarrow> bufptr \<Rightarrow> nat \<Rightarrow> perf_ref \<Rightarrow> thread \<Rightarrow>
   (('b, 'r, 'p, 'g, 'm) system, unit) op" where
  "broadcastMsg core ty sender receiver_comp requester everyone address data n perf th =
     seqS (assertS (CAssert ''(data_buf == NULL) == (data_length == 0)'') ((data = None) = (n = 0)))
    (bindS (core_time core th) (\<lambda>t.
     seqS (onH (ext (PerfUpdate perf t PERF_UNKNOWN)))
       (call (NetBroadcast core \<lparr>msg_type = ty, msg_sender_mem_component = sender,
          msg_receiver_mem_component = receiver_comp, msg_requester = requester, msg_receiver = everyone,
          msg_address = address, msg_data = data, msg_length = n, msg_where = UNKNOWN, msg_perf = perf\<rparr> th))))"

section \<open>Latencies and switches\<close>

text \<open>\<open>INVALID_MEM_COMPONENT\<close> is \<open>None\<close>.\<close>

definition getCost :: "('b, 'p, 'g, 'm) cc_env \<Rightarrow> component option \<Rightarrow> cache_access \<Rightarrow> time" where
  "getCost env co access_type = (case co of None \<Rightarrow> 0 | Some cid \<Rightarrow> e_latency env cid access_type)"

definition cntlr_enable :: "bool \<Rightarrow> nat \<Rightarrow> (('b, 'r, 'p, 'g, 'm) hier, unit) op" where
  "cntlr_enable on i = upd_master i (\<lambda>m. m\<lparr>m_cache := (m_cache m)\<lparr>cache.m_enabled := on\<rparr>\<rparr>)"

definition switch_models :: "bool \<Rightarrow> int \<Rightarrow> (('b, 'r, 'p, 'g, 'm) system, unit) op" where
  "switch_models on core =
     seqS (upd_mm core (\<lambda>mm. mm\<lparr>mm_enabled := on\<rparr>))
    (bindS (mm_of core) (\<lambda>mm.
     seqS (forS (\<lambda>cid. seqS (with_cntlr core cid (\<lambda>i. onH (cntlr_enable on i)))
             (call (CachePerfEnable core cid on))) (cache_levels (mm_levels mm)))
       (whenS (mm_dram_cntlr_present mm) (call (DramPerfEnable core on)))))"

definition enableModels :: "int \<Rightarrow> (('b, 'r, 'p, 'g, 'm) system, unit) op" where
  "enableModels core = switch_models True core"

definition disableModels :: "int \<Rightarrow> (('b, 'r, 'p, 'g, 'm) system, unit) op" where
  "disableModels core = switch_models False core"

end
