(* ===== verification/Core_Access.thy ===== *)
theory Core_Access
  imports Memory_Access
begin

unbundle bit_operations_syntax

text \<open>
  A core, from \<open>src/common/core/core.cc\<close>: instruction counts and their hooks, accesses to data and
  instruction memory, which are split into accesses of cache blocks, copies from and to the memory of
  the application, and the emulated \<open>cpuid\<close>.

  The performance model, the branch predictor, the hooks, the basic block vectors and the application
  are outside the repository: calls on them are appended to \<open>sys_calls\<close>, and their answers are functions
  of the calls before, in the record \<open>core_env\<close>. So is the order of the \<open>HitWhere\<close> values.

  The loop over the blocks of an access has the fuel \<open>line_fuel\<close>; \<open>access_split_exact\<close> shows that it is
  enough unless the access ends in the last block of the address space, and \<open>access_at_top_never_returns\<close>
  that then none is.
\<close>

section \<open>Environment\<close>

datatype sim_mode = PINTOOL | STANDALONE | OTHER_MODE

record cpuid_result =
  r_eax :: u32
  r_ebx :: u32
  r_ecx :: u32
  r_edx :: u32

record ('b, 'r, 'p, 'g, 'm) core_env =
  k_sys :: "('b, 'r, 'p, 'g, 'm) sys_env"
  k_perf_time :: "sys_call list \<Rightarrow> int \<Rightarrow> time"      \<comment> \<open>\<open>getPerformanceModel()->getElapsedTime()\<close>\<close>
  k_perf_enabled :: "sys_call list \<Rightarrow> int \<Rightarrow> bool"
  k_cheetah :: bool
  k_where_rank :: "where_t \<Rightarrow> nat"
  k_num_where :: nat
  k_l1_hit_latency :: time
  k_mode :: sim_mode
  k_app_read :: "sys_call list \<Rightarrow> u64 \<Rightarrow> u32 \<Rightarrow> bytes"
  k_trace_data :: "sys_call list \<Rightarrow> int \<Rightarrow> lock_signal \<Rightarrow> mem_op \<Rightarrow> u64 \<Rightarrow> bytes option \<Rightarrow> u32 \<Rightarrow> bytes option"
  k_callback_enabled :: "u64 \<Rightarrow> bool"                \<comment> \<open>\<open>isEnabledInstructionsCallback\<close>\<close>
  k_callback_off :: u64                               \<comment> \<open>what \<open>disableInstructionsCallback\<close> stores\<close>
  k_bbv_sample :: "sys_call list \<Rightarrow> int \<Rightarrow> bool"
  k_hpi_per_core :: u64
  k_hpi_global :: u64
  k_predictor :: "(sys_call list \<Rightarrow> int \<Rightarrow> u64 \<Rightarrow> u64 \<Rightarrow> bool) option"
  k_cpuid :: "u32 \<Rightarrow> u32 \<Rightarrow> cpuid_result"
  k_application_cores :: u32
  k_smt_shift_bits :: u32
  k_package_shift_bits :: u32
  k_smt_count :: "int \<Rightarrow> u32"
  k_core_count :: "int \<Rightarrow> u32"
  k_apic_id :: "int \<Rightarrow> u32"

section \<open>Names\<close>

fun ModeledString :: "mem_modeled \<Rightarrow> string" where
  "ModeledString MEM_MODELED_NONE = ''none''"
| "ModeledString MEM_MODELED_COUNT = ''count''"
| "ModeledString MEM_MODELED_COUNT_TLBTIME = ''count/tlb''"
| "ModeledString MEM_MODELED_TIME = ''time''"
| "ModeledString MEM_MODELED_FENCED = ''fenced''"
| "ModeledString MEM_MODELED_RETURN = ''return''"

definition core_state_names :: "string list" where
  "core_state_names = [''running'', ''initializing'', ''stalled'', ''sleeping'', ''waking_up'', ''idle'', ''broken'']"

definition CoreStateString :: "nat \<Rightarrow> string result" where
  "CoreStateString state = bindE (checkE (LogAssert ''Invalid core state'') (state < length core_state_names))
     (\<lambda>_. Inr (core_state_names ! state))"

section \<open>Construction and switches\<close>

definition upd_core :: "int \<Rightarrow> (core_rec \<Rightarrow> core_rec) \<Rightarrow> (('b, 'r, 'p, 'g, 'm) system, unit) op" where
  "upd_core core f = modS (\<lambda>s. s\<lparr>sys_cores := (sys_cores s)(core := f (sys_cores s core))\<rparr>)"

abbreviation core_of :: "int \<Rightarrow> (('b, 'r, 'p, 'g, 'm) system, core_rec) op" where
  "core_of core \<equiv> getS (\<lambda>s. sys_cores s core)"

definition new_core :: core_rec where
  "new_core = \<lparr>core_icache_last_block = - 1, core_instructions = 0, core_instructions_callback = - 1,
     core_hpi_callback = 0, core_hpi_last = 0\<rparr>"

definition Core ::
  "('b, 'p, 'g, 'm) cc_env \<Rightarrow> ('b, 'r, 'p, 'g) config \<Rightarrow> int \<Rightarrow> (('b, 'r, 'p, 'g, 'm) system, unit) op" where
  "Core env cfg core = seqS (upd_core core (\<lambda>_. new_core)) (MemoryManager env cfg core)"

definition enablePerformanceModels :: "int \<Rightarrow> (('b, 'r, 'p, 'g, 'm) system, unit) op" where
  "enablePerformanceModels core =
     seqS (call (ShmemPerfEnable core True)) (seqS (enableModels core)
    (seqS (call (NetworkEnable core True)) (call (PerfModelEnable core True))))"

definition disablePerformanceModels :: "int \<Rightarrow> (('b, 'r, 'p, 'g, 'm) system, unit) op" where
  "disablePerformanceModels core =
     seqS (call (ShmemPerfEnable core False)) (seqS (disableModels core)
    (seqS (call (NetworkEnable core False)) (call (PerfModelEnable core False))))"

section \<open>Counting instructions\<close>

definition hookPeriodicInsCall :: "('b, 'r, 'p, 'g, 'm) core_env \<Rightarrow> (('b, 'r, 'p, 'g, 'm) system, unit) op" where
  "hookPeriodicInsCall k =
     bindS (getS sys_hpi_global) (\<lambda>g. bindS (getS sys_hpi_global_callback) (\<lambda>cb.
       whenS (g > cb) (seqS (call (HookPeriodicIns g))
         (modS (\<lambda>s. s\<lparr>sys_hpi_global_callback := sys_hpi_global_callback s + k_hpi_global k\<rparr>)))))"

definition hookPeriodicInsCheck ::
  "('b, 'r, 'p, 'g, 'm) core_env \<Rightarrow> int \<Rightarrow> (('b, 'r, 'p, 'g, 'm) system, unit) op" where
  "hookPeriodicInsCheck k core =
     bindS (core_of core) (\<lambda>c.
     whenS (core_instructions c > core_hpi_callback c)
       (seqS (modS (\<lambda>s. s\<lparr>sys_hpi_global := sys_hpi_global s + (core_instructions c - core_hpi_last c)\<rparr>))
       (seqS (upd_core core (\<lambda>c. c\<lparr>core_hpi_callback := core_hpi_callback c + k_hpi_per_core k,
                core_hpi_last := core_instructions c\<rparr>))
       (bindS (getS sys_hpi_global) (\<lambda>g. bindS (getS sys_hpi_global_callback) (\<lambda>cb.
          whenS (g > cb) (hookPeriodicInsCall k)))))))"

definition countInstructions ::
  "('b, 'r, 'p, 'g, 'm) core_env \<Rightarrow> int \<Rightarrow> u64 \<Rightarrow> u32 \<Rightarrow> (('b, 'r, 'p, 'g, 'm) system, bool) op" where
  "countInstructions k core address count =
     seqS (upd_core core (\<lambda>c. c\<lparr>core_instructions := core_instructions c + ucast count\<rparr>))
    (bindS (getS (\<lambda>s. k_bbv_sample k (sys_calls s) core)) (\<lambda>b.
     seqS (whenS b (call (BbvCount core address count)))
    (seqS (call (PerfCountInstructions core address count))
    (bindS (core_of core) (\<lambda>c.
     let due = k_callback_enabled k (core_instructions_callback c) \<and>
               core_instructions c \<ge> core_instructions_callback c
     in seqS (whenS due (seqS (upd_core core (\<lambda>c. c\<lparr>core_instructions_callback := k_callback_off k\<rparr>))
                (call (HookInstrCount core))))
       (seqS (hookPeriodicInsCheck k core) (retS due)))))))"

definition accessBranchPredictor ::
  "('b, 'r, 'p, 'g, 'm) core_env \<Rightarrow> int \<Rightarrow> u64 \<Rightarrow> bool \<Rightarrow> u64 \<Rightarrow> (('b, 'r, 'p, 'g, 'm) system, bool) op" where
  "accessBranchPredictor k core eip taken target =
     (case k_predictor k of
        None \<Rightarrow> retS False
      | Some predict \<Rightarrow>
          bindS (getS (\<lambda>s. predict (sys_calls s) core eip target)) (\<lambda>prediction.
          seqS (call (PredictBranch core eip target))
         (seqS (call (UpdateBranch core prediction taken eip target)) (retS (prediction \<noteq> taken)))))"

section \<open>Memory accesses\<close>

record memory_result =
  res_hit_where :: where_t
  res_latency :: time

definition makeMemoryResult ::
  "('b, 'r, 'p, 'g, 'm) core_env \<Rightarrow> where_t \<Rightarrow> time \<Rightarrow> (('b, 'r, 'p, 'g, 'm) system, memory_result) op" where
  "makeMemoryResult k w latency =
     seqS (assertS (LogAssert ''Invalid HitWhere'') (k_where_rank k w < k_num_where k))
       (retS \<lparr>res_hit_where = w, res_latency = latency\<rparr>)"

definition logMemoryHit :: "int \<Rightarrow> bool \<Rightarrow> mem_op \<Rightarrow> (('b, 'r, 'p, 'g, 'm) system, unit) op" where
  "logMemoryHit core icache op = call (AddL1Hits core icache op 1)"

text \<open>What the loop over the blocks keeps: \<open>num_misses\<close>, \<open>hit_where\<close>, how far the buffer head has moved,
  and the buffer.\<close>

record line_acc =
  la_misses :: u32
  la_where :: where_t
  la_head :: nat
  la_data :: bufptr

text \<open>The part of the buffer an access sees, and the buffer after data was read into that part.\<close>

definition buf_part :: "nat \<Rightarrow> nat \<Rightarrow> bufptr \<Rightarrow> bufptr" where
  "buf_part head n p = map_option (map_option (buf_slice head n)) p"

definition buf_filled :: "mem_op \<Rightarrow> nat \<Rightarrow> bytes option \<Rightarrow> bufptr \<Rightarrow> bufptr" where
  "buf_filled op head out p = (case out of None \<Rightarrow> p
     | Some d \<Rightarrow> if op = OP_WRITE then p else map_option (map_option (overwrite head d)) p)"

definition access_line_part ::
  "('b, 'r, 'p, 'g, 'm) core_env \<Rightarrow> int \<Rightarrow> component \<Rightarrow> lock_signal \<Rightarrow> mem_op \<Rightarrow> mem_modeled \<Rightarrow>
   u64 \<Rightarrow> u32 \<Rightarrow> u32 \<Rightarrow> line_acc \<Rightarrow> (('b, 'r, 'p, 'g, 'm) system, line_acc) op" where
  "access_line_part k core cid sig op modeled line offset n la =
     seqS (whenS (k_cheetah k) (call (CheetahAccess core op line)))
    (bindS (coreInitiateMemoryAccess (k_sys k) core cid sig op line offset
              (buf_part (la_head la) (unat n) (la_data la)) n modeled) (\<lambda>(w, out).
     retS \<lparr>la_misses = (if la_where la \<noteq> WHERE cid then la_misses la + 1 else la_misses la),
           la_where = (if la_where la = UNKNOWN \<or> (w \<noteq> UNKNOWN \<and> k_where_rank k w > k_where_rank k (la_where la))
                       then w else la_where la),
           la_head = la_head la + unat n,
           la_data = buf_filled op (la_head la) out (la_data la)\<rparr>))"

definition line_offset :: "u64 \<Rightarrow> u32 \<Rightarrow> u64 \<Rightarrow> u32" where
  "line_offset start b line =
     (if line = start - start mod ucast b then ucast (start mod ucast b) else 0)"

definition line_size :: "u64 \<Rightarrow> u64 \<Rightarrow> u32 \<Rightarrow> u64 \<Rightarrow> u32" where
  "line_size start finish b line =
     (if line = finish - finish mod ucast b then ucast (finish mod ucast b) - line_offset start b line
      else b - line_offset start b line)"

primrec access_loop ::
  "(u64 \<Rightarrow> u32 \<Rightarrow> u32 \<Rightarrow> 'a \<Rightarrow> ('s, 'a) op) \<Rightarrow> u64 \<Rightarrow> u64 \<Rightarrow> u32 \<Rightarrow> nat \<Rightarrow> u64 \<Rightarrow> 'a \<Rightarrow> ('s, 'a) op" where
  "access_loop f start finish b 0 = (\<lambda>line a. failS OutOfFuel)"
| "access_loop f start finish b (Suc fuel) = (\<lambda>line a.
     if line \<le> finish - finish mod ucast b then
       (let offset = line_offset start b line; n = line_size start finish b line
        in if line = finish - finish mod ucast b \<and> n = 0 then access_loop f start finish b fuel (line + ucast b) a
           else bindS (f line offset n a) (access_loop f start finish b fuel (line + ucast b)))
     else retS a)"

definition line_fuel :: "u64 \<Rightarrow> u64 \<Rightarrow> u32 \<Rightarrow> nat" where
  "line_fuel start finish b = unat (finish - start) div unat b + 3"

text \<open>What the performance model is told of the access.\<close>

definition account_access ::
  "('b, 'r, 'p, 'g, 'm) core_env \<Rightarrow> int \<Rightarrow> mem_modeled \<Rightarrow> time \<Rightarrow> u64 \<Rightarrow> u32 \<Rightarrow> where_t \<Rightarrow>
   (('b, 'r, 'p, 'g, 'm) system, unit) op" where
  "account_access k core modeled shmem_time address n w =
     (case modeled of
        MEM_MODELED_TIME \<Rightarrow> bindS (getS (\<lambda>s. k_perf_enabled k (sys_calls s) core)) (\<lambda>b.
          whenS b (call (QueueMemAccess core shmem_time address n False)))
      | MEM_MODELED_FENCED \<Rightarrow> bindS (getS (\<lambda>s. k_perf_enabled k (sys_calls s) core)) (\<lambda>b.
          whenS b (call (QueueMemAccess core shmem_time address n True)))
      | MEM_MODELED_COUNT \<Rightarrow> whenS (shmem_time > 0) (call (HandleMemoryLatency core shmem_time w))
      | MEM_MODELED_COUNT_TLBTIME \<Rightarrow> whenS (shmem_time > 0) (call (HandleMemoryLatency core shmem_time w))
      | MEM_MODELED_NONE \<Rightarrow> retS ()
      | MEM_MODELED_RETURN \<Rightarrow> retS ())"

definition initiateMemoryAccess ::
  "('b, 'r, 'p, 'g, 'm) core_env \<Rightarrow> int \<Rightarrow> component \<Rightarrow> lock_signal \<Rightarrow> mem_op \<Rightarrow> u64 \<Rightarrow> bufptr \<Rightarrow> u32 \<Rightarrow>
   mem_modeled \<Rightarrow> time \<Rightarrow> (('b, 'r, 'p, 'g, 'm) system, memory_result \<times> bufptr) op" where
  "initiateMemoryAccess k core cid sig op address data_buf n modeled now =
     (if n = 0 then bindS (makeMemoryResult k (WHERE cid) 0) (\<lambda>r. retS (r, data_buf))
      else
        bindS (getS (\<lambda>s. if now = e_max_time (x_cc (k_sys k)) then k_perf_time k (sys_calls s) core else now)) (\<lambda>t0.
        seqS (whenS (sig \<noteq> SIG_UNLOCK) (call (MemLockAcquire core)))
       (seqS (set_core_time core USER_THREAD t0)
       (bindS (mm_of core) (\<lambda>mm.
        let b = of_nat (mm_block_size mm); finish = address + ucast n
        in seqS (assertS (CAssert ''division by zero'') (b \<noteq> 0))
       (bindS (access_loop (access_line_part k core cid sig op modeled) address finish b
                 (line_fuel address finish b) (address - address mod ucast b)
                 \<lparr>la_misses = 0, la_where = UNKNOWN, la_head = 0, la_data = data_buf\<rparr>) (\<lambda>la.
        bindS (core_time core USER_THREAD) (\<lambda>t1.
        seqS (assertS (LogAssert ''final_time < initial_time'') (t1 \<ge> t0))
       (seqS (whenS (sig \<noteq> SIG_LOCK) (call (MemLockRelease core)))
       (seqS (account_access k core modeled (t1 - t0) address n (la_where la))
       (seqS (whenS (modeled \<noteq> MEM_MODELED_NONE) (call (TotalAccessLatency core (t1 - t0))))
       (seqS (assertS (LogAssert ''HitWhere == UNKNOWN'') (la_where la \<noteq> UNKNOWN))
       (bindS (makeMemoryResult k (la_where la) (t1 - t0)) (\<lambda>r. retS (r, la_data la)))))))))))))))"

section \<open>Instruction and data memory\<close>

definition readInstructionMemory ::
  "('b, 'r, 'p, 'g, 'm) core_env \<Rightarrow> int \<Rightarrow> u64 \<Rightarrow> u32 \<Rightarrow> (('b, 'r, 'p, 'g, 'm) system, memory_result) op" where
  "readInstructionMemory k core address n =
     bindS (mm_of core) (\<lambda>mm.
     bindS (core_of core) (\<lambda>c.
     let b = of_nat (mm_block_size mm) :: u64; blockmask = NOT (b - 1);
         single = (address AND blockmask = (address + ucast n - 1) AND blockmask);
         same = (address AND blockmask = core_icache_last_block c)
     in if same \<and> single then makeMemoryResult k (WHERE L1_ICACHE) (k_l1_hit_latency k)
        else (let address = (if same then (address AND blockmask) + b else address)
          in seqS (upd_core core (\<lambda>c. c\<lparr>core_icache_last_block := address AND blockmask\<rparr>))
            (bindS (initiateMemoryAccess k core L1_ICACHE SIG_NONE OP_READ (address AND blockmask) None (ucast b)
                      MEM_MODELED_COUNT_TLBTIME (e_max_time (x_cc (k_sys k)))) (\<lambda>(r, d). retS r)))))"

definition accessMemoryFast ::
  "('b, 'r, 'p, 'g, 'm) core_env \<Rightarrow> int \<Rightarrow> bool \<Rightarrow> mem_op \<Rightarrow> u64 \<Rightarrow> (('b, 'r, 'p, 'g, 'm) system, unit) op" where
  "accessMemoryFast k core icache op address =
     seqS (whenS (k_cheetah k \<and> \<not> icache) (call (CheetahAccess core op address)))
    (bindS (getS (\<lambda>s. k_perf_time k (sys_calls s) core)) (\<lambda>now.
     bindS (coreInitiateMemoryAccessFast (k_sys k) core now icache op address) (\<lambda>latency.
       whenS (latency > 0) (call (HandleMemoryLatency core latency MISS)))))"

text \<open>A copy from or to the memory of the application; a read returns the bytes.\<close>

definition nativeMemOp ::
  "('b, 'r, 'p, 'g, 'm) core_env \<Rightarrow> lock_signal \<Rightarrow> mem_op \<Rightarrow> u64 \<Rightarrow> bytes option \<Rightarrow> u32 \<Rightarrow>
   (('b, 'r, 'p, 'g, 'm) system, memory_result \<times> bytes option) op" where
  "nativeMemOp k sig op d_addr data n =
     (if n = 0 then bindS (makeMemoryResult k UNKNOWN 0) (\<lambda>r. retS (r, data))
      else
        seqS (whenS (sig = SIG_LOCK) (seqS (assertS (CAssert ''mem_op_type == READ_EX'') (op = OP_READ_EX))
                (call GlobalLockAcquire)))
       (bindS (if op = OP_READ \<or> op = OP_READ_EX then
                 bindS (getS (\<lambda>s. k_app_read k (sys_calls s) d_addr n)) (\<lambda>d.
                   seqS (call (CopyFromApplication d_addr n)) (retS (Some d)))
               else seqS (whenS (op = OP_WRITE) (call (CopyToApplication d_addr
                        (case data of None \<Rightarrow> [] | Some d \<Rightarrow> take (unat n) d)))) (retS data)) (\<lambda>data.
        seqS (whenS (sig = SIG_UNLOCK) (seqS (assertS (CAssert ''mem_op_type == WRITE'') (op = OP_WRITE))
                (call GlobalLockRelease)))
       (bindS (makeMemoryResult k UNKNOWN 0) (\<lambda>r. retS (r, data))))))"

definition accessMemory ::
  "('b, 'r, 'p, 'g, 'm) core_env \<Rightarrow> int \<Rightarrow> lock_signal \<Rightarrow> mem_op \<Rightarrow> u64 \<Rightarrow> bufptr \<Rightarrow> u32 \<Rightarrow> mem_modeled \<Rightarrow>
   time \<Rightarrow> bool \<Rightarrow> (('b, 'r, 'p, 'g, 'm) system, memory_result \<times> bufptr) op" where
  "accessMemory k core sig op d_addr data_buffer n modeled now is_fault_mask =
     bindS (case data_buffer of
         None \<Rightarrow> retS (None, None)
       | Some d \<Rightarrow>
           if is_fault_mask then retS (Some d, None)
           else if k_mode k = PINTOOL then
             bindS (nativeMemOp k SIG_NONE op d_addr d n) (\<lambda>(r, d). retS (None, Some d))
           else if k_mode k = STANDALONE then
             bindS (getS (\<lambda>s. k_trace_data k (sys_calls s) core sig op d_addr d n)) (\<lambda>d.
               seqS (call (TraceAccess core sig op d_addr n)) (retS (None, Some d)))
           else retS (None, Some d)) (\<lambda>(passed, copied).
     if modeled = MEM_MODELED_NONE then
       bindS (makeMemoryResult k UNKNOWN 0) (\<lambda>r. retS (r, case copied of None \<Rightarrow> passed | Some d \<Rightarrow> Some d))
     else
       bindS (initiateMemoryAccess k core L1_DCACHE sig op d_addr passed n modeled now) (\<lambda>(r, p).
         retS (r, case copied of None \<Rightarrow> p | Some d \<Rightarrow> Some d)))"

section \<open>Emulated processor identification\<close>

definition emulateCpuid ::
  "('b, 'r, 'p, 'g, 'm) core_env \<Rightarrow> int \<Rightarrow> u32 \<Rightarrow> u32 \<Rightarrow> cpuid_result" where
  "emulateCpuid k core eax ecx =
     (if eax = 0 then (let res = k_cpuid k 0 0 in res\<lparr>r_eax := max 0xb (r_eax res)\<rparr>)
      else if eax = 1 then
        (let res = k_cpuid k eax ecx
         in res\<lparr>r_ebx := push_bit 24 (of_int core) OR push_bit 16 (k_application_cores k) OR (r_ebx res AND 0xffff)\<rparr>)
      else if eax = 0xb then
        (if ecx = 0 then \<lparr>r_eax = k_smt_shift_bits k, r_ebx = k_smt_count k core, r_ecx = ecx OR push_bit 8 1,
           r_edx = k_apic_id k core\<rparr>
         else if ecx = 1 then \<lparr>r_eax = k_package_shift_bits k, r_ebx = k_smt_count k core * k_core_count k core,
           r_ecx = ecx OR push_bit 8 2, r_edx = k_apic_id k core\<rparr>
         else \<lparr>r_eax = 0, r_ebx = 0, r_ecx = ecx, r_edx = k_apic_id k core\<rparr>)
      else k_cpuid k eax ecx)"

end
