(* ===== verification/Core_Facts.thy ===== *)
theory Core_Facts
  imports Core_Access
begin

text \<open>
  Properties of the accesses of a core: how an access is split over the cache blocks.

  \<open>line_pieces\<close> is the split in natural numbers, by recursion on the bytes that are left, and \<open>tiles\<close>
  says that pieces cover a range from left to right without gap or overlap. \<open>line_part\<close> computes what the
  loop of the code does in one turn and \<open>access_loop_pieces\<close> is the induction.
\<close>

section \<open>The split of an access\<close>


text \<open>The pieces of an access of \<open>n\<close> bytes at \<open>a\<close>: block, offset in it, size.\<close>

function line_pieces :: "nat \<Rightarrow> nat \<Rightarrow> nat \<Rightarrow> (nat \<times> nat \<times> nat) list" where
  "line_pieces b a n =
     (if n = 0 \<or> b = 0 then []
      else (let m = min n (b - a mod b) in (a - a mod b, a mod b, m) # line_pieces b (a + m) (n - m)))"
  by pat_completeness auto
termination
  by (relation "measure (\<lambda>(b, a, n). n)") (auto simp: Let_def min_def)

declare line_pieces.simps [simp del]

lemma line_pieces_0 [simp]: "line_pieces b a 0 = []"
  by (simp add: line_pieces.simps)

definition on_piece ::
  "(u64 \<Rightarrow> u32 \<Rightarrow> u32 \<Rightarrow> 'a \<Rightarrow> ('s, 'a) op) \<Rightarrow> nat \<times> nat \<times> nat \<Rightarrow> 'a \<Rightarrow> ('s, 'a) op" where
  "on_piece f p = (case p of (line, offset, m) \<Rightarrow> f (of_nat line) (of_nat offset) (of_nat m))"

lemma on_piece_simp [simp]: "on_piece f (l, m, n) = f (of_nat l) (of_nat m) (of_nat n)"
  by (simp add: on_piece_def)

lemma unat_ucast_block: "unat (ucast (b :: u32) :: u64) = unat b"
proof -
  have "unat b < 2 ^ LENGTH(32)" by (rule unsigned_less)
  then show ?thesis by (simp add: unsigned_ucast_eq take_bit_nat_eq_self_iff)
qed

lemma unat_rem: "unat ((x :: u64) mod ucast (b :: u32)) = unat x mod unat b"
  by (simp add: unat_mod_distrib unat_ucast_block)

lemma unat_align: "unat ((x :: u64) - x mod ucast (b :: u32)) = unat x - unat x mod unat b"
proof -
  have "x mod ucast b \<le> x" by (simp add: word_le_nat_alt unat_rem)
  then show ?thesis by (simp add: unat_sub unat_rem)
qed

lemma unat_rem32:
  assumes "(b :: u32) \<noteq> 0"
  shows "unat (ucast ((x :: u64) mod ucast b) :: u32) = unat x mod unat b"
proof -
  have "unat b < 2 ^ LENGTH(32)" by (rule unsigned_less)
  then have "unat x mod unat b < 2 ^ 32"
    using mod_less_divisor[of "unat b" "unat x"] assms by (simp add: unat_gt_0 del: mod_less_divisor)
  then show ?thesis by (simp add: unsigned_ucast_eq unat_rem take_bit_nat_eq_self_iff)
qed

lemma next_multiple:
  assumes "(b :: nat) dvd l" "b dvd m" "l < m"
  shows "l + b \<le> m"
proof -
  have "b dvd m - l" using assms by (simp add: dvd_diff_nat)
  then show ?thesis using assms(3) dvd_imp_le[of b "m - l"] by simp
qed

text \<open>Offset and size that the loop computes for the block at \<open>l\<close>, over natural numbers.\<close>

lemma line_part:
  fixes start finish line :: u64 and b :: u32
  defines "A \<equiv> unat start" and "E \<equiv> unat finish" and "B \<equiv> unat b" and "L \<equiv> unat line"
  assumes "b \<noteq> 0" "A \<le> E" "B dvd L" "A - A mod B \<le> L" "L \<le> E - E mod B"
  shows "unat (line_offset start b line) = max A L mod B"
    and "unat (line_size start finish b line) = min (E - max A L) (B - max A L mod B)"
    and "max A L - max A L mod B = L"
proof -
  have B: "0 < B" using assms by (simp add: unat_gt_0)
  have first: "line = start - start mod ucast b \<longleftrightarrow> L = A - A mod B"
    unfolding A_def B_def L_def by (simp add: word_unat_eq_iff unat_align)
  have last: "line = finish - finish mod ucast b \<longleftrightarrow> L = E - E mod B"
    unfolding E_def B_def L_def by (simp add: word_unat_eq_iff unat_align)
  consider (f) "L = A - A mod B" | (g) "L \<noteq> A - A mod B" "A \<le> L"
  proof -
    have "A < A - A mod B + B" using mod_less_divisor[OF B, of A] mod_less_eq_dividend[of A B] by linarith
    moreover have "B dvd A - A mod B" by (simp add: dvd_minus_mod)
    moreover have "L \<noteq> A - A mod B \<Longrightarrow> A - A mod B + B \<le> L"
      using next_multiple[OF \<open>B dvd A - A mod B\<close> assms(7)] assms(8) by linarith
    ultimately show thesis using that by force
  qed
  note cases = this
  show mx: "max A L - max A L mod B = L"
  proof (rule cases)
    assume "L \<noteq> A - A mod B" "A \<le> L"
    then show ?thesis using assms(7) by (simp add: max_absorb2 dvd_eq_mod_eq_0)
  qed simp
  show off: "unat (line_offset start b line) = max A L mod B"
  proof (rule cases)
    assume f: "L = A - A mod B"
    then have "max A L = A" by simp
    then show ?thesis using f first unat_rem32[OF assms(5), of start] by (simp add: line_offset_def A_def B_def)
  next
    assume g: "L \<noteq> A - A mod B" "A \<le> L"
    then have "max A L mod B = 0" using assms(7) by (simp add: max_def dvd_eq_mod_eq_0)
    then show ?thesis using g first by (simp add: line_offset_def)
  qed
  have "line_offset start b line \<le> b" using off B by (simp add: word_le_nat_alt B_def order_less_imp_le)
  then have sz: "unat (b - line_offset start b line) = B - max A L mod B"
    using off by (simp add: unat_sub B_def)
  show "unat (line_size start finish b line) = min (E - max A L) (B - max A L mod B)"
  proof (cases "L = E - E mod B")
    case True
    have E: "max A L \<le> E" "max A L = L + max A L mod B" "E = L + E mod B" 
      subgoal using assms(6,9) by simp
      subgoal using mx mod_less_eq_dividend[of "max A L" B] by linarith
      subgoal using True mod_less_eq_dividend[of E B] by linarith
      done
    then have le: "max A L mod B \<le> E mod B" by linarith
    have "line_offset start b line \<le> ucast (finish mod ucast b)"
      using off le assms(5) by (simp add: word_le_nat_alt unat_rem32 E_def B_def)
    then have "unat (line_size start finish b line) = E mod B - max A L mod B"
      using True last off assms(5) by (simp add: line_size_def unat_sub unat_rem32 E_def B_def)
    also have "\<dots> = min (E - max A L) (B - max A L mod B)"
    proof -
      have "E mod B < B" using B by simp
      then show ?thesis using E le by linarith
    qed
    finally show ?thesis .
  next
    case False
    then have "L + B \<le> E - E mod B"
      using next_multiple[OF assms(7) dvd_minus_mod[of B E]] assms(9) by linarith
    then have "B - max A L mod B \<le> E - max A L"
      using mx mod_less_eq_dividend[of "max A L" B] by linarith
    then show ?thesis using False last sz by (simp add: line_size_def)
  qed
qed

lemma access_loop_pieces:
  fixes start finish line :: u64 and b :: u32
  assumes "b \<noteq> 0" "start \<le> finish" "unat finish - unat finish mod unat b + unat b < 2 ^ 64"
    and "unat b dvd unat line" "unat start - unat start mod unat b \<le> unat line"
    and "unat line \<le> unat finish - unat finish mod unat b + unat b"
    and "(unat finish - unat finish mod unat b + unat b - unat line) div unat b < fuel"
  shows "access_loop f start finish b fuel line acc =
    foldS (on_piece f) (line_pieces (unat b) (max (unat start) (unat line)) (unat finish - max (unat start) (unat line))) acc"
  using assms(4-7)
proof (induction fuel arbitrary: line acc)
  case 0
  then show ?case by simp
next
  case (Suc fuel)
  let ?A = "unat start" and ?E = "unat finish" and ?B = "unat b" and ?L = "unat line"
  have B: "0 < ?B" using assms(1) by (simp add: unat_gt_0)
  have AE: "?A \<le> ?E" using assms(2) by (simp add: word_le_nat_alt)
  have dvd: "?B dvd ?E - ?E mod ?B" by (simp add: dvd_minus_mod)
  show ?case
  proof (cases "?L \<le> ?E - ?E mod ?B")
    case False
    then have "?E - ?E mod ?B + ?B \<le> ?L"
      using next_multiple[OF dvd Suc.prems(1)] by linarith
    moreover have "?E < ?E - ?E mod ?B + ?B"
      using mod_less_divisor[OF B, of ?E] mod_less_eq_dividend[of ?E ?B] by linarith
    ultimately have "?E - max ?A ?L = 0" by linarith
    then show ?thesis using False by (simp add: word_le_nat_alt unat_align)
  next
    case True
    note part = line_part[OF assms(1) AE Suc.prems(1,2) True]
    let ?a = "max ?A ?L" and ?m = "min (?E - max ?A ?L) (?B - max ?A ?L mod ?B)"
    have next_line: "unat (line + ucast b) = ?L + ?B"
      proof -
      have "?L + ?B < 2 ^ 64" using True assms(3) by linarith
      then show ?thesis using unat_add_lem[of line "ucast b"] by (simp add: unat_ucast_block)
    qed
    have ih: "access_loop f start finish b fuel (line + ucast b) x =
        foldS (on_piece f) (line_pieces ?B (max ?A (?L + ?B)) (?E - max ?A (?L + ?B))) x" for x
    proof -
      have "?L + ?B \<le> ?E - ?E mod ?B + ?B" using True by linarith
      moreover have "(?E - ?E mod ?B + ?B - (?L + ?B)) div ?B < fuel"
      proof -
        define X where "X = ?E - ?E mod ?B + ?B - (?L + ?B)"
        have "?E - ?E mod ?B + ?B - ?L = X + ?B" using True unfolding X_def by linarith
        then have "(X + ?B) div ?B < Suc fuel" using Suc.prems(4) by simp
        moreover have "(X + ?B) div ?B = Suc (X div ?B)"
          using B by (intro trans[OF div_add_self2]) linarith+
        ultimately show ?thesis unfolding X_def by simp
      qed
      ultimately show ?thesis
        using Suc.IH[of "line + ucast b" x] Suc.prems(1,2) unfolding next_line by simp
    qed
    have le: "line \<le> finish - finish mod ucast b" using True by (simp add: word_le_nat_alt unat_align)
    have last: "line = finish - finish mod ucast b \<longleftrightarrow> ?L = ?E - ?E mod ?B"
      by (simp add: word_unat_eq_iff unat_align)
    have zero: "line_size start finish b line = 0 \<longleftrightarrow> ?m = 0"
      using part(2) by (metis unat_eq_zero)
    have Bm: "?a mod ?B < ?B" using B by simp
    show ?thesis
    proof (cases "?E - ?a = 0")
      case True
      then have "?a = ?E" using \<open>?L \<le> ?E - ?E mod ?B\<close> AE by linarith
      then have "?L = ?E - ?E mod ?B" using part(3) by simp
      moreover have "?E - max ?A (?L + ?B) = 0" using True by simp
      ultimately show ?thesis using True zero le last ih by simp
    next
      case False
      then have m: "?m \<noteq> 0" using Bm by linarith
      have step: "max ?A (?L + ?B) = ?a + (?B - ?a mod ?B)"
        using part(3) Bm B mod_less_eq_dividend[of ?a ?B] by linarith
      show ?thesis
      proof -
        have pieces: "line_pieces ?B ?a (?E - ?a) = (?L, ?a mod ?B, ?m) # line_pieces ?B (?a + ?m) (?E - ?a - ?m)"
          using False B part(3) by (subst line_pieces.simps) (simp add: Let_def)
        have "line_pieces ?B (?a + ?m) (?E - ?a - ?m) = line_pieces ?B (max ?A (?L + ?B)) (?E - max ?A (?L + ?B))"
        proof (cases "?E - ?a \<le> ?B - ?a mod ?B")
          case True
          then have "?E - ?a - ?m = 0" "?E - max ?A (?L + ?B) = 0" unfolding step by linarith+
          then show ?thesis by simp
        next
          case False
          then have "?m = ?B - ?a mod ?B" by linarith
          then show ?thesis unfolding step by (simp only: diff_diff_left)
        qed
        moreover have "of_nat (?a mod ?B) = line_offset start b line" "of_nat ?m = line_size start finish b line"
          using part(1,2)[symmetric] by simp_all
        ultimately show ?thesis
          using le zero m ext[of "access_loop f start finish b fuel (line + ucast b)", OF ih]
          unfolding pieces by (simp add: Let_def)
      qed
    qed
  qed
qed

fun tiles :: "nat \<Rightarrow> nat \<Rightarrow> nat \<Rightarrow> (nat \<times> nat \<times> nat) list \<Rightarrow> bool" where
  "tiles b a n [] \<longleftrightarrow> n = 0"
| "tiles b a n ((line, offset, m) # ps) \<longleftrightarrow>
     b dvd line \<and> line + offset = a \<and> 0 < m \<and> m \<le> n \<and> offset + m \<le> b \<and> tiles b (a + m) (n - m) ps"

lemma line_pieces_tile: "0 < b \<Longrightarrow> tiles b a n (line_pieces b a n)"
proof (induction b a n rule: line_pieces.induct)
  case (1 b a n)
  show ?case
  proof (cases "n = 0")
    case False
    then have "tiles b (a + min n (b - a mod b)) (n - min n (b - a mod b))
        (line_pieces b (a + min n (b - a mod b)) (n - min n (b - a mod b)))"
      using 1 by simp
    moreover have "a mod b + min n (b - a mod b) \<le> b" "0 < min n (b - a mod b)"
      using mod_less_divisor[OF 1(2), of a] False by linarith+
    ultimately show ?thesis
      using False 1(2) by (subst line_pieces.simps) (auto simp: Let_def dvd_minus_mod)
  qed simp
qed

lemma unat_finish:
  fixes address :: u64 and n :: u32
  shows "unat (address + ucast n) = (unat address + unat n) mod 2 ^ 64"
  by (simp add: unat_word_ariths unat_ucast_block)

text \<open>
  C3. An access of the core is split over the cache blocks without gap or overlap: when the block after
  its last byte is in the address space, the loop of \<open>initiateMemoryAccess\<close> performs, for any body, the
  body on the pieces of the range, in order, and ends; the pieces lie in one block each, are not
  empty, and cover exactly the \<open>n\<close> bytes from the address on.
\<close>

theorem access_split_exact:
  fixes address :: u64 and b n :: u32
  assumes "b \<noteq> 0"
    and "unat address + unat n - (unat address + unat n) mod unat b + unat b < 2 ^ 64"
  shows "access_loop f address (address + ucast n) b (line_fuel address (address + ucast n) b)
      (address - address mod ucast b) acc =
    foldS (on_piece f) (line_pieces (unat b) (unat address) (unat n)) acc \<and>
    tiles (unat b) (unat address) (unat n) (line_pieces (unat b) (unat address) (unat n))"
proof -
  let ?E = "unat address + unat n" and ?B = "unat b"
  have B: "0 < ?B" using assms(1) by (simp add: unat_gt_0)
  have "?E < 2 ^ 64"
    using assms(2) mod_less_divisor[OF B, of ?E] mod_less_eq_dividend[of ?E ?B] by linarith
  then have E: "unat (address + ucast n) = ?E" by (simp add: unat_finish)
  have le: "address \<le> address + ucast n" by (simp add: word_le_nat_alt E)
  have al: "unat (address - address mod ucast b) = unat address - unat address mod ?B" by (rule unat_align)
  have mono: "unat address - unat address mod ?B \<le> ?E - ?E mod ?B"
    by (simp add: minus_mod_eq_mult_div div_le_mono)
  have fuel: "(?E - ?E mod ?B + ?B - (unat address - unat address mod ?B)) div ?B <
      line_fuel address (address + ucast n) b"
  proof -
    have "?E - ?E mod ?B + ?B - (unat address - unat address mod ?B) \<le> unat n + ?B + ?B"
      using mod_less_divisor[OF B, of "unat address"] mod_less_eq_dividend[of "unat address" ?B] by linarith
    then have "(?E - ?E mod ?B + ?B - (unat address - unat address mod ?B)) div ?B \<le> (unat n + ?B + ?B) div ?B"
      by (rule div_le_mono)
    also have "\<dots> = unat n div ?B + 2" using B by (simp add: div_add_self2 assms(1))
    finally show ?thesis
      using E by (simp add: line_fuel_def unat_ucast_block)
  qed
  have mx: "max (unat address) (unat address - unat address mod ?B) = unat address" by simp
  show ?thesis
    using access_loop_pieces[OF assms(1) le, of "address - address mod ucast b" "line_fuel address (address + ucast n) b" f acc]
      assms(2) mono fuel line_pieces_tile[OF B] unfolding E al mx
    by (simp add: dvd_minus_mod)
qed

theorem access_split_exact_witness:
  "access_loop (\<lambda>line offset n l. retS (l @ [(line, offset, n)])) 120 (120 + ucast (80 :: u32)) 64
     (line_fuel 120 (120 + ucast (80 :: u32)) 64) (120 - 120 mod ucast (64 :: u32)) [] (0 :: nat) =
   Inr ([(64, 56, 8), (128, 0, 64), (192, 0, 8)], 0)"
proof -
  have "line_pieces 64 120 80 = [(64, 56, 8), (128, 0, 64), (192, 0, 8)]"
    by (simp add: line_pieces.simps Let_def)
  then show ?thesis
    using access_split_exact[of 64 120 80 "\<lambda>line offset n l. retS (l @ [(line, offset, n)])" "[]"]
    by (auto simp: op_defs dest: fun_cong[where x = 0])
qed

section \<open>The end of the address space\<close>

text \<open>When the last block of the range is the last one of the address space, the loop counter wraps
  around before it exceeds the end.\<close>

lemma access_loop_wraps:
  assumes "unat b dvd 2 ^ 64" "b \<noteq> 0" "2 ^ 64 \<le> unat finish - unat finish mod unat b + unat b"
    and "unat b dvd unat line"
  shows "access_loop f start finish b fuel line acc s \<noteq> Inr r"
  using assms(4)
proof (induction fuel arbitrary: line acc s)
  case (Suc fuel)
  let ?B = "unat b" and ?F = "unat finish - unat finish mod unat b"
  have L: "unat line < 2 ^ LENGTH(64)" "unat finish < 2 ^ LENGTH(64)" by (rule unsigned_less)+
  have "unat line \<le> ?F"
  proof (rule ccontr)
    assume "\<not> unat line \<le> ?F"
    then have "?F + ?B \<le> unat line" using next_multiple[OF dvd_minus_mod Suc.prems, of "unat finish"] by simp
    then show False using L assms(3) by simp
  qed
  then have go: "line \<le> finish - finish mod ucast b" by (simp add: word_le_nat_alt unat_align)
  have "?B dvd unat (line + ucast b)"
  proof -
    have "?B dvd (unat line + ?B) mod 2 ^ 64"
      using Suc.prems assms(1) by (simp add: dvd_mod_iff)
    then show ?thesis by (simp add: unat_word_ariths unat_ucast_block)
  qed
  note ih = Suc.IH[OF this]
  show ?case using go ih by (auto simp: Let_def err_simps)
qed (simp add: failS_def)

lemma initiate_loop:
  assumes "initiateMemoryAccess k core cid sig op address data n modeled now s = Inr r" "n \<noteq> 0"
    and "b = of_nat (mm_block_size (sys_mm s core))"
  obtains u v la where "b \<noteq> 0"
    "access_loop (access_line_part k core cid sig op modeled) address (address + ucast n) b
       (line_fuel address (address + ucast n) b) (address - address mod ucast b)
       \<lparr>la_misses = 0, la_where = UNKNOWN, la_head = 0, la_data = data\<rparr> u = Inr (la, v)"
    "la_where la \<noteq> UNKNOWN"
  using assms(1,2) unfolding initiateMemoryAccess_def assms(3)
  by (auto simp: Let_def err_simps call_def set_core_time_def onH_def split: if_splits)

text \<open>
  C37. An access that reaches the last block of the address space never returns: whatever the caches
  do and whatever fuel the loop gets, there is no result, because the loop counter wraps around to the
  first block (or, when the range itself wraps around, no block is accessed and the final assertion fails).
\<close>

theorem access_at_top_never_returns:
  fixes b n :: u32
  assumes "of_nat (mm_block_size (sys_mm s core)) = b" "unat b dvd 2 ^ 64" "n \<noteq> 0"
    and "2 ^ 64 \<le> unat address + unat n - (unat address + unat n) mod unat b + unat b"
  shows "initiateMemoryAccess k core cid sig op address data n modeled now s \<noteq> Inr r"
proof
  assume run: "initiateMemoryAccess k core cid sig op address data n modeled now s = Inr r"
  obtain u v la where b: "b \<noteq> 0" and loop: "access_loop (access_line_part k core cid sig op modeled)
      address (address + ucast n) b (line_fuel address (address + ucast n) b) (address - address mod ucast b)
      \<lparr>la_misses = 0, la_where = UNKNOWN, la_head = 0, la_data = data\<rparr> u = Inr (la, v)"
    and hit: "la_where la \<noteq> UNKNOWN"
    by (rule initiate_loop[OF run assms(3) assms(1)[symmetric]])
  let ?E = "unat address + unat n" and ?B = "unat b"
  have A: "unat address < 2 ^ 64" and N: "unat n < 2 ^ 32" and B: "?B < 2 ^ 32"
    using unsigned_less[of address] unsigned_less[of n] unsigned_less[of b] by simp_all
  show False
  proof (cases "?E < 2 ^ 64")
    case True
    then have "unat (address + ucast n) = ?E" by (simp add: unat_finish)
    note E = this
    show False
      by (rule access_loop_wraps[OF assms(2) b _ _, THEN notE, OF _ _ loop])
        (use E assms(4) in \<open>simp_all add: unat_align dvd_minus_mod\<close>)
  next
    case False
    then have "unat (address + ucast n) = ?E - 2 ^ 64"
      using A N by (simp add: unat_finish mod_if)
    moreover have "unat address mod ?B < ?B" using b by (simp add: unat_gt_0)
    moreover have "(2 :: nat) ^ 64 = 18446744073709551616" "(2 :: nat) ^ 32 = 4294967296" by simp_all
    ultimately have "unat (address + ucast n) < unat address - unat address mod ?B"
      using False A N B mod_less_eq_dividend[of "unat address" ?B] by linarith
    then have "\<not> address - address mod ucast b \<le> address + ucast n - (address + ucast n) mod ucast b"
      by (simp add: word_le_nat_alt unat_align)
    then show False using loop hit by (auto simp: line_fuel_def numeral_3_eq_3 retS_def)
  qed
qed

definition demo_mm :: mem_manager where
  "demo_mm = \<lparr>mm_levels = 2, mm_block_size = 64, mm_cache_cntlrs = (\<lambda>_. Some 0), mm_perf_models = (\<lambda>_. None),
     mm_itlb = False, mm_dtlb = False, mm_tlb_miss_penalty = 0, mm_tlb_miss_parallel = False,
     mm_tag_directory_present = False, mm_dram_cntlr_present = False, mm_directory_cntlr = False,
     mm_dram_cache = False, mm_enabled = False, mm_core_id_master = 0\<rparr>"

theorem access_at_top_never_returns_witness:
  "\<forall>k s r. initiateMemoryAccess k 0 L1_DCACHE SIG_NONE OP_READ (- 32) None 4 MEM_MODELED_COUNT 0
     (s\<lparr>sys_mm := (\<lambda>_. demo_mm)\<rparr>) \<noteq> Inr r"
  by (intro allI access_at_top_never_returns[of _ _ 64]) (simp_all add: demo_mm_def)

end
