(* ===== verification/Memory_Facts.thy ===== *)
theory Memory_Facts
  imports Memory_Access Cache_Coherence
begin

text \<open>
  What the constructor of the memory manager establishes. For a core with private caches
  (\<open>private_cfg\<close>) it succeeds, and its controllers are the consecutive new objects from \<open>sys_objects\<close> on,
  linked into the tree \<open>core_tree\<close>: the structure that the theorems on coherence (\<open>Cache_Coherence\<close>) and
  on locks (\<open>Cache_Locks\<close>) assume of a hierarchy.

  \<open>built\<close> is the invariant of the loop that creates the controllers, and \<open>links\<close> the effect of the
  loops that link them: only \<open>m_next\<close> and \<open>m_prev_cache_cntlrs\<close> change.
\<close>

section \<open>Running operations on the system\<close>

lemma wp_onH [wp_simps]: "wpS (onH m) Q = (\<lambda>s. wpS m (\<lambda>x h. Q x (s\<lparr>sys_hier := h\<rparr>)) (sys_hier s))"
  by (auto simp: wpS_def onH_def err_simps fun_eq_iff)

lemma wp_call [wp_simps]: "wpS (call e) R = (\<lambda>s. R () (s\<lparr>sys_calls := sys_calls s @ [e]\<rparr>))"
  by (simp add: call_def wp_simps)

lemma wp_upd_mm [wp_simps]:
  "wpS (upd_mm core f) R = (\<lambda>s. R () (s\<lparr>sys_mm := (sys_mm s)(core := f (sys_mm s core))\<rparr>))"
  by (simp add: upd_mm_def wp_simps)

lemma wp_with_cntlr:
  "mm_cache_cntlrs (sys_mm s core) cid = Some i \<Longrightarrow> wpS (with_cntlr core cid f) Q s = wpS (f i) Q s"
  by (simp add: with_cntlr_def wp_simps)

section \<open>Configurations with private caches\<close>

definition private_level :: "('b, 'r, 'p, 'g) config \<Rightarrow> int \<Rightarrow> component \<Rightarrow> bool" where
  "private_level cfg core cid \<longleftrightarrow> (let l = cfg_level cfg cid core in
     lc_dvfs_domain l \<in> {''core'', ''global''} \<and> lc_cache_block_size l = cfg_block_size cfg \<and>
     0 < lc_associativity l * cfg_block_size cfg \<and>
     (lc_associativity l * cfg_block_size cfg) dvd 1024 * lc_cache_size l \<and>
     lc_shared_cores l * cfg_smt_cores cfg = 1 \<and> \<not> lc_writethrough l \<and> \<not> lc_passthrough l \<and>
     (cid = L1_ICACHE \<longrightarrow> lc_coherent l))"

definition private_cfg :: "('b, 'r, 'p, 'g) config \<Rightarrow> int \<Rightarrow> bool" where
  "private_cfg cfg core \<longleftrightarrow> 2 \<le> cfg_levels cfg \<and> list_all (private_level cfg core) (cache_levels (cfg_levels cfg)) \<and>
     \<not> cfg_perfect_llc_key cfg \<and> \<not> cfg_nuca cfg \<and>
     (cfg_dir_locations cfg \<in> {''dram'', ''llc''} \<or>
      cfg_dir_locations cfg = ''interleaved'' \<and> 0 < cfg_dir_interleaving cfg * int (cfg_smt_cores cfg)) \<and>
     (cfg_direct_access cfg \<and> core < cfg_application_cores cfg \<longrightarrow>
        cfg_application_cores cfg \<le> 1 \<and> core \<in> set (cfg_mem_controllers cfg))"

definition private_cp :: "cache_params \<Rightarrow> bool" where
  "private_cp cp \<longleftrightarrow> cp_shared_cores cp = 1 \<and> cp_coherent cp \<and> \<not> cp_writethrough cp"

lemma level_params_private:
  "private_level cfg core cid \<Longrightarrow> \<exists>cp. level_params cfg core cid = Inr cp \<and> private_cp cp"
  by (auto simp: private_level_def Let_def level_params_def CacheParameters_def private_cp_def elim!: dvdE)

lemma read_params_private:
  assumes "private_cfg cfg core"
  shows "\<exists>ps. read_params cfg core = Inr ps \<and>
    (\<forall>cid\<in>set (cache_levels (cfg_levels cfg)). \<exists>cp. ps cid = Some cp \<and> private_cp cp)"
proof -
  have "\<exists>ps. foldE (\<lambda>cid ps. bindE (level_params cfg core cid) (\<lambda>cp. Inr (ps(cid := Some cp)))) cs q = Inr ps \<and>
      (\<forall>cid\<in>set cs. \<exists>cp. ps cid = Some cp \<and> private_cp cp) \<and> (\<forall>cid. cid \<notin> set cs \<longrightarrow> ps cid = q cid)"
    if "list_all (private_level cfg core) cs" for cs q
    using that
  proof (induction cs arbitrary: q)
    case (Cons c cs)
    obtain cp where cp: "level_params cfg core c = Inr cp" "private_cp cp"
      using Cons.prems level_params_private[of cfg core c] by auto
    obtain ps where "foldE (\<lambda>cid ps. bindE (level_params cfg core cid) (\<lambda>cp. Inr (ps(cid := Some cp)))) cs
        (q(c := Some cp)) = Inr ps \<and> (\<forall>cid\<in>set cs. \<exists>cp. ps cid = Some cp \<and> private_cp cp) \<and>
        (\<forall>cid. cid \<notin> set cs \<longrightarrow> ps cid = (q(c := Some cp)) cid)"
      using Cons.IH[of "q(c := Some cp)"] Cons.prems by (auto simp del: fun_upd_apply)
    then show ?case using cp
      by (intro exI[of _ ps] conjI) (simp_all add: fun_upd_same fun_upd_other del: fun_upd_apply, metis fun_upd_apply)
  qed simp
  from this[of "cache_levels (cfg_levels cfg)" "\<lambda>_. None"] assms show ?thesis
    by (auto simp: read_params_def private_cfg_def)
qed

lemma place_loop_multiples:
  assumes "0 < k" "nat (n - c) < fuel"
  shows "\<exists>l. place_loop fuel c k n = Inr l \<and> (\<forall>x. x \<in> set l \<longleftrightarrow> c \<le> x \<and> x < n \<and> k dvd x - c)"
  using assms(2)
proof (induction fuel arbitrary: c)
  case (Suc fuel)
  show ?case
  proof (cases "c < n")
    case True
    have "nat (n - (c + k)) < fuel" using True Suc.prems assms(1) by simp
    then obtain l where l: "place_loop fuel (c + k) k n = Inr l"
      "\<forall>x. x \<in> set l \<longleftrightarrow> c + k \<le> x \<and> x < n \<and> k dvd x - (c + k)"
      using Suc.IH by blast
    have dvd: "k dvd x - (c + k) \<longleftrightarrow> k dvd x - c" for x
      using dvd_add_right_iff[of k "- k" "x - c"] by (simp add: algebra_simps)
    have "k dvd x - c \<longrightarrow> c \<le> x \<longrightarrow> x = c \<or> c + k \<le> x" for x
      using zdvd_imp_le[of k "x - c"] by (cases "x = c") auto
    then show ?thesis using l True assms(1) by (auto simp: dvd)
  qed auto
qed simp

lemma place_directories_private:
  assumes "private_cfg cfg core"
  shows "\<exists>l. place_directories cfg 1 = Inr l"
proof -
  have fuel: "nat (n - 0) < Suc (nat n)" for n by simp
  show ?thesis
    using assms place_loop_multiples[OF zero_less_one fuel, of "cfg_application_cores cfg"]
      place_loop_multiples[OF _ fuel, of "cfg_dir_interleaving cfg * int (cfg_smt_cores cfg)" "cfg_application_cores cfg"]
    by (auto simp: private_cfg_def place_directories_def Let_def simp del: place_loop.simps)
qed

section \<open>Building the controllers\<close>

lemma cache_levels_nth: "k < Suc levels \<Longrightarrow> cache_levels levels ! k = comp_of_rank (Suc k)"
  by (simp add: cache_levels_def del: upt_Suc)

lemma length_cache_levels [simp]: "length (cache_levels levels) = Suc levels"
  by (simp add: cache_levels_def)

lemma comp_of_rank_inj: "comp_of_rank m = comp_of_rank n \<longleftrightarrow> m = n"
  by (induction m rule: comp_of_rank.induct; induction n rule: comp_of_rank.induct) auto

text \<open>A controller that was just built: its own master, no links.\<close>

definition fresh_cntlr :: "('b, 'r, 'p, 'g) config \<Rightarrow> int \<Rightarrow> ('b, 'r, 'p, 'g, 'm) hier \<Rightarrow> nat \<Rightarrow> bool" where
  "fresh_cntlr cfg core h i \<longleftrightarrow> level_ok (cfg_block_size cfg) h i \<and> m_master (cntlrs h i) = i \<and>
     isMasterCache (cntlrs h i) \<and> m_next (cntlrs h i) = None \<and> m_prev_cache_cntlrs (masters h i) = []"

definition same_below :: "nat \<Rightarrow> ('b, 'r, 'p, 'g, 'm) system \<Rightarrow> ('b, 'r, 'p, 'g, 'm) system \<Rightarrow> bool" where
  "same_below n s t \<longleftrightarrow> (\<forall>j<n. cntlrs (sys_hier t) j = cntlrs (sys_hier s) j \<and>
     masters (sys_hier t) j = masters (sys_hier s) j)"

definition built ::
  "('b, 'r, 'p, 'g) config \<Rightarrow> int \<Rightarrow> ('b, 'r, 'p, 'g, 'm) system \<Rightarrow> nat \<Rightarrow> ('b, 'r, 'p, 'g, 'm) system \<Rightarrow> bool" where
  "built cfg core s k t \<longleftrightarrow> sys_objects t = sys_objects s + k \<and> same_below (sys_objects s) s t \<and>
     (mm_dram_cntlr_present (sys_mm t core) \<longleftrightarrow> core \<in> set (cfg_mem_controllers cfg)) \<and>
     (\<forall>r<k. mm_cache_cntlrs (sys_mm t core) (comp_of_rank (Suc r)) = Some (sys_objects s + r) \<and>
       fresh_cntlr cfg core (sys_hier t) (sys_objects s + r))"

lemma wp_new_cntlr:
  assumes "private_cp cp" "\<not> passthrough" "\<not> key" "m_prev_cache_cntlrs m = []"
    and "\<And>h'. level_ok bsize h' i \<Longrightarrow> m_master (cntlrs h' i) = i \<Longrightarrow> isMasterCache (cntlrs h' i) \<Longrightarrow>
      m_next (cntlrs h' i) = None \<Longrightarrow> m_prev_cache_cntlrs (masters h' i) = [] \<Longrightarrow>
      (\<forall>j. j \<noteq> i \<longrightarrow> cntlrs h' j = cntlrs h j \<and> masters h' j = masters h j) \<Longrightarrow> Q () h'"
  shows "wpS (new_cntlr cid core bsize passthrough key pkey is_llc cp m i i) Q h"
  using assms
  by (auto simp: new_cntlr_def Let_def wp_simps upd_cntlr_def upd_master_def ext_def my_master_def
      private_cp_def isMasterCache_def level_ok_def)

lemma wp_build_cntlr:
  assumes "built cfg core s k t" "private_cp cp" "private_level cfg core (comp_of_rank (Suc k))"
    and "\<not> cfg_perfect_llc_key cfg"
  shows "wpS (build_cntlr env cfg core (comp_of_rank (Suc k)) cp) (\<lambda>_. built cfg core s (Suc k)) t"
proof -
  have one: "cp_shared_cores cp = 1" using assms(2) by (simp add: private_cp_def)
  have pass: "\<not> lc_passthrough (cfg_level cfg (comp_of_rank (Suc k)) core)"
    using assms(3) by (simp add: private_level_def Let_def)
  show ?thesis
    unfolding build_cntlr_def Let_def wp_simps one
    apply (simp add: wp_simps)
    apply (rule wp_new_cntlr[OF assms(2) pass assms(4)])
     apply (simp add: new_master_def)
    using assms(1)
    apply (auto simp: wp_simps built_def same_below_def fresh_cntlr_def comp_of_rank_inj less_Suc_eq level_ok_def)
    done
qed

section \<open>Linking\<close>

text \<open>The system with other links.\<close>

definition links ::
  "(nat \<Rightarrow> nat option) \<Rightarrow> (nat \<Rightarrow> nat list) \<Rightarrow> ('b, 'r, 'p, 'g, 'm) system \<Rightarrow> ('b, 'r, 'p, 'g, 'm) system" where
  "links nx pv s = s\<lparr>sys_hier := (sys_hier s)\<lparr>
     cntlrs := (\<lambda>j. (cntlrs (sys_hier s) j)\<lparr>m_next := nx j\<rparr>),
     masters := (\<lambda>j. (masters (sys_hier s) j)\<lparr>m_prev_cache_cntlrs := pv j\<rparr>)\<rparr>\<rparr>"

lemma links_sel [simp]:
  "sys_mm (links nx pv s) = sys_mm s" "sys_objects (links nx pv s) = sys_objects s"
  "cntlrs (sys_hier (links nx pv s)) j = (cntlrs (sys_hier s) j)\<lparr>m_next := nx j\<rparr>"
  "masters (sys_hier (links nx pv s)) j = (masters (sys_hier s) j)\<lparr>m_prev_cache_cntlrs := pv j\<rparr>"
  by (simp_all add: links_def)

lemma links_id: "links (\<lambda>j. m_next (cntlrs (sys_hier s) j)) (\<lambda>j. m_prev_cache_cntlrs (masters (sys_hier s) j)) s = s"
  by (simp add: links_def)

lemma wp_link_next:
  assumes "mm_cache_cntlrs (sys_mm s core) a = Some i"
  shows "wpS (link_next core a b) Q (links nx pv s) =
    Q () (links (nx(i := mm_cache_cntlrs (sys_mm s core) b)) pv s)"
proof -
  have "(sys_hier (links nx pv s))\<lparr>cntlrs := (cntlrs (sys_hier (links nx pv s)))(i :=
      (cntlrs (sys_hier (links nx pv s)) i)\<lparr>m_next := x\<rparr>)\<rparr> = sys_hier (links (nx(i := x)) pv s)" for x
    by (simp add: links_def fun_eq_iff)
  then show ?thesis using assms
    by (simp add: link_next_def wp_with_cntlr wp_simps setNextCacheCntlr_def upd_cntlr_def) (simp add: links_def)
qed

lemma setPrev_links:
  assumes "m_master (cntlrs (sys_hier s) j) = k" "\<forall>i\<in>set is. isMasterCache (cntlrs (sys_hier s) i)"
  shows "wpS (onH (setPrevCacheCntlrs j is)) Q (links nx pv s) = Q () (links nx (pv(k := pv k @ is)) s)"
  using assms(2)
proof (induction "is" arbitrary: pv)
  case Nil
  then show ?case by (simp add: setPrevCacheCntlrs_def forS_def wp_simps)
next
  case (Cons i ls)
  have m: "isMasterCache (cntlrs (sys_hier (links nx pv s)) i)"
    using Cons.prems by (simp add: isMasterCache_def)
  have step: "(sys_hier (links nx pv s))\<lparr>masters := (masters (sys_hier (links nx pv s)))(k :=
      (masters (sys_hier (links nx pv s)) k)\<lparr>m_prev_cache_cntlrs := pv k @ [i]\<rparr>)\<rparr> =
      sys_hier (links nx (pv(k := pv k @ [i])) s)"
    by (simp add: links_def fun_eq_iff)
  have sub: "(links nx pv s)\<lparr>sys_hier := h\<rparr> = (links nx pv' s)\<lparr>sys_hier := h\<rparr>" for h pv'
    by (simp add: links_def)
  have ih: "wpS (onH (setPrevCacheCntlrs j ls)) Q (links nx (pv(k := pv k @ [i])) s) =
      Q () (links nx (pv(k := pv k @ i # ls)) s)"
    using Cons.IH[of "pv(k := pv k @ [i])"] Cons.prems by (simp add: fun_upd_same del: fun_upd_apply)
  have "wpS (onH (setPrevCacheCntlrs j (i # ls))) Q (links nx pv s) =
      wpS (onH (setPrevCacheCntlrs j ls)) Q (links nx (pv(k := pv k @ [i])) s)"
    using m step assms(1)
    by (simp add: setPrevCacheCntlrs_def forS_def wp_simps upd_master_def my_master_def
        sub[of _ "pv(k := pv k @ [i])"] del: fun_upd_apply)
  then show ?case using ih by (simp del: fun_upd_apply)
qed

lemma wp_link_prev:
  assumes "mm_cache_cntlrs (sys_mm s core) a = Some i" "mm_cache_cntlrs (sys_mm s core) b = Some j"
    and "m_master (cntlrs (sys_hier s) j) = k" "isMasterCache (cntlrs (sys_hier s) i)"
  shows "wpS (link_prev core a b) Q (links nx pv s) = Q () (links nx (pv(k := pv k @ [i])) s)"
  using assms setPrev_links[of s j k "[i]"] by (simp add: link_prev_def wp_with_cntlr)

text \<open>The links of \<open>k\<close> levels above the second one, from controller \<open>n\<close> on: what the two loops leave.\<close>

definition chain_next :: "nat \<Rightarrow> nat \<Rightarrow> (nat \<Rightarrow> nat option) \<Rightarrow> nat \<Rightarrow> nat option" where
  "chain_next n k nx j = (if j = n \<or> j = n + 1 then Some (n + 2)
     else if n + 2 \<le> j \<and> j < n + 2 + k then Some (j + 1) else nx j)"

definition chain_prev :: "nat \<Rightarrow> nat \<Rightarrow> (nat \<Rightarrow> nat list) \<Rightarrow> nat \<Rightarrow> nat list" where
  "chain_prev n k pv j = (if j = n + 2 then [n, n + 1]
     else if n + 3 \<le> j \<and> j < n + 3 + k then [j - 1] else pv j)"

lemma wp_link_cntlrs:
  fixes s t :: "('b, 'r, 'p, 'g, 'm) system"
  assumes "built cfg core s (Suc L) t" "2 \<le> L" "n = sys_objects s"
    and "Q () (links (chain_next n (L - 2) (\<lambda>j. m_next (cntlrs (sys_hier t) j)))
           (chain_prev n (L - 2) (\<lambda>j. m_prev_cache_cntlrs (masters (sys_hier t) j))) t)"
  shows "wpS (link_cntlrs core L) Q t"
proof -
  let ?nx = "\<lambda>j. m_next (cntlrs (sys_hier t) j)" and ?pv = "\<lambda>j. m_prev_cache_cntlrs (masters (sys_hier t) j)"
  let ?rs = "[3..<L + 1]"
  have at: "mm_cache_cntlrs (sys_mm t core) (comp_of_rank (Suc r)) = Some (n + r)"
    and fr: "fresh_cntlr cfg core (sys_hier t) (n + r)" if "r \<le> L" for r
    using assms(1,3) that by (simp_all add: built_def)
  have names: "mm_cache_cntlrs (sys_mm t core) L1_ICACHE = Some n" "mm_cache_cntlrs (sys_mm t core) L1_DCACHE = Some (n + 1)"
    "mm_cache_cntlrs (sys_mm t core) (LX_CACHE 0) = Some (n + 2)"
    using at[of 0] at[of 1] at[of 2] assms(2) by (simp_all add: numeral_2_eq_2)
  have rs: "?rs ! k = 3 + k" "length ?rs = L - 2" if "k < L - 2" for k
    using that by (simp_all del: upt_Suc)
  have ups: "wpS (forS (\<lambda>r. link_next core (comp_of_rank r) (comp_of_rank (r + 1))) ?rs) R
      (links (chain_next n 0 ?nx) ?pv t)"
    if "R () (links (chain_next n (L - 2) ?nx) ?pv t)" for R
  proof (rule wp_for[where I = "\<lambda>k u. u = links (chain_next n k ?nx) ?pv t"])
    fix k and u :: "('b, 'r, 'p, 'g, 'm) system" assume k: "k < length ?rs" and u: "u = links (chain_next n k ?nx) ?pv t"
    then have k': "k < L - 2" by (simp del: upt_Suc)
    have a: "mm_cache_cntlrs (sys_mm t core) (comp_of_rank (3 + k)) = Some (n + 2 + k)"
      "mm_cache_cntlrs (sys_mm t core) (comp_of_rank (4 + k)) = Some (n + 3 + k)"
      using at[of "2 + k"] at[of "3 + k"] k' by (simp_all add: numeral_eq_Suc)
    have "(chain_next n k ?nx)(n + 2 + k := Some (n + 3 + k)) = chain_next n (Suc k) ?nx"
      by (auto simp: chain_next_def fun_eq_iff)
    then show "wpS (link_next core (comp_of_rank (?rs ! k)) (comp_of_rank (?rs ! k + 1))) (\<lambda>_ u.
        u = links (chain_next n (Suc k) ?nx) ?pv t) u"
      unfolding rs(1)[OF k'] u by (simp add: wp_link_next[OF a(1)] a(2) add.commute[of _ 1] del: fun_upd_apply)
  qed (use that in \<open>simp_all del: upt_Suc\<close>)
  have downs: "wpS (forS (\<lambda>r. link_prev core (comp_of_rank r) (comp_of_rank (r + 1))) ?rs) R
      (links nx (chain_prev n 0 ?pv) t)"
    if "R () (links nx (chain_prev n (L - 2) ?pv) t)" for R nx
  proof (rule wp_for[where I = "\<lambda>k u. u = links nx (chain_prev n k ?pv) t"])
    fix k and u :: "('b, 'r, 'p, 'g, 'm) system" assume k: "k < length ?rs" and u: "u = links nx (chain_prev n k ?pv) t"
    then have k': "k < L - 2" by (simp del: upt_Suc)
    have a: "mm_cache_cntlrs (sys_mm t core) (comp_of_rank (3 + k)) = Some (n + 2 + k)"
      "mm_cache_cntlrs (sys_mm t core) (comp_of_rank (4 + k)) = Some (n + 3 + k)"
      using at[of "2 + k"] at[of "3 + k"] k' by (simp_all add: numeral_eq_Suc)
    have f: "m_master (cntlrs (sys_hier t) (n + 3 + k)) = n + 3 + k" "isMasterCache (cntlrs (sys_hier t) (n + 2 + k))"
      "?pv (n + 3 + k) = []"
      using fr[of "3 + k"] fr[of "2 + k"] k' by (simp_all add: fresh_cntlr_def add.assoc)
    have "(chain_prev n k ?pv)(n + 3 + k := chain_prev n k ?pv (n + 3 + k) @ [n + 2 + k]) = chain_prev n (Suc k) ?pv"
      using f(3) by (auto simp: chain_prev_def fun_eq_iff)
    then show "wpS (link_prev core (comp_of_rank (?rs ! k)) (comp_of_rank (?rs ! k + 1))) (\<lambda>_ u.
        u = links nx (chain_prev n (Suc k) ?pv) t) u"
      unfolding rs(1)[OF k'] u by (simp add: wp_link_prev[OF a f(1,2)] add.commute[of _ 1] del: fun_upd_apply)
  qed (use that in \<open>simp_all del: upt_Suc\<close>)
  have fr3: "isMasterCache (cntlrs (sys_hier t) n)" "isMasterCache (cntlrs (sys_hier t) (n + 1))"
    "m_master (cntlrs (sys_hier t) (n + 2)) = n + 2" "?pv (n + 2) = []"
    using fr[of 0] fr[of 1] fr[of 2] assms(2) by (simp_all add: fresh_cntlr_def)
  have nx: "(?nx(n := Some (n + 2)))(n + 1 := Some (n + 2)) = chain_next n 0 ?nx"
    and pv: "?pv(n + 2 := ?pv (n + 2) @ [n, n + 1]) = chain_prev n 0 ?pv"
    using fr3(4) by (auto simp: chain_next_def chain_prev_def fun_eq_iff)
  have "wpS (link_cntlrs core L) Q (links ?nx ?pv t)"
    unfolding link_cntlrs_def wpS_seq wp_link_next[OF names(1)] wp_link_next[OF names(2)] names(3) nx
  proof (rule ups)
    have l2: "wpS (with_cntlr core (LX_CACHE 0) (\<lambda>j. with_cntlr core L1_ICACHE (\<lambda>a. with_cntlr core L1_DCACHE (\<lambda>b.
          onH (setPrevCacheCntlrs j [a, b]))))) R (links nx ?pv t) = R () (links nx (chain_prev n 0 ?pv) t)" for R nx
      using setPrev_links[OF fr3(3), of "[n, n + 1]" R nx ?pv] fr3(1,2) names unfolding pv
      by (simp add: wp_with_cntlr)
    show "wpS (with_cntlr core (LX_CACHE 0) (\<lambda>j. with_cntlr core L1_ICACHE (\<lambda>a. with_cntlr core L1_DCACHE (\<lambda>b.
        onH (setPrevCacheCntlrs j [a, b])))))
      (\<lambda>_. wpS (forS (\<lambda>r. link_prev core (comp_of_rank r) (comp_of_rank (r + 1))) ?rs) Q)
      (links (chain_next n (L - 2) ?nx) ?pv t)"
      unfolding l2 by (rule downs) (rule assms(4))
  qed
  then show ?thesis by (simp add: links_id)
qed

text \<open>A system whose controllers of one core are linked; the rest of the constructor keeps this.\<close>

definition linked ::
  "('b, 'r, 'p, 'g) config \<Rightarrow> int \<Rightarrow> ('b, 'r, 'p, 'g, 'm) system \<Rightarrow> ('b, 'r, 'p, 'g, 'm) system \<Rightarrow> bool" where
  "linked cfg core s u \<longleftrightarrow> (let n = sys_objects s; L = cfg_levels cfg; h = sys_hier u in
     sys_objects u = n + Suc L \<and> same_below n s u \<and>
     (mm_dram_cntlr_present (sys_mm u core) \<longleftrightarrow> core \<in> set (cfg_mem_controllers cfg)) \<and>
     (\<forall>r\<le>L. mm_cache_cntlrs (sys_mm u core) (comp_of_rank (Suc r)) = Some (n + r) \<and>
        level_ok (cfg_block_size cfg) h (n + r) \<and> m_master (cntlrs h (n + r)) = n + r \<and>
        isMasterCache (cntlrs h (n + r)) \<and>
        m_next (cntlrs h (n + r)) = chain_next n (L - 2) (\<lambda>_. None) (n + r) \<and>
        m_prev_cache_cntlrs (masters h (n + r)) = chain_prev n (L - 2) (\<lambda>_. []) (n + r)))"

lemma linked_after_links:
  assumes "built cfg core s (Suc (cfg_levels cfg)) t" "n = sys_objects s" "2 \<le> cfg_levels cfg"
  shows "linked cfg core s (links (chain_next n (cfg_levels cfg - 2) (\<lambda>j. m_next (cntlrs (sys_hier t) j)))
    (chain_prev n (cfg_levels cfg - 2) (\<lambda>j. m_prev_cache_cntlrs (masters (sys_hier t) j))) t)"
proof -
  have nx: "chain_next n k nx j = chain_next n k (\<lambda>_. None) j" if "nx j = None" for nx j k
    using that by (simp add: chain_next_def)
  have pv: "chain_prev n k pv j = chain_prev n k (\<lambda>_. []) j" if "pv j = []" for pv j k
    using that by (simp add: chain_prev_def)
  have low: "chain_next n k nx j = nx j" "chain_prev n k pv j = pv j" if "j < n" for k nx pv j
    using that by (simp_all add: chain_next_def chain_prev_def)
  have fr: "fresh_cntlr cfg core (sys_hier t) (n + r)" if "r \<le> cfg_levels cfg" for r
    using assms(1,2) that by (simp add: built_def)
  show ?thesis
    unfolding linked_def Let_def assms(2)[symmetric]
  proof (intro conjI allI impI)
    fix r assume r: "r \<le> cfg_levels cfg"
    note f = fr[OF r, unfolded fresh_cntlr_def level_ok_def isMasterCache_def]
    let ?h = "sys_hier (links (chain_next n (cfg_levels cfg - 2) (\<lambda>j. m_next (cntlrs (sys_hier t) j)))
      (chain_prev n (cfg_levels cfg - 2) (\<lambda>j. m_prev_cache_cntlrs (masters (sys_hier t) j))) t)"
    show "level_ok (cfg_block_size cfg) ?h (n + r)" "m_master (cntlrs ?h (n + r)) = n + r"
      "isMasterCache (cntlrs ?h (n + r))"
      using f by (simp_all add: level_ok_def isMasterCache_def)
    show "m_next (cntlrs ?h (n + r)) = chain_next n (cfg_levels cfg - 2) (\<lambda>_. None) (n + r)"
      using f nx[of "\<lambda>j. m_next (cntlrs (sys_hier t) j)" "n + r"] by simp
    show "m_prev_cache_cntlrs (masters ?h (n + r)) = chain_prev n (cfg_levels cfg - 2) (\<lambda>_. []) (n + r)"
      using f pv[of "\<lambda>j. m_prev_cache_cntlrs (masters (sys_hier t) j)" "n + r"] by simp
  next
    have "same_below n s t" using assms(1,2) by (simp add: built_def)
    then show "same_below n s (links (chain_next n (cfg_levels cfg - 2) (\<lambda>j. m_next (cntlrs (sys_hier t) j)))
      (chain_prev n (cfg_levels cfg - 2) (\<lambda>j. m_prev_cache_cntlrs (masters (sys_hier t) j))) t)"
      unfolding same_below_def by (simp add: low)
  qed (use assms(1,2) in \<open>simp_all add: built_def\<close>)
qed

text \<open>What does not touch links keeps a system linked.\<close>

lemma linked_cong:
  assumes "linked cfg core s u" "sys_objects v = sys_objects u" "cntlrs (sys_hier v) = cntlrs (sys_hier u)"
    and "\<And>r. r \<le> cfg_levels cfg \<Longrightarrow> m_prev_cache_cntlrs (masters (sys_hier v) (sys_objects s + r)) =
      m_prev_cache_cntlrs (masters (sys_hier u) (sys_objects s + r))"
    and "\<And>j. j < sys_objects s \<Longrightarrow> masters (sys_hier v) j = masters (sys_hier u) j"
    and "mm_cache_cntlrs (sys_mm v core) = mm_cache_cntlrs (sys_mm u core)"
    and "mm_dram_cntlr_present (sys_mm v core) = mm_dram_cntlr_present (sys_mm u core)"
  shows "linked cfg core s v"
  using assms by (auto simp: linked_def Let_def same_below_def level_ok_def)

lemma linked_table:
  "linked cfg core s u \<Longrightarrow> mm_cache_cntlrs (sys_mm u core) (last_level (cfg_levels cfg)) = Some (sys_objects s + cfg_levels cfg)"
  "linked cfg core s u \<Longrightarrow> isMasterCache (cntlrs (sys_hier u) (sys_objects s + cfg_levels cfg))"
  "linked cfg core s u \<Longrightarrow> m_master (cntlrs (sys_hier u) (sys_objects s + cfg_levels cfg)) = sys_objects s + cfg_levels cfg"
  by (simp_all add: linked_def last_level_def Let_def)

lemma linked_upd_master:
  assumes "linked cfg core s u" "\<And>m. m_prev_cache_cntlrs (f m) = m_prev_cache_cntlrs m"
    and "\<And>v. linked cfg core s v \<Longrightarrow> sys_mm v = sys_mm u \<Longrightarrow> Q () v"
  shows "wpS (onH (upd_master (sys_objects s + cfg_levels cfg) f)) Q u"
proof -
  let ?i = "sys_objects s + cfg_levels cfg"
  let ?v = "u\<lparr>sys_hier := (sys_hier u)\<lparr>masters := (masters (sys_hier u))(?i := f (masters (sys_hier u) ?i))\<rparr>\<rparr>"
  have "linked cfg core s ?v" by (rule linked_cong[OF assms(1)]) (simp_all add: assms(2))
  from assms(3)[OF this] show ?thesis
    by (simp add: wp_simps upd_master_def my_master_def linked_table(3)[OF assms(1)])
qed

section \<open>The tree of a core\<close>

primrec chain_tree :: "nat \<Rightarrow> nat \<Rightarrow> ctree" where
  "chain_tree n 0 = CNode (n + 2) [CNode n [], CNode (n + 1) []]"
| "chain_tree n (Suc k) = CNode (n + 3 + k) [chain_tree n k]"

text \<open>The last level of a core with \<open>levels\<close> levels whose first controller is \<open>n\<close>, over its previous levels.\<close>

definition core_tree :: "nat \<Rightarrow> nat \<Rightarrow> ctree" where
  "core_tree n levels = chain_tree n (levels - 2)"

lemma chain_tree_facts:
  "t_cntlr (chain_tree n k) = n + 2 + k" "t_levels (chain_tree n k) = k + 2"
  by (induction k) auto

lemma chain_tree_masters:
  assumes "\<And>j. n \<le> j \<Longrightarrow> j \<le> n + 2 + k \<Longrightarrow> ms j = j"
  shows "set (t_masters ms (chain_tree n k)) = {n..n + 2 + k}" "distinct (t_masters ms (chain_tree n k))"
proof -
  have "set (t_masters ms (chain_tree n k)) = {n..n + 2 + k} \<and> distinct (t_masters ms (chain_tree n k))"
    using assms
  proof (induction k)
    case (Suc k)
    have "{n..n + 2 + Suc k} = insert (n + 3 + k) {n..n + 2 + k}" by auto
    then show ?case using Suc by auto
  qed (auto simp: le_Suc_eq numeral_2_eq_2)
  then show "set (t_masters ms (chain_tree n k)) = {n..n + 2 + k}" "distinct (t_masters ms (chain_tree n k))"
    by simp_all
qed

lemma linked_at:
  assumes "linked cfg core s u" "n = sys_objects s" "n \<le> j" "j \<le> n + cfg_levels cfg"
  shows "level_ok (cfg_block_size cfg) (sys_hier u) j" "m_master (cntlrs (sys_hier u) j) = j"
    "m_next (cntlrs (sys_hier u) j) = chain_next n (cfg_levels cfg - 2) (\<lambda>_. None) j"
    "m_prev_cache_cntlrs (masters (sys_hier u) j) = chain_prev n (cfg_levels cfg - 2) (\<lambda>_. []) j"
proof -
  obtain r where "j = n + r" "r \<le> cfg_levels cfg" using assms(3,4) by (metis le_Suc_ex nat_add_left_cancel_le)
  then show "level_ok (cfg_block_size cfg) (sys_hier u) j" "m_master (cntlrs (sys_hier u) j) = j"
    "m_next (cntlrs (sys_hier u) j) = chain_next n (cfg_levels cfg - 2) (\<lambda>_. None) j"
    "m_prev_cache_cntlrs (masters (sys_hier u) j) = chain_prev n (cfg_levels cfg - 2) (\<lambda>_. []) j"
    using assms(1,2) by (simp_all add: linked_def Let_def)
qed

lemma linked_tree:
  assumes "linked cfg core s u" "n = sys_objects s" "k + 2 \<le> cfg_levels cfg" "{n..n + cfg_levels cfg} \<subseteq> K"
  shows "tree_ok (cfg_block_size cfg) K (sys_hier u) (chain_tree n k)"
  using assms(3)
proof (induction k)
  case 0
  note at = linked_at[OF assms(1,2)]
  have "m_next (cntlrs (sys_hier u) n) = Some (n + 2)" "m_next (cntlrs (sys_hier u) (n + 1)) = Some (n + 2)"
    "m_prev_cache_cntlrs (masters (sys_hier u) n) = []" "m_prev_cache_cntlrs (masters (sys_hier u) (n + 1)) = []"
    "m_prev_cache_cntlrs (masters (sys_hier u) (n + 2)) = [n, n + 1]"
    using 0 by (simp_all add: at(3,4) chain_next_def chain_prev_def)
  moreover have "n + 2 \<in> K" using assms(4) 0 by auto
  moreover have "\<not> m_cache_writethrough (cntlrs (sys_hier u) (n + 2))"
    using at(1)[of "n + 2"] 0 by (simp add: level_ok_def)
  ultimately show ?case using 0 at(1,2) by (simp add: my_master_def next_ok_def)
next
  case (Suc k)
  note at = linked_at[OF assms(1,2)]
  have "m_next (cntlrs (sys_hier u) (n + 2 + k)) = Some (n + 3 + k)"
    "m_prev_cache_cntlrs (masters (sys_hier u) (n + 3 + k)) = [n + 2 + k]"
    using Suc.prems by (simp_all add: at(3,4) chain_next_def chain_prev_def)
  moreover have "n + 3 + k \<in> K" using assms(4) Suc.prems by auto
  moreover have "\<not> m_cache_writethrough (cntlrs (sys_hier u) (n + 3 + k))" "level_ok (cfg_block_size cfg) (sys_hier u) (n + 3 + k)"
    using at(1)[of "n + 3 + k"] Suc.prems by (simp_all add: level_ok_def)
  moreover have "m_master (cntlrs (sys_hier u) (n + 3 + k)) = n + 3 + k" "m_master (cntlrs (sys_hier u) (n + 2 + k)) = n + 2 + k"
    using at(2)[of "n + 3 + k"] at(2)[of "n + 2 + k"] Suc.prems by simp_all
  ultimately show ?case using Suc
    by (simp add: my_master_def next_ok_def chain_tree_facts)
qed

text \<open>The walk to the last level arrives from every controller of the core.\<close>

lemma linked_walk:
  assumes "linked cfg core s u" "n = sys_objects s" "2 \<le> cfg_levels cfg" "n \<le> j" "j \<le> n + cfg_levels cfg"
    and "cfg_levels cfg \<le> fuel"
  shows "walk_last fuel (cntlrs (sys_hier u)) j = Some (n + cfg_levels cfg)"
proof -
  note nx = linked_at(3)[OF assms(1,2)]
  have top: "chain_next n (cfg_levels cfg - 2) (\<lambda>_. None) (n + cfg_levels cfg) = None"
  proof -
    have "\<not> n + cfg_levels cfg < n + 2 + (cfg_levels cfg - 2)" "n + cfg_levels cfg \<noteq> n" "n + cfg_levels cfg \<noteq> n + 1"
      using assms(3) by linarith+
    then show ?thesis unfolding chain_next_def by simp
  qed
  have up: "walk_last fuel (cntlrs (sys_hier u)) j = Some (n + cfg_levels cfg)"
    if "n + 2 \<le> j" "j \<le> n + cfg_levels cfg" "n + cfg_levels cfg < fuel + j" for fuel j
    using that
  proof (induction fuel arbitrary: j)
    case (Suc fuel)
    show ?case
    proof (cases "j = n + cfg_levels cfg")
      case True
      then have "m_next (cntlrs (sys_hier u) j) = None"
        using Suc.prems top by (simp add: nx)
      then show ?thesis using True by simp
    next
      case False
      then show ?thesis using Suc by (simp add: nx chain_next_def)
    qed
  qed simp
  show ?thesis
  proof (cases "n + 2 \<le> j")
    case True
    then show ?thesis using up[of j fuel] assms(5,6) by simp
  next
    case False
    then have "m_next (cntlrs (sys_hier u) j) = Some (n + 2)"
      using assms(3,4) by (simp add: nx chain_next_def) linarith
    moreover obtain f where "fuel = Suc f" using assms(3,6) by (cases fuel) auto
    ultimately show ?thesis using up[of "n + 2" f] assms(3,6) by simp
  qed
qed

section \<open>The whole constructor\<close>

lemma wp_place_memory:
  "wpS (place_memory cfg core dirs) (\<lambda>_ t. sys_hier t = sys_hier s \<and> sys_objects t = sys_objects s \<and>
     (mm_dram_cntlr_present (sys_mm t core) \<longleftrightarrow>
        mm_dram_cntlr_present (sys_mm s core) \<or> core \<in> set (cfg_mem_controllers cfg))) s"
  by (cases "core \<in> set (cfg_mem_controllers cfg)"; cases "core \<in> set dirs")
    (simp_all add: place_memory_def wp_simps)

lemma linked_for_models:
  assumes "linked cfg core s u" "\<And>v. linked cfg core s v \<Longrightarrow> R () v"
  shows "wpS (forS (\<lambda>cid. upd_mm core (\<lambda>mm. mm\<lparr>mm_perf_models := (mm_perf_models mm)(cid := f cid)\<rparr>)) cs) R u"
proof (rule wp_for[where I = "\<lambda>k. linked cfg core s"])
  fix k v assume "linked cfg core s v"
  then show "wpS (upd_mm core (\<lambda>mm. mm\<lparr>mm_perf_models := (mm_perf_models mm)(cs ! k := f (cs ! k))\<rparr>))
      (\<lambda>_. linked cfg core s) v"
    unfolding wp_simps by (rule linked_cong) simp_all
qed (use assms in auto)

lemma linked_finish:
  assumes "linked cfg core s u" "private_cfg cfg core"
    and "ps (last_level (cfg_levels cfg)) = Some llc" "private_cp llc" "ps L1_DCACHE = Some l1d"
    and "\<And>v. linked cfg core s v \<Longrightarrow> R () v"
  shows "wpS (seqS (check_master cfg core) (finish_mm cfg core ps)) R u"
proof -
  have mm: "linked cfg core s v \<Longrightarrow> linked cfg core s (v\<lparr>sys_mm := (sys_mm v)(core := (sys_mm v core)\<lparr>mm_core_id_master := c\<rparr>)\<rparr>)"
    for v c by (rule linked_cong) simp_all
  have calls: "linked cfg core s v \<Longrightarrow> linked cfg core s (v\<lparr>sys_calls := c\<rparr>)" for v c
    by (rule linked_cong) simp_all
  have one: "cp_shared_cores llc = 1" using assms(4) by (simp add: private_cp_def)
  have locks: "wpS (setup_locks cfg core l1d llc) T v" if v: "linked cfg core s v" "\<And>w. linked cfg core s w \<Longrightarrow> T () w" for v T
  proof -
    have direct: "cfg_direct_access cfg \<and> core < cfg_application_cores cfg \<Longrightarrow>
        cfg_application_cores cfg \<le> 1 \<and> mm_dram_cntlr_present (sys_mm v core)"
      using assms(2) v(1) by (simp add: private_cfg_def linked_def Let_def)
    have again: "wpS (onH (setDRAMDirectAccess (sys_objects s + cfg_levels cfg))) T w" if "linked cfg core s w" for w
      unfolding setDRAMDirectAccess_def by (rule linked_upd_master[OF that]) (simp_all add: v(2))
    show ?thesis
      unfolding setup_locks_def wp_with_cntlr[OF linked_table(1)[OF v(1)]] wpS_seq
      by (rule linked_upd_master[OF v(1)]) (use direct again v(2) one in \<open>auto simp: wp_simps createSetLocks_def\<close>)
  qed
  have "wpS (finish_mm cfg core ps) R v" if "linked cfg core s v" for v
    using assms(3,5)
    by (simp add: finish_mm_def param_of_def wp_simps Let_def one) (intro locks mm that, simp add: assms(6) calls)
  then show ?thesis
    using assms(1) linked_table(2)[OF assms(1)]
    by (simp add: check_master_def wp_simps wp_with_cntlr[OF linked_table(1)[OF assms(1)]])
qed

lemma wp_MemoryManager:
  assumes "private_cfg cfg core" "\<And>u. linked cfg core s u \<Longrightarrow> R () u"
  shows "wpS (MemoryManager env cfg core) R s"
proof -
  let ?L = "cfg_levels cfg"
  have L: "2 \<le> ?L" and levels: "list_all (private_level cfg core) (cache_levels ?L)" and key: "\<not> cfg_perfect_llc_key cfg"
    using assms(1) by (simp_all add: private_cfg_def)
  obtain ps where ps: "read_params cfg core = Inr ps"
    "\<And>cid. cid \<in> set (cache_levels ?L) \<Longrightarrow> \<exists>cp. ps cid = Some cp \<and> private_cp cp"
    using read_params_private[OF assms(1)] by blast
  have at: "comp_of_rank (Suc k) \<in> set (cache_levels ?L)" if "k \<le> ?L" for k
    using that cache_levels_nth[of k ?L] nth_mem[of k "cache_levels ?L"] by simp
  obtain llc where llc: "ps (last_level ?L) = Some llc" "private_cp llc"
    using ps(2) at[of ?L] by (auto simp: last_level_def)
  obtain l1d where l1d: "ps L1_DCACHE = Some l1d" using ps(2) at[of 1] L by auto
  obtain dirs where dirs: "place_directories cfg (cp_shared_cores llc) = Inr dirs"
    using place_directories_private[OF assms(1)] llc(2) by (auto simp: private_cp_def)
  have build: "wpS (forS (\<lambda>cid. bindS (param_of ps cid) (build_cntlr env cfg core cid)) (cache_levels ?L)) T t"
    if "built cfg core s 0 t" "\<And>u. built cfg core s (Suc ?L) u \<Longrightarrow> T () u" for T t
  proof (rule wp_for[where I = "built cfg core s"])
    fix k u assume k: "k < length (cache_levels ?L)" and u: "built cfg core s k u"
    then have in_set: "comp_of_rank (Suc k) \<in> set (cache_levels ?L)" using at by simp
    then obtain cp where cp: "ps (comp_of_rank (Suc k)) = Some cp" "private_cp cp" using ps(2) by blast
    have "private_level cfg core (comp_of_rank (Suc k))" using levels in_set by (simp add: list_all_iff)
    then show "wpS (bindS (param_of ps (cache_levels ?L ! k)) (build_cntlr env cfg core (cache_levels ?L ! k)))
        (\<lambda>_. built cfg core s (Suc k)) u"
      using k by (simp add: cache_levels_nth param_of_def cp(1) wp_simps wp_build_cntlr[OF u cp(2) _ key])
  qed (use that in simp_all)
  have rest: "wpS (seqS (link_cntlrs core ?L)
      (seqS (forS (\<lambda>cid. upd_mm core (\<lambda>mm. mm\<lparr>mm_perf_models := (mm_perf_models mm)(cid :=
               Some (lc_data_access_time (cfg_level cfg cid core), lc_tags_access_time (cfg_level cfg cid core)))\<rparr>))
             (cache_levels ?L))
        (seqS (check_master cfg core) (finish_mm cfg core ps)))) R u" if u: "built cfg core s (Suc ?L) u" for u
    unfolding wpS_seq[of "link_cntlrs core ?L"] wpS_seq[of "forS f xs" for f xs]
    by (rule wp_link_cntlrs[OF u L refl], rule linked_for_models[OF linked_after_links[OF u refl L]])
      (rule linked_finish[where ps = ps and llc = llc and l1d = l1d], use assms llc l1d in simp_all)
  let ?s = "s\<lparr>sys_mm := (sys_mm s)(core := new_mm cfg)\<rparr>"
  have start: "built cfg core s 0 t" if "sys_hier t = sys_hier ?s" "sys_objects t = sys_objects ?s"
    "mm_dram_cntlr_present (sys_mm t core) \<longleftrightarrow> mm_dram_cntlr_present (sys_mm ?s core) \<or> core \<in> set (cfg_mem_controllers cfg)" for t
    using that by (simp add: built_def same_below_def new_mm_def)
  have place: "wpS (place_memory cfg core dirs) (\<lambda>_. wpS (seqS (forS (\<lambda>cid. bindS (param_of ps cid)
      (build_cntlr env cfg core cid)) (cache_levels ?L)) (seqS (link_cntlrs core ?L)
      (seqS (forS (\<lambda>cid. upd_mm core (\<lambda>mm. mm\<lparr>mm_perf_models := (mm_perf_models mm)(cid :=
               Some (lc_data_access_time (cfg_level cfg cid core), lc_tags_access_time (cfg_level cfg cid core)))\<rparr>))
             (cache_levels ?L))
        (seqS (check_master cfg core) (finish_mm cfg core ps))))) R) ?s"
    by (rule wp_mono[OF wp_place_memory], unfold wpS_seq[of "forS f xs" for f xs], rule build[OF start]) (use rest in auto)
  show ?thesis
    using place by (simp add: MemoryManager_def wp_simps ps(1) dirs param_of_def llc(1))
qed


definition demo_level :: level_cfg where
  "demo_level = \<lparr>lc_dvfs_domain = ''core'', lc_cache_block_size = 64, lc_cache_size = 32, lc_associativity = 4,
     lc_address_hash = ''mask'', lc_replacement_policy = ''lru2'', lc_perfect = False, lc_coherent = True,
     lc_data_access_time = 4, lc_tags_access_time = 1, lc_writeback_time = 50, lc_read_bandwidth = None,
     lc_writethrough = False, lc_shared_cores = 1, lc_prefetcher = False, lc_outstanding_misses = 10,
     lc_passthrough = False, lc_prefetch_on_prefetch_hit = False, lc_atd_enabled = False\<rparr>"

definition demo_cfg :: "(u64 \<times> cstate, lru2, nat, nat) config" where
  "demo_cfg = \<lparr>cfg_levels = 3, cfg_block_size = 64, cfg_level = (\<lambda>_ _. demo_level), cfg_itlb = False, cfg_dtlb = False,
     cfg_tlb_penalty = 0, cfg_tlb_parallel = False, cfg_smt_cores = 1, cfg_nuca = False, cfg_nuca_size = (\<lambda>_. 0),
     cfg_nuca_associativity = (\<lambda>_. 0), cfg_application_cores = 4, cfg_dir_locations = ''interleaved'',
     cfg_dir_interleaving = 2, cfg_direct_access = False, cfg_dram_cache = (\<lambda>_. False), cfg_mem_controllers = [0],
     cfg_footprint = False, cfg_perfect_llc_key = False, cfg_geometry = (\<lambda>_ _. one_set),
     cfg_policy = (\<lambda>_. lru2_policy plain_api), cfg_repl = (\<lambda>_ cp. new_lru2 (cp_associativity cp)), cfg_faults = True,
     cfg_injector = (\<lambda>_ _. None)\<rparr>"


end
