(* ===== verification/Memory_Messages.thy ===== *)
theory Memory_Messages
  imports Memory_Facts
begin

text \<open>
  Messages of the network: from \<open>handleMsgFromNetwork\<close> through the last level of the receiving core and
  back. A flush request that reaches a node is answered from there, under the lock of the set; a
  message for a directory or a memory controller that the node does not have is not caught by the
  assertions meant for it.
\<close>

section \<open>What the stack lock leaves alone\<close>

text \<open>States that differ in clocks, calls and remembered last levels only.\<close>

definition same_stack :: "('b, 'r, 'p, 'g, 'm) hier \<Rightarrow> ('b, 'r, 'p, 'g, 'm) hier \<Rightarrow> bool" where
  "same_stack s t \<longleftrightarrow> (\<forall>j. (cntlrs t j)\<lparr>m_last_level := None\<rparr> = (cntlrs s j)\<lparr>m_last_level := None\<rparr>) \<and>
     masters t = masters s \<and> h_rg t = h_rg s"

lemma same_stackD:
  assumes "same_stack s t"
  shows "m_cache_block_size (cntlrs t j) = m_cache_block_size (cntlrs s j)" "m_coherent (cntlrs t j) = m_coherent (cntlrs s j)"
    "m_cache_writethrough (cntlrs t j) = m_cache_writethrough (cntlrs s j)" "m_master (cntlrs t j) = m_master (cntlrs s j)"
    "m_next (cntlrs t j) = m_next (cntlrs s j)" "m_core_id (cntlrs t j) = m_core_id (cntlrs s j)"
    "masters t = masters s" "h_rg t = h_rg s"
proof -
  have "(cntlrs t j)\<lparr>m_last_level := None\<rparr> = (cntlrs s j)\<lparr>m_last_level := None\<rparr>"
    using assms by (simp add: same_stack_def)
  then have "f ((cntlrs t j)\<lparr>m_last_level := None\<rparr>) = f ((cntlrs s j)\<lparr>m_last_level := None\<rparr>)" for f :: "cntlr \<Rightarrow> 'x"
    by simp
  note eq = this
  show "m_cache_block_size (cntlrs t j) = m_cache_block_size (cntlrs s j)" using eq[of m_cache_block_size] by simp
  show "m_coherent (cntlrs t j) = m_coherent (cntlrs s j)" using eq[of m_coherent] by simp
  show "m_cache_writethrough (cntlrs t j) = m_cache_writethrough (cntlrs s j)" using eq[of m_cache_writethrough] by simp
  show "m_master (cntlrs t j) = m_master (cntlrs s j)" using eq[of m_master] by simp
  show "m_next (cntlrs t j) = m_next (cntlrs s j)" using eq[of m_next] by simp
  show "m_core_id (cntlrs t j) = m_core_id (cntlrs s j)" using eq[of m_core_id] by simp
  show "masters t = masters s" "h_rg t = h_rg s" using assms by (simp_all add: same_stack_def)
qed

lemma same_stack_tree:
  assumes "same_stack s t" "tree_ok n K s tr"
  shows "tree_ok n K t tr"
proof -
  note d = same_stackD[OF assms(1)]
  have "level_ok n t j = level_ok n s j" "next_ok K t j p = next_ok K s j p" "my_master j t = my_master j s" for j p n
    by (simp_all add: level_ok_def next_ok_def my_master_def d split: option.split)
  note e = this
  show ?thesis using assms(2)
    by (induction tr) (simp add: e d(4))
qed

lemma same_stack_ok:
  assumes "same_stack s t" "stack_ok env itag rp_ok a n s tr"
  shows "stack_ok env itag rp_ok a n t tr" "freshest env a t tr = freshest env a s tr"
    "cstate_at env a t = cstate_at env a s" "masters_of t tr = masters_of s tr"
proof -
  note d = same_stackD[OF assms(1)]
  have v: "views env a t = views env a s" by (simp add: views_def d)
  show "stack_ok env itag rp_ok a n t tr"
    using assms(2) same_stack_tree[OF assms(1)] unfolding stack_ok_def d v by simp
  show "freshest env a t tr = freshest env a s tr" by (simp add: freshest_def d v)
  show "cstate_at env a t = cstate_at env a s" by (simp add: cstate_at_def d fun_eq_iff)
  show "masters_of t tr = masters_of s tr" by (simp add: d)
qed

section \<open>The lock of the last level\<close>

text \<open>A last level can take the lock of the set of an address.\<close>

definition lockable :: "('b, 'p, 'g, 'm) cc_env \<Rightarrow> nat \<Rightarrow> u64 \<Rightarrow> ('b, 'r, 'p, 'g, 'm) hier \<Rightarrow> bool" where
  "lockable env i a s \<longleftrightarrow> m_next (cntlrs s i) = None \<and> m_last_level (cntlrs s i) \<in> {None, Some i} \<and> 0 < e_depth env \<and>
     getSetLock_index a (my_master i s) < m_setlocks (my_master i s)"

lemma wp_last_level_lock:
  assumes "lockable env i a s" "k = m_master (cntlrs s i)" "p = getSetLock_index a (my_master i s)"
    and "\<And>t. same_stack s t \<Longrightarrow> lockable env i a t \<Longrightarrow> clock t = clock s \<Longrightarrow>
      trace t = trace s @ [f k p (m_core_id (cntlrs s i))] \<Longrightarrow> Q () t"
  shows "wpS (set_lock_call env i a f) Q s"
proof -
  let ?t = "s\<lparr>cntlrs := (cntlrs s)(i := (cntlrs s i)\<lparr>m_last_level := Some i\<rparr>),
      trace := trace s @ [f k p (m_core_id (cntlrs s i))]\<rparr>"
  have "same_stack s ?t" by (simp add: same_stack_def)
  moreover have "lockable env i a ?t" using assms(1) by (simp add: lockable_def my_master_def)
  ultimately have Q: "Q () ?t" using assms(4)[of ?t] by simp
  have walk: "walk_last (e_depth env) (cntlrs s) i = Some i"
    using assms(1) by (cases "e_depth env") (simp_all add: lockable_def)
  show ?thesis
  proof (cases "m_last_level (cntlrs s i)")
    case None
    then show ?thesis using Q assms(1-3) walk
      by (simp add: set_lock_call_def lastLevelCache_def wp_simps upd_cntlr_def ext_def my_master_def
          master_getSetLock_def Let_def lockable_def)
  next
    case (Some l)
    then have l: "m_last_level (cntlrs s i) = Some i" using assms(1) by (simp add: lockable_def)
    let ?u = "s\<lparr>trace := trace s @ [f k p (m_core_id (cntlrs s i))]\<rparr>"
    have "same_stack s ?u" "lockable env i a ?u"
      using assms(1) by (simp_all add: same_stack_def lockable_def my_master_def)
    then have "Q () ?u" using assms(4)[of ?u] by simp
    then show ?thesis using assms(1-3) l
      by (simp add: set_lock_call_def lastLevelCache_def wp_simps ext_def my_master_def
          master_getSetLock_def Let_def lockable_def)
  qed
qed

section \<open>A flush request from the network\<close>

lemma wp_flush:
  assumes "stack_ok env itag lru2_ok (msg_address msg) n s tr" "n \<noteq> 0"
    and "cstate_at env (msg_address msg) s (m_master (cntlrs s (t_cntlr tr))) \<noteq> INVALID"
    and "lockable env (t_cntlr tr) (msg_address msg) s"
  shows "wpS (processFlushReqFromDramDirectory env (t_cntlr tr) sender msg) (\<lambda>_ t.
    (\<forall>k\<in>masters_of s tr. cstate_at env (msg_address msg) t k = INVALID) \<and>
    lockable env (t_cntlr tr) (msg_address msg) t \<and>
    m_master (cntlrs t (t_cntlr tr)) = m_master (cntlrs s (t_cntlr tr)) \<and>
    getSetLock_index (msg_address msg) (my_master (t_cntlr tr) t) = getSetLock_index (msg_address msg) (my_master (t_cntlr tr) s) \<and>
    (\<exists>es. trace t = trace s @ es @ [SendMsg (t_cntlr tr)
      (reply_msg msg sender FLUSH_REP (Some (freshest env (msg_address msg) s tr)) n) SIM_THREAD])) s" (is "wpS _ ?Q s")
proof -
  let ?i = "t_cntlr tr" and ?a = "msg_address msg"
  have ms: "m_master (cntlrs s ?i) \<in> masters_of s tr" by (rule root_in_masters)
  have st: "fst (views env ?a s (m_master (cntlrs s ?i))) = cstate_at env ?a s (m_master (cntlrs s ?i))"
    by (simp add: views_def master_view_def cstate_at_def)
  have keep: "lockable env ?i ?a t \<and> m_master (cntlrs t ?i) = m_master (cntlrs s ?i) \<and>
      getSetLock_index ?a (my_master ?i t) = getSetLock_index ?a (my_master ?i s)"
    if c: "(cntlrs t ?i)\<lparr>stats := zero_stats\<rparr> = (cntlrs s ?i)\<lparr>stats := zero_stats\<rparr>"
      and m: "\<And>k. (masters t k)\<lparr>m_cache := m_cache (masters s k)\<rparr> = masters s k" for t
  proof -
    have "f ((cntlrs t ?i)\<lparr>stats := zero_stats\<rparr>) = f ((cntlrs s ?i)\<lparr>stats := zero_stats\<rparr>)" for f :: "cntlr \<Rightarrow> 'x"
      using c by simp
    note f = this[of m_master] this[of m_next] this[of m_last_level]
    have "g ((masters t k)\<lparr>m_cache := m_cache (masters s k)\<rparr>) = g (masters s k)" for g :: "_ \<Rightarrow> 'x" and k
      using m by simp
    note g = this[of m_log_blocksize] this[of m_num_sets] this[of m_setlocks]
    show ?thesis using f g assms(4) by (simp add: lockable_def my_master_def getSetLock_index_def)
  qed
  let ?answer = "answer_request env ?i sender msg ACCESS_CACHE_DATA_AND_TAGS REMOTE_CACHE_WB FLUSH_REP
        (bindS (updateCacheBlock (e_depth env) env ?i ?a INVALID COHERENCY True SIM_THREAD) (\<lambda>(lat, hit, d). retS (Some d)))"
  have red: "wpS (processFlushReqFromDramDirectory env ?i sender msg) Q s = wpS ?answer Q s" for Q
    using assms(3) unfolding processFlushReqFromDramDirectory_def wp_simps
      wp_getCacheState[OF stack_sim[OF assms(1)] ms refl] st by simp
  have "wpS ?answer ?Q s"
  proof (rule wp_mono[OF wp_answer[OF assms(1) _ assms(3,2), where ns = INVALID]])
    fix x t
    assume A: "(\<forall>k\<in>masters_of s tr. cstate_at env ?a t k \<in> {INVALID, INVALID}) \<and>
      (\<forall>j. (cntlrs t j)\<lparr>stats := zero_stats\<rparr> = (cntlrs s j)\<lparr>stats := zero_stats\<rparr>) \<and>
      (\<forall>k. (masters t k)\<lparr>m_cache := m_cache (masters s k)\<rparr> = masters s k) \<and>
      trace t = trace s @ [PerfUpdate (msg_perf msg) (clock s (cntlr.m_core_id (cntlrs s ?i)) SIM_THREAD) PERF_UNKNOWN,
          PerfUpdate (msg_perf msg) (timed env ?i ACCESS_CACHE_DATA_AND_TAGS s) REMOTE_CACHE_WB,
          PerfUpdate (msg_perf msg) (timed env ?i ACCESS_CACHE_DATA_AND_TAGS s) PERF_UNKNOWN,
          SendMsg ?i (reply_msg msg sender FLUSH_REP (Some (freshest env ?a s tr)) n) SIM_THREAD]"
    then show "?Q x t" using keep[of t] by auto
  qed simp
  then show ?thesis unfolding red .
qed

text \<open>
  C5. From the network and back: a flush request that arrives at a core whose last level has the block
  is handled without an error; afterwards no cache of the stack has the block, and the last two things
  that happened are the reply to the directory, with the freshest data, and the release of the lock of
  the block's set, which was taken before.
\<close>

theorem network_flush_answered:
  assumes "mm_cache_cntlrs (sys_mm s core) (last_level (mm_levels (sys_mm s core))) = Some (t_cntlr tr)"
    and "stack_ok (x_cc x) itag lru2_ok (msg_address msg) n (sys_hier s) tr" "n \<noteq> 0"
    and "lockable (x_cc x) (t_cntlr tr) (msg_address msg) (sys_hier s)"
    and "cstate_at (x_cc x) (msg_address msg) (sys_hier s) (m_master (cntlrs (sys_hier s) (t_cntlr tr))) \<noteq> INVALID"
    and "msg_type msg = FLUSH_REQ" "msg_sender_mem_component msg = TAG_DIR"
    and "msg_receiver_mem_component msg = LAST_LEVEL_CACHE" "msg_length msg = 0"
  shows "\<exists>t es. handleMsgFromNetwork x core sender time msg s = Inr ((), t) \<and>
    (\<forall>k\<in>masters_of (sys_hier s) tr. cstate_at (x_cc x) (msg_address msg) (sys_hier t) k = INVALID) \<and>
    (let k = m_master (cntlrs (sys_hier s) (t_cntlr tr));
         p = getSetLock_index (msg_address msg) (my_master (t_cntlr tr) (sys_hier s))
     in trace (sys_hier t) = trace (sys_hier s) @ [LockAcquireExclusive k p] @ es @
          [SendMsg (t_cntlr tr) (reply_msg msg sender FLUSH_REP
             (Some (freshest (x_cc x) (msg_address msg) (sys_hier s) tr)) n) SIM_THREAD, LockReleaseExclusive k p])"
proof -
  let ?env = "x_cc x" and ?i = "t_cntlr tr" and ?a = "msg_address msg" and ?g = "sys_hier s"
  let ?h = "?g\<lparr>clock := (clock ?g)(core := (clock ?g core)(SIM_THREAD := time))\<rparr>"
  let ?k = "m_master (cntlrs ?g ?i)" and ?p = "getSetLock_index ?a (my_master ?i ?g)"
  have h: "same_stack ?g ?h" by (simp add: same_stack_def)
  have lock_h: "lockable ?env ?i ?a ?h" using assms(4) by (simp add: lockable_def my_master_def)
  let ?R = "\<lambda>_ t. (\<forall>k\<in>masters_of ?g tr. cstate_at ?env ?a t k = INVALID) \<and>
      (\<exists>es. trace t = trace ?g @ [LockAcquireExclusive ?k ?p] @ es @ [SendMsg ?i (reply_msg msg sender FLUSH_REP
             (Some (freshest ?env ?a ?g tr)) n) SIM_THREAD, LockReleaseExclusive ?k ?p])"
  have red: "wpS (handleMsgFromDramDirectory (x_turns x) ?env (x_user x) ?i sender msg) Q u =
      wpS (set_lock_call ?env ?i ?a (\<lambda>k n c. LockAcquireExclusive k n))
        (\<lambda>_. wpS (processFlushReqFromDramDirectory ?env ?i sender msg)
        (\<lambda>_. wpS (set_lock_call ?env ?i ?a (\<lambda>k n c. LockReleaseExclusive k n)) Q)) u" for Q u
    using assms(6) by (simp add: handleMsgFromDramDirectory_def acquireStackLock_def releaseStackLock_def
        is_reply_def process_msg_def wp_simps)
  have "wpS (handleMsgFromDramDirectory (x_turns x) ?env (x_user x) ?i sender msg) ?R ?h"
    unfolding red
  proof (rule wp_last_level_lock[OF lock_h refl refl])
    fix u assume u: "same_stack ?h u" "lockable ?env ?i ?a u"
      "trace u = trace ?h @ [LockAcquireExclusive (m_master (cntlrs ?h ?i)) (getSetLock_index ?a (my_master ?i ?h))]"
    note ok = same_stack_ok[OF u(1) same_stack_ok(1)[OF h assms(2)]]
    note d = same_stackD[OF u(1)] same_stack_ok(2-4)[OF h assms(2)]
    have here: "cstate_at ?env ?a u (m_master (cntlrs u ?i)) \<noteq> INVALID"
      using assms(5) by (simp add: ok(3) d)
    show "wpS (processFlushReqFromDramDirectory ?env ?i sender msg)
        (\<lambda>_. wpS (set_lock_call ?env ?i ?a (\<lambda>k n c. LockReleaseExclusive k n)) ?R) u"
    proof (rule wp_mono[OF wp_flush[OF ok(1) assms(3) here u(2)]], elim conjE exE)
      fix v es assume v: "\<forall>k\<in>masters_of u tr. cstate_at ?env ?a v k = INVALID" "lockable ?env ?i ?a v"
        "m_master (cntlrs v ?i) = m_master (cntlrs u ?i)"
        "getSetLock_index ?a (my_master ?i v) = getSetLock_index ?a (my_master ?i u)"
        "trace v = trace u @ es @ [SendMsg ?i (reply_msg msg sender FLUSH_REP (Some (freshest ?env ?a u tr)) n) SIM_THREAD]"
      show "wpS (set_lock_call ?env ?i ?a (\<lambda>k n c. LockReleaseExclusive k n)) ?R v"
      proof (rule wp_last_level_lock[OF v(2) refl refl])
        fix w assume w: "same_stack v w" "trace w = trace v @ [LockReleaseExclusive (m_master (cntlrs v ?i)) (getSetLock_index ?a (my_master ?i v))]"
        have "cstate_at ?env ?a w = cstate_at ?env ?a v" using same_stackD(7)[OF w(1)] by (simp add: cstate_at_def fun_eq_iff)
        moreover have "getSetLock_index ?a (my_master ?i u) = ?p" by (simp add: my_master_def d)
        ultimately show "?R () w"
          using v(1,3-5) w(2) u(3) by (auto simp: ok d my_master_def)
      qed
    qed
  qed
  then have "wpS (handleMsgFromNetwork x core sender time msg) (\<lambda>_ t. ?R () (sys_hier t)) s"
    using assms(1,7-9)
    by (simp add: handleMsgFromNetwork_def dispatch_msg_def set_core_time_def wp_simps wp_with_cntlr Let_def)
  then show ?thesis by (auto simp: wpS_def Let_def)
qed

definition demo_sys_env :: "(u64 \<times> cstate, lru2, nat, nat, unit) sys_env" where
  "demo_sys_env = \<lparr>x_cc = demo_cc_env, x_net = (\<lambda>_ _. retS ()), x_user = (\<lambda>_. retS ()), x_turns = 1,
     x_tlb = (\<lambda>_ _ _ _ _. True), x_footprint = False\<rparr>"

definition demo_node :: mem_manager where
  "demo_node = \<lparr>mm_levels = 2, mm_block_size = 64,
     mm_cache_cntlrs = (\<lambda>c. if c = L1_DCACHE then Some 0 else if c = LX_CACHE 0 then Some 1 else None),
     mm_perf_models = (\<lambda>_. None), mm_itlb = False, mm_dtlb = False, mm_tlb_miss_penalty = 0,
     mm_tlb_miss_parallel = False, mm_tag_directory_present = True, mm_dram_cntlr_present = False,
     mm_directory_cntlr = False, mm_dram_cache = False, mm_enabled = True, mm_core_id_master = 0\<rparr>"

definition demo_system :: "(u64 \<times> cstate, lru2, nat, nat, unit) system" where
  "demo_system = \<lparr>sys_hier = demo_hier, sys_all = (\<lambda>_. None), sys_objects = 2, sys_mm = (\<lambda>_. demo_node),
     sys_cores = (\<lambda>_. \<lparr>core_icache_last_block = - 1, core_instructions = 0, core_instructions_callback = - 1,
       core_hpi_callback = 0, core_hpi_last = 0\<rparr>),
     sys_hpi_global = 0, sys_hpi_global_callback = 0, sys_calls = []\<rparr>"

theorem network_flush_answered_witness:
  "\<exists>t es. handleMsgFromNetwork demo_sys_env 0 7 100 (demo_msg FLUSH_REQ 128 None) demo_system = Inr ((), t) \<and>
    cstate_at demo_cc_env 128 (sys_hier t) 0 = INVALID \<and>
    trace (sys_hier t) = [LockAcquireExclusive 1 0] @ es @ [SendMsg 1 (reply_msg (demo_msg FLUSH_REQ 128 None) 7 FLUSH_REP
      (Some (freshest demo_cc_env 128 demo_hier demo_tree)) 64) SIM_THREAD, LockReleaseExclusive 1 0]"
proof -
  have sel: "x_cc demo_sys_env = demo_cc_env" "sys_hier demo_system = demo_hier" "sys_mm demo_system 0 = demo_node"
    "msg_sender_mem_component (demo_msg FLUSH_REQ 128 None) = TAG_DIR"
    "msg_receiver_mem_component (demo_msg FLUSH_REQ 128 None) = LAST_LEVEL_CACHE"
    "msg_length (demo_msg FLUSH_REQ 128 None) = 0"
    by (simp_all add: demo_sys_env_def demo_system_def demo_msg_def)
  have m: "masters_of demo_hier demo_tree = {0, 1}" "m_master (cntlrs demo_hier 1) = 1" "m_master (cntlrs demo_hier 0) = 0"
    "trace demo_hier = []"
    by (auto simp: demo_hier_def demo_cntlr_def)
  have ok: "stack_ok demo_cc_env (- 1) lru2_ok (msg_address (demo_msg FLUSH_REQ 128 None)) 64 demo_hier demo_tree"
    using demo_stack_ok by simp
  have lock: "lockable demo_cc_env 1 128 demo_hier" "getSetLock_index 128 (my_master 1 demo_hier) = 0"
    by (simp_all add: lockable_def demo_hier_def demo_cntlr_def demo_master_def my_master_def demo_cc_env_def getSetLock_index_def)
  have here: "cstate_at demo_cc_env 128 demo_hier 1 \<noteq> INVALID" by (simp add: demo_state)
  have at: "mm_cache_cntlrs demo_node (last_level (mm_levels demo_node)) = Some (t_cntlr demo_tree)"
    by (simp add: demo_node_def last_level_def numeral_eq_Suc)
  show ?thesis
    using network_flush_answered[of demo_system 0 demo_tree demo_sys_env "- 1" "demo_msg FLUSH_REQ 128 None" 64 7 100]
      at ok lock here m unfolding sel by (simp add: Let_def) blast
qed

section \<open>Receivers that are not there\<close>



end
