(* ===== verification/Probability_Analysis.thy ===== *)
theory Probability_Analysis
  imports Sniper_Prelude Complex_Main
begin

text \<open>
  The offline analysis \<open>src/probability_analysis/run.cpp\<close>. It reads the variables of \<open>approx.log\<close>
  and one table of settings per memory or unit (a row of knobs, a row of the probabilities that an
  operation is correct), tries every combination of settings, and keeps those whose mean probability
  over the variables exceeds the target.

  \<^item> The arithmetic on \<open>double\<close> (type \<open>'d\<close>) and \<open>long double\<close> (type \<open>'l\<close>) is a record of
    operations, \<open>fp\<close>, so that the loops are modelled for any rounding; \<open>exact\<close> is the instance on
    real numbers. The sum of an OpenMP reduction has no fixed order: it is the operation \<open>l_reduce\<close>.
  \<^item> A text file is the list of its tokens between white space. A \<open>stream\<close> reads them with the two
    state bits of an \<open>ifstream\<close>. The conversion of a token is a parameter, and so is the content of
    a local variable no extraction has written (\<open>junk\<close>).
  \<^item> What the program prints on the terminal is left out.
\<close>

section \<open>Arithmetic\<close>

record ('d, 'l) fp =
  d_lit :: "rat \<Rightarrow> 'd"              \<comment> \<open>a literal of type \<open>double\<close>\<close>
  d_max :: 'd                       \<comment> \<open>\<open>DOUBLE_MAX\<close>\<close>
  d_less :: "'d \<Rightarrow> 'd \<Rightarrow> bool"
  d_times :: "'d \<Rightarrow> 'd \<Rightarrow> 'd"
  d_divide :: "'d \<Rightarrow> 'd \<Rightarrow> 'd"
  l_of_d :: "'d \<Rightarrow> 'l"               \<comment> \<open>the conversion to \<open>long double\<close>\<close>
  l_int :: "int \<Rightarrow> 'l"
  l_less :: "'l \<Rightarrow> 'l \<Rightarrow> bool"
  l_times :: "'l \<Rightarrow> 'l \<Rightarrow> 'l"
  l_minus :: "'l \<Rightarrow> 'l \<Rightarrow> 'l"
  l_divide :: "'l \<Rightarrow> 'l \<Rightarrow> 'l"
  powl :: "'l \<Rightarrow> int \<Rightarrow> 'l"
  l_reduce :: "'l list \<Rightarrow> 'l"         \<comment> \<open>\<open>reduction(+:Pmean)\<close>, from 0\<close>

definition exact :: "(real, real) fp" where
  "exact = \<lparr>d_lit = of_rat, d_max = 2 ^ 1024 - 2 ^ 971, d_less = (<), d_times = (*), d_divide = (/),
     l_of_d = (\<lambda>x. x), l_int = of_int, l_less = (<), l_times = (*), l_minus = (-), l_divide = (/),
     powl = power_int, l_reduce = sum_list\<rparr>"

lemma exact_simps [simp]:
  "d_lit exact = of_rat" "d_less exact = (<)" "l_of_d exact = (\<lambda>x. x)" "l_int exact = of_int"
  "l_less exact = (<)" "l_times exact = (*)" "l_minus exact = (-)" "l_divide exact = (/)"
  "powl exact = power_int" "l_reduce exact = sum_list"
  by (simp_all add: exact_def)

section \<open>Formatted input\<close>

record stream =
  tokens :: "string list"
  tail_space :: bool                \<comment> \<open>white space follows the last token\<close>
  eofbit :: bool
  failbit :: bool

definition good :: "stream \<Rightarrow> bool" where
  "good s \<longleftrightarrow> \<not> eofbit s \<and> \<not> failbit s"

definition open_stream :: "string list \<Rightarrow> bool \<Rightarrow> stream" where
  "open_stream ts sp = \<lparr>tokens = ts, tail_space = sp, eofbit = False, failbit = False\<rparr>"

text \<open>\<open>s >> v\<close>, with \<open>v\<close> the variable's value before. A conversion gives whether it succeeds and
  the value it stores. A token that ends at the end of the file sets \<open>eofbit\<close>; no token at all
  leaves the variable as it was.\<close>

definition read_token :: "(string \<Rightarrow> bool \<times> 'a) \<Rightarrow> stream \<Rightarrow> 'a \<Rightarrow> 'a \<times> stream" where
  "read_token conv s v =
     (if \<not> good s then (v, s\<lparr>failbit := True\<rparr>)
      else case tokens s of
        [] \<Rightarrow> (v, s\<lparr>eofbit := True, failbit := True\<rparr>)
      | t # ts \<Rightarrow> (snd (conv t),
          s\<lparr>tokens := ts, eofbit := (ts = [] \<and> \<not> tail_space s), failbit := \<not> fst (conv t)\<rparr>))"

definition stream_left :: "stream \<Rightarrow> nat" where
  "stream_left s = (if good s then Suc (length (tokens s)) else 0)"

lemma token_left: "good s \<Longrightarrow> stream_left (snd (read_token conv s v)) < stream_left s"
  by (auto simp: read_token_def stream_left_def good_def split: list.splits)

lemma token_left_le: "stream_left (snd (read_token conv s v)) \<le> stream_left s"
  by (auto simp: read_token_def stream_left_def good_def split: list.splits)

section \<open>Tables of settings\<close>

record ('d, 'l) apppack =
  appknob :: 'd
  prob :: 'l

record ('d, 'l) numerals =
  conv_u64 :: "string \<Rightarrow> bool \<times> u64"
  conv_int :: "string \<Rightarrow> bool \<times> int"
  conv_d :: "string \<Rightarrow> bool \<times> 'd"
  conv_l :: "string \<Rightarrow> bool \<times> 'l"
  junk_pack :: "nat \<Rightarrow> ('d, 'l) apppack"   \<comment> \<open>the uninitialised \<open>tmp\<close> of an iteration\<close>

function load_loop ::
  "('d, 'l) numerals \<Rightarrow> stream \<Rightarrow> stream \<Rightarrow> ('d, 'l) apppack list \<Rightarrow> ('d, 'l) apppack list" where
  "load_loop cv s1 s2 v =
     (if good s1 \<and> good s2 then
        let tmp = junk_pack cv (length v);
            r1 = read_token (conv_d cv) s1 (appknob tmp);
            r2 = read_token (conv_l cv) s2 (prob tmp)
        in load_loop cv (snd r1) (snd r2) (v @ [\<lparr>appknob = fst r1, prob = fst r2\<rparr>])
      else v)"
  by pat_completeness auto
termination
  by (relation "measure (\<lambda>(cv, s1, s2, v). stream_left s1)") (simp_all add: token_left)

declare load_loop.simps [simp del]

text \<open>A line of a file is its tokens and whether white space ends it. A missing line is empty.\<close>

type_synonym line = "string list \<times> bool"

definition getline :: "nat \<Rightarrow> line list \<Rightarrow> line" where
  "getline n ls = (if n < length ls then ls ! n else ([], False))"

definition load_probvals ::
  "('d, 'l) numerals \<Rightarrow> (string \<Rightarrow> line list option) \<Rightarrow> string \<Rightarrow> ('d, 'l) apppack list result" where
  "load_probvals cv files fname =
     (case files fname of
        None \<Rightarrow> Inl (LogError ''can not open probability file'')
      | Some ls \<Rightarrow>
          (let (t1, sp1) = getline 0 ls; (t2, sp2) = getline 1 ls
           in Inr (load_loop cv (open_stream t1 sp1) (open_stream t2 sp2) [])))"

text \<open>\<open>findlastidx\<close> is not called. It ends without a \<open>return\<close> when no knob exceeds the lifetime.\<close>

fun findlastidx_from :: "('d, 'l) fp \<Rightarrow> nat \<Rightarrow> ('d, 'l) apppack list \<Rightarrow> 'd \<Rightarrow> nat option" where
  "findlastidx_from fl i [] lifetime = None"
| "findlastidx_from fl i (a # A) lifetime =
     (if d_less fl lifetime (appknob a) then Some i else findlastidx_from fl (Suc i) A lifetime)"

definition findlastidx :: "('d, 'l) fp \<Rightarrow> ('d, 'l) apppack list \<Rightarrow> 'd \<Rightarrow> nat option" where
  "findlastidx fl A lifetime = findlastidx_from fl 0 A lifetime"

section \<open>Variables\<close>

record 'd appvar =
  var_addr :: u64
  L1_reads :: int
  L1_writes :: int
  L2_reads :: int
  L2_writes :: int
  maxlifetime :: 'd
  add_cnt :: int
  mul_cnt :: int

definition findRcount :: "'d appvar \<Rightarrow> int \<Rightarrow> string \<Rightarrow> int" where
  "findRcount v cnum clvl =
     (if cnum = 0 \<and> clvl = ''L1-D'' then L1_reads v else if clvl = ''L2'' then L2_reads v else 0)"

definition findWcount :: "'d appvar \<Rightarrow> int \<Rightarrow> string \<Rightarrow> int" where
  "findWcount v cnum clvl =
     (if cnum = 0 \<and> clvl = ''L1-D'' then L1_writes v else if clvl = ''L2'' then L2_writes v else 0)"

definition appcmp :: "'d appvar \<Rightarrow> 'd appvar \<Rightarrow> bool" where
  "appcmp lhs rhs = (var_addr lhs < var_addr rhs)"

text \<open>One line of \<open>approx.log\<close>: \<open>v\<close> holds the locals of the iteration before the extractions. Its
  \<open>maxlifetime\<close> is the lifetime in nanoseconds here, converted to seconds by \<open>settle_var\<close>.\<close>

definition read_var :: "('d, 'l) numerals \<Rightarrow> stream \<Rightarrow> 'd appvar \<Rightarrow> 'd appvar \<times> stream" where
  "read_var cv s v =
     (let (ad, s) = read_token (conv_u64 cv) s (var_addr v);
          (l1r, s) = read_token (conv_int cv) s (L1_reads v);
          (l1w, s) = read_token (conv_int cv) s (L1_writes v);
          (l2r, s) = read_token (conv_int cv) s (L2_reads v);
          (l2w, s) = read_token (conv_int cv) s (L2_writes v);
          (ml, s) = read_token (conv_d cv) s (maxlifetime v);
          (ac, s) = read_token (conv_int cv) s (add_cnt v);
          (mc, s) = read_token (conv_int cv) s (mul_cnt v)
      in (\<lparr>var_addr = ad, L1_reads = l1r, L1_writes = l1w, L2_reads = l2r, L2_writes = l2w,
           maxlifetime = ml, add_cnt = ac, mul_cnt = mc\<rparr>, s))"

definition settle_var :: "('d, 'l) fp \<Rightarrow> 'd appvar \<Rightarrow> 'd appvar" where
  "settle_var fl v = v\<lparr>maxlifetime := d_times fl (maxlifetime v) (d_lit fl (1 / 10 ^ 9))\<rparr>"

lemma token_left_less: "stream_left s < n \<Longrightarrow> stream_left (snd (read_token conv s v)) < n"
  using token_left_le[of conv s v] by simp

lemma read_var_left: "good s \<Longrightarrow> stream_left (snd (read_var cv s v)) < stream_left s"
  by (simp add: read_var_def Let_def case_prod_beta token_left token_left_less)


text \<open>The loop over \<open>approx.log\<close>, with the variables read, the greatest and the least lifetime.\<close>

type_synonym 'd var_log = "'d appvar list \<times> 'd \<times> 'd"

function load_vars ::
  "('d, 'l) fp \<Rightarrow> ('d, 'l) numerals \<Rightarrow> (nat \<Rightarrow> 'd appvar) \<Rightarrow> stream \<Rightarrow> 'd var_log \<Rightarrow> 'd var_log" where
  "load_vars fl cv junk_var s (vs, mx, mn) =
     (if good s then
        let r = read_var cv s (junk_var (length vs));
            v = settle_var fl (fst r);
            mx' = (if d_less fl mx (maxlifetime v) then maxlifetime v else mx);
            mn' = (if d_less fl (maxlifetime v) mn then maxlifetime v else mn)
        in load_vars fl cv junk_var (snd r) (vs @ [v], mx', mn')
      else (vs, mx, mn))"
  by pat_completeness auto
termination
  by (relation "measure (\<lambda>(fl, cv, jv, s, acc). stream_left s)") (simp_all add: read_var_left)

declare load_vars.simps [simp del]

section \<open>The search\<close>

record ('d, 'l) tables =
  sram_read_L1 :: "('d, 'l) apppack list"
  sram_write_L1 :: "('d, 'l) apppack list"
  sram_read_L2 :: "('d, 'l) apppack list"
  sram_write_L2 :: "('d, 'l) apppack list"
  approx_add :: "('d, 'l) apppack list"
  approx_mul :: "('d, 'l) apppack list"
  dram_hold_freq :: "('d, 'l) apppack list"
  dram_hold_time :: "('d, 'l) apppack list"

record idx_pack =
  L1_idx :: nat
  L2_idx :: nat
  add_idx :: nat
  mul_idx :: nat
  dram_idx :: nat

record 'l res_pack =
  res_prob :: 'l
  idxes :: idx_pack

definition new_res_pack :: "'l \<Rightarrow> nat \<Rightarrow> nat \<Rightarrow> nat \<Rightarrow> nat \<Rightarrow> nat \<Rightarrow> 'l res_pack" where
  "new_res_pack a b c d e f =
     \<lparr>res_prob = a, idxes = \<lparr>L1_idx = b, L2_idx = c, add_idx = d, mul_idx = e, dram_idx = f\<rparr>\<rparr>"

definition res_pack_cmp :: "('d, 'l) fp \<Rightarrow> 'l res_pack \<Rightarrow> 'l res_pack \<Rightarrow> bool" where
  "res_pack_cmp fl lhs rhs = l_less fl (res_prob lhs) (res_prob rhs)"

text \<open>\<open>xs.at(i)\<close> throws outside the vector.\<close>

definition vec_at :: "'a list \<Rightarrow> nat \<Rightarrow> 'a result" where
  "vec_at xs i = (if i < length xs then Inr (xs ! i) else Inl OutOfBounds)"

definition prob_at :: "('d, 'l) apppack list \<Rightarrow> nat \<Rightarrow> 'l result" where
  "prob_at xs i = bindE (vec_at xs i) (\<lambda>p. Inr (prob p))"

primrec mapE :: "('a \<Rightarrow> 'b result) \<Rightarrow> 'a list \<Rightarrow> 'b list result" where
  "mapE f [] = Inr []"
| "mapE f (x # xs) = bindE (f x) (\<lambda>y. bindE (mapE f xs) (\<lambda>ys. Inr (y # ys)))"

text \<open>The test at the head of the innermost loop: the settings are tried in this order.\<close>

definition below_target ::
  "('d, 'l) fp \<Rightarrow> ('d, 'l) tables \<Rightarrow> 'l \<Rightarrow> nat \<Rightarrow> nat \<Rightarrow> nat \<Rightarrow> nat \<Rightarrow> nat \<Rightarrow> bool result" where
  "below_target fl T Ptarget i j k l z =
     (let less = (\<lambda>xs n rest. bindE (prob_at xs n)
            (\<lambda>p. if l_less fl p Ptarget then Inr True else rest))
      in less (sram_read_L1 T) i (less (sram_read_L2 T) j (less (approx_add T) k
           (less (approx_mul T) l (less (dram_hold_time T) z (Inr False))))))"

text \<open>\<open>newP\<close>: every access and operation of the variable is correct. The factor of the DRAM is 1.\<close>

definition var_prob ::
  "('d, 'l) fp \<Rightarrow> ('d, 'l) tables \<Rightarrow> nat \<Rightarrow> nat \<Rightarrow> nat \<Rightarrow> nat \<Rightarrow> 'd appvar \<Rightarrow> 'l result" where
  "var_prob fl T i j k l v =
     bindE (prob_at (sram_read_L1 T) i) (\<lambda>r1. bindE (prob_at (sram_write_L1 T) i) (\<lambda>w1.
     bindE (prob_at (sram_read_L2 T) j) (\<lambda>r2. bindE (prob_at (sram_write_L2 T) j) (\<lambda>w2.
     bindE (prob_at (approx_add T) k) (\<lambda>a. bindE (prob_at (approx_mul T) l) (\<lambda>m.
       let P_L1_reads = powl fl r1 (L1_reads v); P_L1_writes = powl fl w1 (L1_writes v);
           P_L2_reads = powl fl r2 (L2_reads v); P_L2_writes = powl fl w2 (L2_writes v);
           P_add_cnt = powl fl a (add_cnt v); P_mul_cnt = powl fl m (mul_cnt v);
           P_dram_hold = l_int fl 1
       in Inr (foldl (l_times fl) P_L1_reads
            [P_L1_writes, P_L2_reads, P_L2_writes, P_add_cnt, P_mul_cnt, P_dram_hold])))))))"

definition mean_prob ::
  "('d, 'l) fp \<Rightarrow> ('d, 'l) tables \<Rightarrow> 'd appvar list \<Rightarrow> nat \<Rightarrow> nat \<Rightarrow> nat \<Rightarrow> nat \<Rightarrow> 'l result" where
  "mean_prob fl T vs i j k l =
     bindE (mapE (var_prob fl T i j k l) vs) (\<lambda>ps.
       let cnter = l_of_d fl (d_lit fl (of_nat (length vs)))
       in Inr (l_divide fl (l_reduce fl ps) cnter))"

text \<open>The innermost loop stops at the first DRAM setting below the target.\<close>

primrec dram_loop ::
  "('d, 'l) fp \<Rightarrow> ('d, 'l) tables \<Rightarrow> 'd appvar list \<Rightarrow> 'l \<Rightarrow> nat \<Rightarrow> nat \<Rightarrow> nat \<Rightarrow> nat \<Rightarrow> nat list \<Rightarrow>
   'l res_pack list \<Rightarrow> 'l res_pack list result" where
  "dram_loop fl T vs Ptarget i j k l [] final_res = Inr final_res"
| "dram_loop fl T vs Ptarget i j k l (z # zs) final_res =
     bindE (below_target fl T Ptarget i j k l z) (\<lambda>b.
       if b then Inr final_res
       else bindE (mean_prob fl T vs i j k l) (\<lambda>Pmean.
         dram_loop fl T vs Ptarget i j k l zs
           (if l_less fl Ptarget Pmean then final_res @ [new_res_pack Pmean i j k l z]
            else final_res)))"

definition search ::
  "('d, 'l) fp \<Rightarrow> ('d, 'l) tables \<Rightarrow> 'd appvar list \<Rightarrow> 'l \<Rightarrow> 'l res_pack list result" where
  "search fl T vs Ptarget =
     foldE (\<lambda>i. foldE (\<lambda>j. foldE (\<lambda>k. foldE (\<lambda>l.
         dram_loop fl T vs Ptarget i j k l [0..<length (dram_hold_time T)])
       [0..<length (approx_mul T)])
       [0..<length (approx_add T)])
       [0..<length (sram_read_L2 T)])
       [0..<length (sram_read_L1 T)] []"

section \<open>The program\<close>

datatype ('d, 'l) out =
    Txt string
  | Num nat
  | Dbl 'd
  | LDbl 'l
  | Tab
  | Endl

definition knob_at :: "('d, 'l) apppack list \<Rightarrow> nat \<Rightarrow> ('d, 'l) out result" where
  "knob_at xs i = bindE (vec_at xs i) (\<lambda>p. Inr (Dbl (appknob p)))"

definition fault_at :: "('d, 'l) fp \<Rightarrow> ('d, 'l) apppack list \<Rightarrow> nat \<Rightarrow> ('d, 'l) out result" where
  "fault_at fl xs i = bindE (prob_at xs i) (\<lambda>p. Inr (LDbl (l_minus fl (l_int fl 1) p)))"

text \<open>A line of fields, a tab between two.\<close>

fun row :: "('d, 'l) out result list \<Rightarrow> ('d, 'l) out result list" where
  "row [] = [Inr Endl]"
| "row [x] = [x, Inr Endl]"
| "row (x # y # xs) = x # Inr Tab # row (y # xs)"

definition write_all :: "('d, 'l) out result list \<Rightarrow> ('d, 'l) out list result" where
  "write_all = mapE (\<lambda>r. r)"

text \<open>One setting of \<open>Candidate_appknobValues.txt\<close> and of \<open>Candidate_faultProbs.txt\<close>. The lines of
  the adder and the multiplier end after a tab: the write probability is missing.\<close>

definition knob_lines :: "('d, 'l) tables \<Rightarrow> idx_pack \<Rightarrow> ('d, 'l) out list result" where
  "knob_lines T ix = write_all
     [Inr (Txt ''l1: ''), knob_at (sram_read_L1 T) (L1_idx ix), Inr Endl,
      Inr (Txt ''l2: ''), knob_at (sram_read_L2 T) (L2_idx ix), Inr Endl,
      Inr (Txt ''add: ''), knob_at (approx_add T) (add_idx ix), Inr Endl,
      Inr (Txt ''mul: ''), knob_at (approx_mul T) (mul_idx ix), Inr Endl,
      Inr (Txt ''dram: ''), knob_at (dram_hold_freq T) (dram_idx ix), Inr Endl]"

definition fault_lines ::
  "('d, 'l) fp \<Rightarrow> ('d, 'l) tables \<Rightarrow> idx_pack \<Rightarrow> ('d, 'l) out list result" where
  "fault_lines fl T ix =
     (let zero = Inr (Txt ''0''); nothing = Inr (Txt [])
      in write_all
        (row [zero, Inr (Txt ''l1''), fault_at fl (sram_read_L1 T) (L1_idx ix), zero,
            fault_at fl (sram_write_L1 T) (L1_idx ix)] @
         row [zero, Inr (Txt ''l2''), fault_at fl (sram_read_L2 T) (L2_idx ix), zero,
            fault_at fl (sram_write_L2 T) (L2_idx ix)] @
         row [zero, Inr (Txt ''add''), fault_at fl (approx_add T) (add_idx ix), zero, nothing] @
         row [zero, Inr (Txt ''mul''), fault_at fl (approx_mul T) (mul_idx ix), zero, nothing] @
         row [zero, Inr (Txt ''dram''), zero, fault_at fl (dram_hold_freq T) (dram_idx ix), zero]))"

text \<open>With no result the first settings are written, in lines that have no core number.\<close>

definition no_result ::
  "('d, 'l) fp \<Rightarrow> ('d, 'l) tables \<Rightarrow> 'd \<Rightarrow> (('d, 'l) out list \<times> ('d, 'l) out list) result" where
  "no_result fl T max_mlifetime =
     (let zero = Inr (Txt ''0'')
      in bindE (write_all
       [Inr (Num 1), Inr Endl,
        Inr (Txt ''l1: ''), knob_at (sram_read_L1 T) 0, Inr Endl,
        Inr (Txt ''l2: ''), knob_at (sram_read_L2 T) 0, Inr Endl,
        Inr (Txt ''add: ''), knob_at (approx_add T) 0, Inr Endl,
        Inr (Txt ''mul: ''), knob_at (approx_mul T) 0, Inr Endl,
        Inr (Txt ''dram: ''),
        if d_less fl max_mlifetime (d_lit fl (64 / 1000)) then Inr (Dbl (d_lit fl (15625 / 1000)))
        else knob_at (dram_hold_freq T) 0, Inr Endl]) (\<lambda>params.
     bindE (write_all ([Inr (Num 1), Inr Endl] @
        row [Inr (Txt ''l1''), fault_at fl (sram_read_L1 T) 0, zero, fault_at fl (sram_write_L1 T) 0] @
        row [Inr (Txt ''l2''), fault_at fl (sram_read_L2 T) 0, zero, fault_at fl (sram_write_L2 T) 0] @
        row [Inr (Txt ''add''), fault_at fl (approx_add T) 0, zero, fault_at fl (approx_add T) 0] @
        row [Inr (Txt ''mul''), fault_at fl (approx_mul T) 0, zero, fault_at fl (approx_mul T) 0] @
        row [Inr (Txt ''dram''), zero, fault_at fl (dram_hold_freq T) 0, zero])) (\<lambda>faults.
       Inr (params, faults))))"

definition all_results ::
  "('d, 'l) fp \<Rightarrow> ('d, 'l) tables \<Rightarrow> 'l res_pack list \<Rightarrow>
   (('d, 'l) out list \<times> ('d, 'l) out list) result" where
  "all_results fl T final_res =
     bindE (mapE (\<lambda>r. knob_lines T (idxes r)) final_res) (\<lambda>params.
     bindE (mapE (\<lambda>r. fault_lines fl T (idxes r)) final_res) (\<lambda>faults.
       let n = [Num (length final_res), Endl] in Inr (n @ concat params, n @ concat faults)))"

text \<open>\<open>dram_hold_time\<close> is the table of the frequencies with the knobs inverted.\<close>

definition load_tables ::
  "('d, 'l) fp \<Rightarrow> ('d, 'l) numerals \<Rightarrow> (string \<Rightarrow> line list option) \<Rightarrow> string \<Rightarrow>
   ('d, 'l) tables result" where
  "load_tables fl cv files exe_dir =
     (let load = (\<lambda>f. load_probvals cv files (exe_dir @ f))
      in bindE (load ''/L1_RP_SRAM_6T_45nm.matrix'') (\<lambda>r1.
         bindE (load ''/L1_WP_SRAM_6T_45nm.matrix'') (\<lambda>w1.
         bindE (load ''/L2_RP_SRAM_6T_45nm.matrix'') (\<lambda>r2.
         bindE (load ''/L2_WP_SRAM_6T_45nm.matrix'') (\<lambda>w2.
         bindE (load ''/APPROX_ADD.matrix'') (\<lambda>a.
         bindE (load ''/APPROX_MUL.matrix'') (\<lambda>m.
         bindE (load ''/DRAM_Flikker.matrix'') (\<lambda>d.
           Inr \<lparr>sram_read_L1 = r1, sram_write_L1 = w1, sram_read_L2 = r2, sram_write_L2 = w2,
             approx_add = a, approx_mul = m, dram_hold_freq = d,
             dram_hold_time = map (\<lambda>p. p\<lparr>appknob := d_divide fl (d_lit fl 1) (appknob p)\<rparr>) d\<rparr>))))))))"

text \<open>\<open>approx.log\<close>: its first line, whether that line is ended, and the rest. \<open>getline(titles, 256)\<close>
  fails on a longer line and reaches the end of the file on an unfinished one.\<close>

record log_file =
  title :: string
  title_ended :: bool
  body :: "string list"
  body_space :: bool

definition skip_title :: "log_file \<Rightarrow> stream" where
  "skip_title f = \<lparr>tokens = body f, tail_space = body_space f,
     eofbit = \<not> title_ended f, failbit = (length (title f) > 255 \<or> title f = [] \<and> \<not> title_ended f)\<rparr>"

text \<open>The exit code of \<open>main\<close> and the two files it writes, when it gets that far. The target is
  the value of \<open>atof\<close> on the first argument.\<close>

definition analysis_main ::
  "('d, 'l) fp \<Rightarrow> ('d, 'l) numerals \<Rightarrow> (nat \<Rightarrow> 'd appvar) \<Rightarrow> (string \<Rightarrow> log_file option) \<Rightarrow>
   (string \<Rightarrow> line list option) \<Rightarrow> string \<Rightarrow> (string \<Rightarrow> 'd) \<Rightarrow> string list \<Rightarrow>
   (int \<times> (('d, 'l) out list \<times> ('d, 'l) out list) option) result" where
  "analysis_main fl cv junk_var logs files exe_dir atof argv =
     (if length argv < 3 then Inr (- 1, None)
      else let Ptarget = l_of_d fl (atof (argv ! 1))
      in case logs (argv ! 2) of
        None \<Rightarrow> Inr (- 1, None)
      | Some f \<Rightarrow>
          (let (vs, max_mlifetime, min_mlifetime) =
             load_vars fl cv junk_var (skip_title f) ([], d_lit fl (- 1), d_max fl)
           in bindE (load_tables fl cv files exe_dir) (\<lambda>T.
              bindE (search fl T vs Ptarget) (\<lambda>final_res.
              bindE (if final_res = [] then no_result fl T max_mlifetime
                     else all_results fl T final_res) (\<lambda>out. Inr (0, Some out))))))"


section \<open>Reading a table\<close>

lemma read_token_Cons:
  assumes "fst (conv t)"
  shows "read_token conv (open_stream (t # ts) sp) v =
    (snd (conv t), if ts = [] \<and> \<not> sp then (open_stream [] sp)\<lparr>eofbit := True\<rparr> else open_stream ts sp)"
  using assms by (simp add: read_token_def open_stream_def good_def)

lemma good_simps [simp]:
  "good (open_stream ts sp)" "\<not> good ((open_stream ts sp)\<lparr>eofbit := True\<rparr>)"
  by (simp_all add: good_def open_stream_def)

lemma load_loop_end: "\<not> (good s1 \<and> good s2) \<Longrightarrow> load_loop cv s1 s2 v = v"
  by (subst load_loop.simps) auto

lemma load_loop_empty:
  "load_loop cv (open_stream [] sp1) (open_stream [] sp2) v = v @ [junk_pack cv (length v)]"
  by (subst load_loop.simps) (simp add: read_token_def load_loop_end Let_def,
      simp add: open_stream_def good_def load_loop_end)

definition table_row :: "('d, 'l) numerals \<Rightarrow> string \<Rightarrow> string \<Rightarrow> ('d, 'l) apppack" where
  "table_row cv k p = \<lparr>appknob = snd (conv_d cv k), prob = snd (conv_l cv p)\<rparr>"

lemma load_loop_rows:
  assumes "length ks = length ps" "ks \<noteq> []"
    and "\<forall>k\<in>set ks. fst (conv_d cv k)" "\<forall>p\<in>set ps. fst (conv_l cv p)"
  shows "load_loop cv (open_stream ks sp1) (open_stream ps sp2) v =
    v @ map2 (table_row cv) ks ps @
      (if sp1 \<and> sp2 then [junk_pack cv (length v + length ks)] else [])"
  using assms
proof (induction ks ps arbitrary: v rule: list_induct2)
  case (Cons k ks p ps)
  have step: "load_loop cv (open_stream (k # ks) sp1) (open_stream (p # ps) sp2) v =
    load_loop cv (snd (read_token (conv_d cv) (open_stream (k # ks) sp1) (appknob (junk_pack cv (length v)))))
      (snd (read_token (conv_l cv) (open_stream (p # ps) sp2) (prob (junk_pack cv (length v)))))
      (v @ [table_row cv k p])"
    using Cons.prems by (subst load_loop.simps) (simp add: read_token_Cons table_row_def Let_def)
  show ?case
  proof (cases "ks = []")
    case True
    moreover have "ps = []" using True Cons.hyps by simp
    ultimately show ?thesis unfolding step using Cons.prems
      by (simp add: read_token_Cons load_loop_end load_loop_empty)
  next
    case False
    moreover have "ps \<noteq> []" using False Cons.hyps by auto
    ultimately show ?thesis unfolding step using Cons.IH[of "v @ [table_row cv k p]"] Cons.prems
      by (simp add: read_token_Cons)
  qed
qed simp

text \<open>A table has one setting for each column of its file, and one more, whose knob and probability
  are uninitialised memory, when both lines end in white space: the loop tests the streams before it
  reads from them. A file that does not open stops the program.
\<close>

lemma load_probvals_columns:
  assumes "files f = Some ((ks, sp1) # (ps, sp2) # rest)" and "files g = None"
    and "length ks = length ps" "ks \<noteq> []"
    and "\<forall>k\<in>set ks. fst (conv_d cv k)" "\<forall>p\<in>set ps. fst (conv_l cv p)"
  shows "load_probvals cv files f = Inr (map2 (table_row cv) ks ps @
      (if sp1 \<and> sp2 then [junk_pack cv (length ks)] else [])) \<and>
    load_probvals cv files g = Inl (LogError ''can not open probability file'')"
  using assms by (simp add: load_probvals_def getline_def load_loop_rows)

section \<open>What the search finds\<close>

text \<open>The values on valid indices, without the bounds checks.\<close>

definition too_low :: "('d, 'l) fp \<Rightarrow> ('d, 'l) tables \<Rightarrow> 'l \<Rightarrow> idx_pack \<Rightarrow> bool" where
  "too_low fl T Ptarget ix \<longleftrightarrow> (\<exists>p \<in> {sram_read_L1 T ! L1_idx ix, sram_read_L2 T ! L2_idx ix,
     approx_add T ! add_idx ix, approx_mul T ! mul_idx ix, dram_hold_time T ! dram_idx ix}.
     l_less fl (prob p) Ptarget)"

definition success :: "('d, 'l) fp \<Rightarrow> ('d, 'l) tables \<Rightarrow> idx_pack \<Rightarrow> 'd appvar \<Rightarrow> 'l" where
  "success fl T ix v = foldl (l_times fl) (powl fl (prob (sram_read_L1 T ! L1_idx ix)) (L1_reads v))
     [powl fl (prob (sram_write_L1 T ! L1_idx ix)) (L1_writes v),
      powl fl (prob (sram_read_L2 T ! L2_idx ix)) (L2_reads v),
      powl fl (prob (sram_write_L2 T ! L2_idx ix)) (L2_writes v),
      powl fl (prob (approx_add T ! add_idx ix)) (add_cnt v),
      powl fl (prob (approx_mul T ! mul_idx ix)) (mul_cnt v), l_int fl 1]"

definition mean_success :: "('d, 'l) fp \<Rightarrow> ('d, 'l) tables \<Rightarrow> 'd appvar list \<Rightarrow> idx_pack \<Rightarrow> 'l" where
  "mean_success fl T vs ix = l_divide fl (l_reduce fl (map (success fl T ix) vs))
     (l_of_d fl (d_lit fl (of_nat (length vs))))"

definition in_tables :: "('d, 'l) tables \<Rightarrow> idx_pack \<Rightarrow> bool" where
  "in_tables T ix \<longleftrightarrow> L1_idx ix < length (sram_read_L1 T) \<and> L2_idx ix < length (sram_read_L2 T) \<and>
     add_idx ix < length (approx_add T) \<and> mul_idx ix < length (approx_mul T) \<and>
     dram_idx ix < length (dram_hold_time T)"

text \<open>The write tables are read at the indices of the read tables.\<close>

definition tables_fit :: "('d, 'l) tables \<Rightarrow> bool" where
  "tables_fit T \<longleftrightarrow> length (sram_read_L1 T) \<le> length (sram_write_L1 T) \<and>
     length (sram_read_L2 T) \<le> length (sram_write_L2 T)"

definition setting :: "nat \<Rightarrow> nat \<Rightarrow> nat \<Rightarrow> nat \<Rightarrow> nat \<Rightarrow> idx_pack" where
  "setting i j k l z = \<lparr>L1_idx = i, L2_idx = j, add_idx = k, mul_idx = l, dram_idx = z\<rparr>"

lemma setting_simps [simp]:
  "L1_idx (setting i j k l z) = i" "L2_idx (setting i j k l z) = j" "add_idx (setting i j k l z) = k"
  "mul_idx (setting i j k l z) = l" "dram_idx (setting i j k l z) = z"
  "(setting i j k l z)\<lparr>dram_idx := z'\<rparr> = setting i j k l z'"
  by (simp_all add: setting_def)

lemma setting_cases: obtains i j k l z where "ix = setting i j k l z"
  by (cases ix) (auto simp: setting_def)

text \<open>All settings of the memories and units, in the order of the loops: for each choice of the
  first four, the DRAM settings before the first that is too low.\<close>

definition tried :: "('d, 'l) fp \<Rightarrow> ('d, 'l) tables \<Rightarrow> 'l \<Rightarrow> idx_pack list" where
  "tried fl T Ptarget =
     concat (map (\<lambda>i. concat (map (\<lambda>j. concat (map (\<lambda>k. concat (map (\<lambda>l.
         takeWhile (\<lambda>ix. \<not> too_low fl T Ptarget ix)
           (map (setting i j k l) [0..<length (dram_hold_time T)]))
       [0..<length (approx_mul T)]))
       [0..<length (approx_add T)]))
       [0..<length (sram_read_L2 T)]))
       [0..<length (sram_read_L1 T)])"


lemma mapE_ok: "(\<And>x. x \<in> set xs \<Longrightarrow> f x = Inr (g x)) \<Longrightarrow> mapE f xs = Inr (map g xs)"
  by (induction xs) auto

lemma prob_at_ok: "n < length xs \<Longrightarrow> prob_at xs n = Inr (prob (xs ! n))"
  by (simp add: prob_at_def vec_at_def)

lemma below_target_ok:
  "in_tables T (setting i j k l z) \<Longrightarrow>
   below_target fl T P i j k l z = Inr (too_low fl T P (setting i j k l z))"
  by (simp add: below_target_def in_tables_def too_low_def prob_at_ok Let_def)

lemma mean_prob_ok:
  assumes "in_tables T (setting i j k l z)" "tables_fit T"
  shows "mean_prob fl T vs i j k l = Inr (mean_success fl T vs (setting i j k l z))"
proof -
  have "mapE (var_prob fl T i j k l) vs = Inr (map (success fl T (setting i j k l z)) vs)"
    using assms by (intro mapE_ok)
      (simp add: var_prob_def success_def in_tables_def tables_fit_def prob_at_ok)
  then show ?thesis by (simp add: mean_prob_def mean_success_def Let_def)
qed

text \<open>The results a list of settings gives.\<close>

definition found ::
  "('d, 'l) fp \<Rightarrow> ('d, 'l) tables \<Rightarrow> 'd appvar list \<Rightarrow> 'l \<Rightarrow> idx_pack list \<Rightarrow> 'l res_pack list" where
  "found fl T vs P ixs = map (\<lambda>ix. \<lparr>res_prob = mean_success fl T vs ix, idxes = ix\<rparr>)
     (filter (\<lambda>ix. l_less fl P (mean_success fl T vs ix)) ixs)"

lemma found_simps [simp]: "found fl T vs P [] = []"
  "found fl T vs P (ix # ixs) = (if l_less fl P (mean_success fl T vs ix)
     then [\<lparr>res_prob = mean_success fl T vs ix, idxes = ix\<rparr>] else []) @ found fl T vs P ixs"
  by (simp_all add: found_def)

lemma dram_loop_ok:
  assumes "tables_fit T" "\<And>z. z \<in> set zs \<Longrightarrow> in_tables T (setting i j k l z)"
  shows "dram_loop fl T vs P i j k l zs res =
    Inr (res @ found fl T vs P (takeWhile (\<lambda>ix. \<not> too_low fl T P ix) (map (setting i j k l) zs)))"
  using assms(2)
proof (induction zs arbitrary: res)
  case (Cons z zs)
  then have z: "in_tables T (setting i j k l z)" by simp
  show ?case
    using Cons.IH[OF Cons.prems, simplified] mean_prob_ok[OF z assms(1), of fl vs]
    by (simp add: below_target_ok[OF z])
      (simp add: setting_def new_res_pack_def)
qed simp

lemma foldE_found:
  "(\<And>x r. x \<in> set xs \<Longrightarrow> f x r = Inr (r @ found fl T vs P (g x))) \<Longrightarrow>
   foldE f xs r = Inr (r @ found fl T vs P (concat (map g xs)))"
  by (induction xs arbitrary: r) (auto simp: found_def)

lemma search_finds_all:
  assumes "tables_fit T"
  shows "search fl T vs Ptarget = Inr (found fl T vs Ptarget (tried fl T Ptarget))"
proof -
  have "search fl T vs Ptarget = Inr ([] @ found fl T vs Ptarget (tried fl T Ptarget))"
    unfolding search_def tried_def
    by (intro foldE_found dram_loop_ok[OF assms]) (simp add: in_tables_def)
  then show ?thesis by simp
qed

text \<open>
  C16. The five nested loops with their \<open>break\<close> compute, for any arithmetic, the settings tried whose
  mean probability exceeds the target, in the order of the loops and each with its mean. The bounds
  checks never fail when the write tables are as long as the read tables.
\<close>

theorem search_finds:
  assumes "tables_fit T"
  shows "search fl T vs Ptarget = Inr (found fl T vs Ptarget (tried fl T Ptarget))"
  by (rule search_finds_all[OF assms])

definition demo_tables :: "(real, real) tables" where
  "demo_tables =
     (let t = map (\<lambda>p. \<lparr>appknob = 1, prob = p\<rparr>)
      in \<lparr>sram_read_L1 = t [1, 9 / 10], sram_write_L1 = t [1, 1], sram_read_L2 = t [1],
          sram_write_L2 = t [1], approx_add = t [1], approx_mul = t [1, 3 / 4],
          dram_hold_freq = t [1, 1 / 4], dram_hold_time = t [1, 1 / 4]\<rparr>)"

definition demo_var :: "real appvar" where
  "demo_var = \<lparr>var_addr = 4096, L1_reads = 2, L1_writes = 1, L2_reads = 1, L2_writes = 0,
     maxlifetime = 0, add_cnt = 1, mul_cnt = 2\<rparr>"

lemma demo_means:
  "mean_success exact demo_tables [demo_var] (setting 0 0 0 0 0) = 1"
  "mean_success exact demo_tables [demo_var] (setting 0 0 0 (Suc 0) 0) = 9 / 16"
  "mean_success exact demo_tables [demo_var] (setting (Suc 0) 0 0 0 0) = 81 / 100"
  "mean_success exact demo_tables [demo_var] (setting (Suc 0) 0 0 (Suc 0) 0) = 729 / 1600"
  by (simp_all add: mean_success_def success_def demo_tables_def demo_var_def power2_eq_square Let_def)

theorem search_finds_witness:
  "search exact demo_tables [demo_var] (1 / 2) = Inr
     [new_res_pack 1 0 0 0 0 0, new_res_pack (9 / 16) 0 0 0 1 0, new_res_pack (81 / 100) 1 0 0 0 0]"
proof -
  have "tables_fit demo_tables" by (simp add: tables_fit_def demo_tables_def Let_def)
  moreover have "tried exact demo_tables (1 / 2) =
      [setting 0 0 0 0 0, setting 0 0 0 1 0, setting 1 0 0 0 0, setting 1 0 0 1 0]"
    by (simp add: tried_def demo_tables_def Let_def too_low_def)
  ultimately show ?thesis
    using search_finds[of demo_tables exact "[demo_var]" "1 / 2"]
    by (simp add: demo_means new_res_pack_def setting_def[symmetric])
qed

definition demo_numerals :: "(real, real) numerals" where
  "demo_numerals = \<lparr>conv_u64 = \<lambda>t. (True, 0), conv_int = \<lambda>t. (True, 0),
     conv_d = \<lambda>t. (True, of_nat (length t)), conv_l = \<lambda>t. (True, of_nat (length t)),
     junk_pack = \<lambda>n. \<lparr>appknob = - 1, prob = - 1\<rparr>\<rparr>"

definition demo_files :: "string \<Rightarrow> line list option" where
  "demo_files f = (if f = ''APPROX_MUL.matrix''
     then Some [([''0'', ''1'', ''2''], True), ([''1'', ''0.999979'', ''0.998''], True)] else None)"

lemma load_probvals_columns_witness:
  "load_probvals demo_numerals demo_files ''APPROX_MUL.matrix'' =
     Inr (map (\<lambda>(k, p). \<lparr>appknob = k, prob = p\<rparr>) [(1, 1), (1, 8), (1, 5), (- 1, - 1)]) \<and>
   load_probvals demo_numerals demo_files ''L1'' = Inl (LogError ''can not open probability file'')"
proof -
  have "demo_files ''APPROX_MUL.matrix'' =
      Some (([''0'', ''1'', ''2''], True) # ([''1'', ''0.999979'', ''0.998''], True) # [])"
    and "demo_files ''L1'' = None"
    by (simp_all add: demo_files_def)
  from load_probvals_columns[OF this, of demo_numerals] show ?thesis
    by (simp add: demo_numerals_def table_row_def)
qed

section \<open>Pruning\<close>

text \<open>On exact numbers, the order of the loops and their \<open>break\<close> matter only through the DRAM.\<close>

lemma le_power_int: "0 \<le> p \<Longrightarrow> p \<le> 1 \<Longrightarrow> 1 \<le> n \<Longrightarrow> power_int p n \<le> (p :: real)"
  using power_int_decreasing[of 1 n p] by simp

lemma power_int_bounds: "0 \<le> p \<Longrightarrow> p \<le> 1 \<Longrightarrow> 0 \<le> n \<Longrightarrow> 0 \<le> power_int p n \<and> power_int p n \<le> (1 :: real)"
  by (auto simp: power_int_def power_le_one)

text \<open>Every table holds probabilities, and every variable is read from both caches and is an
  operand of both units.\<close>

definition probabilities :: "(real, real) tables \<Rightarrow> bool" where
  "probabilities T \<longleftrightarrow> (\<forall>p \<in> set (sram_read_L1 T) \<union> set (sram_write_L1 T) \<union> set (sram_read_L2 T) \<union>
     set (sram_write_L2 T) \<union> set (approx_add T) \<union> set (approx_mul T). 0 \<le> prob p \<and> prob p \<le> 1)"

definition fully_used :: "real appvar \<Rightarrow> bool" where
  "fully_used v \<longleftrightarrow> 1 \<le> L1_reads v \<and> 0 \<le> L1_writes v \<and> 1 \<le> L2_reads v \<and> 0 \<le> L2_writes v \<and>
     1 \<le> add_cnt v \<and> 1 \<le> mul_cnt v"

lemma foldl_mult_le:
  fixes x :: real
  assumes "0 \<le> x" "x \<le> 1" "\<forall>y\<in>set ys. 0 \<le> y \<and> y \<le> 1" "y \<in> insert x (set ys)"
  shows "foldl (*) x ys \<le> y"
  using assms
proof (induction ys arbitrary: x y)
  case (Cons a ys)
  have xa: "0 \<le> x * a" "x * a \<le> 1" "x * a \<le> x" "x * a \<le> a"
    using Cons.prems by (simp_all add: mult_left_le mult_left_le_one_le mult_le_one)
  show ?case
  proof (cases "y \<in> set ys")
    case True
    then show ?thesis using Cons.IH[of "x * a" y] xa Cons.prems by simp
  next
    case False
    then have "x * a \<le> y" using Cons.prems(4) xa by auto
    then show ?thesis using Cons.IH[of "x * a" "x * a"] xa Cons.prems(3) by simp
  qed
qed simp

lemma success_le:
  assumes T: "probabilities T" "tables_fit T" "in_tables T ix" and v: "fully_used v"
    and p: "p \<in> {sram_read_L1 T ! L1_idx ix, sram_read_L2 T ! L2_idx ix,
      approx_add T ! add_idx ix, approx_mul T ! mul_idx ix}"
  shows "success exact T ix v \<le> prob p"
proof -
  have b: "0 \<le> prob (xs ! n)" "prob (xs ! n) \<le> 1"
    if "xs \<in> {sram_read_L1 T, sram_write_L1 T, sram_read_L2 T, sram_write_L2 T, approx_add T,
      approx_mul T}" "n < length xs" for xs n
    using T(1) that by (auto simp: probabilities_def)
  note factor = power_int_bounds[OF b]
  have len: "L1_idx ix < length (sram_read_L1 T)" "L1_idx ix < length (sram_write_L1 T)"
    "L2_idx ix < length (sram_read_L2 T)" "L2_idx ix < length (sram_write_L2 T)"
    "add_idx ix < length (approx_add T)" "mul_idx ix < length (approx_mul T)"
    using T(2,3) by (auto simp: tables_fit_def in_tables_def)
  have le: "success exact T ix v \<le> power_int (prob p) n" if
    "(p, n) \<in> {(sram_read_L1 T ! L1_idx ix, L1_reads v), (sram_read_L2 T ! L2_idx ix, L2_reads v),
      (approx_add T ! add_idx ix, add_cnt v), (approx_mul T ! mul_idx ix, mul_cnt v)}" for n
    unfolding success_def exact_simps
    by (rule foldl_mult_le) (use that len v in \<open>auto simp: factor fully_used_def\<close>)
  obtain n where n: "1 \<le> n" "(p, n) \<in> {(sram_read_L1 T ! L1_idx ix, L1_reads v),
      (sram_read_L2 T ! L2_idx ix, L2_reads v), (approx_add T ! add_idx ix, add_cnt v),
      (approx_mul T ! mul_idx ix, mul_cnt v)}"
    using p v by (auto simp: fully_used_def)
  have "0 \<le> prob p" "prob p \<le> 1" using p len b by auto
  then show ?thesis using le[OF n(2)] le_power_int[OF _ _ n(1)] by (meson order_trans)
qed

lemma mean_le:
  assumes "vs \<noteq> []" "\<forall>v\<in>set vs. f v \<le> (b :: real)"
  shows "sum_list (map f vs) / of_nat (length vs) \<le> b"
proof -
  have "sum_list (map f vs) \<le> of_nat (length vs) * b"
    using assms(2) by (induction vs) (auto simp: algebra_simps)
  then show ?thesis using assms(1) by (simp add: divide_le_eq mult.commute)
qed

lemma set_takeWhile_map_upt:
  "x \<in> set (takeWhile P (map f [0..<n])) \<longleftrightarrow> (\<exists>z<n. x = f z \<and> (\<forall>y\<le>z. P (f y)))"
proof (induction n)
  case (Suc n)
  show ?case
  proof (cases "\<forall>y<n. P (f y)")
    case True
    then have "takeWhile P (map f [0..<Suc n]) = map f [0..<n] @ takeWhile P [f n]"
      by (simp add: takeWhile_append)
    then show ?thesis using True by (auto simp: less_Suc_eq le_less)
  next
    case False
    then have "takeWhile P (map f [0..<Suc n]) = takeWhile P (map f [0..<n])"
      by (auto simp: takeWhile_append)
    then show ?thesis using False by (auto simp: Suc less_Suc_eq)
  qed
qed simp

lemma set_tried:
  "ix \<in> set (tried fl T P) \<longleftrightarrow>
   in_tables T ix \<and> (\<forall>z\<le>dram_idx ix. \<not> too_low fl T P (ix\<lparr>dram_idx := z\<rparr>))"
proof (cases ix rule: setting_cases)
  case (1 i j k l z)
  then show ?thesis
    by (auto simp: tried_def set_takeWhile_map_upt in_tables_def setting_def)
qed

text \<open>
  C17. On exact numbers the search loses nothing by skipping a cache, adder or multiplier setting below
  the target, provided every variable is read from both caches and is an operand of both units: a
  setting is kept exactly if its mean exceeds the target and no DRAM setting up to its own is below
  the target. The DRAM settings have no influence on the mean.
\<close>

theorem pruning_is_sound:
  assumes "tables_fit T" "probabilities T" "vs \<noteq> []" "\<forall>v\<in>set vs. fully_used v"
  shows "\<exists>res. search exact T vs Ptarget = Inr res \<and>
    (\<forall>ix. (\<exists>r\<in>set res. idxes r = ix) \<longleftrightarrow> in_tables T ix \<and> Ptarget < mean_success exact T vs ix \<and>
      (\<forall>z\<le>dram_idx ix. Ptarget \<le> prob (dram_hold_time T ! z)))"
proof (intro exI conjI allI)
  show "search exact T vs Ptarget = Inr (found exact T vs Ptarget (tried exact T Ptarget))"
    by (rule search_finds_all[OF assms(1)])
  fix ix
  have "Ptarget \<le> prob p" if "in_tables T ix" "Ptarget < mean_success exact T vs ix"
    "p \<in> {sram_read_L1 T ! L1_idx ix, sram_read_L2 T ! L2_idx ix,
      approx_add T ! add_idx ix, approx_mul T ! mul_idx ix}" for p
  proof -
    have "mean_success exact T vs ix \<le> prob p"
      using mean_le[OF assms(3), of "success exact T ix" "prob p"]
        success_le[OF assms(2,1) that(1) _ that(3)] assms(4)
      by (simp add: mean_success_def)
    then show ?thesis using that(2) by simp
  qed
  then show "(\<exists>r\<in>set (found exact T vs Ptarget (tried exact T Ptarget)). idxes r = ix) \<longleftrightarrow>
    in_tables T ix \<and> Ptarget < mean_success exact T vs ix \<and>
    (\<forall>z\<le>dram_idx ix. Ptarget \<le> prob (dram_hold_time T ! z))"
    by (auto simp: found_def set_tried too_low_def not_less)
qed


theorem pruning_is_sound_witness:
  "\<exists>res. search exact demo_tables [demo_var] (1 / 2) = Inr res \<and>
    (\<exists>r\<in>set res. idxes r = setting 1 0 0 0 0) \<and> \<not> (\<exists>r\<in>set res. idxes r = setting 1 0 0 1 0)"
proof -
  have "tables_fit demo_tables" "probabilities demo_tables" "\<forall>v\<in>set [demo_var]. fully_used v"
    by (simp_all add: tables_fit_def probabilities_def fully_used_def demo_tables_def demo_var_def Let_def)
  from pruning_is_sound[OF this(1,2) _ this(3), of "1 / 2"]
  obtain res where res: "search exact demo_tables [demo_var] (1 / 2) = Inr res"
    "\<And>ix. (\<exists>r\<in>set res. idxes r = ix) \<longleftrightarrow>
      in_tables demo_tables ix \<and> 1 / 2 < mean_success exact demo_tables [demo_var] ix \<and>
      (\<forall>z\<le>dram_idx ix. 1 / 2 \<le> prob (dram_hold_time demo_tables ! z))"
    by auto
  have "in_tables demo_tables (setting 1 0 0 0 0)" "prob (dram_hold_time demo_tables ! 0) = 1"
    by (simp_all add: in_tables_def demo_tables_def Let_def)
  then have "\<exists>r\<in>set res. idxes r = setting 1 0 0 0 0"
    using res(2)[of "setting 1 0 0 0 0"] by (simp add: demo_means)
  moreover have "\<not> (\<exists>r\<in>set res. idxes r = setting 1 0 0 1 0)"
    using res(2)[of "setting 1 0 0 1 0"] by (simp add: demo_means)
  ultimately show ?thesis using res(1) by blast
qed

end
