(* ===== verification/Image_Kernels.thy ===== *)
theory Image_Kernels
  imports Sniper_Monad Approx_Adder "HOL-Library.Signed_Division"
begin

text \<open>
  The image kernels of \<open>src/test\<close> (\<open>amean\<close>, \<open>sharp\<close>, \<open>laplacian\<close>, \<open>sobel\<close>), which run on the simulator,
  and of \<open>src/data_significance\<close>, which inject faults into their own data.

  \<^item> The image header is outside the repository: \<open>image_hdr\<close> holds the arrays it declares, with their
    number of rows and columns (\<open>dims\<close>) and their addresses. An index outside an array fails.
  \<^item> A kernel under \<open>src/test\<close> is compiled with or without \<open>SNIPER\<close> (calls of the simulator, recorded
    as events) and with or without \<open>GEM5\<close> (approximate addition and multiplication).
  \<^item> A kernel under \<open>src/data_significance\<close> reads through \<open>FLT\<close>, the identity or \<open>flty\<close>.
  \<^item> The masks are small whole numbers, so the products in \<open>double\<close> and the conversions back to \<open>int\<close>
    are exact: they are integers here.
\<close>

section \<open>State and environment\<close>

record image_hdr =
  dims :: int
  WIDHEI :: int
  srcImageWidth :: int
  srcImageHeight :: int
  srcImage :: "int \<Rightarrow> int \<Rightarrow> nat \<Rightarrow> u8"
  src_base :: u64
  dst_base :: u64
  psnr_addr :: u64
  can_open :: "string \<Rightarrow> bool"

datatype kernel_event =
    SimRoiStart
  | SimRoiEnd
  | SimAddApproxAddrs u64 int
  | SimDelApproxAddrs u64 int
  | SimApproxAddCnt u64 int
  | SimApproxMulCnt u64 int
  | WriteFile string "u64 list" "int" "u8 list"   \<comment> \<open>name, addresses, number, bytes\<close>
  | Warn string

record 'g kernel =
  dstImage :: "int \<Rightarrow> int \<Rightarrow> nat \<Rightarrow> u8"
  generator :: 'g
  events :: "kernel_event list"

definition in_array :: "image_hdr \<Rightarrow> int \<Rightarrow> int \<Rightarrow> bool" where
  "in_array h x y \<longleftrightarrow> 0 \<le> x \<and> x < dims h \<and> 0 \<le> y \<and> y < dims h"

definition emit :: "kernel_event \<Rightarrow> ('g kernel, unit) op" where
  "emit e = modS (\<lambda>s. s\<lparr>events := events s @ [e]\<rparr>)"

text \<open>\<open>srcImage[x][y][0]\<close>\<close>

definition src_at :: "image_hdr \<Rightarrow> int \<Rightarrow> int \<Rightarrow> ('g kernel, u8) op" where
  "src_at h x y = seqS (assertS OutOfBounds (in_array h x y)) (retS (srcImage h x y 0))"

text \<open>\<open>dstImage[x][y][c] = v\<close> for one and for all three colours\<close>

definition put_dst :: "image_hdr \<Rightarrow> int \<Rightarrow> int \<Rightarrow> nat \<Rightarrow> u8 \<Rightarrow> ('g kernel, unit) op" where
  "put_dst h x y c v = seqS (assertS OutOfBounds (in_array h x y \<and> c < 3))
     (modS (\<lambda>s. s\<lparr>dstImage := \<lambda>x' y' c'. if x' = x \<and> y' = y \<and> c' = c then v else dstImage s x' y' c'\<rparr>))"

definition put_pixel :: "image_hdr \<Rightarrow> int \<Rightarrow> int \<Rightarrow> int \<Rightarrow> ('g kernel, unit) op" where
  "put_pixel h x y v = forS (\<lambda>c. put_dst h x y c (word_of_int v)) [0, 1, 2]"

text \<open>\<open>&img[x][y][c]\<close>\<close>

definition pixel_addr :: "image_hdr \<Rightarrow> u64 \<Rightarrow> int \<Rightarrow> int \<Rightarrow> int \<Rightarrow> u64" where
  "pixel_addr h base x y c = base + word_of_int ((x * dims h + y) * 3 + c)"

definition int_upto :: "int \<Rightarrow> int list" where
  "int_upto n = map int [0..<nat n]"

section \<open>Faults\<close>

text \<open>\<open>flty\<close>: each bit is toggled when the Bernoulli distribution says so; \<open>draw\<close> is one draw.\<close>

definition flty_bit :: "('g \<Rightarrow> bool \<times> 'g) \<Rightarrow> nat \<Rightarrow> u8 \<Rightarrow> ('g kernel, u8) op" where
  "flty_bit draw i out = bindS (getS (\<lambda>s. draw (generator s))) (\<lambda>(b, g).
     seqS (modS (\<lambda>s. s\<lparr>generator := g\<rparr>)) (retS (if b then out XOR push_bit i 1 else out)))"

definition flty :: "('g \<Rightarrow> bool \<times> 'g) \<Rightarrow> u8 \<Rightarrow> ('g kernel, u8) op" where
  "flty draw x = foldS (flty_bit draw) [0..<8] x"

text \<open>\<open>FLT(AAA)\<close>: \<open>None\<close> is the build without \<open>DATA_SIG\<close>.\<close>

definition FLT :: "('g \<Rightarrow> bool \<times> 'g) option \<Rightarrow> u8 \<Rightarrow> ('g kernel, u8) op" where
  "FLT sig x = (case sig of None \<Rightarrow> retS x | Some draw \<Rightarrow> flty draw x)"

section \<open>Window sums\<close>

text \<open>The two inner loops of a filter of size \<open>n\<close>: the positions in the image.\<close>

definition window :: "image_hdr \<Rightarrow> nat \<Rightarrow> int \<Rightarrow> int \<Rightarrow>
    (nat \<Rightarrow> nat \<Rightarrow> int \<Rightarrow> int \<Rightarrow> 'a \<Rightarrow> ('g kernel, 'a) op) \<Rightarrow> 'a \<Rightarrow> ('g kernel, 'a) op" where
  "window h n x y step = foldS (\<lambda>(i, j) acc.
       let zx = x + int i - int (n div 2); zy = y + int j - int (n div 2)
       in if zx \<ge> 0 \<and> zy \<ge> 0 \<and> zx < srcImageWidth h \<and> zy < srcImageWidth h
          then step i j zx zy acc else retS acc)
     (List.product [0..<n] [0..<n])"

text \<open>How a build adds: \<open>int\<close> arithmetic, or with \<open>GEM5\<close> the adder with window 16 and multiplier 19.
  The operands are converted to \<open>long\<close>, the sum back to \<open>int\<close>.\<close>

record gem5 =
  shl :: "nat \<Rightarrow> u64"
  mul16x16 :: "nat \<Rightarrow> 16 word \<Rightarrow> 16 word \<Rightarrow> u32"

record build =
  sniper :: bool
  gem5_ops :: "gem5 option"

definition gem5_add :: "gem5 \<Rightarrow> int \<Rightarrow> int \<Rightarrow> int" where
  "gem5_add g a b = sint (ucast (rapcla (shl g) (word_of_int a) (word_of_int b) 16) :: u32)"

definition gem5_mul :: "gem5 \<Rightarrow> u8 \<Rightarrow> int \<Rightarrow> int result" where
  "gem5_mul g p m = bindE (appmul (mul16x16 g) (ucast p) (word_of_int m) 19) (\<lambda>r. Inr (sint r))"

definition add_pixel :: "build \<Rightarrow> int \<Rightarrow> u8 \<Rightarrow> ('g kernel, int) op" where
  "add_pixel b acc p = (case gem5_ops b of None \<Rightarrow> retS (acc + uint p)
     | Some g \<Rightarrow> retS (gem5_add g acc (uint p)))"

definition add_weighted :: "build \<Rightarrow> int \<Rightarrow> u8 \<Rightarrow> int \<Rightarrow> ('g kernel, int) op" where
  "add_weighted b acc p m = (case gem5_ops b of None \<Rightarrow> retS (acc + uint p * m)
     | Some g \<Rightarrow> bindS (liftS (gem5_mul g p m)) (\<lambda>q. retS (gem5_add g acc q)))"

definition saturate :: "int \<Rightarrow> int" where
  "saturate val = (let val = (if val > 255 then 255 else val) in if val < 0 then 0 else val)"

section \<open>Common parts of the programs\<close>

text \<open>\<open>saveChImage\<close> writes the size and all bytes of \<open>dstImage\<close>. With \<open>DATA_SIG\<close> it first passes every
  byte through \<open>FLT\<close>.\<close>

definition image_bytes :: "image_hdr \<Rightarrow> (int \<Rightarrow> int \<Rightarrow> nat \<Rightarrow> u8) \<Rightarrow> u8 list" where
  "image_bytes h img = concat (map (\<lambda>x. concat (map (\<lambda>y. map (img x y) [0, 1, 2])
     (int_upto (dims h)))) (int_upto (dims h)))"

definition saveChImage :: "image_hdr \<Rightarrow> string \<Rightarrow> ('g kernel, int) op" where
  "saveChImage h fileName =
     (if \<not> can_open h fileName then seqS (emit (Warn fileName)) (retS 0)
      else bindS (getS (\<lambda>s. image_bytes h (dstImage s))) (\<lambda>bs.
        seqS (emit (WriteFile fileName [] (WIDHEI h * WIDHEI h * 3) bs)) (retS 1)))"

definition faulty_dst :: "image_hdr \<Rightarrow> ('g \<Rightarrow> bool \<times> 'g) option \<Rightarrow> int \<Rightarrow> int \<Rightarrow> nat \<Rightarrow> ('g kernel, unit) op" where
  "faulty_dst h sig x y c = seqS (assertS OutOfBounds (in_array h x y))
     (bindS (getS (\<lambda>s. dstImage s x y c)) (\<lambda>v. bindS (FLT sig v) (put_dst h x y c)))"

definition save_sig :: "image_hdr \<Rightarrow> ('g \<Rightarrow> bool \<times> 'g) option \<Rightarrow> string \<Rightarrow> ('g kernel, int) op" where
  "save_sig h sig fileName =
     (if \<not> can_open h fileName then seqS (emit (Warn fileName)) (retS 0)
      else seqS (whenS (sig \<noteq> None) (forS (\<lambda>x. forS (\<lambda>y. forS (faulty_dst h sig x y) [0, 1, 2])
               (int_upto (WIDHEI h))) (int_upto (WIDHEI h))))
        (bindS (getS (\<lambda>s. image_bytes h (dstImage s))) (\<lambda>bs.
          seqS (emit (WriteFile fileName [] (WIDHEI h * WIDHEI h * 3) bs)) (retS 1))))"

text \<open>The name of the output; \<open>args\<close> are the arguments after the program's name.\<close>

definition out_name :: "string \<Rightarrow> string list \<Rightarrow> string" where
  "out_name prefix args = (case args of [] \<Rightarrow> prefix @ ''0.ch'' | a # _ \<Rightarrow> prefix @ a @ ''.ch'')"

definition write_vaddrs :: "image_hdr \<Rightarrow> string \<Rightarrow> ('g kernel, unit) op" where
  "write_vaddrs h num =
     emit (WriteFile (''vaddrs_'' @ num @ ''.txt'') [psnr_addr h, src_base h, dst_base h] (WIDHEI h) [])"

definition start_kernel :: "build \<Rightarrow> image_hdr \<Rightarrow> string list \<Rightarrow> ('g kernel, unit) op" where
  "start_kernel b h args =
     seqS (whenS (gem5_ops b \<noteq> None) (write_vaddrs h (case args of [] \<Rightarrow> ''0'' | a # _ \<Rightarrow> a)))
       (whenS (sniper b) (seqS (emit SimRoiStart)
         (seqS (emit (SimAddApproxAddrs (pixel_addr h (src_base h) 0 0 0) (WIDHEI h * WIDHEI h * 3)))
               (emit (SimAddApproxAddrs (pixel_addr h (dst_base h) 0 0 0) (WIDHEI h * WIDHEI h * 3))))))"

definition finish_kernel :: "build \<Rightarrow> image_hdr \<Rightarrow> ('g kernel, unit) op" where
  "finish_kernel b h = whenS (sniper b)
     (seqS (emit (SimDelApproxAddrs (pixel_addr h (src_base h) 0 0 0) (WIDHEI h * WIDHEI h * 3)))
     (seqS (emit (SimDelApproxAddrs (pixel_addr h (dst_base h) 0 0 0) (WIDHEI h * WIDHEI h * 3)))
           (emit SimRoiEnd)))"

text \<open>The loops over the pixels, both up to the width.\<close>

definition for_pixels :: "image_hdr \<Rightarrow> (int \<Rightarrow> int \<Rightarrow> ('g kernel, unit) op) \<Rightarrow> ('g kernel, unit) op" where
  "for_pixels h body =
     forS (\<lambda>x. forS (body x) (int_upto (srcImageWidth h))) (int_upto (srcImageWidth h))"

text \<open>The operation counts of a pixel. The multiplications are counted on the transposed pixel.\<close>

definition count_adds :: "build \<Rightarrow> image_hdr \<Rightarrow> int \<Rightarrow> int \<Rightarrow> int \<Rightarrow> ('g kernel, unit) op" where
  "count_adds b h n x y = whenS (sniper b)
     (forS (\<lambda>c. emit (SimApproxAddCnt (pixel_addr h (dst_base h) x y c) n)) [0, 1, 2])"

definition count_muls :: "build \<Rightarrow> image_hdr \<Rightarrow> int \<Rightarrow> int \<Rightarrow> int \<Rightarrow> ('g kernel, unit) op" where
  "count_muls b h n x y = whenS (sniper b)
     (forS (\<lambda>c. emit (SimApproxMulCnt (pixel_addr h (dst_base h) y x c) n)) [0, 1, 2])"


section \<open>The kernels of src/test\<close>

text \<open>The value of a pixel, and the program around the loops.\<close>

definition run_kernel ::
  "build \<Rightarrow> image_hdr \<Rightarrow> string list \<Rightarrow> string \<Rightarrow> (int \<Rightarrow> int \<Rightarrow> ('g kernel, unit) op) \<Rightarrow> ('g kernel, int) op" where
  "run_kernel b h args prefix body =
     seqS (start_kernel b h args) (seqS (for_pixels h body)
       (bindS (saveChImage h (out_name prefix args)) (\<lambda>_. seqS (finish_kernel b h) (retS 0))))"

definition WIN_DIM :: nat where "WIN_DIM = 5"

definition amean_sum :: "build \<Rightarrow> image_hdr \<Rightarrow> int \<Rightarrow> int \<Rightarrow> ('g kernel, int) op" where
  "amean_sum b h x y =
     window h WIN_DIM x y (\<lambda>i j zx zy acc. bindS (src_at h zx zy) (add_pixel b acc)) 0"

definition amean_val :: "int \<Rightarrow> int" where
  "amean_val acc = (let val = (acc sdiv int WIN_DIM) sdiv int WIN_DIM in if val > 255 then 255 else val)"

definition amean_main :: "build \<Rightarrow> image_hdr \<Rightarrow> string list \<Rightarrow> ('g kernel, int) op" where
  "amean_main b h args = run_kernel b h args ''amean_outimg_'' (\<lambda>x y.
     bindS (amean_sum b h x y) (\<lambda>total.
       seqS (put_pixel h x y (amean_val total)) (count_adds b h 8 x y)))"

definition shrp_mask :: "int list list" where
  "shrp_mask = [[-1, -1, -1], [-1, 9, -1], [-1, -1, -1]]"

definition lap_mask :: "int list list" where
  "lap_mask = [[-1, -1, -1, -1, -1], [-1, -1, -1, -1, -1], [-1, -1, 24, -1, -1],
     [-1, -1, -1, -1, -1], [-1, -1, -1, -1, -1]]"

definition masked_sum ::
  "build \<Rightarrow> image_hdr \<Rightarrow> nat \<Rightarrow> int list list \<Rightarrow> int \<Rightarrow> int \<Rightarrow> ('g kernel, int) op" where
  "masked_sum b h n weights x y = window h n x y (\<lambda>i j zx zy val.
     bindS (src_at h zx zy) (\<lambda>p. add_weighted b val p (weights ! i ! j))) 0"

definition sharp_main :: "build \<Rightarrow> image_hdr \<Rightarrow> string list \<Rightarrow> ('g kernel, int) op" where
  "sharp_main b h args = run_kernel b h args ''sharp_outimg_'' (\<lambda>x y.
     bindS (masked_sum b h 3 shrp_mask x y) (\<lambda>val. seqS (put_pixel h x y (saturate val))
       (seqS (count_adds b h 8 x y) (count_muls b h 9 x y))))"

definition laplacian_main :: "build \<Rightarrow> image_hdr \<Rightarrow> string list \<Rightarrow> ('g kernel, int) op" where
  "laplacian_main b h args = run_kernel b h args ''laplacian_outimg_'' (\<lambda>x y.
     bindS (masked_sum b h 5 lap_mask x y) (\<lambda>val. seqS (put_pixel h x y (saturate val))
       (seqS (count_adds b h 24 x y) (count_muls b h 25 x y))))"

definition sobel_x_mask :: "int list list" where
  "sobel_x_mask = [[-1, -2, -1], [0, 0, 0], [1, 2, 1]]"

definition sobel_y_mask :: "int list list" where
  "sobel_y_mask = [[-1, 0, 1], [-2, 0, 2], [-1, 0, 1]]"

text \<open>The integer part of a square root, bit by bit: \<open>sqrt\<close> is correctly rounded, so its conversion
  to \<open>int\<close> is this number below \<open>2 ^ 32\<close>.\<close>

definition isqrt :: "int \<Rightarrow> int" where
  "isqrt n = foldl (\<lambda>r b. if (r + 2 ^ b) * (r + 2 ^ b) \<le> n then r + 2 ^ b else r) 0 (rev [0..<16])"

text \<open>The bound \<open>256* 256 / sqrt(256 * 256 + 256 * 256)\<close> lies between 181 and 182, the value
  \<open>256* 255 / sqrt(256 * 256 + 256 * 256)\<close> between 180 and 181.\<close>

definition sobel_magnitude :: "int \<Rightarrow> int \<Rightarrow> int" where
  "sobel_magnitude sx sy = (let s = isqrt (sx * sx + sy * sy) in if s \<ge> 182 then 180 else s)"

text \<open>The condition governs the update of \<open>sx\<close> only: it has no braces.\<close>

definition sobel_sums :: "build \<Rightarrow> image_hdr \<Rightarrow> int \<Rightarrow> int \<Rightarrow> ('g kernel, int \<times> int) op" where
  "sobel_sums b h x y = foldS (\<lambda>(i, j) (sx, sy).
     let zx = x + int i - int (3 div 2); zy = y + int j - int (3 div 2)
     in bindS (if zx \<ge> 0 \<and> zy \<ge> 0 \<and> zx < srcImageWidth h \<and> zy < srcImageWidth h
               then bindS (src_at h zx zy) (\<lambda>p. add_weighted b sx p (sobel_x_mask ! i ! j))
               else retS sx) (\<lambda>sx.
        bindS (src_at h zx zy) (\<lambda>p. bindS (add_weighted b sy p (sobel_y_mask ! i ! j)) (\<lambda>sy.
          retS (sx, sy)))))
     (List.product [0..<3] [0..<3]) (0, 0)"

definition sobel_main :: "build \<Rightarrow> image_hdr \<Rightarrow> string list \<Rightarrow> ('g kernel, int) op" where
  "sobel_main b h args = run_kernel b h args ''sobel_outimg_'' (\<lambda>x y.
     bindS (sobel_sums b h x y) (\<lambda>(sx, sy). seqS (put_pixel h x y (sobel_magnitude sx sy))
       (seqS (count_adds b h 16 x y) (count_muls b h 18 x y))))"

section \<open>The kernels of src/data-significance\<close>

definition run_sig ::
  "('g \<Rightarrow> bool \<times> 'g) option \<Rightarrow> image_hdr \<Rightarrow> string list \<Rightarrow> string \<Rightarrow> ('g kernel, unit) op \<Rightarrow> ('g kernel, int) op" where
  "run_sig sig h args prefix loops =
     seqS loops (bindS (save_sig h sig (out_name prefix args)) (\<lambda>_. retS 0))"

definition read_flt :: "('g \<Rightarrow> bool \<times> 'g) option \<Rightarrow> image_hdr \<Rightarrow> int \<Rightarrow> int \<Rightarrow> ('g kernel, int) op" where
  "read_flt sig h x y = bindS (src_at h x y) (\<lambda>p. bindS (FLT sig p) (\<lambda>q. retS (uint q)))"

definition amean_sig :: "('g \<Rightarrow> bool \<times> 'g) option \<Rightarrow> image_hdr \<Rightarrow> string list \<Rightarrow> ('g kernel, int) op" where
  "amean_sig sig h args = run_sig sig h args ''amean_outimg_'' (for_pixels h (\<lambda>x y.
     bindS (window h WIN_DIM x y (\<lambda>i j zx zy acc.
         bindS (read_flt sig h zx zy) (\<lambda>p. retS (acc + p))) 0)
       (\<lambda>total. put_pixel h x y (amean_val total))))"

definition masked_sig ::
  "('g \<Rightarrow> bool \<times> 'g) option \<Rightarrow> image_hdr \<Rightarrow> nat \<Rightarrow> int list list \<Rightarrow> int \<Rightarrow> int \<Rightarrow> ('g kernel, unit) op" where
  "masked_sig sig h n weights x y = bindS (window h n x y (\<lambda>i j zx zy val.
       bindS (read_flt sig h zx zy) (\<lambda>p. retS (val + p * (weights ! i ! j)))) 0)
     (\<lambda>val. put_pixel h x y (saturate val))"

definition sharp_sig :: "('g \<Rightarrow> bool \<times> 'g) option \<Rightarrow> image_hdr \<Rightarrow> string list \<Rightarrow> ('g kernel, int) op" where
  "sharp_sig sig h args =
     run_sig sig h args ''sharp_outimg_'' (for_pixels h (masked_sig sig h 3 shrp_mask))"

definition laplacian_sig :: "('g \<Rightarrow> bool \<times> 'g) option \<Rightarrow> image_hdr \<Rightarrow> string list \<Rightarrow> ('g kernel, int) op" where
  "laplacian_sig sig h args =
     run_sig sig h args ''laplacian_outimg_'' (for_pixels h (masked_sig sig h 5 lap_mask))"

text \<open>\<open>WINDOW\<close> and \<open>HALF_WINDOW\<close>: the nine values row by row; the latter replaces the pixels outside
  the image by 0. The arrays are indexed by row and column here.\<close>

definition fill_window ::
  "('g \<Rightarrow> bool \<times> 'g) option \<Rightarrow> image_hdr \<Rightarrow> (bool \<times> int \<times> int) list \<Rightarrow> ('g kernel, int list) op" where
  "fill_window sig h cells = foldS (\<lambda>(outside, y, x) w.
     bindS (if outside then retS 0 else read_flt sig h y x) (\<lambda>v. retS (w @ [v]))) cells []"

definition WINDOW :: "('g \<Rightarrow> bool \<times> 'g) option \<Rightarrow> image_hdr \<Rightarrow> int \<Rightarrow> int \<Rightarrow> ('g kernel, int list) op" where
  "WINDOW sig h x y = fill_window sig h
     [(False, y - 1, x - 1), (False, y - 1, x), (False, y - 1, x + 1),
      (False, y, x - 1), (False, y, x), (False, y, x + 1),
      (False, y + 1, x - 1), (False, y + 1, x), (False, y + 1, x + 1)]"

definition HALF_WINDOW :: "('g \<Rightarrow> bool \<times> 'g) option \<Rightarrow> image_hdr \<Rightarrow> int \<Rightarrow> int \<Rightarrow> ('g kernel, int list) op" where
  "HALF_WINDOW sig h x y =
     (let W = srcImageWidth h; H = srcImageHeight h
      in fill_window sig h
     [(x = 0 \<or> y = 0, y - 1, x - 1), (y = 0, y - 1, x), (x = W - 1 \<or> y = 0, y - 1, x + 1),
      (x = 0, y, x - 1), (False, y, x), (x = W - 1, y, x + 1),
      (x = 0 \<or> y = H - 1, y + 1, x - 1), (y = H - 1, y + 1, x), (x = W - 1 \<or> y = H - 1, y + 1, x + 1)])"

definition kx :: "int list list" where
  "kx = [[-1, -2, -1], [0, 0, 0], [1, 2, 1]]"

definition ky :: "int list list" where
  "ky = [[-1, 0, 1], [-2, 0, 2], [-1, 0, 1]]"

definition convolve :: "int list \<Rightarrow> int list list \<Rightarrow> int" where
  "convolve w k = foldl (\<lambda>r (j, i). r + w ! (3 * i + j) * (k ! j ! i)) 0 (List.product [0..<3] [0..<3])"

text \<open>Here \<open>s\<close> is a \<open>float\<close> and converted to a byte at the end. The comparison with the bound holds
  from \<open>sx * sx + sy * sy = 32769\<close>: the root of 32768 rounds to a \<open>float\<close> below the bound. The root
  of a number that is no square lies too far from a whole number to round to one.\<close>

definition sobel :: "int list \<Rightarrow> int" where
  "sobel w = (let sx = convolve w ky; sy = convolve w kx; n = sx * sx + sy * sy
     in if n > 32768 then 180 else isqrt n)"

definition sobel_pixel :: "image_hdr \<Rightarrow> int \<Rightarrow> int \<Rightarrow> ('g kernel, int list) op \<Rightarrow> ('g kernel, unit) op" where
  "sobel_pixel h x y win = bindS win (\<lambda>w. put_pixel h y x (sobel w))"

definition half_pixel :: "('g \<Rightarrow> bool \<times> 'g) option \<Rightarrow> image_hdr \<Rightarrow> int \<Rightarrow> int \<Rightarrow> ('g kernel, unit) op" where
  "half_pixel sig h y x = sobel_pixel h x y (HALF_WINDOW sig h x y)"

definition sobel_row :: "('g \<Rightarrow> bool \<times> 'g) option \<Rightarrow> image_hdr \<Rightarrow> int \<Rightarrow> ('g kernel, unit) op" where
  "sobel_row sig h y = seqS (half_pixel sig h y 0)
     (seqS (forS (\<lambda>x. sobel_pixel h x y (WINDOW sig h x y)) (map int [1..<nat (srcImageWidth h - 1)]))
           (half_pixel sig h y (srcImageWidth h - 1)))"

definition sobel_sig :: "('g \<Rightarrow> bool \<times> 'g) option \<Rightarrow> image_hdr \<Rightarrow> string list \<Rightarrow> ('g kernel, int) op" where
  "sobel_sig sig h args = run_sig sig h args ''sobel_outimg_''
     (seqS (forS (half_pixel sig h 0) (int_upto (srcImageWidth h)))
     (seqS (forS (sobel_row sig h) (map int [1..<nat (srcImageHeight h - 1)]))
           (forS (half_pixel sig h (srcImageHeight h - 1)) (int_upto (srcImageWidth h)))))"

end
