(* ===== verification/Image_Facts.thy ===== *)
theory Image_Facts
  imports Image_Kernels
begin

text \<open>
  What the image kernels compute. \<open>painted A f s t\<close> says that a program wrote the value \<open>f\<close> to the pixels of
  \<open>A\<close>, to all three colours, and left the others as they were; it composes along sequences and loops. The
  sums over a window equal the sums over the image extended by zeros (\<open>padded\<close>).
\<close>

section \<open>Painting\<close>

definition painted ::
  "(int \<times> int) set \<Rightarrow> (int \<Rightarrow> int \<Rightarrow> int) \<Rightarrow> 'g kernel \<Rightarrow> 'g kernel \<Rightarrow> bool" where
  "painted A f s t \<longleftrightarrow> dstImage t =
     (\<lambda>x y c. if (x, y) \<in> A \<and> c < 3 then word_of_int (f x y) else dstImage s x y c)"

lemma painted_refl [simp]: "dstImage t = dstImage s \<Longrightarrow> painted {} f s t"
  by (simp add: painted_def)

lemma painted_trans: "painted A f s t \<Longrightarrow> painted B f t u \<Longrightarrow> painted (A \<union> B) f s u"
  by (auto simp: painted_def fun_eq_iff)

lemma wp_painted_seq:
  assumes "\<And>s. wpS m (\<lambda>_. painted A f s) s" "\<And>s. wpS k (\<lambda>_. painted B f s) s"
  shows "wpS (seqS m k) (\<lambda>_. painted (A \<union> B) f s) s"
  unfolding wp_simps
  by (rule wp_mono[OF assms(1)], rule wp_mono[OF assms(2)]) (rule painted_trans)

lemma wp_painted_bind:
  assumes "\<And>s. wpS m (\<lambda>_. painted A f s) s" "\<And>x s. wpS (k x) (\<lambda>_. painted B f s) s"
  shows "wpS (bindS m k) (\<lambda>_. painted (A \<union> B) f s) s"
  unfolding wp_simps
  by (rule wp_mono[OF assms(1)], rule wp_mono[OF assms(2)]) (rule painted_trans)

lemma wp_painted_for:
  assumes "\<And>x s. x \<in> set xs \<Longrightarrow> wpS (b x) (\<lambda>_. painted (A x) f s) s"
  shows "wpS (forS b xs) (\<lambda>_. painted (\<Union>x\<in>set xs. A x) f s) s"
proof (rule wp_for[where I = "\<lambda>k. painted (\<Union>x\<in>set (take k xs). A x) f s"])
  fix k t
  assume k: "k < length xs" and t: "painted (\<Union>x\<in>set (take k xs). A x) f s t"
  have eq: "(\<Union>x\<in>set (take (Suc k) xs). A x) = (\<Union>x\<in>set (take k xs). A x) \<union> A (xs ! k)"
    using k by (auto simp: take_Suc_conv_app_nth)
  show "wpS (b (xs ! k)) (\<lambda>_. painted (\<Union>x\<in>set (take (Suc k) xs). A x) f s) t"
    unfolding eq by (rule wp_mono[OF assms]) (use k painted_trans[OF t] in auto)
qed simp_all

lemma wp_put_pixel:
  assumes "in_array h x y" "word_of_int v = (word_of_int (f x y) :: u8)"
  shows "wpS (put_pixel h x y v) (\<lambda>_. painted {(x, y)} f s) s"
  using assms by (auto simp: put_pixel_def put_dst_def forS_def wp_simps painted_def fun_eq_iff)

lemma wp_emit: "wpS (emit e) (\<lambda>_. painted {} f s) s"
  by (simp add: emit_def wp_simps)

lemma wp_emits: "wpS (forS (\<lambda>c. emit (g c)) xs) (\<lambda>_. painted {} f s) s"
  using wp_painted_for[of xs "\<lambda>c. emit (g c)" "\<lambda>_. {}" f s] by (simp add: wp_emit)

lemma wp_when: "(\<And>s. wpS m (\<lambda>_. painted {} f s) s) \<Longrightarrow> wpS (whenS b m) (\<lambda>_. painted {} f s) s"
  by (simp add: wp_simps)

lemma wp_counts:
  "wpS (count_adds b h n x y) (\<lambda>_. painted {} f s) s"
  "wpS (count_muls b h n x y) (\<lambda>_. painted {} f s) s"
  unfolding count_adds_def count_muls_def by (rule wp_when, rule wp_emits)+

lemma set_int_upto: "set (int_upto n) = {0..<n}"
proof
  show "{0..<n} \<subseteq> set (int_upto n)"
    by (auto simp: int_upto_def image_iff intro!: bexI[of _ "nat x" for x])
qed (auto simp: int_upto_def)

lemma wp_for_pixels:
  assumes "\<And>x y s. 0 \<le> x \<Longrightarrow> x < srcImageWidth h \<Longrightarrow> 0 \<le> y \<Longrightarrow> y < srcImageWidth h \<Longrightarrow>
    wpS (body x y) (\<lambda>_. painted {(x, y)} f s) s"
  shows "wpS (for_pixels h body)
    (\<lambda>_. painted ({0..<srcImageWidth h} \<times> {0..<srcImageWidth h}) f s) s"
proof -
  have eq: "(\<Union>x\<in>set (int_upto (srcImageWidth h)). \<Union>y\<in>set (int_upto (srcImageWidth h)). {(x, y)}) =
      {0..<srcImageWidth h} \<times> {0..<srcImageWidth h}"
    by (auto simp: set_int_upto)
  show ?thesis
    unfolding for_pixels_def eq[symmetric]
    by (rule wp_painted_for, rule wp_painted_for) (auto simp: set_int_upto assms)
qed

lemma wp_start: "wpS (start_kernel b h args) (\<lambda>_. painted {} f s) s"
  and wp_finish: "wpS (finish_kernel b h) (\<lambda>_. painted {} f s) s"
  and wp_save: "wpS (saveChImage h name) (\<lambda>_. painted {} f s) s"
  by (simp_all add: start_kernel_def finish_kernel_def saveChImage_def write_vaddrs_def emit_def wp_simps)

lemma wp_run_kernel:
  assumes "\<And>x y s. 0 \<le> x \<Longrightarrow> x < srcImageWidth h \<Longrightarrow> 0 \<le> y \<Longrightarrow> y < srcImageWidth h \<Longrightarrow>
    wpS (body x y) (\<lambda>_. painted {(x, y)} f s) s"
  shows "wpS (run_kernel b h args prefix body)
    (\<lambda>r t. r = 0 \<and> painted ({0..<srcImageWidth h} \<times> {0..<srcImageWidth h}) f s t) s"
proof -
  have "wpS (seqS (start_kernel b h args) (seqS (for_pixels h body)
      (bindS (saveChImage h (out_name prefix args)) (\<lambda>_. finish_kernel b h))))
    (\<lambda>_. painted ({} \<union> ({0..<srcImageWidth h} \<times> {0..<srcImageWidth h} \<union> ({} \<union> {}))) f s) s"
    by (intro wp_painted_seq wp_painted_bind wp_start wp_finish wp_save wp_for_pixels assms)
  then show ?thesis by (simp add: run_kernel_def wp_simps)
qed

lemma wp_bind_ret: "m = retS v \<Longrightarrow> wpS (bindS m k) Q = wpS (k v) Q"
  by (simp add: wp_simps)

section \<open>Window sums\<close>

definition padded :: "image_hdr \<Rightarrow> int \<Rightarrow> int \<Rightarrow> int" where
  "padded h x y = (if 0 \<le> x \<and> x < srcImageWidth h \<and> 0 \<le> y \<and> y < srcImageWidth h
     then uint (srcImage h x y 0) else 0)"

definition weighted :: "image_hdr \<Rightarrow> nat \<Rightarrow> (nat \<Rightarrow> nat \<Rightarrow> int) \<Rightarrow> int \<Rightarrow> int \<Rightarrow> int" where
  "weighted h n m x y = (\<Sum>i<n. \<Sum>j<n.
     m i j * padded h (x + int i - int (n div 2)) (y + int j - int (n div 2)))"

lemma foldS_sum:
  assumes "\<And>p a. p \<in> set ps \<Longrightarrow> f p a = retS (a + w p)"
  shows "foldS f ps a = (retS (a + (\<Sum>p\<leftarrow>ps. w p :: int)) :: ('s, int) op)"
  using assms
proof (induction ps arbitrary: a)
  case (Cons p ps)
  then show ?case by (simp add: bindS_def retS_def add.assoc)
qed simp

lemma sum_product: "(\<Sum>p\<leftarrow>List.product [0..<n] [0..<n]. w p) = (\<Sum>i<n. \<Sum>j<n. w (i, j) :: int)"
proof -
  have "(\<Sum>p\<leftarrow>List.product [0..<n] [0..<n]. w p) = (\<Sum>p\<in>{..<n} \<times> {..<n}. w p)"
    by (subst sum_list_distinct_conv_sum_set) (auto simp: distinct_product lessThan_atLeast0)
  then show ?thesis by (simp add: sum.cartesian_product)
qed

lemma window_sum:
  assumes "\<And>i j zx zy a. 0 \<le> zx \<Longrightarrow> zx < srcImageWidth h \<Longrightarrow> 0 \<le> zy \<Longrightarrow> zy < srcImageWidth h \<Longrightarrow>
    step i j zx zy a = retS (a + m i j * uint (srcImage h zx zy 0))"
  shows "window h n x y step a = (retS (a + weighted h n m x y) :: ('g kernel, int) op)"
  unfolding window_def weighted_def
  by (subst foldS_sum[where w = "\<lambda>(i, j). m i j * padded h (x + int i - int (n div 2)) (y + int j - int (n div 2))"])
    (auto simp: assms padded_def Let_def sum_product)

text \<open>Reading a pixel of the image.\<close>

lemma src_at_ok: "in_array h x y \<Longrightarrow> bindS (src_at h x y) k = k (srcImage h x y 0)"
  by (simp add: src_at_def seqS_def bindS_def assertS_def retS_def)

lemma sdiv_nonneg: "0 \<le> a \<Longrightarrow> (a :: int) sdiv 5 = a div 5"
  by (simp add: signed_divide_int_def sgn_if)

lemma uint_byte: "uint (x :: u8) \<le> 255"
proof -
  have "uint x < 2 ^ LENGTH(8)" by (rule unsigned_less)
  then show ?thesis by simp
qed

lemma weighted_bounds: "0 \<le> weighted h n (\<lambda>_ _. 1) x y" "weighted h n (\<lambda>_ _. 1) x y \<le> 255 * (int n * int n)"
proof -
  have p: "0 \<le> padded h a b" "padded h a b \<le> 255" for a b
    using uint_byte[of "srcImage h a b 0"] by (auto simp: padded_def)
  show "0 \<le> weighted h n (\<lambda>_ _. 1) x y"
    unfolding weighted_def by (intro sum_nonneg) (simp add: p)
  have "weighted h n (\<lambda>_ _. 1) x y \<le> (\<Sum>i<n. \<Sum>j<n. 255)"
    unfolding weighted_def by (intro sum_mono) (simp add: p)
  then show "weighted h n (\<lambda>_ _. 1) x y \<le> 255 * (int n * int n)" by (simp add: mult.commute mult.left_commute)
qed

lemma amean_val_eq: "0 \<le> a \<Longrightarrow> a \<le> 255 * 25 \<Longrightarrow> amean_val a = a div 25"
  by (simp add: amean_val_def WIN_DIM_def sdiv_nonneg Let_def zdiv_zmult2_eq[symmetric])


section \<open>The filters\<close>

definition amean_image :: "image_hdr \<Rightarrow> int \<Rightarrow> int \<Rightarrow> int" where
  "amean_image h x y = weighted h 5 (\<lambda>_ _. 1) x y div 25"

definition mask_image :: "image_hdr \<Rightarrow> nat \<Rightarrow> int list list \<Rightarrow> int \<Rightarrow> int \<Rightarrow> int" where
  "mask_image h n weights x y = max 0 (min 255 (weighted h n (\<lambda>i j. weights ! i ! j) x y))"

lemma saturate_mask: "saturate (weighted h n (\<lambda>i j. weights ! i ! j) x y) = mask_image h n weights x y"
  by (simp add: saturate_def mask_image_def Let_def)

lemma amean_val_image: "amean_val (weighted h 5 (\<lambda>_ _. 1) x y) = amean_image h x y"
  using weighted_bounds[of h 5 x y] by (simp add: amean_val_eq amean_image_def)

lemma in_image:
  "srcImageWidth h \<le> dims h \<Longrightarrow> 0 \<le> x \<Longrightarrow> x < srcImageWidth h \<Longrightarrow> 0 \<le> y \<Longrightarrow> y < srcImageWidth h \<Longrightarrow>
   in_array h x y"
  by (simp add: in_array_def)

lemma read_flt_eq: "in_array h x y \<Longrightarrow> read_flt None h x y = retS (uint (srcImage h x y 0))"
  by (simp add: read_flt_def src_at_def FLT_def op_defs)

lemma bind_retS [simp]: "bindS (retS v) k = k v"
  by (simp add: op_defs)

lemma exact_sums:
  assumes "srcImageWidth h \<le> dims h" "gem5_ops b = None"
  shows "amean_sum b h x y = retS (weighted h 5 (\<lambda>_ _. 1) x y)"
    and "masked_sum b h n weights x y = retS (weighted h n (\<lambda>i j. weights ! i ! j) x y)"
  unfolding amean_sum_def masked_sum_def WIN_DIM_def
  by (subst window_sum[where m = "\<lambda>_ _. 1"],
      simp_all add: src_at_ok in_image add_pixel_def assms)
    (subst window_sum[where m = "\<lambda>i j. weights ! i ! j"],
      simp_all add: src_at_ok in_image add_weighted_def assms mult.commute)

lemma sig_sums:
  assumes "srcImageWidth h \<le> dims h"
  shows "window h n x y (\<lambda>i j zx zy acc. bindS (read_flt None h zx zy) (\<lambda>p. retS (acc + p))) 0 =
      retS (weighted h n (\<lambda>_ _. 1) x y)"
    and "window h n x y (\<lambda>i j zx zy acc. bindS (read_flt None h zx zy)
        (\<lambda>p. retS (acc + p * (weights ! i ! j)))) 0 = retS (weighted h n (\<lambda>i j. weights ! i ! j) x y)"
  by (subst window_sum[where m = "\<lambda>_ _. 1"], simp_all add: read_flt_eq in_image assms)
    (subst window_sum[where m = "\<lambda>i j. weights ! i ! j"],
      simp_all add: read_flt_eq in_image assms mult.commute)

text \<open>One pixel: its value, then the counts of the simulator.\<close>

lemma wp_value_pixel:
  assumes "m = retS v" "in_array h x y" "g v = f x y" "\<And>s. wpS k (\<lambda>_. painted {} f s) s"
  shows "wpS (bindS m (\<lambda>v. seqS (put_pixel h x y (g v)) k)) (\<lambda>_. painted {(x, y)} f s) s"
  using wp_painted_seq[OF wp_put_pixel[OF assms(2), of "g v" f] assms(4)] assms(1,3)
  by (simp add: wp_bind_ret)

lemma wp_painted_empty_seq:
  "(\<And>s. wpS m (\<lambda>_. painted {} f s) s) \<Longrightarrow> (\<And>s. wpS k (\<lambda>_. painted {} f s) s) \<Longrightarrow>
   wpS (seqS m k) (\<lambda>_. painted {} f s) s"
  using wp_painted_seq[of m "{}" f k "{}"] by simp

lemma wp_value_only:
  assumes "m = retS v" "in_array h x y" "g v = f x y"
  shows "wpS (bindS m (\<lambda>v. put_pixel h x y (g v))) (\<lambda>_. painted {(x, y)} f s) s"
  using wp_put_pixel[OF assms(2), of "g v" f] assms(1,3) by (simp add: wp_bind_ret)

lemma wp_run_sig:
  assumes "\<And>s. wpS loops (\<lambda>_. painted A f s) s"
  shows "wpS (run_sig None h args prefix loops) (\<lambda>r t. r = 0 \<and> painted A f s t) s"
  unfolding run_sig_def save_sig_def wp_simps
  by (rule wp_mono[OF assms]) (simp add: emit_def wp_simps painted_def)

definition whole_image :: "image_hdr \<Rightarrow> (int \<times> int) set" where
  "whole_image h = {0..<srcImageWidth h} \<times> {0..<srcImageWidth h}"

text \<open>
  C14. Without approximate operations, the three filters of src/test and, without fault injection, their
  counterparts in src/data_significance stay inside the arrays, return 0 and write to every pixel the
  same value: the mean filter a 25th of the sum over the 5 by 5 window, the other two the weighted sum
  cut to the range of a byte, with zeros outside the image. Near the border the mean filter still
  divides by 25.
\<close>

theorem filters_compute:
  assumes "srcImageWidth h \<le> dims h" "gem5_ops b = None"
    and "(prog, img) \<in> {(amean_main b h args, amean_image h), (amean_sig None h args, amean_image h),
      (sharp_main b h args, mask_image h 3 shrp_mask), (sharp_sig None h args, mask_image h 3 shrp_mask),
      (laplacian_main b h args, mask_image h 5 lap_mask), (laplacian_sig None h args, mask_image h 5 lap_mask)}"
  shows "wpS prog (\<lambda>r t. r = 0 \<and> painted (whole_image h) img s t) s"
proof -
  have main: "wpS (run_kernel b h args prefix body) (\<lambda>r t. r = 0 \<and> painted (whole_image h) f s t) s"
    if "\<And>x y s. in_array h x y \<Longrightarrow> wpS (body x y) (\<lambda>_. painted {(x, y)} f s) s" for body f prefix
    unfolding whole_image_def by (rule wp_run_kernel) (simp add: that in_image assms)
  have sig: "wpS (run_sig None h args prefix (for_pixels h body)) (\<lambda>r t. r = 0 \<and> painted (whole_image h) f s t) s"
    if "\<And>x y s. in_array h x y \<Longrightarrow> wpS (body x y) (\<lambda>_. painted {(x, y)} f s) s" for body f prefix
    unfolding whole_image_def by (rule wp_run_sig, rule wp_for_pixels) (simp add: that in_image assms)
  note amean = amean_val_image[of h] and masked = saturate_mask[of h]
  note pixel =
    wp_value_pixel[where g = amean_val and f = "amean_image h",
      OF exact_sums(1)[OF assms(1,2)] _ amean wp_counts(1)]
    wp_value_pixel[where g = saturate and f = "mask_image h n w" for n w,
      OF exact_sums(2)[OF assms(1,2)] _ masked wp_painted_empty_seq[OF wp_counts]]
    wp_value_only[where g = amean_val and f = "amean_image h", OF sig_sums(1)[OF assms(1)] _ amean]
    wp_value_only[where g = saturate and f = "mask_image h n w" for n w,
      OF sig_sums(2)[OF assms(1)] _ masked]
  note progs = amean_main_def sharp_main_def laplacian_main_def amean_sig_def sharp_sig_def
    laplacian_sig_def masked_sig_def[abs_def] WIN_DIM_def
  from assms(3) consider
      "prog = amean_main b h args" "img = amean_image h"
    | "prog = amean_sig None h args" "img = amean_image h"
    | "prog = sharp_main b h args" "img = mask_image h 3 shrp_mask"
    | "prog = sharp_sig None h args" "img = mask_image h 3 shrp_mask"
    | "prog = laplacian_main b h args" "img = mask_image h 5 lap_mask"
    | "prog = laplacian_sig None h args" "img = mask_image h 5 lap_mask"
    by auto
  then show ?thesis
    by cases (simp_all only: progs, (rule main sig, erule pixel)+)
qed


text \<open>The mean filter on a uniform grey image of three by three pixels: 225 / 25 in the corner.\<close>

definition grey :: image_hdr where
  "grey = \<lparr>dims = 3, WIDHEI = 3, srcImageWidth = 3, srcImageHeight = 3, srcImage = \<lambda>x y c. 25,
     src_base = 4096, dst_base = 8192, psnr_addr = 64, can_open = \<lambda>f. True\<rparr>"

definition blank :: "unit kernel" where
  "blank = \<lparr>dstImage = \<lambda>x y c. 0, generator = (), events = []\<rparr>"

theorem filters_compute_witness:
  "wpS (amean_main \<lparr>sniper = True, gem5_ops = None\<rparr> grey [])
     (\<lambda>r t. r = 0 \<and> dstImage t 0 0 2 = 9 \<and> dstImage t 3 3 0 = 0) blank"
proof -
  have "{..<5::nat} = {0, 1, 2, 3, 4}" by auto
  then have "amean_image grey 0 0 = 9"
    by (simp add: amean_image_def weighted_def padded_def grey_def)
  then show ?thesis
    by (intro wp_mono[OF filters_compute[where h = grey and img = "amean_image grey" and args = "[]"]])
      (auto simp: painted_def whole_image_def grey_def blank_def)
qed

section \<open>The Sobel operators\<close>

lemma bindS_fails: "m s = Inl e \<Longrightarrow> bindS m k s = Inl e"
  and forS_fails: "f a s = Inl e \<Longrightarrow> forS f (a # as) s = Inl e"
  by (simp_all add: bindS_def forS_def)

text \<open>
  C40. The Sobel kernel of src/test never completes on a non-empty image, in any build: the condition that
  should keep the window inside the image governs the horizontal gradient only, and the vertical one
  reads a pixel outside the array at the first position.
\<close>

theorem sobel_leaves_image:
  assumes "0 < srcImageWidth h"
  shows "sobel_main b h args s = Inl OutOfBounds"
proof -
  obtain ps where product: "List.product [0..<3] [0..<3] = (0::nat, 0::nat) # ps"
    by (simp add: upt_rec)
  have first: "sobel_sums b h 0 0 t = Inl OutOfBounds" for t :: "'a kernel"
    unfolding sobel_sums_def product
    by (simp add: bindS_def retS_def src_at_def seqS_def assertS_def in_array_def)
  obtain xs where xs: "int_upto (srcImageWidth h) = 0 # xs"
    using assms by (simp add: int_upto_def upt_conv_Cons)
  have "for_pixels h (\<lambda>x y. bindS (sobel_sums b h x y) (f x y)) t = Inl OutOfBounds"
    for f and t :: "'a kernel"
    unfolding for_pixels_def xs by (intro forS_fails bindS_fails first)
  then show ?thesis
    using wp_start[of b h args "\<lambda>_ _. 0" s]
    by (auto simp: sobel_main_def run_kernel_def seqS_def bindS_def wpS_def)
qed

theorem sobel_leaves_image_witness:
  "sobel_main \<lparr>sniper = False, gem5_ops = None\<rparr> grey [] blank = Inl OutOfBounds"
  by (rule sobel_leaves_image) (simp add: grey_def)

text \<open>The image extended by zeros, by row and column, and the nine values around a pixel.\<close>

definition extended :: "image_hdr \<Rightarrow> int \<Rightarrow> int \<Rightarrow> int" where
  "extended h y x = (if 0 \<le> y \<and> y < srcImageHeight h \<and> 0 \<le> x \<and> x < srcImageWidth h
     then uint (srcImage h y x 0) else 0)"

definition around :: "image_hdr \<Rightarrow> int \<Rightarrow> int \<Rightarrow> int list" where
  "around h y x = map (\<lambda>(dy, dx). extended h (y + dy) (x + dx))
     [(-1, -1), (-1, 0), (-1, 1), (0, -1), (0, 0), (0, 1), (1, -1), (1, 0), (1, 1)]"

lemma fill_window_ok:
  assumes "\<And>out y x. (out, y, x) \<in> set cells \<Longrightarrow> out \<or> in_array h y x"
  shows "fill_window None h cells =
    retS (map (\<lambda>(out, y, x). if out then 0 else uint (srcImage h y x 0)) cells)"
proof -
  have "foldS (\<lambda>(out, y, x) w. bindS (if out then retS 0 else read_flt None h y x) (\<lambda>v. retS (w @ [v])))
      cells w = (retS (w @ map (\<lambda>(out, y, x). if out then 0 else uint (srcImage h y x 0)) cells) ::
        ('a kernel, int list) op)" for w
    using assms
  proof (induction cells arbitrary: w)
    case (Cons c cells)
    obtain out y x where c: "c = (out, y, x)" by (cases c) auto
    show ?case using Cons.IH Cons.prems[of out y x] Cons.prems by (cases out) (auto simp: c read_flt_eq)
  qed simp
  from this[of "[]"] show ?thesis by (simp add: fill_window_def)
qed

lemma windows_around:
  assumes "srcImageWidth h \<le> dims h" "srcImageHeight h \<le> dims h"
    and "0 \<le> x" "x < srcImageWidth h" "0 \<le> y" "y < srcImageHeight h"
  shows "HALF_WINDOW None h x y = retS (around h y x)"
    and "1 \<le> x \<Longrightarrow> x < srcImageWidth h - 1 \<Longrightarrow> 1 \<le> y \<Longrightarrow> y < srcImageHeight h - 1 \<Longrightarrow>
      WINDOW None h x y = retS (around h y x)"
  unfolding HALF_WINDOW_def WINDOW_def Let_def
  by (subst fill_window_ok, use assms in \<open>auto simp: in_array_def around_def extended_def\<close>)+


lemma isqrt_step:
  fixes n r :: int
  assumes "0 \<le> r" "r * r \<le> n" "n < (r + 2 ^ k) * (r + 2 ^ k)"
  shows "let q = foldl (\<lambda>r b. if (r + 2 ^ b) * (r + 2 ^ b) \<le> n then r + 2 ^ b else r) r (rev [0..<k])
    in 0 \<le> q \<and> q * q \<le> n \<and> n < (q + 1) * (q + 1)"
  using assms
proof (induction k arbitrary: r)
  case (Suc k)
  show ?case
    using Suc.IH[of "r + 2 ^ k"] Suc.IH[of r] Suc.prems by (simp add: Let_def add.assoc)
qed (simp add: Let_def)

lemma isqrt_root: "0 \<le> n \<Longrightarrow> n < 2 ^ 32 \<Longrightarrow> 0 \<le> isqrt n \<and> isqrt n * isqrt n \<le> n \<and> n < (isqrt n + 1) * (isqrt n + 1)"
  using isqrt_step[of 0 n 16] by (simp add: isqrt_def Let_def)

text \<open>The length of the gradient: the differences between the rows below and above and between the
  columns right and left, the middle pixel counted twice.\<close>

definition gradient_image :: "image_hdr \<Rightarrow> int \<Rightarrow> int \<Rightarrow> int" where
  "gradient_image h y x = (let p = (\<lambda>dy dx. extended h (y + dy) (x + dx));
     down = (p 1 (-1) + 2 * p 1 0 + p 1 1) - (p (-1) (-1) + 2 * p (-1) 0 + p (-1) 1);
     right = (p (-1) 1 + 2 * p 0 1 + p 1 1) - (p (-1) (-1) + 2 * p 0 (-1) + p 1 (-1));
     n = down * down + right * right
   in if n > 32768 then 180 else isqrt n)"

lemma sobel_around: "sobel (around h y x) = gradient_image h y x"
  by (simp add: sobel_def gradient_image_def convolve_def around_def kx_def ky_def Let_def upt_rec
    algebra_simps)

lemma wp_sobel_pixel:
  assumes "win = retS (around h y x)" "in_array h y x"
  shows "wpS (sobel_pixel h x y win) (\<lambda>_. painted {(y, x)} (gradient_image h) s) s"
  using wp_put_pixel[OF assms(2), of "gradient_image h y x" "gradient_image h" s]
  by (simp add: sobel_pixel_def assms(1) sobel_around)

text \<open>
  C15. Without fault injection, the Sobel program of src/data_significance stays inside the arrays and writes
  to every pixel the length of the gradient of the image extended by zeros, in whole numbers and cut
  to 180 above the root of 32768: the rows, columns and corners of the border included.
\<close>

theorem sobel_computes_gradient:
  assumes "0 < srcImageWidth h" "0 < srcImageHeight h"
    and "srcImageWidth h \<le> dims h" "srcImageHeight h \<le> dims h"
  shows "wpS (sobel_sig None h args)
    (\<lambda>r t. r = 0 \<and> painted ({0..<srcImageHeight h} \<times> {0..<srcImageWidth h}) (gradient_image h) s t) s"
proof -
  let ?W = "srcImageWidth h" and ?H = "srcImageHeight h" and ?f = "gradient_image h"
  have half: "wpS (half_pixel None h y x) (\<lambda>_. painted {(y, x)} ?f s) s"
    if "0 \<le> x" "x < ?W" "0 \<le> y" "y < ?H" for x y s
    unfolding half_pixel_def using that assms
    by (intro wp_sobel_pixel windows_around) (auto simp: in_array_def)
  have full: "wpS (sobel_pixel h x y (WINDOW None h x y)) (\<lambda>_. painted {(y, x)} ?f s) s"
    if "1 \<le> x" "x < ?W - 1" "1 \<le> y" "y < ?H - 1" for x y s
    using that assms by (intro wp_sobel_pixel windows_around(2)) (auto simp: in_array_def)
  have inner: "set (map int [1..<nat (k - 1)]) = {1..<k - 1}" for k
  proof
    show "{1..<k - 1} \<subseteq> set (map int [1..<nat (k - 1)])"
    proof
      fix i assume "i \<in> {1..<k - 1}"
      then have "i = int (nat i)" "nat i \<in> {1..<nat (k - 1)}" by auto
      then have "i \<in> int ` {1..<nat (k - 1)}" by (rule image_eqI)
      then show "i \<in> set (map int [1..<nat (k - 1)])" by simp
    qed
  qed auto
  have row: "wpS (sobel_row None h y) (\<lambda>_. painted ({y} \<times> {0..<?W}) ?f s) s" if "1 \<le> y" "y < ?H - 1"
    for y and s :: "'a kernel"
  proof -
    have "wpS (sobel_row None h y) (\<lambda>_. painted ({(y, 0)} \<union> ((\<Union>x\<in>{1..<?W - 1}. {(y, x)}) \<union> {(y, ?W - 1)})) ?f s) s"
      unfolding sobel_row_def inner[symmetric]
      by (intro wp_painted_seq wp_painted_for half full) (use that assms inner in auto)
    moreover have "{(y, 0)} \<union> ((\<Union>x\<in>{1..<?W - 1}. {(y, x)}) \<union> {(y, ?W - 1)}) = {y} \<times> {0..<?W}"
      using assms(1) by force
    ultimately show ?thesis by simp
  qed
  have "wpS (seqS (forS (half_pixel None h 0) (int_upto ?W))
     (seqS (forS (sobel_row None h) (map int [1..<nat (?H - 1)]))
           (forS (half_pixel None h (?H - 1)) (int_upto ?W))))
     (\<lambda>_. painted ((\<Union>x\<in>{0..<?W}. {(0, x)}) \<union> ((\<Union>y\<in>{1..<?H - 1}. {y} \<times> {0..<?W}) \<union>
       (\<Union>x\<in>{0..<?W}. {(?H - 1, x)}))) ?f s) s" for s :: "'a kernel"
    unfolding inner[symmetric] set_int_upto[symmetric]
    by (intro wp_painted_seq wp_painted_for half row[folded set_int_upto])
      (use assms inner set_int_upto in auto)
  moreover have "(\<Union>x\<in>{0..<?W}. {(0, x)}) \<union> ((\<Union>y\<in>{1..<?H - 1}. {y} \<times> {0..<?W}) \<union>
       (\<Union>x\<in>{0..<?W}. {(?H - 1, x)})) = {0..<?H} \<times> {0..<?W}"
    using assms(2) by force
  ultimately show ?thesis unfolding sobel_sig_def by (intro wp_run_sig) simp
qed

theorem sobel_computes_gradient_witness:
  "wpS (sobel_sig None grey []) (\<lambda>r t. r = 0 \<and> dstImage t 1 1 0 = 0 \<and> dstImage t 0 1 1 = 100) blank"
proof -
  have "gradient_image grey 1 1 = 0" "gradient_image grey 0 1 = 100"
    by (simp_all add: gradient_image_def extended_def grey_def Let_def isqrt_def upt_rec)
  then show ?thesis
    by (intro wp_mono[OF sobel_computes_gradient[of grey "[]"]])
      (auto simp: painted_def grey_def blank_def)
qed

end
