(* ===== verification/Power_State.thy ===== *)
theory Power_State
  imports Sniper_Monad Complex_Main "HOL-Library.Signed_Division"
begin

text \<open>
  The data of the power model \<open>src/mcpat/added\<close> (McPAT with arrays and adders at a reduced voltage):
  powers, access counts, the parameters of an array, the description of the chip read from XML, and
  what the model takes from code outside the repository.

  \<^item> Doubles are real numbers; rounding is left out. A division by zero, which in C++ gives an
    infinity or no number at all, ends in \<open>NotANumber\<close> (\<open>quotient\<close>), and so does a conversion to
    \<open>int\<close> of a number outside its range (\<open>cast_int\<close>).
  \<^item> \<open>new ArrayST(...)\<close>, \<open>init_interface\<close> and the operators \<open>+\<close> and \<open>*\<close> on powers are declared in
    headers and defined outside the repository: \<open>mcpat_env\<close> holds them. A record holds the members
    that the modelled functions use.
\<close>

section \<open>Numbers\<close>

definition quotient :: "real \<Rightarrow> real \<Rightarrow> real result" where
  "quotient x y = (if y = 0 then Inl NotANumber else Inr (x / y))"

definition trunc :: "real \<Rightarrow> int" where
  "trunc x = (if 0 \<le> x then \<lfloor>x\<rfloor> else \<lceil>x\<rceil>)"

definition cast_int :: "real \<Rightarrow> int result" where
  "cast_int x = (if - (2 ^ 31) \<le> trunc x \<and> trunc x < 2 ^ 31 then Inr (trunc x) else Inl NotANumber)"

text \<open>\<open>int(ceil(log2(x)))\<close>\<close>

definition ceil_log2 :: "real \<Rightarrow> int result" where
  "ceil_log2 x = (if 0 < x then Inr \<lceil>log 2 x\<rceil> else Inl NotANumber)"

text \<open>\<open>(unsigned int)round(temperature/10.0)*10\<close>\<close>

definition round_temp :: "real \<Rightarrow> u32" where
  "round_temp t = word_of_int (if 0 \<le> t then \<lfloor>t / 10 + 1 / 2\<rfloor> else \<lceil>t / 10 - 1 / 2\<rceil>) * 10"

text \<open>Division of two \<open>int\<close>s, towards zero.\<close>

definition int_quotient :: "int \<Rightarrow> int \<Rightarrow> int result" where
  "int_quotient a b = (if b = 0 then Inl NotANumber else Inr (a sdiv b))"

lemma quotient_eq [simp]: "y \<noteq> 0 \<Longrightarrow> quotient x y = Inr (x / y)" "quotient x 0 = Inl NotANumber"
  by (simp_all add: quotient_def)

lemma cast_int_pos: "0 \<le> x \<Longrightarrow> x < 2 ^ 31 \<Longrightarrow> cast_int x = Inr \<lfloor>x\<rfloor>"
  by (simp add: cast_int_def trunc_def floor_less_iff order_trans[of "- (2 ^ 31)" 0])

lemma ceil_log2_pos: "0 < x \<Longrightarrow> ceil_log2 x = Inr \<lceil>log 2 x\<rceil>"
  by (simp add: ceil_log2_def)

lemma ceil_log2_power: "ceil_log2 (2 ^ k) = Inr (int k)"
  by (simp add: ceil_log2_def log_nat_power)

lemma int_quotient_pos: "0 \<le> a \<Longrightarrow> 0 < b \<Longrightarrow> int_quotient a b = Inr (a div b)"
  by (simp add: int_quotient_def signed_divide_int_def sgn_if)

lemma sets_pos:
  fixes l w n :: int
  assumes "0 < l" "0 < w" "l * w \<le> n"
  shows "0 < n div l div w" "0 < n div l"
proof -
  have "0 < n div (l * w)" using assms by (simp add: pos_imp_zdiv_pos_iff)
  then show "0 < n div l div w" using assms(2) by (simp add: zdiv_zmult2_eq)
  have "l \<le> l * w" using assms(1,2) by simp
  then have "l \<le> n" using assms(3) by linarith
  then show "0 < n div l" using assms(1) by (simp add: pos_imp_zdiv_pos_iff)
qed

text \<open>A description of a cache (bytes, line, ways, banks) with positive sizes that fit an \<open>int\<close>.\<close>

definition sane_config :: "(nat \<Rightarrow> real) \<Rightarrow> bool" where
  "sane_config cfg \<longleftrightarrow> 0 \<le> cfg 0 \<and> cfg 0 < 2 ^ 31 \<and> 0 \<le> cfg 1 \<and> cfg 1 < 2 ^ 31 \<and>
     0 \<le> cfg 2 \<and> cfg 2 < 2 ^ 31 \<and> 0 \<le> cfg 3 \<and> cfg 3 < 2 ^ 31 \<and>
     0 < \<lfloor>cfg 1\<rfloor> \<and> 0 < \<lfloor>cfg 2\<rfloor> \<and> \<lfloor>cfg 1\<rfloor> * \<lfloor>cfg 2\<rfloor> \<le> \<lfloor>cfg 0\<rfloor>"

lemma sane_config_casts:
  assumes "sane_config cfg"
  shows "\<exists>sz l w b. cast_int (cfg 0) = Inr sz \<and> cast_int (cfg 1) = Inr l \<and> cast_int (cfg 2) = Inr w \<and>
    cast_int (cfg 3) = Inr b \<and> 0 < l \<and> 0 < w \<and> l * w \<le> sz \<and> 0 \<le> sz"
  using assms cast_int_pos by (simp add: sane_config_def)

section \<open>Powers and counts\<close>

record power_components =
  dynamic :: real
  leakage :: real
  gate_leakage :: real
  short_circuit :: real
  longer_channel_leakage :: real
  power_gated_leakage :: real

definition no_power :: power_components where
  "no_power = \<lparr>dynamic = 0, leakage = 0, gate_leakage = 0, short_circuit = 0,
     longer_channel_leakage = 0, power_gated_leakage = 0\<rparr>"

record power_def =
  readOp :: power_components
  writeOp :: power_components
  searchOp :: power_components

definition powerDef_reset :: power_def where
  "powerDef_reset = \<lparr>readOp = no_power, writeOp = no_power, searchOp = no_power\<rparr>"

lemma no_power_sel [simp]:
  "dynamic no_power = 0" "leakage no_power = 0" "gate_leakage no_power = 0"
  "short_circuit no_power = 0" "longer_channel_leakage no_power = 0"
  "power_gated_leakage no_power = 0"
  by (simp_all add: no_power_def)

lemma powerDef_reset_sel [simp]:
  "readOp powerDef_reset = no_power" "writeOp powerDef_reset = no_power"
  "searchOp powerDef_reset = no_power"
  by (simp_all add: powerDef_reset_def)

definition add_dynamic :: "real \<Rightarrow> power_def \<Rightarrow> power_def" where
  "add_dynamic x p = p\<lparr>readOp := (readOp p)\<lparr>dynamic := dynamic (readOp p) + x\<rparr>\<rparr>"

lemma add_dynamic_sel [simp]:
  "dynamic (readOp (add_dynamic x p)) = dynamic (readOp p) + x"
  "writeOp (add_dynamic x p) = writeOp p" "searchOp (add_dynamic x p) = searchOp p"
  by (simp_all add: add_dynamic_def)

text \<open>The coefficients \<open>double pppm[4]\<close> of dynamic, subthreshold, gate and short-circuit power.\<close>

type_synonym pppm = "real list"

record stats_components =
  ac_access :: real
  ac_hit :: real
  ac_miss :: real

record stats_def =
  readAc :: stats_components
  writeAc :: stats_components
  searchAc :: stats_components

text \<open>Accesses and misses are given, hits are what is left.\<close>

definition counted :: "real \<Rightarrow> real \<Rightarrow> stats_components" where
  "counted acc mis = \<lparr>ac_access = acc, ac_hit = acc - mis, ac_miss = mis\<rparr>"

definition set_access :: "real \<Rightarrow> real \<Rightarrow> stats_def \<Rightarrow> stats_def" where
  "set_access r w s = s\<lparr>readAc := (readAc s)\<lparr>ac_access := r\<rparr>, writeAc := (writeAc s)\<lparr>ac_access := w\<rparr>\<rparr>"

lemma counted_sel [simp]:
  "ac_access (counted a m) = a" "ac_hit (counted a m) = a - m" "ac_miss (counted a m) = m"
  by (simp_all add: counted_def)

lemma set_access_sel [simp]:
  "ac_access (readAc (set_access r w s)) = r" "ac_access (writeAc (set_access r w s)) = w"
  by (simp_all add: set_access_def)

section \<open>Arrays\<close>

datatype wire_type = Global | Global_5 | Global_10 | Global_20 | Global_30 | Low_swing | Semi_global
  | Transmission | Optical | Invalid_wtype

record input_parameter =
  cache_sz :: u32
  line_sz :: u32
  assoc :: u32
  nbanks :: u32
  out_w :: u32
  specific_tag :: bool
  tag_w :: u32
  access_mode :: u32
  obj_func_dyn_energy :: u32
  obj_func_dyn_power :: u32
  obj_func_leak_power :: u32
  obj_func_cycle_t :: u32
  F_sz_um :: real
  specific_hp_vdd :: bool
  hp_Vdd :: real
  specific_lstp_vdd :: bool
  lstp_Vdd :: real
  specific_lop_vdd :: bool
  lop_Vdd :: real
  num_rw_ports :: u32
  num_rd_ports :: u32
  num_wr_ports :: u32
  num_se_rd_ports :: u32
  num_search_ports :: u32
  is_cache :: bool
  pure_ram :: bool
  pure_cam :: bool
  temp :: u32
  data_arr_ram_cell_tech_type :: u32
  data_arr_peri_global_tech_type :: u32
  tag_arr_ram_cell_tech_type :: u32
  tag_arr_peri_global_tech_type :: u32
  wire_is_mat_type :: u32
  wire_os_mat_type :: u32
  wt :: wire_type
  ndbl :: int
  ndwl :: int
  nspd :: int
  ndsam1 :: int
  ndsam2 :: int
  ndcm :: int
  force_cache_config :: bool
  throughput :: real
  latency :: real
  approx_mode :: u32

record uca_org =
  uca_power :: power_def
  tag_power :: power_def          \<comment> \<open>\<open>tag_array2->power\<close>\<close>
  data_power :: power_def         \<comment> \<open>\<open>data_array2->power\<close>\<close>
  uca_area :: real
  cache_ht :: real

record array =
  l_ip :: input_parameter
  local_result :: uca_org
  arr_area :: real
  stats_t :: stats_def
  tdp_stats :: stats_def
  rtp_stats :: stats_def
  power_t :: power_def
  arr_power :: power_def
  arr_rt_power :: power_def

definition read_energy :: "array \<Rightarrow> real" where
  "read_energy a = dynamic (readOp (uca_power (local_result a)))"

definition write_energy :: "array \<Rightarrow> real" where
  "write_energy a = dynamic (writeOp (uca_power (local_result a)))"

definition search_energy :: "array \<Rightarrow> real" where
  "search_energy a = dynamic (searchOp (uca_power (local_result a)))"

section \<open>Code outside the repository\<close>

datatype core_type = OOO | Inorder
datatype device_ty = Core_device | LLC_device
datatype dir_type = ST | DC | SBT | NonDir
datatype cache_policy = Write_through | Write_back
datatype renaming_type = RAMbased | CAMbased
datatype scheduler_type = PhysicalRegFile | ReservationStation

text \<open>The technology a call of \<open>init_interface\<close> leaves in \<open>g_tp\<close> and \<open>g_ip\<close>, and the leakage functions,
  which read it. The widths are those of the transistors of an inverter. The call gets a pointer to
  the parameters and may change them.\<close>

datatype gate = nmos_gate | inv_gate | nand_gate | nor_gate
datatype channel = NCH | PCH

record tech =
  F_sz_nm :: real
  logic_scaling_co_eff :: real
  core_tx_density :: real
  min_w_nmos :: real
  max_w_nmos :: real
  peri_Vdd :: real
  R_per_um :: real
  sckt_co_eff :: real
  macro_layout_overhead :: real
  chip_layout_overhead :: real
  pmos_to_nmos_sz_ratio :: real
  cmos_Isub_leakage :: "real \<Rightarrow> real \<Rightarrow> nat \<Rightarrow> gate \<Rightarrow> real"
  cmos_Ig_leakage :: "real \<Rightarrow> real \<Rightarrow> nat \<Rightarrow> gate \<Rightarrow> real"
  simplified_nmos_leakage :: "real \<Rightarrow> real"
  drain_C :: "real \<Rightarrow> channel \<Rightarrow> nat \<Rightarrow> real"
  gate_C :: "real \<Rightarrow> real \<Rightarrow> real"
  NAND_area :: "nat \<Rightarrow> real \<Rightarrow> real \<Rightarrow> real"
  longer_channel_device_reduction :: "core_type \<Rightarrow> real"
  power_gating_leakage_reduction :: real

text \<open>An inverter.\<close>

definition Isub_leakage :: "tech \<Rightarrow> real \<Rightarrow> real \<Rightarrow> real" where
  "Isub_leakage g n p = cmos_Isub_leakage g n p 1 inv_gate"

definition Ig_leakage :: "tech \<Rightarrow> real \<Rightarrow> real \<Rightarrow> real" where
  "Ig_leakage g n p = cmos_Ig_leakage g n p 1 inv_gate"

text \<open>The parts of an instruction decoder and a wire, after they have computed their delays.\<close>

record decode_circuit =
  final_area :: real
  pre_area :: real          \<comment> \<open>both blocks and their drivers\<close>
  final_power :: power_def
  pre_power :: power_def

record link =
  link_area :: real
  link_power :: power_def

record mcpat_env =
  init_interface :: "input_parameter \<Rightarrow> tech \<times> input_parameter"
  ArrayST :: "input_parameter \<Rightarrow> string \<Rightarrow> device_ty \<Rightarrow> bool \<Rightarrow> core_type \<Rightarrow> array"
  power_plus :: "power_def \<Rightarrow> power_def \<Rightarrow> power_def"
  power_times :: "power_def \<Rightarrow> pppm \<Rightarrow> power_def"
  pppm_lkg :: pppm
  EXTRA_TAG_BITS :: int
  cdb_overhead :: real
  adjust_area :: "uca_org \<Rightarrow> uca_org"
  Decoders :: "tech \<Rightarrow> int \<Rightarrow> real \<Rightarrow> real \<Rightarrow> decode_circuit"
  interconnect :: "string \<Rightarrow> int \<Rightarrow> real \<Rightarrow> input_parameter \<Rightarrow> bool \<Rightarrow> core_type \<Rightarrow> link"
  logtwo :: "real \<Rightarrow> real"
  default_exist :: bool        \<comment> \<open>the default of the argument \<open>exist_\<close> of constructors\<close>
  Renaming_type_of :: "int \<Rightarrow> renaming_type"
  Scheduler_type_of :: "int \<Rightarrow> scheduler_type"
  Core_type_of :: "int \<Rightarrow> core_type"        \<comment> \<open>casts to enumerations\<close>
  Dir_type_of :: "int \<Rightarrow> dir_type"
  Cache_policy_of :: "int \<Rightarrow> cache_policy"

text \<open>What the sums of powers rely on: the operators work field by field, and \<open>pppm_lkg\<close> takes the
  leakage of an array but none of its dynamic power.\<close>

definition dynamic_ops :: "mcpat_env \<Rightarrow> bool" where
  "dynamic_ops e \<longleftrightarrow>
     (\<forall>p q. dynamic (readOp (power_plus e p q)) = dynamic (readOp p) + dynamic (readOp q)) \<and>
     (\<forall>p. dynamic (readOp (power_times e p (pppm_lkg e))) = 0)"

text \<open>The operators on powers, field by field: a sum is a sum, a product takes the first coefficient.\<close>

definition field_ops :: "mcpat_env \<Rightarrow> bool" where
  "field_ops e \<longleftrightarrow>
     (\<forall>p q. dynamic (readOp (power_plus e p q)) = dynamic (readOp p) + dynamic (readOp q)) \<and>
     (\<forall>p k. dynamic (readOp (power_times e p k)) = dynamic (readOp p) * k ! 0) \<and> pppm_lkg e ! 0 = 0"

lemma field_dynamic: "field_ops e \<Longrightarrow> dynamic_ops e"
  by (simp add: field_ops_def dynamic_ops_def)

section \<open>The description of the chip\<close>

record dcache_systemcore =
  dcache_config :: "nat \<Rightarrow> real"
  buffer_sizes :: "nat \<Rightarrow> int"
  read_accesses :: real
  write_accesses :: real
  read_misses :: real
  write_misses :: real
  approxVdd :: real
  approx_read_accesses :: real
  approx_write_accesses :: real
  approx_read_misses :: real
  approx_write_misses :: real
  approx_ratio :: real

record icache_systemcore =
  icache_config :: "nat \<Rightarrow> real"
  ic_buffer_sizes :: "nat \<Rightarrow> int"
  ic_read_accesses :: real
  ic_read_misses :: real

record predictor_systemcore =
  local_predictor_size :: "nat \<Rightarrow> int"
  local_predictor_entries :: int
  global_predictor_entries :: int
  global_predictor_bits :: int
  chooser_predictor_entries :: int
  chooser_predictor_bits :: int

record BTB_systemcore =
  BTB_config :: "nat \<Rightarrow> int"
  BTB_read_accesses :: real
  BTB_write_accesses :: real

text \<open>\<open>itlb_systemcore\<close> and \<open>dtlb_systemcore\<close>.\<close>

record tlb_systemcore =
  number_entries :: int
  tlb_accesses :: real
  tlb_misses :: real

text \<open>\<open>system_core\<close> in three parts: the parameters of the other units, their counts, and what the data cache
  and the functional units read.\<close>

record core_design =
  clock_rate :: int
  x_opt_local :: bool
  x_x86 :: bool
  micro_opcode_width :: int
  instruction_length :: int
  fetch_width :: int
  number_instruction_fetch_ports :: int
  decode_width :: int
  issue_width :: int
  peak_issue_width :: int
  commit_width :: int
  pipelines_per_core :: "nat \<Rightarrow> int"
  pipeline_depth :: "nat \<Rightarrow> int"
  ALU_per_core :: int
  FPU_per_core :: real
  MUL_per_core :: int
  instruction_buffer_size :: int
  instruction_window_scheme :: int
  instruction_window_size :: int
  fp_instruction_window_size :: int
  ROB_size :: int
  archi_Regs_IRF_size :: int
  archi_Regs_FRF_size :: int
  phy_Regs_IRF_size :: int
  phy_Regs_FRF_size :: int
  rename_scheme :: int
  register_windows_size :: int
  RAS_size :: int
  fp_issue_width :: int
  prediction_width :: int
  predictor :: predictor_systemcore
  x_pipeline_duty_cycle :: real
  x_IFU_duty_cycle :: real
  x_BR_duty_cycle :: real
  x_LSU_duty_cycle :: real
  x_MemManU_I_duty_cycle :: real
  x_MemManU_D_duty_cycle :: real
  x_ALU_duty_cycle :: real
  x_MUL_duty_cycle :: real
  x_FPU_duty_cycle :: real
  x_ALU_cdb_duty_cycle :: real
  x_MUL_cdb_duty_cycle :: real
  x_FPU_cdb_duty_cycle :: real

record core_counts = core_design +
  icache :: icache_systemcore
  itlb_x :: tlb_systemcore
  dtlb_x :: tlb_systemcore
  BTB_x :: BTB_systemcore
  x_total_cycles :: real
  x_idle_cycles :: real
  x_busy_cycles :: real
  total_instructions :: real
  fp_instructions :: real
  branch_instructions :: real
  branch_mispredictions :: real
  committed_int_instructions :: real
  committed_fp_instructions :: real
  function_calls :: real
  rename_reads :: real
  rename_writes :: real
  fp_rename_reads :: real
  fp_rename_writes :: real
  inst_window_reads :: real
  inst_window_writes :: real
  inst_window_wakeup_accesses :: real
  fp_inst_window_reads :: real
  fp_inst_window_writes :: real
  fp_inst_window_wakeup_accesses :: real
  ROB_reads :: real
  ROB_writes :: real
  int_regfile_reads :: real
  int_regfile_writes :: real
  float_regfile_reads :: real
  float_regfile_writes :: real
  cdb_alu_accesses :: real
  cdb_mul_accesses :: real
  cdb_fpu_accesses :: real

record system_core = core_counts +
  opcode_width :: int
  machine_type :: int
  number_hardware_threads :: int
  store_buffer_size :: int
  load_buffer_size :: int
  memory_ports :: int
  int_instructions :: real
  appadd_instructions :: real
  load_instructions :: real
  store_instructions :: real
  ialu_accesses :: real
  fpu_accesses :: real
  mul_accesses :: real
  core_vdd :: real
  dcache :: dcache_systemcore

text \<open>\<open>system_L2\<close>, \<open>system_L3\<close>: the fields the two types share; \<open>config\<close> is \<open>L2_config\<close> or \<open>L3_config\<close>.\<close>

record system_LX =
  config :: "nat \<Rightarrow> real"
  clockrate :: int
  device_type :: int
  lx_buffer_sizes :: "nat \<Rightarrow> int"
  vdd :: real
  lx_read_accesses :: real
  lx_write_accesses :: real
  lx_read_misses :: real
  lx_write_misses :: real
  lx_approxVdd :: real
  lx_approx_read_accesses :: real
  lx_approx_write_accesses :: real
  lx_approx_read_misses :: real
  lx_approx_write_misses :: real
  lx_approx_ratio :: real
  duty_cycle :: real
  merged_dir :: bool
  homenode_read_accesses :: real
  homenode_write_accesses :: real
  homenode_read_misses :: real
  homenode_write_misses :: real
  dir_duty_cycle :: real

record system_Directory =
  Directory_type :: int
  Dir_config :: "nat \<Rightarrow> real"
  dir_buffer_sizes :: "nat \<Rightarrow> int"
  dir_clockrate :: int
  dir_device_type :: int
  dir_vdd :: real
  dir_read_accesses :: real
  dir_write_accesses :: real
  dir_read_misses :: real
  dir_write_misses :: real
  directory_duty_cycle :: real

record root_system =
  number_of_cores :: int
  Private_L2 :: bool
  target_core_clockrate :: int
  Embedded :: bool
  machine_bits :: int
  virtual_address_width :: int
  physical_address_width :: int
  virtual_memory_page_size :: int
  homogeneous_cores :: int
  opt_clockrate :: bool
  total_cycles :: real
  sys_core :: "nat \<Rightarrow> system_core"
  sys_L2 :: "nat \<Rightarrow> system_LX"
  sys_L3 :: "nat \<Rightarrow> system_LX"
  sys_L1Directory :: "nat \<Rightarrow> system_Directory"
  sys_L2Directory :: "nat \<Rightarrow> system_Directory"

text \<open>\<open>CoreDynParam\<close>, in two parts as well.\<close>

record core_widths =
  x86 :: bool
  dyn_Embedded :: bool
  rm_ty :: renaming_type
  scheu_ty :: scheduler_type
  fetchW :: int
  decodeW :: int
  issueW :: int
  peak_issueW :: int
  commitW :: int
  peak_commitW :: int
  predictionW :: int
  fp_issueW :: int
  fp_decodeW :: int
  dyn_vdd :: real
  num_hthreads :: int
  multithreaded :: bool
  instr_length :: int
  pc_width :: int
  opcode_length :: int
  micro_opcode_length :: int
  num_pipelines :: int
  pipeline_stages :: int
  num_fp_pipelines :: int
  fp_pipeline_stages :: int
  int_data_width :: int
  fp_data_width :: int
  v_address_width :: int
  p_address_width :: int
  arch_ireg_width :: int
  arch_freg_width :: int
  phy_ireg_width :: int
  phy_freg_width :: int
  num_IRF_entry :: int
  num_FRF_entry :: int
  num_ifreelist_entries :: int
  num_ffreelist_entries :: int
  globalCheckpoint :: int
  perThreadState :: int
  regWindowing :: bool
  pppm_lkg_multhread :: pppm
  pipeline_duty_cycle :: real
  dyn_total_cycles :: real
  busy_cycles :: real
  idle_cycles :: real
  IFU_duty_cycle :: real
  BR_duty_cycle :: real
  MemManU_I_duty_cycle :: real
  MemManU_D_duty_cycle :: real
  ALU_cdb_duty_cycle :: real
  MUL_cdb_duty_cycle :: real
  FPU_cdb_duty_cycle :: real

record core_dyn_param = core_widths +
  core_ty :: core_type
  clockRate :: real
  executionTime :: real
  num_alus :: int
  num_fpus :: real
  num_muls :: int
  opt_local :: bool
  ALU_duty_cycle :: real
  FPU_duty_cycle :: real
  MUL_duty_cycle :: real
  LSU_duty_cycle :: real

section \<open>Steps on an object\<close>

text \<open>A step on the object behind a pointer member.\<close>

definition deref :: "('s \<Rightarrow> 'a option) \<Rightarrow> ('s, 'a) op" where
  "deref p = bindS (getS p) (\<lambda>x. case x of None \<Rightarrow> failS NullPointer | Some a \<Rightarrow> retS a)"

definition on_ptr ::
  "('s \<Rightarrow> 'a option) \<Rightarrow> (('a option \<Rightarrow> 'a option) \<Rightarrow> 's \<Rightarrow> 's) \<Rightarrow> ('a \<Rightarrow> 'a) \<Rightarrow> ('s, unit) op" where
  "on_ptr p upd f = bindS (deref p) (\<lambda>a. modS (upd (\<lambda>_. Some (f a))))"

lemma wp_deref [wp_simps]: "wpS (deref p) Q s \<longleftrightarrow> (\<exists>a. p s = Some a \<and> Q a s)"
  by (cases "p s") (simp_all add: deref_def wp_simps)

lemma wp_on_ptr [wp_simps]:
  "wpS (on_ptr p upd f) Q s \<longleftrightarrow> (\<exists>a. p s = Some a \<and> Q () (upd (\<lambda>_. Some (f a)) s))"
  by (simp add: on_ptr_def wp_simps)

text \<open>The counts of a buffer, copied to \<open>tdp_stats\<close> for the peak and to \<open>rtp_stats\<close> for the run.\<close>

definition load_tdp :: "real \<Rightarrow> real \<Rightarrow> array \<Rightarrow> array" where
  "load_tdp r w a = a\<lparr>stats_t := set_access r w (stats_t a), tdp_stats := set_access r w (stats_t a)\<rparr>"

definition load_rtp :: "real \<Rightarrow> real \<Rightarrow> array \<Rightarrow> array" where
  "load_rtp r w a = a\<lparr>stats_t := set_access r w (stats_t a), rtp_stats := set_access r w (stats_t a)\<rparr>"

definition ports :: "u32 \<Rightarrow> real" where
  "ports w = of_int (uint w)"

text \<open>The counts of the main array and of the array at the reduced voltage.\<close>

definition load_main :: "stats_components \<Rightarrow> stats_components \<Rightarrow> array \<Rightarrow> array" where
  "load_main r w a = a\<lparr>stats_t := (stats_t a)\<lparr>readAc := r, writeAc := w\<rparr>\<rparr>"

definition keep_tdp :: "array \<Rightarrow> array" where
  "keep_tdp a = a\<lparr>tdp_stats := stats_t a\<rparr>"

definition keep_rtp :: "array \<Rightarrow> array" where
  "keep_rtp a = a\<lparr>rtp_stats := stats_t a\<rparr>"

lemma loads_sel [simp]:
  "local_result (load_tdp r w a) = local_result a" "local_result (load_rtp r w a) = local_result a"
  "local_result (load_main x y a) = local_result a" "local_result (keep_tdp a) = local_result a"
  "local_result (keep_rtp a) = local_result a"
  "stats_t (keep_rtp a) = stats_t a" "stats_t (load_rtp r w a) = set_access r w (stats_t a)"
  by (simp_all add: load_tdp_def load_rtp_def load_main_def keep_tdp_def keep_rtp_def)

definition same_counts :: "stats_def \<Rightarrow> stats_def \<Rightarrow> bool" where
  "same_counts s t \<longleftrightarrow> readAc s = readAc t \<and> writeAc s = writeAc t"

definition tag_read :: "array \<Rightarrow> real" where
  "tag_read a = dynamic (readOp (tag_power (local_result a)))"

definition tag_write :: "array \<Rightarrow> real" where
  "tag_write a = dynamic (writeOp (tag_power (local_result a)))"

definition buffer_part :: "array \<Rightarrow> real" where
  "buffer_part b = ac_access (readAc (stats_t b)) * search_energy b +
     ac_access (writeAc (stats_t b)) * write_energy b"

text \<open>The four leakages of the mixed array: a share of \<open>approx_percent\<close> of the cells at the reduced voltage.
  The leakages of reading and writing are added.\<close>

definition mix :: "real \<Rightarrow> (power_components \<Rightarrow> real) \<Rightarrow> array \<Rightarrow> array \<Rightarrow> real" where
  "mix pct f ap ex = (f (readOp (uca_power (local_result ap))) * pct +
     f (readOp (uca_power (local_result ex))) * (100 - pct) +
     f (writeOp (uca_power (local_result ap))) * pct +
     f (writeOp (uca_power (local_result ex))) * (100 - pct)) / 100"

definition mixed_leakage :: "real \<Rightarrow> array \<Rightarrow> array \<Rightarrow> power_def" where
  "mixed_leakage pct ap ex = powerDef_reset\<lparr>readOp := no_power\<lparr>
     leakage := mix pct leakage ap ex,
     gate_leakage := mix pct gate_leakage ap ex,
     power_gated_leakage := mix pct power_gated_leakage ap ex,
     longer_channel_leakage := mix pct longer_channel_leakage ap ex\<rparr>\<rparr>"

lemma mixed_dynamic [simp]: "dynamic (readOp (mixed_leakage pct ap ex)) = 0"
  by (simp add: mixed_leakage_def)

text \<open>The parameters that are the same for every buffer of a cache.\<close>

definition buffer_ip ::
  "int \<Rightarrow> u32 \<Rightarrow> u32 \<Rightarrow> u32 \<Rightarrow> u32 \<Rightarrow> real \<Rightarrow> real \<Rightarrow> u32 \<Rightarrow> input_parameter \<Rightarrow> input_parameter" where
  "buffer_ip tag lsz csz ow mode thr lat rw ip = ip\<lparr>specific_tag := True, tag_w := word_of_int tag,
     line_sz := lsz, cache_sz := csz, assoc := 0, nbanks := 1, out_w := ow, access_mode := mode,
     throughput := thr, latency := lat, obj_func_dyn_energy := 0, obj_func_dyn_power := 0,
     obj_func_leak_power := 0, obj_func_cycle_t := 1, num_rw_ports := rw, num_rd_ports := 0,
     num_wr_ports := 0, num_se_rd_ports := 0\<rparr>"

section \<open>Two arrays at two voltages\<close>

text \<open>What the data cache and the lower levels promise of the energy \<open>parts\<close> of their two arrays: it is
  that of the original formula, \<open>whole\<close>, less the difference of the voltages on the approximate reads
  and writes.\<close>

locale two_voltages =
  fixes parts :: "array \<Rightarrow> array \<Rightarrow> real" and whole :: "array \<Rightarrow> real"
    and reads :: "stats_def \<Rightarrow> real" and writes :: "stats_def \<Rightarrow> real"
  assumes split: "parts a p = whole a - (reads (stats_t p) * (read_energy a - read_energy p) +
      writes (stats_t p) * (write_energy a - write_energy p))"
begin

lemma same_voltage: "read_energy p = read_energy a \<Longrightarrow> write_energy p = write_energy a \<Longrightarrow> parts a p = whole a"
  by (simp add: split)

lemma no_approximation: "reads (stats_t p) = 0 \<Longrightarrow> writes (stats_t p) = 0 \<Longrightarrow> parts a p = whole a"
  by (simp add: split)

lemma never_more:
  assumes "0 \<le> reads (stats_t p)" "0 \<le> writes (stats_t p)"
    and "read_energy p \<le> read_energy a" "write_energy p \<le> write_energy a"
  shows "parts a p \<le> whole a"
  using split[of a p] mult_nonneg_nonneg[OF assms(1), of "read_energy a - read_energy p"]
    mult_nonneg_nonneg[OF assms(2), of "write_energy a - write_energy p"] assms(3,4) by simp

end

section \<open>How an array was made\<close>

text \<open>The six parameters that decide the voltage.\<close>

definition volts :: "input_parameter \<Rightarrow> (bool \<times> real) \<times> (bool \<times> real) \<times> bool \<times> real" where
  "volts ip = ((specific_hp_vdd ip, hp_Vdd ip), (specific_lop_vdd ip, lop_Vdd ip), specific_lstp_vdd ip, lstp_Vdd ip)"

definition normal_ip :: "input_parameter \<Rightarrow> bool" where
  "normal_ip ip \<longleftrightarrow> approx_mode ip = 0 \<and> \<not> force_cache_config ip"

definition made_from :: "mcpat_env \<Rightarrow> (input_parameter \<Rightarrow> bool) \<Rightarrow> array option \<Rightarrow> bool" where
  "made_from e P x \<longleftrightarrow> (\<exists>ip nm dv ct. x = Some (ArrayST e ip nm dv True ct) \<and> P ip)"

section \<open>A small chip\<close>

text \<open>Concrete values for the examples. The dynamic energy of an array is quadratic in its voltage, its
  leakage linear.\<close>

definition small_ip :: input_parameter where
  "small_ip = \<lparr>cache_sz = 0, line_sz = 0, assoc = 0, nbanks = 1, out_w = 0, specific_tag = False,
     tag_w = 0, access_mode = 0, obj_func_dyn_energy = 0, obj_func_dyn_power = 0,
     obj_func_leak_power = 0, obj_func_cycle_t = 0, F_sz_um = 1, specific_hp_vdd = False, hp_Vdd = 2,
     specific_lstp_vdd = False, lstp_Vdd = 2, specific_lop_vdd = False, lop_Vdd = 2, num_rw_ports = 1,
     num_rd_ports = 0, num_wr_ports = 0, num_se_rd_ports = 0, num_search_ports = 0, is_cache = False,
     pure_ram = False, pure_cam = False, temp = 300, data_arr_ram_cell_tech_type = 0,
     data_arr_peri_global_tech_type = 0, tag_arr_ram_cell_tech_type = 0,
     tag_arr_peri_global_tech_type = 0, wire_is_mat_type = 0, wire_os_mat_type = 0, wt = Global,
     ndbl = 0, ndwl = 0, nspd = 0, ndsam1 = 0, ndsam2 = 0, ndcm = 0, force_cache_config = False,
     throughput = 1, latency = 1, approx_mode = 0\<rparr>"

definition small_tech :: tech where
  "small_tech = \<lparr>F_sz_nm = 90, logic_scaling_co_eff = 1, core_tx_density = 1, min_w_nmos = 1,
     max_w_nmos = 100, peri_Vdd = 1, R_per_um = 1, sckt_co_eff = 1, macro_layout_overhead = 1,
     chip_layout_overhead = 1, pmos_to_nmos_sz_ratio = 1,
     cmos_Isub_leakage = (\<lambda>n p _ _. n + p), cmos_Ig_leakage = (\<lambda>n p _ _. n + p),
     simplified_nmos_leakage = (\<lambda>w. w), drain_C = (\<lambda>w _ _. w), gate_C = (\<lambda>w _. w),
     NAND_area = (\<lambda>_ n p. n + p),
     longer_channel_device_reduction = (\<lambda>_. 1), power_gating_leakage_reduction = 1\<rparr>"

definition flat_power :: "real \<Rightarrow> real \<Rightarrow> power_components" where
  "flat_power d l = no_power\<lparr>dynamic := d, leakage := l, gate_leakage := l\<rparr>"

definition power3 :: "power_components \<Rightarrow> power_def" where
  "power3 p = \<lparr>readOp = p, writeOp = p, searchOp = p\<rparr>"

definition no_stats :: stats_def where
  "no_stats = \<lparr>readAc = counted 0 0, writeAc = counted 0 0, searchAc = counted 0 0\<rparr>"

definition small_array :: "input_parameter \<Rightarrow> array" where
  "small_array ip = \<lparr>l_ip = ip,
     local_result = \<lparr>uca_power = power3 (flat_power (hp_Vdd ip * hp_Vdd ip) (hp_Vdd ip)),
       tag_power = power3 (flat_power 1 1), data_power = power3 (flat_power 2 1), uca_area = 1, cache_ht = 1\<rparr>,
     arr_area = 0, stats_t = no_stats, tdp_stats = no_stats, rtp_stats = no_stats,
     power_t = powerDef_reset, arr_power = powerDef_reset, arr_rt_power = powerDef_reset\<rparr>"

definition comp_plus :: "power_components \<Rightarrow> power_components \<Rightarrow> power_components" where
  "comp_plus p q = \<lparr>dynamic = dynamic p + dynamic q, leakage = leakage p + leakage q,
     gate_leakage = gate_leakage p + gate_leakage q, short_circuit = short_circuit p + short_circuit q,
     longer_channel_leakage = longer_channel_leakage p + longer_channel_leakage q,
     power_gated_leakage = power_gated_leakage p + power_gated_leakage q\<rparr>"

definition comp_times :: "power_components \<Rightarrow> pppm \<Rightarrow> power_components" where
  "comp_times p k = \<lparr>dynamic = dynamic p * k ! 0, leakage = leakage p * k ! 1,
     gate_leakage = gate_leakage p * k ! 2, short_circuit = short_circuit p * k ! 3,
     longer_channel_leakage = longer_channel_leakage p * k ! 1,
     power_gated_leakage = power_gated_leakage p * k ! 1\<rparr>"

definition small_env :: mcpat_env where
  "small_env = \<lparr>init_interface = (\<lambda>ip. (small_tech, ip)), ArrayST = (\<lambda>ip _ _ _ _. small_array ip),
     power_plus = (\<lambda>p q. \<lparr>readOp = comp_plus (readOp p) (readOp q),
       writeOp = comp_plus (writeOp p) (writeOp q), searchOp = comp_plus (searchOp p) (searchOp q)\<rparr>),
     power_times = (\<lambda>p k. \<lparr>readOp = comp_times (readOp p) k, writeOp = comp_times (writeOp p) k,
       searchOp = comp_times (searchOp p) k\<rparr>),
     pppm_lkg = [0, 1, 1, 0], EXTRA_TAG_BITS = 5, cdb_overhead = 1,
     adjust_area = (\<lambda>r. r),
     Decoders = (\<lambda>_ n _ _. \<lparr>final_area = of_int n, pre_area = 1, final_power = power3 (flat_power 1 1),
       pre_power = power3 (flat_power 1 1)\<rparr>),
     interconnect = (\<lambda>_ w l _ _ _. \<lparr>link_area = of_int w, link_power = power3 (flat_power 1 1)\<rparr>),
     logtwo = log 2, default_exist = True,
     Renaming_type_of = (\<lambda>k. if k = 0 then RAMbased else CAMbased),
     Scheduler_type_of = (\<lambda>k. if k = 0 then PhysicalRegFile else ReservationStation),
     Core_type_of = (\<lambda>k. if k = 0 then OOO else Inorder),
     Dir_type_of = (\<lambda>k. if k = 0 then ST else if k = 1 then DC else if k = 2 then SBT else NonDir),
     Cache_policy_of = (\<lambda>k. if k = 0 then Write_through else Write_back)\<rparr>"

lemma small_env_dynamic: "dynamic_ops small_env"
  by (simp add: dynamic_ops_def small_env_def comp_plus_def comp_times_def)

definition small_dcache :: dcache_systemcore where
  "small_dcache = \<lparr>dcache_config = (\<lambda>k. [32768, 64, 8, 1, 1, 3, 0, 1] ! k), buffer_sizes = (\<lambda>_. 16),
     read_accesses = 100, write_accesses = 50, read_misses = 10, write_misses = 6, approxVdd = 1,
     approx_read_accesses = 40, approx_write_accesses = 20, approx_read_misses = 4,
     approx_write_misses = 2, approx_ratio = 25\<rparr>"

definition small_tlb :: tlb_systemcore where
  "small_tlb = \<lparr>number_entries = 64, tlb_accesses = 100, tlb_misses = 2\<rparr>"

definition small_core :: system_core where
  "small_core = \<lparr>clock_rate = 1, x_opt_local = True, x_x86 = True, micro_opcode_width = 8,
     instruction_length = 32, fetch_width = 4, number_instruction_fetch_ports = 1, decode_width = 4,
     issue_width = 4, peak_issue_width = 4, commit_width = 4, pipelines_per_core = (\<lambda>_. 1),
     pipeline_depth = (\<lambda>_. 12), ALU_per_core = 2, FPU_per_core = 1, MUL_per_core = 1,
     instruction_buffer_size = 16, instruction_window_scheme = 0, instruction_window_size = 32,
     fp_instruction_window_size = 32, ROB_size = 64, archi_Regs_IRF_size = 16,
     archi_Regs_FRF_size = 32, phy_Regs_IRF_size = 128, phy_Regs_FRF_size = 128, rename_scheme = 0,
     register_windows_size = 0, RAS_size = 64, fp_issue_width = 2, prediction_width = 1,
     predictor = \<lparr>local_predictor_size = (\<lambda>_. 10), local_predictor_entries = 1024,
       global_predictor_entries = 4096, global_predictor_bits = 2, chooser_predictor_entries = 4096,
       chooser_predictor_bits = 2\<rparr>,
     x_pipeline_duty_cycle = 1, x_IFU_duty_cycle = 1, x_BR_duty_cycle = 1, x_LSU_duty_cycle = 1,
     x_MemManU_I_duty_cycle = 1, x_MemManU_D_duty_cycle = 1, x_ALU_duty_cycle = 1,
     x_MUL_duty_cycle = 1, x_FPU_duty_cycle = 1, x_ALU_cdb_duty_cycle = 1, x_MUL_cdb_duty_cycle = 1,
     x_FPU_cdb_duty_cycle = 1,
     icache = \<lparr>icache_config = (\<lambda>k. [32768, 64, 4, 1, 1, 3, 0, 1] ! k), ic_buffer_sizes = (\<lambda>_. 16),
       ic_read_accesses = 200, ic_read_misses = 5\<rparr>,
     itlb_x = small_tlb, dtlb_x = small_tlb,
     BTB_x = \<lparr>BTB_config = (\<lambda>k. [8192, 4, 2, 1, 1, 3] ! k), BTB_read_accesses = 30,
       BTB_write_accesses = 3\<rparr>,
     x_total_cycles = 1000, x_idle_cycles = 100, x_busy_cycles = 900, total_instructions = 200,
     fp_instructions = 20, branch_instructions = 30, branch_mispredictions = 3,
     committed_int_instructions = 100, committed_fp_instructions = 20, function_calls = 5,
     rename_reads = 200, rename_writes = 100, fp_rename_reads = 40, fp_rename_writes = 20,
     inst_window_reads = 100, inst_window_writes = 100, inst_window_wakeup_accesses = 200,
     fp_inst_window_reads = 20, fp_inst_window_writes = 20, fp_inst_window_wakeup_accesses = 40,
     ROB_reads = 200, ROB_writes = 200, int_regfile_reads = 200, int_regfile_writes = 100,
     float_regfile_reads = 40, float_regfile_writes = 20, cdb_alu_accesses = 80,
     cdb_mul_accesses = 10, cdb_fpu_accesses = 10,
     opcode_width = 16, machine_type = 0, number_hardware_threads = 1,
     store_buffer_size = 8, load_buffer_size = 8, memory_ports = 1, int_instructions = 100,
     appadd_instructions = 25, load_instructions = 30, store_instructions = 20, ialu_accesses = 80,
     fpu_accesses = 10, mul_accesses = 10, core_vdd = 0, dcache = small_dcache\<rparr>"

definition small_LX :: system_LX where
  "small_LX = \<lparr>config = (\<lambda>k. [262144, 64, 8, 1, 4, 8] ! k), clockrate = 1000, device_type = 0,
     lx_buffer_sizes = (\<lambda>_. 16), vdd = 0, lx_read_accesses = 100, lx_write_accesses = 50,
     lx_read_misses = 10, lx_write_misses = 6, lx_approxVdd = 1, lx_approx_read_accesses = 40,
     lx_approx_write_accesses = 20, lx_approx_read_misses = 4, lx_approx_write_misses = 2,
     lx_approx_ratio = 25, duty_cycle = 1, merged_dir = False, homenode_read_accesses = 0,
     homenode_write_accesses = 0, homenode_read_misses = 0, homenode_write_misses = 0,
     dir_duty_cycle = 1\<rparr>"

definition small_dir :: system_Directory where
  "small_dir = \<lparr>Directory_type = 0, Dir_config = (\<lambda>k. [2048, 1, 1, 1, 4, 4] ! k),
     dir_buffer_sizes = (\<lambda>_. 8), dir_clockrate = 1000, dir_device_type = 0, dir_vdd = 0,
     dir_read_accesses = 10, dir_write_accesses = 5, dir_read_misses = 1, dir_write_misses = 1,
     directory_duty_cycle = 1\<rparr>"

definition small_sys :: root_system where
  "small_sys = \<lparr>number_of_cores = 1, Private_L2 = False, target_core_clockrate = 1000,
     Embedded = False, machine_bits = 64, virtual_address_width = 64, physical_address_width = 52,
     virtual_memory_page_size = 4096, homogeneous_cores = 0, opt_clockrate = True, total_cycles = 1000, sys_core = (\<lambda>_. small_core), sys_L2 = (\<lambda>_. small_LX),
     sys_L3 = (\<lambda>_. small_LX), sys_L1Directory = (\<lambda>_. small_dir), sys_L2Directory = (\<lambda>_. small_dir)\<rparr>"

definition small_params :: core_dyn_param where
  "small_params = \<lparr>x86 = True, dyn_Embedded = False, rm_ty = RAMbased, scheu_ty = PhysicalRegFile,
     fetchW = 4, decodeW = 4, issueW = 4, peak_issueW = 4, commitW = 4, peak_commitW = 4,
     predictionW = 1, fp_issueW = 2, fp_decodeW = 2, dyn_vdd = 0, num_hthreads = 1,
     multithreaded = False, instr_length = 32, pc_width = 64, opcode_length = 16,
     micro_opcode_length = 8, num_pipelines = 1, pipeline_stages = 12, num_fp_pipelines = 1,
     fp_pipeline_stages = 12, int_data_width = 64, fp_data_width = 64, v_address_width = 64,
     p_address_width = 52, arch_ireg_width = 4, arch_freg_width = 5, phy_ireg_width = 7,
     phy_freg_width = 7, num_IRF_entry = 128, num_FRF_entry = 128, num_ifreelist_entries = 128,
     num_ffreelist_entries = 128, globalCheckpoint = 8, perThreadState = 8, regWindowing = False,
     pppm_lkg_multhread = [0, 1, 1, 0], pipeline_duty_cycle = 1, dyn_total_cycles = 1000,
     busy_cycles = 900, idle_cycles = 100, IFU_duty_cycle = 1, BR_duty_cycle = 1,
     MemManU_I_duty_cycle = 1, MemManU_D_duty_cycle = 1, ALU_cdb_duty_cycle = 1,
     MUL_cdb_duty_cycle = 1, FPU_cdb_duty_cycle = 1,
     core_ty = OOO, clockRate = 1000000, executionTime = 1, num_alus = 2, num_fpus = 1,
     num_muls = 1, opt_local = True, ALU_duty_cycle = 1, FPU_duty_cycle = 1, MUL_duty_cycle = 1,
     LSU_duty_cycle = 1\<rparr>"

lemma small_sel [simp]:
  "init_interface small_env ip = (small_tech, ip)" "ArrayST small_env ip nm dv ol ct = small_array ip"
  "Embedded small_sys = False" "sys_core small_sys i = small_core" "clockRate small_params = 1000000"
  "int_instructions small_core = 100" "appadd_instructions small_core = 25"
  by (simp_all add: small_env_def small_sys_def small_params_def small_core_def)

end
