(* ===== verification/Power_Units.thy ===== *)
theory Power_Units
  imports Power_State
begin

text \<open>
  \<open>class FunctionalUnit\<close> of \<open>src/mcpat/added/logic.cc\<close>: the power of the adders, multipliers and
  floating-point units of a core. An approximate adder has its own energies and leakages, and
  \<open>computeEnergy\<close> averages exact and approximate values by the share of approximate additions.
\<close>

section \<open>The unit\<close>

datatype FU_type = FPU | ALU | MUL

record functional_unit =
  fu_ip :: input_parameter
  ithCore :: nat
  fu_type :: FU_type
  FU_height :: real
  num_fu :: real
  base_energy :: real
  per_access_energy :: real
  fu_leakage :: real
  fu_gate_leakage :: real
  base_energy_approx :: real
  per_access_energy_approx :: real
  leakage_approx :: real
  gate_leakage_approx :: real
  fu_area :: real
  fu_stats_t :: stats_def
  fu_tdp_stats :: stats_def
  fu_rtp_stats :: stats_def
  fu_power :: power_def
  fu_rt_power :: power_def

text \<open>The inverter whose leakage stands for the unit; its transistors are \<open>m\<close> times the minimal width and
  \<open>r\<close> is the ratio of their sizes.\<close>

definition inv_Isub :: "tech \<Rightarrow> real \<Rightarrow> real \<Rightarrow> real" where
  "inv_Isub g r m = Isub_leakage g (m * min_w_nmos g) (m * min_w_nmos g * r)"

definition inv_Ig :: "tech \<Rightarrow> real \<Rightarrow> real \<Rightarrow> real" where
  "inv_Ig g r m = Ig_leakage g (m * min_w_nmos g) (m * min_w_nmos g * r)"

definition sub_leak :: "tech \<Rightarrow> real \<Rightarrow> real \<Rightarrow> real \<Rightarrow> real" where
  "sub_leak g r area m = area * core_tx_density g * inv_Isub g r m * peri_Vdd g / 2"

definition gate_leak :: "tech \<Rightarrow> real \<Rightarrow> real \<Rightarrow> real \<Rightarrow> real" where
  "gate_leak g r area m = area * core_tx_density g * inv_Ig g r m * peri_Vdd g / 2"

definition fpu_area :: "tech \<Rightarrow> real \<Rightarrow> real" where
  "fpu_area g c = (if F_sz_nm g > 90 then c * 10 ^ 6 * logic_scaling_co_eff g
                   else c * 10 ^ 6 * (F_sz_nm g * F_sz_nm g / 90 / 90))"

text \<open>\<open>area_t\<close>, the multiple of the minimal width, the base energy of an out-of-order core, the
  energy per access before scaling, and the height.\<close>

definition unit_area :: "bool \<Rightarrow> tech \<Rightarrow> FU_type \<Rightarrow> real" where
  "unit_area embedded g t = (case t of
      FPU \<Rightarrow> fpu_area g (if embedded then 4.47 else 8.47)
    | ALU \<Rightarrow> (if embedded then 280 * 260 else 280 * 260 * 2) * logic_scaling_co_eff g
    | MUL \<Rightarrow> (if embedded then 280 * 260 * 3 else 280 * 260 * 2 * 3) * logic_scaling_co_eff g)"

definition unit_width :: "FU_type \<Rightarrow> real" where
  "unit_width t = (case t of FPU \<Rightarrow> 5 | ALU \<Rightarrow> 20 | MUL \<Rightarrow> 20)"

definition unit_base :: "bool \<Rightarrow> tech \<Rightarrow> core_type \<Rightarrow> FU_type \<Rightarrow> real" where
  "unit_base embedded g ct t =
     (if embedded then 0
      else (if ct = Inorder then 0
            else case t of FPU \<Rightarrow> 0.089 * 3 | ALU \<Rightarrow> 0.089 | MUL \<Rightarrow> 0.089 * 2)
        * (peri_Vdd g * peri_Vdd g / 1.2 / 1.2))"

definition unit_access :: "bool \<Rightarrow> tech \<Rightarrow> FU_type \<Rightarrow> real" where
  "unit_access embedded g t =
     (let k = (case t of FPU \<Rightarrow> (if embedded then 1.15 else 1.15 * 3)
                | ALU \<Rightarrow> (if embedded then 1.15 / 3 else 1.15)
                | MUL \<Rightarrow> (if embedded then 1.15 * 2 / 3 else 1.15 * 2));
          x = k / 10 ^ 9 / 4 / 1.3 / 1.3 * peri_Vdd g * peri_Vdd g * (F_sz_nm g / 90)
      in if embedded then x * 0.5 else x)"

definition unit_height :: "bool \<Rightarrow> FU_type \<Rightarrow> real" where
  "unit_height embedded t =
     (case t of FPU \<Rightarrow> (if embedded then 18667 else 38667) | ALU \<Rightarrow> 6222 | MUL \<Rightarrow> 9334)"

definition unit_count :: "core_dyn_param \<Rightarrow> FU_type \<Rightarrow> real" where
  "unit_count c t = (case t of FPU \<Rightarrow> num_fpus c | ALU \<Rightarrow> of_int (num_alus c) | MUL \<Rightarrow> of_int (num_muls c))"

text \<open>The values of the approximate adder (window of four bits) are set for the adder of a core that
  is not embedded only. The smaller of two estimates of its leakage is taken.\<close>

definition approx_area :: "real \<Rightarrow> real" where
  "approx_area a = a * 65.66 / 89.80"

definition approx_energy :: "real \<Rightarrow> real" where
  "approx_energy x = x * 1.874 / 5.789"

definition approx_leakage :: "tech \<Rightarrow> real \<Rightarrow> real \<Rightarrow> real \<Rightarrow> real" where
  "approx_leakage g r area lk =
     (let l1 = sub_leak g r (approx_area area) 20; l2 = lk * 41.8 / 58.22
      in if l1 < l2 then l1 else l2)"

definition has_approx :: "bool \<Rightarrow> FU_type \<Rightarrow> bool" where
  "has_approx embedded t \<longleftrightarrow> \<not> embedded \<and> t = ALU"

text \<open>The constructor reads the ratio from the globals \<open>g0\<close> it finds, before \<open>init_interface\<close> sets them.\<close>

definition FunctionalUnit ::
  "mcpat_env \<Rightarrow> tech \<Rightarrow> root_system \<Rightarrow> nat \<Rightarrow> input_parameter \<Rightarrow> core_dyn_param \<Rightarrow> FU_type \<Rightarrow>
     stats_def \<Rightarrow> functional_unit" where
  "FunctionalUnit e g0 sys i ip c t junk =
     (let r = pmos_to_nmos_sz_ratio g0; (g, ip) = init_interface e ip; n = unit_count c t; emb = Embedded sys;
          area_t = unit_area emb g t;
          lk = sub_leak g r area_t (unit_width t);
          glk = gate_leak g r area_t (unit_width t);
          base = unit_base emb g (core_ty c) t;
          acc = unit_access emb g t;
          ap = has_approx emb t
      in \<lparr>fu_ip = ip, ithCore = i, fu_type = t,
          FU_height = unit_height emb t * n * F_sz_um ip, num_fu = n,
          base_energy = base, per_access_energy = acc,
          fu_leakage = lk * n, fu_gate_leakage = glk * n,
          base_energy_approx = (if ap then approx_energy base else 0),
          per_access_energy_approx = (if ap then approx_energy acc else 0),
          leakage_approx = (if ap then approx_leakage g r area_t lk else 0) * n,
          gate_leakage_approx = (if ap then gate_leak g r (approx_area area_t) 20 else 0) * n,
          fu_area = area_t * n * macro_layout_overhead g,
          fu_stats_t = junk, fu_tdp_stats = junk, fu_rtp_stats = junk,
          fu_power = powerDef_reset, fu_rt_power = powerDef_reset\<rparr>)"

section \<open>Energy\<close>

text \<open>The average by the numbers of exact and approximate operations.\<close>

definition weighted :: "real \<Rightarrow> real \<Rightarrow> real \<Rightarrow> real \<Rightarrow> real result" where
  "weighted x exact_n y app_n = quotient (x * exact_n + y * app_n) (exact_n + app_n)"

definition exact_instructions :: "root_system \<Rightarrow> functional_unit \<Rightarrow> real" where
  "exact_instructions sys u =
     int_instructions (sys_core sys (ithCore u)) - appadd_instructions (sys_core sys (ithCore u))"

definition unit_duty :: "core_dyn_param \<Rightarrow> FU_type \<Rightarrow> real" where
  "unit_duty c t = (case t of FPU \<Rightarrow> FPU_duty_cycle c | ALU \<Rightarrow> ALU_duty_cycle c | MUL \<Rightarrow> MUL_duty_cycle c)"

definition unit_accesses :: "root_system \<Rightarrow> functional_unit \<Rightarrow> real" where
  "unit_accesses sys u = (case fu_type u of
      FPU \<Rightarrow> fpu_accesses (sys_core sys (ithCore u))
    | ALU \<Rightarrow> ialu_accesses (sys_core sys (ithCore u))
    | MUL \<Rightarrow> mul_accesses (sys_core sys (ithCore u)))"

definition set_read_access :: "real \<Rightarrow> stats_def \<Rightarrow> stats_def" where
  "set_read_access x s = s\<lparr>readAc := (readAc s)\<lparr>ac_access := x\<rparr>\<rparr>"

text \<open>\<open>writeOp\<close> and \<open>searchOp\<close> are scaled by the same coefficient.\<close>

definition scale_rest :: "real \<Rightarrow> power_def \<Rightarrow> power_def" where
  "scale_rest k p = p\<lparr>writeOp := (writeOp p)\<lparr>dynamic := dynamic (writeOp p) * k\<rparr>,
     searchOp := (searchOp p)\<lparr>dynamic := dynamic (searchOp p) * k\<rparr>\<rparr>"

definition peak_energy :: "tech \<Rightarrow> root_system \<Rightarrow> core_dyn_param \<Rightarrow> functional_unit \<Rightarrow> functional_unit result" where
  "peak_energy g sys c u =
     (let app = appadd_instructions (sys_core sys (ithCore u)); ex = exact_instructions sys u;
          st = set_read_access (num_fu u) (fu_stats_t u); acc = num_fu u in
      bindE (quotient (base_energy u) (clockRate c)) (\<lambda>b.
      bindE (quotient (base_energy_approx u) (clockRate c)) (\<lambda>b_app.
      bindE (weighted (per_access_energy u * acc + b) ex (per_access_energy_approx u * acc + b_app) app) (\<lambda>dyn.
      bindE (weighted (fu_leakage u) ex (leakage_approx u) app) (\<lambda>lk.
      bindE (weighted (fu_gate_leakage u) ex (gate_leakage_approx u) app) (\<lambda>glk.
      Inr (u\<lparr>fu_stats_t := st, fu_tdp_stats := st,
        fu_power := scale_rest (sckt_co_eff g) ((fu_power u)\<lparr>readOp := (readOp (fu_power u))\<lparr>
          dynamic := dyn * (sckt_co_eff g * unit_duty c (fu_type u)),
          leakage := lk, gate_leakage := glk,
          longer_channel_leakage := lk * longer_channel_device_reduction g (core_ty c),
          power_gated_leakage := lk * power_gating_leakage_reduction g\<rparr>\<rparr>)\<rparr>)))))))"

definition runtime_energy :: "tech \<Rightarrow> root_system \<Rightarrow> core_dyn_param \<Rightarrow> functional_unit \<Rightarrow> functional_unit result" where
  "runtime_energy g sys c u =
     (let app = appadd_instructions (sys_core sys (ithCore u)); ex = exact_instructions sys u;
          acc = unit_accesses sys u; st = set_read_access acc (fu_stats_t u) in
      bindE (weighted (per_access_energy u * acc + base_energy u * executionTime c) ex
               (per_access_energy_approx u * acc + base_energy_approx u * executionTime c) app) (\<lambda>dyn.
      Inr (u\<lparr>fu_stats_t := st, fu_rtp_stats := st,
        fu_rt_power := scale_rest (sckt_co_eff g) ((fu_rt_power u)\<lparr>readOp := (readOp (fu_rt_power u))\<lparr>
          dynamic := dyn * sckt_co_eff g\<rparr>\<rparr>)\<rparr>)))"

definition computeEnergy ::
  "bool \<Rightarrow> tech \<Rightarrow> root_system \<Rightarrow> core_dyn_param \<Rightarrow> functional_unit \<Rightarrow> functional_unit result" where
  "computeEnergy is_tdp g sys c u = (if is_tdp then peak_energy g sys c u else runtime_energy g sys c u)"

section \<open>Leakage at another temperature\<close>

definition feedback_area :: "tech \<Rightarrow> functional_unit \<Rightarrow> real" where
  "feedback_area g u = (case fu_type u of
      FPU \<Rightarrow> fpu_area g 4.47
    | ALU \<Rightarrow> 280 * 260 * 2 * num_fu u * logic_scaling_co_eff g
    | MUL \<Rightarrow> 280 * 260 * 2 * 3 * num_fu u * logic_scaling_co_eff g)"

definition leakage_feedback ::
  "mcpat_env \<Rightarrow> core_dyn_param \<Rightarrow> real \<Rightarrow> functional_unit \<Rightarrow> functional_unit" where
  "leakage_feedback e c temperature u =
     (let (g, ip) = init_interface e ((fu_ip u)\<lparr>temp := round_temp temperature\<rparr>);
          r = pmos_to_nmos_sz_ratio g; area_t = feedback_area g u;
          lk = sub_leak g r area_t (unit_width (fu_type u)) * num_fu u;
          glk = gate_leak g r area_t (unit_width (fu_type u)) * num_fu u
      in u\<lparr>fu_ip := ip, fu_power := (fu_power u)\<lparr>readOp := (readOp (fu_power u))\<lparr>
           leakage := lk, gate_leakage := glk,
           longer_channel_leakage := longer_channel_device_reduction g (core_ty c) * lk,
           power_gated_leakage := lk * power_gating_leakage_reduction g\<rparr>\<rparr>\<rparr>)"

section \<open>The share of approximate additions\<close>

definition exact_only :: "root_system \<Rightarrow> root_system" where
  "exact_only sys = sys\<lparr>sys_core := \<lambda>i. (sys_core sys i)\<lparr>appadd_instructions := 0\<rparr>\<rparr>"

definition unit_power :: "bool \<Rightarrow> functional_unit \<Rightarrow> power_components" where
  "unit_power is_tdp u = readOp (if is_tdp then fu_power u else fu_rt_power u)"

lemma weighted_eq:
  "ex + app \<noteq> 0 \<Longrightarrow> weighted x ex y app = Inr ((x * ex + y * app) / (ex + app))"
  "weighted x ex y (- ex) = Inl NotANumber"
  by (simp_all add: weighted_def)

lemma share_weights:
  fixes x n app q :: real
  assumes "n \<noteq> 0"
  shows "(x * (n - app) + q * x * app) / n = (1 - app / n * (1 - q)) * x"
  using assms by (simp add: field_simps)

lemma approx_leakage_ratio:
  assumes "lk = sub_leak g r a 20" "0 \<le> lk"
  shows "approx_leakage g r a lk = 41.8 / 58.22 * lk"
proof -
  have "sub_leak g r (approx_area a) 20 = 65.66 / 89.80 * lk"
    by (simp add: assms(1) sub_leak_def approx_area_def)
  then show ?thesis using assms(2) by (simp add: approx_leakage_def Let_def)
qed

lemma exact_only_sel [simp]:
  "int_instructions (sys_core (exact_only sys) i) = int_instructions (sys_core sys i)"
  "appadd_instructions (sys_core (exact_only sys) i) = 0"
  "exact_instructions (exact_only sys) u = int_instructions (sys_core sys (ithCore u))"
  "unit_accesses (exact_only sys) u = unit_accesses sys u"
  by (simp_all add: exact_only_def exact_instructions_def unit_accesses_def split: FU_type.split)

lemma exact_instructions_sum:
  "exact_instructions sys u + appadd_instructions (sys_core sys (ithCore u)) =
     int_instructions (sys_core sys (ithCore u))"
  by (simp add: exact_instructions_def)

text \<open>What an addition at the reduced accuracy takes of the energy and the leakages of an exact one. A
  unit without an approximate variant gets nothing.\<close>

definition energy_ratio :: "bool \<Rightarrow> FU_type \<Rightarrow> real" where
  "energy_ratio embedded t = (if has_approx embedded t then 1.874 / 5.789 else 0)"

definition leakage_ratio :: "bool \<Rightarrow> FU_type \<Rightarrow> real" where
  "leakage_ratio embedded t = (if has_approx embedded t then 41.8 / 58.22 else 0)"

definition gate_ratio :: "bool \<Rightarrow> FU_type \<Rightarrow> real" where
  "gate_ratio embedded t = (if has_approx embedded t then 65.66 / 89.80 else 0)"

lemma approx_values:
  assumes "u = FunctionalUnit e g0 sys i ip c t junk" "0 \<le> fu_leakage u" "0 < unit_count c t"
  shows "base_energy_approx u = energy_ratio (Embedded sys) t * base_energy u"
    and "per_access_energy_approx u = energy_ratio (Embedded sys) t * per_access_energy u"
    and "leakage_approx u = leakage_ratio (Embedded sys) t * fu_leakage u"
    and "gate_leakage_approx u = gate_ratio (Embedded sys) t * fu_gate_leakage u"
proof -
  obtain g jp where g: "init_interface e ip = (g, jp)" by fastforce
  note defs = assms(1) FunctionalUnit_def g Let_def energy_ratio_def leakage_ratio_def gate_ratio_def
  show "base_energy_approx u = energy_ratio (Embedded sys) t * base_energy u"
    "per_access_energy_approx u = energy_ratio (Embedded sys) t * per_access_energy u"
    by (simp_all add: defs approx_energy_def)
  show "gate_leakage_approx u = gate_ratio (Embedded sys) t * fu_gate_leakage u"
    by (simp add: defs gate_leak_def approx_area_def unit_width_def has_approx_def)
  have "0 \<le> sub_leak g (pmos_to_nmos_sz_ratio g0) (unit_area (Embedded sys) g t) (unit_width t)"
    using assms(2,3) by (simp add: defs zero_le_mult_iff)
  then show "leakage_approx u = leakage_ratio (Embedded sys) t * fu_leakage u"
    using approx_leakage_ratio[OF refl] by (auto simp: defs unit_width_def has_approx_def)
qed

lemma unit_sel:
  "fu_type (FunctionalUnit e g0 sys i ip c t junk) = t"
  "ithCore (FunctionalUnit e g0 sys i ip c t junk) = i"
  "num_fu (FunctionalUnit e g0 sys i ip c t junk) = unit_count c t"
  by (simp_all add: FunctionalUnit_def Let_def split: prod.split)

lemma weighted_share:
  assumes "n \<noteq> 0" "y = q * x" "ex + app = n"
  shows "weighted x ex y app = Inr ((1 - app / n * (1 - q)) * x)"
  using weighted_eq(1)[of ex app x y] share_weights[of n x app q] assms by (simp add: eq_diff_eq[symmetric])

lemma peak_ok:
  assumes u: "u = FunctionalUnit e g0 sys0 i ip c t junk" "0 \<le> fu_leakage u" "0 < unit_count c t"
    and n: "int_instructions (sys_core sys i) \<noteq> 0" "clockRate c \<noteq> 0"
  shows "\<exists>v. peak_energy g sys c u = Inr v \<and>
    (let a = appadd_instructions (sys_core sys i) / int_instructions (sys_core sys i);
         emb = Embedded sys0; p = readOp (fu_power v) in
     dynamic p = (1 - a * (1 - energy_ratio emb t)) *
       (per_access_energy u * num_fu u + base_energy u / clockRate c) * (sckt_co_eff g * unit_duty c t) \<and>
     leakage p = (1 - a * (1 - leakage_ratio emb t)) * fu_leakage u \<and>
     gate_leakage p = (1 - a * (1 - gate_ratio emb t)) * fu_gate_leakage u)"
proof -
  note v = approx_values[OF u]
  have sel: "ithCore u = i" "fu_type u = t" by (simp_all add: u(1) unit_sel)
  have sum: "exact_instructions sys u + appadd_instructions (sys_core sys i) = int_instructions (sys_core sys i)"
    using exact_instructions_sum[of sys u] sel by simp
  have e: "per_access_energy_approx u * num_fu u + base_energy_approx u / clockRate c =
      energy_ratio (Embedded sys0) t * (per_access_energy u * num_fu u + base_energy u / clockRate c)"
    by (simp add: v(1,2) algebra_simps)
  show ?thesis
    using n(2)
    by (simp add: peak_energy_def sel weighted_share[OF n(1) e sum] weighted_share[OF n(1) v(3) sum]
        weighted_share[OF n(1) v(4) sum] Let_def scale_rest_def)
qed

lemma runtime_ok:
  assumes u: "u = FunctionalUnit e g0 sys0 i ip c t junk" "0 \<le> fu_leakage u" "0 < unit_count c t"
    and n: "int_instructions (sys_core sys i) \<noteq> 0"
  shows "\<exists>v. runtime_energy g sys c u = Inr v \<and>
    dynamic (readOp (fu_rt_power v)) =
      (1 - appadd_instructions (sys_core sys i) / int_instructions (sys_core sys i) *
         (1 - energy_ratio (Embedded sys0) t)) *
      (per_access_energy u * unit_accesses sys u + base_energy u * executionTime c) * sckt_co_eff g"
proof -
  note v = approx_values[OF u]
  have sel: "ithCore u = i" "fu_type u = t" by (simp_all add: u(1) unit_sel)
  have sum: "exact_instructions sys u + appadd_instructions (sys_core sys i) = int_instructions (sys_core sys i)"
    using exact_instructions_sum[of sys u] sel by simp
  have e: "per_access_energy_approx u * unit_accesses sys u + base_energy_approx u * executionTime c =
      energy_ratio (Embedded sys0) t * (per_access_energy u * unit_accesses sys u + base_energy u * executionTime c)"
    by (simp add: v(1,2) algebra_simps)
  show ?thesis
    by (simp add: runtime_energy_def sel weighted_share[OF n e sum] Let_def scale_rest_def)
qed

text \<open>C24. The energy of a unit with approximate additions is that of the unit without, reduced by the
  share of approximate additions times what one of them saves: 68 percent of the energy for an adder,
  but all of it for a multiplier or a floating-point unit, which have no approximate variant and are
  averaged with an energy of zero. The same holds for the leakages of the peak.\<close>

theorem fu_energy_weighted:
  assumes u: "u = FunctionalUnit e g0 sys i ip c t junk" "0 \<le> fu_leakage u" "0 < unit_count c t"
    and n: "int_instructions (sys_core sys i) \<noteq> 0" "clockRate c \<noteq> 0"
    and a: "a = appadd_instructions (sys_core sys i) / int_instructions (sys_core sys i)"
  shows "\<exists>v w. computeEnergy is_tdp g sys c u = Inr v \<and> computeEnergy is_tdp g (exact_only sys) c u = Inr w \<and>
    dynamic (unit_power is_tdp v) =
      (1 - a * (1 - energy_ratio (Embedded sys) t)) * dynamic (unit_power is_tdp w) \<and>
    (is_tdp \<longrightarrow>
      leakage (unit_power is_tdp v) =
        (1 - a * (1 - leakage_ratio (Embedded sys) t)) * leakage (unit_power is_tdp w) \<and>
      gate_leakage (unit_power is_tdp v) =
        (1 - a * (1 - gate_ratio (Embedded sys) t)) * gate_leakage (unit_power is_tdp w))"
proof (cases is_tdp)
  case True
  then show ?thesis
    using peak_ok[OF u n, of g] peak_ok[OF u, of "exact_only sys" g] n
    by (auto simp: computeEnergy_def unit_power_def Let_def a)
next
  case False
  then show ?thesis
    using runtime_ok[OF u n(1), of g] runtime_ok[OF u, of "exact_only sys" g] n
    by (auto simp: computeEnergy_def unit_power_def a)
qed

lemma small_units:
  "0 \<le> fu_leakage (FunctionalUnit small_env small_tech small_sys 0 small_ip small_params t no_stats)"
  "0 < unit_count small_params t"
  by (cases t; simp add: FunctionalUnit_def Let_def sub_leak_def unit_area_def fpu_area_def inv_Isub_def
      Isub_leakage_def small_tech_def unit_width_def unit_count_def small_params_def)+

theorem fu_energy_weighted_witness:
  "\<exists>v w. computeEnergy True small_tech small_sys small_params
        (FunctionalUnit small_env small_tech small_sys 0 small_ip small_params MUL no_stats) = Inr v \<and>
     computeEnergy True small_tech (exact_only small_sys) small_params
        (FunctionalUnit small_env small_tech small_sys 0 small_ip small_params MUL no_stats) = Inr w \<and>
     dynamic (unit_power True v) = 3 / 4 * dynamic (unit_power True w)"
  using fu_energy_weighted[OF refl small_units(1)[of MUL] small_units(2)[of MUL] _ _ refl,
      where is_tdp = True and g = small_tech]
  by (auto simp: energy_ratio_def has_approx_def)

text \<open>A core without integer instructions has no finite power.\<close>

lemma idle_core_no_power:
  assumes "int_instructions (sys_core sys (ithCore u)) = 0"
  shows "computeEnergy is_tdp g sys c u = Inl NotANumber"
proof -
  have "exact_instructions sys u + appadd_instructions (sys_core sys (ithCore u)) = 0"
    using exact_instructions_sum[of sys u] assms by simp
  then have "weighted x (exact_instructions sys u) y (appadd_instructions (sys_core sys (ithCore u))) =
      Inl NotANumber" for x y
    by (simp add: weighted_def)
  then show ?thesis
    by (cases "clockRate c = 0") (simp_all add: computeEnergy_def peak_energy_def runtime_energy_def Let_def)
qed

text \<open>C35. After \<open>leakage_feedback\<close> at the temperature of the construction, the leakage of the unit is not
  the one the constructor computed: the number of units enters twice for adders and multipliers, the
  area of the embedded unit is taken for the floating-point unit, and the share of approximate
  additions is lost.\<close>

theorem feedback_leakage:
  assumes u: "u = FunctionalUnit e g0 sys i ip c t junk" "\<not> Embedded sys"
    and g: "fst (init_interface e ((fu_ip u)\<lparr>temp := round_temp temperature\<rparr>)) = fst (init_interface e ip)"
      "pmos_to_nmos_sz_ratio (fst (init_interface e ip)) = pmos_to_nmos_sz_ratio g0"
    and v: "computeEnergy True (fst (init_interface e ip)) sys c u = Inr v"
  shows "let p = readOp (fu_power (leakage_feedback e c temperature v));
             k = (case t of FPU \<Rightarrow> 4.47 / 8.47 | _ \<Rightarrow> unit_count c t) in
         leakage p = k * fu_leakage u \<and> gate_leakage p = k * fu_gate_leakage u"
proof -
  obtain g' jp where i: "init_interface e ip = (g', jp)" by fastforce
  have "fu_ip v = fu_ip u" "fu_type v = t" "num_fu v = unit_count c t"
    using v u(1) by (auto simp: computeEnergy_def peak_energy_def Let_def err_simps unit_sel)
  moreover have "fu_leakage u = sub_leak g' (pmos_to_nmos_sz_ratio g0) (unit_area False g' t) (unit_width t) * unit_count c t"
    "fu_gate_leakage u = gate_leak g' (pmos_to_nmos_sz_ratio g0) (unit_area False g' t) (unit_width t) * unit_count c t"
    using u i by (simp_all add: FunctionalUnit_def Let_def)
  ultimately show ?thesis
    using g i
    by (cases t) (auto simp: leakage_feedback_def Let_def feedback_area_def unit_area_def sub_leak_def
        gate_leak_def fpu_area_def unit_width_def split: prod.split)
qed

theorem feedback_leakage_witness:
  "\<exists>v. computeEnergy True small_tech small_sys small_params
        (FunctionalUnit small_env small_tech small_sys 0 small_ip small_params ALU no_stats) = Inr v \<and>
     leakage (readOp (fu_power (leakage_feedback small_env small_params 300 v))) =
       2 * fu_leakage (FunctionalUnit small_env small_tech small_sys 0 small_ip small_params ALU no_stats)"
proof -
  let ?u = "FunctionalUnit small_env small_tech small_sys 0 small_ip small_params ALU no_stats"
  obtain v where v: "computeEnergy True small_tech small_sys small_params ?u = Inr v"
    using peak_ok[OF refl small_units(1)[of ALU] small_units(2)[of ALU], where sys = small_sys and g = small_tech]
    by (auto simp: computeEnergy_def)
  then show ?thesis
    using feedback_leakage[OF refl, where sys = small_sys and e = small_env and i = 0 and ip = small_ip
        and c = small_params and t = ALU and junk = no_stats and temperature = 300 and v = v]
    by (simp add: Let_def unit_count_def) (simp add: small_params_def)
qed

end
