(* ===== verification/Power_Load_Store.thy ===== *)
theory Power_Load_Store
  imports Power_State
begin

text \<open>
  \<open>class LoadStoreU\<close> of \<open>src/mcpat/added/core.cc\<close>: the data cache of a core with its buffers and the load
  and store queues. Like the lower levels the data cache has a second data array at the reduced
  voltage.
\<close>

section \<open>The unit\<close>

record load_store_u =
  exist :: bool
  ls_ip :: input_parameter
  cache_p :: cache_policy
  caches :: "array option"          \<comment> \<open>the members of \<open>dcache\<close>\<close>
  apcaches :: "array option"
  missb :: "array option"
  ifb :: "array option"
  prefetchb :: "array option"
  wbb :: "array option"
  dc_area :: real
  dc_power_t :: power_def
  dc_power :: power_def
  dc_rt_power :: power_def
  LSQ :: "array option"
  LoadQ :: "array option"
  lsq_height :: real
  ls_area :: real
  ls_power :: power_def
  ls_rt_power :: power_def

type_synonym 'a ls_op = "(load_store_u, 'a) op"

definition set_ip :: "(input_parameter \<Rightarrow> input_parameter) \<Rightarrow> unit ls_op" where
  "set_ip f = modS (ls_ip_update f)"

definition has_LoadQ :: "core_dyn_param \<Rightarrow> system_core \<Rightarrow> bool" where
  "has_LoadQ c x \<longleftrightarrow> core_ty c = OOO \<and> 0 < load_buffer_size x"

section \<open>The constructor\<close>

text \<open>The parameters of the two data arrays.\<close>

definition main_ip ::
  "system_core \<Rightarrow> int \<Rightarrow> int \<Rightarrow> int \<Rightarrow> int \<Rightarrow> int \<Rightarrow> real \<Rightarrow> real \<Rightarrow> input_parameter \<Rightarrow> input_parameter" where
  "main_ip x sz lsz ways banks tag thr lat ip = ip\<lparr>num_search_ports := word_of_int (memory_ports x),
     is_cache := True, pure_cam := False, pure_ram := False, specific_tag := True,
     tag_w := word_of_int tag, cache_sz := word_of_int sz, line_sz := word_of_int lsz,
     assoc := word_of_int ways, nbanks := word_of_int banks, out_w := word_of_int lsz * 8,
     access_mode := 0, throughput := thr, latency := lat, obj_func_dyn_energy := 0,
     obj_func_dyn_power := 0, obj_func_leak_power := 0, obj_func_cycle_t := 1,
     num_rw_ports := word_of_int (memory_ports x), num_rd_ports := 0, num_wr_ports := 0,
     num_se_rd_ports := 0\<rparr>"

definition force_ip :: "input_parameter \<Rightarrow> input_parameter" where
  "force_ip ip = ip\<lparr>force_cache_config := True, ndwl := 4, ndbl := 2, nspd := 1, ndcm := 1, ndsam1 := 8,
     ndsam2 := 1, approx_mode := 1\<rparr>"

definition use_hp_vdd :: "real \<Rightarrow> input_parameter \<Rightarrow> input_parameter" where
  "use_hp_vdd v ip = ip\<lparr>specific_hp_vdd := True, hp_Vdd := v\<rparr>"

definition restore_ip :: "input_parameter \<Rightarrow> input_parameter \<Rightarrow> input_parameter" where
  "restore_ip kept ip = ip\<lparr>force_cache_config := False, approx_mode := 0,
     specific_hp_vdd := specific_hp_vdd kept, specific_lop_vdd := specific_lop_vdd kept,
     specific_lstp_vdd := specific_lstp_vdd kept, hp_Vdd := hp_Vdd kept, lop_Vdd := lop_Vdd kept,
     lstp_Vdd := lstp_Vdd kept\<rparr>"

definition make_array :: "mcpat_env \<Rightarrow> core_dyn_param \<Rightarrow> string \<Rightarrow> load_store_u \<Rightarrow> array" where
  "make_array e c nm s = ArrayST e (ls_ip s) nm Core_device (opt_local c) (core_ty c)"

definition grow :: "array \<Rightarrow> load_store_u \<Rightarrow> load_store_u" where
  "grow a s = s\<lparr>dc_area := dc_area s + uca_area (local_result a),
     ls_area := ls_area s + uca_area (local_result a)\<rparr>"

definition new_buffer ::
  "mcpat_env \<Rightarrow> core_dyn_param \<Rightarrow> string \<Rightarrow> ((array option \<Rightarrow> array option) \<Rightarrow> load_store_u \<Rightarrow> load_store_u) \<Rightarrow>
     unit ls_op" where
  "new_buffer e c nm upd = bindS (getS (make_array e c nm)) (\<lambda>a. modS (\<lambda>s. grow a (upd (\<lambda>_. Some a) s)))"

definition data_arrays :: "mcpat_env \<Rightarrow> core_dyn_param \<Rightarrow> real \<Rightarrow> unit ls_op" where
  "data_arrays e c vdd_ap =
     bindS (getS ls_ip) (\<lambda>kept.
     seqS (set_ip force_ip) (seqS (new_buffer e c ''dcache'' caches_update)
     (seqS (set_ip (use_hp_vdd vdd_ap))
     (seqS (modS (\<lambda>s. s\<lparr>apcaches := Some (make_array e c ''apdcache'' s)\<rparr>))
     (set_ip (restore_ip kept))))))"

definition buffer_of ::
  "int \<Rightarrow> u32 \<Rightarrow> int \<Rightarrow> real \<Rightarrow> real \<Rightarrow> int \<Rightarrow> input_parameter \<Rightarrow> input_parameter" where
  "buffer_of tag lsz entries thr lat nports ip =
     buffer_ip tag lsz (word_of_int entries * lsz) (lsz * 8) 2 thr lat (word_of_int nports) ip"

definition make_buffers ::
  "mcpat_env \<Rightarrow> core_dyn_param \<Rightarrow> root_system \<Rightarrow> system_core \<Rightarrow> int \<Rightarrow> int \<Rightarrow> real \<Rightarrow> real \<Rightarrow> unit ls_op" where
  "make_buffers e c sys x sz lsz thr lat =
     (let tag = physical_address_width sys + EXTRA_TAG_BITS e; n = memory_ports x;
          entries = buffer_sizes (dcache x) in
      bindS (deref caches) (\<lambda>main.
      bindS (liftS (int_quotient sz lsz)) (\<lambda>k. bindS (liftS (ceil_log2 (of_int k))) (\<lambda>idx.
      let data = sint (word_of_int (physical_address_width sys + idx) + line_sz (l_ip main) * 8 :: u32);
          mline = word_of_int \<lceil>of_int data / 8 :: real\<rceil>; data' = line_sz (l_ip main) in
      seqS (set_ip (buffer_of tag mline (entries 0) thr lat n))
      (seqS (new_buffer e c ''dcacheMissBuffer'' missb_update)
      (seqS (set_ip (buffer_of tag data' (entries 1) thr lat n))
      (seqS (new_buffer e c ''dcacheFillBuffer'' ifb_update)
      (seqS (set_ip (buffer_of tag data' (entries 2) thr lat n))
      (seqS (new_buffer e c ''dcacheprefetchBuffer'' prefetchb_update)
      (bindS (getS cache_p) (\<lambda>pol. whenS (pol = Write_back)
        (seqS (set_ip (buffer_of tag data' (entries 3) thr lat n))
        (new_buffer e c ''dcacheWBB'' wbb_update)))))))))))))"

text \<open>The queues, with ports for reading, writing and searching.\<close>

definition queue_ip ::
  "system_core \<Rightarrow> int \<Rightarrow> u32 \<Rightarrow> int \<Rightarrow> real \<Rightarrow> input_parameter \<Rightarrow> input_parameter" where
  "queue_ip x tag lsz entries cyc ip =
     (let n = word_of_int (memory_ports x) in
      ip\<lparr>line_sz := lsz, specific_tag := True, tag_w := word_of_int tag,
        cache_sz := word_of_int entries * lsz * word_of_int (number_hardware_threads x), assoc := 0,
        nbanks := 1, out_w := lsz * 8, access_mode := 1, throughput := cyc, latency := cyc,
        obj_func_dyn_energy := 0, obj_func_dyn_power := 0, obj_func_leak_power := 0,
        obj_func_cycle_t := 1, num_rw_ports := 0, num_rd_ports := n, num_wr_ports := n,
        num_se_rd_ports := 0, num_search_ports := n\<rparr>)"

definition add_own_area :: "array \<Rightarrow> array" where
  "add_own_area a = a\<lparr>arr_area := arr_area a + uca_area (local_result a)\<rparr>"

definition make_queues ::
  "mcpat_env \<Rightarrow> core_dyn_param \<Rightarrow> root_system \<Rightarrow> system_core \<Rightarrow> real \<Rightarrow> unit ls_op" where
  "make_queues e c sys x cyc =
     bindS (liftS (ceil_log2 (of_int (number_hardware_threads x)))) (\<lambda>thr_bits.
     let tag = opcode_width x + virtual_address_width sys + thr_bits + EXTRA_TAG_BITS e;
         lsz = word_of_int (\<lceil>of_int (machine_bits sys) / 32 :: real\<rceil> * 4) in
     seqS (set_ip (\<lambda>ip. (queue_ip x tag lsz (store_buffer_size x) cyc ip)\<lparr>is_cache := True\<rparr>))
     (seqS (bindS (getS (make_array e c ''Load(Store)Queue'')) (\<lambda>a. modS (\<lambda>s. s\<lparr>LSQ := Some (add_own_area a),
        ls_area := (ls_area s + uca_area (local_result a)) * cdb_overhead e,
        lsq_height := cache_ht (local_result a) * sqrt (cdb_overhead e)\<rparr>)))
     (whenS (has_LoadQ c x)
       (seqS (set_ip (queue_ip x tag lsz (load_buffer_size x) cyc))
       (bindS (deref LSQ) (\<lambda>q. bindS (getS (make_array e c ''LoadQueue'')) (\<lambda>a. modS (\<lambda>s. s\<lparr>
          LoadQ := Some (add_own_area a),
          ls_area := (ls_area s + uca_area (local_result a)) * cdb_overhead e,
          lsq_height := (cache_ht (local_result q) + cache_ht (local_result a)) * sqrt (cdb_overhead e)\<rparr>))))))))"

definition construct ::
  "mcpat_env \<Rightarrow> core_dyn_param \<Rightarrow> root_system \<Rightarrow> system_core \<Rightarrow> unit ls_op" where
  "construct e c sys x = (let cfg = dcache_config (dcache x) in
     bindS (liftS (cast_int (cfg 0))) (\<lambda>sz. bindS (liftS (cast_int (cfg 1))) (\<lambda>lsz.
     bindS (liftS (cast_int (cfg 2))) (\<lambda>ways. bindS (liftS (cast_int (cfg 3))) (\<lambda>banks.
     bindS (liftS (int_quotient sz lsz)) (\<lambda>n. bindS (liftS (int_quotient n ways)) (\<lambda>sets.
     bindS (liftS (ceil_log2 (of_int sets))) (\<lambda>idx. bindS (liftS (ceil_log2 (of_int lsz))) (\<lambda>off.
     bindS (liftS (quotient (cfg 4) (clockRate c))) (\<lambda>thr.
     bindS (liftS (quotient (cfg 5) (clockRate c))) (\<lambda>lat.
     bindS (liftS (quotient 1 (clockRate c))) (\<lambda>cyc.
     let tag = physical_address_width sys - idx - off + EXTRA_TAG_BITS e in
     seqS (set_ip (main_ip x sz lsz ways banks tag thr lat))
     (seqS (data_arrays e c (approxVdd (dcache x)))
     (seqS (make_buffers e c sys x sz lsz thr lat) (make_queues e c sys x cyc)))))))))))))))"

definition LoadStoreU ::
  "mcpat_env \<Rightarrow> core_dyn_param \<Rightarrow> root_system \<Rightarrow> nat \<Rightarrow> input_parameter \<Rightarrow> bool \<Rightarrow> load_store_u result" where
  "LoadStoreU e c sys i ip ex = (let x = sys_core sys i in bindE ((whenS ex (construct e c sys x))
     \<lparr>exist = ex, ls_ip = ip, cache_p = Cache_policy_of e (trunc (dcache_config (dcache x) 7)), caches = None,
      apcaches = None, missb = None, ifb = None, prefetchb = None, wbb = None, dc_area = 0,
      dc_power_t = powerDef_reset, dc_power = powerDef_reset, dc_rt_power = powerDef_reset,
      LSQ = None, LoadQ = None, lsq_height = 0, ls_area = 0, ls_power = powerDef_reset,
      ls_rt_power = powerDef_reset\<rparr>) (\<lambda>(_, s). Inr s))"

section \<open>\<open>computeEnergy\<close>\<close>

definition search_ports :: "core_dyn_param \<Rightarrow> array \<Rightarrow> real" where
  "search_ports c a = ports (num_search_ports (l_ip a)) * LSU_duty_cycle c"

definition count_peak :: "core_dyn_param \<Rightarrow> system_core \<Rightarrow> unit ls_op" where
  "count_peak c x =
     bindS (deref caches) (\<lambda>a. let rw = ports (num_rw_ports (l_ip a)) * LSU_duty_cycle c in
      seqS (on_ptr caches caches_update
        (keep_tdp \<circ> load_main (counted (0.67 * rw) 0) (counted (0.33 * rw) 0)))
     (bindS (deref missb) (\<lambda>m. seqS (on_ptr missb missb_update (load_tdp (search_ports c m) (search_ports c m)))
     (bindS (deref ifb) (\<lambda>f. seqS (on_ptr ifb ifb_update (load_tdp (search_ports c f) (search_ports c f)))
     (bindS (deref prefetchb) (\<lambda>p. seqS (on_ptr prefetchb prefetchb_update
        (load_tdp (search_ports c p) (search_ports c f)))
     (seqS (bindS (getS cache_p) (\<lambda>pol. whenS (pol = Write_back)
        (bindS (deref wbb) (\<lambda>w. let n = ports (num_search_ports (l_ip w)) in on_ptr wbb wbb_update (load_tdp n n)))))
     (seqS (bindS (deref LSQ) (\<lambda>q. on_ptr LSQ LSQ_update (load_tdp (search_ports c q) (search_ports c q))))
     (whenS (has_LoadQ c x)
        (bindS (deref LoadQ) (\<lambda>q. on_ptr LoadQ LoadQ_update (load_tdp (search_ports c q) (search_ports c q))))))))))))))"

definition count_runtime :: "core_dyn_param \<Rightarrow> system_core \<Rightarrow> unit ls_op" where
  "count_runtime c x = (let d = dcache x; n = load_instructions x + store_instructions x in
     seqS (on_ptr caches caches_update (keep_rtp \<circ> load_main
       (counted (read_accesses d) (read_misses d)) (counted (write_accesses d) (write_misses d))))
     (seqS (on_ptr apcaches apcaches_update (keep_rtp \<circ> load_main
       (counted (approx_read_accesses d) (approx_read_misses d))
       (counted (approx_write_accesses d) (approx_write_misses d))))
     (seqS (bindS (getS cache_p) (\<lambda>pol. bindS (deref caches) (\<lambda>a.
        let k = (if pol = Write_back then ac_miss (writeAc (stats_t a)) else ac_miss (readAc (stats_t a))) in
        seqS (on_ptr missb missb_update (load_rtp k k))
        (seqS (on_ptr ifb ifb_update (load_rtp k k))
        (seqS (on_ptr prefetchb prefetchb_update (load_rtp k k))
        (whenS (pol = Write_back) (on_ptr wbb wbb_update (load_rtp k k))))))))
     (seqS (on_ptr LSQ LSQ_update (load_rtp (n * 2) (n * 2)))
     (whenS (has_LoadQ c x) (on_ptr LoadQ LoadQ_update (load_rtp n n)))))))"

text \<open>The data cache reads tags and data together, so a read costs the same on a hit and a miss.\<close>

definition exact_part :: "array \<Rightarrow> array \<Rightarrow> real" where
  "exact_part a p = (let sa = stats_t a; sp = stats_t p in
     (ac_hit (readAc sa) - ac_hit (readAc sp)) * read_energy a +
     (ac_miss (readAc sa) - ac_miss (readAc sp)) * read_energy a +
     (ac_miss (writeAc sa) - ac_miss (writeAc sp)) * tag_read a +
     (ac_access (writeAc sa) - ac_access (writeAc sp)) * write_energy a)"

definition approx_part :: "array \<Rightarrow> array \<Rightarrow> real" where
  "approx_part a p = (let sp = stats_t p in
     ac_hit (readAc sp) * read_energy p + ac_miss (readAc sp) * read_energy p +
     ac_miss (writeAc sp) * tag_read a + ac_access (writeAc sp) * write_energy p)"

definition queue_part :: "array \<Rightarrow> real" where
  "queue_part q = ac_access (readAc (stats_t q)) * (search_energy q + read_energy q) +
     ac_access (writeAc (stats_t q)) * write_energy q"

definition add_dc :: "real \<Rightarrow> unit ls_op" where
  "add_dc x = modS (\<lambda>s. s\<lparr>dc_power_t := add_dynamic x (dc_power_t s)\<rparr>)"

definition set_queue_power :: "array \<Rightarrow> array" where
  "set_queue_power q = q\<lparr>power_t := add_dynamic (queue_part q) powerDef_reset\<rparr>"

definition sum_dynamic :: "core_dyn_param \<Rightarrow> system_core \<Rightarrow> unit ls_op" where
  "sum_dynamic c x = seqS (modS (\<lambda>s. s\<lparr>dc_power_t := powerDef_reset\<rparr>))
     (bindS (deref caches) (\<lambda>a. bindS (deref apcaches) (\<lambda>p. bindS (getS cache_p) (\<lambda>pol.
      let wa = ac_miss (writeAc (stats_t a)); wp = ac_miss (writeAc (stats_t p)) in
      seqS (add_dc (exact_part a p)) (seqS (add_dc (approx_part a p))
      (seqS (whenS (pol = Write_back)
        (seqS (add_dc ((wa - wp) * write_energy a)) (add_dc (wp * write_energy p))))
      (bindS (deref missb) (\<lambda>b. seqS (add_dc (buffer_part b))
      (bindS (deref ifb) (\<lambda>b. seqS (add_dc (buffer_part b))
      (bindS (deref prefetchb) (\<lambda>b. seqS (add_dc (buffer_part b))
      (seqS (whenS (pol = Write_back) (bindS (deref wbb) (\<lambda>b. add_dc (buffer_part b))))
      (seqS (whenS (has_LoadQ c x) (on_ptr LoadQ LoadQ_update set_queue_power))
      (on_ptr LSQ LSQ_update set_queue_power)))))))))))))))"

definition buffers_leak :: "mcpat_env \<Rightarrow> array \<Rightarrow> array \<Rightarrow> array \<Rightarrow> power_def" where
  "buffers_leak e m f q = power_times e (power_plus e (power_plus e (uca_power (local_result m))
     (uca_power (local_result f))) (uca_power (local_result q))) (pppm_lkg e)"

text \<open>The power of the data cache, with \<open>power_t\<close> the dynamic part.\<close>

definition dcache_total :: "mcpat_env \<Rightarrow> system_core \<Rightarrow> load_store_u \<Rightarrow> power_def result" where
  "dcache_total e x s = (case (caches s, apcaches s, missb s, ifb s, prefetchb s) of
      (Some a, Some p, Some m, Some f, Some q) \<Rightarrow>
        let base = power_plus e (power_plus e (dc_power_t s) (mixed_leakage (approx_ratio (dcache x)) p a))
              (buffers_leak e m f q) in
        if cache_p s = Write_back then
          (case wbb s of None \<Rightarrow> Inl NullPointer
           | Some w \<Rightarrow> Inr (power_plus e base (power_times e (uca_power (local_result w)) (pppm_lkg e))))
        else Inr base
    | _ \<Rightarrow> Inl NullPointer)"

definition queue_total :: "mcpat_env \<Rightarrow> array \<Rightarrow> power_def" where
  "queue_total e q = power_plus e (power_t q) (power_times e (uca_power (local_result q)) (pppm_lkg e))"

definition sum_peak :: "mcpat_env \<Rightarrow> core_dyn_param \<Rightarrow> system_core \<Rightarrow> unit ls_op" where
  "sum_peak e c x = bindS (getS (dcache_total e x)) (\<lambda>r. bindS (liftS r) (\<lambda>d.
     seqS (modS (\<lambda>s. s\<lparr>dc_power := d\<rparr>))
     (seqS (on_ptr LSQ LSQ_update (\<lambda>q. q\<lparr>arr_power := queue_total e q\<rparr>))
     (bindS (deref LSQ) (\<lambda>q.
      seqS (modS (\<lambda>s. s\<lparr>ls_power := power_plus e (power_plus e (ls_power s) d) (arr_power q)\<rparr>))
     (whenS (has_LoadQ c x)
       (seqS (on_ptr LoadQ LoadQ_update (\<lambda>l. l\<lparr>arr_power := queue_total e l\<rparr>))
       (bindS (deref LoadQ) (\<lambda>l. modS (\<lambda>s. s\<lparr>ls_power := power_plus e (ls_power s) (arr_power l)\<rparr>))))))))))"

definition sum_runtime :: "mcpat_env \<Rightarrow> core_dyn_param \<Rightarrow> system_core \<Rightarrow> unit ls_op" where
  "sum_runtime e c x = bindS (getS (dcache_total e x)) (\<lambda>r. bindS (liftS r) (\<lambda>d.
     seqS (modS (\<lambda>s. s\<lparr>dc_rt_power := d\<rparr>))
     (seqS (on_ptr LSQ LSQ_update (\<lambda>q. q\<lparr>arr_rt_power := queue_total e q\<rparr>))
     (bindS (deref LSQ) (\<lambda>q.
      seqS (modS (\<lambda>s. s\<lparr>ls_rt_power := power_plus e (power_plus e (ls_rt_power s) d) (arr_rt_power q)\<rparr>))
     (whenS (has_LoadQ c x)
       (seqS (on_ptr LoadQ LoadQ_update (\<lambda>l. l\<lparr>arr_rt_power := queue_total e l\<rparr>))
       (bindS (deref LoadQ) (\<lambda>l. modS (\<lambda>s. s\<lparr>ls_rt_power := power_plus e (ls_rt_power s) (arr_rt_power l)\<rparr>))))))))))"

definition computeEnergy ::
  "bool \<Rightarrow> mcpat_env \<Rightarrow> core_dyn_param \<Rightarrow> system_core \<Rightarrow> unit ls_op" where
  "computeEnergy is_tdp e c x = bindS (getS exist) (\<lambda>ex. whenS ex
     (seqS (if is_tdp then count_peak c x else count_runtime c x) (seqS (sum_dynamic c x)
     (if is_tdp then sum_peak e c x else sum_runtime e c x))))"

end
