(* ===== verification/Power_Load_Facts.thy ===== *)
theory Power_Load_Facts
  imports Power_Load_Store
begin

text \<open>
  Facts about \<open>Power_Load_Store\<close>: the energy of the data cache compared with the original formula, and
  what the constructor builds.
\<close>

section \<open>The energy saved\<close>

text \<open>The formula for one array, kept in the source as a comment, with the write that follows a write
  miss in a write-back cache.\<close>

definition original_energy :: "bool \<Rightarrow> array \<Rightarrow> real" where
  "original_energy wb a = (let s = stats_t a in
     ac_hit (readAc s) * read_energy a + ac_miss (readAc s) * read_energy a +
     ac_miss (writeAc s) * tag_read a + ac_access (writeAc s) * write_energy a +
     (if wb then ac_miss (writeAc s) * write_energy a else 0))"

definition saved_energy :: "bool \<Rightarrow> array \<Rightarrow> array \<Rightarrow> real" where
  "saved_energy wb a p = (let s = stats_t p in
     (ac_hit (readAc s) + ac_miss (readAc s)) * (read_energy a - read_energy p) +
     (ac_access (writeAc s) + (if wb then ac_miss (writeAc s) else 0)) * (write_energy a - write_energy p))"

definition written_back :: "load_store_u \<Rightarrow> bool" where
  "written_back s \<longleftrightarrow> cache_p s = Write_back"

lemma lsu_split_energy:
  "exact_part a p + approx_part a p + (if wb then (ac_miss (writeAc (stats_t a)) -
     ac_miss (writeAc (stats_t p))) * write_energy a + ac_miss (writeAc (stats_t p)) * write_energy p else 0) =
   original_energy wb a - saved_energy wb a p"
  by (simp add: exact_part_def approx_part_def original_energy_def saved_energy_def Let_def algebra_simps)

interpretation first: two_voltages "\<lambda>a p. exact_part a p + approx_part a p +
    (if wb then (ac_miss (writeAc (stats_t a)) - ac_miss (writeAc (stats_t p))) * write_energy a +
       ac_miss (writeAc (stats_t p)) * write_energy p else 0)" "original_energy wb"
  "\<lambda>s. ac_hit (readAc s) + ac_miss (readAc s)"
  "\<lambda>s. ac_access (writeAc s) + (if wb then ac_miss (writeAc s) else 0)" for wb
  by unfold_locales (simp only: lsu_split_energy, simp add: saved_energy_def Let_def)

definition built :: "core_dyn_param \<Rightarrow> system_core \<Rightarrow> load_store_u \<Rightarrow> bool" where
  "built c x s \<longleftrightarrow> exist s \<and> caches s \<noteq> None \<and> apcaches s \<noteq> None \<and> missb s \<noteq> None \<and> ifb s \<noteq> None \<and>
     prefetchb s \<noteq> None \<and> (written_back s \<longrightarrow> wbb s \<noteq> None) \<and> LSQ s \<noteq> None \<and>
     (has_LoadQ c x \<longrightarrow> LoadQ s \<noteq> None)"

definition total :: "bool \<Rightarrow> load_store_u \<Rightarrow> power_def" where
  "total is_tdp s = (if is_tdp then ls_power s else ls_rt_power s)"

definition opt_part :: "bool \<Rightarrow> (array \<Rightarrow> real) \<Rightarrow> array option \<Rightarrow> real" where
  "opt_part b f x = (if b then f (the x) else 0)"

text \<open>The whole energy of a unit whose accesses are counted.\<close>

definition unit_energy :: "core_dyn_param \<Rightarrow> system_core \<Rightarrow> load_store_u \<Rightarrow> real" where
  "unit_energy c x s = original_energy (written_back s) (the (caches s))
     - saved_energy (written_back s) (the (caches s)) (the (apcaches s))
     + buffer_part (the (missb s)) + buffer_part (the (ifb s)) + buffer_part (the (prefetchb s))
     + opt_part (written_back s) buffer_part (wbb s)
     + queue_part (the (LSQ s)) + opt_part (has_LoadQ c x) queue_part (LoadQ s)"

definition results :: "load_store_u \<Rightarrow> uca_org option list" where
  "results s = map (map_option local_result)
     [caches s, apcaches s, missb s, ifb s, prefetchb s, wbb s, LSQ s, LoadQ s]"

definition same_frame :: "core_dyn_param \<Rightarrow> system_core \<Rightarrow> load_store_u \<Rightarrow> load_store_u \<Rightarrow> bool" where
  "same_frame c x s t \<longleftrightarrow> built c x t \<and> cache_p t = cache_p s \<and> ls_power t = ls_power s \<and>
     ls_rt_power t = ls_rt_power s \<and> results t = results s"

definition both_access :: "array option \<Rightarrow> real \<Rightarrow> bool" where
  "both_access b x \<longleftrightarrow> (\<exists>a. b = Some a \<and> ac_access (readAc (stats_t a)) = x \<and> ac_access (writeAc (stats_t a)) = x)"

text \<open>The accesses of a run: those of the caches from the description, for the buffers the misses, for
  the queues the loads and stores.\<close>

definition counted_run :: "core_dyn_param \<Rightarrow> system_core \<Rightarrow> load_store_u \<Rightarrow> bool" where
  "counted_run c x t \<longleftrightarrow> (let d = dcache x; k = (if written_back t then write_misses d else read_misses d);
       n = load_instructions x + store_instructions x in
     (\<exists>a p. caches t = Some a \<and> apcaches t = Some p \<and>
       readAc (stats_t a) = counted (read_accesses d) (read_misses d) \<and>
       writeAc (stats_t a) = counted (write_accesses d) (write_misses d) \<and>
       readAc (stats_t p) = counted (approx_read_accesses d) (approx_read_misses d) \<and>
       writeAc (stats_t p) = counted (approx_write_accesses d) (approx_write_misses d)) \<and>
     both_access (missb t) k \<and> both_access (ifb t) k \<and> both_access (prefetchb t) k \<and>
     (written_back t \<longrightarrow> both_access (wbb t) k) \<and> both_access (LSQ t) (2 * n) \<and>
     (has_LoadQ c x \<longrightarrow> both_access (LoadQ t) n))"

lemma wp_lsu_count_peak:
  assumes "built c x s"
  shows "wpS (count_peak c x) (\<lambda>_ t. same_frame c x s t \<and> apcaches t = apcaches s) s"
  using assms
  by (auto simp: count_peak_def wp_simps built_def same_frame_def results_def written_back_def Let_def)

lemma wp_lsu_count_runtime:
  assumes "built c x s"
  shows "wpS (count_runtime c x) (\<lambda>_ t. same_frame c x s t \<and> counted_run c x t) s"
  using assms
  by (auto simp: count_runtime_def wp_simps built_def same_frame_def results_def written_back_def
      counted_run_def both_access_def load_main_def keep_rtp_def Let_def)

lemma queue_sel [simp]:
  "stats_t (set_queue_power q) = stats_t q" "local_result (set_queue_power q) = local_result q"
  "queue_part (set_queue_power q) = queue_part q" "queue_part (q\<lparr>arr_power := y\<rparr>) = queue_part q"
  "queue_part (q\<lparr>arr_rt_power := y\<rparr>) = queue_part q"
  "dynamic (readOp (power_t (set_queue_power q))) = queue_part q"
  by (simp_all add: set_queue_power_def queue_part_def read_energy_def write_energy_def search_energy_def)

text \<open>What the sums leave alone.\<close>

definition same_parts :: "load_store_u \<Rightarrow> load_store_u \<Rightarrow> bool" where
  "same_parts s t \<longleftrightarrow> caches t = caches s \<and> apcaches t = apcaches s \<and> missb t = missb s \<and>
     ifb t = ifb s \<and> prefetchb t = prefetchb s \<and> wbb t = wbb s \<and> cache_p t = cache_p s \<and>
     exist t = exist s \<and>
     map_option stats_t (LSQ t) = map_option stats_t (LSQ s) \<and>
     map_option stats_t (LoadQ t) = map_option stats_t (LoadQ s) \<and> results t = results s"

lemma same_parts_trans: "same_parts s t \<Longrightarrow> same_parts t u \<Longrightarrow> same_parts s u"
  by (simp add: same_parts_def)

lemma queue_part_cong:
  "map_option stats_t x = map_option stats_t y \<Longrightarrow> map_option local_result x = map_option local_result y \<Longrightarrow>
    queue_part (the x) = queue_part (the y)"
  by (cases x; cases y) (simp_all add: queue_part_def read_energy_def write_energy_def search_energy_def)

lemma unit_energy_cong: "same_parts s t \<Longrightarrow> unit_energy c x t = unit_energy c x s"
  using queue_part_cong[of "LSQ t" "LSQ s"] queue_part_cong[of "LoadQ t" "LoadQ s"]
  by (simp add: same_parts_def unit_energy_def results_def written_back_def opt_part_def)

lemma both_access_cong: "map_option stats_t x = map_option stats_t y \<Longrightarrow> both_access x k = both_access y k"
  by (cases x; cases y) (simp_all add: both_access_def)

lemma counted_run_cong: "same_parts s t \<Longrightarrow> counted_run c x t = counted_run c x s"
  using both_access_cong[of "LSQ t" "LSQ s"] both_access_cong[of "LoadQ t" "LoadQ s"]
  by (simp add: same_parts_def counted_run_def written_back_def)

lemma built_cong: "same_parts s t \<Longrightarrow> built c x s \<Longrightarrow> built c x t"
  by (auto simp: same_parts_def built_def written_back_def results_def)

text \<open>The dynamic powers of the parts after \<open>sum_dynamic\<close>.\<close>

definition summed :: "core_dyn_param \<Rightarrow> system_core \<Rightarrow> load_store_u \<Rightarrow> bool" where
  "summed c x s \<longleftrightarrow> dynamic (readOp (dc_power_t s)) + dynamic (readOp (power_t (the (LSQ s)))) +
     opt_part (has_LoadQ c x) (\<lambda>q. dynamic (readOp (power_t q))) (LoadQ s) = unit_energy c x s"

lemma wp_lsu_sum_dynamic:
  assumes "built c x s"
  shows "wpS (sum_dynamic c x) (\<lambda>_ t. same_parts s t \<and> ls_power t = ls_power s \<and>
    ls_rt_power t = ls_rt_power s \<and> summed c x t) s"
proof -
  obtain a p where ap: "caches s = Some a" "apcaches s = Some p" using assms by (auto simp: built_def)
  show ?thesis
    using assms lsu_split_energy[of a p "written_back s"] ap
    by (auto simp: sum_dynamic_def wp_simps add_dc_def built_def same_parts_def results_def summed_def
        unit_energy_def written_back_def opt_part_def Let_def)
qed

lemma dcache_total_dynamic:
  assumes "built c x s" "dynamic_ops e"
  shows "\<exists>d. dcache_total e x s = Inr d \<and> dynamic (readOp d) = dynamic (readOp (dc_power_t s))"
  using assms
  by (auto simp: built_def dcache_total_def dynamic_ops_def buffers_leak_def written_back_def Let_def)

lemma wp_lsu_total:
  assumes "built c x s" "dynamic_ops e" "summed c x s"
  shows "wpS (if is_tdp then sum_peak e c x else sum_runtime e c x) (\<lambda>_ t. same_parts s t \<and>
    dynamic (readOp (total is_tdp t)) = dynamic (readOp (total is_tdp s)) + unit_energy c x s \<and>
    total (\<not> is_tdp) t = total (\<not> is_tdp) s) s"
proof -
  obtain d where "dcache_total e x s = Inr d" "dynamic (readOp d) = dynamic (readOp (dc_power_t s))"
    using dcache_total_dynamic[OF assms(1,2)] by blast
  then show ?thesis
    using assms
    by (cases is_tdp) (auto simp: sum_peak_def sum_runtime_def wp_simps built_def same_parts_def
        results_def summed_def total_def opt_part_def dynamic_ops_def queue_total_def)
qed

lemma lsu_runs:
  assumes "built c x s" "dynamic_ops e"
  shows "\<exists>t. computeEnergy is_tdp e c x s = Inr ((), t) \<and> built c x t \<and> results t = results s \<and>
    cache_p t = cache_p s \<and> (if is_tdp then apcaches t = apcaches s else counted_run c x t) \<and>
    dynamic (readOp (total is_tdp t)) = dynamic (readOp (total is_tdp s)) + unit_energy c x t \<and>
    total (\<not> is_tdp) t = total (\<not> is_tdp) s"
proof -
  obtain t where t: "(if is_tdp then count_peak c x else count_runtime c x) s = Inr ((), t)"
    "same_frame c x s t" "if is_tdp then apcaches t = apcaches s else counted_run c x t"
    using wp_lsu_count_peak[OF assms(1)] wp_lsu_count_runtime[OF assms(1)]
    by (cases is_tdp) (auto elim!: wpSE)
  then have b: "built c x t" "total y t = total y s" "results t = results s" "cache_p t = cache_p s" for y
    by (simp_all add: same_frame_def total_def)
  obtain u where u: "sum_dynamic c x t = Inr ((), u)" "same_parts t u" "total y u = total y t"
    "summed c x u" for y
    using wp_lsu_sum_dynamic[OF b(1)] by (auto simp: total_def elim!: wpSE)
  obtain v where v: "(if is_tdp then sum_peak e c x else sum_runtime e c x) u = Inr ((), v)"
    "same_parts u v"
    "dynamic (readOp (total is_tdp v)) = dynamic (readOp (total is_tdp u)) + unit_energy c x u"
    "total (\<not> is_tdp) v = total (\<not> is_tdp) u"
    using wp_lsu_total[OF built_cong[OF u(2) b(1)] assms(2) u(4), of is_tdp] by (auto elim!: wpSE)
  have "exist s" using assms(1) by (simp add: built_def)
  then have "computeEnergy is_tdp e c x s = Inr ((), v)"
    using t(1) u(1) v(1) by (cases is_tdp) (auto simp: computeEnergy_def err_simps)
  moreover have tv: "same_parts t v" by (rule same_parts_trans[OF u(2) v(2)])
  ultimately show ?thesis
    using v(3,4) u(3) b t(3) built_cong[OF tv b(1)] unit_energy_cong[OF v(2)] counted_run_cong[OF tv]
    by (auto simp: same_parts_def)
qed

text \<open>C22. The dynamic energy of the load and store unit is that of the original formula for one data
  array, less what the approximate accesses save at the reduced voltage, plus the buffers and queues.\<close>

theorem lsu_energy:
  assumes "built c x s" "dynamic_ops e"
  shows "\<exists>t. computeEnergy is_tdp e c x s = Inr ((), t) \<and> results t = results s \<and>
    cache_p t = cache_p s \<and> (if is_tdp then apcaches t = apcaches s else counted_run c x t) \<and>
    dynamic (readOp (total is_tdp t)) = dynamic (readOp (total is_tdp s)) + unit_energy c x t"
  using lsu_runs[OF assms, of is_tdp] by blast

section \<open>The arrays of the data cache\<close>

definition sane_dcache :: "core_dyn_param \<Rightarrow> system_core \<Rightarrow> bool" where
  "sane_dcache c x \<longleftrightarrow> clockRate c \<noteq> 0 \<and> 0 < number_hardware_threads x \<and> sane_config (dcache_config (dcache x))"

definition data_pair :: "mcpat_env \<Rightarrow> core_dyn_param \<Rightarrow> system_core \<Rightarrow> load_store_u \<Rightarrow> input_parameter \<Rightarrow> bool" where
  "data_pair e c x s jp \<longleftrightarrow>
     caches s = Some (ArrayST e jp ''dcache'' Core_device (opt_local c) (core_ty c)) \<and>
     apcaches s = Some (ArrayST e (use_hp_vdd (approxVdd (dcache x)) jp) ''apdcache'' Core_device
       (opt_local c) (core_ty c)) \<and>
     approx_mode jp = 1 \<and> force_cache_config jp"

text \<open>Everything else is made with the voltages the unit was given.\<close>

definition made_normal ::
  "mcpat_env \<Rightarrow> core_dyn_param \<Rightarrow> input_parameter \<Rightarrow> string \<Rightarrow> array option \<Rightarrow> bool" where
  "made_normal e c ip nm x \<longleftrightarrow> (\<exists>jp. map_option local_result x =
     Some (local_result (ArrayST e jp nm Core_device (opt_local c) (core_ty c))) \<and>
     normal_ip jp \<and> volts jp = volts ip)"

lemma lsu_restore_volts [simp]:
  "volts (restore_ip kept ip) = volts kept" "normal_ip (restore_ip kept ip)"
  by (simp_all add: volts_def restore_ip_def normal_ip_def)

lemma other_volts [simp]:
  "volts (force_ip ip) = volts ip" "approx_mode (force_ip ip) = 1" "force_cache_config (force_ip ip)"
  "volts (main_ip x a b w n tag thr lat ip) = volts ip"
  "volts (buffer_of tag l n thr lat k ip) = volts ip"
  "normal_ip (buffer_of tag l n thr lat k ip) = normal_ip ip"
  "volts (queue_ip x tag l n cyc ip) = volts ip" "normal_ip (queue_ip x tag l n cyc ip) = normal_ip ip"
  "volts (ip\<lparr>is_cache := bb\<rparr>) = volts ip" "normal_ip (ip\<lparr>is_cache := bb\<rparr>) = normal_ip ip"
  by (simp_all add: volts_def normal_ip_def force_ip_def main_ip_def buffer_of_def buffer_ip_def queue_ip_def
      Let_def)

lemma made_normalI:
  "normal_ip (ls_ip s) \<Longrightarrow> volts (ls_ip s) = volts ip \<Longrightarrow> made_normal e c ip nm (Some (make_array e c nm s))"
  by (auto simp: made_normal_def make_array_def)

lemma made_normal_own: "made_normal e c ip nm (Some (add_own_area a)) = made_normal e c ip nm (Some a)"
  by (simp add: made_normal_def add_own_area_def)

definition buffers_made :: "mcpat_env \<Rightarrow> core_dyn_param \<Rightarrow> input_parameter \<Rightarrow> load_store_u \<Rightarrow> bool" where
  "buffers_made e c ip s \<longleftrightarrow> made_normal e c ip ''dcacheMissBuffer'' (missb s) \<and>
     made_normal e c ip ''dcacheFillBuffer'' (ifb s) \<and>
     made_normal e c ip ''dcacheprefetchBuffer'' (prefetchb s) \<and>
     (written_back s \<longrightarrow> made_normal e c ip ''dcacheWBB'' (wbb s))"

definition queues_made ::
  "mcpat_env \<Rightarrow> core_dyn_param \<Rightarrow> system_core \<Rightarrow> input_parameter \<Rightarrow> load_store_u \<Rightarrow> bool" where
  "queues_made e c x ip s \<longleftrightarrow> made_normal e c ip ''Load(Store)Queue'' (LSQ s) \<and>
     (has_LoadQ c x \<longrightarrow> made_normal e c ip ''LoadQueue'' (LoadQ s))"

lemma wp_lsu_data_arrays:
  "wpS (data_arrays e c (approxVdd (dcache x))) (\<lambda>_ t. (\<exists>jp. data_pair e c x t jp \<and> volts jp = volts (ls_ip s)) \<and>
    normal_ip (ls_ip t) \<and> volts (ls_ip t) = volts (ls_ip s) \<and> cache_p t = cache_p s \<and> exist t = exist s) s"
  by (auto simp: data_arrays_def wp_simps set_ip_def data_pair_def make_array_def new_buffer_def grow_def)

lemma wp_lsu_make_buffers:
  assumes "data_pair e c x s jp" "0 \<le> sz" "0 < l" "0 < sz div l" "normal_ip (ls_ip s)"
    "volts (ls_ip s) = volts ip"
  shows "wpS (make_buffers e c sys x sz l thr lat) (\<lambda>_ t. buffers_made e c ip t \<and> data_pair e c x t jp \<and>
    normal_ip (ls_ip t) \<and> volts (ls_ip t) = volts ip \<and> exist t = exist s) s"
  using assms
  by (auto simp: make_buffers_def wp_simps set_ip_def new_buffer_def grow_def ceil_log2_pos
      int_quotient_pos buffers_made_def data_pair_def written_back_def Let_def intro!: made_normalI)

lemma wp_make_queues:
  assumes "data_pair e c x s jp" "buffers_made e c ip s" "0 < number_hardware_threads x"
    "normal_ip (ls_ip s)" "volts (ls_ip s) = volts ip"
  shows "wpS (make_queues e c sys x cyc) (\<lambda>_ t. queues_made e c x ip t \<and> buffers_made e c ip t \<and>
    data_pair e c x t jp \<and> normal_ip (ls_ip t) \<and> volts (ls_ip t) = volts ip \<and> exist t = exist s) s"
  using assms
  by (auto simp: make_queues_def wp_simps set_ip_def ceil_log2_pos queues_made_def buffers_made_def
      data_pair_def written_back_def made_normal_own Let_def intro!: made_normalI)

definition well_made ::
  "mcpat_env \<Rightarrow> core_dyn_param \<Rightarrow> system_core \<Rightarrow> input_parameter \<Rightarrow> load_store_u \<Rightarrow> bool" where
  "well_made e c x ip s \<longleftrightarrow> built c x s \<and> (\<exists>jp. data_pair e c x s jp \<and> volts jp = volts ip) \<and>
     buffers_made e c ip s \<and> queues_made e c x ip s \<and> normal_ip (ls_ip s) \<and> volts (ls_ip s) = volts ip"

lemma made_normal_some: "made_normal e c ip nm b \<Longrightarrow> b \<noteq> None"
  by (auto simp: made_normal_def)

lemma all_made:
  "data_pair e c x s jp \<Longrightarrow> volts jp = volts ip \<Longrightarrow> buffers_made e c ip s \<Longrightarrow> queues_made e c x ip s \<Longrightarrow>
    normal_ip (ls_ip s) \<Longrightarrow> volts (ls_ip s) = volts ip \<Longrightarrow> exist s \<Longrightarrow> well_made e c x ip s"
  by (auto simp: well_made_def built_def data_pair_def buffers_made_def queues_made_def dest: made_normal_some)

lemma wp_lsu_construct:
  assumes sane: "sane_dcache c x" and ex: "exist s"
  shows "wpS (construct e c sys x) (\<lambda>_ t. well_made e c x (ls_ip s) t) s"
proof -
  obtain sz l w b where casts: "cast_int (dcache_config (dcache x) 0) = Inr sz"
    "cast_int (dcache_config (dcache x) 1) = Inr l" "cast_int (dcache_config (dcache x) 2) = Inr w"
    "cast_int (dcache_config (dcache x) 3) = Inr b" and pos: "0 < l" "0 < w" "l * w \<le> sz" and sz: "0 \<le> sz"
    using sane sane_config_casts by (metis sane_dcache_def)
  note q = sets_pos[OF pos]
  have clk: "clockRate c \<noteq> 0" "0 < number_hardware_threads x"
    using sane by (auto simp: sane_dcache_def)
  have rest: "wpS (seqS (data_arrays e c (approxVdd (dcache x)))
      (seqS (make_buffers e c sys x sz l thr lat) (make_queues e c sys x cyc)))
    (\<lambda>_ t. well_made e c x (ls_ip s) t) (ls_ip_update (main_ip x sz l w b tag thr lat) s)" for thr lat cyc tag
    unfolding wpS_seq
  proof (rule wp_mono[OF wp_lsu_data_arrays], goal_cases)
    case (1 _ t)
    then obtain jp where t: "data_pair e c x t jp" "volts jp = volts (ls_ip s)" "normal_ip (ls_ip t)"
      "volts (ls_ip t) = volts (ls_ip s)" "exist t" using ex by auto
    show ?case
      by (rule wp_mono[OF wp_lsu_make_buffers[OF t(1) sz pos(1) q(2) t(3,4)]])
        (use t clk in \<open>auto intro!: wp_mono[OF wp_make_queues] all_made\<close>)
  qed
  show ?thesis
    using clk q sz pos(1,2) rest
    by (simp add: construct_def Let_def wp_simps casts int_quotient_pos ceil_log2_pos set_ip_def
        pos_imp_zdiv_nonneg_iff del: One_nat_def)
qed

lemma lsu_constructed:
  assumes "sane_dcache c (sys_core sys i)"
  shows "\<exists>s. LoadStoreU e c sys i ip True = Inr s \<and> well_made e c (sys_core sys i) ip s"
proof -
  let ?x = "sys_core sys i"
  let ?s = "\<lparr>exist = True, ls_ip = ip, cache_p = Cache_policy_of e (trunc (dcache_config (dcache ?x) 7)),
      caches = None, apcaches = None, missb = None, ifb = None, prefetchb = None, wbb = None, dc_area = 0,
      dc_power_t = powerDef_reset, dc_power = powerDef_reset, dc_rt_power = powerDef_reset,
      LSQ = None, LoadQ = None, lsq_height = 0, ls_area = 0, ls_power = powerDef_reset,
      ls_rt_power = powerDef_reset\<rparr> :: load_store_u"
  have "wpS (construct e c sys ?x) (\<lambda>_ t. well_made e c ?x ip t) ?s"
    using wp_lsu_construct[OF assms, of ?s e sys] by simp
  then show ?thesis by (auto simp: LoadStoreU_def whenS_def Let_def elim!: wpSE)
qed

text \<open>C32. The constructor of the load and store unit succeeds on a sane description. The two data arrays
  get the same parameters but for the high-performance voltage; buffers and queues see the voltages
  of the core and no approximation.\<close>

theorem lsu_built:
  assumes "sane_dcache c (sys_core sys i)"
  shows "\<exists>s. LoadStoreU e c sys i ip True = Inr s \<and> well_made e c (sys_core sys i) ip s"
  by (rule lsu_constructed[OF assms])

section \<open>Examples\<close>

theorem lsu_built_witness:
  "\<exists>s. LoadStoreU small_env small_params small_sys 0 small_ip True = Inr s \<and>
     well_made small_env small_params (sys_core small_sys 0) small_ip s"
  by (rule lsu_built) (simp add: sane_dcache_def sane_config_def small_core_def small_dcache_def small_params_def)

definition small_lsu :: load_store_u where
  "small_lsu = (let b = Some (small_array small_ip) in
     \<lparr>exist = True, ls_ip = small_ip, cache_p = Write_back, caches = b,
      apcaches = Some (small_array (use_hp_vdd 1 small_ip)), missb = b, ifb = b, prefetchb = b, wbb = b,
      dc_area = 0, dc_power_t = powerDef_reset, dc_power = powerDef_reset, dc_rt_power = powerDef_reset,
      LSQ = b, LoadQ = b, lsq_height = 0, ls_area = 0, ls_power = powerDef_reset,
      ls_rt_power = powerDef_reset\<rparr>)"

text \<open>The data cache would need 630 with one array, the approximate accesses save 186. The buffers take
  192, the two queues 1200 and 600.\<close>

theorem lsu_energy_witness:
  "\<exists>t. computeEnergy False small_env small_params small_core small_lsu = Inr ((), t) \<and>
     dynamic (readOp (ls_rt_power t)) = 630 - 186 + 192 + 1200 + 600"
proof -
  have pre: "built small_params small_core small_lsu"
    by (simp add: small_lsu_def built_def Let_def)
  have q: "has_LoadQ small_params small_core"
    by (simp add: has_LoadQ_def small_params_def small_core_def)
  let ?r = "local_result (small_array small_ip)"
  have en: "read_energy a = 4" "write_energy a = 4" "search_energy a = 4" "tag_read a = 1" if "local_result a = ?r" for a
    by (simp_all add: that read_energy_def write_energy_def search_energy_def tag_read_def
        small_array_def power3_def flat_power_def small_ip_def)
  have ap: "read_energy a = 1" "write_energy a = 1"
    if "local_result a = local_result (small_array (use_hp_vdd 1 small_ip))" for a
    by (simp_all add: that read_energy_def write_energy_def small_array_def power3_def flat_power_def use_hp_vdd_def)
  obtain t where t: "computeEnergy False small_env small_params small_core small_lsu = Inr ((), t)"
    "results t = results small_lsu" "written_back t" "counted_run small_params small_core t"
    "dynamic (readOp (ls_rt_power t)) = dynamic (readOp (ls_rt_power small_lsu)) +
       unit_energy small_params small_core t"
    using lsu_energy[OF pre small_env_dynamic, of False]
    by (auto simp: total_def written_back_def) (auto simp: small_lsu_def Let_def)
  then have "unit_energy small_params small_core t = 630 - 186 + 192 + 1200 + 600"
    using q
    by (auto simp: counted_run_def results_def small_lsu_def en ap unit_energy_def original_energy_def
        saved_energy_def buffer_part_def queue_part_def opt_part_def both_access_def Let_def
        small_core_def small_dcache_def)
  then show ?thesis using t by (auto simp: small_lsu_def Let_def)
qed

end
