(* ===== verification/Power_Parts.thy ===== *)
theory Power_Parts
  imports Power_State
begin

text \<open>
  What the units of a core in \<open>src/mcpat/added/core.cc\<close> have in common: every unit is a component with an
  area and two powers, extends \<open>mcpat_unit\<close> by pointers to its arrays, sets the parameters of one array
  after the other in its own \<open>interface_ip\<close>, and computes energies in three steps: the counts of each
  array, the dynamic energy of each array, and the sums with the leakages.
\<close>

section \<open>Units\<close>

record mcpat_unit =
  u_exist :: bool
  u_ip :: input_parameter
  u_area :: real
  u_power :: power_def
  u_rt_power :: power_def

definition set_uip :: "(input_parameter \<Rightarrow> input_parameter) \<Rightarrow> ('x mcpat_unit_scheme, unit) op" where
  "set_uip f = modS (u_ip_update f)"

definition add_area :: "real \<Rightarrow> ('x mcpat_unit_scheme, unit) op" where
  "add_area a = modS (\<lambda>s. s\<lparr>u_area := u_area s + a\<rparr>)"

text \<open>\<open>power = power + p\<close> for the peak, \<open>rt_power = rt_power + p\<close> for the run\<close>

definition add_total :: "mcpat_env \<Rightarrow> bool \<Rightarrow> power_def \<Rightarrow> ('x mcpat_unit_scheme, unit) op" where
  "add_total e is_tdp p = modS (\<lambda>s. if is_tdp then s\<lparr>u_power := power_plus e (u_power s) p\<rparr>
     else s\<lparr>u_rt_power := power_plus e (u_rt_power s) p\<rparr>)"

definition unit_total :: "bool \<Rightarrow> 'x mcpat_unit_scheme \<Rightarrow> power_def" where
  "unit_total is_tdp s = (if is_tdp then u_power s else u_rt_power s)"

text \<open>A call of a member of an object behind a pointer.\<close>

definition call_part ::
  "('s \<Rightarrow> 'a option) \<Rightarrow> (('a option \<Rightarrow> 'a option) \<Rightarrow> 's \<Rightarrow> 's) \<Rightarrow> ('a, unit) op \<Rightarrow> ('s, unit) op" where
  "call_part p upd m = bindS (deref p) (\<lambda>a. bindS (liftS (m a)) (\<lambda>(_, b). modS (upd (\<lambda>_. Some b))))"

lemma wp_call_part [wp_simps]:
  "wpS (call_part p upd m) Q s \<longleftrightarrow>
     (\<exists>a. p s = Some a \<and> wpS m (\<lambda>_ b. Q () (upd (\<lambda>_. Some b) s)) a)"
  by (cases "p s") (auto simp: call_part_def deref_def op_defs err_simps wpS_def)

lemma wp_known: "m s = Inr (x, t) \<Longrightarrow> wpS m Q s = Q x t"
  by (simp add: wpS_def)

section \<open>Parameters\<close>

text \<open>A RAM, or a structure with tags.\<close>

definition ram_kind :: "input_parameter \<Rightarrow> input_parameter" where
  "ram_kind ip = ip\<lparr>is_cache := False, pure_cam := False, pure_ram := True\<rparr>"

definition cam_kind :: "input_parameter \<Rightarrow> input_parameter" where
  "cam_kind ip = ip\<lparr>is_cache := True, pure_cam := False, pure_ram := False\<rparr>"

definition tagged :: "int \<Rightarrow> input_parameter \<Rightarrow> input_parameter" where
  "tagged tag ip = ip\<lparr>specific_tag := True, tag_w := word_of_int tag\<rparr>"

text \<open>One bank: the size of a line and of the array in bytes, the width of the output in bits.\<close>

definition shape :: "int \<Rightarrow> int \<Rightarrow> int \<Rightarrow> int \<Rightarrow> int \<Rightarrow> input_parameter \<Rightarrow> input_parameter" where
  "shape lsz csz ways ow mode ip = ip\<lparr>line_sz := word_of_int lsz, cache_sz := word_of_int csz,
     assoc := word_of_int ways, nbanks := 1, out_w := word_of_int ow, access_mode := word_of_int mode\<rparr>"

definition speed :: "real \<Rightarrow> real \<Rightarrow> input_parameter \<Rightarrow> input_parameter" where
  "speed thr lat ip = ip\<lparr>throughput := thr, latency := lat\<rparr>"

definition for_delay :: "input_parameter \<Rightarrow> input_parameter" where
  "for_delay ip = ip\<lparr>obj_func_dyn_energy := 0, obj_func_dyn_power := 0, obj_func_leak_power := 0,
     obj_func_cycle_t := 1\<rparr>"

definition ported :: "int \<Rightarrow> int \<Rightarrow> int \<Rightarrow> input_parameter \<Rightarrow> input_parameter" where
  "ported rw rd wr ip = ip\<lparr>num_rw_ports := word_of_int rw, num_rd_ports := word_of_int rd,
     num_wr_ports := word_of_int wr, num_se_rd_ports := 0\<rparr>"

definition searched :: "int \<Rightarrow> input_parameter \<Rightarrow> input_parameter" where
  "searched n ip = ip\<lparr>num_search_ports := word_of_int n\<rparr>"

text \<open>\<open>int(ceil(n/8.0))\<close>\<close>

definition bytes :: "int \<Rightarrow> int" where
  "bytes n = \<lceil>of_int n / 8 :: real\<rceil>"

text \<open>\<open>log2(n)\<close>, of a positive number\<close>

definition log2 :: "int \<Rightarrow> real result" where
  "log2 n = (if 0 < n then Inr (log 2 (of_int n)) else Inl NotANumber)"

lemma log2_pos [simp]: "0 < n \<Longrightarrow> log2 n = Inr (log 2 (of_int n))"
  by (simp add: log2_def)

section \<open>Arrays of a unit\<close>

text \<open>\<open>new ArrayST(&interface_ip, nm, Core_device, coredynp.opt_local, coredynp.core_ty)\<close>: the area of
  \<open>k\<close> copies is added to the area of the array.\<close>

definition new_array :: "mcpat_env \<Rightarrow> core_dyn_param \<Rightarrow> string \<Rightarrow> 'x mcpat_unit_scheme \<Rightarrow> array" where
  "new_array e c nm s = ArrayST e (u_ip s) nm Core_device (opt_local c) (core_ty c)"

definition copies :: "real \<Rightarrow> array \<Rightarrow> array" where
  "copies k a = a\<lparr>arr_area := arr_area a + uca_area (local_result a) * k\<rparr>"

definition new_part ::
  "mcpat_env \<Rightarrow> core_dyn_param \<Rightarrow> string \<Rightarrow>
     ((array option \<Rightarrow> array option) \<Rightarrow> 'x mcpat_unit_scheme \<Rightarrow> 'x mcpat_unit_scheme) \<Rightarrow>
     (array \<Rightarrow> array) \<Rightarrow> (array \<Rightarrow> real) \<Rightarrow> ('x mcpat_unit_scheme, unit) op" where
  "new_part e c nm upd prepare size_of = bindS (getS (new_array e c nm)) (\<lambda>a.
     seqS (modS (upd (\<lambda>_. Some (prepare a)))) (add_area (size_of (prepare a))))"

lemma wp_new_part [wp_simps]:
  "wpS (new_part e c nm upd prepare size_of) Q s =
     (let a = prepare (new_array e c nm s); t = upd (\<lambda>_. Some a) s
      in Q () (t\<lparr>u_area := u_area t + size_of a\<rparr>))"
  by (simp add: new_part_def add_area_def wp_simps Let_def)

definition res_area :: "array \<Rightarrow> real" where
  "res_area a = uca_area (local_result a)"

definition new_copies ::
  "mcpat_env \<Rightarrow> core_dyn_param \<Rightarrow> string \<Rightarrow>
     ((array option \<Rightarrow> array option) \<Rightarrow> 'x mcpat_unit_scheme \<Rightarrow> 'x mcpat_unit_scheme) \<Rightarrow> real \<Rightarrow>
     ('x mcpat_unit_scheme, unit) op" where
  "new_copies e c nm upd k = new_part e c nm upd (copies k) (\<lambda>a. res_area a * k)"

section \<open>Energy of an array\<close>

definition load_counts :: "bool \<Rightarrow> (stats_def \<Rightarrow> stats_def) \<Rightarrow> array \<Rightarrow> array" where
  "load_counts is_tdp f a = (let st = f (stats_t a) in
     if is_tdp then a\<lparr>stats_t := st, tdp_stats := st\<rparr> else a\<lparr>stats_t := st, rtp_stats := st\<rparr>)"

definition set_searches :: "real \<Rightarrow> stats_def \<Rightarrow> stats_def" where
  "set_searches x s = s\<lparr>searchAc := (searchAc s)\<lparr>ac_access := x\<rparr>\<rparr>"

definition set_read :: "stats_components \<Rightarrow> stats_def \<Rightarrow> stats_def" where
  "set_read x s = s\<lparr>readAc := x\<rparr>"

text \<open>Reads and writes with their energies.\<close>

definition rw_part :: "array \<Rightarrow> real" where
  "rw_part a = ac_access (readAc (stats_t a)) * read_energy a + ac_access (writeAc (stats_t a)) * write_energy a"

text \<open>\<open>power_t.reset(); power_t.readOp.dynamic += x\<close>\<close>

definition set_dynamic :: "(array \<Rightarrow> real) \<Rightarrow> array \<Rightarrow> array" where
  "set_dynamic f a = a\<lparr>power_t := add_dynamic (f a) powerDef_reset\<rparr>"

text \<open>\<open>power\<close> or \<open>rt_power\<close> is the dynamic part and the leakage of \<open>p\<close>, by the coefficients \<open>k\<close>.\<close>

definition set_sum :: "bool \<Rightarrow> power_def \<Rightarrow> array \<Rightarrow> array" where
  "set_sum is_tdp p a = (if is_tdp then a\<lparr>arr_power := p\<rparr> else a\<lparr>arr_rt_power := p\<rparr>)"

definition with_leakage :: "mcpat_env \<Rightarrow> pppm \<Rightarrow> array \<Rightarrow> power_def" where
  "with_leakage e k a = power_plus e (power_t a) (power_times e (uca_power (local_result a)) k)"

definition settle :: "mcpat_env \<Rightarrow> bool \<Rightarrow> pppm \<Rightarrow> array \<Rightarrow> array" where
  "settle e is_tdp k a = set_sum is_tdp (with_leakage e k a) a"

definition array_total :: "bool \<Rightarrow> array \<Rightarrow> power_def" where
  "array_total is_tdp a = (if is_tdp then arr_power a else arr_rt_power a)"

lemma array_step_sel [simp]:
  "local_result (copies k a) = local_result a" "local_result (load_counts b f a) = local_result a"
  "local_result (set_dynamic g a) = local_result a" "local_result (settle e b p a) = local_result a"
  "l_ip (copies k a) = l_ip a" "l_ip (load_counts b f a) = l_ip a"
  "l_ip (set_dynamic g a) = l_ip a" "l_ip (settle e b p a) = l_ip a"
  "stats_t (load_counts b f a) = f (stats_t a)"
  "stats_t (set_dynamic g a) = stats_t a" "stats_t (settle e b p a) = stats_t a"
  "power_t (set_dynamic g a) = add_dynamic (g a) powerDef_reset"
  "array_total b (settle e b p a) = with_leakage e p a"
  by (simp_all add: copies_def load_counts_def set_dynamic_def settle_def set_sum_def array_total_def Let_def)

lemma stats_step_sel [simp]:
  "readAc (set_searches x s) = readAc s" "writeAc (set_searches x s) = writeAc s"
  "ac_access (searchAc (set_searches x s)) = x"
  "readAc (set_read r s) = r" "writeAc (set_read r s) = writeAc s" "searchAc (set_access r' w s) = searchAc s"
  by (simp_all add: set_searches_def set_read_def set_access_def)

text \<open>A step on every array of a list, given by its pointer and the update of the pointer.\<close>

type_synonym 's member = "('s \<Rightarrow> array option) \<times> ((array option \<Rightarrow> array option) \<Rightarrow> 's \<Rightarrow> 's)"

definition each :: "'s member list \<Rightarrow> (array \<Rightarrow> array) \<Rightarrow> ('s, unit) op" where
  "each ms f = forS (\<lambda>(p, upd). on_ptr p upd f) ms"

lemma wp_each [wp_simps]:
  "wpS (each [] f) Q s = Q () s"
  "wpS (each ((p, upd) # ms) f) Q s =
     (\<exists>a. p s = Some a \<and> wpS (each ms f) Q (upd (\<lambda>_. Some (f a)) s))"
  by (simp_all add: each_def forS_def wp_simps)

definition no_null :: "'a option list \<Rightarrow> bool" where
  "no_null ps \<longleftrightarrow> (\<forall>p \<in> set ps. p \<noteq> None)"

lemma no_null_simps [simp]: "no_null []" "no_null (p # ps) \<longleftrightarrow> p \<noteq> None \<and> no_null ps"
  by (auto simp: no_null_def)

definition add_array :: "mcpat_env \<Rightarrow> bool \<Rightarrow> ('x mcpat_unit_scheme \<Rightarrow> array option) \<Rightarrow>
     ('x mcpat_unit_scheme, unit) op" where
  "add_array e is_tdp p = bindS (deref p) (\<lambda>a. add_total e is_tdp (array_total is_tdp a))"

lemma wp_add_array [wp_simps]:
  "wpS (add_array e b p) Q s = (\<exists>a. p s = Some a \<and> wpS (add_total e b (array_total b a)) Q s)"
  by (simp add: add_array_def wp_simps)

lemma wp_add_total [wp_simps]:
  "wpS (add_total e b p) Q s = Q () (if b then s\<lparr>u_power := power_plus e (u_power s) p\<rparr>
     else s\<lparr>u_rt_power := power_plus e (u_rt_power s) p\<rparr>)"
  by (simp add: add_total_def wp_simps)

section \<open>Sums of powers field by field\<close>

definition leakage_ops :: "mcpat_env \<Rightarrow> bool" where
  "leakage_ops e \<longleftrightarrow>
     (\<forall>p q. leakage (readOp (power_plus e p q)) = leakage (readOp p) + leakage (readOp q)) \<and>
     (\<forall>p k. leakage (readOp (power_times e p k)) = leakage (readOp p) * k ! 1)"

lemma field_ops_simps:
  assumes "field_ops e"
  shows "dynamic (readOp (power_plus e p q)) = dynamic (readOp p) + dynamic (readOp q)"
    and "dynamic (readOp (power_times e p k)) = dynamic (readOp p) * k ! 0" and "pppm_lkg e ! 0 = 0"
  using assms by (simp_all add: field_ops_def)

lemma leakage_ops_simps:
  assumes "leakage_ops e"
  shows "leakage (readOp (power_plus e p q)) = leakage (readOp p) + leakage (readOp q)"
    and "leakage (readOp (power_times e p k)) = leakage (readOp p) * k ! 1"
  using assms by (simp_all add: leakage_ops_def)

lemma settled_dynamic:
  "field_ops e \<Longrightarrow> k ! 0 = 0 \<Longrightarrow> dynamic (readOp (with_leakage e k a)) = dynamic (readOp (power_t a))"
  by (simp add: with_leakage_def field_ops_simps)

end
