(* ===== verification/Power_Logic.thy ===== *)
theory Power_Logic
  imports Power_Parts
begin

text \<open>
  The parts of a core in \<open>src/mcpat/added/logic.cc\<close> that are not arrays: the selection logic of the
  scheduler, the dependency check of the renaming unit, the registers of the pipeline, the instruction
  decoders and the rest of the core. Their constructors compute area and power from widths of
  transistors; capacitances, leakages and the area of a gate come from the technology.
\<close>

section \<open>A component\<close>

record logic_part =
  lp_ip :: input_parameter
  lp_area :: real
  lp_power :: power_def
  lp_rt_power :: power_def
  lp_power_t :: power_def
  lp_stats_t :: stats_def
  lp_tdp_stats :: stats_def
  lp_rtp_stats :: stats_def

definition fresh_part :: "stats_def \<Rightarrow> input_parameter \<Rightarrow> logic_part" where
  "fresh_part junk ip = \<lparr>lp_ip = ip, lp_area = 0, lp_power = powerDef_reset, lp_rt_power = powerDef_reset,
     lp_power_t = powerDef_reset, lp_stats_t = junk, lp_tdp_stats = junk, lp_rtp_stats = junk\<rparr>"

text \<open>\<open>power.readOp.dynamic *= k\<close> and the same for \<open>writeOp\<close> and \<open>searchOp\<close>\<close>

definition scale_comp :: "real \<Rightarrow> power_components \<Rightarrow> power_components" where
  "scale_comp k p = p\<lparr>dynamic := dynamic p * k\<rparr>"

definition scale_ops :: "real \<Rightarrow> power_def \<Rightarrow> power_def" where
  "scale_ops k p = \<lparr>readOp = scale_comp k (readOp p), writeOp = scale_comp k (writeOp p),
     searchOp = scale_comp k (searchOp p)\<rparr>"

text \<open>The leakages of devices with a longer channel and with power gating.\<close>

definition derive_leakage :: "tech \<Rightarrow> core_type \<Rightarrow> power_def \<Rightarrow> power_def" where
  "derive_leakage g ct p = p\<lparr>readOp := (readOp p)\<lparr>
     longer_channel_leakage := leakage (readOp p) * longer_channel_device_reduction g ct,
     power_gated_leakage := leakage (readOp p) * power_gating_leakage_reduction g\<rparr>\<rparr>"

text \<open>A fresh power with \<open>d\<close>, \<open>l\<close> and \<open>k\<close> as dynamic, subthreshold and gate power of \<open>readOp\<close>\<close>

definition read_power :: "real \<Rightarrow> real \<Rightarrow> real \<Rightarrow> power_def" where
  "read_power d l k = powerDef_reset\<lparr>readOp := no_power\<lparr>dynamic := d, leakage := l, gate_leakage := k\<rparr>\<rparr>"

lemma logic_power_sel [simp]:
  "dynamic (readOp (scale_ops k p)) = dynamic (readOp p) * k"
  "leakage (readOp (scale_ops k p)) = leakage (readOp p)"
  "dynamic (readOp (derive_leakage g ct p)) = dynamic (readOp p)"
  "leakage (readOp (derive_leakage g ct p)) = leakage (readOp p)"
  "dynamic (readOp (read_power d l h)) = d" "leakage (readOp (read_power d l h)) = l"
  "gate_leakage (readOp (read_power d l h)) = h"
  by (simp_all add: scale_ops_def scale_comp_def derive_leakage_def read_power_def)

section \<open>Selection logic\<close>

text \<open>A tree of arbiters of four inputs: every round replaces the entries by a quarter of them.\<close>

function arbiters :: "int \<Rightarrow> int \<Rightarrow> int" where
  "arbiters win_entries num_arbiter =
     (if 4 < win_entries then let w = \<lceil>of_int win_entries / 4 :: real\<rceil> in arbiters w (num_arbiter + w)
      else num_arbiter)"
  by pat_completeness auto

lemma quarter_eq: "\<lceil>of_int w / 4 :: real\<rceil> = (w + 3) div 4"
  proof -
  have "\<lceil>of_int w / of_int 4 :: real\<rceil> = - (- w div 4)" by (rule ceiling_divide_eq_div)
  also have "\<dots> = (w + 3) div 4" by presburger
  finally show ?thesis by simp
qed

termination arbiters
  by (relation "measure (\<lambda>(w, n). nat w)") (auto simp: quarter_eq)

declare arbiters.simps [simp del]

lemma arbiters_lower: "n - 4 \<le> 3 * (arbiters n m - m)"
proof (induction n m rule: arbiters.induct)
  case (1 n m)
  then show ?case
    by (subst arbiters.simps) (auto simp: Let_def quarter_eq)
qed

lemma arbiters_power: "3 * arbiters (4 ^ Suc k) m = 3 * m + 4 ^ Suc k - 4"
proof (induction k arbitrary: m)
  case 0
  then show ?case by (simp add: arbiters.simps)
next
  case (Suc k)
  have "\<lceil>of_int (4 ^ Suc (Suc k)) / 4 :: real\<rceil> = 4 ^ Suc k"
    unfolding quarter_eq power_Suc by presburger
  moreover have "(4::int) < 4 ^ Suc (Suc k)"
    using power_strict_increasing[of 1 "Suc (Suc k)" "4::int"] by simp
  ultimately have "arbiters (4 ^ Suc (Suc k)) m = arbiters (4 ^ Suc k) (m + 4 ^ Suc k)"
    by (subst arbiters.simps) (simp only: if_True Let_def)
  then show ?case using Suc.IH[of "m + 4 ^ Suc k"] by simp
qed

definition selection_cap :: "tech \<Rightarrow> real \<Rightarrow> real" where
  "selection_cap g F = (let WSelORn = 12.5 * F; WSelORprequ = 50 * F; WSelPn = 12.5 * F; WSelPp = 18.75 * F;
       WSelEnn = 6.25 * F; WSelEnp = 12.5 * F; n = (\<lambda>w k. drain_C g w NCH k); p = (\<lambda>w k. drain_C g w PCH k);
       Cor = 4 * n WSelORn 1 + p WSelORprequ 1;
       Cpencode = n WSelPn 1 + p WSelPp 1 + 2 * n WSelPn 1 + p WSelPp 2 + 3 * n WSelPn 1 + p WSelPp 3 +
         4 * n WSelPn 1 + p WSelPp 4 + 2 * 4 * gate_C g (WSelEnn + WSelEnp) 20 +
         4 * n WSelEnn 1 + 2 * 4 * p WSelEnp 1 +
         (2 * 4 + 2 * 3 + 2 * 2 + 2) * gate_C g (WSelPn + WSelPp) 10
     in Cor + Cpencode)"

definition selection_leak :: "(real \<Rightarrow> real \<Rightarrow> nat \<Rightarrow> gate \<Rightarrow> real) \<Rightarrow> real \<Rightarrow> real" where
  "selection_leak I F = (let WSelPn = 12.5 * F; WSelPp = 18.75 * F; WSelEnn = 6.25 * F; WSelEnp = 12.5 * F in
     I WSelPn WSelPp 2 nor_gate + I WSelPn WSelPp 3 nor_gate + I WSelPn WSelPp 4 nor_gate +
     I WSelEnn WSelEnp 2 nor_gate * 4 + I WSelEnn WSelEnp 1 inv_gate * 2 * 3)"

definition selection_power :: "tech \<Rightarrow> real \<Rightarrow> int \<Rightarrow> int \<Rightarrow> power_def" where
  "selection_power g F win_entries width =
     (let n = of_int (width * arbiters win_entries 1); v = peri_Vdd g in
      read_power (n * selection_cap g F * v * v * 2)
        (n * selection_leak (cmos_Isub_leakage g) F * v) (n * selection_leak (cmos_Ig_leakage g) F * v))"

definition selection_logic ::
  "mcpat_env \<Rightarrow> stats_def \<Rightarrow> int \<Rightarrow> int \<Rightarrow> input_parameter \<Rightarrow> core_type \<Rightarrow> logic_part" where
  "selection_logic e junk win_entries width ip ct = (let (g, jp) = init_interface e ip in
     (fresh_part junk jp)\<lparr>lp_power :=
        derive_leakage g ct (scale_ops (sckt_co_eff g) (selection_power g (F_sz_um jp) win_entries width))\<rparr>)"

section \<open>Dependency check\<close>

record conflict_check = logic_part +
  compare_bits :: int
  Wcompn :: real

text \<open>Two comparators of a source with a destination and one of two destinations for every pair.\<close>

definition num_comparators :: "core_dyn_param \<Rightarrow> int" where
  "num_comparators c = 3 * (decodeW c * decodeW c - decodeW c)"

definition compare_cap :: "tech \<Rightarrow> real \<Rightarrow> int \<Rightarrow> real" where
  "compare_cap g F bits = (let b = of_int bits; Wcompn = 25 * F; Wevalinvp = 25 * F; Wevalinvn = 100 * F;
       Wcomppreequ = 50 * F; WNORn = 6.75 * F; WNORp = 38.125 * F * b / 2;
       c2 = b * (drain_C g Wcompn NCH 1 + drain_C g Wcompn NCH 2) + drain_C g Wevalinvp PCH 1 +
         drain_C g Wevalinvn NCH 1;
       c1 = b * (drain_C g Wcompn NCH 1 + drain_C g Wcompn NCH 2 + drain_C g Wcomppreequ NCH 1) +
         gate_C g (WNORn + WNORp) 10 + drain_C g WNORp NCH 2 + b * drain_C g WNORn NCH 2
     in c1 + c2)"

definition check_leakage :: "tech \<Rightarrow> core_dyn_param \<Rightarrow> int \<Rightarrow> real \<Rightarrow> power_def \<Rightarrow> power_def" where
  "check_leakage g c bits w p = (let n = of_int (num_comparators c * bits * 2) in
     derive_leakage g (core_ty c) (p\<lparr>readOp := (readOp p)\<lparr>leakage := n * simplified_nmos_leakage g w,
       gate_leakage := n * cmos_Ig_leakage g w 0 2 nmos_gate\<rparr>\<rparr>))"

definition dep_resource_conflict_check ::
  "mcpat_env \<Rightarrow> stats_def \<Rightarrow> input_parameter \<Rightarrow> core_dyn_param \<Rightarrow> int \<Rightarrow> conflict_check" where
  "dep_resource_conflict_check e junk ip c width =
     (let (g, jp) = init_interface e ip; bits = width + (16 + 8 + 8); w = 25 * F_sz_um ip;
          cap = of_int (num_comparators c) * compare_cap g (F_sz_um ip) bits
      in logic_part.extend ((fresh_part junk jp)\<lparr>lp_power := scale_ops (sckt_co_eff g)
             (check_leakage g c bits w (read_power (cap * peri_Vdd g * peri_Vdd g) 0 0))\<rparr>)
           \<lparr>compare_bits = bits, Wcompn = w\<rparr>)"

definition leakage_feedback ::
  "mcpat_env \<Rightarrow> core_dyn_param \<Rightarrow> real \<Rightarrow> conflict_check \<Rightarrow> conflict_check" where
  "leakage_feedback e c temperature d =
     (let (g, jp) = init_interface e ((lp_ip d)\<lparr>temp := round_temp temperature\<rparr>)
      in d\<lparr>lp_ip := jp, lp_power := check_leakage g c (compare_bits d) (Wcompn d) (lp_power d)\<rparr>)"

section \<open>Registers of the pipeline\<close>

record dff_cell =
  dff_area :: real
  e_switch :: power_components
  e_keep_1 :: real
  e_keep_0 :: real
  e_clock :: real

definition fpfp_node_cap :: "tech \<Rightarrow> real \<Rightarrow> real \<Rightarrow> nat \<Rightarrow> nat \<Rightarrow> real" where
  "fpfp_node_cap g n p fan_in fan_out = drain_C g n NCH 2 + real fan_in * drain_C g p PCH 1 +
     real fan_out * gate_C g (n + p) 0"

definition DFFCell :: "tech \<Rightarrow> real \<Rightarrow> real \<Rightarrow> real \<Rightarrow> dff_cell" where
  "DFFCell g n p cell_load = (let c1 = fpfp_node_cap g n p 2 1; c5 = c1; c6 = c1; c2 = fpfp_node_cap g n p 2 3;
       c3 = fpfp_node_cap g n p 3 2; c4 = fpfp_node_cap g n p 2 2; clock_cap = 2 * gate_C g (n + p) 0;
       v = peri_Vdd g
     in \<lparr>dff_area = 5 * NAND_area g 2 n p + NAND_area g 2 n n,
         e_switch = no_power\<lparr>dynamic := (c4 + c1 + c2 + c3 + c5 + c6 + 2 * cell_load) * 0.5 * v * v,
           leakage := (cmos_Isub_leakage g n p 2 nand_gate * 5 + cmos_Isub_leakage g n n 3 nand_gate) * v,
           gate_leakage := (cmos_Ig_leakage g n p 2 nand_gate * 5 + cmos_Ig_leakage g n n 3 nand_gate) * v\<rparr>,
         e_keep_1 = c3 * v * v, e_keep_0 = c2 * v * v, e_clock = clock_cap * v * v\<rparr>)"

definition opcode_signals :: "core_dyn_param \<Rightarrow> real" where
  "opcode_signals c = 2 powr of_int (if x86 c then micro_opcode_length c else opcode_length c)"

text \<open>The bits between the stages of a pipeline of six or twelve stages.\<close>

definition inorder_bits :: "core_dyn_param \<Rightarrow> real" where
  "inorder_bits c = (let t = num_hthreads c; i = instr_length c; pc = pc_width c; d = int_data_width c;
       r = arch_ireg_width c; ops = opcode_signals c in
     of_int (pc * 2 * t) + of_int (fetchW c * (i + pc) * t) +
     (if multithreaded c then of_int (t * perThreadState c) else 0) +
     of_int (decodeW c) * (of_int (i + pc) + ops + of_int (2 * d)) * of_int t +
     of_int (issueW c) * (of_int (3 * r) + ops + of_int (8 * 2 * d)) +
     of_int (issueW c) * (of_int (2 * d) + ops + of_int (8 * 2 * d)))"

definition ooo_bits :: "core_dyn_param \<Rightarrow> real" where
  "ooo_bits c = (let t = num_hthreads c; i = instr_length c; pc = pc_width c; d = int_data_width c;
       r = phy_ireg_width c; v = v_address_width c; w = issueW c; ops = opcode_signals c in
     of_int (pc * 2 * t) + of_int (fetchW c * (i + pc) * t) + of_int (decodeW c * (i + pc) * t) +
     of_int (decodeW c * (i + pc)) + of_int (w * (i + pc + 3 * r) * t) + of_int (w * (i + 3 * r)) +
     of_int w * (of_int (3 * r + pc) + ops) + of_int w * (of_int (2 * d) + ops) +
     of_int w * (of_int (2 * d) + ops) + of_int w * (of_int (d + v) + ops) + of_int (w * (d + r)) +
     of_int (commitW c * (d + v + r) * t))"

text \<open>A deeper pipeline has the average number of bits in every further stage.\<close>

definition compute_stage_vector :: "core_dyn_param \<Rightarrow> real" where
  "compute_stage_vector c = (let stages = (if core_ty c = Inorder then 6 else 12);
       tot_stage_vector = (if core_ty c = Inorder then inorder_bits c else ooo_bits c) * 1.5;
       per_stage_vector = tot_stage_vector / of_int stages
     in if stages < pipeline_stages c then per_stage_vector * of_int (pipeline_stages c) else tot_stage_vector)"

definition Pipeline :: "mcpat_env \<Rightarrow> stats_def \<Rightarrow> input_parameter \<Rightarrow> core_dyn_param \<Rightarrow> logic_part" where
  "Pipeline e junk ip c = (let (g, jp) = init_interface e ip; F = F_sz_um jp;
       n = (if dyn_Embedded c then min_w_nmos g else 25 * F);
       p = (if dyn_Embedded c then min_w_nmos g * pmos_to_nmos_sz_ratio g else 37.5 * F);
       reg = DFFCell g n p (2 * gate_C g (n + p) 0); k = compute_stage_vector c;
       dyn = k * (dynamic (e_switch reg) + e_keep_0 reg + e_keep_1 reg) / 3 + k * e_clock reg
     in (fresh_part junk jp)\<lparr>
          lp_area := (if dyn_Embedded c then k * dff_area reg else k * dff_area reg * macro_layout_overhead g),
          lp_power := scale_ops (sckt_co_eff g) (derive_leakage g (core_ty c)
            (read_power dyn (k * leakage (e_switch reg)) (k * gate_leakage (e_switch reg))))\<rparr>)"

section \<open>Instruction decoders\<close>

text \<open>Opcodes of more than 18 bits are decoded in segments; an x86 opcode passes the sequencer twice. The
  code calls the constructor for one decoder.\<close>

definition decoder_segments :: "int \<Rightarrow> int" where
  "decoder_segments n = \<lceil>of_int n / 18 :: real\<rceil>"

definition decoded_signals :: "int \<Rightarrow> int" where
  "decoded_signals n = trunc (2 powr of_int (min n 18))"

definition inst_decoder_delay_power ::
  "mcpat_env \<Rightarrow> bool \<Rightarrow> int \<Rightarrow> int \<Rightarrow> decode_circuit \<Rightarrow> power_def" where
  "inst_decoder_delay_power e isx86 segments signals d =
     (let m = (if isx86 then 2 else 1) * of_int segments; sg = of_int segments; n = of_int (segments * signals) in
      power_plus e (power_plus e powerDef_reset (power_times e (pre_power d) [m, sg, m, sg]))
        (power_times e (final_power d) [m, n, n, m]))"

definition inst_decoder ::
  "mcpat_env \<Rightarrow> stats_def \<Rightarrow> input_parameter \<Rightarrow> int \<Rightarrow> bool \<Rightarrow> core_type \<Rightarrow> logic_part" where
  "inst_decoder e junk ip oplen isx86 ct = (let (g, jp) = init_interface e ip;
       segments = decoder_segments oplen; signals = decoded_signals oplen;
       load = 1024 * gate_C g (max_w_nmos g / 2 + max_w_nmos g * pmos_to_nmos_sz_ratio g) 0;
       wire = 3000 * F_sz_um jp * R_per_um g; d = Decoders e g signals load wire
     in (fresh_part junk jp)\<lparr>
          lp_area := (final_area d * of_int (signals * segments) + pre_area d * of_int segments) *
            macro_layout_overhead g * chip_layout_overhead g,
          lp_power := derive_leakage g ct (scale_ops (sckt_co_eff g)
            (inst_decoder_delay_power e isx86 segments signals d))\<rparr>)"

section \<open>The rest of the core\<close>

text \<open>Curves fitted to measured cores, in square millimetres. The logarithm of a negative depth is not a
  number and that of 0 is negative infinity, and neither is positive; without stages the curve of an in-order core is infinite.\<close>

definition fitted_area :: "mcpat_env \<Rightarrow> root_system \<Rightarrow> core_dyn_param \<Rightarrow> real result" where
  "fitted_area e sys c = (let stages = of_int (pipeline_stages c); threads = logtwo e (of_int (num_hthreads c)) in
     if Embedded sys then
       Inr ((0.4109 * stages - 0.776) * (if opt_clockrate sys then 0.05 else 0) * (1 + threads * 0.0426))
     else if stages = 0 \<and> core_ty c = Inorder then Inl NotANumber
     else let a = (if stages \<le> 0 then 0
         else case core_ty c of OOO \<Rightarrow> 3.57 * ln stages - 1.2643 | Inorder \<Rightarrow> - 2.19 * ln stages + 6.55)
       in Inr ((if 0 < a then a else 0) * (1 + threads * 0.0716)))"

text \<open>The ratio is read before \<open>init_interface\<close> sets the technology.\<close>

definition UndiffCore ::
  "mcpat_env \<Rightarrow> tech \<Rightarrow> stats_def \<Rightarrow> root_system \<Rightarrow> input_parameter \<Rightarrow> core_dyn_param \<Rightarrow> logic_part result" where
  "UndiffCore e g0 junk sys ip c = (let r = pmos_to_nmos_sz_ratio g0; (g, jp) = init_interface e ip in
     bindE (fitted_area e sys c) (\<lambda>mm.
     let a = mm * (logic_scaling_co_eff g * 10 ^ 6); w = 5 * min_w_nmos g in
     Inr ((fresh_part junk jp)\<lparr>lp_area := a * macro_layout_overhead g,
       lp_power := scale_ops (sckt_co_eff g) (derive_leakage g (core_ty c)
         (read_power 0 (a * core_tx_density g * Isub_leakage g w (w * r) * peri_Vdd g)
            (a * core_tx_density g * Ig_leakage g w (w * r) * peri_Vdd g)))\<rparr>)))"

end
