(* ===== verification/Power_Branch.thy ===== *)
theory Power_Branch
  imports Power_Parts
begin

text \<open>
  \<open>class BranchPredictor\<close> of \<open>src/mcpat/added/core.cc\<close>: a tournament predictor with a global table, a
  local one of two levels and a chooser, and a stack of return addresses for every thread.
\<close>

section \<open>The unit\<close>

record branch_predictor = mcpat_unit +
  globalBPT :: "array option"
  L1_localBPT :: "array option"
  L2_localBPT :: "array option"
  chooser :: "array option"
  RAS :: "array option"

type_synonym 'a bp_op = "(branch_predictor, 'a) op"

abbreviation tables :: "branch_predictor member list" where
  "tables \<equiv> [(globalBPT, globalBPT_update), (L1_localBPT, L1_localBPT_update),
     (L2_localBPT, L2_localBPT_update), (chooser, chooser_update)]"

section \<open>The constructor\<close>

text \<open>The tables are tagged with the thread if there is more than one.\<close>

definition tables_kind :: "mcpat_env \<Rightarrow> core_dyn_param \<Rightarrow> unit bp_op" where
  "tables_kind e c = seqS (set_uip (\<lambda>ip. ip\<lparr>assoc := 1, pure_cam := False\<rparr>))
     (if multithreaded c then
        bindS (liftS (log2 (num_hthreads c))) (\<lambda>l.
        bindS (liftS (cast_int (l + of_int (EXTRA_TAG_BITS e)))) (\<lambda>tag.
        set_uip (\<lambda>ip. (tagged tag ip)\<lparr>is_cache := True, pure_ram := False\<rparr>)))
      else set_uip (\<lambda>ip. ip\<lparr>is_cache := False, pure_ram := True\<rparr>))"

definition table_ip :: "core_dyn_param \<Rightarrow> real \<Rightarrow> int \<Rightarrow> int \<Rightarrow> input_parameter \<Rightarrow> input_parameter" where
  "table_ip c cyc lsz entries ip = ported 0 (predictionW c) (predictionW c)
     (for_delay (speed cyc cyc (shape lsz (lsz * entries) 1 (lsz * 8) 2 ip)))"

definition new_table ::
  "mcpat_env \<Rightarrow> core_dyn_param \<Rightarrow> real \<Rightarrow> string \<Rightarrow>
     ((array option \<Rightarrow> array option) \<Rightarrow> branch_predictor \<Rightarrow> branch_predictor) \<Rightarrow> int \<Rightarrow> int \<Rightarrow> unit bp_op" where
  "new_table e c cyc nm upd lsz entries =
     seqS (set_uip (table_ip c cyc lsz entries)) (new_copies e c nm upd 1)"

definition construct :: "mcpat_env \<Rightarrow> core_dyn_param \<Rightarrow> system_core \<Rightarrow> unit bp_op" where
  "construct e c x = (let p = predictor x in
     seqS (tables_kind e c)
     (bindS (liftS (quotient 1 (clockRate c))) (\<lambda>cyc.
     seqS (new_table e c cyc ''Global Predictor'' globalBPT_update
       (bytes (global_predictor_bits p)) (global_predictor_entries p))
     (seqS (new_table e c cyc ''L1 local Predictor'' L1_localBPT_update
       (bytes (local_predictor_size p 0)) (local_predictor_entries p))
     (seqS (new_table e c cyc ''L2 local Predictor'' L2_localBPT_update
       (bytes (local_predictor_size p 1)) (local_predictor_entries p))
     (seqS (new_table e c cyc ''Predictor Chooser'' chooser_update
       (bytes (chooser_predictor_bits p)) (chooser_predictor_entries p))
     (seqS (set_uip (\<lambda>ip. table_ip c cyc (bytes (pc_width c)) (RAS_size x)
         (ip\<lparr>is_cache := False, pure_ram := True\<rparr>)))
     (new_copies e c ''RAS'' RAS_update (of_int (num_hthreads c))))))))))"

definition BranchPredictor ::
  "mcpat_env \<Rightarrow> core_dyn_param \<Rightarrow> system_core \<Rightarrow> input_parameter \<Rightarrow> bool \<Rightarrow> branch_predictor result" where
  "BranchPredictor e c x ip ex = bindE (whenS ex (construct e c x)
     \<lparr>u_exist = ex, u_ip = ip, u_area = 0, u_power = powerDef_reset, u_rt_power = powerDef_reset,
      globalBPT = None, L1_localBPT = None, L2_localBPT = None, chooser = None, RAS = None\<rparr>)
     (\<lambda>(_, s). Inr s)"

section \<open>\<open>computeEnergy\<close>\<close>

text \<open>A tenth of the branches change the state of the tables.\<close>

definition table_reads :: "bool \<Rightarrow> core_dyn_param \<Rightarrow> system_core \<Rightarrow> real" where
  "table_reads is_tdp c x = (if is_tdp then of_int (predictionW c) * BR_duty_cycle c else branch_instructions x)"

definition table_writes :: "bool \<Rightarrow> core_dyn_param \<Rightarrow> system_core \<Rightarrow> real" where
  "table_writes is_tdp c x = (if is_tdp then 0 * BR_duty_cycle c
     else branch_mispredictions x + 0.1 * branch_instructions x)"

definition count :: "bool \<Rightarrow> core_dyn_param \<Rightarrow> system_core \<Rightarrow> unit bp_op" where
  "count is_tdp c x = seqS
     (each tables (load_counts is_tdp (set_access (table_reads is_tdp c x) (table_writes is_tdp c x))))
     (on_ptr RAS RAS_update (load_counts is_tdp
       (if is_tdp then set_access (table_reads is_tdp c x) (table_writes is_tdp c x)
        else set_access (function_calls x) (function_calls x))))"

definition computeEnergy :: "bool \<Rightarrow> mcpat_env \<Rightarrow> core_dyn_param \<Rightarrow> system_core \<Rightarrow> unit bp_op" where
  "computeEnergy is_tdp e c x = bindS (getS u_exist) (\<lambda>ex. whenS ex
     (seqS (count is_tdp c x)
     (seqS (each (tables @ [(RAS, RAS_update)]) (set_dynamic rw_part))
     (seqS (each tables (settle e is_tdp (pppm_lkg e)))
     (seqS (on_ptr RAS RAS_update (settle e is_tdp (pppm_lkg_multhread c)))
     (seqS (add_array e is_tdp globalBPT) (seqS (add_array e is_tdp L1_localBPT)
     (seqS (add_array e is_tdp chooser) (add_array e is_tdp RAS)))))))))"

section \<open>What it computes\<close>

definition built :: "branch_predictor \<Rightarrow> bool" where
  "built s \<longleftrightarrow> (u_exist s \<longrightarrow> globalBPT s \<noteq> None \<and> L1_localBPT s \<noteq> None \<and> L2_localBPT s \<noteq> None \<and>
     chooser s \<noteq> None \<and> RAS s \<noteq> None)"

text \<open>The energy of \<open>r\<close> reads and \<open>w\<close> writes.\<close>

definition access_energy :: "array \<Rightarrow> real \<Rightarrow> real \<Rightarrow> real" where
  "access_energy a r w = r * read_energy a + w * write_energy a"

definition thread_tag :: "mcpat_env \<Rightarrow> core_dyn_param \<Rightarrow> bool" where
  "thread_tag e c \<longleftrightarrow> 0 < num_hthreads c \<and>
     (\<exists>n. cast_int (log 2 (of_int (num_hthreads c)) + of_int (EXTRA_TAG_BITS e)) = Inr n)"

lemma predictor_construct_built:
  assumes "clockRate c \<noteq> 0" "multithreaded c \<longrightarrow> thread_tag e c"
  shows "wpS (construct e c x) (\<lambda>_ t. built t \<and> u_exist t = u_exist s) s"
  using assms
  by (cases "multithreaded c")
    (auto simp: construct_def tables_kind_def new_table_def new_copies_def set_uip_def wp_simps
        built_def thread_tag_def Let_def)

lemma predictor_built:
  assumes "clockRate c \<noteq> 0" "multithreaded c \<longrightarrow> thread_tag e c"
  shows "\<exists>s. BranchPredictor e c x ip ex = Inr s \<and> built s \<and> u_exist s = ex"
  using predictor_construct_built[OF assms, of x] unfolding BranchPredictor_def
  by (cases ex) (fastforce simp: wpS_def err_simps built_def)+

lemma rw_part_loaded: "rw_part (load_counts b (set_access r w) a) = access_energy a r w"
  by (simp add: rw_part_def access_energy_def read_energy_def write_energy_def)

definition results :: "branch_predictor \<Rightarrow> uca_org option list" where
  "results s = map (map_option local_result) [globalBPT s, L1_localBPT s, L2_localBPT s, chooser s, RAS s]"

text \<open>The energy of one pass; the second level of the local predictor is no part of it.\<close>

definition predictor_energy :: "bool \<Rightarrow> core_dyn_param \<Rightarrow> system_core \<Rightarrow> branch_predictor \<Rightarrow> real" where
  "predictor_energy is_tdp c x s = (let r = table_reads is_tdp c x; w = table_writes is_tdp c x;
       E = (\<lambda>p r w. access_energy (the (p s)) r w) in
     E globalBPT r w + E L1_localBPT r w + E chooser r w +
     (if is_tdp then E RAS r w else E RAS (function_calls x) (function_calls x)))"

lemma predictor_energy_runs:
  assumes "built s" "u_exist s" "field_ops e" "pppm_lkg_multhread c ! 0 = 0"
  shows "wpS (computeEnergy is_tdp e c x) (\<lambda>_ t. built t \<and> u_exist t \<and> u_area t = u_area s \<and>
     results t = results s \<and>
     dynamic (readOp (unit_total is_tdp t)) = dynamic (readOp (unit_total is_tdp s)) +
       predictor_energy is_tdp c x s \<and>
     unit_total (\<not> is_tdp) t = unit_total (\<not> is_tdp) s) s"
  using assms
  by (cases is_tdp)
    (auto simp: computeEnergy_def count_def wp_simps built_def results_def unit_total_def field_ops_simps
      settled_dynamic rw_part_loaded predictor_energy_def Let_def)

text \<open>C34. A pass of a branch predictor adds the energies of the global table, the first level of the local
  predictor, the chooser and the return stack. Whatever second level the local predictor has, the total is the
  same.\<close>

theorem second_level_not_counted:
  assumes "built s" "u_exist s" "field_ops e" "pppm_lkg_multhread c ! 0 = 0"
  shows "\<exists>t u. computeEnergy is_tdp e c x s = Inr ((), t) \<and>
    computeEnergy is_tdp e c x (s\<lparr>L2_localBPT := Some p\<rparr>) = Inr ((), u) \<and>
    dynamic (readOp (unit_total is_tdp t)) = dynamic (readOp (unit_total is_tdp s)) + predictor_energy is_tdp c x s \<and>
    dynamic (readOp (unit_total is_tdp u)) = dynamic (readOp (unit_total is_tdp t))"
proof -
  let ?v = "s\<lparr>L2_localBPT := Some p\<rparr>"
  have v: "built ?v" "u_exist ?v" "predictor_energy is_tdp c x ?v = predictor_energy is_tdp c x s"
    "unit_total is_tdp ?v = unit_total is_tdp s"
    using assms(1,2) by (simp_all add: built_def predictor_energy_def unit_total_def Let_def)
  show ?thesis
    using predictor_energy_runs[OF assms, where is_tdp = is_tdp and x = x]
      predictor_energy_runs[OF v(1,2) assms(3,4), where is_tdp = is_tdp and x = x] v(3,4)
    by (auto elim!: wpSE)
qed

theorem second_level_not_counted_witness:
  "\<exists>s t u. BranchPredictor small_env small_params small_core small_ip True = Inr s \<and>
    computeEnergy False small_env small_params small_core s = Inr ((), t) \<and>
    computeEnergy False small_env small_params small_core (s\<lparr>L2_localBPT := Some (small_array small_ip)\<rparr>) = Inr ((), u) \<and>
    dynamic (readOp (unit_total False u)) = dynamic (readOp (unit_total False t))"
proof -
  have c: "clockRate small_params \<noteq> 0" "pppm_lkg_multhread small_params ! 0 = 0" "\<not> multithreaded small_params"
    by (simp_all add: small_params_def)
  obtain s where s: "BranchPredictor small_env small_params small_core small_ip True = Inr s" "built s" "u_exist s"
    using predictor_built[OF c(1), of small_env small_core small_ip True] c(3) by auto
  have f: "field_ops small_env" by (simp add: field_ops_def small_env_def comp_plus_def comp_times_def)
  show ?thesis
    using s(1) second_level_not_counted[OF s(2,3) f c(2), where is_tdp = False and x = small_core] by blast
qed

end
