(* ===== verification/Power_Fetch.thy ===== *)
theory Power_Fetch
  imports Power_Logic Power_Branch
begin

text \<open>
  \<open>class InstFetchU\<close> of \<open>src/mcpat/added/core.cc\<close>: the instruction cache with its buffers, the
  instruction buffer, the branch target buffer, the branch predictor and the decoders.
\<close>

section \<open>The unit\<close>

record inst_fetch = mcpat_unit +
  ic_policy :: cache_policy
  ic_caches :: "array option"        \<comment> \<open>the members of \<open>icache\<close>\<close>
  ic_missb :: "array option"
  ic_ifb :: "array option"
  ic_prefetchb :: "array option"
  ic_area :: real
  ic_power_t :: power_def
  ic_power :: power_def
  ic_rt_power :: power_def
  IB :: "array option"
  BTB :: "array option"
  BPT :: "branch_predictor option"
  ID_inst :: "logic_part option"
  ID_operand :: "logic_part option"
  ID_misc :: "logic_part option"

type_synonym 'a fetch_op = "(inst_fetch, 'a) op"

section \<open>The constructor\<close>

definition icache_ip ::
  "system_core \<Rightarrow> int \<Rightarrow> int \<Rightarrow> int \<Rightarrow> int \<Rightarrow> int \<Rightarrow> real \<Rightarrow> real \<Rightarrow> input_parameter \<Rightarrow> input_parameter" where
  "icache_ip x tag sz lsz ways banks thr lat ip =
     (let shaped = (shape lsz sz ways (lsz * 8) 0 (tagged tag ip))\<lparr>nbanks := word_of_int banks\<rparr> in
      ported (number_instruction_fetch_ports x) 0 0 (cam_kind (speed thr lat shaped)))"

definition new_ic ::
  "mcpat_env \<Rightarrow> core_dyn_param \<Rightarrow> string \<Rightarrow> (inst_fetch \<Rightarrow> array option) \<Rightarrow>
     ((array option \<Rightarrow> array option) \<Rightarrow> inst_fetch \<Rightarrow> inst_fetch) \<Rightarrow> unit fetch_op" where
  "new_ic e c nm p upd = seqS (new_part e c nm upd (\<lambda>a. a) res_area)
     (bindS (deref p) (\<lambda>a. modS (\<lambda>s. s\<lparr>ic_area := ic_area s + res_area a\<rparr>)))"

definition fetch_buffer_ip ::
  "system_core \<Rightarrow> int \<Rightarrow> int \<Rightarrow> int \<Rightarrow> real \<Rightarrow> real \<Rightarrow> input_parameter \<Rightarrow> input_parameter" where
  "fetch_buffer_ip x tag lsz entries thr lat ip = (let n = number_instruction_fetch_ports x in
     searched n (ported n 0 0 (for_delay (speed thr lat
       (shape lsz (lsz * entries) 0 (lsz * 8) 0 (tagged tag ip))))))"

definition make_icache ::
  "mcpat_env \<Rightarrow> core_dyn_param \<Rightarrow> root_system \<Rightarrow> system_core \<Rightarrow> unit fetch_op" where
  "make_icache e c sys x = (let cfg = icache_config (icache x); paw = physical_address_width sys;
       entries = ic_buffer_sizes (icache x) in
     bindS (liftS (cast_int (cfg 0))) (\<lambda>sz. bindS (liftS (cast_int (cfg 1))) (\<lambda>lsz.
     bindS (liftS (cast_int (cfg 2))) (\<lambda>ways. bindS (liftS (cast_int (cfg 3))) (\<lambda>banks.
     bindS (liftS (int_quotient sz lsz)) (\<lambda>n. bindS (liftS (int_quotient n ways)) (\<lambda>sets.
     bindS (liftS (ceil_log2 (of_int sets))) (\<lambda>idx. bindS (liftS (ceil_log2 (of_int lsz))) (\<lambda>off.
     bindS (liftS (quotient (cfg 4) (clockRate c))) (\<lambda>thr.
     bindS (liftS (quotient (cfg 5) (clockRate c))) (\<lambda>lat.
     seqS (set_uip (icache_ip x (paw - idx - off + EXTRA_TAG_BITS e) sz lsz ways banks thr lat))
     (seqS (new_ic e c ''icache'' ic_caches ic_caches_update)
     (bindS (deref ic_caches) (\<lambda>main. bindS (liftS (ceil_log2 (of_int n))) (\<lambda>lines.
     let tag = paw + EXTRA_TAG_BITS e; mline = line_sz (l_ip main);
         data = sint (word_of_int (paw + lines) + mline * 8 :: u32); width = sint mline in
     seqS (set_uip (fetch_buffer_ip x tag (bytes data) (entries 0) thr lat))
     (seqS (new_ic e c ''icacheMissBuffer'' ic_missb ic_missb_update)
     (seqS (set_uip (fetch_buffer_ip x tag width (entries 1) thr lat))
     (seqS (new_ic e c ''icacheFillBuffer'' ic_ifb ic_ifb_update)
     (seqS (set_uip (fetch_buffer_ip x tag width (entries 2) thr lat))
     (new_ic e c ''icacheprefetchBuffer'' ic_prefetchb ic_prefetchb_update))))))))))))))))))))"

text \<open>The instruction buffer has at least 64 bytes.\<close>

definition at_least_64 :: "u32 \<Rightarrow> u32" where
  "at_least_64 w = (if 64 < w then w else 64)"

definition make_IB :: "mcpat_env \<Rightarrow> core_dyn_param \<Rightarrow> system_core \<Rightarrow> real \<Rightarrow> unit fetch_op" where
  "make_IB e c x cyc = (let lsz = bytes (instruction_length x * peak_issue_width x);
       n = at_least_64 (word_of_int (number_hardware_threads x * instruction_buffer_size x * lsz)) in
     seqS (set_uip (\<lambda>ip. ported (number_instruction_fetch_ports x) 0 0 (for_delay (speed cyc cyc
       (shape lsz (uint n) 1 (lsz * 8) 0 (ram_kind ip))))))
     (new_copies e c ''InstBuffer'' IB_update 1))"

definition make_BTB ::
  "mcpat_env \<Rightarrow> core_dyn_param \<Rightarrow> root_system \<Rightarrow> system_core \<Rightarrow> unit fetch_op" where
  "make_BTB e c sys x = (let cfg = BTB_config (BTB_x x) in
     bindS (liftS (int_quotient (cfg 0) (cfg 1))) (\<lambda>n. bindS (liftS (int_quotient n (cfg 2))) (\<lambda>sets.
     bindS (liftS (ceil_log2 (of_int sets))) (\<lambda>idx.
     bindS (liftS (ceil_log2 (of_int (number_hardware_threads x)))) (\<lambda>thr_bits.
     bindS (liftS (quotient (of_int (cfg 4)) (clockRate c))) (\<lambda>thr.
     bindS (liftS (quotient (of_int (cfg 5)) (clockRate c))) (\<lambda>lat.
     let tag = virtual_address_width sys + thr_bits + EXTRA_TAG_BITS e in
     seqS (set_uip (\<lambda>ip. ported 1 (predictionW c) (predictionW c) (for_delay (speed thr lat
       ((shape (cfg 1) (cfg 0) (cfg 2) (cfg 1 * 8) 0 (tagged tag (cam_kind ip)))\<lparr>nbanks := word_of_int (cfg 3)\<rparr>)))))
     (new_copies e c ''Branch Target Buffer'' BTB_update 1))))))))"

definition make_predictor :: "mcpat_env \<Rightarrow> core_dyn_param \<Rightarrow> system_core \<Rightarrow> unit fetch_op" where
  "make_predictor e c x = bindS (getS u_ip) (\<lambda>ip.
     bindS (liftS (BranchPredictor e c x ip (default_exist e))) (\<lambda>b.
     seqS (modS (\<lambda>s. s\<lparr>BPT := Some b\<rparr>)) (add_area (u_area b))))"

definition make_decoders :: "mcpat_env \<Rightarrow> stats_def \<Rightarrow> core_dyn_param \<Rightarrow> unit fetch_op" where
  "make_decoders e junk c = bindS (getS u_ip) (\<lambda>ip.
     let d = (\<lambda>n. inst_decoder e junk ip n (x86 c) (core_ty c));
         d1 = d (opcode_length c); d2 = d (arch_ireg_width c); d3 = d 8 in
     seqS (modS (\<lambda>s. s\<lparr>ID_inst := Some d1, ID_operand := Some d2, ID_misc := Some d3\<rparr>))
     (add_area ((lp_area d1 + lp_area d2 + lp_area d3) * of_int (decodeW c))))"

definition construct ::
  "mcpat_env \<Rightarrow> stats_def \<Rightarrow> core_dyn_param \<Rightarrow> root_system \<Rightarrow> system_core \<Rightarrow> unit fetch_op" where
  "construct e junk c sys x = seqS (make_icache e c sys x)
     (bindS (liftS (quotient 1 (clockRate c))) (\<lambda>cyc.
     seqS (make_IB e c x cyc)
     (seqS (whenS (0 < predictionW c) (seqS (make_BTB e c sys x) (make_predictor e c x)))
     (make_decoders e junk c))))"

definition InstFetchU ::
  "mcpat_env \<Rightarrow> stats_def \<Rightarrow> core_dyn_param \<Rightarrow> root_system \<Rightarrow> system_core \<Rightarrow> input_parameter \<Rightarrow> bool \<Rightarrow>
     inst_fetch result" where
  "InstFetchU e junk c sys x ip ex = bindE (whenS ex (construct e junk c sys x)
     \<lparr>u_exist = ex, u_ip = ip, u_area = 0, u_power = powerDef_reset, u_rt_power = powerDef_reset,
      ic_policy = Cache_policy_of e (trunc (icache_config (icache x) 7)), ic_caches = None,
      ic_missb = None, ic_ifb = None, ic_prefetchb = None, ic_area = 0, ic_power_t = powerDef_reset,
      ic_power = powerDef_reset, ic_rt_power = powerDef_reset, IB = None, BTB = None, BPT = None,
      ID_inst = None, ID_operand = None, ID_misc = None\<rparr>) (\<lambda>(_, s). Inr s)"

section \<open>\<open>computeEnergy\<close>\<close>

text \<open>\<open>access = hit = v\<close>, for reads and writes; the second prefetch count goes to the fill buffer.\<close>

definition set_reads_hit :: "real \<Rightarrow> stats_def \<Rightarrow> stats_def" where
  "set_reads_hit v s = s\<lparr>readAc := (readAc s)\<lparr>ac_access := v, ac_hit := v\<rparr>\<rparr>"

definition set_writes_hit :: "real \<Rightarrow> stats_def \<Rightarrow> stats_def" where
  "set_writes_hit v s = s\<lparr>writeAc := (writeAc s)\<lparr>ac_access := v, ac_hit := v\<rparr>\<rparr>"

definition set_write_hits :: "real \<Rightarrow> array \<Rightarrow> array" where
  "set_write_hits v a = a\<lparr>stats_t := (stats_t a)\<lparr>writeAc := (writeAc (stats_t a))\<lparr>ac_hit := v\<rparr>\<rparr>\<rparr>"

definition fetch_ports :: "core_dyn_param \<Rightarrow> array \<Rightarrow> real" where
  "fetch_ports c a = ports (num_search_ports (l_ip a)) * IFU_duty_cycle c"

definition count_decoders :: "bool \<Rightarrow> real \<Rightarrow> unit fetch_op" where
  "count_decoders is_tdp n = (let f = (\<lambda>d. let st = (lp_stats_t d)\<lparr>readAc := (readAc (lp_stats_t d))\<lparr>ac_access := n\<rparr>\<rparr>
       in if is_tdp then d\<lparr>lp_stats_t := st, lp_tdp_stats := st\<rparr> else d\<lparr>lp_stats_t := st, lp_rtp_stats := st\<rparr>) in
     seqS (call_part ID_inst ID_inst_update (modS f)) (seqS (call_part ID_operand ID_operand_update (modS f))
     (call_part ID_misc ID_misc_update (modS f))))"

definition count_peak :: "core_dyn_param \<Rightarrow> system_core \<Rightarrow> unit fetch_op" where
  "count_peak c x = bindS (deref ic_caches) (\<lambda>a.
     seqS (on_ptr ic_caches ic_caches_update (load_counts True
       (set_read (counted (ports (num_rw_ports (l_ip a)) * IFU_duty_cycle c) 0))))
     (bindS (deref ic_missb) (\<lambda>m. seqS (on_ptr ic_missb ic_missb_update (load_counts True
       (set_writes_hit (fetch_ports c m) \<circ> set_reads_hit (fetch_ports c m))))
     (bindS (deref ic_ifb) (\<lambda>f. seqS (on_ptr ic_ifb ic_ifb_update (load_counts True
       (set_writes_hit (fetch_ports c f) \<circ> set_reads_hit (fetch_ports c f))))
     (bindS (deref ic_prefetchb) (\<lambda>p. seqS (on_ptr ic_ifb ic_ifb_update (set_write_hits (fetch_ports c p)))
     (seqS (on_ptr ic_prefetchb ic_prefetchb_update (load_counts True (\<lambda>s.
        (set_reads_hit (fetch_ports c p) s)\<lparr>writeAc := (writeAc s)\<lparr>ac_access := fetch_ports c p\<rparr>\<rparr>)))
     (seqS (on_ptr IB IB_update (load_counts True
       (set_access (of_int (peak_issue_width x)) (of_int (peak_issue_width x)))))
     (seqS (whenS (0 < predictionW c) (on_ptr BTB BTB_update
       (\<lambda>a. a\<lparr>stats_t := set_access (of_int (predictionW c)) 0 (stats_t a)\<rparr>)))
     (count_decoders True (of_int (decodeW c)))))))))))))"

definition count_runtime :: "core_dyn_param \<Rightarrow> system_core \<Rightarrow> unit fetch_op" where
  "count_runtime c x = (let ic = icache x; n = total_instructions x; k = ic_read_misses ic in
     seqS (on_ptr ic_caches ic_caches_update (load_counts False (set_read (counted (ic_read_accesses ic) k))))
     (seqS (each [(ic_missb, ic_missb_update), (ic_ifb, ic_ifb_update), (ic_prefetchb, ic_prefetchb_update)]
       (load_counts False (set_access k k)))
     (seqS (on_ptr IB IB_update (load_counts False (set_access n n)))
     (seqS (whenS (0 < predictionW c) (on_ptr BTB BTB_update (load_counts False
       (set_access (BTB_read_accesses (BTB_x x)) (BTB_write_accesses (BTB_x x))))))
     (count_decoders False n)))))"

text \<open>A miss also writes the line it fetches.\<close>

definition icache_part :: "array \<Rightarrow> real" where
  "icache_part a = (let r = readAc (stats_t a) in
     ac_hit r * read_energy a + ac_miss r * read_energy a + ac_miss r * write_energy a)"

definition sum_icache :: "unit fetch_op" where
  "sum_icache = (let add = (\<lambda>v. modS (\<lambda>s. s\<lparr>ic_power_t := add_dynamic v (ic_power_t s)\<rparr>)) in
     bindS (deref ic_caches) (\<lambda>a. seqS (add (icache_part a))
     (bindS (deref ic_missb) (\<lambda>m. seqS (add (buffer_part m))
     (bindS (deref ic_ifb) (\<lambda>f. seqS (add (buffer_part f))
     (bindS (deref ic_prefetchb) (\<lambda>p. add (buffer_part p)))))))))"

definition sum_dynamic :: "bool \<Rightarrow> mcpat_env \<Rightarrow> core_dyn_param \<Rightarrow> system_core \<Rightarrow> unit fetch_op" where
  "sum_dynamic is_tdp e c x = seqS (modS (\<lambda>s. s\<lparr>ic_power_t := powerDef_reset\<rparr>))
     (seqS sum_icache (seqS (on_ptr IB IB_update (set_dynamic rw_part))
     (whenS (0 < predictionW c) (seqS (on_ptr BTB BTB_update (set_dynamic rw_part))
       (call_part BPT BPT_update (Power_Branch.computeEnergy is_tdp e c x))))))"

definition icache_sum :: "mcpat_env \<Rightarrow> array \<Rightarrow> array \<Rightarrow> array \<Rightarrow> array \<Rightarrow> power_def \<Rightarrow> power_def" where
  "icache_sum e a m f p t = (let r = (\<lambda>b. uca_power (local_result b)); plus = power_plus e in
     plus t (power_times e (plus (plus (plus (r a) (r m)) (r f)) (r p)) (pppm_lkg e)))"

text \<open>The peak multiplies the power of a decoder in place and keeps the power of one instruction for the run.\<close>

definition decoder_peak :: "logic_part \<Rightarrow> logic_part" where
  "decoder_peak d = d\<lparr>lp_power_t := (lp_power_t d)\<lparr>readOp := (readOp (lp_power_t d))\<lparr>
       dynamic := dynamic (readOp (lp_power d))\<rparr>\<rparr>,
     lp_power := (lp_power d)\<lparr>readOp := (readOp (lp_power d))\<lparr>
       dynamic := dynamic (readOp (lp_power d)) * ac_access (readAc (lp_tdp_stats d))\<rparr>\<rparr>\<rparr>"

definition decoder_run :: "logic_part \<Rightarrow> logic_part" where
  "decoder_run d = d\<lparr>lp_rt_power := (lp_rt_power d)\<lparr>readOp := (readOp (lp_rt_power d))\<lparr>
     dynamic := dynamic (readOp (lp_power_t d)) * ac_access (readAc (lp_rtp_stats d))\<rparr>\<rparr>\<rparr>"

definition add_decoders :: "bool \<Rightarrow> mcpat_env \<Rightarrow> unit fetch_op" where
  "add_decoders is_tdp e = (let f = (if is_tdp then decoder_peak else decoder_run);
       t = (if is_tdp then lp_power else lp_rt_power) in
     seqS (call_part ID_inst ID_inst_update (modS f)) (seqS (call_part ID_operand ID_operand_update (modS f))
     (seqS (call_part ID_misc ID_misc_update (modS f))
     (bindS (deref ID_inst) (\<lambda>d1. bindS (deref ID_operand) (\<lambda>d2. bindS (deref ID_misc) (\<lambda>d3.
       add_total e is_tdp (power_plus e (power_plus e (t d1) (t d2)) (t d3)))))))))"

definition add_totals :: "bool \<Rightarrow> mcpat_env \<Rightarrow> core_dyn_param \<Rightarrow> unit fetch_op" where
  "add_totals is_tdp e c =
     bindS (deref ic_caches) (\<lambda>a. bindS (deref ic_missb) (\<lambda>m. bindS (deref ic_ifb) (\<lambda>f.
     bindS (deref ic_prefetchb) (\<lambda>p. bindS (getS ic_power_t) (\<lambda>t. let sum = icache_sum e a m f p t in
     seqS (modS (\<lambda>s. if is_tdp then s\<lparr>ic_power := sum\<rparr> else s\<lparr>ic_rt_power := sum\<rparr>))
     (seqS (on_ptr IB IB_update (settle e is_tdp (pppm_lkg e)))
     (seqS (add_total e is_tdp sum) (seqS (add_array e is_tdp IB)
     (seqS (whenS (0 < predictionW c) (seqS (on_ptr BTB BTB_update (settle e is_tdp (pppm_lkg e)))
       (seqS (add_array e is_tdp BTB) (bindS (deref BPT) (\<lambda>b. add_total e is_tdp (unit_total is_tdp b))))))
     (add_decoders is_tdp e))))))))))"

definition computeEnergy :: "bool \<Rightarrow> mcpat_env \<Rightarrow> core_dyn_param \<Rightarrow> system_core \<Rightarrow> unit fetch_op" where
  "computeEnergy is_tdp e c x = bindS (getS u_exist) (\<lambda>ex. whenS ex
     (seqS (if is_tdp then count_peak c x else count_runtime c x)
     (seqS (sum_dynamic is_tdp e c x) (add_totals is_tdp e c))))"

section \<open>Construction and energy\<close>

definition icache_parts :: "inst_fetch \<Rightarrow> array option list" where
  "icache_parts s = [ic_caches s, ic_missb s, ic_ifb s, ic_prefetchb s, IB s]"

definition built :: "core_dyn_param \<Rightarrow> inst_fetch \<Rightarrow> bool" where
  "built c s \<longleftrightarrow> (u_exist s \<longrightarrow> no_null (icache_parts s) \<and>
     ID_inst s \<noteq> None \<and> ID_operand s \<noteq> None \<and> ID_misc s \<noteq> None \<and>
     (0 < predictionW c \<longrightarrow> BTB s \<noteq> None \<and> (\<exists>b. BPT s = Some b \<and> Power_Branch.built b \<and> u_exist b)))"

definition BTB_sizes :: "(nat \<Rightarrow> int) \<Rightarrow> bool" where
  "BTB_sizes cfg \<longleftrightarrow> 0 < cfg 1 \<and> 0 < cfg 2 \<and> cfg 1 * cfg 2 \<le> cfg 0"

definition sane_fetch :: "mcpat_env \<Rightarrow> core_dyn_param \<Rightarrow> system_core \<Rightarrow> bool" where
  "sane_fetch e c x \<longleftrightarrow> clockRate c \<noteq> 0 \<and>
     sane_config (icache_config (icache x)) \<and>
     (0 < predictionW c \<longrightarrow> BTB_sizes (BTB_config (BTB_x x)) \<and> 0 < number_hardware_threads x \<and>
        default_exist e \<and> (multithreaded c \<longrightarrow> thread_tag e c))"

lemma icache_built:
  assumes "clockRate c \<noteq> 0"
    "sane_config (icache_config (icache x))"
  shows "wpS (make_icache e c sys x) (\<lambda>_ t. ic_caches t \<noteq> None \<and> ic_missb t \<noteq> None \<and> ic_ifb t \<noteq> None \<and>
    ic_prefetchb t \<noteq> None \<and> u_exist t = u_exist s) s"
proof -
  let ?cfg = "icache_config (icache x)"
  obtain sz l w b where casts: "cast_int (?cfg 0) = Inr sz" "cast_int (?cfg 1) = Inr l" "cast_int (?cfg 2) = Inr w"
    "cast_int (?cfg 3) = Inr b" and pos: "0 < l" "0 < w" "l * w \<le> sz" and sz: "0 \<le> sz"
    using sane_config_casts[OF assms(2)] by metis
  show ?thesis
    using assms(1) sets_pos[OF pos] pos sz
    by (simp add: make_icache_def new_ic_def set_uip_def wp_simps Let_def casts int_quotient_pos
        ceil_log2_pos pos_imp_zdiv_nonneg_iff del: One_nat_def)
qed

lemma wp_make_BTB:
  assumes "clockRate c \<noteq> 0" "BTB_sizes (BTB_config (BTB_x x))" "0 < number_hardware_threads x"
  shows "wpS (make_BTB e c sys x) (\<lambda>_ t. BTB t \<noteq> None \<and> icache_parts t = icache_parts s \<and>
    u_exist t = u_exist s) s"
proof -
  have pos: "0 < BTB_config (BTB_x x) 1" "0 < BTB_config (BTB_x x) 2"
    "BTB_config (BTB_x x) 1 * BTB_config (BTB_x x) 2 \<le> BTB_config (BTB_x x) 0"
    using assms(2) by (simp_all add: BTB_sizes_def)
  then have "0 \<le> BTB_config (BTB_x x) 0" using mult_pos_pos[OF pos(1,2)] by linarith
  then show ?thesis
    using assms(1,3) sets_pos[OF pos] pos
    by (simp add: make_BTB_def new_copies_def set_uip_def wp_simps Let_def icache_parts_def int_quotient_pos
        ceil_log2_pos pos_imp_zdiv_nonneg_iff del: One_nat_def)
qed

lemma wp_make_predictor:
  assumes "clockRate c \<noteq> 0" "default_exist e" "multithreaded c \<longrightarrow> thread_tag e c"
  shows "wpS (make_predictor e c x) (\<lambda>_ t. (\<exists>b. BPT t = Some b \<and> Power_Branch.built b \<and> u_exist b) \<and>
    BTB t = BTB s \<and> icache_parts t = icache_parts s \<and> u_exist t = u_exist s) s"
  using predictor_built[OF assms(1,3), of x "u_ip s" True] assms(2)
  by (auto simp: make_predictor_def add_area_def wp_simps icache_parts_def)

lemma wp_make_rest:
  assumes "sane_fetch e c x"
  shows "wpS (seqS (whenS (0 < predictionW c) (seqS (make_BTB e c sys x) (make_predictor e c x)))
    (make_decoders e junk c)) (\<lambda>_ t. u_exist t = u_exist s \<and> icache_parts t = icache_parts s \<and>
     ID_inst t \<noteq> None \<and> ID_operand t \<noteq> None \<and> ID_misc t \<noteq> None \<and>
     (0 < predictionW c \<longrightarrow> BTB t \<noteq> None \<and> (\<exists>b. BPT t = Some b \<and> Power_Branch.built b \<and> u_exist b))) s"
proof (cases "0 < predictionW c")
  case False
  then show ?thesis
    by (auto simp: make_decoders_def add_area_def wp_simps icache_parts_def Let_def)
next
  case True
  have s: "clockRate c \<noteq> 0" "BTB_sizes (BTB_config (BTB_x x))" "0 < number_hardware_threads x"
    "default_exist e" "multithreaded c \<longrightarrow> thread_tag e c"
    using assms True by (auto simp: sane_fetch_def)
  show ?thesis
    unfolding wpS_seq wpS_basic if_P[OF True]
    by (rule wp_mono[OF wp_make_BTB[OF s(1-3)]], rule wp_mono[OF wp_make_predictor[OF s(1,4,5)]])
      (auto simp: make_decoders_def add_area_def wp_simps icache_parts_def Let_def)
qed

lemma wp_make_IB:
  "wpS (make_IB e c x cyc) (\<lambda>_ t. IB t \<noteq> None \<and> ic_caches t = ic_caches s \<and> ic_missb t = ic_missb s \<and>
    ic_ifb t = ic_ifb s \<and> ic_prefetchb t = ic_prefetchb s \<and> u_exist t = u_exist s) s"
  by (simp add: make_IB_def new_copies_def set_uip_def wp_simps Let_def)

lemma fetch_construct_built:
  assumes "sane_fetch e c x"
  shows "wpS (construct e junk c sys x) (\<lambda>_ t. built c t \<and> u_exist t = u_exist s) s"
proof -
  have clk: "clockRate c \<noteq> 0" and sz: "sane_config (icache_config (icache x))"
    using assms by (simp_all add: sane_fetch_def)
  show ?thesis
    unfolding construct_def wpS_seq wpS_bind wpS_basic
    by (rule wp_mono[OF icache_built[OF clk sz]], rule exI, rule conjI, rule quotient_eq(1)[OF clk],
        rule wp_mono[OF wp_make_IB], rule wp_mono[OF wp_make_rest[OF assms], unfolded wpS_seq wpS_basic])
      (auto simp: built_def icache_parts_def)
qed

lemma fetch_built:
  assumes "sane_fetch e c x"
  shows "\<exists>s. InstFetchU e junk c sys x ip ex = Inr s \<and> built c s \<and> u_exist s = ex"
  using fetch_construct_built[OF assms, of junk sys] unfolding InstFetchU_def
  by (cases ex) (fastforce simp: wpS_def err_simps built_def)+

definition framed :: "core_dyn_param \<Rightarrow> inst_fetch \<Rightarrow> inst_fetch \<Rightarrow> bool" where
  "framed c s t \<longleftrightarrow> (built c s \<longrightarrow> built c t) \<and> u_exist t = u_exist s \<and> u_power t = u_power s \<and>
     u_rt_power t = u_rt_power s"

lemma fetch_wp_count:
  assumes "built c s" "u_exist s"
  shows "wpS (if is_tdp then count_peak c x else count_runtime c x) (\<lambda>_. framed c s) s"
  using assms
  by (cases "0 < predictionW c"; cases is_tdp)
    (auto simp: count_peak_def count_runtime_def count_decoders_def wp_simps framed_def built_def
      icache_parts_def Let_def)

lemma fetch_wp_sum_dynamic:
  assumes "built c s" "u_exist s" "field_ops e" "pppm_lkg_multhread c ! 0 = 0"
  shows "wpS (sum_dynamic is_tdp e c x) (\<lambda>_. framed c s) s"
proof (cases "0 < predictionW c")
  case False
  then show ?thesis
    using assms(1,2)
    by (auto simp: sum_dynamic_def sum_icache_def wp_simps framed_def built_def icache_parts_def Let_def)
next
  case True
  then obtain b where b: "BPT s = Some b" "Power_Branch.built b" "u_exist b"
    using assms(1,2) by (auto simp: built_def)
  have "wpS (Power_Branch.computeEnergy is_tdp e c x) (\<lambda>_ t. Power_Branch.built t \<and> u_exist t) b"
    by (rule wp_mono[OF predictor_energy_runs[OF b(2,3) assms(3,4)]]) auto
  then show ?thesis
    using True assms(1,2) b
    by (auto simp: sum_dynamic_def sum_icache_def wp_simps framed_def built_def icache_parts_def Let_def
        elim!: wp_mono)
qed

lemma fetch_wp_add_totals:
  assumes "built c s" "u_exist s"
  shows "wpS (add_totals is_tdp e c) (\<lambda>_ t. built c t \<and> u_exist t = u_exist s \<and>
    unit_total (\<not> is_tdp) t = unit_total (\<not> is_tdp) s) s"
  using assms
  by (cases "0 < predictionW c"; cases is_tdp)
    (auto simp: add_totals_def add_decoders_def wp_simps unit_total_def built_def icache_parts_def Let_def)

lemma fetch_energy_runs:
  assumes "built c s" "u_exist s" "field_ops e" "pppm_lkg_multhread c ! 0 = 0"
  shows "wpS (computeEnergy is_tdp e c x) (\<lambda>_ t. built c t \<and> u_exist t \<and>
    unit_total (\<not> is_tdp) t = unit_total (\<not> is_tdp) s) s"
proof -
  have "wpS (seqS (if is_tdp then count_peak c x else count_runtime c x)
      (seqS (sum_dynamic is_tdp e c x) (add_totals is_tdp e c)))
    (\<lambda>_ t. built c t \<and> u_exist t \<and> unit_total (\<not> is_tdp) t = unit_total (\<not> is_tdp) s) s"
    unfolding wpS_seq
  proof (rule wp_mono[OF fetch_wp_count[OF assms(1,2)]], goal_cases)
    case (1 _ t)
    then have t: "built c t" "u_exist t" "unit_total (\<not> is_tdp) t = unit_total (\<not> is_tdp) s"
      using assms by (auto simp: framed_def unit_total_def)
    show ?case
    proof (rule wp_mono[OF fetch_wp_sum_dynamic[OF t(1,2) assms(3,4)]], goal_cases)
      case (1 _ v)
      then have "built c v" "u_exist v" "unit_total (\<not> is_tdp) v = unit_total (\<not> is_tdp) s"
        using t by (auto simp: framed_def unit_total_def)
      then show ?case using wp_mono[OF fetch_wp_add_totals] by fastforce
    qed
  qed
  then show ?thesis using assms(2) by (simp add: computeEnergy_def wp_simps)
qed

end
