(* ===== verification/Power_Translation.thy ===== *)
theory Power_Translation
  imports Power_Parts
begin

text \<open>
  \<open>class MemManU\<close> of \<open>src/mcpat/added/core.cc\<close>: the translation lookaside buffers of a core.
\<close>

section \<open>The unit\<close>

record mem_man_u = mcpat_unit +
  itlb :: "array option"
  dtlb :: "array option"

type_synonym 'a mm_op = "(mem_man_u, 'a) op"

section \<open>The constructor\<close>

definition tlb_ip :: "int \<Rightarrow> int \<Rightarrow> int \<Rightarrow> real \<Rightarrow> real \<Rightarrow> int \<Rightarrow> input_parameter \<Rightarrow> input_parameter" where
  "tlb_ip tag lsz entries thr lat n ip = searched n (ported 0 0 n (for_delay (speed thr lat
     (shape lsz (entries * lsz) 0 (lsz * 8) 0 (tagged tag ip)))))"

definition construct :: "mcpat_env \<Rightarrow> core_dyn_param \<Rightarrow> root_system \<Rightarrow> system_core \<Rightarrow> unit mm_op" where
  "construct e c sys x = (let icfg = icache_config (icache x); dcfg = dcache_config (dcache x) in
     seqS (set_uip cam_kind)
     (bindS (liftS (log2 (virtual_memory_page_size sys))) (\<lambda>page.
     bindS (liftS (ceil_log2 (of_int (number_hardware_threads x)))) (\<lambda>thr_bits.
     let tag = virtual_address_width sys - \<lfloor>page\<rfloor> + thr_bits + EXTRA_TAG_BITS e;
         lsz = bytes (physical_address_width sys - \<lfloor>page\<rfloor>) in
     bindS (liftS (quotient (icfg 4) (clockRate c))) (\<lambda>ithr.
     bindS (liftS (quotient (icfg 5) (clockRate c))) (\<lambda>ilat.
     seqS (set_uip (tlb_ip tag lsz (number_entries (itlb_x x)) ithr ilat (number_instruction_fetch_ports x)))
     (seqS (new_copies e c ''ITLB'' itlb_update 1)
     (bindS (liftS (quotient (dcfg 4) (clockRate c))) (\<lambda>dthr.
     bindS (liftS (quotient (dcfg 5) (clockRate c))) (\<lambda>dlat.
     seqS (set_uip (tlb_ip tag lsz (number_entries (dtlb_x x)) dthr dlat (memory_ports x)))
     (new_copies e c ''DTLB'' dtlb_update 1)))))))))))"

definition MemManU ::
  "mcpat_env \<Rightarrow> core_dyn_param \<Rightarrow> root_system \<Rightarrow> system_core \<Rightarrow> input_parameter \<Rightarrow> bool \<Rightarrow> mem_man_u result" where
  "MemManU e c sys x ip ex = bindE (whenS ex (construct e c sys x)
     \<lparr>u_exist = ex, u_ip = ip, u_area = 0, u_power = powerDef_reset, u_rt_power = powerDef_reset,
      itlb = None, dtlb = None\<rparr>) (\<lambda>(_, s). Inr s)"

section \<open>\<open>computeEnergy\<close>\<close>

definition count :: "bool \<Rightarrow> core_dyn_param \<Rightarrow> system_core \<Rightarrow> unit mm_op" where
  "count is_tdp c x =
     (let i = (\<lambda>a. if is_tdp then counted (ports (num_search_ports (l_ip a)) * IFU_duty_cycle c) 0
            else counted (tlb_accesses (itlb_x x)) (tlb_misses (itlb_x x)));
          d = (\<lambda>a. if is_tdp then counted (ports (num_search_ports (l_ip a)) * LSU_duty_cycle c) 0
            else counted (tlb_accesses (dtlb_x x)) (tlb_misses (dtlb_x x))) in
      seqS (on_ptr itlb itlb_update (\<lambda>a. load_counts is_tdp (set_read (i a)) a))
      (on_ptr dtlb dtlb_update (\<lambda>a. load_counts is_tdp (set_read (d a)) a)))"

text \<open>Every access searches the tags, every miss writes an entry.\<close>

definition tlb_part :: "array \<Rightarrow> real" where
  "tlb_part a = ac_access (readAc (stats_t a)) * search_energy a + ac_miss (readAc (stats_t a)) * write_energy a"

definition computeEnergy :: "bool \<Rightarrow> mcpat_env \<Rightarrow> core_dyn_param \<Rightarrow> system_core \<Rightarrow> unit mm_op" where
  "computeEnergy is_tdp e c x = (let tlbs = [(itlb, itlb_update), (dtlb, dtlb_update)] in
     bindS (getS u_exist) (\<lambda>ex. whenS ex
     (seqS (count is_tdp c x) (seqS (each tlbs (set_dynamic tlb_part))
     (seqS (each tlbs (settle e is_tdp (pppm_lkg e)))
     (seqS (add_array e is_tdp itlb) (add_array e is_tdp dtlb)))))))"

section \<open>Construction and energy\<close>

definition built :: "mem_man_u \<Rightarrow> bool" where
  "built s \<longleftrightarrow> (u_exist s \<longrightarrow> itlb s \<noteq> None \<and> dtlb s \<noteq> None)"

definition sane_tlb :: "core_dyn_param \<Rightarrow> root_system \<Rightarrow> system_core \<Rightarrow> bool" where
  "sane_tlb c sys x \<longleftrightarrow> clockRate c \<noteq> 0 \<and> 0 < virtual_memory_page_size sys \<and> 0 < number_hardware_threads x"

lemma tlb_construct_built:
  assumes "sane_tlb c sys x"
  shows "wpS (construct e c sys x) (\<lambda>_ t. built t \<and> u_exist t = u_exist s) s"
  using assms
  by (simp add: construct_def sane_tlb_def new_copies_def set_uip_def wp_simps built_def ceil_log2_pos Let_def)

lemma memman_built:
  assumes "sane_tlb c sys x"
  shows "\<exists>s. MemManU e c sys x ip ex = Inr s \<and> built s \<and> u_exist s = ex"
  using tlb_construct_built[OF assms, of e] unfolding MemManU_def
  by (cases ex) (fastforce simp: wpS_def err_simps built_def)+

lemma tlb_energy_runs:
  assumes "built s" "u_exist s"
  shows "wpS (computeEnergy is_tdp e c x) (\<lambda>_ t. built t \<and> u_exist t \<and>
    unit_total (\<not> is_tdp) t = unit_total (\<not> is_tdp) s) s"
  using assms
  by (cases is_tdp) (auto simp: computeEnergy_def count_def wp_simps built_def unit_total_def Let_def)

end
