(* ===== verification/Power_Rename.thy ===== *)
theory Power_Rename
  imports Power_Logic
begin

text \<open>
  \<open>class RENAMINGU\<close> of \<open>src/mcpat/added/core.cc\<close>: the tables that map architectural to physical
  registers, the lists of free registers and the dependency checks. The structures depend on the
  scheduler (physical register files or reservation stations) and on the kind of table (RAM or CAM).
\<close>

section \<open>The unit\<close>

record renaming_u = mcpat_unit +
  iFRAT :: "array option"
  fFRAT :: "array option"
  iRRAT :: "array option"
  fRRAT :: "array option"
  ifreeL :: "array option"
  ffreeL :: "array option"
  idcl :: "conflict_check option"
  fdcl :: "conflict_check option"

type_synonym 'a rn_op = "(renaming_u, 'a) op"

section \<open>The constructor\<close>

text \<open>A RAM of \<open>entries\<close> lines of \<open>lsz\<close> bytes, of which \<open>out\<close> are read at once.\<close>

definition map_ram :: "real \<Rightarrow> int \<Rightarrow> int \<Rightarrow> int \<Rightarrow> int \<Rightarrow> input_parameter \<Rightarrow> input_parameter" where
  "map_ram cyc lsz entries outb mode ip =
     for_delay (speed cyc cyc (shape lsz (lsz * entries) 1 (outb * 8) mode (ram_kind ip)))"

definition map_cam :: "real \<Rightarrow> int \<Rightarrow> int \<Rightarrow> int \<Rightarrow> int \<Rightarrow> input_parameter \<Rightarrow> input_parameter" where
  "map_cam cyc tag lsz entries outb ip =
     for_delay (speed cyc cyc (shape lsz (lsz * entries) 0 (outb * 8) 2 (tagged tag (cam_kind ip))))"

text \<open>The tables are duplicated for every thread.\<close>

definition new_table ::
  "mcpat_env \<Rightarrow> core_dyn_param \<Rightarrow> system_core \<Rightarrow> string \<Rightarrow>
     ((array option \<Rightarrow> array option) \<Rightarrow> renaming_u \<Rightarrow> renaming_u) \<Rightarrow> (array \<Rightarrow> array) \<Rightarrow>
     (input_parameter \<Rightarrow> input_parameter) \<Rightarrow> unit rn_op" where
  "new_table e c x nm upd prepare f = seqS (set_uip f)
     (new_part e c nm upd (copies (of_int (number_hardware_threads x)) \<circ> prepare) arr_area)"

text \<open>Checkpoints cost half of the energy again.\<close>

definition compensate :: "mcpat_env \<Rightarrow> array \<Rightarrow> array" where
  "compensate e a = (let r = adjust_area e (local_result a); p = uca_power r in
     a\<lparr>local_result := r\<lparr>uca_power := p\<lparr>readOp := (readOp p)\<lparr>dynamic := dynamic (readOp p) * 1.5\<rparr>,
       writeOp := (writeOp p)\<lparr>dynamic := dynamic (writeOp p) * 1.5\<rparr>\<rparr>\<rparr>\<rparr>)"

definition fronts_phys_ram :: "mcpat_env \<Rightarrow> core_dyn_param \<Rightarrow> system_core \<Rightarrow> real \<Rightarrow> unit rn_op" where
  "fronts_phys_ram e c x cyc = seqS
     (new_table e c x ''Int FrontRAT'' iFRAT_update (\<lambda>a. a)
       (\<lambda>ip. ported 1 (2 * decodeW c) (decodeW c) (map_ram cyc 33 (archi_Regs_IRF_size x) 1 2 ip)))
     (new_table e c x ''FP FrontRAT'' fFRAT_update (\<lambda>a. a)
       (\<lambda>ip. ported 1 (2 * fp_decodeW c) (fp_decodeW c)
         (map_ram cyc (bytes (phy_freg_width c * (1 + globalCheckpoint c))) (archi_Regs_FRF_size x)
           (bytes (phy_freg_width c)) 2 ip)))"

definition fronts_phys_cam :: "mcpat_env \<Rightarrow> core_dyn_param \<Rightarrow> system_core \<Rightarrow> real \<Rightarrow> unit rn_op" where
  "fronts_phys_cam e c x cyc = (let gc = globalCheckpoint c; i = arch_ireg_width c; f = arch_freg_width c in
     seqS (new_table e c x ''Int FrontRAT'' iFRAT_update (\<lambda>a. a)
       (\<lambda>ip. searched (2 * decodeW c) (ported 1 (decodeW c) (decodeW c)
         (map_cam cyc i (bytes (i + gc)) (phy_Regs_IRF_size x) (bytes i) ip))))
     (new_table e c x ''FP FrontRAT'' fFRAT_update (\<lambda>a. a)
       (\<lambda>ip. searched (2 * fp_decodeW c) (ported 1 (fp_decodeW c) (fp_decodeW c)
         (map_cam cyc f (bytes (f + gc)) (phy_Regs_FRF_size x) (bytes f) ip)))))"

text \<open>The retirement tables and the lists of free registers.\<close>

definition retired_and_free :: "mcpat_env \<Rightarrow> core_dyn_param \<Rightarrow> system_core \<Rightarrow> real \<Rightarrow> unit rn_op" where
  "retired_and_free e c x cyc = (let i = bytes (phy_ireg_width c); f = bytes (phy_freg_width c);
       cw = commit_width x; dw = decodeW c; fw = fp_decodeW c in
     seqS (new_table e c x ''Int RetireRAT'' iRRAT_update (\<lambda>a. a)
       (\<lambda>ip. ported 0 cw cw (map_ram cyc i (archi_Regs_IRF_size x * 2) i 1 ip)))
     (seqS (new_table e c x ''FP RetireRAT'' fRRAT_update (\<lambda>a. a)
       (\<lambda>ip. ported 0 fw fw (map_ram cyc f (archi_Regs_FRF_size x * 2) f 1 ip)))
     (seqS (new_table e c x ''Int Free List'' ifreeL_update (\<lambda>a. a)
       (\<lambda>ip. ported 1 dw (dw - 1 + cw) (map_ram cyc i (num_ifreelist_entries c) i 1 ip)))
     (new_table e c x ''FP Free List'' ffreeL_update (\<lambda>a. a)
       (\<lambda>ip. ported 1 fw (fw - 1 + cw) (map_ram cyc f (num_ffreelist_entries c) f 1 ip))))))"

definition fronts_station_ram :: "mcpat_env \<Rightarrow> core_dyn_param \<Rightarrow> system_core \<Rightarrow> real \<Rightarrow> unit rn_op" where
  "fronts_station_ram e c x cyc = (let gc = globalCheckpoint c; i = phy_ireg_width c; f = phy_freg_width c;
       dw = decodeW c; fw = fp_decodeW c in
     seqS (new_table e c x ''Int FrontRAT'' iFRAT_update (compensate e)
       (\<lambda>ip. searched (commitW c) (ported 1 (2 * dw) dw
         (map_cam cyc i (bytes i) (archi_Regs_IRF_size x * (1 + gc)) (bytes i) ip))))
     (new_table e c x ''FP FrontRAT'' fFRAT_update (compensate e)
       (\<lambda>ip. searched fw (ported 1 (2 * fw) fw
         (map_cam cyc f (bytes f) (archi_Regs_FRF_size x * (1 + gc)) (bytes f) ip)))))"

text \<open>Here only the checkpoints are divided by eight.\<close>

definition station_line :: "int \<Rightarrow> int \<Rightarrow> int" where
  "station_line width gc = \<lceil>of_int width + of_int gc / 8 :: real\<rceil>"

definition fronts_station_cam :: "mcpat_env \<Rightarrow> core_dyn_param \<Rightarrow> system_core \<Rightarrow> real \<Rightarrow> unit rn_op" where
  "fronts_station_cam e c x cyc = (let gc = globalCheckpoint c; i = arch_ireg_width c; f = arch_freg_width c;
       dw = decode_width x; fw = fp_decodeW c in
     seqS (new_table e c x ''Int FrontRAT'' iFRAT_update (\<lambda>a. a)
       (\<lambda>ip. searched (2 * dw) (ported 1 dw dw
         (map_cam cyc i (station_line i gc) (phy_Regs_IRF_size x) (bytes i) ip))))
     (new_table e c x ''FP FrontRAT'' fFRAT_update (\<lambda>a. a)
       (\<lambda>ip. searched (2 * fw) (ported 1 dw fw
         (map_cam cyc f (station_line f gc) (phy_Regs_FRF_size x) (bytes f) ip)))))"

definition unified_free :: "mcpat_env \<Rightarrow> core_dyn_param \<Rightarrow> system_core \<Rightarrow> real \<Rightarrow> unit rn_op" where
  "unified_free e c x cyc = (let i = bytes (phy_ireg_width c); dw = decode_width x in
     new_table e c x ''Unified Free List'' ifreeL_update (\<lambda>a. a)
       (\<lambda>ip. ported 1 dw (dw - 1 + commit_width x) (map_ram cyc i (num_ifreelist_entries c) i 1 ip)))"

definition new_checks :: "mcpat_env \<Rightarrow> stats_def \<Rightarrow> core_dyn_param \<Rightarrow> unit rn_op" where
  "new_checks e junk c = modS (\<lambda>s. s\<lparr>
     idcl := Some (dep_resource_conflict_check e junk (u_ip s) c (phy_ireg_width c)),
     fdcl := Some (dep_resource_conflict_check e junk (u_ip s) c (phy_freg_width c))\<rparr>)"

definition construct :: "mcpat_env \<Rightarrow> stats_def \<Rightarrow> core_dyn_param \<Rightarrow> system_core \<Rightarrow> unit rn_op" where
  "construct e junk c x = bindS (liftS (quotient 1 (clockRate c))) (\<lambda>cyc.
     seqS (whenS (core_ty c = OOO) (if scheu_ty c = PhysicalRegFile
       then seqS (if rm_ty c = RAMbased then fronts_phys_ram e c x cyc else fronts_phys_cam e c x cyc)
         (seqS (retired_and_free e c x cyc) (new_checks e junk c))
       else seqS (if rm_ty c = RAMbased then fronts_station_ram e c x cyc else fronts_station_cam e c x cyc)
         (seqS (unified_free e c x cyc) (new_checks e junk c))))
     (whenS (core_ty c = Inorder \<and> 1 < issueW c) (new_checks e junk c)))"

definition RENAMINGU ::
  "mcpat_env \<Rightarrow> stats_def \<Rightarrow> core_dyn_param \<Rightarrow> system_core \<Rightarrow> input_parameter \<Rightarrow> bool \<Rightarrow> renaming_u result" where
  "RENAMINGU e junk c x ip ex = bindE (whenS ex (construct e junk c x)
     \<lparr>u_exist = ex, u_ip = ip, u_area = 0, u_power = powerDef_reset, u_rt_power = powerDef_reset,
      iFRAT = None, fFRAT = None, iRRAT = None, fRRAT = None, ifreeL = None, ffreeL = None,
      idcl = None, fdcl = None\<rparr>) (\<lambda>(_, s). Inr s)"

section \<open>Counts\<close>

definition count_checks :: "bool \<Rightarrow> real \<Rightarrow> real \<Rightarrow> unit rn_op" where
  "count_checks is_tdp i f = (let load = (\<lambda>n d. let st = (lp_stats_t d)\<lparr>readAc := (readAc (lp_stats_t d))\<lparr>ac_access := n\<rparr>\<rparr>
       in if is_tdp then d\<lparr>lp_stats_t := st, lp_tdp_stats := st\<rparr> else d\<lparr>lp_stats_t := st, lp_rtp_stats := st\<rparr>) in
     seqS (call_part idcl idcl_update (modS (load i))) (call_part fdcl fdcl_update (modS (load f))))"

text \<open>The front tables: a CAM is read through its search ports; reservation stations with a RAM search
  it at every commit.\<close>

definition front_peak :: "core_dyn_param \<Rightarrow> array \<Rightarrow> array" where
  "front_peak c a = (let rd = ports (num_rd_ports (l_ip a)); wr = ports (num_wr_ports (l_ip a));
       q = ports (num_search_ports (l_ip a)) in
     if rm_ty c = CAMbased then load_counts True (set_access q wr) a
     else if scheu_ty c = PhysicalRegFile then load_counts True (set_access rd wr) a
     else load_counts True (set_searches q \<circ> set_access rd wr) a)"

definition ported_peak :: "array \<Rightarrow> array" where
  "ported_peak a = load_counts True
     (set_access (ports (num_rd_ports (l_ip a))) (ports (num_wr_ports (l_ip a)))) a"

abbreviation fronts :: "renaming_u member list" where
  "fronts \<equiv> [(iFRAT, iFRAT_update), (fFRAT, fFRAT_update)]"

abbreviation retired :: "renaming_u member list" where
  "retired \<equiv> [(iRRAT, iRRAT_update), (fRRAT, fRRAT_update)]"

abbreviation free_lists :: "renaming_u member list" where
  "free_lists \<equiv> [(ifreeL, ifreeL_update), (ffreeL, ffreeL_update)]"

definition count_peak :: "core_dyn_param \<Rightarrow> unit rn_op" where
  "count_peak c = (let dw = of_int (decodeW c) in
     if core_ty c = OOO then
       seqS (each fronts (front_peak c))
       (seqS (if scheu_ty c = PhysicalRegFile
              then seqS (each retired ported_peak) (each free_lists (load_counts True (set_access dw dw)))
              else on_ptr ifreeL ifreeL_update (load_counts True (set_access dw dw)))
       (count_checks True dw dw))
     else whenS (1 < issueW c) (count_checks True dw dw))"

definition front_run :: "core_dyn_param \<Rightarrow> real \<Rightarrow> real \<Rightarrow> real \<Rightarrow> array \<Rightarrow> array" where
  "front_run c r w q a =
     (if rm_ty c = RAMbased \<and> scheu_ty c = ReservationStation
      then load_counts False (set_searches q \<circ> set_access r w) a else load_counts False (set_access r w) a)"

definition count_runtime :: "core_dyn_param \<Rightarrow> system_core \<Rightarrow> unit rn_op" where
  "count_runtime c x = (let r = rename_reads x; w = rename_writes x; fr = fp_rename_reads x; fw = fp_rename_writes x in
     if core_ty c = OOO then
       seqS (on_ptr iFRAT iFRAT_update (front_run c r w (committed_int_instructions x)))
       (seqS (on_ptr fFRAT fFRAT_update (front_run c fr fw (committed_fp_instructions x)))
       (seqS (if scheu_ty c = PhysicalRegFile
              then seqS (on_ptr iRRAT iRRAT_update (load_counts False (set_access w w)))
                (seqS (on_ptr fRRAT fRRAT_update (load_counts False (set_access fw fw)))
                (seqS (on_ptr ifreeL ifreeL_update (load_counts False (set_access r (2 * w))))
                (on_ptr ffreeL ffreeL_update (load_counts False (set_access fr (2 * fw))))))
              else on_ptr ifreeL ifreeL_update (load_counts False (set_access (r + fr) (2 * (w + fw)))))
       (count_checks False (of_int (3 * decodeW c * decodeW c) * r) (of_int (3 * fp_issueW c * fp_issueW c) * fw))))
     else whenS (1 < issueW c) (count_checks False (2 * int_instructions x) (fp_instructions x)))"

section \<open>\<open>computeEnergy\<close>\<close>

text \<open>Every access to a front table includes a dependency check.\<close>

definition front_part :: "core_dyn_param \<Rightarrow> conflict_check \<Rightarrow> array \<Rightarrow> real" where
  "front_part c d a = (let st = stats_t a in
     ac_access (readAc st) * ((if rm_ty c = RAMbased then read_energy a else search_energy a) +
       dynamic (readOp (lp_power d))) +
     ac_access (writeAc st) * write_energy a +
     (if rm_ty c = RAMbased \<and> scheu_ty c = ReservationStation then ac_access (searchAc st) * search_energy a else 0))"

text \<open>The fourth coefficient of both checks is the count of the integer check.\<close>

definition check_power :: "mcpat_env \<Rightarrow> core_dyn_param \<Rightarrow> real \<Rightarrow> conflict_check \<Rightarrow> conflict_check" where
  "check_power e c n d = d\<lparr>lp_power_t := power_times e (lp_power d)
     [ac_access (readAc (lp_stats_t d)), of_int (num_hthreads c), of_int (num_hthreads c), n]\<rparr>"

definition sum_dynamic :: "mcpat_env \<Rightarrow> core_dyn_param \<Rightarrow> unit rn_op" where
  "sum_dynamic e c = (if core_ty c = OOO then
       bindS (deref idcl) (\<lambda>i. bindS (deref fdcl) (\<lambda>f.
       seqS (on_ptr iFRAT iFRAT_update (set_dynamic (front_part c i)))
       (seqS (on_ptr fFRAT fFRAT_update (set_dynamic (front_part c f)))
       (if scheu_ty c = PhysicalRegFile then each (retired @ free_lists) (set_dynamic rw_part)
        else on_ptr ifreeL ifreeL_update (set_dynamic rw_part)))))
     else whenS (1 < issueW c) (bindS (deref idcl) (\<lambda>i. let n = ac_access (readAc (lp_stats_t i)) in
       seqS (call_part idcl idcl_update (modS (check_power e c n)))
       (call_part fdcl fdcl_update (modS (check_power e c n))))))"

definition settle_front :: "mcpat_env \<Rightarrow> bool \<Rightarrow> core_dyn_param \<Rightarrow> conflict_check \<Rightarrow> array \<Rightarrow> array" where
  "settle_front e is_tdp c d a =
     set_sum is_tdp (power_plus e (with_leakage e (pppm_lkg_multhread c) a) (lp_power_t d)) a"

definition add_pair ::
  "mcpat_env \<Rightarrow> bool \<Rightarrow> (renaming_u \<Rightarrow> array option) \<Rightarrow> (renaming_u \<Rightarrow> array option) \<Rightarrow> unit rn_op" where
  "add_pair e is_tdp p q = bindS (deref p) (\<lambda>a. bindS (deref q) (\<lambda>b.
     add_total e is_tdp (power_plus e (array_total is_tdp a) (array_total is_tdp b))))"

definition add_totals :: "bool \<Rightarrow> mcpat_env \<Rightarrow> core_dyn_param \<Rightarrow> unit rn_op" where
  "add_totals is_tdp e c = bindS (deref idcl) (\<lambda>i. bindS (deref fdcl) (\<lambda>f.
     if core_ty c = OOO then
       seqS (on_ptr iFRAT iFRAT_update (settle_front e is_tdp c i))
       (seqS (on_ptr fFRAT fFRAT_update (settle_front e is_tdp c f))
       (if scheu_ty c = PhysicalRegFile then
          seqS (each (retired @ free_lists) (settle e is_tdp (pppm_lkg_multhread c)))
          (seqS (add_pair e is_tdp iFRAT fFRAT)
          (seqS (add_pair e is_tdp iRRAT fRRAT) (add_pair e is_tdp ifreeL ffreeL)))
        else
          seqS (on_ptr ifreeL ifreeL_update (settle e is_tdp (pppm_lkg_multhread c)))
          (seqS (add_pair e is_tdp iFRAT fFRAT) (add_array e is_tdp ifreeL))))
     else seqS (add_total e is_tdp (lp_power_t i)) (add_total e is_tdp (lp_power_t f))))"

definition computeEnergy :: "bool \<Rightarrow> mcpat_env \<Rightarrow> core_dyn_param \<Rightarrow> system_core \<Rightarrow> unit rn_op" where
  "computeEnergy is_tdp e c x = bindS (getS u_exist) (\<lambda>ex. whenS ex
     (seqS (if is_tdp then count_peak c else count_runtime c x)
     (seqS (sum_dynamic e c) (add_totals is_tdp e c))))"

section \<open>Construction and energy\<close>

definition built :: "core_dyn_param \<Rightarrow> renaming_u \<Rightarrow> bool" where
  "built c s \<longleftrightarrow> (u_exist s \<longrightarrow>
     (core_ty c = OOO \<or> 1 < issueW c \<longrightarrow> idcl s \<noteq> None \<and> fdcl s \<noteq> None) \<and>
     (core_ty c = OOO \<longrightarrow> no_null [iFRAT s, fFRAT s, ifreeL s] \<and>
       (scheu_ty c = PhysicalRegFile \<longrightarrow> no_null [iRRAT s, fRRAT s, ffreeL s])))"

lemma rename_construct_built:
  assumes "clockRate c \<noteq> 0"
  shows "wpS (construct e junk c x) (\<lambda>_ t. built c t \<and> u_exist t = u_exist s) s"
  using assms
  by (cases "core_ty c"; cases "scheu_ty c"; cases "rm_ty c")
    (auto simp: construct_def fronts_phys_ram_def fronts_phys_cam_def retired_and_free_def fronts_station_ram_def
      fronts_station_cam_def unified_free_def new_checks_def new_table_def set_uip_def wp_simps built_def Let_def)

lemma renaming_built:
  assumes "clockRate c \<noteq> 0"
  shows "\<exists>s. RENAMINGU e junk c x ip ex = Inr s \<and> built c s \<and> u_exist s = ex"
  using rename_construct_built[OF assms, of e junk] unfolding RENAMINGU_def
  by (cases ex) (fastforce simp: wpS_def err_simps built_def)+

text \<open>An in-order core with an issue width of one has no checks; the sum dereferences them all the same.\<close>

lemma rename_energy_runs:
  assumes "built c s" "u_exist s" "core_ty c = OOO \<or> 1 < issueW c"
  shows "wpS (computeEnergy is_tdp e c x) (\<lambda>_ t. built c t \<and> u_exist t \<and>
    unit_total (\<not> is_tdp) t = unit_total (\<not> is_tdp) s) s"
  using assms
  by (cases is_tdp; cases "core_ty c"; cases "scheu_ty c")
    (auto simp: computeEnergy_def count_peak_def count_runtime_def count_checks_def sum_dynamic_def add_totals_def
      add_pair_def wp_simps built_def unit_total_def Let_def)

end
