(* ===== verification/Power_Registers.thy ===== *)
theory Power_Registers
  imports Power_Parts
begin

text \<open>
  \<open>class RegFU\<close> of \<open>src/mcpat/added/core.cc\<close>: the integer and floating-point register files and the
  register windows of an in-order core.
\<close>

section \<open>The unit\<close>

record reg_fu = mcpat_unit +
  IRF :: "array option"
  FRF :: "array option"
  RFWIN :: "array option"
  int_regfile_height :: real
  fp_regfile_height :: real

type_synonym 'a rf_op = "(reg_fu, 'a) op"

section \<open>The constructor\<close>

text \<open>\<open>int(ceil(data/32.0))*4\<close>\<close>

definition words :: "int \<Rightarrow> int" where
  "words n = \<lceil>of_int n / 32 :: real\<rceil> * 4"

definition file_ip :: "real \<Rightarrow> int \<Rightarrow> int \<Rightarrow> int \<Rightarrow> input_parameter \<Rightarrow> input_parameter" where
  "file_ip cyc lsz entries width ip = ported 1 (2 * width) width (for_delay (speed cyc cyc
     (shape lsz (entries * lsz) 1 (lsz * 8) 1 (ram_kind ip))))"

definition make_files :: "mcpat_env \<Rightarrow> core_dyn_param \<Rightarrow> system_core \<Rightarrow> unit rf_op" where
  "make_files e c x = (let threads = of_int (number_hardware_threads x); k = cdb_overhead e in
     bindS (liftS (quotient 1 (clockRate c))) (\<lambda>cyc.
     seqS (set_uip (file_ip cyc (words (int_data_width c)) (num_IRF_entry c) (peak_issueW c)))
     (seqS (new_copies e c ''Integer Register File'' IRF_update (threads * of_int (num_pipelines c) * k))
     (seqS (set_uip (file_ip cyc (words (fp_data_width c)) (num_FRF_entry c) (issue_width x)))
     (seqS (new_copies e c ''Floating point Register File'' FRF_update (threads * of_int (num_fp_pipelines c) * k))
     (bindS (deref IRF) (\<lambda>i. bindS (deref FRF) (\<lambda>f. modS (\<lambda>s. s\<lparr>
        int_regfile_height := cache_ht (local_result i) * threads * sqrt k,
        fp_regfile_height := cache_ht (local_result f) * threads * sqrt k\<rparr>)))))))))"

text \<open>A window has the size the integer file was made with.\<close>

definition make_windows :: "mcpat_env \<Rightarrow> core_dyn_param \<Rightarrow> system_core \<Rightarrow> unit rf_op" where
  "make_windows e c x = bindS (deref IRF) (\<lambda>i. bindS (liftS (quotient 4 (clockRate c))) (\<lambda>cyc.
     let lsz = bytes (int_data_width c);
         csz = register_windows_size x * uint (cache_sz (l_ip i)) * number_hardware_threads x in
     seqS (set_uip (\<lambda>ip. ported 1 0 0 (for_delay (speed cyc cyc (shape lsz csz 1 (lsz * 8) 1 (ram_kind ip))))))
     (new_copies e c ''RegWindow'' RFWIN_update (of_int (num_pipelines c)))))"

definition RegFU ::
  "mcpat_env \<Rightarrow> real \<Rightarrow> core_dyn_param \<Rightarrow> system_core \<Rightarrow> input_parameter \<Rightarrow> bool \<Rightarrow> reg_fu result" where
  "RegFU e junk c x ip ex = bindE (whenS ex (seqS (make_files e c x) (whenS (regWindowing c) (make_windows e c x)))
     \<lparr>u_exist = ex, u_ip = ip, u_area = 0, u_power = powerDef_reset, u_rt_power = powerDef_reset,
      IRF = None, FRF = None, RFWIN = None, int_regfile_height = junk, fp_regfile_height = junk\<rparr>)
     (\<lambda>(_, s). Inr s)"

section \<open>\<open>computeEnergy\<close>\<close>

text \<open>About a tenth of the instructions that use registers do not need an adder.\<close>

definition int_activity :: "core_dyn_param \<Rightarrow> real" where
  "int_activity c = (ALU_duty_cycle c * 1.1 + (if 0 < num_muls c then MUL_duty_cycle c else 0)) *
     of_int (num_pipelines c)"

definition count_peak :: "core_dyn_param \<Rightarrow> unit rf_op" where
  "count_peak c = (let w = of_int (issueW c);
       fp = (\<lambda>n. ports n * FPU_duty_cycle c * 1.05 * of_int (num_fp_pipelines c)) in
     seqS (on_ptr IRF IRF_update (load_counts True (set_access (w * 2 * int_activity c) (w * int_activity c))))
     (seqS (on_ptr FRF FRF_update (\<lambda>a. load_counts True
        (set_access (fp (num_rd_ports (l_ip a))) (fp (num_wr_ports (l_ip a)))) a))
     (whenS (regWindowing c) (on_ptr RFWIN RFWIN_update (load_counts True (set_access 0 0))))))"

text \<open>A call or return moves sixteen registers; with windows these are counted again for both files.\<close>

definition count_runtime :: "core_dyn_param \<Rightarrow> system_core \<Rightarrow> unit rf_op" where
  "count_runtime c x = (let moved = function_calls x * 16; ir = int_regfile_reads x; iw = int_regfile_writes x;
       fr = float_regfile_reads x; fw = float_regfile_writes x in
     seqS (on_ptr IRF IRF_update (load_counts False (set_access ir iw)))
     (seqS (on_ptr FRF FRF_update (load_counts False (set_access fr fw)))
     (whenS (regWindowing c)
       (seqS (on_ptr RFWIN RFWIN_update (load_counts False (set_access moved moved)))
       (seqS (on_ptr IRF IRF_update (load_counts False (set_access (ir + moved) (iw + moved))))
       (on_ptr FRF FRF_update (load_counts False (set_access (fr + moved) (fw + moved)))))))))"

text \<open>The peak adds \<open>power\<close> of the files, the run their \<open>power_t\<close>.\<close>

definition add_files :: "bool \<Rightarrow> mcpat_env \<Rightarrow> core_dyn_param \<Rightarrow> unit rf_op" where
  "add_files is_tdp e c = (let k = pppm_lkg_multhread c in
     seqS (each [(IRF, IRF_update), (FRF, FRF_update)] (settle e is_tdp k))
     (seqS (bindS (deref IRF) (\<lambda>i. bindS (deref FRF) (\<lambda>f.
        let t = (\<lambda>a. if is_tdp then arr_power a else power_t a) in
        add_total e is_tdp (power_plus e (t i) (t f)))))
     (whenS (regWindowing c)
        (seqS (on_ptr RFWIN RFWIN_update (settle e is_tdp (pppm_lkg e))) (add_array e is_tdp RFWIN)))))"

definition computeEnergy :: "bool \<Rightarrow> mcpat_env \<Rightarrow> core_dyn_param \<Rightarrow> system_core \<Rightarrow> unit rf_op" where
  "computeEnergy is_tdp e c x = bindS (getS u_exist) (\<lambda>ex. whenS ex
     (seqS (if is_tdp then count_peak c else count_runtime c x)
     (seqS (each [(IRF, IRF_update), (FRF, FRF_update)] (set_dynamic rw_part))
     (seqS (whenS (regWindowing c) (on_ptr RFWIN RFWIN_update (set_dynamic rw_part)))
     (add_files is_tdp e c)))))"

section \<open>Construction and energy\<close>

definition built :: "core_dyn_param \<Rightarrow> reg_fu \<Rightarrow> bool" where
  "built c s \<longleftrightarrow> (u_exist s \<longrightarrow> IRF s \<noteq> None \<and> FRF s \<noteq> None \<and> (regWindowing c \<longrightarrow> RFWIN s \<noteq> None))"

lemma regfu_built:
  assumes "clockRate c \<noteq> 0"
  shows "\<exists>s. RegFU e junk c x ip ex = Inr s \<and> built c s \<and> u_exist s = ex"
proof -
  have "wpS (seqS (make_files e c x) (whenS (regWindowing c) (make_windows e c x)))
      (\<lambda>_ t. built c t \<and> u_exist t = u_exist s) s" for s
    using assms
    by (simp add: make_files_def make_windows_def new_copies_def set_uip_def wp_simps built_def Let_def)
  then show ?thesis
    unfolding RegFU_def by (cases ex) (fastforce simp: wpS_def err_simps built_def)+
qed

lemma rf_energy_runs:
  assumes "built c s" "u_exist s"
  shows "wpS (computeEnergy is_tdp e c x) (\<lambda>_ t. built c t \<and> u_exist t \<and>
    unit_total (\<not> is_tdp) t = unit_total (\<not> is_tdp) s) s"
  using assms
  by (cases is_tdp; cases "regWindowing c")
    (auto simp: computeEnergy_def count_peak_def count_runtime_def add_files_def wp_simps built_def
      unit_total_def Let_def)

text \<open>The leakage of the register files is part of the peak and missing in the run.\<close>

lemma run_without_leakage:
  assumes "built c s" "u_exist s" "leakage_ops e" "\<not> regWindowing c"
  shows "wpS (computeEnergy False e c x) (\<lambda>_ t.
    leakage (readOp (u_rt_power t)) = leakage (readOp (u_rt_power s))) s"
    and "wpS (computeEnergy True e c x) (\<lambda>_ t.
    leakage (readOp (u_power t)) = leakage (readOp (u_power s)) +
      (leakage (readOp (uca_power (local_result (the (IRF s))))) +
       leakage (readOp (uca_power (local_result (the (FRF s)))))) * pppm_lkg_multhread c ! 1) s"
  using assms
  by (auto simp: computeEnergy_def count_peak_def count_runtime_def add_files_def wp_simps built_def
      leakage_ops_simps settle_def set_sum_def with_leakage_def add_dynamic_def set_dynamic_def
      load_counts_def algebra_simps Let_def)

text \<open>C33. The peak of the register files contains the leakage of both files for every thread. The run-time
  pass adds the dynamic parts instead of the sums and leaves the leakage of the unit as it was.\<close>

theorem register_leakage_lost:
  assumes "built c s" "u_exist s" "leakage_ops e" "\<not> regWindowing c"
  shows "\<exists>p t. computeEnergy True e c x s = Inr ((), p) \<and> computeEnergy False e c x p = Inr ((), t) \<and>
    leakage (readOp (u_power t)) = leakage (readOp (u_power s)) +
      (leakage (readOp (uca_power (local_result (the (IRF s))))) +
       leakage (readOp (uca_power (local_result (the (FRF s)))))) * pppm_lkg_multhread c ! 1 \<and>
    leakage (readOp (u_rt_power t)) = leakage (readOp (u_rt_power s))"
proof -
  obtain p where p: "computeEnergy True e c x s = Inr ((), p)" "built c p" "u_exist p"
    "u_rt_power p = u_rt_power s"
    using rf_energy_runs[OF assms(1,2), where is_tdp = True and e = e and x = x] by (auto simp: unit_total_def elim!: wpSE)
  obtain t where t: "computeEnergy False e c x p = Inr ((), t)" "u_power t = u_power p"
    using rf_energy_runs[OF p(2,3), where is_tdp = False and e = e and x = x] by (auto simp: unit_total_def elim!: wpSE)
  show ?thesis
    using p t run_without_leakage(2)[OF assms, of x] run_without_leakage(1)[OF p(2,3) assms(3,4), of x]
    by (simp add: wpS_def)
qed

theorem register_leakage_lost_witness:
  "\<exists>s p t. RegFU small_env 0 small_params small_core small_ip True = Inr s \<and>
    computeEnergy True small_env small_params small_core s = Inr ((), p) \<and>
    computeEnergy False small_env small_params small_core p = Inr ((), t) \<and>
    leakage (readOp (u_rt_power t)) = leakage (readOp (u_rt_power s))"
proof -
  have c: "clockRate small_params \<noteq> 0" "\<not> regWindowing small_params" by (simp_all add: small_params_def)
  obtain s where s: "RegFU small_env 0 small_params small_core small_ip True = Inr s" "built small_params s" "u_exist s"
    using regfu_built[OF c(1), of small_env 0 small_core small_ip True] by blast
  have f: "leakage_ops small_env" by (simp add: leakage_ops_def small_env_def comp_plus_def comp_times_def)
  show ?thesis
    using s(1) register_leakage_lost[OF s(2,3) f c(2), of small_core] by blast
qed

end
