(* ===== verification/Power_Schedule.thy ===== *)
theory Power_Schedule
  imports Power_Logic
begin

text \<open>
  \<open>class SchedulerU\<close> of \<open>src/mcpat/added/core.cc\<close>: the instruction windows, the reorder buffer and the
  selection logic. An in-order core with one thread has none of them.
\<close>

section \<open>The unit\<close>

record scheduler_u = mcpat_unit +
  int_inst_window :: "array option"
  fp_inst_window :: "array option"
  ROB :: "array option"
  instruction_selection :: "logic_part option"
  Iw_height :: real
  fp_Iw_height :: real
  ROB_height :: real

type_synonym 'a sched_op = "(scheduler_u, 'a) op"

section \<open>The constructor\<close>

definition window_ip ::
  "int \<Rightarrow> int \<Rightarrow> u32 \<Rightarrow> int \<Rightarrow> real \<Rightarrow> int \<Rightarrow> input_parameter \<Rightarrow> input_parameter" where
  "window_ip tag lsz csz mode cyc width ip = searched width (ported 0 width width (for_delay (speed cyc cyc
     (shape lsz (uint csz) 0 (lsz * 8) mode (tagged tag (cam_kind ip))))))"

definition window_min :: "u32 \<Rightarrow> u32" where
  "window_min w = (if 64 < w then w else 64)"

definition select_for ::
  "mcpat_env \<Rightarrow> stats_def \<Rightarrow> core_dyn_param \<Rightarrow> system_core \<Rightarrow> int \<Rightarrow> unit sched_op" where
  "select_for e junk c x width = bindS (getS u_ip) (\<lambda>ip. modS (\<lambda>s. s\<lparr>instruction_selection :=
     Some (selection_logic e junk (instruction_window_size x) width ip (core_ty c))\<rparr>))"

text \<open>The issue queue of an in-order core with several threads.\<close>

definition construct_inorder ::
  "mcpat_env \<Rightarrow> stats_def \<Rightarrow> core_dyn_param \<Rightarrow> system_core \<Rightarrow> unit sched_op" where
  "construct_inorder e junk c x = bindS (liftS (log2 (number_hardware_threads x))) (\<lambda>l.
     bindS (liftS (cast_int (l * of_int (perThreadState c)))) (\<lambda>tag.
     bindS (liftS (quotient 1 (clockRate c))) (\<lambda>cyc.
     let lsz = bytes (instruction_length x);
         csz = window_min (word_of_int (instruction_window_size x * lsz)) in
     seqS (set_uip (window_ip tag lsz csz 1 cyc (peak_issueW c)))
     (seqS (new_copies e c ''InstFetchQueue'' int_inst_window_update (of_int (num_pipelines c)))
     (bindS (deref int_inst_window) (\<lambda>w.
     seqS (modS (\<lambda>s. s\<lparr>Iw_height := cache_ht (local_result w)\<rparr>))
     (seqS (set_uip (\<lambda>ip. ip\<lparr>assoc := 1\<rparr>))
     (select_for e junk c x (peak_issueW c * number_hardware_threads x)))))))))"

text \<open>Tag bits, bytes of an entry and name of the integer window, for queues of tags and for reservation
  stations, which also hold values. Half an entry is read for each operand.\<close>

definition int_window :: "core_dyn_param \<Rightarrow> int \<times> string" where
  "int_window c = (let bits = instr_length c + 2 * (phy_ireg_width c - arch_ireg_width c) in
     if scheu_ty c = PhysicalRegFile
     then (trunc (of_int \<lceil>of_int bits / 2 :: real\<rceil> / 8), ''InstIssueQueue'')
     else (\<lceil>of_int (bits + 2 * int_data_width c) / 2 / 8 :: real\<rceil>, ''IntReservationStation''))"

definition fp_window :: "core_dyn_param \<Rightarrow> int \<times> int \<times> string" where
  "fp_window c = (let bits = instr_length c + 2 * (phy_freg_width c - arch_freg_width c) in
     if scheu_ty c = PhysicalRegFile then (2 * phy_freg_width c, bytes bits, ''FPIssueQueue'')
     else (2 * phy_ireg_width c, bytes (bits + 2 * fp_data_width c), ''FPReservationStation''))"

definition make_windows :: "mcpat_env \<Rightarrow> core_dyn_param \<Rightarrow> system_core \<Rightarrow> unit sched_op" where
  "make_windows e c x = (let (data, name) = int_window c; (fp_tag, fp_data, fp_name) = fp_window c in
     bindS (liftS (quotient 2 (clockRate c))) (\<lambda>cyc2. bindS (liftS (quotient 1 (clockRate c))) (\<lambda>cyc.
     seqS (set_uip (window_ip (phy_ireg_width c) data (word_of_int (data * instruction_window_size x)) 0 cyc2
       (peak_issueW c)))
     (seqS (new_copies e c name int_inst_window_update (of_int (num_pipelines c)))
     (bindS (deref int_inst_window) (\<lambda>w. seqS (modS (\<lambda>s. s\<lparr>Iw_height := cache_ht (local_result w)\<rparr>))
     (seqS (set_uip (window_ip fp_tag fp_data (word_of_int (fp_data * fp_instruction_window_size x)) 0 cyc
       (fp_issueW c)))
     (seqS (new_copies e c fp_name fp_inst_window_update (of_int (num_fp_pipelines c)))
     (bindS (deref fp_inst_window) (\<lambda>f. modS (\<lambda>s. s\<lparr>fp_Iw_height := cache_ht (local_result f)\<rparr>)))))))))))"

text \<open>An entry of the reorder buffer: five bits of state, the thread, the program counter and the
  destination, with its value for reservation stations.\<close>

definition make_ROB :: "mcpat_env \<Rightarrow> core_dyn_param \<Rightarrow> system_core \<Rightarrow> unit sched_op" where
  "make_ROB e c x = bindS (liftS (log2 (num_hthreads c))) (\<lambda>l. bindS (liftS (quotient 1 (clockRate c))) (\<lambda>cyc.
     let robExtra = \<lceil>5 + l\<rceil>;
         lsz = bytes (robExtra + pc_width c + phy_ireg_width c +
           (if scheu_ty c = PhysicalRegFile then 0 else fp_data_width c)) in
     seqS (set_uip (\<lambda>ip. searched 0 (ported 0 (peak_commitW c) (peak_issueW c) (for_delay (speed cyc cyc
       (shape lsz (lsz * ROB_size x) 1 (lsz * 8) 1 (ram_kind ip)))))))
     (seqS (new_copies e c ''ReorderBuffer'' ROB_update (of_int (num_pipelines c)))
     (bindS (deref ROB) (\<lambda>r. modS (\<lambda>s. s\<lparr>ROB_height := cache_ht (local_result r)\<rparr>))))))"

definition construct :: "mcpat_env \<Rightarrow> stats_def \<Rightarrow> core_dyn_param \<Rightarrow> system_core \<Rightarrow> unit sched_op" where
  "construct e junk c x =
     seqS (whenS (core_ty c = Inorder \<and> multithreaded c) (construct_inorder e junk c x))
     (whenS (core_ty c = OOO)
       (seqS (make_windows e c x) (seqS (whenS (0 < ROB_size x) (make_ROB e c x))
       (select_for e junk c x (peak_issueW c)))))"

text \<open>The heights of arrays that are not made keep what the memory of the object holds, \<open>h0\<close>.\<close>

definition SchedulerU ::
  "mcpat_env \<Rightarrow> stats_def \<Rightarrow> real \<Rightarrow> core_dyn_param \<Rightarrow> system_core \<Rightarrow> input_parameter \<Rightarrow> bool \<Rightarrow>
     scheduler_u result" where
  "SchedulerU e junk h0 c x ip ex = bindE (whenS ex (construct e junk c x)
     \<lparr>u_exist = ex, u_ip = ip, u_area = 0, u_power = powerDef_reset, u_rt_power = powerDef_reset,
      int_inst_window = None, fp_inst_window = None, ROB = None, instruction_selection = None,
      Iw_height = h0, fp_Iw_height = h0, ROB_height = h0\<rparr>) (\<lambda>(_, s). Inr s)"

section \<open>\<open>computeEnergy\<close>\<close>

definition set_accesses :: "real \<Rightarrow> real \<Rightarrow> real \<Rightarrow> stats_def \<Rightarrow> stats_def" where
  "set_accesses r w q s = set_searches q (set_access r w s)"

definition count_peak :: "core_dyn_param \<Rightarrow> system_core \<Rightarrow> unit sched_op" where
  "count_peak c x = (let n = of_int (issueW c * num_pipelines c);
       fp = (\<lambda>k. ports k * of_int (num_fp_pipelines c)); int_counts =
         on_ptr int_inst_window int_inst_window_update (load_counts True (set_accesses n n n)) in
     if core_ty c = OOO then
       seqS int_counts
       (seqS (on_ptr fp_inst_window fp_inst_window_update (\<lambda>a. load_counts True (set_accesses
          (fp (num_rd_ports (l_ip a))) (fp (num_wr_ports (l_ip a))) (fp (num_search_ports (l_ip a)))) a))
       (whenS (0 < ROB_size x) (on_ptr ROB ROB_update (load_counts True
          (set_access (of_int (commitW c * num_pipelines c)) n)))))
     else whenS (multithreaded c) int_counts)"

definition count_runtime :: "core_dyn_param \<Rightarrow> system_core \<Rightarrow> unit sched_op" where
  "count_runtime c x = (if core_ty c = OOO then
       seqS (on_ptr int_inst_window int_inst_window_update (load_counts False (set_accesses
          (inst_window_reads x) (inst_window_writes x) (inst_window_wakeup_accesses x))))
       (seqS (on_ptr fp_inst_window fp_inst_window_update (load_counts False (set_accesses
          (fp_inst_window_reads x) (fp_inst_window_writes x) (fp_inst_window_wakeup_accesses x))))
       (whenS (0 < ROB_size x) (on_ptr ROB ROB_update (load_counts False
          (set_access (ROB_reads x) (ROB_writes x))))))
     else whenS (multithreaded c) (let n = int_instructions x + fp_instructions x in
       on_ptr int_inst_window int_inst_window_update (load_counts False (set_accesses n n (2 * n)))))"

text \<open>Every entry issued passes the selection logic: the reads of the integer window of an out-of-order
  core, the writes of the others.\<close>

definition window_part :: "power_def \<Rightarrow> (stats_def \<Rightarrow> stats_components) \<Rightarrow> array \<Rightarrow> real" where
  "window_part sel issued a = rw_part a + ac_access (searchAc (stats_t a)) * search_energy a +
     ac_access (issued (stats_t a)) * dynamic (readOp sel)"

definition sum_dynamic :: "core_dyn_param \<Rightarrow> system_core \<Rightarrow> unit sched_op" where
  "sum_dynamic c x = (if core_ty c = OOO then bindS (deref instruction_selection) (\<lambda>sel.
       seqS (on_ptr int_inst_window int_inst_window_update (set_dynamic (window_part (lp_power sel) readAc)))
       (seqS (on_ptr fp_inst_window fp_inst_window_update (set_dynamic (window_part (lp_power sel) writeAc)))
       (whenS (0 < ROB_size x) (on_ptr ROB ROB_update (set_dynamic rw_part)))))
     else whenS (multithreaded c) (bindS (deref instruction_selection) (\<lambda>sel.
       on_ptr int_inst_window int_inst_window_update (set_dynamic (window_part (lp_power sel) writeAc)))))"

text \<open>The leakage of the selection logic is counted with each window.\<close>

definition settle_window :: "mcpat_env \<Rightarrow> bool \<Rightarrow> power_def \<Rightarrow> array \<Rightarrow> array" where
  "settle_window e is_tdp sel a = set_sum is_tdp (power_plus e (power_t a)
     (power_times e (power_plus e (uca_power (local_result a)) sel) (pppm_lkg e))) a"

definition add_totals :: "bool \<Rightarrow> mcpat_env \<Rightarrow> core_dyn_param \<Rightarrow> system_core \<Rightarrow> unit sched_op" where
  "add_totals is_tdp e c x = (if core_ty c = OOO then bindS (deref instruction_selection) (\<lambda>sel.
       seqS (each [(int_inst_window, int_inst_window_update), (fp_inst_window, fp_inst_window_update)]
         (settle_window e is_tdp (lp_power sel)))
       (seqS (add_array e is_tdp int_inst_window) (seqS (add_array e is_tdp fp_inst_window)
       (whenS (0 < ROB_size x) (seqS (on_ptr ROB ROB_update (settle e is_tdp (pppm_lkg e)))
         (add_array e is_tdp ROB))))))
     else whenS (multithreaded c) (bindS (deref instruction_selection) (\<lambda>sel.
       seqS (on_ptr int_inst_window int_inst_window_update (settle_window e is_tdp (lp_power sel)))
       (add_array e is_tdp int_inst_window))))"

definition computeEnergy :: "bool \<Rightarrow> mcpat_env \<Rightarrow> core_dyn_param \<Rightarrow> system_core \<Rightarrow> unit sched_op" where
  "computeEnergy is_tdp e c x = bindS (getS u_exist) (\<lambda>ex. whenS ex
     (seqS (if is_tdp then count_peak c x else count_runtime c x)
     (seqS (sum_dynamic c x) (add_totals is_tdp e c x))))"

section \<open>Construction and energy\<close>

definition built :: "core_dyn_param \<Rightarrow> system_core \<Rightarrow> scheduler_u \<Rightarrow> bool" where
  "built c x s \<longleftrightarrow> (u_exist s \<longrightarrow>
     (core_ty c = OOO \<or> multithreaded c \<longrightarrow> int_inst_window s \<noteq> None \<and> instruction_selection s \<noteq> None) \<and>
     (core_ty c = OOO \<longrightarrow> fp_inst_window s \<noteq> None \<and> (0 < ROB_size x \<longrightarrow> ROB s \<noteq> None)))"

definition sane_schedule :: "core_dyn_param \<Rightarrow> system_core \<Rightarrow> bool" where
  "sane_schedule c x \<longleftrightarrow> clockRate c \<noteq> 0 \<and> 0 < num_hthreads c \<and> 0 < number_hardware_threads x \<and>
     (\<exists>n. cast_int (log 2 (of_int (number_hardware_threads x)) * of_int (perThreadState c)) = Inr n)"

lemma sched_construct_built:
  assumes "sane_schedule c x"
  shows "wpS (construct e junk c x) (\<lambda>_ t. built c x t \<and> u_exist t = u_exist s) s"
  using assms
  by (cases "core_ty c")
    (auto simp: construct_def construct_inorder_def make_windows_def make_ROB_def select_for_def sane_schedule_def
      new_copies_def set_uip_def wp_simps built_def Let_def split: prod.split)

lemma scheduler_built:
  assumes "sane_schedule c x"
  shows "\<exists>s. SchedulerU e junk h0 c x ip ex = Inr s \<and> built c x s \<and> u_exist s = ex"
  using sched_construct_built[OF assms, of e junk] unfolding SchedulerU_def
  by (cases ex) (fastforce simp: wpS_def err_simps built_def)+

lemma sched_energy_runs:
  assumes "built c x s" "u_exist s"
  shows "wpS (computeEnergy is_tdp e c x) (\<lambda>_ t. built c x t \<and> u_exist t \<and>
    unit_total (\<not> is_tdp) t = unit_total (\<not> is_tdp) s) s"
  using assms
  by (cases is_tdp; cases "core_ty c"; cases "0 < ROB_size x"; cases "multithreaded c")
    (auto simp: computeEnergy_def count_peak_def count_runtime_def sum_dynamic_def add_totals_def wp_simps
      built_def unit_total_def Let_def)

end
