(* ===== verification/Power_Execute.thy ===== *)
theory Power_Execute
  imports Power_Registers Power_Schedule Power_Units
begin

text \<open>
  \<open>class EXECU\<close> of \<open>src/mcpat/added/core.cc\<close>: register files, scheduler, functional units and the buses
  that bypass results between them.
\<close>

section \<open>The unit\<close>

record exec_u = mcpat_unit +
  lsq_len :: real                   \<comment> \<open>\<open>lsq_height\<close>\<close>
  rfu :: "reg_fu option"
  scheu :: "scheduler_u option"
  exeu :: "functional_unit option"
  fp_u :: "functional_unit option"
  mul :: "functional_unit option"
  int_bypass :: "link option"
  intTagBypass :: "link option"
  int_mul_bypass :: "link option"
  intTag_mul_Bypass :: "link option"
  fp_bypass :: "link option"
  fpTagBypass :: "link option"
  bypass_area :: real
  bypass_power :: power_def
  bypass_rt_power :: power_def

type_synonym 'a ex_op = "(exec_u, 'a) op"

section \<open>The constructor\<close>

text \<open>What a constructor finds in memory before it writes: counts, heights, and the technology that the last
  \<open>init_interface\<close> before a functional unit left.\<close>

record leftover =
  old_stats :: stats_def
  old_height :: real
  old_tech :: "FU_type \<Rightarrow> tech"

definition make_units ::
  "mcpat_env \<Rightarrow> leftover \<Rightarrow> core_dyn_param \<Rightarrow> root_system \<Rightarrow> nat \<Rightarrow> unit ex_op" where
  "make_units e old c sys i = (let x = sys_core sys i; h = old_height old in bindS (getS u_ip) (\<lambda>ip.
     let unit = (\<lambda>t. FunctionalUnit e (old_tech old t) sys i ip c t (old_stats old)) in
     bindS (liftS (RegFU e h c x ip (default_exist e))) (\<lambda>r.
     bindS (liftS (SchedulerU e (old_stats old) h c x ip (default_exist e))) (\<lambda>s.
     seqS (modS (\<lambda>u. u\<lparr>rfu := Some r, scheu := Some s, exeu := Some (unit ALU)\<rparr>))
     (seqS (add_area (fu_area (unit ALU) + u_area r + u_area s))
     (seqS (whenS (0 < num_fpus c) (seqS (modS (\<lambda>u. u\<lparr>fp_u := Some (unit FPU)\<rparr>)) (add_area (fu_area (unit FPU)))))
     (whenS (0 < num_muls c) (seqS (modS (\<lambda>u. u\<lparr>mul := Some (unit MUL)\<rparr>)) (add_area (fu_area (unit MUL)))))))))))"

definition wire_ip :: "bool \<Rightarrow> real \<Rightarrow> real \<Rightarrow> input_parameter \<Rightarrow> input_parameter" where
  "wire_ip embedded cyc cyc10 ip = (if embedded
     then ip\<lparr>wt := Global_30, wire_is_mat_type := 0, wire_os_mat_type := 0, throughput := cyc, latency := cyc\<rparr>
     else ip\<lparr>wt := Global, wire_is_mat_type := 2, wire_os_mat_type := 2, throughput := cyc10, latency := cyc10\<rparr>)"

text \<open>A bus of \<open>width\<close> bits over \<open>len\<close>; not all enter the area of the bypass network.\<close>

definition new_bus ::
  "mcpat_env \<Rightarrow> core_dyn_param \<Rightarrow> string \<Rightarrow> ((link option \<Rightarrow> link option) \<Rightarrow> exec_u \<Rightarrow> exec_u) \<Rightarrow> int \<Rightarrow> real \<Rightarrow>
     bool \<Rightarrow> unit ex_op" where
  "new_bus e c nm upd width len in_area = bindS (getS u_ip) (\<lambda>ip.
     let l = interconnect e nm width len ip (opt_local c) (core_ty c) in
     seqS (modS (upd (\<lambda>_. Some l)))
     (whenS in_area (modS (\<lambda>s. s\<lparr>bypass_area := bypass_area s + link_area l\<rparr>))))"

text \<open>The data and the tag bus of the adders, the multipliers and the floating-point units: widths and
  lengths. Tags go to the windows and, out of order, to the reorder buffer; values go there too if
  there are reservation stations.\<close>

definition data_bits :: "core_dyn_param \<Rightarrow> root_system \<Rightarrow> FU_type \<Rightarrow> int" where
  "data_bits c sys t = (let m = of_int \<lceil>of_int (machine_bits sys) / 32 :: real\<rceil> * 32 :: real in
     if core_ty c = Inorder then (case t of ALU \<Rightarrow> trunc m | _ \<Rightarrow> trunc (m * 1.5))
     else (case t of FPU \<Rightarrow> fp_data_width c | _ \<Rightarrow> int_data_width c))"

definition tag_bits :: "core_dyn_param \<Rightarrow> FU_type \<Rightarrow> int" where
  "tag_bits c t = (if core_ty c = Inorder then perThreadState c
     else if t = FPU \<and> scheu_ty c = PhysicalRegFile then phy_freg_width c else phy_ireg_width c)"

definition base_length :: "core_dyn_param \<Rightarrow> reg_fu \<Rightarrow> real \<Rightarrow> real \<Rightarrow> real \<Rightarrow> real \<Rightarrow> FU_type \<Rightarrow> real" where
  "base_length c r lsq hx hm hf t = (case t of
      ALU \<Rightarrow> int_regfile_height r + hx + lsq
    | MUL \<Rightarrow> (if core_ty c = Inorder then fp_regfile_height r else int_regfile_height r) + hx + hm + lsq
    | FPU \<Rightarrow> fp_regfile_height r + hf)"

definition tag_length :: "core_dyn_param \<Rightarrow> scheduler_u \<Rightarrow> real \<Rightarrow> FU_type \<Rightarrow> real \<Rightarrow> real" where
  "tag_length c s lsq t b = (if t = FPU then b + lsq else b) +
     (if core_ty c = Inorder then Iw_height s
      else (if t = FPU then fp_Iw_height s else Iw_height s) + ROB_height s)"

definition data_length :: "core_dyn_param \<Rightarrow> scheduler_u \<Rightarrow> real \<Rightarrow> FU_type \<Rightarrow> real \<Rightarrow> real" where
  "data_length c s lsq t b =
     (if core_ty c = OOO \<and> scheu_ty c = ReservationStation then tag_length c s lsq t b else b)"

text \<open>The area of the tag bus of the adders is left out for physical register files.\<close>

definition make_buses :: "mcpat_env \<Rightarrow> core_dyn_param \<Rightarrow> root_system \<Rightarrow> unit ex_op" where
  "make_buses e c sys = bindS (deref rfu) (\<lambda>r. bindS (deref scheu) (\<lambda>s. bindS (deref exeu) (\<lambda>x.
     bindS (getS lsq_len) (\<lambda>lsq.
     let len = (\<lambda>hm hf t. base_length c r lsq (FU_height x) hm hf t);
         pair = (\<lambda>t b dn dupd tn tupd in_area.
           seqS (new_bus e c dn dupd (data_bits c sys t) (data_length c s lsq t b) True)
           (new_bus e c tn tupd (tag_bits c t) (tag_length c s lsq t b) in_area)) in
     seqS (pair ALU (len 0 0 ALU) ''Int Bypass Data'' int_bypass_update ''Int Bypass tag'' intTagBypass_update
       (core_ty c = Inorder \<or> scheu_ty c = ReservationStation))
     (seqS (whenS (0 < num_muls c) (bindS (deref mul) (\<lambda>m. pair MUL (len (FU_height m) 0 MUL)
       ''Mul Bypass Data'' int_mul_bypass_update ''Mul Bypass tag'' intTag_mul_Bypass_update True)))
     (whenS (0 < num_fpus c) (bindS (deref fp_u) (\<lambda>f. pair FPU (len 0 (FU_height f) FPU)
       ''FP Bypass Data'' fp_bypass_update ''FP Bypass tag'' fpTagBypass_update True))))))))"

definition construct ::
  "mcpat_env \<Rightarrow> leftover \<Rightarrow> core_dyn_param \<Rightarrow> root_system \<Rightarrow> nat \<Rightarrow> unit ex_op" where
  "construct e old c sys i = seqS (make_units e old c sys i)
     (bindS (liftS (quotient 1 (clockRate c))) (\<lambda>cyc. bindS (liftS (quotient 10 (clockRate c))) (\<lambda>cyc10.
     seqS (set_uip (wire_ip (Embedded sys) cyc cyc10)) (seqS (make_buses e c sys)
     (bindS (getS bypass_area) add_area)))))"

definition EXECU ::
  "mcpat_env \<Rightarrow> leftover \<Rightarrow> core_dyn_param \<Rightarrow> root_system \<Rightarrow> nat \<Rightarrow> input_parameter \<Rightarrow> real \<Rightarrow> bool \<Rightarrow>
     exec_u result" where
  "EXECU e old c sys i ip lsq ex = bindE (whenS ex (construct e old c sys i)
     \<lparr>u_exist = ex, u_ip = ip, u_area = 0, u_power = powerDef_reset, u_rt_power = powerDef_reset,
      lsq_len = lsq, rfu = None, scheu = None, exeu = None, fp_u = None, mul = None,
      int_bypass = None, intTagBypass = None, int_mul_bypass = None, intTag_mul_Bypass = None,
      fp_bypass = None, fpTagBypass = None, bypass_area = 0, bypass_power = powerDef_reset,
      bypass_rt_power = powerDef_reset\<rparr>) (\<lambda>(_, s). Inr s)"

section \<open>\<open>computeEnergy\<close>\<close>

definition call_unit ::
  "(exec_u \<Rightarrow> functional_unit option) \<Rightarrow> ((functional_unit option \<Rightarrow> functional_unit option) \<Rightarrow> exec_u \<Rightarrow> exec_u) \<Rightarrow>
     (functional_unit \<Rightarrow> functional_unit result) \<Rightarrow> unit ex_op" where
  "call_unit p upd f = bindS (deref p) (\<lambda>u. bindS (liftS (f u)) (\<lambda>v. modS (upd (\<lambda>_. Some v))))"

definition run_parts :: "bool \<Rightarrow> mcpat_env \<Rightarrow> tech \<Rightarrow> core_dyn_param \<Rightarrow> root_system \<Rightarrow> nat \<Rightarrow> unit ex_op" where
  "run_parts is_tdp e g c sys i = (let x = sys_core sys i; f = Power_Units.computeEnergy is_tdp g sys c in
     seqS (call_part rfu rfu_update (Power_Registers.computeEnergy is_tdp e c x))
     (seqS (call_part scheu scheu_update (Power_Schedule.computeEnergy is_tdp e c x))
     (seqS (call_unit exeu exeu_update f)
     (seqS (whenS (0 < num_fpus c) (call_unit fp_u fp_u_update f))
     (whenS (0 < num_muls c) (call_unit mul mul_update f))))))"

text \<open>\<open>bypass.power = bypass.power + l->power*pppm_t\<close>\<close>

definition add_bus :: "mcpat_env \<Rightarrow> bool \<Rightarrow> (exec_u \<Rightarrow> link option) \<Rightarrow> pppm \<Rightarrow> unit ex_op" where
  "add_bus e is_tdp p k = bindS (deref p) (\<lambda>l. let d = power_times e (link_power l) k in
     modS (\<lambda>s. if is_tdp then s\<lparr>bypass_power := power_plus e (bypass_power s) d\<rparr>
       else s\<lparr>bypass_rt_power := power_plus e (bypass_rt_power s) d\<rparr>))"

definition fu_total :: "bool \<Rightarrow> functional_unit \<Rightarrow> power_def" where
  "fu_total is_tdp u = (if is_tdp then fu_power u else fu_rt_power u)"

text \<open>How often a bus is used: two operands of an integer instruction and three of another at the peak, the
  counts of the common data bus in the run.\<close>

definition bus_use :: "bool \<Rightarrow> core_dyn_param \<Rightarrow> system_core \<Rightarrow> FU_type \<Rightarrow> pppm" where
  "bus_use is_tdp c x t = (let m = (if t = FPU then 3 else 2);
       n = (if is_tdp then m * (case t of ALU \<Rightarrow> ALU_cdb_duty_cycle c | MUL \<Rightarrow> MUL_cdb_duty_cycle c
              | FPU \<Rightarrow> FPU_cdb_duty_cycle c)
            else (case t of ALU \<Rightarrow> cdb_alu_accesses x | MUL \<Rightarrow> cdb_mul_accesses x | FPU \<Rightarrow> cdb_fpu_accesses x))
     in [n, m, m, n])"

definition add_totals :: "bool \<Rightarrow> mcpat_env \<Rightarrow> core_dyn_param \<Rightarrow> system_core \<Rightarrow> unit ex_op" where
  "add_totals is_tdp e c x = (let k = bus_use is_tdp c x in
     seqS (add_bus e is_tdp intTagBypass (k ALU)) (seqS (add_bus e is_tdp int_bypass (k ALU))
     (seqS (whenS (0 < num_muls c) (seqS (add_bus e is_tdp intTag_mul_Bypass (k MUL))
        (seqS (add_bus e is_tdp int_mul_bypass (k MUL))
        (bindS (deref mul) (\<lambda>m. add_total e is_tdp (fu_total is_tdp m))))))
     (seqS (whenS (0 < num_fpus c) (seqS (add_bus e is_tdp fp_bypass (k FPU))
        (seqS (add_bus e is_tdp fpTagBypass (k FPU))
        (bindS (deref fp_u) (\<lambda>f. add_total e is_tdp (fu_total is_tdp f))))))
     (seqS (bindS (deref rfu) (\<lambda>r. add_total e is_tdp (unit_total is_tdp r)))
     (seqS (bindS (deref exeu) (\<lambda>u. add_total e is_tdp (fu_total is_tdp u)))
     (seqS (bindS (getS (\<lambda>s. if is_tdp then bypass_power s else bypass_rt_power s)) (add_total e is_tdp))
     (bindS (deref scheu) (\<lambda>s. add_total e is_tdp (unit_total is_tdp s))))))))))"

definition computeEnergy ::
  "bool \<Rightarrow> mcpat_env \<Rightarrow> tech \<Rightarrow> core_dyn_param \<Rightarrow> root_system \<Rightarrow> nat \<Rightarrow> unit ex_op" where
  "computeEnergy is_tdp e g c sys i = bindS (getS u_exist) (\<lambda>ex. whenS ex
     (seqS (run_parts is_tdp e g c sys i) (add_totals is_tdp e c (sys_core sys i))))"

section \<open>Construction and energy\<close>

definition unit_for :: "nat \<Rightarrow> FU_type \<Rightarrow> functional_unit option \<Rightarrow> bool" where
  "unit_for i t u \<longleftrightarrow> (\<exists>f. u = Some f \<and> ithCore f = i \<and> fu_type f = t)"

definition units_built :: "core_dyn_param \<Rightarrow> system_core \<Rightarrow> nat \<Rightarrow> exec_u \<Rightarrow> bool" where
  "units_built c x i s \<longleftrightarrow>
     (\<exists>r. rfu s = Some r \<and> Power_Registers.built c r \<and> u_exist r) \<and>
     (\<exists>k. scheu s = Some k \<and> Power_Schedule.built c x k \<and> u_exist k) \<and> unit_for i ALU (exeu s) \<and>
     (0 < num_fpus c \<longrightarrow> unit_for i FPU (fp_u s)) \<and> (0 < num_muls c \<longrightarrow> unit_for i MUL (mul s))"

definition buses_built :: "core_dyn_param \<Rightarrow> exec_u \<Rightarrow> bool" where
  "buses_built c s \<longleftrightarrow> int_bypass s \<noteq> None \<and> intTagBypass s \<noteq> None \<and>
     (0 < num_muls c \<longrightarrow> int_mul_bypass s \<noteq> None \<and> intTag_mul_Bypass s \<noteq> None) \<and>
     (0 < num_fpus c \<longrightarrow> fp_bypass s \<noteq> None \<and> fpTagBypass s \<noteq> None)"

definition built :: "core_dyn_param \<Rightarrow> system_core \<Rightarrow> nat \<Rightarrow> exec_u \<Rightarrow> bool" where
  "built c x i s \<longleftrightarrow> (u_exist s \<longrightarrow> units_built c x i s \<and> buses_built c s)"

lemma wp_make_units:
  assumes "sane_schedule c (sys_core sys i)" "default_exist e"
  shows "wpS (make_units e old c sys i) (\<lambda>_ t. units_built c (sys_core sys i) i t \<and> u_exist t = u_exist s) s"
proof -
  have clk: "clockRate c \<noteq> 0" using assms(1) by (simp add: sane_schedule_def)
  show ?thesis
    using regfu_built[OF clk, of e "old_height old" "sys_core sys i" "u_ip s" True] assms(2)
      scheduler_built[OF assms(1), of e "old_stats old" "old_height old" "u_ip s" True]
    by (auto simp: make_units_def add_area_def wp_simps units_built_def unit_for_def unit_sel Let_def)
qed

lemma wp_make_buses:
  assumes "units_built c x i s"
  shows "wpS (make_buses e c sys) (\<lambda>_ t. units_built c x i t \<and> buses_built c t \<and> u_exist t = u_exist s) s"
  using assms
  by (cases "0 < num_muls c"; cases "0 < num_fpus c")
    (auto simp: make_buses_def new_bus_def wp_simps units_built_def unit_for_def buses_built_def Let_def)

lemma exec_construct_built:
  assumes "sane_schedule c (sys_core sys i)" "default_exist e"
  shows "wpS (construct e old c sys i) (\<lambda>_ t. built c (sys_core sys i) i t \<and> u_exist t = u_exist s) s"
proof -
  have clk: "clockRate c \<noteq> 0" using assms(1) by (simp add: sane_schedule_def)
  have rest: "wpS (seqS (set_uip (wire_ip (Embedded sys) a b)) (seqS (make_buses e c sys)
      (bindS (getS bypass_area) add_area))) (\<lambda>_ v. built c (sys_core sys i) i v \<and> u_exist v = u_exist s) t"
    if "units_built c (sys_core sys i) i t" "u_exist t = u_exist s" for a b t
  proof -
    have "units_built c (sys_core sys i) i (u_ip_update f t)" for f
      using that(1) by (simp add: units_built_def)
    then show ?thesis
      unfolding that(2)[symmetric]
      by (auto simp: set_uip_def wp_simps add_area_def built_def units_built_def buses_built_def
          intro!: wp_mono[OF wp_make_buses])
  qed
  show ?thesis
    unfolding construct_def wpS_seq[of "make_units e old c sys i"]
    by (rule wp_mono[OF wp_make_units[OF assms]]) (simp add: wpS_bind wpS_basic clk rest)
qed

lemma exec_built:
  assumes "sane_schedule c (sys_core sys i)" "default_exist e"
  shows "\<exists>s. EXECU e old c sys i ip lsq ex = Inr s \<and> built c (sys_core sys i) i s \<and> u_exist s = ex"
  using exec_construct_built[OF assms, of old] unfolding EXECU_def
  by (cases ex) (fastforce simp: wpS_def err_simps built_def)+

text \<open>The functional units need integer instructions in the description.\<close>

lemma fu_runs:
  assumes "unit_for i t u" "int_instructions (sys_core sys i) \<noteq> 0" "clockRate c \<noteq> 0"
  shows "\<exists>v. Power_Units.computeEnergy is_tdp g sys c (the u) = Inr v \<and> unit_for i t (Some v) \<and>
    fu_total (\<not> is_tdp) v = fu_total (\<not> is_tdp) (the u)"
proof -
  obtain f where f: "u = Some f" "ithCore f = i" "fu_type f = t" using assms(1) by (auto simp: unit_for_def)
  have "exact_instructions sys f + appadd_instructions (sys_core sys i) \<noteq> 0"
    using exact_instructions_sum[of sys f] f(2) assms(2) by simp
  then show ?thesis
    using f assms(3)
    by (cases is_tdp) (auto simp: Power_Units.computeEnergy_def peak_energy_def runtime_energy_def weighted_eq
        unit_for_def fu_total_def Let_def)
qed

text \<open>The dynamic power of the buses.\<close>

definition bus_part :: "pppm \<Rightarrow> link option \<Rightarrow> link option \<Rightarrow> real" where
  "bus_part k d t = (dynamic (readOp (link_power (the d))) + dynamic (readOp (link_power (the t)))) * k ! 0"

definition when_real :: "bool \<Rightarrow> real \<Rightarrow> real" where
  "when_real b v = (if b then v else 0)"

definition bypass_part :: "bool \<Rightarrow> core_dyn_param \<Rightarrow> system_core \<Rightarrow> exec_u \<Rightarrow> real" where
  "bypass_part is_tdp c x s = (let k = bus_use is_tdp c x in
     dynamic (readOp (if is_tdp then bypass_power s else bypass_rt_power s)) +
     bus_part (k ALU) (int_bypass s) (intTagBypass s) +
     when_real (0 < num_muls c) (bus_part (k MUL) (int_mul_bypass s) (intTag_mul_Bypass s)) +
     when_real (0 < num_fpus c) (bus_part (k FPU) (fp_bypass s) (fpTagBypass s)))"

text \<open>The results of the parts, if they succeed.\<close>

definition fu_result :: "bool \<Rightarrow> tech \<Rightarrow> root_system \<Rightarrow> core_dyn_param \<Rightarrow> functional_unit option \<Rightarrow> functional_unit" where
  "fu_result is_tdp g sys c u = projr (Power_Units.computeEnergy is_tdp g sys c (the u))"

definition fu_dynamic :: "bool \<Rightarrow> tech \<Rightarrow> root_system \<Rightarrow> core_dyn_param \<Rightarrow> functional_unit option \<Rightarrow> real" where
  "fu_dynamic is_tdp g sys c u = dynamic (readOp (fu_total is_tdp (fu_result is_tdp g sys c u)))"

definition rest_part :: "bool \<Rightarrow> mcpat_env \<Rightarrow> core_dyn_param \<Rightarrow> system_core \<Rightarrow> exec_u \<Rightarrow> real" where
  "rest_part is_tdp e c x s = bypass_part is_tdp c x s +
     dynamic (readOp (unit_total is_tdp (snd (projr (Power_Registers.computeEnergy is_tdp e c x (the (rfu s))))))) +
     dynamic (readOp (unit_total is_tdp (snd (projr (Power_Schedule.computeEnergy is_tdp e c x (the (scheu s)))))))"

definition exec_part ::
  "bool \<Rightarrow> mcpat_env \<Rightarrow> tech \<Rightarrow> core_dyn_param \<Rightarrow> root_system \<Rightarrow> nat \<Rightarrow> exec_u \<Rightarrow> real" where
  "exec_part is_tdp e g c sys i s = rest_part is_tdp e c (sys_core sys i) s + fu_dynamic is_tdp g sys c (exeu s) +
     when_real (0 < num_muls c) (fu_dynamic is_tdp g sys c (mul s)) +
     when_real (0 < num_fpus c) (fu_dynamic is_tdp g sys c (fp_u s))"

lemma exec_wp_add_totals:
  assumes "buses_built c s" "rfu s = Some r" "scheu s = Some k" "exeu s = Some v" "field_ops e"
    "0 < num_muls c \<longrightarrow> mul s = Some vm" "0 < num_fpus c \<longrightarrow> fp_u s = Some vf"
  shows "wpS (add_totals is_tdp e c x) (\<lambda>_ t. u_exist t = u_exist s \<and> buses_built c t \<and> rfu t = rfu s \<and>
    scheu t = scheu s \<and> exeu t = exeu s \<and> mul t = mul s \<and> fp_u t = fp_u s \<and>
    dynamic (readOp (unit_total is_tdp t)) = dynamic (readOp (unit_total is_tdp s)) +
      (bypass_part is_tdp c x s + dynamic (readOp (unit_total is_tdp r)) + dynamic (readOp (unit_total is_tdp k)) +
       dynamic (readOp (fu_total is_tdp v)) + when_real (0 < num_muls c) (dynamic (readOp (fu_total is_tdp vm))) +
       when_real (0 < num_fpus c) (dynamic (readOp (fu_total is_tdp vf)))) \<and>
    unit_total (\<not> is_tdp) t = unit_total (\<not> is_tdp) s) s"
  using assms
  by (cases is_tdp; cases "0 < num_muls c"; cases "0 < num_fpus c")
    (auto simp: add_totals_def add_bus_def wp_simps bypass_part_def bus_part_def buses_built_def when_real_def
      unit_total_def field_ops_simps Let_def distrib_right)

lemma exec_energy_runs:
  assumes "built c (sys_core sys i) i s" "u_exist s" "field_ops e"
    and n: "int_instructions (sys_core sys i) \<noteq> 0" "clockRate c \<noteq> 0"
  shows "wpS (computeEnergy is_tdp e g c sys i) (\<lambda>_ t. built c (sys_core sys i) i t \<and> u_exist t \<and>
    dynamic (readOp (unit_total is_tdp t)) = dynamic (readOp (unit_total is_tdp s)) + exec_part is_tdp e g c sys i s \<and>
    unit_total (\<not> is_tdp) t = unit_total (\<not> is_tdp) s) s"
proof -
  let ?x = "sys_core sys i"
  have b: "units_built c ?x i s" "buses_built c s" using assms(1,2) by (simp_all add: built_def)
  then obtain r k u where parts: "rfu s = Some r" "Power_Registers.built c r" "u_exist r" "scheu s = Some k"
    "Power_Schedule.built c ?x k" "u_exist k" "exeu s = Some u" "unit_for i ALU (Some u)"
    by (auto simp: units_built_def unit_for_def)
  obtain r' where r: "Power_Registers.computeEnergy is_tdp e c ?x r = Inr ((), r')" "Power_Registers.built c r'" "u_exist r'"
    using rf_energy_runs[OF parts(2,3), where is_tdp = is_tdp and e = e and x = ?x] by (auto elim!: wpSE)
  obtain k' where k: "Power_Schedule.computeEnergy is_tdp e c ?x k = Inr ((), k')" "Power_Schedule.built c ?x k'" "u_exist k'"
    using sched_energy_runs[OF parts(5,6), where is_tdp = is_tdp and e = e] by (auto elim!: wpSE)
  let ?f = "Power_Units.computeEnergy is_tdp g sys c"
  obtain v where v: "?f u = Inr v" "unit_for i ALU (Some v)"
    using fu_runs[OF parts(8) n] by auto
  obtain m vm where m: "0 < num_muls c \<longrightarrow> mul s = Some m \<and> ?f m = Inr vm \<and> unit_for i MUL (Some vm)"
    using fu_runs[OF _ n, of MUL "mul s" is_tdp g] b(1) by (fastforce simp: units_built_def unit_for_def)
  obtain p vf where p: "0 < num_fpus c \<longrightarrow> fp_u s = Some p \<and> ?f p = Inr vf \<and> unit_for i FPU (Some vf)"
    using fu_runs[OF _ n, of FPU "fp_u s" is_tdp g] b(1) by (fastforce simp: units_built_def unit_for_def)
  let ?t = "s\<lparr>rfu := Some r', scheu := Some k', exeu := Some v,
    fp_u := if 0 < num_fpus c then Some vf else fp_u s, mul := if 0 < num_muls c then Some vm else mul s\<rparr>"
  have run: "run_parts is_tdp e g c sys i s = Inr ((), ?t)"
    using parts(1,4,7) r(1) k(1) v(1) m p
    by (simp add: run_parts_def call_part_def call_unit_def deref_def op_defs Let_def)
  have t: "buses_built c ?t" "bypass_part is_tdp c ?x ?t = bypass_part is_tdp c ?x s"
    using b(2) by (simp_all add: buses_built_def bypass_part_def Let_def)
  have "wpS (add_totals is_tdp e c ?x) (\<lambda>_ w. built c ?x i w \<and> u_exist w \<and>
    dynamic (readOp (unit_total is_tdp w)) = dynamic (readOp (unit_total is_tdp s)) + exec_part is_tdp e g c sys i s \<and>
    unit_total (\<not> is_tdp) w = unit_total (\<not> is_tdp) s) ?t"
    by (rule wp_mono[OF exec_wp_add_totals[OF t(1) _ _ _ assms(3), of r' k' v vm vf]])
      (use assms(2) parts r k v m p t(2) in \<open>auto simp: built_def units_built_def exec_part_def rest_part_def
        fu_dynamic_def fu_result_def when_real_def unit_total_def\<close>)
  then show ?thesis
    using assms(2) by (simp add: computeEnergy_def wp_simps wp_known[of "run_parts is_tdp e g c sys i" s, OF run])
qed

end
