(* ===== verification/Power_Shared_Cache.thy ===== *)
theory Power_Shared_Cache
  imports Power_State
begin

text \<open>
  \<open>class SharedCache\<close> of \<open>src/mcpat/added/sharedcache.cc\<close>: the power of a second or third level cache
  or a directory. A cache has two data arrays, one at the nominal voltage and one at the reduced
  voltage \<open>approxVdd\<close>; accesses to approximate blocks are charged to the second.
\<close>

section \<open>The object\<close>

datatype cache_level = L2 | L3 | L1Directory | L2Directory

record cache_dyn_param =
  cp_name :: string
  dir_ty :: dir_type
  cp_clockRate :: real
  cp_executionTime :: real
  capacity :: real
  blockW :: real
  cp_assoc :: real
  cp_nbanks :: real
  cp_throughput :: real
  cp_latency :: real
  missb_size :: int
  fu_size :: int
  prefetchb_size :: int
  wbb_size :: int
  cp_duty_cycle :: real
  cp_dir_duty_cycle :: real

record shared_cache =
  sc_ip :: input_parameter
  cacheL :: cache_level
  cachep :: cache_dyn_param
  dir_overhead :: real
  caches :: "array option"
  apcaches :: "array option"
  missb :: "array option"
  ifb :: "array option"
  prefetchb :: "array option"
  wbb :: "array option"
  uni_area :: real
  uni_power_t :: power_def
  uni_power :: power_def
  uni_rt_power :: power_def
  homenode_stats_t :: stats_def
  homenode_tdp_stats :: stats_def
  homenode_rtp_stats :: stats_def
  sc_area :: real
  sc_power :: power_def
  sc_rt_power :: power_def

type_synonym 'a sc_op = "(shared_cache, 'a) op"

text \<open>A static directory is one content-addressable array without buffers.\<close>

definition directory_st :: "shared_cache \<Rightarrow> bool" where
  "directory_st s \<longleftrightarrow> dir_ty (cachep s) = ST \<and> cacheL s = L1Directory \<or>
     dir_ty (cachep s) = ST \<and> cacheL s = L2Directory"

definition set_ip :: "(input_parameter \<Rightarrow> input_parameter) \<Rightarrow> unit sc_op" where
  "set_ip f = modS (sc_ip_update f)"

definition set_cp :: "(cache_dyn_param \<Rightarrow> cache_dyn_param) \<Rightarrow> unit sc_op" where
  "set_cp f = modS (cachep_update f)"

section \<open>\<open>set_cache_param\<close>\<close>

text \<open>The assignments that the four levels share.\<close>

definition load_level ::
  "root_system \<Rightarrow> string \<Rightarrow> int \<Rightarrow> int \<Rightarrow> (nat \<Rightarrow> real) \<Rightarrow> (nat \<Rightarrow> int) \<Rightarrow> real \<Rightarrow> unit sc_op" where
  "load_level sys nm clk dev cfg buf duty =
     (let rate = of_int clk * 10 ^ 6 in
      bindS (liftS (quotient (total_cycles sys) (of_int (target_core_clockrate sys) * 10 ^ 6))) (\<lambda>ex.
      bindS (liftS (quotient (cfg 4) rate)) (\<lambda>thr.
      bindS (liftS (quotient (cfg 5) rate)) (\<lambda>lat.
      seqS (set_ip (\<lambda>ip. ip\<lparr>data_arr_ram_cell_tech_type := word_of_int dev,
        data_arr_peri_global_tech_type := word_of_int dev, tag_arr_ram_cell_tech_type := word_of_int dev,
        tag_arr_peri_global_tech_type := word_of_int dev\<rparr>))
      (set_cp (\<lambda>c. c\<lparr>cp_name := nm, cp_clockRate := rate, cp_executionTime := ex, capacity := cfg 0,
        blockW := cfg 1, cp_assoc := cfg 2, cp_nbanks := cfg 3, cp_throughput := thr, cp_latency := lat,
        missb_size := buf 0, fu_size := buf 1, prefetchb_size := buf 2, wbb_size := buf 3,
        cp_duty_cycle := duty\<rparr>))))))"

definition load_LX :: "root_system \<Rightarrow> string \<Rightarrow> system_LX \<Rightarrow> unit sc_op" where
  "load_LX sys nm x = load_level sys nm (clockrate x) (device_type x) (config x) (lx_buffer_sizes x) (duty_cycle x)"

definition load_Dir :: "root_system \<Rightarrow> string \<Rightarrow> system_Directory \<Rightarrow> unit sc_op" where
  "load_Dir sys nm x = load_level sys nm (dir_clockrate x) (dir_device_type x) (Dir_config x)
     (dir_buffer_sizes x) (directory_duty_cycle x)"

definition set_merged_dir :: "system_LX \<Rightarrow> unit sc_op" where
  "set_merged_dir x = set_cp (\<lambda>c. if \<not> merged_dir x then c\<lparr>dir_ty := NonDir\<rparr>
     else c\<lparr>dir_ty := SBT, cp_dir_duty_cycle := dir_duty_cycle x\<rparr>)"

definition use_vdd :: "real \<Rightarrow> input_parameter \<Rightarrow> input_parameter" where
  "use_vdd v ip = ip\<lparr>specific_hp_vdd := True, specific_lop_vdd := True, specific_lstp_vdd := True,
     hp_Vdd := v, lop_Vdd := v, lstp_Vdd := v\<rparr>"

text \<open>The third level reads \<open>merged_dir\<close> of the second.\<close>

definition set_cache_param :: "mcpat_env \<Rightarrow> root_system \<Rightarrow> nat \<Rightarrow> unit sc_op" where
  "set_cache_param e sys i = bindS (getS cacheL) (\<lambda>lvl. case lvl of
      L2 \<Rightarrow> seqS (load_LX sys ''L2'' (sys_L2 sys i)) (seqS (set_merged_dir (sys_L2 sys i))
        (seqS (whenS (Private_L2 sys \<and> 0 < core_vdd (sys_core sys i))
                 (set_ip (use_vdd (core_vdd (sys_core sys i)))))
              (whenS (\<not> Private_L2 sys \<and> 0 < vdd (sys_L2 sys i)) (set_ip (use_vdd (vdd (sys_L2 sys i)))))))
    | L3 \<Rightarrow> seqS (load_LX sys ''L3'' (sys_L3 sys i)) (seqS (set_merged_dir (sys_L2 sys i))
        (whenS (0 < vdd (sys_L3 sys i)) (set_ip (use_vdd (vdd (sys_L3 sys i))))))
    | L1Directory \<Rightarrow> seqS (load_Dir sys ''First Level Directory'' (sys_L1Directory sys i))
        (seqS (set_cp (dir_ty_update (\<lambda>_. Dir_type_of e (Directory_type (sys_L1Directory sys i)))))
        (whenS (0 < dir_vdd (sys_L1Directory sys i)) (set_ip (use_vdd (dir_vdd (sys_L1Directory sys i))))))
    | L2Directory \<Rightarrow> seqS (load_Dir sys ''Second Level Directory'' (sys_L2Directory sys i))
        (seqS (set_cp (dir_ty_update (\<lambda>_. Dir_type_of e (Directory_type (sys_L2Directory sys i)))))
        (whenS (0 < dir_vdd (sys_L2Directory sys i)) (set_ip (use_vdd (dir_vdd (sys_L2Directory sys i)))))))"

section \<open>The constructor\<close>

definition device_of :: "mcpat_env \<Rightarrow> root_system \<Rightarrow> nat \<Rightarrow> cache_level \<Rightarrow> device_ty \<times> core_type" where
  "device_of e sys i lvl = (if lvl = L2 \<and> Private_L2 sys
     then (Core_device, Core_type_of e (machine_type (sys_core sys i))) else (LLC_device, Inorder))"

definition wire_ip :: "root_system \<Rightarrow> input_parameter \<Rightarrow> input_parameter" where
  "wire_ip sys ip = (if Embedded sys then ip\<lparr>wt := Global_30, wire_is_mat_type := 0, wire_os_mat_type := 1\<rparr>
     else ip\<lparr>wt := Global, wire_is_mat_type := 2, wire_os_mat_type := 2\<rparr>)"

text \<open>The sizes of the main array: size, line, ways and the width of the tag. A directory held in the
  cache (\<open>SBT\<close>) makes the lines longer.\<close>

definition main_sizes :: "mcpat_env \<Rightarrow> root_system \<Rightarrow> (real \<times> real \<times> real \<times> int) sc_op" where
  "main_sizes e sys = bindS (getS (\<lambda>s. s)) (\<lambda>s. let c = cachep s in
     if directory_st s then
       seqS (set_ip (num_search_ports_update (\<lambda>_. 1)))
         (retS (capacity c, blockW c, 0, physical_address_width sys + EXTRA_TAG_BITS e))
     else
       bindS (liftS (quotient (capacity c) (blockW c))) (\<lambda>n.
       bindS (liftS (quotient n (cp_assoc c))) (\<lambda>n2.
       bindS (liftS (ceil_log2 n2)) (\<lambda>idx.
       bindS (liftS (ceil_log2 (blockW c))) (\<lambda>off.
       let tag = physical_address_width sys - idx - off + EXTRA_TAG_BITS e in
       seqS (set_ip (num_search_ports_update (\<lambda>_. 0)))
       (if dir_ty c = SBT then
          bindS (liftS (quotient (of_int \<lceil>of_int (number_of_cores sys) / 8 :: real\<rceil> * 8) (blockW c * 8))) (\<lambda>ov.
          seqS (modS (dir_overhead_update (\<lambda>_. ov)))
            (retS (capacity c * (1 + ov), blockW c * (1 + ov), cp_assoc c, tag)))
        else retS (capacity c, blockW c, cp_assoc c, tag)))))))"

definition main_ip ::
  "cache_dyn_param \<Rightarrow> int \<Rightarrow> int \<Rightarrow> int \<Rightarrow> int \<Rightarrow> int \<Rightarrow> input_parameter \<Rightarrow> input_parameter" where
  "main_ip c sz lsz ways banks tag ip = ip\<lparr>specific_tag := True, tag_w := word_of_int tag,
     cache_sz := word_of_int sz, line_sz := word_of_int lsz, assoc := word_of_int ways,
     nbanks := word_of_int banks, out_w := word_of_int lsz * 8 div 2, access_mode := 1,
     throughput := cp_throughput c, latency := cp_latency c, is_cache := True, pure_ram := False,
     pure_cam := False, obj_func_dyn_energy := 0, obj_func_dyn_power := 0, obj_func_leak_power := 0,
     obj_func_cycle_t := 1, num_rw_ports := 1, num_rd_ports := 0, num_wr_ports := 0,
     num_se_rd_ports := 0\<rparr>"

definition has_data_arrays :: "cache_level \<Rightarrow> bool" where
  "has_data_arrays lvl \<longleftrightarrow> lvl = L2 \<or> lvl = L3"

text \<open>The forced organisation of the data arrays. \<open>nspd\<close> is an \<open>int\<close>: the literal 0.5 is truncated.\<close>

definition force_ip :: "input_parameter \<Rightarrow> input_parameter" where
  "force_ip ip = ip\<lparr>force_cache_config := True, ndwl := 2, ndbl := 2, nspd := trunc (1 / 2), ndcm := 2,
     ndsam1 := 1, ndsam2 := 1, approx_mode := 1\<rparr>"

definition approx_vdd :: "root_system \<Rightarrow> nat \<Rightarrow> cache_level \<Rightarrow> real" where
  "approx_vdd sys i lvl = (if lvl = L2 then lx_approxVdd (sys_L2 sys i) else lx_approxVdd (sys_L3 sys i))"

text \<open>After the two arrays the saved voltages are put back.\<close>

definition restore_ip :: "input_parameter \<Rightarrow> input_parameter \<Rightarrow> input_parameter" where
  "restore_ip kept ip = ip\<lparr>force_cache_config := False, approx_mode := 0,
     specific_hp_vdd := specific_hp_vdd kept, specific_lop_vdd := specific_lop_vdd kept,
     specific_lstp_vdd := specific_lstp_vdd kept, hp_Vdd := hp_Vdd kept, lop_Vdd := lop_Vdd kept,
     lstp_Vdd := lstp_Vdd kept\<rparr>"

definition grow :: "array \<Rightarrow> shared_cache \<Rightarrow> shared_cache" where
  "grow a s = s\<lparr>uni_area := uni_area s + uca_area (local_result a),
     sc_area := sc_area s + uca_area (local_result a)\<rparr>"

definition make_array :: "mcpat_env \<Rightarrow> root_system \<Rightarrow> nat \<Rightarrow> string \<Rightarrow> shared_cache \<Rightarrow> array" where
  "make_array e sys i nm s = (case device_of e sys i (cacheL s) of (dev, ct) \<Rightarrow>
     ArrayST e (sc_ip s) (cp_name (cachep s) @ nm) dev True ct)"

definition data_arrays :: "mcpat_env \<Rightarrow> root_system \<Rightarrow> nat \<Rightarrow> unit sc_op" where
  "data_arrays e sys i =
     bindS (getS sc_ip) (\<lambda>kept. bindS (getS cacheL) (\<lambda>lvl.
     seqS (whenS (has_data_arrays lvl) (set_ip force_ip))
     (seqS (bindS (getS (make_array e sys i ''cache'')) (\<lambda>a. modS (\<lambda>s. grow a (s\<lparr>caches := Some a\<rparr>))))
     (seqS (whenS (has_data_arrays lvl) (set_ip (use_vdd (approx_vdd sys i lvl))))
     (seqS (modS (\<lambda>s. s\<lparr>apcaches := Some (make_array e sys i ''apcache'' s)\<rparr>))
     (set_ip (restore_ip kept)))))))"

text \<open>Miss, fill, prefetch and write-back buffer.\<close>

definition new_buffer ::
  "mcpat_env \<Rightarrow> root_system \<Rightarrow> nat \<Rightarrow> string \<Rightarrow> ((array option \<Rightarrow> array option) \<Rightarrow> shared_cache \<Rightarrow> shared_cache) \<Rightarrow>
     unit sc_op" where
  "new_buffer e sys i nm upd =
     bindS (getS (make_array e sys i nm)) (\<lambda>a. modS (\<lambda>s. grow a (upd (\<lambda>_. Some a) s)))"

definition shared_buffer_ip ::
  "mcpat_env \<Rightarrow> root_system \<Rightarrow> cache_dyn_param \<Rightarrow> u32 \<Rightarrow> int \<Rightarrow> input_parameter \<Rightarrow> input_parameter" where
  "shared_buffer_ip e sys c lsz entries ip =
     buffer_ip (physical_address_width sys + EXTRA_TAG_BITS e) lsz (word_of_int entries * lsz)
       (lsz * 8 div 2) 0 (cp_throughput c) (cp_latency c) 1 ip"

definition make_buffers :: "mcpat_env \<Rightarrow> root_system \<Rightarrow> nat \<Rightarrow> real \<Rightarrow> real \<Rightarrow> unit sc_op" where
  "make_buffers e sys i cap lsz =
     bindS (getS cachep) (\<lambda>c. bindS (deref caches) (\<lambda>main.
     bindS (liftS (quotient cap lsz)) (\<lambda>n. bindS (liftS (ceil_log2 n)) (\<lambda>idx.
     let data = sint (word_of_int (physical_address_width sys + idx) + line_sz (l_ip main) :: u32);
         mline = word_of_int \<lceil>of_int data / 8 :: real\<rceil>; data' = line_sz (l_ip main) in
     seqS (set_ip (\<lambda>ip. (shared_buffer_ip e sys c mline (missb_size c) ip)\<lparr>is_cache := True,
        pure_ram := False, pure_cam := False, num_search_ports := 1\<rparr>))
     (seqS (new_buffer e sys i ''MissB'' missb_update)
     (seqS (set_ip (shared_buffer_ip e sys c data' (fu_size c)))
     (seqS (new_buffer e sys i ''FillB'' ifb_update)
     (seqS (set_ip (shared_buffer_ip e sys c data' (prefetchb_size c)))
     (seqS (new_buffer e sys i ''PrefetchB'' prefetchb_update)
     (seqS (set_ip (shared_buffer_ip e sys c data' (wbb_size c)))
     (new_buffer e sys i ''WBB'' wbb_update)))))))))))"

definition construct :: "mcpat_env \<Rightarrow> root_system \<Rightarrow> nat \<Rightarrow> unit sc_op" where
  "construct e sys i =
     seqS (set_ip (wire_ip sys)) (seqS (set_cache_param e sys i)
     (bindS (main_sizes e sys) (\<lambda>(cap, lsz, ways, tag).
      bindS (getS cachep) (\<lambda>c.
      bindS (liftS (cast_int cap)) (\<lambda>sz. bindS (liftS (cast_int lsz)) (\<lambda>l.
      bindS (liftS (cast_int ways)) (\<lambda>w. bindS (liftS (cast_int (cp_nbanks c))) (\<lambda>b.
      seqS (set_ip (main_ip c sz l w b tag)) (seqS (data_arrays e sys i)
      (bindS (getS directory_st) (\<lambda>d. whenS (\<not> d) (make_buffers e sys i cap lsz))))))))))))"

text \<open>The members that no constructor sets start with indeterminate values.\<close>

definition SharedCache ::
  "mcpat_env \<Rightarrow> root_system \<Rightarrow> nat \<Rightarrow> input_parameter \<Rightarrow> cache_level \<Rightarrow> cache_dyn_param \<Rightarrow> stats_def \<Rightarrow>
     shared_cache result" where
  "SharedCache e sys i ip lvl cp junk = bindE (construct e sys i
     \<lparr>sc_ip = ip, cacheL = lvl, cachep = cp, dir_overhead = 0, caches = None, apcaches = None,
      missb = None, ifb = None, prefetchb = None, wbb = None, uni_area = 0,
      uni_power_t = powerDef_reset, uni_power = powerDef_reset, uni_rt_power = powerDef_reset,
      homenode_stats_t = junk, homenode_tdp_stats = junk, homenode_rtp_stats = junk,
      sc_area = 0, sc_power = powerDef_reset, sc_rt_power = powerDef_reset\<rparr>) (\<lambda>(_, s). Inr s)"

section \<open>\<open>computeEnergy\<close>\<close>

definition homenode_data_access :: "shared_cache \<Rightarrow> real" where
  "homenode_data_access s = (if dir_ty (cachep s) = SBT then 0.9 else 1)"

definition count_peak :: "unit sc_op" where
  "count_peak = bindS (getS (\<lambda>s. s)) (\<lambda>s. let hda = homenode_data_access s; c = cachep s in
     bindS (deref caches) (\<lambda>a.
     if \<not> directory_st s then
       seqS (on_ptr caches caches_update (keep_tdp \<circ> load_main
         (counted (0.67 * ports (num_rw_ports (l_ip a)) * cp_duty_cycle c * hda) 0)
         (counted (0.33 * ports (num_rw_ports (l_ip a)) * cp_duty_cycle c * hda) 0)))
       (seqS (whenS (dir_ty c = SBT) (modS (\<lambda>t.
          let x = counted (0.67 * ports (num_rw_ports (l_ip a)) * cp_dir_duty_cycle c * (1 - hda)) 0;
              h = (homenode_stats_t t)\<lparr>readAc := x, writeAc := x\<rparr>
          in t\<lparr>homenode_stats_t := h, homenode_tdp_stats := h\<rparr>)))
       (bindS (deref missb) (\<lambda>m. let x = ports (num_search_ports (l_ip m)) * cp_duty_cycle c in
        seqS (on_ptr missb missb_update (load_tdp x x))
       (bindS (deref ifb) (\<lambda>f. let y = ports (num_search_ports (l_ip f)) * cp_duty_cycle c in
        seqS (on_ptr ifb ifb_update (load_tdp y y))
       (bindS (deref prefetchb) (\<lambda>p. let z = ports (num_search_ports (l_ip p)) * cp_duty_cycle c in
        seqS (on_ptr prefetchb prefetchb_update (load_tdp z y))
       (bindS (deref wbb) (\<lambda>b. let w = ports (num_search_ports (l_ip b)) * cp_duty_cycle c in
        on_ptr wbb wbb_update (load_tdp w w))))))))))
     else
       on_ptr caches caches_update (keep_tdp \<circ> load_main
         (counted (ports (num_search_ports (l_ip a)) * cp_duty_cycle c) 0) (counted 0 0))))"

definition count_LX :: "system_LX \<Rightarrow> unit sc_op" where
  "count_LX x =
     seqS (on_ptr caches caches_update (keep_rtp \<circ> load_main
       (counted (lx_read_accesses x) (lx_read_misses x)) (counted (lx_write_accesses x) (lx_write_misses x))))
     (seqS (on_ptr apcaches apcaches_update (keep_rtp \<circ> load_main
       (counted (lx_approx_read_accesses x) (lx_approx_read_misses x))
       (counted (lx_approx_write_accesses x) (lx_approx_write_misses x))))
     (bindS (getS cachep) (\<lambda>c. whenS (dir_ty c = SBT) (modS (\<lambda>s. s\<lparr>homenode_rtp_stats :=
       (homenode_rtp_stats s)\<lparr>readAc := counted (homenode_read_accesses x) (homenode_read_misses x),
        writeAc := counted (homenode_write_accesses x) (homenode_write_misses x)\<rparr>\<rparr>)))))"

definition count_Dir :: "system_Directory \<Rightarrow> unit sc_op" where
  "count_Dir x = on_ptr caches caches_update (keep_rtp \<circ> load_main
     (counted (dir_read_accesses x) (dir_read_misses x)) (counted (dir_write_accesses x) (dir_write_misses x)))"

definition add_access :: "real \<Rightarrow> array \<Rightarrow> array" where
  "add_access h a = a\<lparr>stats_t := set_access (ac_access (readAc (stats_t a)) + h)
     (ac_access (writeAc (stats_t a)) + h) (stats_t a)\<rparr>"

text \<open>The buffers see the write misses. With a directory in the cache the write misses at the home node
  come on top, for the miss buffer twice.\<close>

definition count_buffers :: "unit sc_op" where
  "count_buffers = bindS (deref caches) (\<lambda>a. let w = ac_miss (writeAc (stats_t a)) in
     seqS (on_ptr missb missb_update (load_rtp w w))
     (seqS (on_ptr ifb ifb_update (load_rtp w w))
     (seqS (on_ptr prefetchb prefetchb_update (load_rtp w w))
     (seqS (on_ptr wbb wbb_update (\<lambda>b. b\<lparr>stats_t := set_access w w (stats_t b)\<rparr>))
     (seqS (bindS (getS (\<lambda>s. s)) (\<lambda>s. let h = ac_miss (writeAc (homenode_rtp_stats s)) in
        whenS (dir_ty (cachep s) = SBT)
          (seqS (on_ptr missb missb_update (keep_rtp \<circ> add_access h))
          (seqS (on_ptr missb missb_update (keep_rtp \<circ> add_access h))
          (seqS (on_ptr ifb ifb_update (keep_rtp \<circ> add_access h))
          (seqS (on_ptr prefetchb prefetchb_update (keep_rtp \<circ> add_access h))
          (on_ptr wbb wbb_update (add_access h))))))))
     (on_ptr wbb wbb_update keep_rtp))))))"

definition count_runtime :: "root_system \<Rightarrow> nat \<Rightarrow> unit sc_op" where
  "count_runtime sys i = bindS (getS cacheL) (\<lambda>lvl.
     seqS (case lvl of
         L2 \<Rightarrow> count_LX (sys_L2 sys i)
       | L3 \<Rightarrow> count_LX (sys_L3 sys i)
       | L1Directory \<Rightarrow> count_Dir (sys_L1Directory sys i)
       | L2Directory \<Rightarrow> count_Dir (sys_L2Directory sys i))
     (bindS (getS directory_st) (\<lambda>d. whenS (\<not> d) count_buffers)))"

definition approx_percent :: "root_system \<Rightarrow> nat \<Rightarrow> cache_level \<Rightarrow> real" where
  "approx_percent sys i lvl = (if lvl = L2 then lx_approx_ratio (sys_L2 sys i)
     else if lvl = L3 then lx_approx_ratio (sys_L3 sys i) else 0)"

text \<open>The dynamic energy of the two data arrays. The tags are read and written at the nominal voltage.\<close>

definition exact_part :: "array \<Rightarrow> array \<Rightarrow> real" where
  "exact_part a p = (let sa = stats_t a; sp = stats_t p in
     (ac_hit (readAc sa) - ac_hit (readAc sp)) * read_energy a +
     (ac_miss (readAc sa) - ac_miss (readAc sp)) * tag_read a +
     (ac_miss (writeAc sa) - ac_miss (writeAc sp)) * tag_write a +
     (ac_access (writeAc sa) - ac_access (writeAc sp)) * write_energy a)"

definition approx_part :: "array \<Rightarrow> array \<Rightarrow> real" where
  "approx_part a p = (let sp = stats_t p in
     ac_hit (readAc sp) * read_energy p + ac_miss (readAc sp) * tag_read a +
     ac_miss (writeAc sp) * tag_write a + ac_access (writeAc sp) * write_energy p)"

definition homenode_part :: "shared_cache \<Rightarrow> array \<Rightarrow> real" where
  "homenode_part s a = (let h = homenode_stats_t s; ov = dir_overhead s; d = data_power (local_result a) in
     ac_hit (readAc h) * (dynamic (readOp d) * ov + tag_read a) + ac_miss (readAc h) * tag_read a +
     ac_miss (writeAc h) * tag_read a +
     ac_hit (writeAc h) * (dynamic (writeOp d) * ov + tag_read a + ac_miss (writeAc h) * write_energy a))"

definition add_uni :: "real \<Rightarrow> unit sc_op" where
  "add_uni x = modS (\<lambda>s. s\<lparr>uni_power_t := add_dynamic x (uni_power_t s)\<rparr>)"

definition sum_dynamic :: "unit sc_op" where
  "sum_dynamic = seqS (modS (\<lambda>s. s\<lparr>uni_power_t := powerDef_reset\<rparr>))
     (bindS (deref caches) (\<lambda>a. bindS (getS (\<lambda>s. s)) (\<lambda>s.
     if \<not> directory_st s then
       bindS (deref apcaches) (\<lambda>p.
       seqS (add_uni (exact_part a p)) (seqS (add_uni (approx_part a p))
       (seqS (whenS (dir_ty (cachep s) = SBT) (add_uni (homenode_part s a)))
       (bindS (deref missb) (\<lambda>b. seqS (add_uni (buffer_part b))
       (bindS (deref ifb) (\<lambda>b. seqS (add_uni (buffer_part b))
       (bindS (deref prefetchb) (\<lambda>b. seqS (add_uni (buffer_part b))
       (bindS (deref wbb) (\<lambda>b. add_uni (buffer_part b))))))))))))
     else
       add_uni (ac_access (readAc (stats_t a)) * search_energy a +
                ac_access (writeAc (stats_t a)) * write_energy a))))"

text \<open>The total. At run time the statement \<open>(rt_power = ...) * pppm_lkg\<close> assigns the sum and drops the
  product.\<close>

definition sum_peak :: "mcpat_env \<Rightarrow> root_system \<Rightarrow> nat \<Rightarrow> unit sc_op" where
  "sum_peak e sys i = bindS (getS (\<lambda>s. s)) (\<lambda>s. bindS (deref caches) (\<lambda>a. bindS (deref apcaches) (\<lambda>p.
     seqS (modS (uni_power_update (\<lambda>_. power_plus e (uni_power_t s)
            (mixed_leakage (approx_percent sys i (cacheL s)) p a))))
     (seqS (if \<not> directory_st s then
        bindS (deref missb) (\<lambda>m. bindS (deref ifb) (\<lambda>f. bindS (deref prefetchb) (\<lambda>q. bindS (deref wbb) (\<lambda>w.
          modS (\<lambda>t. t\<lparr>uni_power := power_plus e (uni_power t) (power_times e
            (power_plus e (power_plus e (power_plus e (uca_power (local_result m)) (uca_power (local_result f)))
               (uca_power (local_result q))) (uca_power (local_result w))) (pppm_lkg e))\<rparr>)))))
      else retS ())
     (modS (\<lambda>t. t\<lparr>sc_power := power_plus e (sc_power t) (uni_power t)\<rparr>))))))"

definition sum_runtime :: "mcpat_env \<Rightarrow> root_system \<Rightarrow> nat \<Rightarrow> unit sc_op" where
  "sum_runtime e sys i = bindS (getS (\<lambda>s. s)) (\<lambda>s. bindS (deref caches) (\<lambda>a. bindS (deref apcaches) (\<lambda>p.
     seqS (modS (uni_rt_power_update (\<lambda>_. power_plus e (uni_power_t s)
            (mixed_leakage (approx_percent sys i (cacheL s)) p a))))
     (seqS (if \<not> directory_st s then
        bindS (deref missb) (\<lambda>m. bindS (deref ifb) (\<lambda>f. bindS (deref prefetchb) (\<lambda>q. bindS (deref wbb) (\<lambda>w.
          modS (\<lambda>t. t\<lparr>uni_rt_power := power_plus e (power_plus e (power_plus e (power_plus e (uni_rt_power t)
            (uca_power (local_result m))) (uca_power (local_result f)))
               (uca_power (local_result q))) (uca_power (local_result w))\<rparr>)))))
      else retS ())
     (modS (\<lambda>t. t\<lparr>sc_rt_power := power_plus e (sc_rt_power t) (uni_rt_power t)\<rparr>))))))"

definition computeEnergy :: "bool \<Rightarrow> mcpat_env \<Rightarrow> root_system \<Rightarrow> nat \<Rightarrow> unit sc_op" where
  "computeEnergy is_tdp e sys i =
     seqS (if is_tdp then count_peak else count_runtime sys i) (seqS sum_dynamic
     (if is_tdp then sum_peak e sys i else sum_runtime e sys i))"

end
