(* ===== verification/Power_Cache_Facts.thy ===== *)
theory Power_Cache_Facts
  imports Power_Shared_Cache
begin

text \<open>
  Facts about \<open>Power_Shared_Cache\<close>: the energy of a cache with an array at a reduced voltage compared
  with the original formula, and what the constructor builds.
\<close>

section \<open>The energy saved\<close>

text \<open>The formula for a cache with one array, kept in the source as a comment.\<close>

definition original_energy :: "array \<Rightarrow> real" where
  "original_energy a = (let s = stats_t a in
     ac_hit (readAc s) * read_energy a + ac_miss (readAc s) * tag_read a +
     ac_miss (writeAc s) * tag_write a + ac_access (writeAc s) * write_energy a)"

definition saved_energy :: "array \<Rightarrow> array \<Rightarrow> real" where
  "saved_energy a p = (let s = stats_t p in
     ac_hit (readAc s) * (read_energy a - read_energy p) +
     ac_access (writeAc s) * (write_energy a - write_energy p))"

lemma split_energy: "exact_part a p + approx_part a p = original_energy a - saved_energy a p"
  by (simp add: exact_part_def approx_part_def original_energy_def saved_energy_def Let_def algebra_simps)

interpretation lower: two_voltages "\<lambda>a p. exact_part a p + approx_part a p" original_energy
  "\<lambda>s. ac_hit (readAc s)" "\<lambda>s. ac_access (writeAc s)"
  by unfold_locales (simp add: split_energy saved_energy_def Let_def)

definition built :: "shared_cache \<Rightarrow> bool" where
  "built s \<longleftrightarrow> caches s \<noteq> None \<and> apcaches s \<noteq> None \<and> missb s \<noteq> None \<and> ifb s \<noteq> None \<and>
     prefetchb s \<noteq> None \<and> wbb s \<noteq> None"

definition total :: "bool \<Rightarrow> shared_cache \<Rightarrow> power_def" where
  "total is_tdp s = (if is_tdp then sc_power s else sc_rt_power s)"

definition level_of :: "root_system \<Rightarrow> nat \<Rightarrow> cache_level \<Rightarrow> system_LX" where
  "level_of sys i lvl = (if lvl = L2 then sys_L2 sys i else sys_L3 sys i)"

definition counts_of :: "system_LX \<Rightarrow> stats_def" where
  "counts_of x = \<lparr>readAc = counted (lx_read_accesses x) (lx_read_misses x),
     writeAc = counted (lx_write_accesses x) (lx_write_misses x), searchAc = counted 0 0\<rparr>"

definition approx_counts_of :: "system_LX \<Rightarrow> stats_def" where
  "approx_counts_of x = \<lparr>readAc = counted (lx_approx_read_accesses x) (lx_approx_read_misses x),
     writeAc = counted (lx_approx_write_accesses x) (lx_approx_write_misses x), searchAc = counted 0 0\<rparr>"

definition results :: "shared_cache \<Rightarrow> uca_org option list" where
  "results s = map (map_option local_result) [caches s, apcaches s, missb s, ifb s, prefetchb s, wbb s]"

definition both_access :: "array option \<Rightarrow> real \<Rightarrow> bool" where
  "both_access b x \<longleftrightarrow> (\<exists>a. b = Some a \<and> ac_access (readAc (stats_t a)) = x \<and> ac_access (writeAc (stats_t a)) = x)"

text \<open>The accesses of the buffers: the write misses \<open>w\<close> of the cache and \<open>h\<close> at the home node.\<close>

definition buffers_see :: "real \<Rightarrow> real \<Rightarrow> shared_cache \<Rightarrow> bool" where
  "buffers_see w h s \<longleftrightarrow> both_access (missb s) (w + 2 * h) \<and> both_access (ifb s) (w + h) \<and>
     both_access (prefetchb s) (w + h) \<and> both_access (wbb s) (w + h)"

definition home_misses :: "shared_cache \<Rightarrow> real" where
  "home_misses s = (if dir_ty (cachep s) = SBT then ac_miss (writeAc (homenode_rtp_stats s)) else 0)"

text \<open>What counting leaves alone.\<close>

definition same_frame :: "shared_cache \<Rightarrow> shared_cache \<Rightarrow> bool" where
  "same_frame s t \<longleftrightarrow> built t \<and> cacheL t = cacheL s \<and> cachep t = cachep s \<and>
     sc_power t = sc_power s \<and> sc_rt_power t = sc_rt_power s \<and>
     results t = results s"

lemma directory_st_frame: "same_frame s t \<Longrightarrow> directory_st t = directory_st s"
  by (simp add: same_frame_def directory_st_def)

lemma add_access_sel [simp]:
  "local_result (add_access h a) = local_result a"
  "stats_t (add_access h a) = set_access (ac_access (readAc (stats_t a)) + h)
     (ac_access (writeAc (stats_t a)) + h) (stats_t a)"
  by (simp_all add: add_access_def)

lemma wp_count_peak:
  assumes "built s" "\<not> directory_st s"
  shows "wpS count_peak (\<lambda>_ t. same_frame s t \<and> apcaches t = apcaches s) s"
  using assms
  by (auto simp: count_peak_def wp_simps built_def same_frame_def results_def Let_def)

lemma wp_count_buffers:
  assumes "built s" "caches s = Some a"
  shows "wpS count_buffers (\<lambda>_ t. same_frame s t \<and> caches t = caches s \<and> apcaches t = apcaches s \<and>
    buffers_see (ac_miss (writeAc (stats_t a))) (home_misses s) t) s"
  using assms
  by (auto simp: count_buffers_def wp_simps built_def same_frame_def results_def Let_def buffers_see_def
      both_access_def home_misses_def)

lemma wp_count_LX:
  assumes "built s"
  shows "wpS (count_LX x) (\<lambda>_ t. same_frame s t \<and>
    (dir_ty (cachep s) = SBT \<longrightarrow> ac_miss (writeAc (homenode_rtp_stats t)) = homenode_write_misses x) \<and>
    (\<exists>a p. caches t = Some a \<and> apcaches t = Some p \<and> same_counts (stats_t a) (counts_of x) \<and>
      same_counts (stats_t p) (approx_counts_of x))) s"
  using assms
  by (auto simp: count_LX_def wp_simps built_def same_frame_def results_def Let_def load_main_def keep_rtp_def
      counts_of_def approx_counts_of_def same_counts_def)

definition counted_run :: "system_LX \<Rightarrow> shared_cache \<Rightarrow> shared_cache \<Rightarrow> bool" where
  "counted_run x s t \<longleftrightarrow> (\<exists>a p. caches t = Some a \<and> apcaches t = Some p \<and>
     same_counts (stats_t a) (counts_of x) \<and> same_counts (stats_t p) (approx_counts_of x)) \<and>
     buffers_see (lx_write_misses x)
       (if dir_ty (cachep s) = SBT then homenode_write_misses x else 0) t"

lemma same_frame_trans: "same_frame s t \<Longrightarrow> same_frame t u \<Longrightarrow> same_frame s u"
  by (simp add: same_frame_def)

lemma wp_count_runtime:
  assumes "built s" "\<not> directory_st s" "has_data_arrays (cacheL s)"
  shows "wpS (count_runtime sys i)
    (\<lambda>_ t. same_frame s t \<and> counted_run (level_of sys i (cacheL s)) s t) s"
proof -
  let ?x = "level_of sys i (cacheL s)"
  have "wpS (count_LX ?x) (\<lambda>_. wpS (bindS (getS directory_st) (\<lambda>d. whenS (\<not> d) count_buffers))
     (\<lambda>_ t. same_frame s t \<and> counted_run ?x s t)) s"
  proof (rule wp_mono[OF wp_count_LX[OF assms(1), of ?x]], goal_cases)
    case (1 u t)
    then obtain a p where t: "same_frame s t" "caches t = Some a" "apcaches t = Some p"
      "same_counts (stats_t a) (counts_of ?x)" "same_counts (stats_t p) (approx_counts_of ?x)"
      "dir_ty (cachep s) = SBT \<longrightarrow> ac_miss (writeAc (homenode_rtp_stats t)) = homenode_write_misses ?x"
      by auto
    have "built t" "cachep t = cachep s" using t(1) by (simp_all add: same_frame_def)
    then show ?case
      using wp_count_buffers[of t a] t assms(2) directory_st_frame[OF t(1)]
      by (auto simp: wpS_bind wpS_basic counted_run_def home_misses_def counts_of_def same_counts_def
          elim!: wp_mono dest: same_frame_trans)
  qed
  then show ?thesis
    using assms(3)
    by (cases "cacheL s")
      (simp_all add: count_runtime_def wp_simps level_of_def has_data_arrays_def split del: if_split)
qed

lemma wp_sum_dynamic:
  assumes "built s" "\<not> directory_st s"
    and "caches s = Some a" "apcaches s = Some p" "missb s = Some m" "ifb s = Some f"
    "prefetchb s = Some q" "wbb s = Some w"
  shows "wpS sum_dynamic (\<lambda>_ t. t = s\<lparr>uni_power_t := uni_power_t t\<rparr> \<and> dynamic (readOp (uni_power_t t)) =
    original_energy a - saved_energy a p + (if dir_ty (cachep s) = SBT then homenode_part s a else 0) +
    buffer_part m + buffer_part f + buffer_part q + buffer_part w) s"
proof -
  have [simp]: "directory_st (s\<lparr>uni_power_t := x\<rparr>) = directory_st s"
    "homenode_part (s\<lparr>uni_power_t := x\<rparr>) a = homenode_part s a" for x
    by (simp_all add: directory_st_def homenode_part_def)
  show ?thesis
    using assms(2-) split_energy[of a p]
    by (simp add: sum_dynamic_def wp_simps add_uni_def)
qed

text \<open>What the sums leave alone.\<close>

definition same_parts :: "shared_cache \<Rightarrow> shared_cache \<Rightarrow> bool" where
  "same_parts s t \<longleftrightarrow> caches t = caches s \<and> apcaches t = apcaches s \<and> missb t = missb s \<and>
     ifb t = ifb s \<and> prefetchb t = prefetchb s \<and> wbb t = wbb s \<and>
     homenode_stats_t t = homenode_stats_t s \<and> dir_overhead t = dir_overhead s \<and>
     cachep t = cachep s \<and> cacheL t = cacheL s"

lemma homenode_part_cong: "same_parts s t \<Longrightarrow> homenode_part t a = homenode_part s a"
  by (simp add: same_parts_def homenode_part_def)

lemma power_t_frame:
  assumes "u = t\<lparr>uni_power_t := x\<rparr>"
  shows "same_parts t u" "built u = built t" "directory_st u = directory_st t"
    "total is_tdp u = total is_tdp t"
  by (simp_all add: assms same_parts_def built_def directory_st_def total_def)

lemma wp_total:
  assumes "\<not> directory_st s" "dynamic_ops e" "caches s = Some a" "apcaches s = Some p"
    and "missb s = Some m" "ifb s = Some f" "prefetchb s = Some q" "wbb s = Some w"
  shows "wpS (if is_tdp then sum_peak e sys i else sum_runtime e sys i) (\<lambda>_ t. same_parts s t \<and>
    total (\<not> is_tdp) t = total (\<not> is_tdp) s \<and> dynamic (readOp (total is_tdp t)) = dynamic (readOp (total is_tdp s)) + dynamic (readOp (uni_power_t s)) +
      (if is_tdp then 0 else read_energy m + read_energy f + read_energy q + read_energy w)) s"
  using assms
  by (cases is_tdp) (simp_all add: sum_peak_def sum_runtime_def wp_simps same_parts_def dynamic_ops_def
      read_energy_def total_def)

definition counted_for :: "bool \<Rightarrow> root_system \<Rightarrow> nat \<Rightarrow> shared_cache \<Rightarrow> shared_cache \<Rightarrow> bool" where
  "counted_for is_tdp sys i s t \<longleftrightarrow> results t = results s \<and>
     (if is_tdp then apcaches t = apcaches s else counted_run (level_of sys i (cacheL s)) s t)"

lemma counted_for_parts: "same_parts t u \<Longrightarrow> counted_for is_tdp sys i s u = counted_for is_tdp sys i s t"
  by (simp add: same_parts_def counted_for_def counted_run_def results_def buffers_see_def)

lemma wp_count:
  assumes "built s" "\<not> directory_st s" "has_data_arrays (cacheL s)"
  shows "wpS (if is_tdp then count_peak else count_runtime sys i)
    (\<lambda>_ t. same_frame s t \<and> counted_for is_tdp sys i s t) s"
  using wp_count_peak[OF assms(1,2)] wp_count_runtime[OF assms, of sys i]
  by (cases is_tdp) (auto simp: counted_for_def same_frame_def elim!: wp_mono)

lemma computeEnergy_runs:
  assumes "built s" "\<not> directory_st s" "has_data_arrays (cacheL s)" "dynamic_ops e"
  shows "\<exists>t a p m f q w. computeEnergy is_tdp e sys i s = Inr ((), t) \<and>
    caches t = Some a \<and> apcaches t = Some p \<and> missb t = Some m \<and> ifb t = Some f \<and>
    prefetchb t = Some q \<and> wbb t = Some w \<and> counted_for is_tdp sys i s t \<and>
    cachep t = cachep s \<and> cacheL t = cacheL s \<and> total (\<not> is_tdp) t = total (\<not> is_tdp) s \<and> dynamic (readOp (total is_tdp t)) = dynamic (readOp (total is_tdp s)) +
      original_energy a - saved_energy a p + (if dir_ty (cachep s) = SBT then homenode_part t a else 0) +
      buffer_part m + buffer_part f + buffer_part q + buffer_part w +
      (if is_tdp then 0 else read_energy m + read_energy f + read_energy q + read_energy w)"
proof -
  obtain t where t: "(if is_tdp then count_peak else count_runtime sys i) s = Inr ((), t)"
    "same_frame s t" "counted_for is_tdp sys i s t"
    using wp_count[OF assms(1-3), of is_tdp sys i] by (auto elim: wpSE)
  then obtain a p m f q w where ptrs: "caches t = Some a" "apcaches t = Some p" "missb t = Some m"
    "ifb t = Some f" "prefetchb t = Some q" "wbb t = Some w"
    by (auto simp: same_frame_def built_def)
  have fr: "built t" "\<not> directory_st t" "cachep t = cachep s" "cacheL t = cacheL s"
    "total b t = total b s" for b
    using t(2) assms(2) by (auto simp: same_frame_def directory_st_def total_def)
  obtain u where u: "sum_dynamic t = Inr ((), u)" "u = t\<lparr>uni_power_t := uni_power_t u\<rparr>"
    "dynamic (readOp (uni_power_t u)) = original_energy a - saved_energy a p +
      (if dir_ty (cachep s) = SBT then homenode_part t a else 0) +
      buffer_part m + buffer_part f + buffer_part q + buffer_part w"
    using wp_sum_dynamic[OF fr(1,2) ptrs] fr(3) by (auto elim: wpSE)
  note fu = power_t_frame[OF u(2)]
  then have "\<not> directory_st u" "caches u = Some a" "apcaches u = Some p" "missb u = Some m"
    "ifb u = Some f" "prefetchb u = Some q" "wbb u = Some w"
    using fr ptrs by (simp_all add: same_parts_def)
  from wp_total[OF this(1) assms(4) this(2-), of is_tdp sys i]
  obtain v where v: "(if is_tdp then sum_peak e sys i else sum_runtime e sys i) u = Inr ((), v)"
    "same_parts u v" "total (\<not> is_tdp) v = total (\<not> is_tdp) u" "dynamic (readOp (total is_tdp v)) = dynamic (readOp (total is_tdp u)) +
      dynamic (readOp (uni_power_t u)) +
      (if is_tdp then 0 else read_energy m + read_energy f + read_energy q + read_energy w)"
    by (auto elim: wpSE)
  have "computeEnergy is_tdp e sys i s = Inr ((), v)"
    using t(1) u(1) v(1) by (simp add: computeEnergy_def err_simps)
  moreover have "same_parts t v" using fu(1) v(2) by (simp add: same_parts_def)
  ultimately show ?thesis
    using v(3,4) u(3) fu(4) fr(3-5) ptrs t(3) counted_for_parts[of t v] homenode_part_cong[of t v a]
    by (simp add: same_parts_def)
qed

text \<open>C21. The dynamic energy of a cache is that of the original formula for one array, less what the
  approximate accesses save at the reduced voltage, plus the directory and the buffers. At run time
  the read energy of every buffer is added once more.\<close>

theorem shared_energy:
  assumes "built s" "\<not> directory_st s" "has_data_arrays (cacheL s)" "dynamic_ops e"
  shows "\<exists>t a p m f q w. computeEnergy is_tdp e sys i s = Inr ((), t) \<and>
    caches t = Some a \<and> apcaches t = Some p \<and> missb t = Some m \<and> ifb t = Some f \<and>
    prefetchb t = Some q \<and> wbb t = Some w \<and> counted_for is_tdp sys i s t \<and>
    cachep t = cachep s \<and> cacheL t = cacheL s \<and> total (\<not> is_tdp) t = total (\<not> is_tdp) s \<and> dynamic (readOp (total is_tdp t)) = dynamic (readOp (total is_tdp s)) +
      original_energy a - saved_energy a p + (if dir_ty (cachep s) = SBT then homenode_part t a else 0) +
      buffer_part m + buffer_part f + buffer_part q + buffer_part w +
      (if is_tdp then 0 else read_energy m + read_energy f + read_energy q + read_energy w)"
  by (rule computeEnergy_runs[OF assms])

section \<open>The arrays of a cache\<close>

definition nominal_ip :: "root_system \<Rightarrow> nat \<Rightarrow> cache_level \<Rightarrow> input_parameter \<Rightarrow> input_parameter" where
  "nominal_ip sys i lvl ip =
     (if lvl = L2 \<and> Private_L2 sys then
        if 0 < core_vdd (sys_core sys i) then use_vdd (core_vdd (sys_core sys i)) ip else ip
      else if 0 < vdd (level_of sys i lvl) then use_vdd (vdd (level_of sys i lvl)) ip else ip)"

definition overhead :: "root_system \<Rightarrow> nat \<Rightarrow> cache_level \<Rightarrow> real" where
  "overhead sys i lvl = (if merged_dir (sys_L2 sys i)
     then of_int \<lceil>of_int (number_of_cores sys) / 8 :: real\<rceil> * 8 / (config (level_of sys i lvl) 1 * 8) else 0)"

text \<open>A description with positive sizes that fit an \<open>int\<close>.\<close>

definition sane_level :: "root_system \<Rightarrow> nat \<Rightarrow> cache_level \<Rightarrow> bool" where
  "sane_level sys i lvl \<longleftrightarrow> (let x = level_of sys i lvl; k = 1 + overhead sys i lvl in
     has_data_arrays lvl \<and> clockrate x \<noteq> 0 \<and> target_core_clockrate sys \<noteq> 0 \<and> 0 \<le> number_of_cores sys \<and>
     0 < config x 0 \<and> config x 0 * k < 2 ^ 31 \<and> 0 < config x 1 \<and> config x 1 * k < 2 ^ 31 \<and>
     0 < config x 2 \<and> config x 2 < 2 ^ 31 \<and> 0 \<le> config x 3 \<and> config x 3 < 2 ^ 31)"

lemma overhead_nonneg: "sane_level sys i lvl \<Longrightarrow> 0 \<le> overhead sys i lvl"
  by (auto simp: sane_level_def overhead_def Let_def intro!: divide_nonneg_pos)

definition level_clock :: "root_system \<Rightarrow> nat \<Rightarrow> cache_level \<Rightarrow> real" where
  "level_clock sys i lvl = of_int (clockrate (level_of sys i lvl)) * 10 ^ 6"

definition chip_time :: "root_system \<Rightarrow> real" where
  "chip_time sys = total_cycles sys / (of_int (target_core_clockrate sys) * 10 ^ 6)"

definition loaded :: "root_system \<Rightarrow> nat \<Rightarrow> shared_cache \<Rightarrow> shared_cache \<Rightarrow> bool" where
  "loaded sys i s t \<longleftrightarrow> (let x = level_of sys i (cacheL s); c = cachep t in
     cacheL t = cacheL s \<and> volts (sc_ip t) = volts (nominal_ip sys i (cacheL s) (sc_ip s)) \<and>
     dir_ty c = (if merged_dir (sys_L2 sys i) then SBT else NonDir) \<and>
     capacity c = config x 0 \<and> blockW c = config x 1 \<and> cp_assoc c = config x 2 \<and> cp_nbanks c = config x 3 \<and>
     cp_clockRate c = level_clock sys i (cacheL s) \<and> cp_executionTime c = chip_time sys)"

lemma wp_set_cache_param:
  assumes "sane_level sys i (cacheL s)"
  shows "wpS (set_cache_param e sys i) (\<lambda>_ t. loaded sys i s t) s"
  using assms
  by (cases "cacheL s")
    (auto simp: set_cache_param_def load_LX_def load_level_def set_merged_dir_def set_ip_def set_cp_def
      wp_simps sane_level_def has_data_arrays_def level_of_def loaded_def nominal_ip_def volts_def
      use_vdd_def level_clock_def chip_time_def Let_def)

lemma wp_main_sizes:
  assumes l: "loaded sys i s0 s" and sane: "sane_level sys i (cacheL s0)"
  shows "wpS (main_sizes e sys) (\<lambda>(cap, lsz, ways, tag) t.
     (let x = level_of sys i (cacheL s0); k = 1 + overhead sys i (cacheL s0) in
      loaded sys i s0 t \<and> cap = config x 0 * k \<and> lsz = config x 1 * k \<and> ways = config x 2)) s"
proof -
  have "\<not> directory_st s" using l by (auto simp: loaded_def Let_def directory_st_def)
  then show ?thesis
    using assms
    by (auto simp: main_sizes_def wp_simps loaded_def sane_level_def Let_def set_ip_def volts_def
        overhead_def ceil_log2_pos)
qed

text \<open>The two data arrays: the second differs from the first in the voltages only.\<close>

definition data_pair :: "mcpat_env \<Rightarrow> root_system \<Rightarrow> nat \<Rightarrow> shared_cache \<Rightarrow> input_parameter \<Rightarrow> bool" where
  "data_pair e sys i s jp \<longleftrightarrow> (case device_of e sys i (cacheL s) of (dv, ct) \<Rightarrow>
     caches s = Some (ArrayST e jp (cp_name (cachep s) @ ''cache'') dv True ct) \<and>
     apcaches s = Some (ArrayST e (use_vdd (approx_vdd sys i (cacheL s)) jp)
       (cp_name (cachep s) @ ''apcache'') dv True ct)) \<and>
     approx_mode jp = 1 \<and> force_cache_config jp \<and> nspd jp = 0"

lemma use_vdd_volts: "volts (use_vdd v ip) = ((True, v), (True, v), True, v)"
  by (simp add: use_vdd_def volts_def)

lemma trunc_half: "trunc (1 / 2) = 0"
  by (simp add: trunc_def)

lemma restore_volts [simp]:
  "volts (restore_ip kept ip) = volts kept" "normal_ip (restore_ip kept ip)"
  by (simp_all add: volts_def restore_ip_def normal_ip_def)

lemma force_ip_sel [simp]:
  "volts (force_ip ip) = volts ip" "approx_mode (force_ip ip) = 1" "force_cache_config (force_ip ip)"
  "nspd (force_ip ip) = 0"
  by (simp_all add: volts_def force_ip_def trunc_half)

lemma wp_data_arrays:
  assumes "has_data_arrays (cacheL s)"
  shows "wpS (data_arrays e sys i) (\<lambda>_ t. (\<exists>jp. data_pair e sys i t jp \<and> volts jp = volts (sc_ip s)) \<and>
    normal_ip (sc_ip t) \<and> volts (sc_ip t) = volts (sc_ip s) \<and> cacheL t = cacheL s \<and> cachep t = cachep s) s"
  using assms
  by (auto simp: data_arrays_def wp_simps set_ip_def data_pair_def make_array_def grow_def split: prod.split)

lemma buffer_volts [simp]:
  "volts (shared_buffer_ip e sys c l n ip) = volts ip"
  "normal_ip (shared_buffer_ip e sys c l n ip) = normal_ip ip"
  by (simp_all add: volts_def normal_ip_def shared_buffer_ip_def buffer_ip_def)

lemma missb_volts [simp]:
  "volts (ip\<lparr>is_cache := a, pure_ram := b, pure_cam := c, num_search_ports := d\<rparr>) = volts ip"
  "normal_ip (ip\<lparr>is_cache := a, pure_ram := b, pure_cam := c, num_search_ports := d\<rparr>) = normal_ip ip"
  by (simp_all add: volts_def normal_ip_def)

lemma wp_make_buffers:
  assumes "caches s \<noteq> None" "0 < cap" "0 < lsz" "normal_ip (sc_ip s)"
  shows "wpS (make_buffers e sys i cap lsz) (\<lambda>_ t.
    (\<forall>b \<in> {missb t, ifb t, prefetchb t, wbb t}. made_from e (\<lambda>ip. normal_ip ip \<and> volts ip = volts (sc_ip s)) b) \<and>
    caches t = caches s \<and> apcaches t = apcaches s \<and> cacheL t = cacheL s \<and> cachep t = cachep s \<and>
    normal_ip (sc_ip t) \<and> volts (sc_ip t) = volts (sc_ip s)) s"
proof -
  have made: "made_from e P (Some (make_array e sys i nm u)) \<longleftrightarrow> True" if "P (sc_ip u)" for P nm u
    using that by (auto simp: made_from_def make_array_def split: prod.split)
  show ?thesis
    using assms
    by (auto simp: make_buffers_def wp_simps set_ip_def new_buffer_def grow_def ceil_log2_pos made Let_def)
qed

lemma nominal_wire: "volts (nominal_ip sys i lvl (wire_ip sys ip)) = volts (nominal_ip sys i lvl ip)"
  by (simp add: nominal_ip_def volts_def wire_ip_def use_vdd_def)

lemma main_ip_volts [simp]: "volts (main_ip c sz l w b tag ip) = volts ip"
  by (simp add: volts_def main_ip_def)

lemma data_pair_cong:
  "data_pair e sys i s jp \<Longrightarrow> caches t = caches s \<Longrightarrow> apcaches t = apcaches s \<Longrightarrow> cacheL t = cacheL s \<Longrightarrow>
    cachep t = cachep s \<Longrightarrow> data_pair e sys i t jp"
  by (simp add: data_pair_def)

lemma data_pair_caches: "data_pair e sys i s jp \<Longrightarrow> caches s \<noteq> None \<and> apcaches s \<noteq> None"
  by (auto simp: data_pair_def split: prod.splits)

lemma made_from_some: "made_from e P x \<Longrightarrow> x \<noteq> None"
  by (auto simp: made_from_def)

definition well_made :: "mcpat_env \<Rightarrow> root_system \<Rightarrow> nat \<Rightarrow> input_parameter \<Rightarrow> shared_cache \<Rightarrow> bool" where
  "well_made e sys i ip s \<longleftrightarrow> (let v = volts (nominal_ip sys i (cacheL s) ip) in
     built s \<and> \<not> directory_st s \<and> (\<exists>jp. data_pair e sys i s jp \<and> volts jp = v) \<and>
     (\<forall>b \<in> {missb s, ifb s, prefetchb s, wbb s}. made_from e (\<lambda>ip. normal_ip ip \<and> volts ip = v) b) \<and>
     normal_ip (sc_ip s) \<and> volts (sc_ip s) = v \<and>
     dir_ty (cachep s) = (if merged_dir (sys_L2 sys i) then SBT else NonDir) \<and>
     cp_clockRate (cachep s) = level_clock sys i (cacheL s) \<and> cp_executionTime (cachep s) = chip_time sys)"

lemma wp_rest:
  assumes l: "loaded sys i s0 s" and sane: "sane_level sys i (cacheL s0)"
    and v: "volts (nominal_ip sys i (cacheL s0) (sc_ip s0)) = volts (nominal_ip sys i (cacheL s0) ip)"
    and pos: "0 < cap" "0 < lsz"
  shows "wpS (seqS (data_arrays e sys i)
      (bindS (getS directory_st) (\<lambda>d. whenS (\<not> d) (make_buffers e sys i cap lsz))))
    (\<lambda>_ t. well_made e sys i ip t \<and> cacheL t = cacheL s0) s"
proof -
  have h: "has_data_arrays (cacheL s)" "cacheL s = cacheL s0"
    "volts (sc_ip s) = volts (nominal_ip sys i (cacheL s0) ip)"
    "dir_ty (cachep s) = (if merged_dir (sys_L2 sys i) then SBT else NonDir)"
    "cp_clockRate (cachep s) = level_clock sys i (cacheL s0)" "cp_executionTime (cachep s) = chip_time sys"
    using l sane v by (auto simp: loaded_def sane_level_def Let_def)
  show ?thesis
    unfolding wpS_seq
  proof (rule wp_mono[OF wp_data_arrays[OF h(1)]], goal_cases)
    case (1 u t)
    then obtain jp where t: "data_pair e sys i t jp" "volts jp = volts (sc_ip s)" "normal_ip (sc_ip t)"
      "volts (sc_ip t) = volts (sc_ip s)" "cacheL t = cacheL s" "cachep t = cachep s" by auto
    have d: "\<not> directory_st t" using h(4) t(6) by (simp add: directory_st_def split: if_splits)
    have "wpS (make_buffers e sys i cap lsz) (\<lambda>_ t. well_made e sys i ip t \<and> cacheL t = cacheL s0) t"
      using data_pair_caches[OF t(1)] d h t
      by (intro wp_mono[OF wp_make_buffers[OF _ pos t(3)]])
        (auto simp: well_made_def Let_def built_def directory_st_def dest: made_from_some intro!: data_pair_cong[OF t(1)] exI[of _ jp])
    then show ?case using d by (simp add: wpS_bind wpS_basic)
  qed
qed

lemma wp_construct:
  assumes sane: "sane_level sys i (cacheL s)"
  shows "wpS (construct e sys i) (\<lambda>_ t. well_made e sys i (sc_ip s) t \<and> cacheL t = cacheL s) s"
proof -
  define lvl where "lvl = cacheL s"
  define k where "k = 1 + overhead sys i lvl"
  define x where "x = level_of sys i lvl"
  define s0 where "s0 = sc_ip_update (wire_ip sys) s"
  have s0: "cacheL s0 = lvl" "volts (nominal_ip sys i lvl (sc_ip s0)) = volts (nominal_ip sys i lvl (sc_ip s))"
    by (simp_all add: s0_def lvl_def nominal_wire)
  have sane0: "sane_level sys i (cacheL s0)" using sane s0(1) by (simp add: lvl_def)
  have pos: "0 < config x 0 * k" "0 < config x 1 * k"
    using sane overhead_nonneg[OF sane] by (auto simp: k_def x_def lvl_def sane_level_def Let_def)
  have casts: "\<exists>n. cast_int (config x 0 * k) = Inr n" "\<exists>n. cast_int (config x 1 * k) = Inr n"
    "\<exists>n. cast_int (config x 2) = Inr n" "\<exists>n. cast_int (config x 3) = Inr n"
    using sane pos by (auto simp: sane_level_def Let_def x_def k_def lvl_def intro!: exI cast_int_pos)
  show ?thesis
    unfolding construct_def set_ip_def wpS_seq wpS_bind wpS_basic
  proof (rule wp_mono[OF wp_set_cache_param], goal_cases)
    case 1
    show ?case using sane by simp
  next
    case (2 _ t)
    then have t: "loaded sys i s0 t" by (simp add: s0_def)
    show ?case
    proof (rule wp_mono[OF wp_main_sizes[OF t sane0]], goal_cases)
      case (1 y u)
      obtain cap lsz ways tag where y: "y = (cap, lsz, ways, tag)" by (cases y)
      then have u: "loaded sys i s0 u" "cap = config x 0 * k" "lsz = config x 1 * k" "ways = config x 2"
        using 1 s0(1) by (simp_all add: Let_def x_def k_def)
      have "loaded sys i s0 (sc_ip_update (main_ip c a b w n tag) u)" for c a b w n
        using u(1) by (simp add: loaded_def Let_def)
      note rest = wp_rest[OF this sane0, of "sc_ip s" "config x 0 * k" "config x 1 * k" e]
      have "cp_nbanks (cachep u) = config x 3" using u(1) s0(1) by (simp add: loaded_def Let_def x_def)
      then show ?case
        using casts rest pos s0
        by (auto simp: y u(2-4) wpS_bind wpS_basic lvl_def wpS_seq split del: if_split)
    qed
  qed
qed

lemma SharedCache_runs:
  assumes sane: "sane_level sys i lvl"
  shows "\<exists>s. SharedCache e sys i ip lvl cp junk = Inr s \<and> cacheL s = lvl \<and> well_made e sys i ip s"
proof -
  let ?s = "\<lparr>sc_ip = ip, cacheL = lvl, cachep = cp, dir_overhead = 0, caches = None, apcaches = None,
      missb = None, ifb = None, prefetchb = None, wbb = None, uni_area = 0,
      uni_power_t = powerDef_reset, uni_power = powerDef_reset, uni_rt_power = powerDef_reset,
      homenode_stats_t = junk, homenode_tdp_stats = junk, homenode_rtp_stats = junk,
      sc_area = 0, sc_power = powerDef_reset, sc_rt_power = powerDef_reset\<rparr> :: shared_cache"
  have "wpS (construct e sys i) (\<lambda>_ t. well_made e sys i ip t \<and> cacheL t = lvl) ?s"
    using wp_construct[of sys i ?s e] sane by simp
  then show ?thesis by (auto simp: SharedCache_def elim!: wpSE)
qed

text \<open>C25. The constructor of a cache with a sane description succeeds. Its two data arrays get the same
  parameters but for the voltages; the buffers and whatever is built later from the parameters see the
  nominal voltages and no approximation. The number of sets per line of the forced organisation is 0.\<close>

theorem shared_cache_built:
  assumes sane: "sane_level sys i lvl"
  shows "\<exists>s. SharedCache e sys i ip lvl cp junk = Inr s \<and> cacheL s = lvl \<and> well_made e sys i ip s"
  by (rule SharedCache_runs[OF sane])

section \<open>Examples\<close>

lemma small_sane: "sane_level small_sys 0 L2"
  by (simp add: sane_level_def has_data_arrays_def level_of_def overhead_def small_sys_def small_LX_def)

theorem shared_cache_built_witness:
  "\<forall>cp junk. \<exists>s. SharedCache small_env small_sys 0 small_ip L2 cp junk = Inr s \<and> cacheL s = L2 \<and>
     well_made small_env small_sys 0 small_ip s"
  using shared_cache_built[OF small_sane] by blast

definition small_cp :: cache_dyn_param where
  "small_cp = \<lparr>cp_name = ''L2'', dir_ty = NonDir, cp_clockRate = 1000, cp_executionTime = 1,
     capacity = 262144, blockW = 64, cp_assoc = 8, cp_nbanks = 1, cp_throughput = 1, cp_latency = 1,
     missb_size = 16, fu_size = 16, prefetchb_size = 16, wbb_size = 16, cp_duty_cycle = 1,
     cp_dir_duty_cycle = 1\<rparr>"

definition small_cache :: shared_cache where
  "small_cache = (let b = Some (small_array small_ip) in
     \<lparr>sc_ip = small_ip, cacheL = L2, cachep = small_cp, dir_overhead = 0, caches = b,
      apcaches = Some (small_array (use_vdd 1 small_ip)), missb = b, ifb = b, prefetchb = b, wbb = b,
      uni_area = 0, uni_power_t = powerDef_reset, uni_power = powerDef_reset,
      uni_rt_power = powerDef_reset, homenode_stats_t = no_stats, homenode_tdp_stats = no_stats,
      homenode_rtp_stats = no_stats, sc_area = 0, sc_power = powerDef_reset,
      sc_rt_power = powerDef_reset\<rparr>)"

text \<open>The cache would need 576 with one array; the approximate accesses save 168. The buffers take 192
  and are charged 16 for nothing.\<close>

theorem shared_energy_witness:
  "\<exists>t. computeEnergy False small_env small_sys 0 small_cache = Inr ((), t) \<and>
     dynamic (readOp (sc_rt_power t)) = 576 - 168 + 192 + 16"
proof -
  have pre: "built small_cache" "\<not> directory_st small_cache" "has_data_arrays (cacheL small_cache)"
    by (simp_all add: small_cache_def built_def directory_st_def has_data_arrays_def Let_def small_cp_def)
  have res: "results small_cache = map (Some \<circ> local_result) [small_array small_ip,
    small_array (use_vdd 1 small_ip), small_array small_ip, small_array small_ip, small_array small_ip,
    small_array small_ip]"
    by (simp add: results_def small_cache_def Let_def)
  have lvl: "level_of small_sys 0 (cacheL small_cache) = small_LX"
    "dir_ty (cachep small_cache) = NonDir" "sc_rt_power small_cache = powerDef_reset"
    by (simp_all add: level_of_def small_sys_def small_cache_def Let_def small_cp_def)
  have en: "read_energy a = 4" "write_energy a = 4" "search_energy a = 4" "tag_read a = 1" "tag_write a = 1"
    if "local_result a = local_result (small_array small_ip)" for a
    by (simp_all add: that read_energy_def write_energy_def search_energy_def tag_read_def tag_write_def
        small_array_def power3_def flat_power_def small_ip_def)
  have ap: "read_energy a = 1" "write_energy a = 1"
    if "local_result a = local_result (small_array (use_vdd 1 small_ip))" for a
    by (simp_all add: that read_energy_def write_energy_def small_array_def power3_def flat_power_def use_vdd_def)
  show ?thesis
    using shared_energy[OF pre small_env_dynamic, of False small_sys 0] res lvl
    by (auto simp: counted_for_def counted_run_def total_def results_def en ap original_energy_def
        saved_energy_def buffer_part_def counts_of_def approx_counts_of_def same_counts_def buffers_see_def both_access_def
        small_LX_def)
qed

end
