(* ===== verification/Power_Core.thy ===== *)
theory Power_Core
  imports Power_Fetch Power_Translation Power_Rename Power_Execute Power_Load_Facts Power_Cache_Facts
begin

text \<open>
  \<open>class Core\<close> of \<open>src/mcpat/added/core.cc\<close>: the parameters of a core are read from the description,
  its units are built from them, and their powers are added up with the share each has of the registers
  of the pipeline.
\<close>

section \<open>\<open>set_core_param\<close>\<close>

text \<open>The parameters are members of the core; those that are not assigned keep what memory holds. The casts
  give valid enumerators, so the three exits are not reached.\<close>

definition load_widths :: "mcpat_env \<Rightarrow> root_system \<Rightarrow> system_core \<Rightarrow> core_dyn_param \<Rightarrow> core_dyn_param" where
  "load_widths e sys x c = c\<lparr>opt_local := x_opt_local x, x86 := x_x86 x, dyn_Embedded := Embedded sys,
     core_ty := Core_type_of e (machine_type x), rm_ty := Renaming_type_of e (rename_scheme x),
     fetchW := fetch_width x, decodeW := decode_width x, issueW := issue_width x,
     peak_issueW := peak_issue_width x, commitW := commit_width x, peak_commitW := peak_issue_width x,
     predictionW := prediction_width x, fp_issueW := fp_issue_width x, fp_decodeW := fp_issue_width x,
     num_alus := ALU_per_core x, num_fpus := FPU_per_core x, num_muls := MUL_per_core x,
     dyn_vdd := core_vdd x, num_hthreads := number_hardware_threads x,
     multithreaded := 1 < number_hardware_threads x, instr_length := instruction_length x,
     pc_width := virtual_address_width sys, opcode_length := opcode_width x,
     micro_opcode_length := micro_opcode_width x, num_pipelines := pipelines_per_core x 0,
     pipeline_stages := pipeline_depth x 0, num_fp_pipelines := pipelines_per_core x 1,
     fp_pipeline_stages := pipeline_depth x 1,
     int_data_width := \<lceil>of_int (machine_bits sys) / 32 :: real\<rceil> * 32,
     fp_data_width := \<lceil>of_int (machine_bits sys) / 32 :: real\<rceil> * 32,
     v_address_width := virtual_address_width sys, p_address_width := physical_address_width sys,
     scheu_ty := Scheduler_type_of e (instruction_window_scheme x),
     num_IRF_entry := archi_Regs_IRF_size x, num_FRF_entry := archi_Regs_FRF_size x\<rparr>"

definition load_duties :: "system_core \<Rightarrow> core_dyn_param \<Rightarrow> core_dyn_param" where
  "load_duties x c = c\<lparr>pipeline_duty_cycle := x_pipeline_duty_cycle x, dyn_total_cycles := x_total_cycles x,
     busy_cycles := x_busy_cycles x, idle_cycles := x_idle_cycles x,
     IFU_duty_cycle := x_IFU_duty_cycle x, BR_duty_cycle := x_BR_duty_cycle x,
     LSU_duty_cycle := x_LSU_duty_cycle x, MemManU_I_duty_cycle := x_MemManU_I_duty_cycle x,
     MemManU_D_duty_cycle := x_MemManU_D_duty_cycle x, ALU_duty_cycle := x_ALU_duty_cycle x,
     MUL_duty_cycle := x_MUL_duty_cycle x, FPU_duty_cycle := x_FPU_duty_cycle x,
     ALU_cdb_duty_cycle := x_ALU_cdb_duty_cycle x, MUL_cdb_duty_cycle := x_MUL_cdb_duty_cycle x,
     FPU_cdb_duty_cycle := x_FPU_cdb_duty_cycle x\<rparr>"

text \<open>The physical registers of an out-of-order core, in the register files or in the reorder buffer.\<close>

definition load_physical :: "system_core \<Rightarrow> core_dyn_param \<Rightarrow> core_dyn_param result" where
  "load_physical x c = (if core_ty c \<noteq> OOO then Inr c
     else if scheu_ty c = PhysicalRegFile then
       bindE (ceil_log2 (of_int (phy_Regs_IRF_size x))) (\<lambda>i. bindE (ceil_log2 (of_int (phy_Regs_FRF_size x))) (\<lambda>f.
       Inr (c\<lparr>phy_ireg_width := i, phy_freg_width := f, num_ifreelist_entries := phy_Regs_IRF_size x,
         num_IRF_entry := phy_Regs_IRF_size x, num_ffreelist_entries := phy_Regs_FRF_size x,
         num_FRF_entry := phy_Regs_FRF_size x\<rparr>)))
     else bindE (ceil_log2 (of_int (ROB_size x))) (\<lambda>r.
       Inr (c\<lparr>phy_ireg_width := r, phy_freg_width := r, num_ifreelist_entries := ROB_size x,
         num_ffreelist_entries := ROB_size x\<rparr>)))"

definition load_constants :: "root_system \<Rightarrow> system_core \<Rightarrow> core_dyn_param \<Rightarrow> core_dyn_param result" where
  "load_constants sys x c = (let rate = of_int (clock_rate x) * 10 ^ 6; n = of_int (num_hthreads c) in
     bindE (quotient (total_cycles sys) rate) (\<lambda>t.
     Inr (c\<lparr>globalCheckpoint := 8, perThreadState := 8, instr_length := 32, clockRate := rate,
       regWindowing := 0 < register_windows_size x \<and> core_ty c = Inorder, executionTime := t,
       pppm_lkg_multhread := [0, n, n, 0]\<rparr>)))"

definition set_core_param ::
  "mcpat_env \<Rightarrow> root_system \<Rightarrow> system_core \<Rightarrow> core_dyn_param \<Rightarrow> input_parameter \<Rightarrow>
     (core_dyn_param \<times> input_parameter) result" where
  "set_core_param e sys x old ip =
     bindE (ceil_log2 (of_int (archi_Regs_IRF_size x))) (\<lambda>i. bindE (ceil_log2 (of_int (archi_Regs_FRF_size x))) (\<lambda>f.
     bindE (load_physical x (load_duties x ((load_widths e sys x old)\<lparr>arch_ireg_width := i, arch_freg_width := f\<rparr>))) (\<lambda>c.
     bindE (load_constants sys x c) (\<lambda>c.
     Inr (c, if 0 < dyn_vdd c then Power_Shared_Cache.use_vdd (dyn_vdd c) ip else ip)))))"

section \<open>The core\<close>

record mcpat_core =
  co_ip :: input_parameter
  coredynp :: core_dyn_param
  co_area :: real
  co_power :: power_def
  co_rt_power :: power_def
  ifu :: "inst_fetch option"
  lsu :: "load_store_u option"
  mmu :: "mem_man_u option"
  exu :: "exec_u option"
  rnu :: "renaming_u option"
  corepipe :: "logic_part option"
  undiffCore :: "logic_part option"
  l2cache :: "shared_cache option"

type_synonym 'a co_op = "(mcpat_core, 'a) op"

text \<open>What the constructor gets beside the description: the memory it finds, and the level a cache has if
  none is given.\<close>

record core_setup = leftover +
  old_params :: core_dyn_param
  old_cachep :: cache_dyn_param
  undiff_tech :: tech
  default_level :: cache_level

definition make_parts :: "mcpat_env \<Rightarrow> core_setup \<Rightarrow> root_system \<Rightarrow> nat \<Rightarrow> unit co_op" where
  "make_parts e su sys i = (let x = sys_core sys i; junk = old_stats su; old = leftover.truncate su in
     bindS (getS co_ip) (\<lambda>ip. bindS (getS coredynp) (\<lambda>c.
     seqS (whenS (Private_L2 sys) (bindS (liftS (SharedCache e sys i ip (default_level su) (old_cachep su) junk))
       (\<lambda>l2. modS (\<lambda>s. s\<lparr>l2cache := Some l2\<rparr>))))
     (bindS (liftS (InstFetchU e junk c sys x ip True)) (\<lambda>f.
     bindS (liftS (LoadStoreU e c sys i ip True)) (\<lambda>l.
     bindS (liftS (MemManU e c sys x ip True)) (\<lambda>m.
     bindS (liftS (EXECU e old c sys i ip (lsq_height l) True)) (\<lambda>u.
     bindS (liftS (UndiffCore e (undiff_tech su) junk sys ip c)) (\<lambda>d.
     seqS (modS (\<lambda>s. s\<lparr>ifu := Some f, lsu := Some l, mmu := Some m, exu := Some u, undiffCore := Some d\<rparr>))
     (seqS (whenS (core_ty c = OOO) (bindS (liftS (RENAMINGU e junk c x ip (default_exist e)))
       (\<lambda>r. modS (\<lambda>s. s\<lparr>rnu := Some r\<rparr>))))
     (modS (\<lambda>s. s\<lparr>corepipe := Some (Pipeline e junk ip c)\<rparr>))))))))))))"

definition pipe_units :: "core_dyn_param \<Rightarrow> real" where
  "pipe_units c = (if core_ty c = OOO then 5 else 4)"

definition add_unit_area ::
  "(mcpat_core \<Rightarrow> 'a option) \<Rightarrow> ((('a option \<Rightarrow> 'a option) \<Rightarrow> mcpat_core \<Rightarrow> mcpat_core)) \<Rightarrow>
     ((real \<Rightarrow> real) \<Rightarrow> 'a \<Rightarrow> 'a) \<Rightarrow> ('a \<Rightarrow> real) \<Rightarrow> ('a \<Rightarrow> bool) \<Rightarrow> real \<Rightarrow> unit co_op" where
  "add_unit_area p upd area_upd size_of ex per_unit = bindS (deref p) (\<lambda>u. whenS (ex u)
     (seqS (modS (upd (\<lambda>_. Some (area_upd (\<lambda>a. a + per_unit) u))))
     (modS (\<lambda>s. s\<lparr>co_area := co_area s + (size_of u + per_unit)\<rparr>))))"

text \<open>The renaming unit gets its share of the pipeline first and is added to the core after the others.\<close>

definition add_areas :: "root_system \<Rightarrow> unit co_op" where
  "add_areas sys = bindS (getS coredynp) (\<lambda>c. bindS (deref corepipe) (\<lambda>p.
     let per_unit = lp_area p * of_int (num_pipelines c) / pipe_units c in
     seqS (add_unit_area ifu ifu_update u_area_update u_area u_exist per_unit)
     (seqS (add_unit_area lsu lsu_update ls_area_update ls_area exist per_unit)
     (seqS (add_unit_area exu exu_update u_area_update u_area u_exist per_unit)
     (seqS (add_unit_area mmu mmu_update u_area_update u_area u_exist per_unit)
     (seqS (whenS (core_ty c = OOO) (add_unit_area rnu rnu_update u_area_update u_area u_exist per_unit))
     (seqS (bindS (deref undiffCore) (\<lambda>d. modS (\<lambda>s. s\<lparr>co_area := co_area s + lp_area d\<rparr>)))
     (whenS (Private_L2 sys) (bindS (deref l2cache) (\<lambda>l. modS (\<lambda>s. s\<lparr>co_area := co_area s + sc_area l\<rparr>)))))))))))"

definition Core ::
  "mcpat_env \<Rightarrow> core_setup \<Rightarrow> root_system \<Rightarrow> nat \<Rightarrow> input_parameter \<Rightarrow> mcpat_core result" where
  "Core e su sys i ip = bindE (set_core_param e sys (sys_core sys i) (old_params su) ip) (\<lambda>(c, jp).
     bindE ((seqS (make_parts e su sys i) (add_areas sys)) \<lparr>co_ip = jp, coredynp = c, co_area = 0,
       co_power = powerDef_reset, co_rt_power = powerDef_reset, ifu = None, lsu = None, mmu = None,
       exu = None, rnu = None, corepipe = None, undiffCore = None, l2cache = None\<rparr>) (\<lambda>(_, s). Inr s))"

section \<open>\<open>computeEnergy\<close>\<close>

definition add_core :: "mcpat_env \<Rightarrow> bool \<Rightarrow> power_def \<Rightarrow> unit co_op" where
  "add_core e is_tdp p = modS (\<lambda>s. if is_tdp then s\<lparr>co_power := power_plus e (co_power s) p\<rparr>
     else s\<lparr>co_rt_power := power_plus e (co_rt_power s) p\<rparr>)"

text \<open>\<open>u->power = u->power + corepipe->power*pppm_t; power = power + u->power\<close>\<close>

definition with_pipe :: "mcpat_env \<Rightarrow> bool \<Rightarrow> power_def \<Rightarrow> pppm \<Rightarrow> 'x mcpat_unit_scheme \<Rightarrow> 'x mcpat_unit_scheme" where
  "with_pipe e is_tdp pipe k u = (let d = power_times e pipe k in
     if is_tdp then u\<lparr>u_power := power_plus e (u_power u) d\<rparr> else u\<lparr>u_rt_power := power_plus e (u_rt_power u) d\<rparr>)"

definition lsu_with_pipe :: "mcpat_env \<Rightarrow> bool \<Rightarrow> power_def \<Rightarrow> pppm \<Rightarrow> load_store_u \<Rightarrow> load_store_u" where
  "lsu_with_pipe e is_tdp pipe k u = (let d = power_times e pipe k in
     if is_tdp then u\<lparr>ls_power := power_plus e (ls_power u) d\<rparr> else u\<lparr>ls_rt_power := power_plus e (ls_rt_power u) d\<rparr>)"

definition add_unit ::
  "mcpat_env \<Rightarrow> bool \<Rightarrow> (mcpat_core \<Rightarrow> 'a option) \<Rightarrow> (('a option \<Rightarrow> 'a option) \<Rightarrow> mcpat_core \<Rightarrow> mcpat_core) \<Rightarrow>
     ('a \<Rightarrow> bool) \<Rightarrow> (power_def \<Rightarrow> 'a \<Rightarrow> 'a) \<Rightarrow> ('a \<Rightarrow> power_def) \<Rightarrow> unit co_op" where
  "add_unit e is_tdp p upd ex share t = bindS (deref p) (\<lambda>u. whenS (ex u) (bindS (deref corepipe) (\<lambda>pipe.
     let v = share (lp_power pipe) u in seqS (modS (upd (\<lambda>_. Some v))) (add_core e is_tdp (t v)))))"

text \<open>The coefficients of the pipeline registers: at the peak by the activity of the unit, in the run of an
  in-order core by the cycles, and in the run of an out-of-order core for one cycle.\<close>

definition pipe_coeff :: "core_dyn_param \<Rightarrow> real \<Rightarrow> pppm" where
  "pipe_coeff c k = (let n = of_int (num_pipelines c) / pipe_units c in
     [of_int (num_pipelines c) * k / pipe_units c, n, n, n])"

definition run_cycles :: "root_system \<Rightarrow> core_dyn_param \<Rightarrow> real" where
  "run_cycles sys c = (if core_ty c = OOO then 1
     else if homogeneous_cores sys = 1 then pipeline_duty_cycle c * total_cycles sys * of_int (number_of_cores sys)
     else pipeline_duty_cycle c * dyn_total_cycles c)"

definition run_units :: "bool \<Rightarrow> mcpat_env \<Rightarrow> tech \<Rightarrow> root_system \<Rightarrow> nat \<Rightarrow> unit co_op" where
  "run_units is_tdp e g sys i = (let x = sys_core sys i in bindS (getS coredynp) (\<lambda>c.
     seqS (call_part ifu ifu_update (Power_Fetch.computeEnergy is_tdp e c x))
     (seqS (call_part lsu lsu_update (Power_Load_Store.computeEnergy is_tdp e c x))
     (seqS (call_part mmu mmu_update (Power_Translation.computeEnergy is_tdp e c x))
     (seqS (call_part exu exu_update (Power_Execute.computeEnergy is_tdp e g c sys i))
     (whenS (core_ty c = OOO) (call_part rnu rnu_update (Power_Rename.computeEnergy is_tdp e c x))))))))"

definition add_units :: "bool \<Rightarrow> mcpat_env \<Rightarrow> root_system \<Rightarrow> unit co_op" where
  "add_units is_tdp e sys = bindS (getS coredynp) (\<lambda>c.
     let k = (\<lambda>duty. pipe_coeff c (if is_tdp then duty else run_cycles sys c)) in
     seqS (whenS (core_ty c = OOO) (add_unit e is_tdp rnu rnu_update u_exist
        (\<lambda>pipe. with_pipe e is_tdp pipe (k 1)) (unit_total is_tdp)))
     (seqS (add_unit e is_tdp ifu ifu_update u_exist
        (\<lambda>pipe. with_pipe e is_tdp pipe (k (IFU_duty_cycle c))) (unit_total is_tdp))
     (seqS (add_unit e is_tdp lsu lsu_update exist
        (\<lambda>pipe. lsu_with_pipe e is_tdp pipe (k (LSU_duty_cycle c))) (Power_Load_Facts.total is_tdp))
     (seqS (add_unit e is_tdp exu exu_update u_exist
        (\<lambda>pipe. with_pipe e is_tdp pipe (k (ALU_duty_cycle c))) (unit_total is_tdp))
     (seqS (add_unit e is_tdp mmu mmu_update u_exist
        (\<lambda>pipe. with_pipe e is_tdp pipe (k (0.5 + 0.5 * LSU_duty_cycle c))) (unit_total is_tdp))
     (bindS (deref undiffCore) (\<lambda>d. add_core e is_tdp (lp_power d))))))))"

text \<open>A private second level enters the peak by the ratio of the clocks.\<close>

definition add_l2 :: "bool \<Rightarrow> mcpat_env \<Rightarrow> root_system \<Rightarrow> nat \<Rightarrow> unit co_op" where
  "add_l2 is_tdp e sys i = whenS (Private_L2 sys)
     (seqS (call_part l2cache l2cache_update (Power_Shared_Cache.computeEnergy is_tdp e sys i))
     (bindS (deref l2cache) (\<lambda>l. bindS (getS coredynp) (\<lambda>c. if is_tdp
        then bindS (liftS (quotient (cp_clockRate (cachep l)) (clockRate c))) (\<lambda>r.
          add_core e True (power_times e (sc_power l) [r, 1, 1, 1]))
        else add_core e False (sc_rt_power l)))))"

definition computeEnergy :: "bool \<Rightarrow> mcpat_env \<Rightarrow> tech \<Rightarrow> root_system \<Rightarrow> nat \<Rightarrow> unit co_op" where
  "computeEnergy is_tdp e g sys i =
     seqS (run_units is_tdp e g sys i) (seqS (add_units is_tdp e sys) (add_l2 is_tdp e sys i))"

end
