(* ===== verification/Power_Core_Facts.thy ===== *)
theory Power_Core_Facts
  imports Power_Core
begin

text \<open>
  Facts about \<open>Power_Core\<close>: the constructor builds every unit that \<open>computeEnergy\<close> dereferences, both
  passes end, and what the approximate accesses and additions save of the energy of a core.
\<close>

section \<open>Construction\<close>

text \<open>A description with positive sizes. Every condition guards a division, a logarithm or a conversion.\<close>

definition sane_core :: "mcpat_env \<Rightarrow> core_setup \<Rightarrow> root_system \<Rightarrow> nat \<Rightarrow> bool" where
  "sane_core e su sys i \<longleftrightarrow> (let x = sys_core sys i in
     default_exist e \<and> 0 \<le> EXTRA_TAG_BITS e \<and> EXTRA_TAG_BITS e < 2 ^ 20 \<and> clock_rate x \<noteq> 0 \<and>
     0 < number_hardware_threads x \<and> number_hardware_threads x < 2 ^ 31 \<and>
     0 < archi_Regs_IRF_size x \<and> 0 < archi_Regs_FRF_size x \<and> 0 < phy_Regs_IRF_size x \<and>
     0 < phy_Regs_FRF_size x \<and> 0 < ROB_size x \<and> (Embedded sys \<or> 0 < pipeline_depth x 0) \<and>
     0 < virtual_memory_page_size sys \<and> sane_config (icache_config (icache x)) \<and>
     sane_config (dcache_config (dcache x)) \<and> (0 < prediction_width x \<longrightarrow> BTB_sizes (BTB_config (BTB_x x))) \<and>
     (Private_L2 sys \<longrightarrow> default_level su = L2 \<and> sane_level sys i L2))"

text \<open>The parameters the units rely on.\<close>

definition sane_params :: "mcpat_env \<Rightarrow> root_system \<Rightarrow> system_core \<Rightarrow> core_dyn_param \<Rightarrow> bool" where
  "sane_params e sys x c \<longleftrightarrow> sane_fetch e c x \<and> sane_dcache c x \<and> sane_tlb c sys x \<and> sane_schedule c x \<and>
     clockRate c \<noteq> 0 \<and> pppm_lkg_multhread c ! 0 = 0 \<and> (Embedded sys \<or> 0 < pipeline_stages c) \<and>
     clockRate c = of_int (clock_rate x) * 10 ^ 6 \<and> executionTime c = total_cycles sys / clockRate c"

lemma log_threads:
  assumes "0 < (n::int)" "n < 2 ^ 31"
  shows "0 \<le> log 2 (of_int n)" "log 2 (of_int n) < 31"
proof -
  show "0 \<le> log 2 (of_int n)" using assms(1) by simp
  have "of_int n < (2::real) ^ 31" using assms(2) by simp
  then have "log 2 (of_int n) < log 2 (2 ^ 31)" using assms(1) by (intro log_less) auto
  also have "\<dots> = 31" using log_nat_power[of 2 2 31] by simp
  finally show "log 2 (of_int n) < 31" by simp
qed

lemma thread_casts:
  assumes "0 < (n::int)" "n < 2 ^ 31" "0 \<le> k" "k < 2 ^ 20"
  shows "\<exists>m. cast_int (log 2 (of_int n) + of_int k) = Inr m" "\<exists>m. cast_int (log 2 (of_int n) * of_int 8) = Inr m"
proof -
  note l = log_threads[OF assms(1,2)]
  have k: "(0::real) \<le> of_int k" "of_int k < (2::real) ^ 20" using assms(3,4) by simp_all
  show "\<exists>m. cast_int (log 2 (of_int n) + of_int k) = Inr m"
    using l k cast_int_pos[of "log 2 (of_int n) + of_int k"] by simp
  show "\<exists>m. cast_int (log 2 (of_int n) * of_int 8) = Inr m"
    using l cast_int_pos[of "log 2 (of_int n) * of_int 8"] by simp
qed

lemma core_params:
  assumes "sane_core e su sys i"
  shows "\<exists>c jp. set_core_param e sys (sys_core sys i) old ip = Inr (c, jp) \<and> sane_params e sys (sys_core sys i) c"
proof -
  let ?x = "sys_core sys i"
  define a b where "a = \<lceil>log 2 (of_int (archi_Regs_IRF_size ?x))\<rceil>" "b = \<lceil>log 2 (of_int (archi_Regs_FRF_size ?x))\<rceil>"
  define c0 where "c0 = load_duties ?x ((load_widths e sys ?x old)\<lparr>arch_ireg_width := a, arch_freg_width := b\<rparr>)"
  have c0: "num_hthreads c0 = number_hardware_threads ?x" "predictionW c0 = prediction_width ?x"
    "pipeline_stages c0 = pipeline_depth ?x 0"
    by (simp_all add: c0_def load_duties_def load_widths_def)
  have pos: "0 < phy_Regs_IRF_size ?x" "0 < phy_Regs_FRF_size ?x" "0 < ROB_size ?x" "clock_rate ?x \<noteq> 0"
    using assms by (simp_all add: sane_core_def Let_def)
  have "\<exists>c1. load_physical ?x c0 = Inr c1 \<and> num_hthreads c1 = num_hthreads c0 \<and>
    predictionW c1 = predictionW c0 \<and> pipeline_stages c1 = pipeline_stages c0"
    using pos by (simp add: load_physical_def ceil_log2_pos)
  then obtain c1 where c1: "load_physical ?x c0 = Inr c1" "num_hthreads c1 = num_hthreads c0"
    "predictionW c1 = predictionW c0" "pipeline_stages c1 = pipeline_stages c0"
    by blast
  have "\<exists>c. load_constants sys ?x c1 = Inr c \<and> num_hthreads c = num_hthreads c1 \<and>
    predictionW c = predictionW c1 \<and> pipeline_stages c = pipeline_stages c1 \<and> perThreadState c = 8 \<and>
    clockRate c \<noteq> 0 \<and> pppm_lkg_multhread c ! 0 = 0 \<and>
    clockRate c = of_int (clock_rate ?x) * 10 ^ 6 \<and> executionTime c = total_cycles sys / clockRate c"
    using pos by (simp add: load_constants_def Let_def)
  then obtain c where c: "load_constants sys ?x c1 = Inr c" "num_hthreads c = num_hthreads c1"
    "predictionW c = predictionW c1" "pipeline_stages c = pipeline_stages c1" "perThreadState c = 8"
    "clockRate c \<noteq> 0" "pppm_lkg_multhread c ! 0 = 0"
    "clockRate c = of_int (clock_rate ?x) * 10 ^ 6" "executionTime c = total_cycles sys / clockRate c"
    by blast
  note n = thread_casts[of "number_hardware_threads ?x" "EXTRA_TAG_BITS e"]
  have "sane_params e sys ?x c"
    using assms c c1 c0 n
    by (auto simp: sane_params_def sane_core_def sane_fetch_def sane_dcache_def sane_tlb_def sane_schedule_def
        thread_tag_def Let_def)
  then show ?thesis
    using assms c(1) c1(1)
    by (auto simp: set_core_param_def sane_core_def ceil_log2_pos c0_def a_b_def Let_def)
qed

definition core_total :: "bool \<Rightarrow> mcpat_core \<Rightarrow> power_def" where
  "core_total is_tdp k = (if is_tdp then co_power k else co_rt_power k)"

definition core_built :: "root_system \<Rightarrow> nat \<Rightarrow> mcpat_core \<Rightarrow> bool" where
  "core_built sys i k \<longleftrightarrow> (let c = coredynp k; x = sys_core sys i in
     clockRate c \<noteq> 0 \<and> pppm_lkg_multhread c ! 0 = 0 \<and>
     (\<exists>u. ifu k = Some u \<and> Power_Fetch.built c u \<and> u_exist u) \<and>
     (\<exists>u. lsu k = Some u \<and> Power_Load_Facts.built c x u) \<and>
     (\<exists>u. mmu k = Some u \<and> Power_Translation.built u \<and> u_exist u) \<and>
     (\<exists>u. exu k = Some u \<and> Power_Execute.built c x i u \<and> u_exist u) \<and>
     (core_ty c = OOO \<longrightarrow> (\<exists>u. rnu k = Some u \<and> Power_Rename.built c u \<and> u_exist u)) \<and>
     corepipe k \<noteq> None \<and> undiffCore k \<noteq> None \<and>
     (Private_L2 sys \<longrightarrow> (\<exists>l. l2cache k = Some l \<and> Power_Cache_Facts.built l \<and> \<not> directory_st l \<and> cacheL l = L2 \<and>
        dir_ty (cachep l) = (if merged_dir (sys_L2 sys i) then SBT else NonDir))))"

lemma undiff_runs:
  assumes "Embedded sys \<or> 0 < pipeline_stages c"
  shows "\<exists>d. UndiffCore e g0 junk sys ip c = Inr d"
  using assms by (auto simp: UndiffCore_def fitted_area_def Let_def split: prod.split)

lemma wp_make_parts:
  assumes "sane_core e su sys i" "sane_params e sys (sys_core sys i) (coredynp s)"
  shows "wpS (make_parts e su sys i) (\<lambda>_ t. core_built sys i t \<and> coredynp t = coredynp s \<and>
    core_total True t = core_total True s \<and> core_total False t = core_total False s) s"
proof -
  let ?x = "sys_core sys i" and ?c = "coredynp s" and ?ip = "co_ip s" and ?j = "old_stats su"
  have p: "sane_fetch e ?c ?x" "sane_dcache ?c ?x" "sane_tlb ?c sys ?x" "sane_schedule ?c ?x" "clockRate ?c \<noteq> 0"
    "pppm_lkg_multhread ?c ! 0 = 0" "Embedded sys \<or> 0 < pipeline_stages ?c" "default_exist e"
    "Private_L2 sys \<longrightarrow> default_level su = L2 \<and> sane_level sys i L2"
    using assms by (simp_all add: sane_params_def sane_core_def Let_def)
  obtain f where f: "InstFetchU e ?j ?c sys ?x ?ip True = Inr f" "Power_Fetch.built ?c f" "u_exist f"
    using fetch_built[OF p(1)] by metis
  obtain l where l: "LoadStoreU e ?c sys i ?ip True = Inr l" "Power_Load_Facts.built ?c ?x l"
    using lsu_constructed[OF p(2)] by (auto simp: Power_Load_Facts.well_made_def)
  obtain m where m: "MemManU e ?c sys ?x ?ip True = Inr m" "Power_Translation.built m" "u_exist m"
    using memman_built[OF p(3)] by metis
  obtain u where u: "EXECU e (leftover.truncate su) ?c sys i ?ip (lsq_height l) True = Inr u"
    "Power_Execute.built ?c ?x i u" "u_exist u"
    using exec_built[OF p(4,8)] by metis
  obtain d where d: "UndiffCore e (undiff_tech su) ?j sys ?ip ?c = Inr d"
    using undiff_runs[OF p(7)] by blast
  obtain r where r: "RENAMINGU e ?j ?c ?x ?ip (default_exist e) = Inr r" "Power_Rename.built ?c r" "u_exist r"
    using renaming_built[OF p(5)] p(8) by metis
  have "\<exists>l2. SharedCache e sys i ?ip (default_level su) (old_cachep su) ?j = Inr l2 \<and>
      Power_Cache_Facts.built l2 \<and> \<not> directory_st l2 \<and> cacheL l2 = L2 \<and>
      dir_ty (cachep l2) = (if merged_dir (sys_L2 sys i) then SBT else NonDir)" if "Private_L2 sys"
    using SharedCache_runs[of sys i L2 e ?ip "old_cachep su" ?j] p(9) that
    by (auto simp: Power_Cache_Facts.well_made_def Let_def)
  then show ?thesis
    using f l m u d r p(5,6)
    by (cases "Private_L2 sys"; cases "core_ty ?c") (auto simp: make_parts_def wp_simps core_built_def core_total_def Let_def)
qed

lemma built_area [simp]:
  "Power_Fetch.built c (u_area_update f a) = Power_Fetch.built c a"
  "Power_Load_Facts.built c x (ls_area_update f l) = Power_Load_Facts.built c x l"
  "Power_Execute.built c x i (u_area_update f u) = Power_Execute.built c x i u"
  "Power_Translation.built (u_area_update f m) = Power_Translation.built m"
  "Power_Rename.built c (u_area_update f r) = Power_Rename.built c r"
  by (simp_all add: Power_Fetch.built_def icache_parts_def Power_Load_Facts.built_def written_back_def
      Power_Execute.built_def units_built_def buses_built_def Power_Translation.built_def Power_Rename.built_def)

lemma wp_add_areas:
  assumes "core_built sys i s"
  shows "wpS (add_areas sys) (\<lambda>_ t. core_built sys i t \<and> coredynp t = coredynp s \<and>
    core_total True t = core_total True s \<and> core_total False t = core_total False s) s"
proof -
  obtain f l m u p d where b: "ifu s = Some f" "Power_Fetch.built (coredynp s) f" "u_exist f"
    "lsu s = Some l" "Power_Load_Facts.built (coredynp s) (sys_core sys i) l"
    "mmu s = Some m" "Power_Translation.built m" "u_exist m"
    "exu s = Some u" "Power_Execute.built (coredynp s) (sys_core sys i) i u" "u_exist u"
    "corepipe s = Some p" "undiffCore s = Some d"
    using assms by (auto simp: core_built_def Let_def)
  have "exist l" using b(5) by (simp add: Power_Load_Facts.built_def)
  then show ?thesis
    using assms b
    by (cases "core_ty (coredynp s)"; cases "Private_L2 sys")
      (auto simp: add_areas_def add_unit_area_def wp_simps core_built_def core_total_def Let_def)
qed

lemma core_constructed:
  assumes "sane_core e su sys i"
  shows "\<exists>k. Core e su sys i ip = Inr k \<and> core_built sys i k \<and> sane_params e sys (sys_core sys i) (coredynp k) \<and>
    core_total True k = powerDef_reset \<and> core_total False k = powerDef_reset"
proof -
  obtain c jp where c: "set_core_param e sys (sys_core sys i) (old_params su) ip = Inr (c, jp)"
    "sane_params e sys (sys_core sys i) c"
    using core_params[OF assms] by blast
  let ?s = "\<lparr>co_ip = jp, coredynp = c, co_area = 0, co_power = powerDef_reset, co_rt_power = powerDef_reset,
     ifu = None, lsu = None, mmu = None, exu = None, rnu = None, corepipe = None, undiffCore = None,
     l2cache = None\<rparr>"
  have "wpS (seqS (make_parts e su sys i) (add_areas sys)) (\<lambda>_ t. core_built sys i t \<and> coredynp t = c \<and>
    core_total True t = powerDef_reset \<and> core_total False t = powerDef_reset) ?s"
    unfolding wpS_seq
    by (rule wp_mono[OF wp_make_parts[OF assms]]) (use c(2) in \<open>auto simp: core_total_def intro!: wp_mono[OF wp_add_areas]\<close>)
  then show ?thesis
    using c by (auto simp: Core_def elim!: wpSE)
qed


section \<open>Energy\<close>

text \<open>The state \<open>t\<close> after every unit of \<open>s\<close> has computed its energy.\<close>

definition units_ran :: "bool \<Rightarrow> mcpat_env \<Rightarrow> tech \<Rightarrow> root_system \<Rightarrow> nat \<Rightarrow> mcpat_core \<Rightarrow> mcpat_core \<Rightarrow> bool" where
  "units_ran is_tdp e g sys i s t \<longleftrightarrow> (let c = coredynp s; x = sys_core sys i in
     Power_Fetch.computeEnergy is_tdp e c x (the (ifu s)) = Inr ((), the (ifu t)) \<and>
     Power_Load_Store.computeEnergy is_tdp e c x (the (lsu s)) = Inr ((), the (lsu t)) \<and>
     Power_Translation.computeEnergy is_tdp e c x (the (mmu s)) = Inr ((), the (mmu t)) \<and>
     Power_Execute.computeEnergy is_tdp e g c sys i (the (exu s)) = Inr ((), the (exu t)) \<and>
     (core_ty c = OOO \<longrightarrow> Power_Rename.computeEnergy is_tdp e c x (the (rnu s)) = Inr ((), the (rnu t))))"

definition core_frame :: "mcpat_core \<Rightarrow> mcpat_core \<Rightarrow> bool" where
  "core_frame s t \<longleftrightarrow> coredynp t = coredynp s \<and> corepipe t = corepipe s \<and> undiffCore t = undiffCore s \<and>
     l2cache t = l2cache s"

lemma wp_run_units:
  assumes "core_built sys i s" "field_ops e" "int_instructions (sys_core sys i) \<noteq> 0"
  shows "wpS (run_units is_tdp e g sys i) (\<lambda>_ t. core_built sys i t \<and> core_frame s t \<and>
    units_ran is_tdp e g sys i s t \<and> core_total y t = core_total y s) s"
proof -
  let ?x = "sys_core sys i" and ?c = "coredynp s"
  obtain f l m u where b: "ifu s = Some f" "Power_Fetch.built ?c f" "u_exist f"
    "lsu s = Some l" "Power_Load_Facts.built ?c ?x l" "mmu s = Some m" "Power_Translation.built m" "u_exist m"
    "exu s = Some u" "Power_Execute.built ?c ?x i u" "u_exist u" "clockRate ?c \<noteq> 0" "pppm_lkg_multhread ?c ! 0 = 0"
    using assms(1) by (auto simp: core_built_def Let_def)
  obtain f' where f: "Power_Fetch.computeEnergy is_tdp e ?c ?x f = Inr ((), f')" "Power_Fetch.built ?c f'" "u_exist f'"
    using fetch_energy_runs[OF b(2,3) assms(2) b(13), where is_tdp = is_tdp and x = ?x] by (auto elim!: wpSE)
  obtain l' where l: "Power_Load_Store.computeEnergy is_tdp e ?c ?x l = Inr ((), l')" "Power_Load_Facts.built ?c ?x l'"
    using lsu_runs[OF b(5) field_dynamic[OF assms(2)], of is_tdp] by blast
  obtain m' where m: "Power_Translation.computeEnergy is_tdp e ?c ?x m = Inr ((), m')" "Power_Translation.built m'" "u_exist m'"
    using tlb_energy_runs[OF b(7,8), where is_tdp = is_tdp and e = e and c = ?c and x = ?x] by (auto elim!: wpSE)
  obtain u' where u: "Power_Execute.computeEnergy is_tdp e g ?c sys i u = Inr ((), u')"
    "Power_Execute.built ?c ?x i u'" "u_exist u'"
    using exec_energy_runs[OF b(10,11) assms(2,3) b(12), where is_tdp = is_tdp and g = g] by (auto elim!: wpSE)
  have "\<exists>r r'. rnu s = Some r \<and> Power_Rename.computeEnergy is_tdp e ?c ?x r = Inr ((), r') \<and>
      Power_Rename.built ?c r' \<and> u_exist r'" if o3: "core_ty ?c = OOO"
  proof -
    obtain r where r: "rnu s = Some r" "Power_Rename.built ?c r" "u_exist r"
      using assms(1) o3 by (auto simp: core_built_def Let_def)
    then show ?thesis
      using rename_energy_runs[OF r(2,3), where is_tdp = is_tdp and e = e and x = ?x] o3 by (auto elim!: wpSE)
  qed
  then show ?thesis
    using assms(1) b(1,4,6,9) f l m u
    by (cases "core_ty ?c")
      (auto simp: run_units_def wp_simps wp_known[of "Power_Fetch.computeEnergy is_tdp e ?c ?x" f, OF f(1)]
        wp_known[of "Power_Load_Store.computeEnergy is_tdp e ?c ?x" l, OF l(1)]
        wp_known[of "Power_Translation.computeEnergy is_tdp e ?c ?x" m, OF m(1)]
        wp_known[of "Power_Execute.computeEnergy is_tdp e g ?c sys i" u, OF u(1)]
        wp_known[of "Power_Rename.computeEnergy is_tdp e ?c ?x"]
        core_built_def units_ran_def core_frame_def core_total_def Let_def)
qed

lemma built_power [simp]:
  "Power_Fetch.built c (u_power_update h a) = Power_Fetch.built c a"
  "Power_Fetch.built c (u_rt_power_update h a) = Power_Fetch.built c a"
  "Power_Load_Facts.built c x (ls_power_update h l) = Power_Load_Facts.built c x l"
  "Power_Load_Facts.built c x (ls_rt_power_update h l) = Power_Load_Facts.built c x l"
  "Power_Execute.built c x i (u_power_update h u) = Power_Execute.built c x i u"
  "Power_Execute.built c x i (u_rt_power_update h u) = Power_Execute.built c x i u"
  "Power_Translation.built (u_power_update h m) = Power_Translation.built m"
  "Power_Translation.built (u_rt_power_update h m) = Power_Translation.built m"
  "Power_Rename.built c (u_power_update h r) = Power_Rename.built c r"
  "Power_Rename.built c (u_rt_power_update h r) = Power_Rename.built c r"
  by (simp_all add: Power_Fetch.built_def icache_parts_def Power_Load_Facts.built_def written_back_def
      Power_Execute.built_def units_built_def buses_built_def Power_Translation.built_def Power_Rename.built_def)

text \<open>The dynamic energy of the units of a core, and what the registers of the pipeline add to it.\<close>

definition units_energy :: "bool \<Rightarrow> mcpat_core \<Rightarrow> real" where
  "units_energy is_tdp k =
     dynamic (readOp (unit_total is_tdp (the (ifu k)))) +
     dynamic (readOp (Power_Load_Facts.total is_tdp (the (lsu k)))) +
     dynamic (readOp (unit_total is_tdp (the (exu k)))) +
     dynamic (readOp (unit_total is_tdp (the (mmu k)))) +
     (if core_ty (coredynp k) = OOO then dynamic (readOp (unit_total is_tdp (the (rnu k)))) else 0)"

definition pipe_activity :: "bool \<Rightarrow> root_system \<Rightarrow> core_dyn_param \<Rightarrow> real" where
  "pipe_activity is_tdp sys c = (if is_tdp
     then IFU_duty_cycle c + LSU_duty_cycle c + ALU_duty_cycle c + (0.5 + 0.5 * LSU_duty_cycle c) +
       (if core_ty c = OOO then 1 else 0)
     else pipe_units c * run_cycles sys c)"

definition pipe_energy :: "bool \<Rightarrow> root_system \<Rightarrow> mcpat_core \<Rightarrow> real" where
  "pipe_energy is_tdp sys k = dynamic (readOp (lp_power (the (corepipe k)))) *
     (of_int (num_pipelines (coredynp k)) * pipe_activity is_tdp sys (coredynp k) / pipe_units (coredynp k))"

definition undiff_energy :: "mcpat_core \<Rightarrow> real" where
  "undiff_energy k = dynamic (readOp (lp_power (the (undiffCore k))))"

lemma with_pipe_simps [simp]:
  "u_exist (with_pipe e is_tdp p k u) = u_exist u"
  "Power_Fetch.built c (with_pipe e is_tdp p k a) = Power_Fetch.built c a"
  "Power_Load_Facts.built c x (lsu_with_pipe e is_tdp p k l) = Power_Load_Facts.built c x l"
  "Power_Execute.built c x i (with_pipe e is_tdp p k v) = Power_Execute.built c x i v"
  "Power_Translation.built (with_pipe e is_tdp p k m) = Power_Translation.built m"
  "Power_Rename.built c (with_pipe e is_tdp p k r) = Power_Rename.built c r"
  by (simp_all add: with_pipe_def lsu_with_pipe_def Let_def)

lemma with_pipe_dynamic:
  assumes "field_ops e"
  shows "dynamic (readOp (unit_total is_tdp (with_pipe e is_tdp p k u))) =
      dynamic (readOp (unit_total is_tdp u)) + dynamic (readOp p) * k ! 0"
    and "dynamic (readOp (Power_Load_Facts.total is_tdp (lsu_with_pipe e is_tdp p k l))) =
      dynamic (readOp (Power_Load_Facts.total is_tdp l)) + dynamic (readOp p) * k ! 0"
  using assms
  by (simp_all add: with_pipe_def lsu_with_pipe_def unit_total_def Power_Load_Facts.total_def field_ops_simps Let_def)

text \<open>The counts of the data cache stay.\<close>

definition same_dcache :: "mcpat_core \<Rightarrow> mcpat_core \<Rightarrow> bool" where
  "same_dcache s t \<longleftrightarrow> (let a = the (lsu s); b = the (lsu t) in
     load_store_u.caches b = load_store_u.caches a \<and> load_store_u.apcaches b = load_store_u.apcaches a \<and>
     cache_p b = cache_p a)"

lemma lsu_with_pipe_sel [simp]:
  "load_store_u.caches (lsu_with_pipe e is_tdp p k l) = load_store_u.caches l"
  "load_store_u.apcaches (lsu_with_pipe e is_tdp p k l) = load_store_u.apcaches l"
  "cache_p (lsu_with_pipe e is_tdp p k l) = cache_p l"
  by (simp_all add: lsu_with_pipe_def Let_def)

lemma wp_add_units:
  assumes "core_built sys i s" "field_ops e"
  shows "wpS (add_units is_tdp e sys) (\<lambda>_ t. core_built sys i t \<and> core_frame s t \<and> same_dcache s t \<and>
    units_energy is_tdp t = units_energy is_tdp s + pipe_energy is_tdp sys s \<and>
    dynamic (readOp (core_total is_tdp t)) = dynamic (readOp (core_total is_tdp s)) + units_energy is_tdp t +
      undiff_energy s \<and>
    core_total (\<not> is_tdp) t = core_total (\<not> is_tdp) s) s"
proof -
  let ?x = "sys_core sys i" and ?c = "coredynp s"
  obtain f l m u p d where b: "ifu s = Some f" "Power_Fetch.built ?c f" "u_exist f"
    "lsu s = Some l" "Power_Load_Facts.built ?c ?x l" "mmu s = Some m" "Power_Translation.built m" "u_exist m"
    "exu s = Some u" "Power_Execute.built ?c ?x i u" "u_exist u" "corepipe s = Some p" "undiffCore s = Some d"
    using assms(1) by (auto simp: core_built_def Let_def)
  have l: "exist l" using b(5) by (simp add: Power_Load_Facts.built_def)
  show ?thesis
    using assms b l
    by (cases "core_ty ?c"; cases is_tdp)
      (auto simp: add_units_def add_unit_def add_core_def wp_simps core_built_def core_frame_def core_total_def
        units_energy_def pipe_energy_def pipe_activity_def pipe_units_def pipe_coeff_def undiff_energy_def
        same_dcache_def         field_ops_simps with_pipe_dynamic Let_def field_simps)
qed

text \<open>A private second level enters the peak at the ratio of its clock to the clock of the core.\<close>

definition l2_energy :: "bool \<Rightarrow> mcpat_core \<Rightarrow> real" where
  "l2_energy is_tdp k = (let l = the (l2cache k) in if is_tdp
     then dynamic (readOp (sc_power l)) * (cp_clockRate (cachep l) / clockRate (coredynp k))
     else dynamic (readOp (sc_rt_power l)))"

lemma wp_add_l2:
  assumes "core_built sys i s" "field_ops e"
  shows "wpS (add_l2 is_tdp e sys i) (\<lambda>_ t. core_built sys i t \<and> coredynp t = coredynp s \<and> same_dcache s t \<and>
    units_energy is_tdp t = units_energy is_tdp s \<and> undiff_energy t = undiff_energy s \<and>
    (Private_L2 sys \<longrightarrow>
       Power_Shared_Cache.computeEnergy is_tdp e sys i (the (l2cache s)) = Inr ((), the (l2cache t))) \<and>
    dynamic (readOp (core_total is_tdp t)) = dynamic (readOp (core_total is_tdp s)) +
      (if Private_L2 sys then l2_energy is_tdp t else 0) \<and>
    core_total (\<not> is_tdp) t = core_total (\<not> is_tdp) s) s"
proof (cases "Private_L2 sys")
  case True
  then obtain l where l: "l2cache s = Some l" "Power_Cache_Facts.built l" "\<not> directory_st l" "cacheL l = L2"
    "dir_ty (cachep l) = (if merged_dir (sys_L2 sys i) then SBT else NonDir)"
    using assms(1) by (auto simp: core_built_def Let_def)
  then obtain v where v: "Power_Shared_Cache.computeEnergy is_tdp e sys i l = Inr ((), v)"
    "Power_Cache_Facts.built v" "\<not> directory_st v" "cacheL v = L2"
    "dir_ty (cachep v) = dir_ty (cachep l)"
    using computeEnergy_runs[OF l(2,3) _ field_dynamic[OF assms(2)], of is_tdp sys i] l(4)
    by (auto simp: Power_Cache_Facts.built_def directory_st_def has_data_arrays_def)
  have "clockRate (coredynp s) \<noteq> 0" using assms(1) by (simp add: core_built_def Let_def)
  then show ?thesis
    using True assms l(1,5) v
    by (cases is_tdp)
      (auto simp: add_l2_def add_core_def wp_simps wp_known[of "Power_Shared_Cache.computeEnergy True e sys i"]
        wp_known[of "Power_Shared_Cache.computeEnergy False e sys i"]
        core_built_def core_total_def units_energy_def undiff_energy_def l2_energy_def same_dcache_def field_ops_simps Let_def)
qed (use assms in \<open>auto simp: add_l2_def wp_simps same_dcache_def\<close>)

text \<open>The run of the whole core: every unit has run from its own state, and the total of the core grew by the
  energies of the units, of the undifferentiated logic and of a private second level.\<close>

lemma core_runs:
  assumes "core_built sys i s" "field_ops e" "int_instructions (sys_core sys i) \<noteq> 0"
  shows "\<exists>u t. computeEnergy is_tdp e g sys i s = Inr ((), t) \<and> core_built sys i t \<and>
    coredynp t = coredynp s \<and> undiff_energy t = undiff_energy s \<and> units_ran is_tdp e g sys i s u \<and>
    core_frame s u \<and> same_dcache u t \<and> units_energy is_tdp t = units_energy is_tdp u + pipe_energy is_tdp sys s \<and>
    (Private_L2 sys \<longrightarrow>
       Power_Shared_Cache.computeEnergy is_tdp e sys i (the (l2cache s)) = Inr ((), the (l2cache t))) \<and>
    dynamic (readOp (core_total is_tdp t)) = dynamic (readOp (core_total is_tdp s)) + units_energy is_tdp t +
      undiff_energy t + (if Private_L2 sys then l2_energy is_tdp t else 0) \<and>
    core_total (\<not> is_tdp) t = core_total (\<not> is_tdp) s"
proof -
  obtain u where u: "run_units is_tdp e g sys i s = Inr ((), u)" "core_built sys i u" "core_frame s u"
    "units_ran is_tdp e g sys i s u" "core_total is_tdp u = core_total is_tdp s"
    using wp_run_units[OF assms, of is_tdp g is_tdp] by (auto elim!: wpSE)
  have u2: "core_total (\<not> is_tdp) u = core_total (\<not> is_tdp) s"
    using wp_run_units[OF assms, of is_tdp g "\<not> is_tdp"] u(1) by (auto elim!: wpSE)
  have p: "pipe_energy is_tdp sys u = pipe_energy is_tdp sys s" "undiff_energy u = undiff_energy s"
    using u(3) by (simp_all add: core_frame_def pipe_energy_def undiff_energy_def)
  obtain v where v: "add_units is_tdp e sys u = Inr ((), v)" "core_built sys i v" "core_frame u v" "same_dcache u v"
    "units_energy is_tdp v = units_energy is_tdp u + pipe_energy is_tdp sys s"
    "dynamic (readOp (core_total is_tdp v)) = dynamic (readOp (core_total is_tdp s)) + units_energy is_tdp v +
      undiff_energy s" "core_total (\<not> is_tdp) v = core_total (\<not> is_tdp) s"
    using wp_add_units[OF u(2) assms(2), of is_tdp] u(5) u2 p by (auto elim!: wpSE)
  have k: "l2cache v = l2cache s" "coredynp v = coredynp s" "undiff_energy v = undiff_energy s"
    using u(3) v(3) by (simp_all add: core_frame_def undiff_energy_def)
  obtain t where t: "add_l2 is_tdp e sys i v = Inr ((), t)" "core_built sys i t" "coredynp t = coredynp s"
    "same_dcache v t" "units_energy is_tdp t = units_energy is_tdp v" "undiff_energy t = undiff_energy s"
    "Private_L2 sys \<longrightarrow>
       Power_Shared_Cache.computeEnergy is_tdp e sys i (the (l2cache s)) = Inr ((), the (l2cache t))"
    "dynamic (readOp (core_total is_tdp t)) = dynamic (readOp (core_total is_tdp v)) +
      (if Private_L2 sys then l2_energy is_tdp t else 0)" "core_total (\<not> is_tdp) t = core_total (\<not> is_tdp) v"
    using wp_add_l2[OF v(2) assms(2), of is_tdp] k by (auto elim!: wpSE)
  have "computeEnergy is_tdp e g sys i s = Inr ((), t)"
    using u(1) v(1) t(1) by (simp add: computeEnergy_def op_defs err_simps)
  moreover have "same_dcache u t" using v(4) t(4) by (simp add: same_dcache_def Let_def)
  ultimately show ?thesis
    using t u v by (intro exI[of _ u] exI[of _ t]) simp
qed

text \<open>C19. On a description with positive sizes the constructor of a core and both passes of
  \<open>computeEnergy\<close> end: every unit they dereference has been built, whatever the memory held before. The totals are
  then the sums of the energies of the units, of the undifferentiated logic and of a private second level.\<close>

theorem core_builds_and_runs:
  assumes "sane_core e su sys i" "field_ops e" "int_instructions (sys_core sys i) \<noteq> 0"
  shows "\<exists>k p t. Core e su sys i ip = Inr k \<and> computeEnergy True e g sys i k = Inr ((), p) \<and>
    computeEnergy False e g sys i p = Inr ((), t) \<and> core_built sys i p \<and>
    dynamic (readOp (co_power t)) = units_energy True p + undiff_energy p +
      (if Private_L2 sys then l2_energy True p else 0) \<and>
    dynamic (readOp (co_rt_power t)) = units_energy False t + undiff_energy t +
      (if Private_L2 sys then l2_energy False t else 0)"
proof -
  obtain k where k: "Core e su sys i ip = Inr k" "core_built sys i k" "co_power k = powerDef_reset"
    "co_rt_power k = powerDef_reset"
    using core_constructed[OF assms(1), of ip] by (auto simp: core_total_def)
  obtain p where p: "computeEnergy True e g sys i k = Inr ((), p)" "core_built sys i p"
    "dynamic (readOp (co_power p)) = units_energy True p + undiff_energy p +
      (if Private_L2 sys then l2_energy True p else 0)" "co_rt_power p = powerDef_reset"
    using core_runs[OF k(2) assms(2,3), of True g] k(3,4) by (auto simp: core_total_def powerDef_reset_def)
  obtain t where t: "computeEnergy False e g sys i p = Inr ((), t)"
    "dynamic (readOp (co_rt_power t)) = units_energy False t + undiff_energy t +
      (if Private_L2 sys then l2_energy False t else 0)" "co_power t = co_power p"
    using core_runs[OF p(2) assms(2,3), of False g] p(4) by (auto simp: core_total_def powerDef_reset_def)
  show ?thesis
    using k(1) p t by (intro exI conjI) auto
qed

section \<open>Example\<close>

text \<open>A core with a private second level.\<close>

definition private_sys :: root_system where
  "private_sys = small_sys\<lparr>Private_L2 := True\<rparr>"

definition small_setup :: core_setup where
  "small_setup = \<lparr>old_stats = no_stats, old_height = 0, old_tech = (\<lambda>_. small_tech), old_params = small_params,
     old_cachep = small_cp, undiff_tech = small_tech, default_level = L2\<rparr>"

lemma small_env_field: "field_ops small_env"
  by (simp add: field_ops_def small_env_def comp_plus_def comp_times_def)

lemma private_sane: "sane_core small_env small_setup private_sys i"
  by (simp add: sane_core_def private_sys_def small_sys_def small_env_def small_core_def small_setup_def
      sane_config_def small_dcache_def BTB_sizes_def sane_level_def level_of_def overhead_def small_LX_def
      has_data_arrays_def)

lemma private_counts: "int_instructions (sys_core private_sys i) \<noteq> 0" "\<not> merged_dir (sys_L2 private_sys i)"
  by (simp_all add: private_sys_def small_sys_def small_core_def small_LX_def)

theorem core_builds_and_runs_witness:
  "\<exists>k p t. Core small_env small_setup private_sys 0 small_ip = Inr k \<and>
    computeEnergy True small_env small_tech private_sys 0 k = Inr ((), p) \<and>
    computeEnergy False small_env small_tech private_sys 0 p = Inr ((), t) \<and>
    dynamic (readOp (co_rt_power t)) = units_energy False t + undiff_energy t + l2_energy False t"
proof -
  have "Private_L2 private_sys" by (simp add: private_sys_def)
  then show ?thesis
    using core_builds_and_runs[OF private_sane small_env_field private_counts(1), of 0 small_ip small_tech] by fastforce
qed

end
