(* ===== verification/Power_Saving.thy ===== *)
theory Power_Saving
  imports Power_Core_Facts
begin

text \<open>
  What the approximate accesses and additions of a run save of the energy of a core: the run is compared
  with the same run whose accesses and additions are all exact.
\<close>

section \<open>The exact run\<close>

definition exact_dcache :: "dcache_systemcore \<Rightarrow> dcache_systemcore" where
  "exact_dcache d = d\<lparr>approx_read_accesses := 0, approx_write_accesses := 0, approx_read_misses := 0,
     approx_write_misses := 0\<rparr>"

definition exact_core :: "system_core \<Rightarrow> system_core" where
  "exact_core x = x\<lparr>appadd_instructions := 0, dcache := exact_dcache (dcache x)\<rparr>"

definition exact_level :: "system_LX \<Rightarrow> system_LX" where
  "exact_level x = x\<lparr>lx_approx_read_accesses := 0, lx_approx_write_accesses := 0, lx_approx_read_misses := 0,
     lx_approx_write_misses := 0\<rparr>"

definition exact_run :: "root_system \<Rightarrow> root_system" where
  "exact_run sys = sys\<lparr>sys_core := \<lambda>i. exact_core (sys_core sys i), sys_L2 := \<lambda>i. exact_level (sys_L2 sys i)\<rparr>"

lemma exact_run_sel [simp]:
  "sys_core (exact_run sys) i = exact_core (sys_core sys i)" "sys_L2 (exact_run sys) i = exact_level (sys_L2 sys i)"
  "Private_L2 (exact_run sys) = Private_L2 sys" "run_cycles (exact_run sys) c = run_cycles sys c"
  "merged_dir (exact_level y) = merged_dir y"
  by (simp_all add: exact_run_def run_cycles_def exact_level_def)

lemma exact_core_sel:
  "instruction_length (exact_core x) = instruction_length x"
  "number_instruction_fetch_ports (exact_core x) = number_instruction_fetch_ports x"
  "decode_width (exact_core x) = decode_width x" "issue_width (exact_core x) = issue_width x"
  "peak_issue_width (exact_core x) = peak_issue_width x" "commit_width (exact_core x) = commit_width x"
  "instruction_buffer_size (exact_core x) = instruction_buffer_size x"
  "instruction_window_size (exact_core x) = instruction_window_size x"
  "fp_instruction_window_size (exact_core x) = fp_instruction_window_size x" "ROB_size (exact_core x) = ROB_size x"
  "archi_Regs_IRF_size (exact_core x) = archi_Regs_IRF_size x"
  "archi_Regs_FRF_size (exact_core x) = archi_Regs_FRF_size x"
  "phy_Regs_IRF_size (exact_core x) = phy_Regs_IRF_size x" "phy_Regs_FRF_size (exact_core x) = phy_Regs_FRF_size x"
  "register_windows_size (exact_core x) = register_windows_size x" "RAS_size (exact_core x) = RAS_size x"
  "predictor (exact_core x) = predictor x" "icache (exact_core x) = icache x" "itlb_x (exact_core x) = itlb_x x"
  "dtlb_x (exact_core x) = dtlb_x x" "BTB_x (exact_core x) = BTB_x x"
  "total_instructions (exact_core x) = total_instructions x" "fp_instructions (exact_core x) = fp_instructions x"
  "branch_instructions (exact_core x) = branch_instructions x"
  "branch_mispredictions (exact_core x) = branch_mispredictions x"
  "committed_int_instructions (exact_core x) = committed_int_instructions x"
  "committed_fp_instructions (exact_core x) = committed_fp_instructions x"
  "function_calls (exact_core x) = function_calls x" "rename_reads (exact_core x) = rename_reads x"
  "rename_writes (exact_core x) = rename_writes x" "fp_rename_reads (exact_core x) = fp_rename_reads x"
  "fp_rename_writes (exact_core x) = fp_rename_writes x" "inst_window_reads (exact_core x) = inst_window_reads x"
  "inst_window_writes (exact_core x) = inst_window_writes x"
  "inst_window_wakeup_accesses (exact_core x) = inst_window_wakeup_accesses x"
  "fp_inst_window_reads (exact_core x) = fp_inst_window_reads x"
  "fp_inst_window_writes (exact_core x) = fp_inst_window_writes x"
  "fp_inst_window_wakeup_accesses (exact_core x) = fp_inst_window_wakeup_accesses x"
  "ROB_reads (exact_core x) = ROB_reads x" "ROB_writes (exact_core x) = ROB_writes x"
  "int_regfile_reads (exact_core x) = int_regfile_reads x"
  "int_regfile_writes (exact_core x) = int_regfile_writes x"
  "float_regfile_reads (exact_core x) = float_regfile_reads x"
  "float_regfile_writes (exact_core x) = float_regfile_writes x"
  "cdb_alu_accesses (exact_core x) = cdb_alu_accesses x" "cdb_mul_accesses (exact_core x) = cdb_mul_accesses x"
  "cdb_fpu_accesses (exact_core x) = cdb_fpu_accesses x" "opcode_width (exact_core x) = opcode_width x"
  "number_hardware_threads (exact_core x) = number_hardware_threads x"
  "store_buffer_size (exact_core x) = store_buffer_size x" "load_buffer_size (exact_core x) = load_buffer_size x"
  "memory_ports (exact_core x) = memory_ports x" "int_instructions (exact_core x) = int_instructions x"
  "load_instructions (exact_core x) = load_instructions x"
  "store_instructions (exact_core x) = store_instructions x" "ialu_accesses (exact_core x) = ialu_accesses x"
  "fpu_accesses (exact_core x) = fpu_accesses x" "mul_accesses (exact_core x) = mul_accesses x"
  by (simp_all add: exact_core_def)

text \<open>The units that do not look at the approximate counts.\<close>

lemma fetch_exact: "Power_Fetch.computeEnergy is_tdp e c (exact_core x) = Power_Fetch.computeEnergy is_tdp e c x"
  unfolding Power_Fetch.computeEnergy_def Power_Fetch.count_peak_def Power_Fetch.count_runtime_def
    Power_Fetch.sum_dynamic_def Power_Branch.computeEnergy_def Power_Branch.count_def table_reads_def
    table_writes_def exact_core_sel ..

lemma tlb_exact: "Power_Translation.computeEnergy is_tdp e c (exact_core x) = Power_Translation.computeEnergy is_tdp e c x"
  unfolding Power_Translation.computeEnergy_def Power_Translation.count_def exact_core_sel ..

lemma rename_exact: "Power_Rename.computeEnergy is_tdp e c (exact_core x) = Power_Rename.computeEnergy is_tdp e c x"
  unfolding Power_Rename.computeEnergy_def Power_Rename.count_runtime_def exact_core_sel ..

lemma registers_exact:
  "Power_Registers.computeEnergy is_tdp e c (exact_core x) = Power_Registers.computeEnergy is_tdp e c x"
  unfolding Power_Registers.computeEnergy_def Power_Registers.count_runtime_def exact_core_sel ..

lemma schedule_exact:
  "Power_Schedule.computeEnergy is_tdp e c (exact_core x) = Power_Schedule.computeEnergy is_tdp e c x"
  unfolding Power_Schedule.computeEnergy_def Power_Schedule.count_peak_def Power_Schedule.count_runtime_def
    Power_Schedule.sum_dynamic_def Power_Schedule.add_totals_def exact_core_sel ..

lemma rest_exact: "rest_part is_tdp e c (exact_core x) s = rest_part is_tdp e c x s"
  unfolding rest_part_def bypass_part_def bus_use_def registers_exact schedule_exact exact_core_sel ..

lemma built_exact:
  "Power_Load_Facts.built c (exact_core x) l = Power_Load_Facts.built c x l"
  "Power_Execute.built c (exact_core x) i u = Power_Execute.built c x i u"
  unfolding Power_Load_Facts.built_def has_LoadQ_def Power_Execute.built_def units_built_def
    Power_Schedule.built_def exact_core_sel by (rule refl)+

lemma core_built_exact: "core_built (exact_run sys) i k = core_built sys i k"
  unfolding core_built_def Let_def exact_run_sel built_exact ..

section \<open>What is saved\<close>

text \<open>The energy of an array depends on its solution and its counts.\<close>

definition alike :: "array \<Rightarrow> array \<Rightarrow> bool" where
  "alike a b \<longleftrightarrow> local_result a = local_result b \<and> readAc (stats_t a) = readAc (stats_t b) \<and>
     writeAc (stats_t a) = writeAc (stats_t b)"

lemma alike_energy:
  assumes "alike a b"
  shows "Power_Load_Facts.original_energy wb a = Power_Load_Facts.original_energy wb b"
    "Power_Cache_Facts.original_energy a = Power_Cache_Facts.original_energy b"
  using assms
  by (simp_all add: alike_def Power_Load_Facts.original_energy_def Power_Cache_Facts.original_energy_def
      read_energy_def write_energy_def tag_read_def tag_write_def Let_def)

definition same_use :: "array option \<Rightarrow> array option \<Rightarrow> bool" where
  "same_use a b \<longleftrightarrow> map_option local_result a = map_option local_result b \<and>
     (\<exists>x y. a = Some x \<and> b = Some y \<and> ac_access (readAc (stats_t x)) = ac_access (readAc (stats_t y)) \<and>
       ac_access (writeAc (stats_t x)) = ac_access (writeAc (stats_t y)))"

lemma same_use_energy:
  assumes "same_use a b"
  shows "buffer_part (the a) = buffer_part (the b)" "queue_part (the a) = queue_part (the b)"
  using assms
  by (auto simp: same_use_def buffer_part_def queue_part_def read_energy_def write_energy_def search_energy_def)

lemma same_use_counted:
  "Power_Load_Facts.both_access a n \<Longrightarrow> Power_Load_Facts.both_access b n \<Longrightarrow>
    map_option local_result a = map_option local_result b \<Longrightarrow> same_use a b"
  "Power_Cache_Facts.both_access a n \<Longrightarrow> Power_Cache_Facts.both_access b n \<Longrightarrow>
    map_option local_result a = map_option local_result b \<Longrightarrow> same_use a b"
  by (auto simp: same_use_def Power_Load_Facts.both_access_def Power_Cache_Facts.both_access_def)

lemma exact_counted:
  "Power_Load_Facts.counted_run c (exact_core x) u \<longleftrightarrow> (let d = dcache x;
       k = (if written_back u then write_misses d else read_misses d);
       n = load_instructions x + store_instructions x in
     (\<exists>a p. load_store_u.caches u = Some a \<and> load_store_u.apcaches u = Some p \<and>
       readAc (stats_t a) = counted (read_accesses d) (read_misses d) \<and>
       writeAc (stats_t a) = counted (write_accesses d) (write_misses d) \<and>
       readAc (stats_t p) = counted 0 0 \<and> writeAc (stats_t p) = counted 0 0) \<and>
     Power_Load_Facts.both_access (load_store_u.missb u) k \<and> Power_Load_Facts.both_access (load_store_u.ifb u) k \<and>
     Power_Load_Facts.both_access (load_store_u.prefetchb u) k \<and>
     (written_back u \<longrightarrow> Power_Load_Facts.both_access (load_store_u.wbb u) k) \<and>
     Power_Load_Facts.both_access (LSQ u) (2 * n) \<and>
     (has_LoadQ c x \<longrightarrow> Power_Load_Facts.both_access (LoadQ u) n))"
  by (simp add: Power_Load_Facts.counted_run_def has_LoadQ_def exact_core_def exact_dcache_def Let_def)

lemma lsu_saved:
  assumes "Power_Load_Facts.built c x s" "dynamic_ops e"
  shows "\<exists>t u. Power_Load_Store.computeEnergy False e c x s = Inr ((), t) \<and>
    Power_Load_Store.computeEnergy False e c (exact_core x) s = Inr ((), u) \<and>
    dynamic (readOp (ls_rt_power u)) - dynamic (readOp (ls_rt_power t)) =
      Power_Load_Facts.saved_energy (written_back t) (the (load_store_u.caches t)) (the (load_store_u.apcaches t))"
proof -
  have b: "Power_Load_Facts.built c (exact_core x) s" using assms(1) by (simp add: built_exact)
  obtain t where t: "Power_Load_Store.computeEnergy False e c x s = Inr ((), t)" "Power_Load_Facts.results t = Power_Load_Facts.results s"
    "cache_p t = cache_p s" "Power_Load_Facts.counted_run c x t"
    "dynamic (readOp (ls_rt_power t)) = dynamic (readOp (ls_rt_power s)) + unit_energy c x t"
    using lsu_runs[OF assms, of False] by (auto simp: Power_Load_Facts.total_def)
  obtain u where u: "Power_Load_Store.computeEnergy False e c (exact_core x) s = Inr ((), u)" "Power_Load_Facts.results u = Power_Load_Facts.results s"
    "cache_p u = cache_p s" "Power_Load_Facts.counted_run c (exact_core x) u"
    "dynamic (readOp (ls_rt_power u)) = dynamic (readOp (ls_rt_power s)) + unit_energy c (exact_core x) u"
    using lsu_runs[OF b assms(2), of False] by (auto simp: Power_Load_Facts.total_def)
  have q: "has_LoadQ c (exact_core x) = has_LoadQ c x" "written_back u = written_back t"
    using t(3) u(3) by (simp_all add: has_LoadQ_def exact_core_sel written_back_def)
  define k n where "k = (if written_back t then write_misses (dcache x) else read_misses (dcache x))"
    "n = load_instructions x + store_instructions x"
  obtain a p where tc: "load_store_u.caches t = Some a" "load_store_u.apcaches t = Some p"
    "readAc (stats_t a) = counted (read_accesses (dcache x)) (read_misses (dcache x))"
    "writeAc (stats_t a) = counted (write_accesses (dcache x)) (write_misses (dcache x))"
    and tb: "Power_Load_Facts.both_access (load_store_u.missb t) k" "Power_Load_Facts.both_access (load_store_u.ifb t) k"
    "Power_Load_Facts.both_access (load_store_u.prefetchb t) k"
    "written_back t \<longrightarrow> Power_Load_Facts.both_access (load_store_u.wbb t) k"
    "Power_Load_Facts.both_access (LSQ t) (2 * n)"
    "has_LoadQ c x \<longrightarrow> Power_Load_Facts.both_access (LoadQ t) n"
    using t(4) unfolding Power_Load_Facts.counted_run_def Let_def k_n_def by blast
  obtain b q where uc: "load_store_u.caches u = Some b" "load_store_u.apcaches u = Some q"
    "readAc (stats_t b) = counted (read_accesses (dcache x)) (read_misses (dcache x))"
    "writeAc (stats_t b) = counted (write_accesses (dcache x)) (write_misses (dcache x))"
    "readAc (stats_t q) = counted 0 0" "writeAc (stats_t q) = counted 0 0"
    and ub: "Power_Load_Facts.both_access (load_store_u.missb u) k" "Power_Load_Facts.both_access (load_store_u.ifb u) k"
    "Power_Load_Facts.both_access (load_store_u.prefetchb u) k"
    "written_back t \<longrightarrow> Power_Load_Facts.both_access (load_store_u.wbb u) k"
    "Power_Load_Facts.both_access (LSQ u) (2 * n)"
    "has_LoadQ c x \<longrightarrow> Power_Load_Facts.both_access (LoadQ u) n"
    using u(4) unfolding exact_counted Let_def k_n_def q(2) by blast
  have r: "map_option local_result (load_store_u.missb u) = map_option local_result (load_store_u.missb t)"
    "map_option local_result (load_store_u.ifb u) = map_option local_result (load_store_u.ifb t)"
    "map_option local_result (load_store_u.prefetchb u) = map_option local_result (load_store_u.prefetchb t)"
    "map_option local_result (load_store_u.wbb u) = map_option local_result (load_store_u.wbb t)"
    "map_option local_result (LSQ u) = map_option local_result (LSQ t)"
    "map_option local_result (LoadQ u) = map_option local_result (LoadQ t)"
    "map_option local_result (load_store_u.caches u) = map_option local_result (load_store_u.caches t)"
    using t(2) u(2) by (simp_all add: Power_Load_Facts.results_def)
  note e = same_use_energy[OF same_use_counted(1)]
  have s: "buffer_part (the (load_store_u.missb u)) = buffer_part (the (load_store_u.missb t))"
    "buffer_part (the (load_store_u.ifb u)) = buffer_part (the (load_store_u.ifb t))"
    "buffer_part (the (load_store_u.prefetchb u)) = buffer_part (the (load_store_u.prefetchb t))"
    "queue_part (the (LSQ u)) = queue_part (the (LSQ t))"
    using e(1)[OF ub(1) tb(1) r(1)] e(1)[OF ub(2) tb(2) r(2)] e(1)[OF ub(3) tb(3) r(3)] e(2)[OF ub(5) tb(5) r(5)]
    by blast+
  have o1: "opt_part (written_back t) buffer_part (load_store_u.wbb u) = opt_part (written_back t) buffer_part (load_store_u.wbb t)"
    using e(1)[OF _ _ r(4)] ub(4) tb(4) by (auto simp: opt_part_def)
  have o2: "opt_part (has_LoadQ c x) queue_part (LoadQ u) = opt_part (has_LoadQ c x) queue_part (LoadQ t)"
    using e(2)[OF _ _ r(6)] ub(6) tb(6) by (auto simp: opt_part_def)
  have al: "Power_Load_Facts.original_energy (written_back t) b = Power_Load_Facts.original_energy (written_back t) a"
    by (rule alike_energy(1)) (use r(7) in \<open>simp add: alike_def tc uc\<close>)
  have z: "Power_Load_Facts.saved_energy (written_back t) b q = 0"
    by (simp add: Power_Load_Facts.saved_energy_def uc counted_def)
  show ?thesis
    using t(1,5) u(1,5) by (simp add: unit_energy_def q s o1 o2 tc(1,2) uc(1,2) al z)
qed

lemma l2_saved:
  assumes "Power_Cache_Facts.built s" "\<not> directory_st s" "cacheL s = L2" "dynamic_ops e" "dir_ty (cachep s) \<noteq> SBT"
  shows "\<exists>t u. Power_Shared_Cache.computeEnergy False e sys i s = Inr ((), t) \<and>
    Power_Shared_Cache.computeEnergy False e (exact_run sys) i s = Inr ((), u) \<and>
    dynamic (readOp (sc_rt_power u)) - dynamic (readOp (sc_rt_power t)) =
      Power_Cache_Facts.saved_energy (the (shared_cache.caches t)) (the (shared_cache.apcaches t))"
proof -
  have h: "has_data_arrays (cacheL s)" by (simp add: assms(3) has_data_arrays_def)
  let ?x = "sys_L2 sys i"
  obtain t a p m f q w where t: "Power_Shared_Cache.computeEnergy False e sys i s = Inr ((), t)"
    "shared_cache.caches t = Some a" "shared_cache.apcaches t = Some p" "shared_cache.missb t = Some m"
    "shared_cache.ifb t = Some f" "shared_cache.prefetchb t = Some q" "shared_cache.wbb t = Some w"
    "Power_Cache_Facts.results t = Power_Cache_Facts.results s" "Power_Cache_Facts.counted_run ?x s t"
    "dynamic (readOp (sc_rt_power t)) = dynamic (readOp (sc_rt_power s)) +
      Power_Cache_Facts.original_energy a - Power_Cache_Facts.saved_energy a p +
      buffer_part m + buffer_part f + buffer_part q + buffer_part w +
      (read_energy m + read_energy f + read_energy q + read_energy w)"
    using computeEnergy_runs[OF assms(1,2) h assms(4), of False sys i] assms(3,5)
    by (auto simp: counted_for_def Power_Cache_Facts.total_def level_of_def)
  obtain u a' p' m' f' q' w' where u: "Power_Shared_Cache.computeEnergy False e (exact_run sys) i s = Inr ((), u)"
    "shared_cache.caches u = Some a'" "shared_cache.apcaches u = Some p'" "shared_cache.missb u = Some m'"
    "shared_cache.ifb u = Some f'" "shared_cache.prefetchb u = Some q'" "shared_cache.wbb u = Some w'"
    "Power_Cache_Facts.results u = Power_Cache_Facts.results t" "Power_Cache_Facts.counted_run (exact_level ?x) s u"
    "dynamic (readOp (sc_rt_power u)) = dynamic (readOp (sc_rt_power s)) +
      Power_Cache_Facts.original_energy a' - Power_Cache_Facts.saved_energy a' p' +
      buffer_part m' + buffer_part f' + buffer_part q' + buffer_part w' +
      (read_energy m' + read_energy f' + read_energy q' + read_energy w')"
    using computeEnergy_runs[OF assms(1,2) h assms(4), of False "exact_run sys" i] assms(3,5) t(8)
    by (auto simp: counted_for_def Power_Cache_Facts.total_def level_of_def)
  have r: "local_result a' = local_result a" "local_result m' = local_result m" "local_result f' = local_result f"
    "local_result q' = local_result q" "local_result w' = local_result w"
    using u(8) by (simp_all add: Power_Cache_Facts.results_def t(2-7) u(2-7))
  have c: "readAc (stats_t a') = readAc (stats_t a)" "writeAc (stats_t a') = writeAc (stats_t a)"
    using t(9) u(9)
    by (simp_all add: Power_Cache_Facts.counted_run_def same_counts_def counts_of_def exact_level_def t(2-7) u(2-7))
  have z: "Power_Cache_Facts.saved_energy a' p' = 0"
    using u(9) by (simp add: Power_Cache_Facts.counted_run_def same_counts_def approx_counts_of_def exact_level_def
        Power_Cache_Facts.saved_energy_def counted_def u(2-7))
  have al: "Power_Cache_Facts.original_energy a' = Power_Cache_Facts.original_energy a"
    by (rule alike_energy(2)) (simp add: alike_def r c)
  have b: "buffer_part m' = buffer_part m" "buffer_part f' = buffer_part f" "buffer_part q' = buffer_part q"
    "buffer_part w' = buffer_part w"
    using t(9) u(9)
    by (simp_all add: buffer_part_def r search_energy_def write_energy_def Power_Cache_Facts.counted_run_def
        buffers_see_def Power_Cache_Facts.both_access_def exact_level_def assms(5) t(2-7) u(2-7))
  show ?thesis
    using t(1,2,3,10) u(1,10) by (simp add: al z b r read_energy_def)
qed

text \<open>Of the operations of a functional unit, \<open>appadd_instructions\<close> of every \<open>int_instructions\<close> are charged
  as approximate ones.\<close>

definition fu_saving :: "tech \<Rightarrow> root_system \<Rightarrow> nat \<Rightarrow> core_dyn_param \<Rightarrow> functional_unit option \<Rightarrow> real" where
  "fu_saving g sys i c u = (let f = the u; x = sys_core sys i; n = unit_accesses sys f in
     appadd_instructions x / int_instructions x *
     ((per_access_energy f - per_access_energy_approx f) * n +
      (base_energy f - base_energy_approx f) * executionTime c) * sckt_co_eff g)"

lemma fu_saved:
  assumes "unit_for i t u" "int_instructions (sys_core sys i) \<noteq> 0"
  shows "fu_dynamic False g (exact_run sys) c u - fu_dynamic False g sys c u = fu_saving g sys i c u"
proof -
  obtain f where f: "u = Some f" "ithCore f = i" using assms(1) by (auto simp: unit_for_def)
  have "exact_instructions sys f + appadd_instructions (sys_core sys i) = int_instructions (sys_core sys i)"
    "exact_instructions (exact_run sys) f = int_instructions (sys_core sys i)"
    "unit_accesses (exact_run sys) f = unit_accesses sys f"
    using exact_instructions_sum[of sys f] f(2)
    by (simp_all add: exact_instructions_def unit_accesses_def exact_core_def split: FU_type.split)
  note sums = this
  have q: "weighted x (exact_instructions sys f) y (appadd_instructions (sys_core sys i)) =
      Inr ((x * exact_instructions sys f + y * appadd_instructions (sys_core sys i)) / int_instructions (sys_core sys i))" for x y
    using weighted_eq(1)[of "exact_instructions sys f" "appadd_instructions (sys_core sys i)" x y] sums(1) assms(2) by simp
  have q0: "weighted x (int_instructions (sys_core sys i)) y 0 = Inr x" for x y
    using assms(2) weighted_eq(1)[of "int_instructions (sys_core sys i)" 0 x y] by simp
  have a0: "appadd_instructions (exact_core (sys_core sys i)) = 0" by (simp add: exact_core_def)
  have ex: "exact_instructions sys f = int_instructions (sys_core sys i) - appadd_instructions (sys_core sys i)"
    using sums(1) by simp
  define y z where "y = per_access_energy f * unit_accesses sys f + base_energy f * executionTime c"
    "z = per_access_energy_approx f * unit_accesses sys f + base_energy_approx f * executionTime c"
  have d: "fu_dynamic False g sys c u = (y * exact_instructions sys f + z * appadd_instructions (sys_core sys i)) /
      int_instructions (sys_core sys i) * sckt_co_eff g" "fu_dynamic False g (exact_run sys) c u = y * sckt_co_eff g"
    by (simp_all add: fu_dynamic_def fu_result_def Power_Units.computeEnergy_def runtime_energy_def f sums(2,3) a0 q q0
        fu_total_def scale_rest_def y_z_def Let_def)
  have s: "fu_saving g sys i c u = appadd_instructions (sys_core sys i) / int_instructions (sys_core sys i) *
      (y - z) * sckt_co_eff g"
    by (simp add: fu_saving_def f y_z_def Let_def algebra_simps)
  show ?thesis
    unfolding d s ex using assms(2) by (simp add: field_simps)
qed

section \<open>The saving of a core\<close>

definition dcache_saving :: "mcpat_core \<Rightarrow> real" where
  "dcache_saving t = (let l = the (lsu t) in Power_Load_Facts.saved_energy (written_back l)
     (the (load_store_u.caches l)) (the (load_store_u.apcaches l)))"

definition units_saving :: "tech \<Rightarrow> root_system \<Rightarrow> nat \<Rightarrow> mcpat_core \<Rightarrow> real" where
  "units_saving g sys i k = (let c = coredynp k; u = the (exu k) in fu_saving g sys i c (exeu u) +
     when_real (0 < num_muls c) (fu_saving g sys i c (mul u)) +
     when_real (0 < num_fpus c) (fu_saving g sys i c (fp_u u)))"

definition l2_saving :: "mcpat_core \<Rightarrow> real" where
  "l2_saving t = (let l = the (l2cache t) in
     Power_Cache_Facts.saved_energy (the (shared_cache.caches l)) (the (shared_cache.apcaches l)))"

lemma exec_saved:
  assumes "core_built sys i k" "field_ops e" "int_instructions (sys_core sys i) \<noteq> 0"
    "Power_Execute.computeEnergy False e g (coredynp k) sys i (the (exu k)) = Inr ((), v)"
    "Power_Execute.computeEnergy False e g (coredynp k) (exact_run sys) i (the (exu k)) = Inr ((), w)"
  shows "dynamic (readOp (u_rt_power w)) - dynamic (readOp (u_rt_power v)) = units_saving g sys i k"
proof -
  let ?c = "coredynp k" and ?u = "the (exu k)"
  have b: "Power_Execute.built ?c (sys_core sys i) i ?u" "u_exist ?u" "clockRate ?c \<noteq> 0"
    using assms(1) by (auto simp: core_built_def Let_def)
  have b': "Power_Execute.built ?c (sys_core (exact_run sys) i) i ?u" using b(1) by (simp add: built_exact)
  have n': "int_instructions (sys_core (exact_run sys) i) \<noteq> 0" using assms(3) by (simp add: exact_core_sel)
  have v: "dynamic (readOp (u_rt_power v)) = dynamic (readOp (u_rt_power ?u)) + exec_part False e g ?c sys i ?u"
    using exec_energy_runs[OF b(1,2) assms(2,3) b(3), of False g] assms(4) by (simp add: wpS_def unit_total_def)
  have w: "dynamic (readOp (u_rt_power w)) = dynamic (readOp (u_rt_power ?u)) + exec_part False e g ?c (exact_run sys) i ?u"
    using exec_energy_runs[OF b' b(2) assms(2) n' b(3), of False g] assms(5) by (simp add: wpS_def unit_total_def)
  have u: "unit_for i ALU (exeu ?u)" "0 < num_muls ?c \<longrightarrow> unit_for i MUL (mul ?u)"
    "0 < num_fpus ?c \<longrightarrow> unit_for i FPU (fp_u ?u)"
    using b(1,2) by (auto simp: Power_Execute.built_def units_built_def)
  have d: "exec_part False e g ?c (exact_run sys) i ?u - exec_part False e g ?c sys i ?u =
      (fu_dynamic False g (exact_run sys) ?c (exeu ?u) - fu_dynamic False g sys ?c (exeu ?u)) +
      when_real (0 < num_muls ?c) (fu_dynamic False g (exact_run sys) ?c (mul ?u) - fu_dynamic False g sys ?c (mul ?u)) +
      when_real (0 < num_fpus ?c) (fu_dynamic False g (exact_run sys) ?c (fp_u ?u) - fu_dynamic False g sys ?c (fp_u ?u))"
    by (simp add: exec_part_def rest_exact when_real_def)
  show ?thesis
    using u fu_saved[OF _ assms(3), where g = g and c = ?c]
    unfolding units_saving_def Let_def by (auto simp: v w d when_real_def)
qed

lemma core_saved:
  assumes "core_built sys i k" "field_ops e" "int_instructions (sys_core sys i) \<noteq> 0"
    "Private_L2 sys \<longrightarrow> \<not> merged_dir (sys_L2 sys i)"
  shows "\<exists>t u. computeEnergy False e g sys i k = Inr ((), t) \<and> computeEnergy False e g (exact_run sys) i k = Inr ((), u) \<and>
    dynamic (readOp (co_rt_power t)) = dynamic (readOp (co_rt_power u)) -
      (dcache_saving t + units_saving g sys i k + (if Private_L2 sys then l2_saving t else 0))"
proof -
  let ?c = "coredynp k" and ?x = "sys_core sys i"
  have k': "core_built (exact_run sys) i k" "int_instructions (sys_core (exact_run sys) i) \<noteq> 0"
    using assms(1,3) by (simp_all add: core_built_exact exact_core_sel)
  obtain v t where t: "computeEnergy False e g sys i k = Inr ((), t)" "coredynp t = ?c" "undiff_energy t = undiff_energy k"
    "units_ran False e g sys i k v" "core_frame k v" "same_dcache v t"
    "units_energy False t = units_energy False v + pipe_energy False sys k"
    "Private_L2 sys \<longrightarrow> Power_Shared_Cache.computeEnergy False e sys i (the (l2cache k)) = Inr ((), the (l2cache t))"
    "dynamic (readOp (co_rt_power t)) = dynamic (readOp (co_rt_power k)) + units_energy False t + undiff_energy t +
      (if Private_L2 sys then l2_energy False t else 0)"
    using core_runs[OF assms(1-3), of False g] by (auto simp: core_total_def)
  obtain w u where u: "computeEnergy False e g (exact_run sys) i k = Inr ((), u)" "undiff_energy u = undiff_energy k"
    "units_ran False e g (exact_run sys) i k w" "core_frame k w"
    "units_energy False u = units_energy False w + pipe_energy False sys k"
    "Private_L2 sys \<longrightarrow>
      Power_Shared_Cache.computeEnergy False e (exact_run sys) i (the (l2cache k)) = Inr ((), the (l2cache u))"
    "dynamic (readOp (co_rt_power u)) = dynamic (readOp (co_rt_power k)) + units_energy False u + undiff_energy u +
      (if Private_L2 sys then l2_energy False u else 0)"
    using core_runs[OF k'(1) assms(2) k'(2), of False g]
    by (auto simp: core_total_def pipe_energy_def pipe_activity_def)
  note ran = t(4)[unfolded units_ran_def Let_def] u(3)[unfolded units_ran_def Let_def exact_run_sel
      fetch_exact tlb_exact rename_exact]
  have same: "the (ifu w) = the (ifu v)" "the (mmu w) = the (mmu v)" "core_ty ?c = OOO \<longrightarrow> the (rnu w) = the (rnu v)"
    using ran by auto
  have ls: "dynamic (readOp (ls_rt_power (the (lsu w)))) - dynamic (readOp (ls_rt_power (the (lsu v)))) = dcache_saving t"
    using lsu_saved[of ?c ?x "the (lsu k)" e] assms(1) field_dynamic[OF assms(2)] ran t(6)
    by (auto simp: core_built_def dcache_saving_def same_dcache_def written_back_def Let_def)
  have ex: "dynamic (readOp (u_rt_power (the (exu w)))) - dynamic (readOp (u_rt_power (the (exu v)))) = units_saving g sys i k"
    using exec_saved[OF assms(1-3)] ran by blast
  have l2: "l2_energy False u - l2_energy False t = l2_saving t" if "Private_L2 sys"
  proof -
    have "Power_Cache_Facts.built (the (l2cache k))" "\<not> directory_st (the (l2cache k))" "cacheL (the (l2cache k)) = L2"
      "dir_ty (cachep (the (l2cache k))) \<noteq> SBT"
      using assms(1,4) that by (auto simp: core_built_def Let_def)
    from l2_saved[OF this(1-3) field_dynamic[OF assms(2)] this(4), of sys i] show ?thesis
      using that t(8) u(6) by (auto simp: l2_energy_def l2_saving_def Let_def)
  qed
  have "units_energy False w - units_energy False v = dcache_saving t + units_saving g sys i k"
    using ls ex same t(5) u(4)
    by (auto simp: units_energy_def core_frame_def unit_total_def Power_Load_Facts.total_def)
  then show ?thesis
    using t(1,3,7,9) u(1,2,5,7) l2 by auto
qed

text \<open>C18. When a core has been built and its peak computed, its run-time energy with approximate accesses and additions is
  that of the same run made exact, less three savings: the accesses of the data cache and of a private second level at the reduced voltages,
  and the share of approximate additions of each functional unit.\<close>

theorem core_saving:
  assumes "sane_core e su sys i" "field_ops e" "int_instructions (sys_core sys i) \<noteq> 0"
    "Private_L2 sys \<longrightarrow> \<not> merged_dir (sys_L2 sys i)"
  shows "\<exists>k p t u. Core e su sys i ip = Inr k \<and> computeEnergy True e g sys i k = Inr ((), p) \<and>
    computeEnergy False e g sys i p = Inr ((), t) \<and> computeEnergy False e g (exact_run sys) i p = Inr ((), u) \<and>
    dynamic (readOp (co_rt_power t)) = dynamic (readOp (co_rt_power u)) -
      (dcache_saving t + units_saving g sys i p + (if Private_L2 sys then l2_saving t else 0))"
proof -
  obtain k where k: "Core e su sys i ip = Inr k" "core_built sys i k"
    using core_constructed[OF assms(1), of ip] by blast
  obtain p where p: "computeEnergy True e g sys i k = Inr ((), p)" "core_built sys i p"
    using core_runs[OF k(2) assms(2,3), of True g] by blast
  show ?thesis
    using k(1) p(1) core_saved[OF p(2) assms(2-4), of g] by blast
qed

theorem core_saving_witness:
  "\<exists>k p t u. Core small_env small_setup private_sys 0 small_ip = Inr k \<and>
    computeEnergy True small_env small_tech private_sys 0 k = Inr ((), p) \<and>
    computeEnergy False small_env small_tech private_sys 0 p = Inr ((), t) \<and>
    computeEnergy False small_env small_tech (exact_run private_sys) 0 p = Inr ((), u) \<and>
    dynamic (readOp (co_rt_power t)) = dynamic (readOp (co_rt_power u)) -
      (dcache_saving t + units_saving small_tech private_sys 0 p + l2_saving t)"
  using core_saving[OF private_sane small_env_field private_counts(1), of 0 small_ip small_tech] private_counts(2)
  by (simp add: private_sys_def)

end
