(* ===== verification/Power_Chip.thy ===== *)
theory Power_Chip
  imports Power_Cache_Facts
begin

text \<open>
  The part of \<open>Processor::Processor\<close> (\<open>src/mcpat/added/processor.cc\<close>) that builds the shared caches
  and the directories, computes their peak and run-time energy and adds them, in watts, to the sums of
  their kind and of the chip. A homogeneous kind is built once and multiplied.
\<close>

section \<open>The sums\<close>

record tally =
  sum_area :: real
  sum_power :: power_def
  sum_rt_power :: power_def

record processor =
  l2 :: tally
  l3 :: tally
  l1dir :: tally
  l2dir :: tally
  chip :: tally

definition kind_of :: "cache_level \<Rightarrow> 'x processor_scheme \<Rightarrow> tally" where
  "kind_of lvl p = (case lvl of L2 \<Rightarrow> l2 p | L3 \<Rightarrow> l3 p | L1Directory \<Rightarrow> l1dir p | L2Directory \<Rightarrow> l2dir p)"

definition set_kind :: "cache_level \<Rightarrow> tally \<Rightarrow> 'x processor_scheme \<Rightarrow> 'x processor_scheme" where
  "set_kind lvl x p = (case lvl of L2 \<Rightarrow> p\<lparr>l2 := x\<rparr> | L3 \<Rightarrow> p\<lparr>l3 := x\<rparr> | L1Directory \<Rightarrow> p\<lparr>l1dir := x\<rparr>
     | L2Directory \<Rightarrow> p\<lparr>l2dir := x\<rparr>)"

lemma kind_set [simp]: "kind_of lvl (set_kind lvl x p) = x" "chip (set_kind lvl x p) = chip p"
  by (cases lvl; simp add: kind_of_def set_kind_def)+

text \<open>\<open>x + y * pppm\<close>\<close>

definition plus_scaled :: "mcpat_env \<Rightarrow> power_def \<Rightarrow> power_def \<Rightarrow> real \<Rightarrow> real \<Rightarrow> power_def" where
  "plus_scaled e x y d n = power_plus e x (power_times e y [d, n, n, n])"

definition add_homogeneous ::
  "mcpat_env \<Rightarrow> int \<Rightarrow> cache_level \<Rightarrow> shared_cache \<Rightarrow> 'x processor_scheme \<Rightarrow> 'x processor_scheme result" where
  "add_homogeneous e n lvl s p = bindE (quotient 1 (cp_executionTime (cachep s))) (\<lambda>r.
     let k = kind_of lvl p; c = chip p; m = of_int n;
         k' = \<lparr>sum_area = sum_area k + sc_area s * m,
               sum_power = plus_scaled e (sum_power k) (sc_power s) (cp_clockRate (cachep s) * m) m,
               sum_rt_power = plus_scaled e (sum_rt_power k) (sc_rt_power s) r m\<rparr>
     in Inr ((set_kind lvl k' p)\<lparr>chip := \<lparr>sum_area = sum_area c + sum_area k',
          sum_power = power_plus e (sum_power c) (sum_power k'),
          sum_rt_power = power_plus e (sum_rt_power c) (sum_rt_power k')\<rparr>\<rparr>))"

text \<open>First-level directories enter the sum of the chip without the factors.\<close>

definition add_heterogeneous ::
  "mcpat_env \<Rightarrow> cache_level \<Rightarrow> shared_cache \<Rightarrow> 'x processor_scheme \<Rightarrow> 'x processor_scheme result" where
  "add_heterogeneous e lvl s p = bindE (quotient 1 (cp_executionTime (cachep s))) (\<lambda>r.
     let k = kind_of lvl p; c = chip p; f = cp_clockRate (cachep s);
         k' = \<lparr>sum_area = sum_area k + sc_area s,
               sum_power = plus_scaled e (sum_power k) (sc_power s) f 1,
               sum_rt_power = plus_scaled e (sum_rt_power k) (sc_rt_power s) r 1\<rparr>
     in Inr ((set_kind lvl k' p)\<lparr>chip := (if lvl = L1Directory then
          \<lparr>sum_area = sum_area c + sc_area s, sum_power = power_plus e (sum_power c) (sc_power s),
           sum_rt_power = power_plus e (sum_rt_power c) (sc_rt_power s)\<rparr>
        else
          \<lparr>sum_area = sum_area c + sc_area s, sum_power = plus_scaled e (sum_power c) (sc_power s) f 1,
           sum_rt_power = plus_scaled e (sum_rt_power c) (sc_rt_power s) r 1\<rparr>)\<rparr>))"

section \<open>The loops\<close>

definition cache_unit ::
  "mcpat_env \<Rightarrow> root_system \<Rightarrow> input_parameter \<Rightarrow> cache_level \<Rightarrow> cache_dyn_param \<Rightarrow> stats_def \<Rightarrow> nat \<Rightarrow>
     shared_cache result" where
  "cache_unit e sys ip lvl cp junk i =
     bindE (SharedCache e sys i ip lvl cp junk) (\<lambda>s.
     bindE (computeEnergy True e sys i s) (\<lambda>(_, s).
     bindE (computeEnergy False e sys i s) (\<lambda>(_, s). Inr s)))"

definition turns :: "bool \<Rightarrow> int \<Rightarrow> nat" where
  "turns homo n = (if homo then if n = 0 then 0 else 1 else nat n)"

definition add_caches ::
  "mcpat_env \<Rightarrow> root_system \<Rightarrow> input_parameter \<Rightarrow> cache_dyn_param \<Rightarrow> stats_def \<Rightarrow> bool \<Rightarrow> int \<Rightarrow> cache_level \<Rightarrow>
     'x processor_scheme \<Rightarrow> 'x processor_scheme result" where
  "add_caches e sys ip cp junk homo n lvl =
     foldE (\<lambda>i p. bindE (cache_unit e sys ip lvl cp junk i) (\<lambda>s.
       if homo then add_homogeneous e n lvl s p else add_heterogeneous e lvl s p)) [0..<turns homo n]"

record proc_counts =
  homoL2 :: bool
  numL2 :: int
  homoL3 :: bool
  numL3 :: int
  homoL1Dir :: bool
  numL1Dir :: int
  homoL2Dir :: bool
  numL2Dir :: int

definition shared_caches ::
  "mcpat_env \<Rightarrow> root_system \<Rightarrow> input_parameter \<Rightarrow> cache_dyn_param \<Rightarrow> stats_def \<Rightarrow> proc_counts \<Rightarrow>
     'x processor_scheme \<Rightarrow> 'x processor_scheme result" where
  "shared_caches e sys ip cp junk d p =
     bindE (if \<not> Private_L2 sys then add_caches e sys ip cp junk (homoL2 d) (numL2 d) L2 p else Inr p)
     (\<lambda>p. bindE (add_caches e sys ip cp junk (homoL3 d) (numL3 d) L3 p)
     (\<lambda>p. bindE (add_caches e sys ip cp junk (homoL1Dir d) (numL1Dir d) L1Directory p)
     (add_caches e sys ip cp junk (homoL2Dir d) (numL2Dir d) L2Directory)))"

section \<open>The dynamic power of the chip\<close>

definition peak :: "tally \<Rightarrow> real" where
  "peak x = dynamic (readOp (sum_power x))"

definition runtime :: "tally \<Rightarrow> real" where
  "runtime x = dynamic (readOp (sum_rt_power x))"

lemma plus_scaled_dynamic:
  "field_ops e \<Longrightarrow> dynamic (readOp (plus_scaled e x y d n)) = dynamic (readOp x) + dynamic (readOp y) * d"
  by (simp add: field_ops_def plus_scaled_def)

text \<open>The energies of a cache are what \<open>computeEnergy\<close> adds to the zero the constructor leaves.\<close>

definition cache_peak :: "shared_cache \<Rightarrow> real" where
  "cache_peak s = dynamic (readOp (sc_power s))"

definition cache_run :: "shared_cache \<Rightarrow> real" where
  "cache_run s = dynamic (readOp (sc_rt_power s))"

lemma cache_unit_runs:
  assumes "sane_level sys i lvl" "dynamic_ops e"
  shows "\<exists>s. cache_unit e sys ip lvl cp junk i = Inr s \<and> cp_clockRate (cachep s) = level_clock sys i lvl \<and>
    cp_executionTime (cachep s) = chip_time sys"
proof -
  obtain s where s: "SharedCache e sys i ip lvl cp junk = Inr s" "cacheL s = lvl" "well_made e sys i ip s"
    using SharedCache_runs[OF assms(1)] by blast
  then have w: "built s" "\<not> directory_st s" "has_data_arrays (cacheL s)"
    "cp_clockRate (cachep s) = level_clock sys i lvl" "cp_executionTime (cachep s) = chip_time sys"
    using assms(1) by (auto simp: well_made_def sane_level_def Let_def)
  obtain t where t: "computeEnergy True e sys i s = Inr ((), t)" "built t" "cachep t = cachep s" "cacheL t = cacheL s"
    using computeEnergy_runs[OF w(1-3) assms(2), of True sys i] by (auto simp: built_def)
  then obtain u where "computeEnergy False e sys i t = Inr ((), u)" "cachep u = cachep t"
    using computeEnergy_runs[OF t(2) _ _ assms(2), of False sys i] w by (auto simp: directory_st_def)
  then show ?thesis using s t w by (auto simp: cache_unit_def)
qed

lemma hetero_step:
  assumes "field_ops e" "lvl \<noteq> L1Directory" "cp_executionTime (cachep s) \<noteq> 0"
  shows "\<exists>q. add_heterogeneous e lvl s p = Inr q \<and>
    peak (chip q) = peak (chip p) + cp_clockRate (cachep s) * cache_peak s \<and>
    runtime (chip q) = runtime (chip p) + cache_run s / cp_executionTime (cachep s)"
  using assms
  by (simp add: add_heterogeneous_def Let_def peak_def runtime_def plus_scaled_dynamic cache_peak_def
      cache_run_def)

lemma homo_step:
  assumes "field_ops e" "cp_executionTime (cachep s) \<noteq> 0"
    and "peak (kind_of lvl p) = 0" "runtime (kind_of lvl p) = 0"
  shows "\<exists>q. add_homogeneous e n lvl s p = Inr q \<and>
    peak (chip q) = peak (chip p) + of_int n * (cp_clockRate (cachep s) * cache_peak s) \<and>
    runtime (chip q) = runtime (chip p) + cache_run s / cp_executionTime (cachep s)"
proof -
  have "dynamic (readOp (power_plus e x y)) = dynamic (readOp x) + dynamic (readOp y)" for x y
    using assms(1) by (simp add: field_ops_def)
  then show ?thesis
    using assms
    by (simp add: add_homogeneous_def Let_def peak_def runtime_def plus_scaled_dynamic cache_peak_def
        cache_run_def)
qed

definition chip_gains ::
  "root_system \<Rightarrow> cache_level \<Rightarrow> bool \<Rightarrow> int \<Rightarrow> nat \<Rightarrow> (nat \<Rightarrow> shared_cache) \<Rightarrow> 'x processor_scheme \<Rightarrow> 'x processor_scheme \<Rightarrow> bool" where
  "chip_gains sys lvl homo n k s p q \<longleftrightarrow>
     peak (chip q) = peak (chip p) +
       (\<Sum>i<k. (if homo then of_int n else 1) * (level_clock sys i lvl * cache_peak (s i))) \<and>
     runtime (chip q) = runtime (chip p) + (\<Sum>i<k. cache_run (s i) / chip_time sys)"

lemma hetero_loop:
  assumes "field_ops e" "lvl \<noteq> L1Directory" "chip_time sys \<noteq> 0"
    and "\<And>i. i < nat n \<Longrightarrow> cache_unit e sys ip lvl cp junk i = Inr (s i) \<and>
      cp_clockRate (cachep (s i)) = level_clock sys i lvl \<and> cp_executionTime (cachep (s i)) = chip_time sys"
  shows "\<exists>q. add_caches e sys ip cp junk False n lvl p = Inr q \<and> chip_gains sys lvl False n (nat n) s p q"
proof -
  let ?f = "\<lambda>i p. bindE (cache_unit e sys ip lvl cp junk i) (\<lambda>s. add_heterogeneous e lvl s p)"
  have "\<exists>q. foldE ?f [0..<k] p = Inr q \<and> chip_gains sys lvl False n k s p q" if "k \<le> nat n" for k
    using that
  proof (induction k)
    case 0
    then show ?case by (simp add: chip_gains_def)
  next
    case (Suc k)
    then obtain q where "foldE ?f [0..<k] p = Inr q" "chip_gains sys lvl False n k s p q" by auto
    then show ?case
      using assms(3) assms(4)[of k] Suc.prems hetero_step[OF assms(1,2), of "s k" q]
      by (auto simp: foldE_append chip_gains_def)
  qed
  from this[of "nat n"] show ?thesis by (simp add: add_caches_def turns_def)
qed

lemma level_gains:
  assumes sane: "\<And>i. i < turns homo n \<Longrightarrow> sane_level sys i lvl" and "has_data_arrays lvl"
    and "field_ops e" "chip_time sys \<noteq> 0"
    and "peak (kind_of lvl p) = 0" "runtime (kind_of lvl p) = 0"
  shows "\<exists>s q. (\<forall>i<turns homo n. cache_unit e sys ip lvl cp junk i = Inr (s i)) \<and>
    add_caches e sys ip cp junk homo n lvl p = Inr q \<and> chip_gains sys lvl homo n (turns homo n) s p q"
proof -
  have "\<forall>i. \<exists>s. i < turns homo n \<longrightarrow> cache_unit e sys ip lvl cp junk i = Inr s \<and>
      cp_clockRate (cachep s) = level_clock sys i lvl \<and> cp_executionTime (cachep s) = chip_time sys"
    using cache_unit_runs[OF sane field_dynamic[OF assms(3)]] by meson
  then obtain s where s: "\<And>i. i < turns homo n \<Longrightarrow> cache_unit e sys ip lvl cp junk i = Inr (s i) \<and>
      cp_clockRate (cachep (s i)) = level_clock sys i lvl \<and> cp_executionTime (cachep (s i)) = chip_time sys"
    by metis
  have "\<exists>q. add_caches e sys ip cp junk homo n lvl p = Inr q \<and> chip_gains sys lvl homo n (turns homo n) s p q"
  proof (cases homo)
    case False
    then show ?thesis
      using hetero_loop[OF assms(3) _ assms(4), of lvl n ip cp junk s p] s assms(2)
      by (auto simp: turns_def has_data_arrays_def)
  next
    case True
    then show ?thesis
      using homo_step[OF assms(3) _ assms(5,6), of "s 0" n] s[of 0] assms(4)
      by (cases "n = 0") (auto simp: add_caches_def turns_def chip_gains_def)
  qed
  then show ?thesis using s by blast
qed

text \<open>C23. The caches of a level add to the dynamic power of the chip the sum of their peak energies times
  their clock, and the sum of their run-time energies over the execution time. A homogeneous level is
  built once: its peak counts as often as there are caches, its run-time energy once.\<close>

theorem chip_power:
  assumes sane: "\<And>i. i < turns homo n \<Longrightarrow> sane_level sys i lvl" and "has_data_arrays lvl"
    and "field_ops e" "chip_time sys \<noteq> 0"
    and "peak (kind_of lvl p) = 0" "runtime (kind_of lvl p) = 0"
  shows "\<exists>s q. (\<forall>i<turns homo n. cache_unit e sys ip lvl cp junk i = Inr (s i)) \<and>
    add_caches e sys ip cp junk homo n lvl p = Inr q \<and> chip_gains sys lvl homo n (turns homo n) s p q"
  using assms by (rule level_gains)

text \<open>A first-level directory adds joules to the watts of the chip.\<close>

lemma first_level_directory_unscaled:
  assumes "field_ops e" "cp_executionTime (cachep s) \<noteq> 0"
  shows "\<exists>q. add_heterogeneous e L1Directory s p = Inr q \<and> peak (chip q) = peak (chip p) + cache_peak s \<and>
    peak (l1dir q) = peak (l1dir p) + cp_clockRate (cachep s) * cache_peak s"
  using assms(2) plus_scaled_dynamic[OF assms(1)] assms(1)
  by (simp add: add_heterogeneous_def Let_def peak_def cache_peak_def kind_of_def set_kind_def field_ops_def)

section \<open>Example\<close>

definition empty_tally :: tally where
  "empty_tally = \<lparr>sum_area = 0, sum_power = powerDef_reset, sum_rt_power = powerDef_reset\<rparr>"

definition empty_processor :: processor where
  "empty_processor = \<lparr>l2 = empty_tally, l3 = empty_tally, l1dir = empty_tally, l2dir = empty_tally,
     chip = empty_tally\<rparr>"

theorem chip_power_witness:
  "\<exists>s q. (\<forall>i<2. cache_unit small_env small_sys small_ip L2 small_cp no_stats i = Inr (s i)) \<and>
     add_caches small_env small_sys small_ip small_cp no_stats False 2 L2 empty_processor = Inr q \<and>
     chip_gains small_sys L2 False 2 2 s empty_processor q"
proof -
  have "sane_level small_sys i L2" for i
    by (simp add: sane_level_def has_data_arrays_def level_of_def overhead_def small_sys_def small_LX_def)
  moreover have "field_ops small_env"
    by (simp add: field_ops_def small_env_def comp_plus_def comp_times_def)
  moreover have "chip_time small_sys \<noteq> 0" by (simp add: chip_time_def small_sys_def)
  moreover have "peak (kind_of L2 empty_processor) = 0" "runtime (kind_of L2 empty_processor) = 0"
    by (simp_all add: peak_def runtime_def kind_of_def empty_processor_def empty_tally_def)
  ultimately show ?thesis
    using chip_power[where homo = False and n = 2 and lvl = L2 and sys = small_sys and e = small_env
        and p = empty_processor and ip = small_ip and cp = small_cp and junk = no_stats]
    by (simp add: turns_def has_data_arrays_def)
qed

end
