(* ===== verification/Power_Processor.thy ===== *)
theory Power_Processor
  imports Power_Chip Power_Saving
begin

text \<open>
  \<open>Processor::Processor\<close> of \<open>src/mcpat/added/processor.cc\<close> as a whole: the parameters of the chip, the
  loop over the cores, the shared caches of \<open>Power_Chip\<close>, the controllers and the networks. Controllers and
  networks are classes outside the repository and enter by what the constructor reads of them.
\<close>

section \<open>The parameters of the chip\<close>

text \<open>The parameters that are the same for every array of a chip.\<close>

record design_parameter = input_parameter +
  ip_F_sz_nm :: real
  ic_proj_type :: u32
  weights :: "int list"              \<comment> \<open>delay, area, dynamic power, leakage power, cycle time\<close>
  deviations :: "int list"           \<comment> \<open>in the same order\<close>
  ip_ed :: int
  burst_len :: u32
  int_prefetch_w :: u32
  page_sz_bits :: u32
  is_main_mem :: bool
  rpters_in_htree :: bool
  ver_htree_wires_over_array :: u32
  broadcast_addr_din_over_ver_htrees :: u32
  nuca :: int
  nuca_bank_count :: int
  ip_power_gating :: bool
  force_wiretype :: int
  print_detail :: int
  add_ecc_b :: bool

record chip_design = root_system +
  number_of_L2s :: int
  number_of_L3s :: int
  number_of_NoCs :: int
  number_of_L1Directories :: int
  number_of_L2Directories :: int
  homogeneous_L2s :: int
  homogeneous_L3s :: int
  homogeneous_NoCs :: int
  homogeneous_L1Directories :: int
  homogeneous_L2Directories :: int
  core_tech_node :: real
  temperature :: int
  sys_device_type :: int
  interconnect_projection_type :: int
  power_gating :: bool
  mc_number_mcs :: int
  memory_channels_per_mc :: int
  flashc_number_mcs :: int
  niu_number_units :: int
  pcie_number_units :: int
  pcie_num_channels :: int
  noc_type :: "nat \<Rightarrow> bool"
  chip_coverage :: "nat \<Rightarrow> real"

record chip_counts = proc_counts +
  homoCore :: bool
  numCore :: int
  homoNOC :: bool
  numNOC :: int
  numMC :: int
  numMCChannel :: int

definition load_counts_of :: "chip_design \<Rightarrow> chip_counts" where
  "load_counts_of x = \<lparr>homoL2 = homogeneous_L2s x \<noteq> 0, numL2 = number_of_L2s x,
     homoL3 = homogeneous_L3s x \<noteq> 0, numL3 = number_of_L3s x,
     homoL1Dir = homogeneous_L1Directories x \<noteq> 0, numL1Dir = number_of_L1Directories x,
     homoL2Dir = homogeneous_L2Directories x \<noteq> 0, numL2Dir = number_of_L2Directories x,
     homoCore = homogeneous_cores x \<noteq> 0, numCore = number_of_cores x,
     homoNOC = homogeneous_NoCs x \<noteq> 0, numNOC = number_of_NoCs x, numMC = mc_number_mcs x,
     numMCChannel = memory_channels_per_mc x\<rparr>"

definition base_ip :: "chip_design \<Rightarrow> design_parameter \<Rightarrow> design_parameter" where
  "base_ip x ip = (let dev = word_of_int (sys_device_type x) in
     ip\<lparr>data_arr_ram_cell_tech_type := dev, data_arr_peri_global_tech_type := dev,
       tag_arr_ram_cell_tech_type := dev, tag_arr_peri_global_tech_type := dev,
       specific_hp_vdd := False, specific_lop_vdd := False, specific_lstp_vdd := False,
       ic_proj_type := word_of_int (interconnect_projection_type x),
       weights := [100, 0, 100, 0, 0], deviations := [10000, 10000, 10000, 10000, 10000],
       ip_ed := 2, burst_len := 1, int_prefetch_w := 1, page_sz_bits := 0,
       temp := word_of_int (temperature x), ip_F_sz_nm := core_tech_node x,
       F_sz_um := core_tech_node x / 1000\<rparr>)"

text \<open>Values that every unit sets again.\<close>

definition default_ip :: "design_parameter \<Rightarrow> design_parameter" where
  "default_ip ip = ip\<lparr>cache_sz := 64, line_sz := 1, assoc := 1, nbanks := 1, out_w := 8,
     specific_tag := True, tag_w := 64, access_mode := 2, obj_func_dyn_energy := 0,
     obj_func_dyn_power := 0, obj_func_leak_power := 0, obj_func_cycle_t := 1,
     is_main_mem := False, rpters_in_htree := True, ver_htree_wires_over_array := 0,
     broadcast_addr_din_over_ver_htrees := 0, num_rw_ports := 1, num_rd_ports := 0,
     num_wr_ports := 0, num_se_rd_ports := 0, num_search_ports := 1, nuca := 0,
     nuca_bank_count := 0, is_cache := True, pure_ram := False, pure_cam := False,
     force_cache_config := False\<rparr>"

definition set_proc_param :: "chip_design \<Rightarrow> design_parameter \<Rightarrow> chip_counts \<times> design_parameter" where
  "set_proc_param x ip = (let ip = (default_ip (base_ip x ip))\<lparr>ip_power_gating := power_gating x\<rparr>;
       wires = (if Embedded x then ip\<lparr>wt := Global_30, wire_is_mat_type := 0, wire_os_mat_type := 0\<rparr>
                else ip\<lparr>wt := Global, wire_is_mat_type := 2, wire_os_mat_type := 2\<rparr>)
     in (load_counts_of x, wires\<lparr>force_wiretype := 0, print_detail := 1, add_ecc_b := True\<rparr>))"

section \<open>Units outside the repository\<close>

text \<open>What the constructor reads of a controller after both passes of \<open>computeEnergy\<close>, and of a network:
  \<open>init_link_bus\<close> gives it the global links and sets their area.\<close>

record chip_unit =
  cu_area :: real
  cu_power :: power_def
  cu_rt_power :: power_def
  cu_clockRate :: real
  cu_executionTime :: real

record noc_unit = chip_unit +
  has_global_link :: bool
  total_nodes :: real
  link_bus_area :: real

record chip_env =
  MemoryController :: "chip_design \<Rightarrow> design_parameter \<Rightarrow> chip_unit result"
  FlashController :: "chip_design \<Rightarrow> design_parameter \<Rightarrow> (chip_unit \<times> real) result"  \<comment> \<open>with \<open>fcp.num_mcs\<close>\<close>
  NIUController :: "chip_design \<Rightarrow> design_parameter \<Rightarrow> chip_unit result"
  PCIeController :: "chip_design \<Rightarrow> design_parameter \<Rightarrow> chip_unit result"
  NoC :: "chip_design \<Rightarrow> nat \<Rightarrow> design_parameter \<Rightarrow> real option \<Rightarrow> noc_unit result"  \<comment> \<open>a bus with its length\<close>
  init_link_bus :: "real \<Rightarrow> noc_unit \<Rightarrow> noc_unit result"
  noc_energy :: "noc_unit \<Rightarrow> noc_unit result"

section \<open>The chip\<close>

record full_processor = processor +
  core_sum :: tally
  mcs :: tally
  flashcontrollers :: tally
  nius :: tally
  pcies :: tally
  noc :: tally
  cores :: "mcpat_core list"
  nocs :: "noc_unit list"

text \<open>\<open>kind = kind + unit*n; chip = chip + kind\<close>\<close>

definition add_multiple :: "mcpat_env \<Rightarrow> real \<Rightarrow> chip_unit \<Rightarrow> tally \<Rightarrow> tally result" where
  "add_multiple e n u k = bindE (quotient 1 (cu_executionTime u)) (\<lambda>r.
     Inr \<lparr>sum_area = sum_area k + cu_area u * n,
       sum_power = plus_scaled e (sum_power k) (cu_power u) (cu_clockRate u * n) n,
       sum_rt_power = plus_scaled e (sum_rt_power k) (cu_rt_power u) r n\<rparr>)"

definition add_tally :: "mcpat_env \<Rightarrow> tally \<Rightarrow> tally \<Rightarrow> tally" where
  "add_tally e c k = \<lparr>sum_area = sum_area c + sum_area k, sum_power = power_plus e (sum_power c) (sum_power k),
     sum_rt_power = power_plus e (sum_rt_power c) (sum_rt_power k)\<rparr>"

section \<open>Cores\<close>

definition core_unit ::
  "mcpat_env \<Rightarrow> tech \<Rightarrow> core_setup \<Rightarrow> root_system \<Rightarrow> input_parameter \<Rightarrow> nat \<Rightarrow> mcpat_core result" where
  "core_unit e g su sys ip i = bindE (Core e su sys i ip) (\<lambda>k.
     bindE (Power_Core.computeEnergy True e g sys i k) (\<lambda>(_, k).
     bindE (Power_Core.computeEnergy False e g sys i k) (\<lambda>(_, k). Inr k)))"

definition core_figures :: "mcpat_core \<Rightarrow> chip_unit" where
  "core_figures k = \<lparr>cu_area = co_area k, cu_power = co_power k, cu_rt_power = co_rt_power k,
     cu_clockRate = clockRate (coredynp k), cu_executionTime = executionTime (coredynp k)\<rparr>"

definition add_core_unit :: "mcpat_env \<Rightarrow> bool \<Rightarrow> int \<Rightarrow> mcpat_core \<Rightarrow> full_processor \<Rightarrow> full_processor result" where
  "add_core_unit e homo n k p = (let u = core_figures k; p = p\<lparr>cores := cores p @ [k]\<rparr> in
     if homo then bindE (add_multiple e (of_int n) u (core_sum p)) (\<lambda>s.
       Inr (p\<lparr>core_sum := s, chip := add_tally e (chip p) s\<rparr>))
     else bindE (add_multiple e 1 u (core_sum p)) (\<lambda>s. bindE (add_multiple e 1 u (chip p)) (\<lambda>c.
       Inr (p\<lparr>core_sum := s, chip := c\<rparr>))))"

definition add_cores ::
  "mcpat_env \<Rightarrow> tech \<Rightarrow> (nat \<Rightarrow> core_setup) \<Rightarrow> root_system \<Rightarrow> input_parameter \<Rightarrow> bool \<Rightarrow> int \<Rightarrow>
     full_processor \<Rightarrow> full_processor result" where
  "add_cores e g su sys ip homo n = foldE (\<lambda>i p. bindE (core_unit e g (su i) sys ip i)
     (\<lambda>k. add_core_unit e homo n k p)) [0..<turns homo n]"

section \<open>Controllers\<close>

text \<open>\<open>kind.power = unit.power * pppm\<close>, with the coefficients \<open>d\<close> of the peak and \<open>r\<close> of the run.\<close>

definition scaled_unit :: "mcpat_env \<Rightarrow> real \<Rightarrow> real \<Rightarrow> real \<Rightarrow> chip_unit \<Rightarrow> tally \<Rightarrow> tally" where
  "scaled_unit e n d r u k = \<lparr>sum_area = sum_area k + cu_area u * n,
     sum_power = power_times e (cu_power u) [d, n, n, n], sum_rt_power = power_times e (cu_rt_power u) [r, n, n, n]\<rparr>"

definition add_scaled :: "mcpat_env \<Rightarrow> real \<Rightarrow> tally \<Rightarrow> tally \<Rightarrow> tally" where
  "add_scaled e a k c = \<lparr>sum_area = sum_area c + a, sum_power = power_plus e (sum_power c) (sum_power k),
     sum_rt_power = power_plus e (sum_rt_power c) (sum_rt_power k)\<rparr>"

definition add_mc :: "mcpat_env \<Rightarrow> chip_env \<Rightarrow> chip_design \<Rightarrow> design_parameter \<Rightarrow> full_processor \<Rightarrow> full_processor result" where
  "add_mc e ce x ip p = (let n = of_int (mc_number_mcs x) in
     if 0 < mc_number_mcs x \<and> 0 < memory_channels_per_mc x then bindE (MemoryController ce x ip) (\<lambda>u.
       bindE (quotient 1 (cu_executionTime u)) (\<lambda>r. let k = scaled_unit e n (n * cu_clockRate u) r u (mcs p) in
       Inr (p\<lparr>mcs := k, chip := add_scaled e (cu_area u * n) k (chip p)\<rparr>)))
     else Inr p)"

text \<open>Flash controllers enter by their number alone, and by the area of their kind.\<close>

definition add_flash :: "mcpat_env \<Rightarrow> chip_env \<Rightarrow> chip_design \<Rightarrow> design_parameter \<Rightarrow> full_processor \<Rightarrow> full_processor result" where
  "add_flash e ce x ip p = (if 0 < flashc_number_mcs x then bindE (FlashController ce x ip) (\<lambda>(u, n).
       let k = scaled_unit e n n n u (flashcontrollers p) in
       Inr (p\<lparr>flashcontrollers := k, chip := add_scaled e (sum_area k) k (chip p)\<rparr>))
     else Inr p)"

text \<open>The run of network interfaces and PCIe controllers is multiplied by the clock like the peak.\<close>

definition add_niu :: "mcpat_env \<Rightarrow> chip_env \<Rightarrow> chip_design \<Rightarrow> design_parameter \<Rightarrow> full_processor \<Rightarrow> full_processor result" where
  "add_niu e ce x ip p = (let n = of_int (niu_number_units x) in
     if 0 < niu_number_units x then bindE (NIUController ce x ip) (\<lambda>u.
       let d = n * cu_clockRate u; k = scaled_unit e n d d u (nius p) in
       Inr (p\<lparr>nius := k, chip := add_scaled e (cu_area u * n) k (chip p)\<rparr>))
     else Inr p)"

definition add_pcie :: "mcpat_env \<Rightarrow> chip_env \<Rightarrow> chip_design \<Rightarrow> design_parameter \<Rightarrow> full_processor \<Rightarrow> full_processor result" where
  "add_pcie e ce x ip p = (let n = of_int (pcie_number_units x) in
     if 0 < pcie_number_units x \<and> 0 < pcie_num_channels x then bindE (PCIeController ce x ip) (\<lambda>u.
       let d = n * cu_clockRate u; k = scaled_unit e n d d u (pcies p) in
       Inr (p\<lparr>pcies := k, chip := add_scaled e (cu_area u * n) k (chip p)\<rparr>))
     else Inr p)"

section \<open>Networks\<close>

text \<open>The networks first add the areas of the routers, then those of the global links, whose length depends on the
  area so far, and then their powers. \<open>m\<close> is the number of networks of a homogeneous kind.\<close>

definition chip_length :: "chip_design \<Rightarrow> nat \<Rightarrow> full_processor \<Rightarrow> real result" where
  "chip_length x i p = (let a = sum_area (chip p) * chip_coverage x i in
     if 0 \<le> a then Inr (sqrt a) else Inl NotANumber)"

definition add_noc_area :: "bool \<Rightarrow> real \<Rightarrow> real \<Rightarrow> full_processor \<Rightarrow> full_processor" where
  "add_noc_area homo m a p = (if homo
     then let k = sum_area (noc p) + a * m in p\<lparr>noc := (noc p)\<lparr>sum_area := k\<rparr>, chip := (chip p)\<lparr>sum_area := sum_area (chip p) + k\<rparr>\<rparr>
     else p\<lparr>noc := (noc p)\<lparr>sum_area := sum_area (noc p) + a\<rparr>, chip := (chip p)\<lparr>sum_area := sum_area (chip p) + a\<rparr>\<rparr>)"

definition make_noc ::
  "chip_env \<Rightarrow> chip_design \<Rightarrow> design_parameter \<Rightarrow> bool \<Rightarrow> real \<Rightarrow> nat \<Rightarrow> full_processor \<Rightarrow> full_processor result" where
  "make_noc ce x ip homo m i p = bindE (if noc_type x i then Inr None else bindE (chip_length x i p) (\<lambda>l. Inr (Some l)))
     (\<lambda>len. bindE (NoC ce x i ip len) (\<lambda>u.
       Inr (add_noc_area homo m (cu_area u) (p\<lparr>nocs := nocs p @ [u]\<rparr>))))"

definition nth_noc :: "full_processor \<Rightarrow> nat \<Rightarrow> noc_unit result" where
  "nth_noc p i = (if i < length (nocs p) then Inr (nocs p ! i) else Inl OutOfBounds)"

definition link_noc ::
  "chip_env \<Rightarrow> chip_design \<Rightarrow> bool \<Rightarrow> real \<Rightarrow> nat \<Rightarrow> full_processor \<Rightarrow> full_processor result" where
  "link_noc ce x homo m i p = bindE (nth_noc p i) (\<lambda>u.
     if has_global_link u \<and> noc_type x i then
       bindE (chip_length x i p) (\<lambda>len. bindE (init_link_bus ce len u) (\<lambda>v.
       let a = link_bus_area v * total_nodes v * (if homo then m else 1) in
       Inr (p\<lparr>nocs := (nocs p)[i := v], noc := (noc p)\<lparr>sum_area := sum_area (noc p) + a\<rparr>,
         chip := (chip p)\<lparr>sum_area := sum_area (chip p) + a\<rparr>\<rparr>)))
     else Inr p)"

definition power_noc ::
  "mcpat_env \<Rightarrow> chip_env \<Rightarrow> bool \<Rightarrow> real \<Rightarrow> nat \<Rightarrow> full_processor \<Rightarrow> full_processor result" where
  "power_noc e ce homo m i p = bindE (nth_noc p i) (\<lambda>u. bindE (noc_energy ce u) (\<lambda>v.
     bindE (quotient 1 (cu_executionTime v)) (\<lambda>r.
     let n = (if homo then m else 1); k = noc p; c = chip p; f = cu_clockRate v;
         k' = k\<lparr>sum_power := plus_scaled e (sum_power k) (cu_power v) (n * f) n,
           sum_rt_power := plus_scaled e (sum_rt_power k) (cu_rt_power v) r n\<rparr>;
         c' = (if homo then c\<lparr>sum_power := power_plus e (sum_power c) (sum_power k'),
                 sum_rt_power := power_plus e (sum_rt_power c) (sum_rt_power k')\<rparr>
               else c\<lparr>sum_power := plus_scaled e (sum_power c) (cu_power v) f 1,
                 sum_rt_power := plus_scaled e (sum_rt_power c) (cu_rt_power v) r 1\<rparr>)
     in Inr (p\<lparr>nocs := (nocs p)[i := v], noc := k', chip := c'\<rparr>))))"

definition add_networks ::
  "mcpat_env \<Rightarrow> chip_env \<Rightarrow> chip_design \<Rightarrow> design_parameter \<Rightarrow> bool \<Rightarrow> int \<Rightarrow> full_processor \<Rightarrow> full_processor result" where
  "add_networks e ce x ip homo n p = (let m = of_int n; is = [0..<turns homo n] in
     bindE (foldE (make_noc ce x ip homo m) is p) (\<lambda>p. bindE (foldE (link_noc ce x homo m) is p)
     (foldE (power_noc e ce homo m) is)))"

section \<open>The constructor\<close>

definition loop_count :: "bool \<Rightarrow> int \<Rightarrow> int" where
  "loop_count homo n = (if homo then if n = 0 then 0 else 1 else n)"

definition no_units :: full_processor where
  "no_units = (let z = \<lparr>sum_area = 0, sum_power = powerDef_reset, sum_rt_power = powerDef_reset\<rparr> in
     \<lparr>l2 = z, l3 = z, l1dir = z, l2dir = z, chip = z, core_sum = z, mcs = z, flashcontrollers = z, nius = z,
      pcies = z, noc = z, cores = [], nocs = []\<rparr>)"

definition Processor ::
  "mcpat_env \<Rightarrow> chip_env \<Rightarrow> tech \<Rightarrow> (nat \<Rightarrow> core_setup) \<Rightarrow> cache_dyn_param \<Rightarrow> stats_def \<Rightarrow> chip_design \<Rightarrow> design_parameter \<Rightarrow>
     full_processor result" where
  "Processor e ce g su cp junk x ip0 = (let (d, ip) = set_proc_param x ip0; jp = input_parameter.truncate ip;
       sys = root_system.truncate x in
     if Private_L2 x \<and> loop_count (homoCore d) (numCore d) \<noteq> loop_count (homoL2 d) (numL2 d)
     then Inl (LogError ''Number of private L2 does not match number of cores'')
     else bindE (add_cores e g su sys jp (homoCore d) (numCore d) no_units) (\<lambda>p.
       bindE (shared_caches e sys jp cp junk (proc_counts.truncate d) p) (\<lambda>p.
       bindE (add_mc e ce x ip p) (\<lambda>p. bindE (add_flash e ce x ip p) (\<lambda>p.
       bindE (add_niu e ce x ip p) (\<lambda>p. bindE (add_pcie e ce x ip p)
       (add_networks e ce x ip (homoNOC d) (numNOC d))))))))"

end
