(* ===== verification/Power_Processor_Facts.thy ===== *)
theory Power_Processor_Facts
  imports Power_Processor
begin

text \<open>
  The dynamic power of the whole chip: on a description with positive sizes the constructor of
  \<open>src/mcpat/added/processor.cc\<close> ends, and its totals are the shares of the cores, of the shared caches and
  of the controllers.
\<close>

section \<open>Cores\<close>

definition core_clock :: "root_system \<Rightarrow> nat \<Rightarrow> real" where
  "core_clock sys i = of_int (clock_rate (sys_core sys i)) * 10 ^ 6"

definition core_time :: "root_system \<Rightarrow> nat \<Rightarrow> real" where
  "core_time sys i = total_cycles sys / core_clock sys i"

definition core_peak :: "mcpat_core \<Rightarrow> real" where
  "core_peak k = dynamic (readOp (co_power k))"

definition core_run :: "mcpat_core \<Rightarrow> real" where
  "core_run k = dynamic (readOp (co_rt_power k))"

definition sane_cores :: "mcpat_env \<Rightarrow> (nat \<Rightarrow> core_setup) \<Rightarrow> root_system \<Rightarrow> nat \<Rightarrow> bool" where
  "sane_cores e su sys n \<longleftrightarrow> (\<forall>i<n. sane_core e (su i) sys i \<and> int_instructions (sys_core sys i) \<noteq> 0)"

definition timed_core :: "root_system \<Rightarrow> nat \<Rightarrow> mcpat_core \<Rightarrow> bool" where
  "timed_core sys i k \<longleftrightarrow> clockRate (coredynp k) = core_clock sys i \<and> executionTime (coredynp k) = core_time sys i \<and>
     core_clock sys i \<noteq> 0"

lemma core_unit_runs:
  assumes "sane_core e su sys i" "int_instructions (sys_core sys i) \<noteq> 0" "field_ops e"
  shows "\<exists>k. core_unit e g su sys ip i = Inr k \<and> timed_core sys i k"
proof -
  obtain k where k: "Core e su sys i ip = Inr k" "core_built sys i k" "sane_params e sys (sys_core sys i) (coredynp k)"
    using core_constructed[OF assms(1), of ip] by auto
  obtain p where p: "Power_Core.computeEnergy True e g sys i k = Inr ((), p)" "core_built sys i p" "coredynp p = coredynp k"
    using core_runs[OF k(2) assms(3,2), of True g] by blast
  obtain t where "Power_Core.computeEnergy False e g sys i p = Inr ((), t)" "coredynp t = coredynp p"
    using core_runs[OF p(2) assms(3,2), of False g] by blast
  then show ?thesis
    using k p by (auto simp: core_unit_def timed_core_def sane_params_def core_clock_def core_time_def)
qed

text \<open>Cores do not touch the sums of the other kinds.\<close>

definition same_kinds :: "full_processor \<Rightarrow> full_processor \<Rightarrow> bool" where
  "same_kinds p q \<longleftrightarrow> (\<forall>lvl. kind_of lvl q = kind_of lvl p)"

definition gains :: "real \<Rightarrow> real \<Rightarrow> full_processor \<Rightarrow> full_processor \<Rightarrow> bool" where
  "gains d r p q \<longleftrightarrow> peak (chip q) = peak (chip p) + d \<and> runtime (chip q) = runtime (chip p) + r"

lemma gains_trans: "gains d r p q \<Longrightarrow> gains d' r' q s \<Longrightarrow> gains (d + d') (r + r') p s"
  by (simp add: gains_def)

lemma same_kinds_trans: "same_kinds p q \<Longrightarrow> same_kinds q s \<Longrightarrow> same_kinds p s"
  by (simp add: same_kinds_def)

lemma add_multiple_dynamic:
  assumes "field_ops e" "cu_executionTime u \<noteq> 0"
  shows "\<exists>s. add_multiple e n u k = Inr s \<and>
    peak s = peak k + cu_clockRate u * n * dynamic (readOp (cu_power u)) \<and>
    runtime s = runtime k + dynamic (readOp (cu_rt_power u)) / cu_executionTime u"
  using assms by (simp add: add_multiple_def peak_def runtime_def plus_scaled_dynamic)

lemma add_tally_dynamic:
  assumes "field_ops e"
  shows "peak (add_tally e c k) = peak c + peak k" "runtime (add_tally e c k) = runtime c + runtime k"
  using assms by (simp_all add: add_tally_def peak_def runtime_def field_ops_def)

definition core_gains :: "root_system \<Rightarrow> bool \<Rightarrow> int \<Rightarrow> nat \<Rightarrow> (nat \<Rightarrow> mcpat_core) \<Rightarrow> real \<times> real" where
  "core_gains sys homo n m k = ((\<Sum>i<m. (if homo then of_int n else 1) * (core_clock sys i * core_peak (k i))),
     (\<Sum>i<m. core_run (k i) / core_time sys i))"

lemma core_step:
  assumes "field_ops e" "timed_core sys i k" "total_cycles sys \<noteq> 0"
    and "homo \<Longrightarrow> peak (core_sum p) = 0 \<and> runtime (core_sum p) = 0"
  shows "\<exists>q. add_core_unit e homo n k p = Inr q \<and> same_kinds p q \<and> cores q = cores p @ [k] \<and>
    gains ((if homo then of_int n else 1) * (core_clock sys i * core_peak k)) (core_run k / core_time sys i) p q"
proof -
  have t: "executionTime (coredynp k) = core_time sys i" "clockRate (coredynp k) = core_clock sys i"
    "core_time sys i \<noteq> 0"
    using assms(2,3) by (simp_all add: timed_core_def core_time_def)
  have e: "cu_executionTime (core_figures k) \<noteq> 0" using t by (simp add: core_figures_def)
  obtain s c where s: "add_multiple e (if homo then of_int n else 1) (core_figures k) (core_sum p) = Inr s"
    "peak s = peak (core_sum p) + core_clock sys i * (if homo then of_int n else 1) * core_peak k"
    "runtime s = runtime (core_sum p) + core_run k / core_time sys i"
    "add_multiple e 1 (core_figures k) (chip p) = Inr c"
    "peak c = peak (chip p) + core_clock sys i * core_peak k"
    "runtime c = runtime (chip p) + core_run k / core_time sys i"
    using add_multiple_dynamic[OF assms(1) e, of "if homo then of_int n else 1" "core_sum p"]
      add_multiple_dynamic[OF assms(1) e, of 1 "chip p"] t
    by (auto simp: core_figures_def core_peak_def core_run_def)
  show ?thesis
    using s assms(4) add_tally_dynamic[OF assms(1)]
    by (cases homo) (auto simp: add_core_unit_def Let_def same_kinds_def kind_of_def gains_def split: cache_level.split)
qed

lemma core_loop:
  assumes "field_ops e" "total_cycles sys \<noteq> 0" "m \<le> nat n"
    and "\<And>i. i < m \<Longrightarrow> core_unit e g (su i) sys ip i = Inr (k i) \<and> timed_core sys i (k i)"
  shows "\<exists>q. foldE (\<lambda>i p. bindE (core_unit e g (su i) sys ip i) (\<lambda>k. add_core_unit e False n k p)) [0..<m] p = Inr q \<and>
    same_kinds p q \<and> gains (fst (core_gains sys False n m k)) (snd (core_gains sys False n m k)) p q"
  using assms(3,4)
proof (induction m)
  case 0
  then show ?case by (simp add: gains_def core_gains_def same_kinds_def)
next
  case (Suc m)
  then obtain q where "foldE (\<lambda>i p. bindE (core_unit e g (su i) sys ip i) (\<lambda>k. add_core_unit e False n k p)) [0..<m] p = Inr q"
    "same_kinds p q" "gains (fst (core_gains sys False n m k)) (snd (core_gains sys False n m k)) p q"
    by auto
  moreover obtain s where "add_core_unit e False n (k m) q = Inr s" "same_kinds q s"
    "gains (core_clock sys m * core_peak (k m)) (core_run (k m) / core_time sys m) q s"
    using core_step[OF assms(1) _ assms(2), of m "k m" False q n] Suc.prems(2)[of m] by auto
  ultimately show ?case
    using Suc.prems(2)[of m]
    by (auto simp: foldE_append core_gains_def dest: gains_trans same_kinds_trans)
qed

lemma cores_gain:
  assumes "sane_cores e su sys (turns homo n)" "field_ops e" "total_cycles sys \<noteq> 0"
    and "peak (core_sum p) = 0" "runtime (core_sum p) = 0"
  shows "\<exists>k q. (\<forall>i<turns homo n. core_unit e g (su i) sys ip i = Inr (k i)) \<and>
    add_cores e g su sys ip homo n p = Inr q \<and> same_kinds p q \<and>
    gains (fst (core_gains sys homo n (turns homo n) k)) (snd (core_gains sys homo n (turns homo n) k)) p q"
proof -
  have "\<forall>i. \<exists>k. i < turns homo n \<longrightarrow> core_unit e g (su i) sys ip i = Inr k \<and> timed_core sys i k"
    using assms(1) core_unit_runs[OF _ _ assms(2)] unfolding sane_cores_def by meson
  then obtain k where k: "\<And>i. i < turns homo n \<Longrightarrow> core_unit e g (su i) sys ip i = Inr (k i) \<and> timed_core sys i (k i)"
    by metis
  have "\<exists>q. add_cores e g su sys ip homo n p = Inr q \<and> same_kinds p q \<and>
    gains (fst (core_gains sys homo n (turns homo n) k)) (snd (core_gains sys homo n (turns homo n) k)) p q"
  proof (cases homo)
    case False
    then show ?thesis
      using core_loop[OF assms(2,3), of "nat n" n g su ip k p] k by (simp add: add_cores_def turns_def)
  next
    case True
    then show ?thesis
      using core_step[OF assms(2) _ assms(3), of 0 "k 0" True p n] k[of 0] assms(4,5)
      by (cases "n = 0") (auto simp: add_cores_def turns_def gains_def core_gains_def same_kinds_def)
  qed
  then show ?thesis using k by blast
qed

section \<open>Shared caches\<close>

lemma kind_set_other: "lvl' \<noteq> lvl \<Longrightarrow> kind_of lvl' (set_kind lvl k p) = kind_of lvl' p"
  by (cases lvl; cases lvl') (simp_all add: kind_of_def set_kind_def)

lemma kind_chip [simp]: "kind_of lvl (p\<lparr>chip := c\<rparr>) = kind_of lvl p"
  by (cases lvl) (simp_all add: kind_of_def)

lemma add_caches_frame:
  assumes "add_caches e sys ip cp junk homo n lvl p = Inr q" "lvl' \<noteq> lvl"
  shows "kind_of lvl' q = kind_of lvl' p"
  using assms(1) unfolding add_caches_def
proof (rule foldE_invariant[where I = "\<lambda>q. kind_of lvl' q = kind_of lvl' p"])
  show "kind_of lvl' t = kind_of lvl' p"
    if "kind_of lvl' s = kind_of lvl' p" "bindE (cache_unit e sys ip lvl cp junk i)
      (\<lambda>c. if homo then add_homogeneous e n lvl c s else add_heterogeneous e lvl c s) = Inr t" for i s t
    using that assms(2)
    by (auto simp: err_simps add_homogeneous_def add_heterogeneous_def Let_def kind_set_other split: if_splits)
qed simp

definition level_share ::
  "root_system \<Rightarrow> cache_level \<Rightarrow> bool \<Rightarrow> int \<Rightarrow> (nat \<Rightarrow> shared_cache) \<Rightarrow> real \<times> real" where
  "level_share sys lvl homo n s =
     ((\<Sum>i<turns homo n. (if homo then of_int n else 1) * (level_clock sys i lvl * cache_peak (s i))),
      (\<Sum>i<turns homo n. cache_run (s i) / chip_time sys))"

definition share_gain :: "real \<times> real \<Rightarrow> full_processor \<Rightarrow> full_processor \<Rightarrow> bool" where
  "share_gain d p q \<longleftrightarrow> gains (fst d) (snd d) p q"

text \<open>Shares of the peak and of the run are added component by component.\<close>

definition plus_share :: "real \<times> real \<Rightarrow> real \<times> real \<Rightarrow> real \<times> real" where
  "plus_share d d' = (fst d + fst d', snd d + snd d')"

lemma share_trans: "share_gain d p q \<Longrightarrow> share_gain d' q s \<Longrightarrow> share_gain (plus_share d d') p s"
  using gains_trans by (auto simp: share_gain_def plus_share_def)

lemma share_refl [simp]: "share_gain (0, 0) p p"
  by (simp add: share_gain_def gains_def)

lemma level_gain:
  assumes "\<And>i. i < turns homo n \<Longrightarrow> sane_level sys i lvl" "has_data_arrays lvl" "field_ops e" "chip_time sys \<noteq> 0"
    and "peak (kind_of lvl p) = 0" "runtime (kind_of lvl p) = 0"
  shows "\<exists>s q. (\<forall>i<turns homo n. cache_unit e sys ip lvl cp junk i = Inr (s i)) \<and>
    add_caches e sys ip cp junk homo n lvl p = Inr q \<and> share_gain (level_share sys lvl homo n s) p q"
  using level_gains[OF assms, where ip = ip and cp = cp and junk = junk] by (auto simp: chip_gains_def share_gain_def gains_def level_share_def)

definition no_dirs :: "proc_counts \<Rightarrow> bool" where
  "no_dirs d \<longleftrightarrow> turns (homoL1Dir d) (numL1Dir d) = 0 \<and> turns (homoL2Dir d) (numL2Dir d) = 0"

definition caches_share :: "root_system \<Rightarrow> proc_counts \<Rightarrow> (nat \<Rightarrow> shared_cache) \<Rightarrow> (nat \<Rightarrow> shared_cache) \<Rightarrow> real \<times> real" where
  "caches_share sys d s2 s3 = plus_share (if Private_L2 sys then (0, 0) else level_share sys L2 (homoL2 d) (numL2 d) s2)
     (level_share sys L3 (homoL3 d) (numL3 d) s3)"

text \<open>The caches an array model has built for every turn of the loops.\<close>

definition cache_units ::
  "mcpat_env \<Rightarrow> root_system \<Rightarrow> input_parameter \<Rightarrow> cache_dyn_param \<Rightarrow> stats_def \<Rightarrow> proc_counts \<Rightarrow>
     (nat \<Rightarrow> shared_cache) \<Rightarrow> (nat \<Rightarrow> shared_cache) \<Rightarrow> bool" where
  "cache_units e sys ip cp junk d s2 s3 \<longleftrightarrow>
     (Private_L2 sys \<or> (\<forall>i<turns (homoL2 d) (numL2 d). cache_unit e sys ip L2 cp junk i = Inr (s2 i))) \<and>
     (\<forall>i<turns (homoL3 d) (numL3 d). cache_unit e sys ip L3 cp junk i = Inr (s3 i))"

lemma caches_gain:
  assumes l2: "\<not> Private_L2 sys \<Longrightarrow> \<forall>i<turns (homoL2 d) (numL2 d). sane_level sys i L2"
    and l3: "\<forall>i<turns (homoL3 d) (numL3 d). sane_level sys i L3"
    and "no_dirs d" "field_ops e" "chip_time sys \<noteq> 0"
    and "\<And>lvl. peak (kind_of lvl p) = 0 \<and> runtime (kind_of lvl p) = 0"
  shows "\<exists>s2 s3 q. cache_units e sys ip cp junk d s2 s3 \<and> shared_caches e sys ip cp junk d p = Inr q \<and>
    share_gain (caches_share sys d s2 s3) p q"
proof -
  have h: "has_data_arrays L2" "has_data_arrays L3" by (simp_all add: has_data_arrays_def)
  have "\<exists>s2 q. (if \<not> Private_L2 sys then add_caches e sys ip cp junk (homoL2 d) (numL2 d) L2 p else Inr p) = Inr q \<and>
    (Private_L2 sys \<or> (\<forall>i<turns (homoL2 d) (numL2 d). cache_unit e sys ip L2 cp junk i = Inr (s2 i))) \<and>
    share_gain (if Private_L2 sys then (0, 0) else level_share sys L2 (homoL2 d) (numL2 d) s2) p q \<and>
    kind_of L3 q = kind_of L3 p"
  proof (cases "Private_L2 sys")
    case False
    then obtain s q where s: "\<forall>i<turns (homoL2 d) (numL2 d). cache_unit e sys ip L2 cp junk i = Inr (s i)"
      "add_caches e sys ip cp junk (homoL2 d) (numL2 d) L2 p = Inr q"
      "share_gain (level_share sys L2 (homoL2 d) (numL2 d) s) p q"
      using level_gain[of "homoL2 d" "numL2 d" sys L2 e p ip cp junk] l2 h assms(4-6) by auto
    show ?thesis
      using False s add_caches_frame[OF s(2), of L3] by (intro exI[of _ s] exI[of _ q]) simp
  qed simp
  then obtain s2 q where q: "(if \<not> Private_L2 sys then add_caches e sys ip cp junk (homoL2 d) (numL2 d) L2 p else Inr p) = Inr q"
    "Private_L2 sys \<or> (\<forall>i<turns (homoL2 d) (numL2 d). cache_unit e sys ip L2 cp junk i = Inr (s2 i))"
    "share_gain (if Private_L2 sys then (0, 0) else level_share sys L2 (homoL2 d) (numL2 d) s2) p q"
    "kind_of L3 q = kind_of L3 p"
    by blast
  obtain s3 t where t: "\<forall>i<turns (homoL3 d) (numL3 d). cache_unit e sys ip L3 cp junk i = Inr (s3 i)"
    "add_caches e sys ip cp junk (homoL3 d) (numL3 d) L3 q = Inr t" "share_gain (level_share sys L3 (homoL3 d) (numL3 d) s3) q t"
    using level_gain[of "homoL3 d" "numL3 d" sys L3 e q ip cp junk] l3 h assms(4-6) q(4) by auto
  have "shared_caches e sys ip cp junk d p = Inr t"
    unfolding shared_caches_def q(1) using t(2) assms(3) by (simp add: add_caches_def no_dirs_def)
  moreover have "cache_units e sys ip cp junk d s2 s3" using q(2) t(1) by (simp only: cache_units_def simp_thms)
  moreover have "share_gain (caches_share sys d s2 s3) p t"
    unfolding caches_share_def by (rule share_trans[OF q(3) t(3)])
  ultimately show ?thesis by blast
qed

section \<open>Controllers\<close>

record controllers =
  c_mc :: chip_unit
  c_flash :: chip_unit
  c_fcs :: real
  c_niu :: chip_unit
  c_pcie :: chip_unit

definition has_mc :: "chip_design \<Rightarrow> bool" where
  "has_mc x \<longleftrightarrow> 0 < mc_number_mcs x \<and> 0 < memory_channels_per_mc x"

definition has_pcie :: "chip_design \<Rightarrow> bool" where
  "has_pcie x \<longleftrightarrow> 0 < pcie_number_units x \<and> 0 < pcie_num_channels x"

text \<open>The controllers of the chip are built, and the memory controller has run for some time.\<close>

definition built_controllers :: "chip_env \<Rightarrow> chip_design \<Rightarrow> design_parameter \<Rightarrow> controllers \<Rightarrow> bool" where
  "built_controllers ce x ip k \<longleftrightarrow>
     (has_mc x \<longrightarrow> MemoryController ce x ip = Inr (c_mc k) \<and> cu_executionTime (c_mc k) \<noteq> 0) \<and>
     (0 < flashc_number_mcs x \<longrightarrow> FlashController ce x ip = Inr (c_flash k, c_fcs k)) \<and>
     (0 < niu_number_units x \<longrightarrow> NIUController ce x ip = Inr (c_niu k)) \<and>
     (has_pcie x \<longrightarrow> PCIeController ce x ip = Inr (c_pcie k))"

definition unit_peak :: "chip_unit \<Rightarrow> real" where
  "unit_peak u = dynamic (readOp (cu_power u))"

definition unit_run :: "chip_unit \<Rightarrow> real" where
  "unit_run u = dynamic (readOp (cu_rt_power u))"

text \<open>What the controllers add to the peak and to the run. Only the memory controller divides its run by the
  execution time; flash controllers are multiplied by their number, the others by their clock.\<close>

definition mc_share :: "chip_design \<Rightarrow> chip_unit \<Rightarrow> real \<times> real" where
  "mc_share x u = (if has_mc x then (of_int (mc_number_mcs x) * cu_clockRate u * unit_peak u,
     unit_run u / cu_executionTime u) else (0, 0))"

definition flash_share :: "chip_design \<Rightarrow> chip_unit \<Rightarrow> real \<Rightarrow> real \<times> real" where
  "flash_share x u n = (if 0 < flashc_number_mcs x then (n * unit_peak u, n * unit_run u) else (0, 0))"

definition niu_share :: "chip_design \<Rightarrow> chip_unit \<Rightarrow> real \<times> real" where
  "niu_share x u = (let d = of_int (niu_number_units x) * cu_clockRate u in
     if 0 < niu_number_units x then (d * unit_peak u, d * unit_run u) else (0, 0))"

definition pcie_share :: "chip_design \<Rightarrow> chip_unit \<Rightarrow> real \<times> real" where
  "pcie_share x u = (let d = of_int (pcie_number_units x) * cu_clockRate u in
     if has_pcie x then (d * unit_peak u, d * unit_run u) else (0, 0))"

definition controllers_share :: "chip_design \<Rightarrow> controllers \<Rightarrow> real \<times> real" where
  "controllers_share x k = plus_share (plus_share (plus_share (mc_share x (c_mc k)) (flash_share x (c_flash k) (c_fcs k)))
     (niu_share x (c_niu k))) (pcie_share x (c_pcie k))"

lemma scaled_gain:
  assumes "field_ops e"
  shows "peak (add_scaled e a (scaled_unit e n d r u k) c) = peak c + d * unit_peak u"
    "runtime (add_scaled e a (scaled_unit e n d r u k) c) = runtime c + r * unit_run u"
  using assms by (simp_all add: add_scaled_def scaled_unit_def peak_def runtime_def unit_peak_def unit_run_def field_ops_def)

lemma controller_gain:
  assumes "built_controllers ce x ip k" "field_ops e"
  shows "\<exists>q. add_mc e ce x ip p = Inr q \<and> share_gain (mc_share x (c_mc k)) p q"
    "\<exists>q. add_flash e ce x ip p = Inr q \<and> share_gain (flash_share x (c_flash k) (c_fcs k)) p q"
    "\<exists>q. add_niu e ce x ip p = Inr q \<and> share_gain (niu_share x (c_niu k)) p q"
    "\<exists>q. add_pcie e ce x ip p = Inr q \<and> share_gain (pcie_share x (c_pcie k)) p q"
  using assms(1) scaled_gain[OF assms(2)]
  by (simp_all add: built_controllers_def add_mc_def add_flash_def add_niu_def add_pcie_def has_mc_def has_pcie_def
      mc_share_def flash_share_def niu_share_def pcie_share_def share_gain_def gains_def Let_def)

lemma controllers_gain:
  assumes "built_controllers ce x ip k" "field_ops e"
  shows "\<exists>q. bindE (add_mc e ce x ip p) (\<lambda>p. bindE (add_flash e ce x ip p) (\<lambda>p. bindE (add_niu e ce x ip p)
    (add_pcie e ce x ip))) = Inr q \<and> share_gain (controllers_share x k) p q"
proof -
  obtain a b c q where a: "add_mc e ce x ip p = Inr a" "add_flash e ce x ip a = Inr b" "add_niu e ce x ip b = Inr c"
    "add_pcie e ce x ip c = Inr q"
    and g: "share_gain (mc_share x (c_mc k)) p a" "share_gain (flash_share x (c_flash k) (c_fcs k)) a b"
    "share_gain (niu_share x (c_niu k)) b c" "share_gain (pcie_share x (c_pcie k)) c q"
    using controller_gain[OF assms] by metis
  show ?thesis
    using a share_trans[OF share_trans[OF share_trans[OF g(1,2)] g(3)] g(4)]
    by (simp add: controllers_share_def)
qed

section \<open>The chip\<close>

abbreviation chip_sys :: "chip_design \<Rightarrow> root_system" where
  "chip_sys x \<equiv> root_system.truncate x"

abbreviation chip_ip :: "chip_design \<Rightarrow> design_parameter \<Rightarrow> design_parameter" where
  "chip_ip x ip \<equiv> snd (set_proc_param x ip)"

abbreviation cache_counts :: "chip_design \<Rightarrow> proc_counts" where
  "cache_counts x \<equiv> proc_counts.truncate (load_counts_of x)"

definition core_turns :: "chip_design \<Rightarrow> nat" where
  "core_turns x = turns (homogeneous_cores x \<noteq> 0) (number_of_cores x)"

text \<open>Positive sizes everywhere, as many private caches as cores, no directory and no network.\<close>

definition sane_chip :: "mcpat_env \<Rightarrow> (nat \<Rightarrow> core_setup) \<Rightarrow> chip_design \<Rightarrow> bool" where
  "sane_chip e su x \<longleftrightarrow> (let sys = chip_sys x; d = cache_counts x in
     sane_cores e su sys (core_turns x) \<and> chip_time sys \<noteq> 0 \<and>
     (if Private_L2 x
      then loop_count (homogeneous_cores x \<noteq> 0) (number_of_cores x) = loop_count (homoL2 d) (numL2 d)
      else \<forall>i<turns (homoL2 d) (numL2 d). sane_level sys i L2) \<and>
     (\<forall>i<turns (homoL3 d) (numL3 d). sane_level sys i L3) \<and> no_dirs d \<and>
     turns (homogeneous_NoCs x \<noteq> 0) (number_of_NoCs x) = 0)"

lemma no_units_dynamic:
  "peak (chip no_units) = 0" "runtime (chip no_units) = 0" "peak (core_sum no_units) = 0"
  "runtime (core_sum no_units) = 0" "peak (kind_of lvl no_units) = 0" "runtime (kind_of lvl no_units) = 0"
  by (cases lvl; simp add: no_units_def peak_def runtime_def kind_of_def powerDef_reset_def Let_def)+

lemma chip_sys_fields [simp]:
  "Private_L2 (chip_sys x) = Private_L2 x" "total_cycles (chip_sys x) = total_cycles x"
  by (simp_all add: root_system.truncate_def)

lemma load_counts_fields [simp]:
  "homoCore (load_counts_of x) = (homogeneous_cores x \<noteq> 0)" "numCore (load_counts_of x) = number_of_cores x"
  "homoNOC (load_counts_of x) = (homogeneous_NoCs x \<noteq> 0)" "numNOC (load_counts_of x) = number_of_NoCs x"
  "homoL2 (cache_counts x) = (homogeneous_L2s x \<noteq> 0)" "numL2 (cache_counts x) = number_of_L2s x"
  "homoL2 (load_counts_of x) = (homogeneous_L2s x \<noteq> 0)" "numL2 (load_counts_of x) = number_of_L2s x"
  by (simp_all add: load_counts_of_def proc_counts.truncate_def)


section \<open>Example\<close>

definition small_unit :: chip_unit where
  "small_unit = \<lparr>cu_area = 1, cu_power = power3 (flat_power 1 1), cu_rt_power = power3 (flat_power 2 1),
     cu_clockRate = 1000000, cu_executionTime = 1\<rparr>"

definition small_units :: controllers where
  "small_units = \<lparr>c_mc = small_unit, c_flash = small_unit, c_fcs = 1, c_niu = small_unit, c_pcie = small_unit\<rparr>"

definition small_noc :: noc_unit where
  "small_noc = chip_unit.extend small_unit (noc_unit.fields False 0 0)"

definition small_chip_env :: chip_env where
  "small_chip_env = \<lparr>MemoryController = (\<lambda>_ _. Inr small_unit), FlashController = (\<lambda>_ _. Inr (small_unit, 1)),
     NIUController = (\<lambda>_ _. Inr small_unit), PCIeController = (\<lambda>_ _. Inr small_unit),
     NoC = (\<lambda>_ _ _ _. Inr small_noc), init_link_bus = (\<lambda>_. Inr), noc_energy = Inr\<rparr>"

text \<open>Two cores of one kind, a cache of the second level, two of the third, two memory controllers and a network
  interface.\<close>

definition small_chip :: chip_design where
  "small_chip = root_system.extend (small_sys\<lparr>number_of_cores := 2, homogeneous_cores := 1\<rparr>)
     (chip_design.fields 1 2 0 0 0 0 0 0 0 0 90 300 0 0 False 2 1 0 1 0 0 (\<lambda>_. True) (\<lambda>_. 1))"

definition small_design :: design_parameter where
  "small_design = input_parameter.extend small_ip
     (design_parameter.fields 90 0 [] [] 0 0 0 0 False False 0 0 0 0 False 0 0 False)"

lemma small_chip_sane: "sane_chip small_env (\<lambda>_. small_setup) small_chip"
  by (simp add: sane_chip_def sane_cores_def small_chip_def root_system.extend_def chip_design.fields_def
      root_system.truncate_def load_counts_of_def proc_counts.truncate_def no_dirs_def turns_def core_turns_def
      sane_core_def small_sys_def small_env_def small_core_def small_setup_def sane_config_def small_dcache_def
      BTB_sizes_def sane_level_def level_of_def overhead_def small_LX_def has_data_arrays_def chip_time_def Let_def)


end
