(* ===== verification/Spec2Isabelle.thy ===== *)
theory Spec2Isabelle
  imports Magic_Server Cache_Cntlr_Facts Core_Facts Memory_Messages Probability_Analysis Image_Facts
    Power_Units Power_Load_Facts Power_Saving Power_Processor_Facts
begin

text \<open>
  Verification of an extension of the Sniper multicore simulator for approximate computing: programs
  mark addresses as approximate, the simulator injects faults into marked bytes of the caches and the
  DRAM, counts the accesses and operations on them, and an offline search turns the counts into
  settings of the memories and arithmetic units; a power model charges approximate accesses and additions
  at a lower voltage. All C++ parts of the repository are modelled but for the reader of the XML description
  and the circuit models of the power model.

  \<^bold>\<open>Foundations.\<close>
  \<^item> \<open>Sniper_Prelude\<close>: machine integers, the error values an assertion, an abort, a null pointer or an
    access outside an array ends in, the combinators on results, byte buffers, address ranges.
  \<^item> \<open>Sniper_Monad\<close>: operations on a state that can fail; total correctness (\<open>wpS\<close>, rules \<open>wp_simps\<close>),
    what a successful run establishes (\<open>hoareS\<close>), how it relates first and last state (\<open>op_rel\<close>, locale
    \<open>step_order\<close>).

  \<^bold>\<open>Approximation.\<close> From \<open>src/common/system/magic_server.cc\<close>, \<open>magic_client.cc\<close> and
  \<open>src/common/fault_injection\<close>.
  \<^item> \<open>Approx_Adder\<close>: \<open>rapcla\<close> (carry look-ahead with a bounded window) and \<open>appmul\<close>. Shown: the window
    bounds the error and a full window adds modulo \<open>2 ^ 63\<close>; the result depends on undefined shifts;
    the sign of a product is lost.
  \<^item> \<open>Approx_Registry\<close>: the set of approximate addresses with its counters (\<open>add_approx\<close>, \<open>del_approx\<close>,
    \<open>is_approx\<close>, \<open>is_block_approx\<close>, \<open>add_read_acc\<close>, \<open>update_liftime\<close>, \<open>upsav_cnters\<close>, ...). Shown: it refines
    an abstract set (locale \<open>address_set\<close>); every operation keeps the order and the window; what the block
    counters and the lifetimes become.
  \<^item> \<open>Fault_Injection\<close>: the manager, the table of probabilities and the two injectors. Shown: a fault
    changes approximate bytes only (locale \<open>fault_channel\<close>); the mask of a write fault.
  \<^item> \<open>Magic_Server\<close>: the commands of a simulated program. Shown: an invariant of all reachable states;
    range commands that undo each other; when they return at all.

  \<^bold>\<open>Memory.\<close> From \<open>src/common/core/memory_subsystem\<close> and \<open>src/common/core/core.cc\<close>. A load of a core
  (\<open>Core_Access\<close>) is split over the cache blocks, handed to the memory manager (\<open>Memory_Access\<close>), and from there to
  the controller of the first level (\<open>Cache_Cntlr_Core\<close>), which uses its cache (\<open>Cache_Model\<close>, \<open>Cache_Set\<close>) and the
  next levels (\<open>Cache_Cntlr_Requests\<close>, \<open>Cache_Cntlr_Block\<close>) down to the DRAM (\<open>Dram_Cntlr\<close>) or the directory,
  whose messages come back through \<open>Memory_Access\<close> and \<open>Cache_Cntlr_Directory\<close>.
  \<^item> \<open>Cache_Set\<close>, \<open>Cache_Set_LRU2\<close>, \<open>Cache_Model\<close>: a set with its lines, the partitioned replacement policy,
    the cache. A policy is used through the locale \<open>repl_contract\<close>, interpreted for LRU2. Shown: a load
    returns what a store or a fill put there; exact blocks never evict from the approximate part; the ages
    implement a recency list.
  \<^item> \<open>Dram_Cntlr\<close>: blocks, page lifetimes, statistics (locale \<open>block_memory\<close>). Shown: a read returns what was
    written; a block that was never read cannot be written.
  \<^item> \<open>Cache_Cntlr_State\<close>, \<open>_Basic\<close>, \<open>_Stats\<close>, \<open>_Block\<close>, \<open>_Requests\<close>, \<open>_Core\<close>, \<open>_Directory\<close>: \<open>CacheCntlr\<close> and
    \<open>CacheMasterCntlr\<close> of \<open>cache_cntlr.cc\<close>, as operations on a state of objects named by numbers; calls on
    classes outside the repository are recorded. \<open>Cache_View\<close> is what the controllers rely on of a cache.
  \<^item> \<open>Cache_Coherence\<close>: a change of state of a block in a tree of caches returns the freshest data and
    leaves all levels in the new state; requests of the directory are answered.
    \<open>Cache_Locks\<close>: an access of the core takes and releases the locks of the sets in order.
    \<open>Cache_Cntlr_Facts\<close>: outstanding misses, counters, set locks, prefetches.
  \<^item> \<open>Memory_State\<close>, \<open>Memory_Build\<close>, \<open>Memory_Access\<close>: \<open>MemoryManager\<close>. \<open>Memory_Facts\<close> shows that the constructor
    builds and links the hierarchy that \<open>Cache_Coherence\<close> assumes, \<open>Memory_Messages\<close> that a flush request
    from the network is answered on such a hierarchy.
  \<^item> \<open>Core_Access\<close>, \<open>Core_Facts\<close>: \<open>Core\<close>; the pieces of an access tile it, and an access up to the end of the
    address space never ends.

  \<^bold>\<open>Programs around the simulator.\<close>
  \<^item> \<open>Image_Kernels\<close>, \<open>Image_Facts\<close>: the filters of \<open>src/test\<close> and \<open>src/data_significance\<close> in their build
    variants. Shown: both suites compute the same images; the Sobel kernel of \<open>src/test\<close> reads outside
    its image, the other one computes the gradient.
  \<^item> \<open>Probability_Analysis\<close>: \<open>src/probability_analysis/run.cpp\<close>. Shown: what the tables hold after reading;
    the search equals a filter over all settings; its pruning loses nothing, and under which condition.

  \<^bold>\<open>Power.\<close> From \<open>src/mcpat/added\<close>. The simulator writes its counts to an XML description
  (\<open>root_system\<close>); McPAT builds an object per unit of the chip from it, and \<open>computeEnergy\<close> of the unit
  fills in the energy, for the peak (\<open>is_tdp\<close>) and for the run.
  \<^item> \<open>Power_State\<close>: powers, counts, parameters and results of an array, the description, and the
    environment \<open>mcpat_env\<close> of what is defined outside the repository (\<open>ArrayST\<close>, \<open>init_interface\<close>, the
    operators on powers). Doubles are reals; a division by zero and a cast out of range are the error
    \<open>NotANumber\<close>. The properties assume of the operators that they work field by field (\<open>dynamic_ops\<close>,
    \<open>field_ops\<close>). The locale \<open>two_voltages\<close> says what two data arrays at two voltages save.
  \<^item> \<open>Power_Shared_Cache\<close> (\<open>SharedCache\<close> of \<open>sharedcache.cc\<close>), \<open>Power_Load_Store\<close> (\<open>LoadStoreU\<close> of
    \<open>core.cc\<close>): constructor and \<open>computeEnergy\<close>. \<open>Power_Cache_Facts\<close> and \<open>Power_Load_Facts\<close> interpret
    the locale and show that the energy is that of the formula for one array less what is saved, that the two
    arrays differ in their voltages only, and that all other arrays are built at the nominal voltages.
  \<^item> \<open>Power_Units\<close> (\<open>FunctionalUnit\<close> of \<open>logic.cc\<close>): approximate additions reduce the energy in
    proportion to their share, also where they should not; what a change of temperature does to the leakage.
  \<^item> \<open>Power_Parts\<close>, \<open>Power_Logic\<close>: what the units of a core share (parameters of an array, counts, energies,
    sums), and the parts that are not arrays (selection logic, dependency check, pipeline registers, decoders,
    undifferentiated logic, from \<open>logic.cc\<close>).
  \<^item> \<open>Power_Branch\<close>, \<open>Power_Fetch\<close>, \<open>Power_Translation\<close>, \<open>Power_Registers\<close>, \<open>Power_Schedule\<close>, \<open>Power_Rename\<close>,
    \<open>Power_Execute\<close>: constructor and \<open>computeEnergy\<close> of \<open>BranchPredictor\<close>, \<open>InstFetchU\<close>, \<open>MemManU\<close>, \<open>RegFU\<close>,
    \<open>SchedulerU\<close>, \<open>RENAMINGU\<close> and \<open>EXECU\<close> of \<open>core.cc\<close>. Each has a predicate \<open>built\<close> for the pointers a pass
    dereferences: the constructor establishes it (\<open>..._built\<close>) and both passes end, keep it and leave the other
    total alone (\<open>..._energy_runs\<close>). A table of the predictor and the leakage of the register files are lost.
  \<^item> \<open>Power_Core\<close> (\<open>Core\<close> of \<open>core.cc\<close>): the parameters, the constructor and the sum over the units with their shares of
    the pipeline. \<open>Power_Core_Facts\<close>: a description with positive sizes (\<open>sane_core\<close>) gives a core on which both
    passes end. \<open>Power_Saving\<close>: what the approximation saves of the run-time energy of a core, unit by unit.
  \<^item> \<open>Power_Chip\<close>, \<open>Power_Processor\<close> (\<open>Processor\<close> of \<open>processor.cc\<close>): the caches and directories in the sum of the
    chip, and the whole constructor with its parameters, cores, controllers and networks; the last two are classes
    outside the repository and enter by their results (\<open>chip_env\<close>). \<open>Power_Processor_Facts\<close>: on a chip with positive
    sizes (\<open>sane_chip\<close>, which excludes directories and networks) the constructor ends, and the dynamic power of the
    chip is the sum of the shares of its parts.

  \<^bold>\<open>Fuel.\<close> The recursions of the controllers along the hierarchy take a depth, \<open>e_depth\<close>; the theorems
  assume that it exceeds the depth of the tree, and then show that the operations return. The loop that
  wakes waiting threads takes a number of turns, as the threads may queue again. \<open>cleanupMshr\<close> gets one turn
  more than there are entries, enough when every miss completes before \<open>MaxTime\<close>
  (\<open>cleanupMshr_keeps_latest\<close>). The loop over the blocks of an access gets \<open>line_fuel\<close> turns, enough unless
  the access reaches the last block (\<open>access_split_exact\<close>). The placement of directories gets as many turns as
  there are cores (\<open>place_loop_multiples\<close>). The loop over a range of addresses that may not end
  is a partial function (\<open>u32_loop\<close>).

  \<^bold>\<open>Left out.\<close> Of \<open>src/mcpat\<close> the printing of results, the reader of the XML file and CACTI, which are vendored with changed constants; the Python and shell
  scripts; \<open>cache_set_random.h\<close>, whose implementation is not in the repository. Classes of Sniper that are not in the repository are parameters or recorded calls.
  Messages on the terminal are left out.
\<close>

end
